(* ===== verification/Prelude.thy ===== *)
theory Prelude
  imports Complex_Main "HOL-Library.AList" "HOL-Library.Word" "HOL-Library.Sublist"
begin

text \<open>
  Shared vocabulary of the development: JavaScript values and their truthiness, the
  insertion-ordered \<open>Map\<close> and \<open>Set\<close> of the language (association lists and lists without
  repetition), array searches, and the invariant rule for event-driven components.

  A JavaScript \<open>Map\<close> iterates in insertion order and keeps an entry's place when its value is
  overwritten; the association-list operations \<open>AList.update\<close> and \<open>AList.delete\<close> do the same.
\<close>

section \<open>Collections of rewrite rules\<close>

named_theorems js_simps \<open>behaviour of the JavaScript containers on the model's representation\<close>
named_theorems frame_simps \<open>fields an operation leaves alone\<close>

section \<open>JavaScript values\<close>

text \<open>Finite doubles are rationals; the three special numbers are kept apart because
  \<open>Number.isFinite\<close> and truthiness look at them.\<close>

datatype jsnum = Fin rat | NaN | PosInf | NegInf

type_synonym byte = "8 word"
type_synonym bytes = "byte list"

text \<open>\<open>JTyped\<close> is a typed array, \<open>JBuffer\<close> an \<open>ArrayBuffer\<close>.\<close>

datatype jsval =
    JUndef
  | JNull
  | JBool bool
  | JNum jsnum
  | JBig int
  | JStr string
  | JDate rat
  | JTyped bytes
  | JBuffer bytes
  | JRegExp string
  | JError string string
  | JFun nat
  | JSymbol nat
  | JMap "(jsval \<times> jsval) list"
  | JSet "jsval list"
  | JArr "jsval list"
  | JObj "(string \<times> jsval) list"

text \<open>A part of a value is smaller than the value.\<close>

lemma mem_enumerate: "(i, x) \<in> set (enumerate 0 xs) \<longleftrightarrow> i < length xs \<and> x = xs ! i"
  by (auto simp: in_set_enumerate_eq)

lemma size_list_member: "x \<in> set xs \<Longrightarrow> f x \<le> size_list f xs"
  by (induction xs) auto

lemma size_jsval_children:
  "(k, x) \<in> set es \<Longrightarrow> size k < size (JMap es)"
  "(k, x) \<in> set es \<Longrightarrow> size x < size (JMap es)"
  "(i, x) \<in> set (enumerate 0 xs) \<Longrightarrow> size x < size (JSet xs)"
  "(i, x) \<in> set (enumerate 0 xs) \<Longrightarrow> size x < size (JArr xs)"
  "(s, x) \<in> set kvs \<Longrightarrow> size x < size (JObj kvs)"
  using size_list_member [of "(k, x)" es "size_prod size size"] size_list_member [of x xs size]
    size_list_member [of "(s, x)" kvs "size_prod (\<lambda>_. 0) size"]
  by (auto simp: mem_enumerate less_Suc_eq_le)

text \<open>\<open>ToBoolean\<close>: undefined, null, false, the zeros, NaN and the empty string are falsy.\<close>

fun truthy :: "jsval \<Rightarrow> bool" where
  "truthy JUndef = False"
| "truthy JNull = False"
| "truthy (JBool b) = b"
| "truthy (JNum (Fin q)) = (q \<noteq> 0)"
| "truthy (JNum NaN) = False"
| "truthy (JBig i) = (i \<noteq> 0)"
| "truthy (JStr s) = (s \<noteq> [])"
| "truthy _ = True"

text \<open>The operator \<open>a || b\<close>.\<close>

definition js_or :: "jsval \<Rightarrow> jsval \<Rightarrow> jsval" where
  "js_or a b = (if truthy a then a else b)"

lemma js_or_truthy [simp]: "truthy a \<Longrightarrow> js_or a b = a"
  by (simp add: js_or_def)

lemma js_or_falsy [simp]: "\<not> truthy a \<Longrightarrow> js_or a b = b"
  by (simp add: js_or_def)

text \<open>\<open>BigInt(n)\<close> of a finite double: a \<open>RangeError\<close> (\<open>None\<close>) unless \<open>n\<close> is an integer.\<close>

definition to_bigint :: "rat \<Rightarrow> int option" where
  "to_bigint q = (if of_int \<lfloor>q\<rfloor> = q then Some \<lfloor>q\<rfloor> else None)"

lemma to_bigint_of_int [simp]: "to_bigint (of_int i) = Some i"
  by (simp add: to_bigint_def)

lemma to_bigint_Some: "to_bigint q = Some i \<longleftrightarrow> q = of_int i"
  by (auto simp: to_bigint_def)

text \<open>Decimal text of an integer, as template strings render it.\<close>

fun nat_str :: "nat \<Rightarrow> string" where
  "nat_str n =
     (if n < 10 then [char_of (48 + n)] else nat_str (n div 10) @ [char_of (48 + n mod 10)])"

declare nat_str.simps [simp del]

definition int_str :: "int \<Rightarrow> string" where
  "int_str i = (if i < 0 then CHR ''-'' # nat_str (nat (- i)) else nat_str (nat i))"

text \<open>Reading a property: null and undefined have none, other non-objects none of those looked
  up by the modelled code.\<close>

fun obj_get :: "jsval \<Rightarrow> string \<Rightarrow> jsval" where
  "obj_get (JObj kvs) k = (case map_of kvs k of Some v \<Rightarrow> v | None \<Rightarrow> JUndef)"
| "obj_get _ k = JUndef"

definition nullish :: "jsval \<Rightarrow> bool" where
  "nullish v = (v = JUndef \<or> v = JNull)"

section \<open>Maps in insertion order\<close>

abbreviation jm_get :: "('k \<times> 'v) list \<Rightarrow> 'k \<Rightarrow> 'v option" where
  "jm_get m k \<equiv> map_of m k"

abbreviation jm_set :: "'k \<Rightarrow> 'v \<Rightarrow> ('k \<times> 'v) list \<Rightarrow> ('k \<times> 'v) list" where
  "jm_set \<equiv> AList.update"

abbreviation jm_del :: "'k \<Rightarrow> ('k \<times> 'v) list \<Rightarrow> ('k \<times> 'v) list" where
  "jm_del \<equiv> AList.delete"

definition jm_has :: "('k \<times> 'v) list \<Rightarrow> 'k \<Rightarrow> bool" where
  "jm_has m k = (map_of m k \<noteq> None)"

definition jm_wf :: "('k \<times> 'v) list \<Rightarrow> bool" where
  "jm_wf m = distinct (map fst m)"

lemma jm_wf_Nil [simp, js_simps]: "jm_wf []"
  by (simp add: jm_wf_def)

lemma jm_wf_set [simp, intro, js_simps]: "jm_wf m \<Longrightarrow> jm_wf (jm_set k v m)"
  by (simp add: jm_wf_def distinct_update)

lemma jm_wf_del [simp, intro, js_simps]: "jm_wf m \<Longrightarrow> jm_wf (jm_del k m)"
  by (simp add: jm_wf_def distinct_delete)

lemma jm_get_set [simp, js_simps]: "jm_get (jm_set k v m) k' = (if k' = k then Some v else jm_get m k')"
  by (simp add: update_conv')

lemma jm_get_del [simp, js_simps]: "jm_get (jm_del k m) k' = (if k' = k then None else jm_get m k')"
  by (simp add: delete_conv')

lemma jm_keys_set [simp, js_simps]: "fst ` set (jm_set k v m) = insert k (fst ` set m)"
  by (induction m) auto

lemma jm_keys_del [simp, js_simps]: "fst ` set (jm_del k m) = fst ` set m - {k}"
  by (auto simp: AList.delete_eq)

lemma jm_has_iff: "jm_has m k \<longleftrightarrow> k \<in> fst ` set m"
  by (force simp: jm_has_def map_of_eq_None_iff)

lemma jm_set_new: "k \<notin> fst ` set m \<Longrightarrow> jm_set k v m = m @ [(k, v)]"
  by (induction m) auto

section \<open>Sets in insertion order\<close>

definition js_add :: "'a \<Rightarrow> 'a list \<Rightarrow> 'a list" where
  "js_add x xs = (if x \<in> set xs then xs else xs @ [x])"

definition js_remove :: "'a \<Rightarrow> 'a list \<Rightarrow> 'a list" where
  "js_remove x xs = filter (\<lambda>y. y \<noteq> x) xs"

lemma set_js_add [simp, js_simps]: "set (js_add x xs) = insert x (set xs)"
  by (auto simp: js_add_def)

lemma distinct_js_add [simp, js_simps]: "distinct (js_add x xs) = distinct xs"
  by (simp add: js_add_def)

lemma set_js_remove [simp, js_simps]: "set (js_remove x xs) = set xs - {x}"
  by (auto simp: js_remove_def)

lemma distinct_js_remove [simp, js_simps]: "distinct xs \<Longrightarrow> distinct (js_remove x xs)"
  by (simp add: js_remove_def)

lemma js_remove_idem [simp]: "x \<notin> set xs \<Longrightarrow> js_remove x xs = xs"
  by (auto simp: js_remove_def filter_id_conv)

section \<open>Array searches\<close>

text \<open>\<open>xs.findIndex(p)\<close>, with \<open>None\<close> for the result \<open>-1\<close>.\<close>

fun find_index :: "('a \<Rightarrow> bool) \<Rightarrow> 'a list \<Rightarrow> nat option" where
  "find_index p [] = None"
| "find_index p (x # xs) = (if p x then Some 0 else map_option Suc (find_index p xs))"

lemma find_index_None: "find_index p xs = None \<longleftrightarrow> (\<forall>x\<in>set xs. \<not> p x)"
  by (induction xs) auto

lemma find_index_SomeD:
  "find_index p xs = Some i \<Longrightarrow>
     i < length xs \<and> p (xs ! i) \<and> (\<forall>x\<in>set (take i xs). \<not> p x)"
  by (induction xs arbitrary: i) (auto split: if_splits)

text \<open>\<open>xs.splice(i, 1)\<close> and \<open>xs.splice(i, 0, y)\<close> on the array that stays.\<close>

definition splice_out :: "nat \<Rightarrow> 'a list \<Rightarrow> 'a list" where
  "splice_out i xs = take i xs @ drop (Suc i) xs"

definition splice_in :: "nat \<Rightarrow> 'a \<Rightarrow> 'a list \<Rightarrow> 'a list" where
  "splice_in i y xs = take i xs @ y # drop i xs"

section \<open>Components driven by events\<close>

text \<open>
  A component is a state and a handler per event. The locale collects what every such
  component's proof needs: an invariant each handler keeps holds after any sequence of events.
\<close>

locale machine =
  fixes step :: "'e \<Rightarrow> 's \<Rightarrow> 's"
    and inv :: "'s \<Rightarrow> bool"
  assumes step_inv: "inv s \<Longrightarrow> inv (step e s)"
begin

lemma run_inv: "inv s \<Longrightarrow> inv (fold step es s)"
  by (induction es arbitrary: s) (auto intro: step_inv)

lemma run_prefix_inv: "inv s \<Longrightarrow> prefix ds es \<Longrightarrow> inv (fold step ds s)"
  by (rule run_inv)

end

section \<open>Code that may throw\<close>

text \<open>Going on with the value of a call that may throw, and \<open>xs.map(f)\<close> for such an \<open>f\<close>.\<close>

definition andThen :: "'e + 'a \<Rightarrow> ('a \<Rightarrow> 'e + 'b) \<Rightarrow> 'e + 'b" where
  "andThen r f = (case r of Inl e \<Rightarrow> Inl e | Inr x \<Rightarrow> f x)"

lemma andThen_simps [simp]: "andThen (Inl e) f = Inl e" "andThen (Inr x) f = f x"
  by (simp_all add: andThen_def)

lemma andThen_Inr: "andThen r f = Inr y \<longleftrightarrow> (\<exists>x. r = Inr x \<and> f x = Inr y)"
  by (cases r) auto

lemma andThen_cong [fundef_cong]:
  "r = r' \<Longrightarrow> (\<And>x. r' = Inr x \<Longrightarrow> f x = g x) \<Longrightarrow> andThen r f = andThen r' g"
  by (cases r') auto

fun map_throw :: "('a \<Rightarrow> 'e + 'b) \<Rightarrow> 'a list \<Rightarrow> 'e + 'b list" where
  "map_throw f [] = Inr []"
| "map_throw f (x # xs) = andThen (f x) (\<lambda>y. andThen (map_throw f xs) (\<lambda>ys. Inr (y # ys)))"

lemma map_throw_Inr: "map_throw f xs = Inr ys \<longleftrightarrow> list_all2 (\<lambda>x y. f x = Inr y) xs ys"
  by (induction xs arbitrary: ys) (auto simp: andThen_Inr list_all2_Cons1)

lemma map_throw_roundtrip:
  "map_throw f xs = Inr ys \<Longrightarrow> (\<And>x y. x \<in> set xs \<Longrightarrow> f x = Inr y \<Longrightarrow> g y = Inr (h x)) \<Longrightarrow>
     map_throw g ys = Inr (map h xs)"
  by (induction xs arbitrary: ys) (auto simp: andThen_Inr)

lemma map_throw_total: "(\<And>x. x \<in> set xs \<Longrightarrow> \<exists>y. f x = Inr y) \<Longrightarrow> \<exists>ys. map_throw f xs = Inr ys"
proof (induction xs)
  case Nil
  then show ?case by simp
next
  case (Cons a xs)
  then show ?case using Cons.prems [of a] by (auto simp: andThen_Inr)
qed

lemma map_throw_InrD: "map_throw f xs = Inr ys \<Longrightarrow> x \<in> set xs \<Longrightarrow> \<exists>y. f x = Inr y"
  by (induction xs arbitrary: ys) (auto simp: andThen_Inr)

section \<open>Serializations that can be read back\<close>

text \<open>
  What the code relies on wherever a value is stored or addressed by its serialization: it can be
  read back, so two values share a serialization only when they are equal.  \<open>ok\<close> is the domain on
  which this holds.
\<close>

locale readback =
  fixes ser :: "'k \<Rightarrow> 's"
    and des :: "'s \<Rightarrow> 'k"
    and ok :: "'k \<Rightarrow> bool"
  assumes des_ser: "ok k \<Longrightarrow> des (ser k) = k"
begin

lemma ser_inject: "ok k \<Longrightarrow> ok k' \<Longrightarrow> ser k = ser k' \<longleftrightarrow> k = k'"
  by (metis des_ser)

text \<open>A table indexed by serialized keys is a table indexed by keys.\<close>

lemma table_by_key:
  "ok k \<Longrightarrow> ok k' \<Longrightarrow>
     jm_get (jm_set (ser k) v m) (ser k') = (if k' = k then Some v else jm_get m (ser k'))"
  by (simp add: ser_inject)

end

end
