(* ===== verification/ActorErrors.thy ===== *)
theory ActorErrors
  imports Prelude
begin

text \<open>
  The error classes of \<open>actor/errors.ts\<close> and \<open>deconstructError\<close> of \<open>common/utils.ts\<close>, the
  function every transport uses to turn a thrown value into the response a client may see.

  \<open>actor_error\<close> is an instance of \<open>ActorError\<close>; \<open>js_err\<close> is whatever a \<open>throw\<close> may carry: an
  \<open>ActorError\<close>, an already deconstructed error, another \<open>Error\<close>, or any other value.
  A thrown plain object that carries the marker
  \<open>__type: "ActorError"\<close> is the deconstructed form, so \<open>EVal\<close> stands for the values without it.
  \<open>String(v)\<close> may call user code and is a parameter.  Text interpolated into a message is passed
  as the string it renders to.
\<close>

section \<open>ActorError\<close>

record actor_error =
  ae_code :: string
  ae_message :: string
  ae_public :: bool
  ae_metadata :: jsval
  ae_statusCode :: nat

record error_opts =
  eo_public :: "bool option"
  eo_metadata :: jsval

definition no_opts :: error_opts where
  "no_opts = \<lparr>eo_public = None, eo_metadata = JUndef\<rparr>"

definition public_opts :: error_opts where
  "public_opts = \<lparr>eo_public = Some True, eo_metadata = JUndef\<rparr>"

definition ActorError :: "string \<Rightarrow> string \<Rightarrow> error_opts \<Rightarrow> actor_error" where
  "ActorError code message opts =
     \<lparr>ae_code = code, ae_message = message,
      ae_public = (case eo_public opts of None \<Rightarrow> False | Some b \<Rightarrow> b),
      ae_metadata = eo_metadata opts,
      ae_statusCode = (if eo_public opts = Some True then 400 else 500)\<rparr>"

definition INTERNAL_ERROR_CODE :: string where
  "INTERNAL_ERROR_CODE = ''internal_error''"

definition INTERNAL_ERROR_DESCRIPTION :: string where
  "INTERNAL_ERROR_DESCRIPTION = ''Internal error. Read the server logs for more details.''"

definition USER_ERROR_CODE :: string where
  "USER_ERROR_CODE = ''user_error''"

section \<open>The error classes\<close>

abbreviation quoted :: "string \<Rightarrow> string" where
  "quoted s \<equiv> CHR 0x27 # s @ [CHR 0x27]"

abbreviation ticked :: "string \<Rightarrow> string" where
  "ticked s \<equiv> CHR 0x60 # s @ [CHR 0x60]"

definition InternalError :: "string \<Rightarrow> actor_error" where
  "InternalError message = ActorError INTERNAL_ERROR_CODE message no_opts"

definition Unreachable :: "string \<Rightarrow> actor_error" where
  "Unreachable x = InternalError (''Unreachable case: '' @ x)"

definition StateNotEnabled :: actor_error where
  "StateNotEnabled = ActorError ''state_not_enabled''
     (''State not enabled. Must implement '' @ ticked ''createState'' @ '' or '' @ ticked ''state'' @
      '' to use state. (https://www.rivet.gg/docs/actors/state/#initializing-state)'') no_opts"

definition ConnStateNotEnabled :: actor_error where
  "ConnStateNotEnabled = ActorError ''conn_state_not_enabled''
     (''Connection state not enabled. Must implement '' @ ticked ''createConnectionState'' @ '' or '' @
      ticked ''connectionState'' @
      '' to use connection state. (https://www.rivet.gg/docs/actors/connections/#connection-state)'')
     no_opts"

definition VarsNotEnabled :: actor_error where
  "VarsNotEnabled = ActorError ''vars_not_enabled''
     (''Variables not enabled. Must implement '' @ ticked ''createVars'' @ '' or '' @ ticked ''vars'' @
      '' to use state. (https://www.rivet.gg/docs/actors/ephemeral-variables/#initializing-variables)'')
     no_opts"

definition ActionTimedOut :: actor_error where
  "ActionTimedOut = ActorError ''action_timed_out''
     (''Action timed out. This can be increased with: '' @
      ticked ''actor({ options: { action: { timeout: ... } } })'') public_opts"

definition ActionNotFound :: "string \<Rightarrow> actor_error" where
  "ActionNotFound name = ActorError ''action_not_found''
     (''Action '' @ quoted name @ '' not found. Validate the action exists on your actor.'') public_opts"

definition InvalidEncoding :: "string \<Rightarrow> actor_error" where
  "InvalidEncoding fmt = ActorError ''invalid_encoding''
     (''Invalid encoding '' @ ticked fmt @
      ''. (https://www.rivet.gg/docs/actors/clients/#actor-client)'') public_opts"

definition ConnNotFound :: "string \<Rightarrow> actor_error" where
  "ConnNotFound i = ActorError ''conn_not_found'' (''Connection not found for ID: '' @ i) public_opts"

definition IncorrectConnToken :: actor_error where
  "IncorrectConnToken = ActorError ''incorrect_conn_token'' ''Incorrect connection token.'' public_opts"

definition MessageTooLong :: actor_error where
  "MessageTooLong = ActorError ''message_too_long''
     (''Message too long. This can be configured with: '' @
      ticked ''registry.runServer({ maxIncomingMessageSize: ... })'') public_opts"

definition MalformedMessage :: "string \<Rightarrow> actor_error" where
  "MalformedMessage cause = ActorError ''malformed_message'' (''Malformed message: '' @ cause) public_opts"

definition InvalidStateType :: "string option \<Rightarrow> actor_error" where
  "InvalidStateType path = ActorError ''invalid_state_type''
     ((case path of
         Some (c # p) \<Rightarrow> ''Attempted to set invalid state at path '' @ ticked (c # p) @ ''.''
       | _ \<Rightarrow> ''Attempted to set invalid state.'') @
      '' Valid types include: null, undefined, boolean, string, number, BigInt, Date, RegExp, Error, typed arrays (Uint8Array, Int8Array, Float32Array, etc.), Map, Set, Array, and plain objects. (https://www.rivet.gg/docs/actors/state/#limitations)'')
     no_opts"

definition Unsupported :: "string \<Rightarrow> actor_error" where
  "Unsupported feature = ActorError ''unsupported'' (''Unsupported feature: '' @ feature) no_opts"

definition UserError :: "string \<Rightarrow> string option \<Rightarrow> jsval \<Rightarrow> actor_error" where
  "UserError message code metadata =
     ActorError (case code of None \<Rightarrow> USER_ERROR_CODE | Some c \<Rightarrow> c) message
       \<lparr>eo_public = Some True, eo_metadata = metadata\<rparr>"

definition InvalidQueryJSON :: "string \<Rightarrow> actor_error" where
  "InvalidQueryJSON e = ActorError ''invalid_query_json'' (''Invalid query JSON: '' @ e) public_opts"

definition InvalidRequest :: "string \<Rightarrow> actor_error" where
  "InvalidRequest e = ActorError ''invalid_request'' (''Invalid request: '' @ e) public_opts"

definition ActorNotFound :: "string option \<Rightarrow> actor_error" where
  "ActorNotFound identifier = ActorError ''actor_not_found''
     (case identifier of
        Some (c # i) \<Rightarrow> ''Actor not found: '' @ (c # i) @ '' (https://www.rivet.gg/docs/actors/clients/#actor-client)''
      | _ \<Rightarrow> ''Actor not found (https://www.rivet.gg/docs/actors/clients/#actor-client)'')
     public_opts"

definition ActorAlreadyExists :: "string \<Rightarrow> string \<Rightarrow> actor_error" where
  "ActorAlreadyExists name keyJson = ActorError ''actor_already_exists''
     (''Actor already exists with name '' @ quoted name @ '' and key '' @ quoted keyJson @
      '' (https://www.rivet.gg/docs/actors/clients/#actor-client)'') public_opts"

definition ProxyError :: "string \<Rightarrow> string \<Rightarrow> actor_error" where
  "ProxyError operation e = ActorError ''proxy_error''
     (''Error proxying '' @ operation @ '', this is likely an internal error: '' @ e) public_opts"

definition InvalidActionRequest :: "string \<Rightarrow> actor_error" where
  "InvalidActionRequest message = ActorError ''invalid_action_request'' message public_opts"

definition InvalidParams :: "string \<Rightarrow> actor_error" where
  "InvalidParams message = ActorError ''invalid_params'' message public_opts"

definition Unauthorized :: "string option \<Rightarrow> actor_error" where
  "Unauthorized message =
     (ActorError ''unauthorized''
       (case message of None \<Rightarrow>
           ''Unauthorized. Access denied. (https://www.rivet.gg/docs/actors/authentication/)''
         | Some m \<Rightarrow> m) public_opts) \<lparr>ae_statusCode := 401\<rparr>"

definition Forbidden :: "string option \<Rightarrow> jsval \<Rightarrow> actor_error" where
  "Forbidden message metadata =
     (ActorError ''forbidden''
       (case message of None \<Rightarrow>
           ''Forbidden. Access denied. (https://www.rivet.gg/docs/actors/authentication/)''
         | Some m \<Rightarrow> m) \<lparr>eo_public = Some True, eo_metadata = metadata\<rparr>) \<lparr>ae_statusCode := 403\<rparr>"

definition DatabaseNotEnabled :: actor_error where
  "DatabaseNotEnabled = ActorError ''database_not_enabled''
     (''Database not enabled. Must implement '' @ ticked ''database'' @ '' to use database.'') no_opts"

definition FetchHandlerNotDefined :: actor_error where
  "FetchHandlerNotDefined =
     (ActorError ''fetch_handler_not_defined''
       (''Raw HTTP handler not defined. Actor must implement '' @ ticked ''onFetch'' @
        '' to handle raw HTTP requests. (https://www.rivet.gg/docs/actors/fetch-and-websocket-handler/)'')
       public_opts) \<lparr>ae_statusCode := 404\<rparr>"

definition WebSocketHandlerNotDefined :: actor_error where
  "WebSocketHandlerNotDefined =
     (ActorError ''websocket_handler_not_defined''
       (''Raw WebSocket handler not defined. Actor must implement '' @ ticked ''onWebSocket'' @
        '' to handle raw WebSocket connections. (https://www.rivet.gg/docs/actors/fetch-and-websocket-handler/)'')
       public_opts) \<lparr>ae_statusCode := 404\<rparr>"

definition InvalidFetchResponse :: actor_error where
  "InvalidFetchResponse =
     (ActorError ''invalid_fetch_response''
       (''Actor'' @ [CHR 0x27] @ ''s onFetch handler must return a Response object. Returning void/undefined is not allowed. (https://www.rivet.gg/docs/actors/fetch-and-websocket-handler/)'')
       public_opts) \<lparr>ae_statusCode := 500\<rparr>"

lemmas error_class_defs =
  ActorError_def no_opts_def public_opts_def InternalError_def Unreachable_def StateNotEnabled_def
  ConnStateNotEnabled_def VarsNotEnabled_def ActionTimedOut_def ActionNotFound_def InvalidEncoding_def
  ConnNotFound_def IncorrectConnToken_def MessageTooLong_def MalformedMessage_def InvalidStateType_def
  Unsupported_def UserError_def InvalidQueryJSON_def InvalidRequest_def ActorNotFound_def
  ActorAlreadyExists_def ProxyError_def InvalidActionRequest_def InvalidParams_def Unauthorized_def
  Forbidden_def DatabaseNotEnabled_def FetchHandlerNotDefined_def WebSocketHandlerNotDefined_def
  InvalidFetchResponse_def

section \<open>Thrown values and deconstructError\<close>

record deconstructed =
  de_statusCode :: nat
  de_public :: bool
  de_code :: string
  de_message :: string
  de_metadata :: jsval

datatype js_err =
    EActor actor_error
  | EDecon deconstructed
  | EError string string
  | EDeadline
  | EVal jsval

definition TypeError :: js_err where
  "TypeError = EError ''TypeError'' ''Cannot read properties of null''"

text \<open>\<open>typeof null\<close> is \<open>"object"\<close>, so the test reads a property of null and throws.\<close>

definition isActorError :: "js_err \<Rightarrow> js_err + bool" where
  "isActorError e =
     (case e of
        EActor _ \<Rightarrow> Inr True
      | EDecon _ \<Rightarrow> Inr True
      | EVal JNull \<Rightarrow> Inl TypeError
      | _ \<Rightarrow> Inr False)"

text \<open>\<open>DeadlineError\<close> is an \<open>Error\<close> with a fixed message.  An object among the other values
  answers with its own \<open>message\<close> property when that is a string.\<close>

fun getErrorMessage :: "(jsval \<Rightarrow> string) \<Rightarrow> js_err \<Rightarrow> string" where
  "getErrorMessage str (EActor a) = ae_message a"
| "getErrorMessage str (EDecon d) = de_message d"
| "getErrorMessage str (EError n m) = m"
| "getErrorMessage str EDeadline = ''Promise did not complete before deadline.''"
| "getErrorMessage str (EVal (JError n m)) = m"
| "getErrorMessage str (EVal (JObj kvs)) =
     (case map_of kvs ''message'' of Some (JStr m) \<Rightarrow> m | _ \<Rightarrow> str (JObj kvs))"
| "getErrorMessage str (EVal v) = str v"

fun err_public :: "js_err \<Rightarrow> bool" where
  "err_public (EActor a) = ae_public a"
| "err_public (EDecon d) = de_public d"
| "err_public _ = False"

fun err_code :: "js_err \<Rightarrow> string" where
  "err_code (EActor a) = ae_code a"
| "err_code (EDecon d) = de_code d"
| "err_code _ = []"

fun err_metadata :: "js_err \<Rightarrow> jsval" where
  "err_metadata (EActor a) = ae_metadata a"
| "err_metadata (EDecon d) = de_metadata d"
| "err_metadata _ = JUndef"

fun err_statusCode :: "js_err \<Rightarrow> nat" where
  "err_statusCode (EActor a) = ae_statusCode a"
| "err_statusCode (EDecon d) = de_statusCode d"
| "err_statusCode _ = 0"

definition masked :: deconstructed where
  "masked = \<lparr>de_statusCode = 500, de_public = False, de_code = INTERNAL_ERROR_CODE,
     de_message = INTERNAL_ERROR_DESCRIPTION, de_metadata = JObj []\<rparr>"

definition deconstructError :: "(jsval \<Rightarrow> string) \<Rightarrow> js_err \<Rightarrow> bool \<Rightarrow> js_err + deconstructed" where
  "deconstructError str e exposeInternalError =
     (case isActorError e of
        Inl t \<Rightarrow> Inl t
      | Inr isActor \<Rightarrow>
          if isActor \<and> err_public e then
            Inr \<lparr>de_statusCode = (if err_statusCode e \<noteq> 0 then err_statusCode e else 400),
                 de_public = True, de_code = err_code e,
                 de_message = getErrorMessage str e, de_metadata = err_metadata e\<rparr>
          else if exposeInternalError then
            (if isActor then
               Inr \<lparr>de_statusCode = 500, de_public = False, de_code = err_code e,
                    de_message = getErrorMessage str e, de_metadata = err_metadata e\<rparr>
             else
               Inr \<lparr>de_statusCode = 500, de_public = False, de_code = INTERNAL_ERROR_CODE,
                    de_message = getErrorMessage str e, de_metadata = JUndef\<rparr>)
          else Inr masked)"

section \<open>What a client can learn from an error\<close>

lemma isActorError_public: "err_public e \<Longrightarrow> isActorError e = Inr True"
  by (cases e) (auto simp: isActorError_def)

lemma isActorError_Inl [simp]: "isActorError e = Inl t \<longleftrightarrow> e = EVal JNull \<and> t = TypeError"
  by (auto simp: isActorError_def split: js_err.splits jsval.splits)

lemma deconstruct_private: "\<not> err_public e \<Longrightarrow> e \<noteq> EVal JNull \<Longrightarrow> deconstructError str e False = Inr masked"
  by (auto simp: deconstructError_def split: sum.splits)

lemma deconstruct_public:
  "err_public e \<Longrightarrow> deconstructError str e x =
     Inr \<lparr>de_statusCode = (if err_statusCode e \<noteq> 0 then err_statusCode e else 400),
          de_public = True, de_code = err_code e,
          de_message = getErrorMessage str e, de_metadata = err_metadata e\<rparr>"
  by (simp add: deconstructError_def isActorError_public)

lemma deconstruct_total: "e \<noteq> EVal JNull \<Longrightarrow> \<exists>d. deconstructError str e x = Inr d"
  by (auto simp: deconstructError_def split: sum.splits)

text \<open>
  Without the internal-client header, what a response reveals of two errors that are not
  marked public is the same: code, message, metadata and status are the fixed internal-error
  values, whatever was thrown (an internal \<open>ActorError\<close>, another \<open>Error\<close>, any other value but
  null).
\<close>

theorem deconstruct_masks_private:
  assumes "\<not> err_public e" and "\<not> err_public e'"
    and "e \<noteq> EVal JNull" and "e' \<noteq> EVal JNull"
  shows "deconstructError str e False = deconstructError str' e' False
    \<and> (\<forall>d. deconstructError str e False = Inr d \<longrightarrow>
         de_statusCode d = 500 \<and> de_code d = ''internal_error''
         \<and> de_message d = INTERNAL_ERROR_DESCRIPTION \<and> de_metadata d = JObj [])"
  using assms by (simp add: deconstruct_private masked_def INTERNAL_ERROR_CODE_def)

theorem deconstruct_masks_private_witness:
  "deconstructError (\<lambda>_. []) (EActor (InternalError ''db password is x'')) False
     = deconstructError (\<lambda>_. []) (EError ''RangeError'' ''boom'') False"
  using deconstruct_masks_private [of "EActor (InternalError ''db password is x'')"
      "EError ''RangeError'' ''boom''" "\<lambda>_. []" "\<lambda>_. []"]
  by (simp add: error_class_defs)

text \<open>
  Deconstructing is idempotent on its own results for public errors: an error that crosses a
  second boundary (the manager deconstructing what the actor already deconstructed) keeps code,
  message, metadata and status, and is still public, so it is not masked on the way.
\<close>

theorem deconstruct_public_idem:
  assumes "err_public e" and "deconstructError str e x = Inr d"
  shows "deconstructError str' (EDecon d) y = Inr d"
  using assms by (auto simp: deconstruct_public)

theorem deconstruct_public_idem_witness:
  "\<exists>d. deconstructError (\<lambda>_. []) (EActor (Unauthorized None)) False = Inr d
     \<and> deconstructError (\<lambda>_. []) (EDecon d) False = Inr d \<and> de_statusCode d = 401"
proof -
  let ?e = "EActor (Unauthorized None)"
  have p: "err_public ?e" by (simp add: error_class_defs)
  obtain d where d: "deconstructError (\<lambda>_. []) ?e False = Inr d"
    using deconstruct_total [of ?e] by blast
  moreover have "deconstructError (\<lambda>_. []) (EDecon d) False = Inr d"
    by (rule deconstruct_public_idem [OF p d])
  moreover have "de_statusCode d = 401"
    using d p by (auto simp: deconstruct_public error_class_defs)
  ultimately show ?thesis by blast
qed

end
