(* ===== verification/ActorKeys.thy ===== *)
theory ActorKeys
  imports Prelude
begin

text \<open>
  Actor keys (arrays of strings) as single strings: \<open>drivers/engine/keys.ts\<close> of the core package
  and \<open>util.ts\<close> of the Cloudflare driver.  Both escape the separator and the backslash and both
  decode with a character loop; they differ in the separator and in how the empty array and the
  empty string are marked.  The decoders only compare characters, so UTF-16 units are \<open>char\<close>s.
\<close>

section \<open>Shared string operations\<close>

text \<open>\<open>s.replace(/c/g, r)\<close> for a single character \<open>c\<close>.\<close>

definition replace_char :: "char \<Rightarrow> string \<Rightarrow> string \<Rightarrow> string" where
  "replace_char c r s = concat (map (\<lambda>x. if x = c then r else [x]) s)"

text \<open>\<open>parts.join(sep)\<close>.\<close>

fun join_with :: "char \<Rightarrow> string list \<Rightarrow> string" where
  "join_with sep [] = []"
| "join_with sep [x] = x"
| "join_with sep (x # xs) = x @ sep # join_with sep xs"

abbreviation backslash :: char where
  "backslash \<equiv> CHR 0x5C"

lemma replace_char_Nil [simp]: "replace_char c r [] = []"
  by (simp add: replace_char_def)

lemma replace_char_Cons [simp]:
  "replace_char c r (x # s) = (if x = c then r @ replace_char c r s else x # replace_char c r s)"
  by (simp add: replace_char_def)

lemma replace_char_append [simp]: "replace_char c r (s @ t) = replace_char c r s @ replace_char c r t"
  by (simp add: replace_char_def)

section \<open>The engine driver's keys\<close>

definition engine_EMPTY_KEY :: string where
  "engine_EMPTY_KEY = ''/''"

definition engine_KEY_SEPARATOR :: char where
  "engine_KEY_SEPARATOR = CHR ''/''"

definition escapeActorKeyPart :: "string \<Rightarrow> string" where
  "escapeActorKeyPart part =
     (if part = [] then [backslash, CHR ''0'']
      else replace_char engine_KEY_SEPARATOR [backslash, engine_KEY_SEPARATOR]
             (replace_char backslash [backslash, backslash] part))"

definition serializeActorKey :: "string list \<Rightarrow> string" where
  "serializeActorKey key =
     (if key = [] then engine_EMPTY_KEY
      else join_with engine_KEY_SEPARATOR (map escapeActorKeyPart key))"

text \<open>The loop of \<open>deserializeActorKey\<close>: the rest of the string, the parts so far, the current
  part, \<open>escaping\<close> and \<open>isEmptyStringMarker\<close>; the first equation is the code after the loop.\<close>

fun deserializeActorKey_loop ::
  "string \<Rightarrow> string list \<Rightarrow> string \<Rightarrow> bool \<Rightarrow> bool \<Rightarrow> string list" where
  "deserializeActorKey_loop [] parts cur escaping marker =
     (if escaping then parts @ [cur @ [backslash]]
      else if marker then parts @ [[]]
      else if cur \<noteq> [] \<or> parts \<noteq> [] then parts @ [cur]
      else parts)"
| "deserializeActorKey_loop (c # s) parts cur escaping marker =
     (if escaping then
        (if c = CHR ''0'' then deserializeActorKey_loop s parts cur False True
         else deserializeActorKey_loop s parts (cur @ [c]) False marker)
      else if c = backslash then deserializeActorKey_loop s parts cur True marker
      else if c = engine_KEY_SEPARATOR then
        (if marker then deserializeActorKey_loop s (parts @ [[]]) [] escaping False
         else deserializeActorKey_loop s (parts @ [cur]) [] escaping marker)
      else deserializeActorKey_loop s parts (cur @ [c]) escaping marker)"

definition deserializeActorKey :: "string option \<Rightarrow> string list" where
  "deserializeActorKey keyString =
     (case keyString of
        None \<Rightarrow> []
      | Some s \<Rightarrow> if s = engine_EMPTY_KEY then [] else deserializeActorKey_loop s [] [] False False)"

lemmas engine_key_defs = engine_EMPTY_KEY_def engine_KEY_SEPARATOR_def

text \<open>Reading one escaped part appends it to the current part; an empty part raises the marker.\<close>

lemma engine_loop_part:
  "p \<noteq> [] \<Longrightarrow> deserializeActorKey_loop (escapeActorKeyPart p @ s) parts cur False m
     = deserializeActorKey_loop s parts (cur @ p) False m"
proof (induction p arbitrary: cur)
  case (Cons c p)
  show ?case
  proof (cases "p = []")
    case True
    then show ?thesis by (simp add: escapeActorKeyPart_def engine_key_defs)
  next
    case False
    then show ?thesis using Cons.IH [of "cur @ [c]"]
      by (auto simp: escapeActorKeyPart_def engine_key_defs)
  qed
qed simp

lemma engine_loop_empty:
  "deserializeActorKey_loop (escapeActorKeyPart [] @ s) parts cur False m
     = deserializeActorKey_loop s parts cur False True"
  by (simp add: escapeActorKeyPart_def)

lemma engine_loop_join:
  "ks \<noteq> [] \<Longrightarrow> deserializeActorKey_loop
     (join_with engine_KEY_SEPARATOR (map escapeActorKeyPart ks)) parts [] False False = parts @ ks"
proof (induction ks arbitrary: parts)
  case (Cons k ks)
  show ?case
  proof (cases ks)
    case Nil
    then show ?thesis
      using engine_loop_part [of k "[]" parts "[]" False] engine_loop_empty [of "[]" parts "[]" False]
      by (cases "k = []") auto
  next
    case (Cons k' ks')
    have ne: "engine_KEY_SEPARATOR \<noteq> backslash" by (simp add: engine_key_defs)
    let ?rest = "engine_KEY_SEPARATOR # join_with engine_KEY_SEPARATOR (map escapeActorKeyPart ks)"
    have "deserializeActorKey_loop (escapeActorKeyPart k @ ?rest) parts [] False False
        = deserializeActorKey_loop (join_with engine_KEY_SEPARATOR (map escapeActorKeyPart ks))
            (parts @ [k]) [] False False"
      using ne by (cases "k = []") (simp_all add: engine_loop_part engine_loop_empty)
    also have "\<dots> = (parts @ [k]) @ ks"
      using Cons by (intro Cons.IH) simp
    finally show ?thesis using Cons by simp
  qed
qed simp

lemma escapeActorKeyPart_neq_Nil: "escapeActorKeyPart p \<noteq> []"
  by (cases p) (auto simp: escapeActorKeyPart_def)

lemma serializeActorKey_not_marker: "k \<noteq> [] \<Longrightarrow> serializeActorKey k \<noteq> engine_EMPTY_KEY"
proof
  assume k: "k \<noteq> []" and eq: "serializeActorKey k = engine_EMPTY_KEY"
  have "deserializeActorKey_loop (serializeActorKey k) [] [] False False = k"
    using k engine_loop_join [OF k, of "[]"] by (simp add: serializeActorKey_def)
  with eq have "k = [[], []]" by (simp add: engine_key_defs)
  with eq show False by (simp add: serializeActorKey_def escapeActorKeyPart_def engine_key_defs)
qed

lemma engine_key_roundtrip: "deserializeActorKey (Some (serializeActorKey k)) = k"
proof (cases "k = []")
  case True
  then show ?thesis by (simp add: serializeActorKey_def deserializeActorKey_def)
next
  case False
  then show ?thesis
    using engine_loop_join [OF False, of "[]"] serializeActorKey_not_marker [OF False]
    by (simp add: deserializeActorKey_def) (simp add: serializeActorKey_def)
qed

interpretation engine_keys: readback serializeActorKey "\<lambda>s. deserializeActorKey (Some s)" "\<lambda>_. True"
  by unfold_locales (simp add: engine_key_roundtrip)

text \<open>
  The engine driver's key strings identify keys: every key, including the empty array and
  keys with empty parts, separators and backslashes, is read back from its serialization, and two
  keys serialize alike only if they are equal.
\<close>

theorem serializeActorKey_identifies:
  "deserializeActorKey (Some (serializeActorKey k)) = k
   \<and> (serializeActorKey k = serializeActorKey k' \<longleftrightarrow> k = k')"
  by (simp add: engine_key_roundtrip engine_keys.ser_inject)

section \<open>The Cloudflare driver's keys\<close>

definition cf_EMPTY_KEY :: string where
  "cf_EMPTY_KEY = ''(none)''"

definition cf_KEY_SEPARATOR :: char where
  "cf_KEY_SEPARATOR = CHR '',''"

definition cf_escapePart :: "string \<Rightarrow> string" where
  "cf_escapePart part =
     (if part = cf_EMPTY_KEY then backslash # cf_EMPTY_KEY
      else replace_char CHR '','' [backslash, CHR '','']
             (replace_char backslash [backslash, backslash] part))"

definition serializeKey :: "string list \<Rightarrow> string" where
  "serializeKey key =
     (if key = [] then cf_EMPTY_KEY
      else join_with cf_KEY_SEPARATOR (map cf_escapePart key))"

definition serializeNameAndKey :: "string \<Rightarrow> string list \<Rightarrow> string" where
  "serializeNameAndKey name key =
     (let escapedName = replace_char CHR '':'' [backslash, CHR '':''] name
      in if key = [] then escapedName @ [CHR '':''] @ cf_EMPTY_KEY
         else escapedName @ [CHR '':''] @ serializeKey key)"

fun deserializeKey_loop :: "string \<Rightarrow> string list \<Rightarrow> string \<Rightarrow> bool \<Rightarrow> string list" where
  "deserializeKey_loop [] parts cur escaping =
     (if cur \<noteq> [] \<or> parts \<noteq> [] then parts @ [cur] else parts)"
| "deserializeKey_loop (c # s) parts cur escaping =
     (if escaping then deserializeKey_loop s parts (cur @ [c]) False
      else if c = backslash then deserializeKey_loop s parts cur True
      else if c = cf_KEY_SEPARATOR then deserializeKey_loop s (parts @ [cur]) [] escaping
      else deserializeKey_loop s parts (cur @ [c]) escaping)"

definition deserializeKey :: "string \<Rightarrow> string list" where
  "deserializeKey keyString =
     (if keyString = [] then []
      else if keyString = cf_EMPTY_KEY then []
      else deserializeKey_loop keyString [] [] False)"

lemmas cf_key_defs = cf_EMPTY_KEY_def cf_KEY_SEPARATOR_def

lemma cf_loop_escaped:
  "deserializeKey_loop (replace_char CHR '','' [backslash, CHR '','']
       (replace_char backslash [backslash, backslash] p) @ s) parts cur False
     = deserializeKey_loop s parts (cur @ p) False"
  by (induction p arbitrary: cur) (auto simp: cf_key_defs)

lemma cf_loop_part:
  "deserializeKey_loop (cf_escapePart p @ s) parts cur False = deserializeKey_loop s parts (cur @ p) False"
proof (cases "p = cf_EMPTY_KEY")
  case True
  then show ?thesis by (simp add: cf_escapePart_def cf_key_defs)
next
  case False
  then show ?thesis by (simp add: cf_escapePart_def cf_loop_escaped)
qed

lemma cf_loop_join:
  "ks \<noteq> [] \<Longrightarrow> parts \<noteq> [] \<or> ks \<noteq> [[]] \<Longrightarrow>
     deserializeKey_loop (join_with cf_KEY_SEPARATOR (map cf_escapePart ks)) parts [] False = parts @ ks"
proof (induction ks arbitrary: parts)
  case (Cons k ks)
  show ?case
  proof (cases ks)
    case Nil
    then show ?thesis using Cons.prems cf_loop_part [of k "[]" parts "[]"] by auto
  next
    case (Cons k' ks')
    have "deserializeKey_loop
        (cf_escapePart k @ cf_KEY_SEPARATOR # join_with cf_KEY_SEPARATOR (map cf_escapePart ks)) parts [] False
        = deserializeKey_loop (join_with cf_KEY_SEPARATOR (map cf_escapePart ks)) (parts @ [k]) [] False"
      by (simp add: cf_loop_part) (simp add: cf_key_defs)
    also have "\<dots> = (parts @ [k]) @ ks"
      using Cons by (intro Cons.IH) simp_all
    finally show ?thesis using Cons by simp
  qed
qed simp

text \<open>The decoder's early returns: no other key serializes to the empty string or to the marker.\<close>

lemma cf_decode_text: "k \<noteq> [] \<Longrightarrow> k \<noteq> [[]] \<Longrightarrow> deserializeKey_loop (serializeKey k) [] [] False = k"
  using cf_loop_join [of k "[]"] by (simp add: serializeKey_def)

lemma cf_serializeKey_not_marker: "k \<noteq> [] \<Longrightarrow> k \<noteq> [[]] \<Longrightarrow> serializeKey k \<noteq> cf_EMPTY_KEY"
proof
  assume k: "k \<noteq> []" "k \<noteq> [[]]" and eq: "serializeKey k = cf_EMPTY_KEY"
  have "deserializeKey_loop cf_EMPTY_KEY [] [] False = [cf_EMPTY_KEY]"
    by (simp add: cf_key_defs)
  with eq cf_decode_text [OF k] have "k = [cf_EMPTY_KEY]" by simp
  with eq show False by (simp add: serializeKey_def cf_escapePart_def)
qed

lemma cf_serializeKey_not_Nil: "k \<noteq> [] \<Longrightarrow> k \<noteq> [[]] \<Longrightarrow> serializeKey k \<noteq> []"
  using cf_decode_text [of k] by force

lemma cf_key_roundtrip: "k \<noteq> [[]] \<Longrightarrow> deserializeKey (serializeKey k) = k"
proof (cases "k = []")
  case True
  then show ?thesis by (simp add: serializeKey_def deserializeKey_def)
next
  case False
  assume "k \<noteq> [[]]"
  with False show ?thesis
    using cf_decode_text [of k] cf_serializeKey_not_marker [of k] cf_serializeKey_not_Nil [of k]
    by (simp add: deserializeKey_def)
qed

interpretation cf_keys: readback serializeKey deserializeKey "\<lambda>k. k \<noteq> [[]]"
  by unfold_locales (rule cf_key_roundtrip)

lemma cf_serializeKey_empty_part: "serializeKey [[]] = []"
  by (simp add: serializeKey_def cf_escapePart_def cf_key_defs)

lemma cf_serializeKey_inj: "serializeKey k = serializeKey k' \<longleftrightarrow> k = k'"
proof -
  have "serializeKey k \<noteq> []" if "k \<noteq> [[]]" for k
    using that cf_serializeKey_not_Nil [of k] by (cases "k = []") (auto simp: serializeKey_def cf_key_defs)
  then show ?thesis
    using cf_keys.ser_inject [of k k'] cf_serializeKey_empty_part
    by (cases "k = [[]]"; cases "k' = [[]]") metis+
qed

text \<open>
  The Cloudflare key string is read back for every key except the one-element array holding
  the empty string, whose serialization is the empty string, which the decoder reads as the empty
  array.
\<close>

theorem deserializeKey_serializeKey_iff:
  "deserializeKey (serializeKey k) = k \<longleftrightarrow> k \<noteq> [[]]"
proof (cases "k = [[]]")
  case True
  then show ?thesis by (simp add: cf_serializeKey_empty_part deserializeKey_def)
next
  case False
  then show ?thesis by (simp add: cf_key_roundtrip)
qed

subsection \<open>Names and keys together\<close>

text \<open>The first unescaped colon ends the name, so escaped names of this kind can be split off.\<close>

lemma escaped_name_split:
  "backslash \<notin> set n \<Longrightarrow> backslash \<notin> set n' \<Longrightarrow>
     replace_char CHR '':'' [backslash, CHR '':''] n @ CHR '':'' # s
       = replace_char CHR '':'' [backslash, CHR '':''] n' @ CHR '':'' # s' \<Longrightarrow>
     n = n' \<and> s = s'"
proof (induction n arbitrary: n')
  case Nil
  then show ?case by (cases n') (auto split: if_splits)
next
  case (Cons c n)
  show ?case
  proof (cases n')
    case Nil
    with Cons.prems show ?thesis by (auto split: if_splits)
  next
    case (Cons c' m)
    with Cons.prems Cons.IH [of m] show ?thesis by (auto split: if_splits)
  qed
qed

lemma serializeNameAndKey_eq:
  "serializeNameAndKey n k = replace_char CHR '':'' [backslash, CHR '':''] n @ CHR '':'' # serializeKey k"
  by (simp add: serializeNameAndKey_def serializeKey_def)

text \<open>
  The durable-object names of the Cloudflare driver tell actors apart as long as no actor
  name contains a backslash: then two name-key pairs get the same string only if they are equal.
\<close>

theorem serializeNameAndKey_injective:
  assumes "backslash \<notin> set n" and "backslash \<notin> set n'"
    and "serializeNameAndKey n k = serializeNameAndKey n' k'"
  shows "n = n' \<and> k = k'"
proof -
  have "n = n' \<and> serializeKey k = serializeKey k'"
    using assms by (intro escaped_name_split) (simp_all add: serializeNameAndKey_eq)
  then show ?thesis by (simp add: cf_serializeKey_inj)
qed

theorem serializeNameAndKey_injective_witness:
  "serializeNameAndKey ''a:b'' [''c''] \<noteq> serializeNameAndKey ''a'' [''b:c'']"
  using serializeNameAndKey_injective [of "''a:b''" "''a''" "[''c'']" "[''b:c'']"] by auto

text \<open>
  With a backslash in a name it fails: names are escaped at colons only, not at backslashes,
  and key parts are not escaped at colons, so two different actors share a durable-object name.
\<close>

theorem serializeNameAndKey_collision:
  "serializeNameAndKey (''a'' @ [backslash]) [''b:(none)''] = serializeNameAndKey ''a:b'' []"
  by (simp add: serializeNameAndKey_def serializeKey_def cf_escapePart_def cf_key_defs)

end
