(* ===== verification/AsyncUtils.thy ===== *)
theory AsyncUtils
  imports Prelude ActorErrors
begin

text \<open>
  The scheduling helpers of \<open>utils.ts\<close> and \<open>actor/utils.ts\<close>: \<open>SinglePromiseQueue\<close>,
  \<open>setLongTimeout\<close>, \<open>deadline\<close>, \<open>throttle\<close> and \<open>Lock\<close>.

  Each is a state with one handler per thing that can happen to it between two turns of the
  event loop: a call, a timer, a promise that settles.  Promises are named by numbers in the order
  of their creation.
\<close>

section \<open>SinglePromiseQueue\<close>

text \<open>
  \<open>spq_queued\<close> is \<open>#queuedOp\<close>, \<open>spq_pending\<close> is \<open>#pending\<close>, and \<open>spq_running\<close> is the operation
  that \<open>#drainLoop\<close> awaits with the resolver it captured (\<open>None\<close>: \<open>runningDrainLoop\<close> is
  undefined).  \<open>spq_settled\<close> and \<open>spq_started\<close> record the resolved promises and the started
  operations.
\<close>

record 'op spq =
  spq_queued :: "'op option"
  spq_running :: "('op \<times> nat option) option"
  spq_pending :: "nat option"
  spq_next :: nat
  spq_settled :: "nat list"
  spq_started :: "'op list"

definition spq_new :: "'op spq" where
  "spq_new = \<lparr>spq_queued = None, spq_running = None, spq_pending = None, spq_next = 0,
     spq_settled = [], spq_started = []\<rparr>"

text \<open>One turn of the loop of \<open>#drainLoop\<close>: up to \<open>await op()\<close>, or out of the loop.\<close>

definition spq_drain :: "'op spq \<Rightarrow> 'op spq" where
  "spq_drain q =
     (case spq_queued q of
        None \<Rightarrow> q\<lparr>spq_running := None\<rparr>
      | Some op \<Rightarrow> q\<lparr>spq_running := Some (op, spq_pending q), spq_pending := None,
          spq_queued := None, spq_started := spq_started q @ [op]\<rparr>)"

definition spq_enqueue :: "'op \<Rightarrow> 'op spq \<Rightarrow> nat \<times> 'op spq" where
  "spq_enqueue op q =
     (let q1 = q\<lparr>spq_queued := Some op\<rparr>;
          (p, q2) = (case spq_pending q1 of
                       Some p \<Rightarrow> (p, q1)
                     | None \<Rightarrow> (spq_next q1, q1\<lparr>spq_pending := Some (spq_next q1),
                                                spq_next := Suc (spq_next q1)\<rparr>))
      in (p, if spq_running q2 = None then spq_drain q2 else q2))"

text \<open>The awaited operation settles; a rejection is swallowed, so its outcome does not matter.\<close>

definition spq_op_done :: "'op spq \<Rightarrow> 'op spq" where
  "spq_op_done q =
     (case spq_running q of
        None \<Rightarrow> q
      | Some (_, r) \<Rightarrow>
          spq_drain (q\<lparr>spq_settled := spq_settled q @ (case r of None \<Rightarrow> [] | Some p \<Rightarrow> [p])\<rparr>))"

datatype 'op spq_event = Enqueue 'op | OpDone

fun spq_step :: "'op spq_event \<Rightarrow> 'op spq \<Rightarrow> 'op spq" where
  "spq_step (Enqueue op) q = snd (spq_enqueue op q)"
| "spq_step OpDone q = spq_op_done q"

definition spq_open :: "'op spq \<Rightarrow> nat list" where
  "spq_open q = (case spq_running q of Some (_, Some p) \<Rightarrow> [p] | _ \<Rightarrow> [])
     @ (case spq_pending q of None \<Rightarrow> [] | Some p \<Rightarrow> [p])"

definition spq_inv :: "'op spq \<Rightarrow> bool" where
  "spq_inv q =
     ((spq_queued q = None \<longleftrightarrow> spq_pending q = None)
      \<and> (spq_running q = None \<longrightarrow> spq_queued q = None)
      \<and> (\<forall>op. spq_running q \<noteq> Some (op, None))
      \<and> distinct (spq_settled q @ spq_open q)
      \<and> (\<forall>p. p \<in> set (spq_settled q @ spq_open q) \<longleftrightarrow> p < spq_next q))"

lemmas spq_defs = spq_drain_def spq_enqueue_def spq_op_done_def spq_open_def

lemma spq_inv_new [simp]: "spq_inv spq_new"
  by (simp add: spq_inv_def spq_new_def spq_open_def)

text \<open>The states the invariant allows, by what is in flight.\<close>

lemma spq_inv_cases:
  assumes "spq_inv q"
  obtains (idle) "spq_running q = None" "spq_queued q = None" "spq_pending q = None"
  | (busy) op p where "spq_running q = Some (op, Some p)" "spq_queued q = None" "spq_pending q = None"
  | (behind) op p op' p' where "spq_running q = Some (op, Some p)" "spq_queued q = Some op'"
      "spq_pending q = Some p'"
  using assms unfolding spq_inv_def by (metis option.exhaust surj_pair)

lemma spq_inv_enqueue:
  assumes i: "spq_inv q"
  shows "spq_inv (snd (spq_enqueue op q))"
  using i
proof (cases rule: spq_inv_cases)
  case idle
  with i show ?thesis by (simp add: spq_inv_def spq_defs less_Suc_eq) blast
next
  case busy
  with i show ?thesis by (simp add: spq_inv_def spq_defs less_Suc_eq) blast
next
  case behind
  with i show ?thesis by (simp add: spq_inv_def spq_defs)
qed

lemma spq_inv_done:
  assumes i: "spq_inv q"
  shows "spq_inv (spq_op_done q)"
  using i
proof (cases rule: spq_inv_cases)
  case idle
  with i show ?thesis by (simp add: spq_inv_def spq_defs)
next
  case busy
  with i show ?thesis by (simp add: spq_inv_def spq_defs)
next
  case behind
  with i show ?thesis by (simp add: spq_inv_def spq_defs)
qed

lemma spq_inv_step: "spq_inv q \<Longrightarrow> spq_inv (spq_step e q)"
  by (cases e) (auto intro: spq_inv_enqueue spq_inv_done)

interpretation spq: machine spq_step spq_inv
  by unfold_locales (rule spq_inv_step)

lemma spq_two_turns:
  assumes "spq_inv q"
  shows "spq_running (spq_op_done (spq_op_done q)) = None"
    and "spq_pending (spq_op_done (spq_op_done q)) = None"
    and "spq_next (spq_op_done (spq_op_done q)) = spq_next q"
  using assms by (cases rule: spq_inv_cases, simp_all add: spq_defs)+

text \<open>
  No caller of a \<open>SinglePromiseQueue\<close> waits for ever: whatever calls and completions came
  before, once the operation in flight and the one queued behind it have settled (in success or
  failure), the queue is idle and every promise it ever handed out has been resolved, each exactly
  once.
\<close>

theorem spq_waiters_resolved:
  assumes "q = fold spq_step es spq_new"
  shows "spq_running (spq_op_done (spq_op_done q)) = None
    \<and> distinct (spq_settled (spq_op_done (spq_op_done q)))
    \<and> set (spq_settled (spq_op_done (spq_op_done q))) = {..<spq_next q}"
proof -
  let ?q = "spq_op_done (spq_op_done q)"
  have i: "spq_inv q" using assms spq.run_inv [OF spq_inv_new] by simp
  have "spq_inv ?q" by (intro spq_inv_done i)
  then show ?thesis
    using spq_two_turns [OF i] by (auto simp: spq_inv_def spq_open_def)
qed

theorem spq_waiters_resolved_witness:
  "set (spq_settled (spq_op_done (spq_op_done
      (fold spq_step [Enqueue ''a'', Enqueue ''b'', Enqueue ''c''] spq_new)))) = {..<2}"
proof -
  have "spq_next (fold spq_step [Enqueue ''a'', Enqueue ''b'', Enqueue ''c''] spq_new) = 2"
    by (simp add: spq_defs spq_new_def)
  then show ?thesis
    using spq_waiters_resolved [OF refl, of "[Enqueue ''a'', Enqueue ''b'', Enqueue ''c'']"] by simp
qed

lemma spq_busy_enqueues:
  "spq_running q \<noteq> None \<Longrightarrow> ops \<noteq> [] \<Longrightarrow>
     fold spq_step (map Enqueue ops) q =
       q\<lparr>spq_queued := Some (last ops),
         spq_pending := Some (case spq_pending q of Some p \<Rightarrow> p | None \<Rightarrow> spq_next q),
         spq_next := (case spq_pending q of Some _ \<Rightarrow> spq_next q | None \<Rightarrow> Suc (spq_next q))\<rparr>"
proof (induction ops arbitrary: q)
  case Nil
  then show ?case by simp
next
  case (Cons op ops)
  have *: "spq_running (spq_step (Enqueue op) q) \<noteq> None"
    using Cons.prems by (auto simp: spq_defs Let_def split: option.splits)
  show ?case
  proof (cases "ops = []")
    case True
    then show ?thesis
      using Cons.prems by (auto simp: spq_defs Let_def split: option.splits)
  next
    case False
    then show ?thesis
      using Cons.prems Cons.IH [OF * False] by (auto simp: spq_defs Let_def split: option.splits)
  qed
qed

text \<open>
  While an operation runs, nothing else is started and the calls coalesce: of the operations
  handed in meanwhile only the last one runs, right after the current one settles, and all their
  callers share one promise, still unresolved at that moment.
\<close>

theorem spq_last_wins:
  assumes "spq_running q = Some (op, r)" and "ops \<noteq> []"
    and "q' = fold spq_step (map Enqueue ops) q"
  shows "spq_started q' = spq_started q
    \<and> spq_running q' = Some (op, r)
    \<and> spq_started (spq_op_done q') = spq_started q @ [last ops]
    \<and> spq_running (spq_op_done q') = Some (last ops, spq_pending q')
    \<and> (\<forall>o'. fst (spq_enqueue o' q') = the (spq_pending q'))"
  using assms by (simp add: spq_busy_enqueues spq_defs Let_def split: option.splits)

theorem spq_last_wins_witness:
  "spq_started (spq_op_done (fold spq_step (map Enqueue [''b'', ''c'']) (snd (spq_enqueue ''a'' spq_new))))
     = [''a'', ''c'']"
  using spq_last_wins [of "snd (spq_enqueue ''a'' spq_new)" "''a''" "Some 0" "[''b'', ''c'']", OF _ _ refl]
  by (simp add: spq_defs spq_new_def)

section \<open>setLongTimeout\<close>

definition TIMEOUT_MAX :: rat where
  "TIMEOUT_MAX = 2147483647"

text \<open>A pending \<open>setTimeout\<close> of the chain: its delay and, unless it is the one that calls the
  listener, what remains after it.\<close>

datatype long_timeout =
    LtTimer rat "rat option"
  | LtFired
  | LtAborted

definition lt_start :: "rat \<Rightarrow> long_timeout" where
  "lt_start remaining =
     (if remaining \<le> TIMEOUT_MAX then LtTimer remaining None
      else LtTimer TIMEOUT_MAX (Some (remaining - TIMEOUT_MAX)))"

definition setLongTimeout :: "rat \<Rightarrow> long_timeout" where
  "setLongTimeout after = lt_start after"

fun lt_elapse :: "long_timeout \<Rightarrow> long_timeout" where
  "lt_elapse (LtTimer d None) = LtFired"
| "lt_elapse (LtTimer d (Some r)) = lt_start r"
| "lt_elapse t = t"

fun lt_abort :: "long_timeout \<Rightarrow> long_timeout" where
  "lt_abort (LtTimer d n) = LtAborted"
| "lt_abort t = t"

text \<open>The delays the chain goes through.\<close>

function lt_delays :: "rat \<Rightarrow> rat list" where
  "lt_delays remaining =
     (if remaining \<le> TIMEOUT_MAX then [remaining]
      else TIMEOUT_MAX # lt_delays (remaining - TIMEOUT_MAX))"
  by pat_completeness auto

termination
proof (relation "measure (\<lambda>r. nat \<lceil>r\<rceil>)")
  fix r :: rat
  assume r: "\<not> r \<le> TIMEOUT_MAX"
  have "\<lceil>r - TIMEOUT_MAX\<rceil> = \<lceil>r\<rceil> - 2147483647"
    using ceiling_diff_of_int [of r 2147483647] by (simp add: TIMEOUT_MAX_def)
  moreover have "0 < \<lceil>r\<rceil>" using r by (simp add: TIMEOUT_MAX_def)
  ultimately show "(r - TIMEOUT_MAX, r) \<in> measure (\<lambda>r. nat \<lceil>r\<rceil>)" by simp
qed simp

declare lt_delays.simps [simp del]

lemma lt_delays_run: "(lt_elapse ^^ length (lt_delays r)) (lt_start r) = LtFired"
proof (induction r rule: lt_delays.induct)
  case (1 r)
  show ?case
  proof (cases "r \<le> TIMEOUT_MAX")
    case True
    then show ?thesis by (simp add: lt_delays.simps [of r] lt_start_def)
  next
    case False
    then have "lt_delays r = TIMEOUT_MAX # lt_delays (r - TIMEOUT_MAX)"
      and "lt_elapse (lt_start r) = lt_start (r - TIMEOUT_MAX)"
      by (simp_all add: lt_delays.simps [of r] lt_start_def)
    then show ?thesis using "1.IH" [OF False] by (simp add: funpow_swap1)
  qed
qed

lemma lt_delays_timer:
  "i < length (lt_delays r) \<Longrightarrow> \<exists>n. (lt_elapse ^^ i) (lt_start r) = LtTimer (lt_delays r ! i) n"
proof (induction r arbitrary: i rule: lt_delays.induct)
  case (1 r)
  show ?case
  proof (cases "r \<le> TIMEOUT_MAX")
    case True
    then show ?thesis using "1.prems" by (simp add: lt_delays.simps [of r] lt_start_def)
  next
    case False
    show ?thesis
    proof (cases i)
      case 0
      then show ?thesis using False by (simp add: lt_delays.simps [of r] lt_start_def)
    next
      case (Suc j)
      have "lt_delays r = TIMEOUT_MAX # lt_delays (r - TIMEOUT_MAX)"
        using False by (simp add: lt_delays.simps [of r])
      moreover have "lt_elapse (lt_start r) = lt_start (r - TIMEOUT_MAX)"
        using False by (simp add: lt_start_def)
      ultimately show ?thesis
        using "1.IH" [OF False, of j] "1.prems" Suc by (simp add: funpow_swap1)
    qed
  qed
qed

lemma lt_delays_le: "d \<in> set (lt_delays r) \<Longrightarrow> d \<le> TIMEOUT_MAX"
proof (induction r rule: lt_delays.induct)
  case (1 r)
  then show ?case by (cases "r \<le> TIMEOUT_MAX") (auto simp: lt_delays.simps [of r])
qed

lemma sum_lt_delays: "sum_list (lt_delays r) = r"
proof (induction r rule: lt_delays.induct)
  case (1 r)
  then show ?case by (cases "r \<le> TIMEOUT_MAX") (simp_all add: lt_delays.simps [of r])
qed

text \<open>
  C39.  \<open>setLongTimeout\<close> waits exactly as long as it was asked to: it goes through finitely many
  timers, each within the 32-bit limit of the platform, whose delays add up to the requested one,
  and calls the listener when the last of them elapses.
\<close>

theorem setLongTimeout_exact:
  "(lt_elapse ^^ length (lt_delays after)) (setLongTimeout after) = LtFired
   \<and> (\<forall>i < length (lt_delays after). \<exists>n. (lt_elapse ^^ i) (setLongTimeout after) = LtTimer (lt_delays after ! i) n)
   \<and> (\<forall>d \<in> set (lt_delays after). d \<le> 2 ^ 31 - 1)
   \<and> sum_list (lt_delays after) = after"
  using lt_delays_run [of after] lt_delays_timer [of _ after] lt_delays_le [of _ after] sum_lt_delays [of after]
  by (auto simp: setLongTimeout_def TIMEOUT_MAX_def)

theorem setLongTimeout_exact_witness:
  "lt_delays 2147483648 = [2147483647, 1]
   \<and> (lt_elapse ^^ 2) (setLongTimeout 2147483648) = LtFired"
proof -
  have "lt_delays 2147483648 = [2147483647, 1]"
    by (simp add: lt_delays.simps [of 2147483648] lt_delays.simps [of 1] TIMEOUT_MAX_def)
  then show ?thesis using setLongTimeout_exact [of 2147483648] by (simp add: numeral_2_eq_2)
qed

section \<open>deadline\<close>

text \<open>The two contenders of \<open>Promise.race\<close>; whichever settles first decides, and the timer is
  cleared afterwards.\<close>

datatype 'a race_event = RaceSettled "js_err + 'a" | RaceTimeout

fun deadline :: "'a race_event list \<Rightarrow> (js_err + 'a) option" where
  "deadline [] = None"
| "deadline (RaceSettled r # _) = Some r"
| "deadline (RaceTimeout # _) = Some (Inl EDeadline)"

section \<open>throttle\<close>

record 'x throttled =
  th_lastRan :: bool
  th_lastArgs :: "'x option"
  th_timer :: bool
  th_ran :: "'x list"

datatype 'x throttle_event = ThCall 'x | ThTimer

fun throttle_step :: "'x throttle_event \<Rightarrow> 'x throttled \<Rightarrow> 'x throttled" where
  "throttle_step (ThCall x) t =
     (if \<not> th_lastRan t
      then t\<lparr>th_ran := th_ran t @ [x], th_lastRan := True, th_timer := True\<rparr>
      else t\<lparr>th_lastArgs := Some x\<rparr>)"
| "throttle_step ThTimer t =
     (if \<not> th_timer t then t
      else case th_lastArgs t of
        None \<Rightarrow> t\<lparr>th_lastRan := False, th_timer := False\<rparr>
      | Some x \<Rightarrow> t\<lparr>th_ran := th_ran t @ [x], th_lastRan := True, th_lastArgs := None, th_timer := True\<rparr>)"

definition throttle_new :: "'x throttled" where
  "throttle_new = \<lparr>th_lastRan = False, th_lastArgs = None, th_timer = False, th_ran = []\<rparr>"

definition throttle_inv :: "'x throttled \<Rightarrow> bool" where
  "throttle_inv t = (th_timer t = th_lastRan t \<and> (th_lastArgs t \<noteq> None \<longrightarrow> th_timer t))"

interpretation throttle: machine throttle_step throttle_inv
proof (unfold_locales)
  show "throttle_inv (throttle_step e t)" if "throttle_inv t" for t :: "'a throttled" and e
    using that by (cases e) (auto simp: throttle_inv_def split: option.splits)
qed

text \<open>A call is never lost: it runs at once, or its arguments (or those of a later call) run when
  the armed timer fires.\<close>

lemma throttle_trailing_call:
  fixes t :: "'a throttled"
  assumes "t = fold throttle_step es throttle_new"
  shows "last (th_ran (throttle_step ThTimer (throttle_step (ThCall x) t))) = x
    \<or> last (th_ran (throttle_step (ThCall x) t)) = x"
proof -
  have "throttle_inv (throttle_new :: 'a throttled)"
    by (simp add: throttle_inv_def throttle_new_def)
  then have "throttle_inv t" using assms by (simp add: throttle.run_inv)
  then show ?thesis by (auto simp: throttle_inv_def)
qed

section \<open>Lock\<close>

text \<open>
  \<open>lk_woken\<close> holds the waiters whose promise was resolved by \<open>next()\<close> and whose continuation still
  sits in the microtask queue; \<open>lk_inside\<close> holds the callers whose function is running.
\<close>

record lock =
  lk_locked :: bool
  lk_waiting :: "nat list"
  lk_woken :: "nat list"
  lk_inside :: "nat list"

datatype lock_event = LkCall nat | LkResume | LkDone nat

fun lock_step :: "lock_event \<Rightarrow> lock \<Rightarrow> lock" where
  "lock_step (LkCall t) l =
     (if lk_locked l then l\<lparr>lk_waiting := lk_waiting l @ [t]\<rparr>
      else l\<lparr>lk_locked := True, lk_inside := lk_inside l @ [t]\<rparr>)"
| "lock_step LkResume l =
     (case lk_woken l of
        [] \<Rightarrow> l
      | t # ts \<Rightarrow> l\<lparr>lk_woken := ts, lk_locked := True, lk_inside := lk_inside l @ [t]\<rparr>)"
| "lock_step (LkDone t) l =
     (if t \<notin> set (lk_inside l) then l
      else case lk_waiting l of
        [] \<Rightarrow> l\<lparr>lk_locked := False, lk_inside := remove1 t (lk_inside l)\<rparr>
      | w # ws \<Rightarrow> l\<lparr>lk_locked := False, lk_inside := remove1 t (lk_inside l),
                    lk_waiting := ws, lk_woken := lk_woken l @ [w]\<rparr>)"

definition lock_new :: lock where
  "lock_new = \<lparr>lk_locked = False, lk_waiting = [], lk_woken = [], lk_inside = []\<rparr>"

text \<open>No call arrives between \<open>next()\<close> and the continuation it schedules.\<close>

fun lock_calm :: "lock_event list \<Rightarrow> lock \<Rightarrow> bool" where
  "lock_calm [] l = True"
| "lock_calm (e # es) l = ((\<forall>t. e = LkCall t \<longrightarrow> lk_woken l = []) \<and> lock_calm es (lock_step e l))"

definition lock_inv :: "lock \<Rightarrow> bool" where
  "lock_inv l = (length (lk_inside l) + length (lk_woken l) \<le> 1
     \<and> (lk_locked l \<longleftrightarrow> lk_inside l \<noteq> []) \<and> (lk_waiting l \<noteq> [] \<longrightarrow> lk_inside l \<noteq> [] \<or> lk_woken l \<noteq> []))"

lemma lock_inv_step:
  "lock_inv l \<Longrightarrow> (\<forall>t. e = LkCall t \<longrightarrow> lk_woken l = []) \<Longrightarrow> lock_inv (lock_step e l)"
  by (cases e; cases "lk_inside l"; cases "lk_woken l") (auto simp: lock_inv_def split: list.splits)

lemma lock_exclusive:
  "lock_inv l \<Longrightarrow> lock_calm es l \<Longrightarrow> length (lk_inside (fold lock_step es l)) \<le> 1"
proof (induction es arbitrary: l)
  case Nil
  then show ?case by (simp add: lock_inv_def)
next
  case (Cons e es)
  then show ?case using lock_inv_step [of l e] by simp
qed

text \<open>Without that proviso the lock is held twice: a call that arrives in the gap finds \<open>_locked\<close>
  false, and the woken waiter does not look again.\<close>

lemma lock_barging:
  "lk_inside (fold lock_step [LkCall 0, LkCall 1, LkDone 0, LkCall 2, LkResume] lock_new) = [2, 1]"
  by (simp add: lock_new_def)

end
