(* ===== verification/CborCheck.thy ===== *)
theory CborCheck
  imports Prelude
begin

text \<open>
  \<open>isCborSerializable\<close> of \<open>common/utils.ts\<close>, the check every value assigned to actor state goes
  through.  The callback \<open>onInvalid\<close> is called at most once, right before the function returns
  false, so the model returns its argument: \<open>None\<close> stands for true, \<open>Some path\<close> for false after
  \<open>onInvalid(path)\<close>.  \<open>String(key)\<close> of a map key is the parameter \<open>str\<close>.
\<close>

section \<open>The check\<close>

definition path_dot :: "string \<Rightarrow> string \<Rightarrow> string" where
  "path_dot p s = (if p \<noteq> [] then p @ ''.'' @ s else s)"

definition key_path :: "(jsval \<Rightarrow> string) \<Rightarrow> string \<Rightarrow> jsval \<Rightarrow> string" where
  "key_path str p k = path_dot p (''key('' @ str k @ '')'')"

definition val_path :: "(jsval \<Rightarrow> string) \<Rightarrow> string \<Rightarrow> jsval \<Rightarrow> string" where
  "val_path str p k = path_dot p (''value('' @ str k @ '')'')"

definition set_path :: "string \<Rightarrow> nat \<Rightarrow> string" where
  "set_path p i = path_dot p (''set['' @ nat_str i @ '']'')"

definition arr_path :: "string \<Rightarrow> nat \<Rightarrow> string" where
  "arr_path p i = (if p \<noteq> [] then p @ ''['' @ nat_str i @ '']'' else ''['' @ nat_str i @ '']'')"

definition obj_path :: "string \<Rightarrow> string \<Rightarrow> string" where
  "obj_path p k = path_dot p k"

text \<open>A \<open>for\<close> loop that returns at the first element with a result.\<close>

fun find_some :: "('a \<Rightarrow> 'b option) \<Rightarrow> 'a list \<Rightarrow> 'b option" where
  "find_some f [] = None"
| "find_some f (x # xs) = (case f x of Some y \<Rightarrow> Some y | None \<Rightarrow> find_some f xs)"

lemma find_some_cong [fundef_cong]:
  "xs = ys \<Longrightarrow> (\<And>x. x \<in> set ys \<Longrightarrow> f x = g x) \<Longrightarrow> find_some f xs = find_some g ys"
  by (induction ys arbitrary: xs) (auto split: option.splits)

lemma find_some_None: "find_some f xs = None \<longleftrightarrow> (\<forall>x \<in> set xs. f x = None)"
  by (induction xs) (auto split: option.splits)

lemma find_some_SomeD: "find_some f xs = Some y \<Longrightarrow> \<exists>x \<in> set xs. f x = Some y"
  by (induction xs) (auto split: option.splits)

function invalid_path :: "(jsval \<Rightarrow> string) \<Rightarrow> jsval \<Rightarrow> string \<Rightarrow> string option" where
  "invalid_path str v p =
     (case v of
        JNum n \<Rightarrow> (case n of Fin q \<Rightarrow> None | _ \<Rightarrow> Some p)
      | JMap es \<Rightarrow>
          find_some (\<lambda>(k, x). case invalid_path str k (key_path str p k) of
                                Some q \<Rightarrow> Some q
                              | None \<Rightarrow> invalid_path str x (val_path str p k)) es
      | JSet xs \<Rightarrow> find_some (\<lambda>(i, x). invalid_path str x (set_path p i)) (enumerate 0 xs)
      | JArr xs \<Rightarrow> find_some (\<lambda>(i, x). invalid_path str x (arr_path p i)) (enumerate 0 xs)
      | JObj kvs \<Rightarrow> find_some (\<lambda>(k, x). invalid_path str x (obj_path p k)) kvs
      | JFun f \<Rightarrow> Some p
      | JSymbol s \<Rightarrow> Some p
      | _ \<Rightarrow> None)"
  by pat_completeness auto

termination
  by (relation "measure (\<lambda>(str, v, p). size v)") (auto dest: size_jsval_children)

declare invalid_path.simps [simp del]

lemmas invalid_path_simps [simp] =
  invalid_path.simps [of _ JUndef] invalid_path.simps [of _ JNull]
  invalid_path.simps [of _ "JBool b" for b] invalid_path.simps [of _ "JNum n" for n]
  invalid_path.simps [of _ "JBig n" for n] invalid_path.simps [of _ "JStr s" for s]
  invalid_path.simps [of _ "JDate d" for d] invalid_path.simps [of _ "JTyped bs" for bs]
  invalid_path.simps [of _ "JBuffer bs" for bs] invalid_path.simps [of _ "JRegExp r" for r]
  invalid_path.simps [of _ "JError n m" for n m] invalid_path.simps [of _ "JFun f" for f]
  invalid_path.simps [of _ "JSymbol y" for y] invalid_path.simps [of _ "JMap es" for es]
  invalid_path.simps [of _ "JSet xs" for xs] invalid_path.simps [of _ "JArr xs" for xs]
  invalid_path.simps [of _ "JObj kvs" for kvs]

definition isCborSerializable :: "(jsval \<Rightarrow> string) \<Rightarrow> jsval \<Rightarrow> string \<Rightarrow> bool" where
  "isCborSerializable str v p = (invalid_path str v p = None)"

section \<open>What it accepts\<close>

text \<open>The values with no function, symbol or non-finite number in a place the encoder visits.\<close>

inductive cbor_value :: "jsval \<Rightarrow> bool" where
  undef: "cbor_value JUndef"
| null: "cbor_value JNull"
| bool: "cbor_value (JBool b)"
| num: "cbor_value (JNum (Fin q))"
| big: "cbor_value (JBig i)"
| str: "cbor_value (JStr s)"
| date: "cbor_value (JDate d)"
| typed: "cbor_value (JTyped bs)"
| buffer: "cbor_value (JBuffer bs)"
| regexp: "cbor_value (JRegExp r)"
| error: "cbor_value (JError n m)"
| map: "(\<forall>(k, v) \<in> set es. cbor_value k \<and> cbor_value v) \<Longrightarrow> cbor_value (JMap es)"
| set: "(\<forall>x \<in> set xs. cbor_value x) \<Longrightarrow> cbor_value (JSet xs)"
| arr: "(\<forall>x \<in> set xs. cbor_value x) \<Longrightarrow> cbor_value (JArr xs)"
| obj: "(\<forall>(k, v) \<in> set kvs. cbor_value v) \<Longrightarrow> cbor_value (JObj kvs)"

inductive_simps cbor_value_simps [simp]:
  "cbor_value JUndef" "cbor_value JNull" "cbor_value (JBool b)" "cbor_value (JNum n)"
  "cbor_value (JBig i)" "cbor_value (JStr s)" "cbor_value (JDate d)" "cbor_value (JTyped bs)"
  "cbor_value (JBuffer bs)" "cbor_value (JRegExp r)" "cbor_value (JError n m)"
  "cbor_value (JFun f)" "cbor_value (JSymbol y)" "cbor_value (JMap es)" "cbor_value (JSet xs)"
  "cbor_value (JArr xs)" "cbor_value (JObj kvs)"

lemma ball_enumerate: "(\<forall>(i, x) \<in> set (enumerate 0 xs). P x) \<longleftrightarrow> (\<forall>x \<in> set xs. P x)"
proof
  assume all: "\<forall>(i, x) \<in> set (enumerate 0 xs). P x"
  show "\<forall>x \<in> set xs. P x"
  proof
    fix x assume "x \<in> set xs"
    then obtain i where "i < length xs" "x = xs ! i" by (auto simp: in_set_conv_nth)
    then have "(i, x) \<in> set (enumerate 0 xs)" by (simp add: mem_enumerate)
    with all show "P x" by auto
  qed
qed (auto simp: mem_enumerate)

lemma invalid_None_iff: "invalid_path str v p = None \<longleftrightarrow> cbor_value v"
proof (induction str v p rule: invalid_path.induct)
  case (1 str v p)
  show ?case
  proof (cases v)
    case (JMap es)
    then show ?thesis using "1.IH" by (auto simp: find_some_None split: option.splits)
  next
    case (JSet xs)
    then show ?thesis
      using "1.IH"(3) ball_enumerate [of xs cbor_value] by (auto simp: find_some_None)
  next
    case (JArr xs)
    then show ?thesis
      using "1.IH"(4) ball_enumerate [of xs cbor_value] by (auto simp: find_some_None)
  next
    case (JObj kvs)
    then show ?thesis using "1.IH"(5) by (auto simp: find_some_None)
  qed (auto split: jsnum.splits)
qed

section \<open>The path it reports\<close>

datatype path_step =
    MapKey jsval
  | MapVal jsval
  | SetMember nat
  | ArrItem nat
  | ObjProp string

inductive reaches :: "jsval \<Rightarrow> path_step list \<Rightarrow> jsval \<Rightarrow> bool" where
  here: "reaches v [] v"
| key: "(k, x) \<in> set es \<Longrightarrow> reaches k ps l \<Longrightarrow> reaches (JMap es) (MapKey k # ps) l"
| val: "(k, x) \<in> set es \<Longrightarrow> reaches x ps l \<Longrightarrow> reaches (JMap es) (MapVal k # ps) l"
| member: "i < length xs \<Longrightarrow> reaches (xs ! i) ps l \<Longrightarrow> reaches (JSet xs) (SetMember i # ps) l"
| item: "i < length xs \<Longrightarrow> reaches (xs ! i) ps l \<Longrightarrow> reaches (JArr xs) (ArrItem i # ps) l"
| property: "(k, x) \<in> set kvs \<Longrightarrow> reaches x ps l \<Longrightarrow> reaches (JObj kvs) (ObjProp k # ps) l"

fun render_path :: "(jsval \<Rightarrow> string) \<Rightarrow> string \<Rightarrow> path_step list \<Rightarrow> string" where
  "render_path str p [] = p"
| "render_path str p (MapKey k # ps) = render_path str (key_path str p k) ps"
| "render_path str p (MapVal k # ps) = render_path str (val_path str p k) ps"
| "render_path str p (SetMember i # ps) = render_path str (set_path p i) ps"
| "render_path str p (ArrItem i # ps) = render_path str (arr_path p i) ps"
| "render_path str p (ObjProp k # ps) = render_path str (obj_path p k) ps"

fun bad_leaf :: "jsval \<Rightarrow> bool" where
  "bad_leaf (JNum n) = (n = NaN \<or> n = PosInf \<or> n = NegInf)"
| "bad_leaf (JFun f) = True"
| "bad_leaf (JSymbol s) = True"
| "bad_leaf _ = False"

definition located :: "(jsval \<Rightarrow> string) \<Rightarrow> jsval \<Rightarrow> string \<Rightarrow> string \<Rightarrow> bool" where
  "located str v p q = (\<exists>ps l. reaches v ps l \<and> bad_leaf l \<and> q = render_path str p ps)"

lemma located_leaf: "bad_leaf v \<Longrightarrow> located str v p p"
  unfolding located_def by (rule exI [of _ "[]"], rule exI [of _ v]) (simp add: here)

lemma located_key: "located str k (key_path str p k) q \<Longrightarrow> (k, x) \<in> set es \<Longrightarrow> located str (JMap es) p q"
  unfolding located_def by (metis reaches.key render_path.simps(2))

lemma located_val: "located str x (val_path str p k) q \<Longrightarrow> (k, x) \<in> set es \<Longrightarrow> located str (JMap es) p q"
  unfolding located_def by (metis reaches.val render_path.simps(3))

lemma located_member: "located str (xs ! i) (set_path p i) q \<Longrightarrow> i < length xs \<Longrightarrow> located str (JSet xs) p q"
  unfolding located_def by (metis reaches.member render_path.simps(4))

lemma located_item: "located str (xs ! i) (arr_path p i) q \<Longrightarrow> i < length xs \<Longrightarrow> located str (JArr xs) p q"
  unfolding located_def by (metis reaches.item render_path.simps(5))

lemma located_prop: "located str x (obj_path p k) q \<Longrightarrow> (k, x) \<in> set kvs \<Longrightarrow> located str (JObj kvs) p q"
  unfolding located_def by (metis reaches.property render_path.simps(6))

lemma invalid_located: "invalid_path str v p = Some q \<Longrightarrow> located str v p q"
proof (induction str v p rule: invalid_path.induct)
  case (1 str v p)
  show ?case
  proof (cases v)
    case (JMap es)
    with "1.prems" obtain k x where kx: "(k, x) \<in> set es"
      and "invalid_path str k (key_path str p k) = Some q
        \<or> invalid_path str k (key_path str p k) = None \<and> invalid_path str x (val_path str p k) = Some q"
      by (auto dest!: find_some_SomeD split: option.splits)
    then show ?thesis
    proof (elim disjE conjE)
      assume "invalid_path str k (key_path str p k) = Some q"
      from located_key [OF "1.IH"(1) [OF JMap kx refl this] kx] show ?thesis by (simp add: JMap)
    next
      assume "invalid_path str k (key_path str p k) = None" "invalid_path str x (val_path str p k) = Some q"
      from located_val [OF "1.IH"(2) [OF JMap kx refl this] kx] show ?thesis by (simp add: JMap)
    qed
  next
    case (JSet xs)
    with "1.prems" obtain i x where ix: "(i, x) \<in> set (enumerate 0 xs)"
      and q: "invalid_path str x (set_path p i) = Some q"
      by (auto dest!: find_some_SomeD)
    then show ?thesis
      using "1.IH"(3) [OF JSet ix refl q] located_member JSet by (auto simp: mem_enumerate)
  next
    case (JArr xs)
    with "1.prems" obtain i x where ix: "(i, x) \<in> set (enumerate 0 xs)"
      and q: "invalid_path str x (arr_path p i) = Some q"
      by (auto dest!: find_some_SomeD)
    then show ?thesis
      using "1.IH"(4) [OF JArr ix refl q] located_item JArr by (auto simp: mem_enumerate)
  next
    case (JObj kvs)
    with "1.prems" obtain k x where kx: "(k, x) \<in> set kvs"
      and q: "invalid_path str x (obj_path p k) = Some q"
      by (auto dest!: find_some_SomeD)
    then show ?thesis
      using "1.IH"(5) [OF JObj kx refl q] located_prop JObj by auto
  qed (use "1.prems" in \<open>auto intro: located_leaf split: jsnum.splits\<close>)
qed

text \<open>
  The state check accepts exactly the values that contain no function, symbol or non-finite
  number, and when it rejects one, the path given to \<open>onInvalid\<close> is the rendering of a walk through
  the value (map keys and values, set members, array items, properties) that ends at such a leaf.
\<close>

theorem isCborSerializable_exact:
  "(isCborSerializable str v p \<longleftrightarrow> cbor_value v)
   \<and> (\<forall>q. invalid_path str v p = Some q \<longrightarrow>
        (\<exists>ps l. reaches v ps l \<and> bad_leaf l \<and> q = render_path str p ps))"
  using invalid_located [of str v p] by (auto simp: isCborSerializable_def invalid_None_iff located_def)

text \<open>The implication holds at a concrete rejected value.\<close>

theorem isCborSerializable_exact_witness:
  "\<not> isCborSerializable (\<lambda>_. ''k'') (JObj [(''a'', JArr [JNull, JFun 0])]) ''''
   \<and> invalid_path (\<lambda>_. ''k'') (JObj [(''a'', JArr [JNull, JFun 0])]) '''' = Some ''a[1]''
   \<and> (\<exists>ps l. reaches (JObj [(''a'', JArr [JNull, JFun 0])]) ps l \<and> bad_leaf l)"
proof -
  have v: "invalid_path (\<lambda>_. ''k'') (JObj [(''a'', JArr [JNull, JFun 0])]) '''' = Some ''a[1]''"
    by (simp add: obj_path_def arr_path_def path_dot_def nat_str.simps) code_simp
  then show ?thesis
    using isCborSerializable_exact [of "\<lambda>_. ''k''" "JObj [(''a'', JArr [JNull, JFun 0])]" "''''"]
    by (auto simp: isCborSerializable_def)
qed

end
