(* ===== verification/Wire.thy ===== *)
theory Wire
  imports ActorErrors
begin

text \<open>
  How values become bytes and text: the version header of \<open>common/versioned-data.ts\<close>, the choice of
  encoding in \<open>serde.ts\<close>, \<open>CachedSerializer\<close> and the base64 text of \<open>actor/protocol/serde.ts\<close>, and the
  intake of a message's data in \<open>actor/protocol/old.ts\<close>.

  Third-party and generated codecs are the parameter \<open>codec\<close>: \<open>cbor-x\<close>, the text form of JSON, and
  UTF-8; the generated BARE coders come in through the version handler.
\<close>

section \<open>Versioned data\<close>

record 'd version_handler =
  vd_currentVersion :: nat
  vd_migrations :: "(nat \<times> ('d \<Rightarrow> js_err + 'd)) list"
  vd_serializeVersion :: "'d \<Rightarrow> js_err + bytes"
  vd_deserializeVersion :: "bytes \<Rightarrow> js_err + 'd"

text \<open>\<open>setUint32(0, v, true)\<close> and \<open>getUint32(0, true)\<close>: four bytes, little endian, modulo \<open>2^32\<close>.\<close>

definition u32_le :: "nat \<Rightarrow> bytes" where
  "u32_le v = [of_nat v, of_nat (v div 256), of_nat (v div 65536), of_nat (v div 16777216)]"

fun le_u32 :: "bytes \<Rightarrow> nat" where
  "le_u32 (a # b # c # d # _) = unat a + 256 * unat b + 65536 * unat c + 16777216 * unat d"
| "le_u32 _ = 0"

definition embedVersion :: "nat \<Rightarrow> bytes \<Rightarrow> bytes" where
  "embedVersion version data = u32_le version @ data"

definition extractVersion :: "bytes \<Rightarrow> js_err + (nat \<times> bytes)" where
  "extractVersion bs =
     (if length bs < 4 then Inl (EError ''Error'' ''Invalid versioned data: too short'')
      else Inr (le_u32 bs, drop 4 bs))"

definition serializeWithEmbeddedVersion :: "'d version_handler \<Rightarrow> 'd \<Rightarrow> js_err + bytes" where
  "serializeWithEmbeddedVersion h d =
     (case vd_serializeVersion h d of
        Inl e \<Rightarrow> Inl e
      | Inr bs \<Rightarrow> Inr (embedVersion (vd_currentVersion h) bs))"

function migrate :: "'d version_handler \<Rightarrow> nat \<Rightarrow> 'd \<Rightarrow> js_err + 'd" where
  "migrate h currentVersion currentData =
     (if currentVersion < vd_currentVersion h then
        (case jm_get (vd_migrations h) currentVersion of
           None \<Rightarrow> Inl (EError ''Error'' (''No migration found from version '' @ nat_str currentVersion
                                        @ '' to '' @ nat_str (Suc currentVersion)))
         | Some migration \<Rightarrow>
             (case migration currentData of
                Inl e \<Rightarrow> Inl e
              | Inr d \<Rightarrow> migrate h (Suc currentVersion) d))
      else Inr currentData)"
  by pat_completeness auto

termination
  by (relation "measure (\<lambda>(h, v, _). vd_currentVersion h - v)") auto

declare migrate.simps [simp del]

definition deserializeVersioned :: "'d version_handler \<Rightarrow> bytes \<Rightarrow> nat \<Rightarrow> js_err + 'd" where
  "deserializeVersioned h bs version =
     (if version = vd_currentVersion h then vd_deserializeVersion h bs
      else if version > vd_currentVersion h then
        Inl (EError ''Error'' (''Cannot decode data from version '' @ nat_str version
              @ '', current version is '' @ nat_str (vd_currentVersion h)))
      else case vd_deserializeVersion h bs of
          Inl e \<Rightarrow> Inl e
        | Inr d \<Rightarrow> migrate h version d)"

definition deserializeWithEmbeddedVersion :: "'d version_handler \<Rightarrow> bytes \<Rightarrow> js_err + 'd" where
  "deserializeWithEmbeddedVersion h bs =
     (case extractVersion bs of
        Inl e \<Rightarrow> Inl e
      | Inr (version, data) \<Rightarrow> deserializeVersioned h data version)"

lemma le_u32_append [simp]: "v < 2 ^ 32 \<Longrightarrow> le_u32 (u32_le v @ bs) = v"
proof -
  assume v: "v < 2 ^ 32"
  have "v div 65536 = v div 256 div 256" "v div 16777216 = v div 256 div 256 div 256"
    by (simp_all add: div_mult2_eq [symmetric])
  moreover have "v div 256 div 256 div 256 mod 256 = v div 256 div 256 div 256"
    using v by (simp add: div_mult2_eq [symmetric])
  moreover have "v mod 256 + 256 * (v div 256 mod 256) + 65536 * (v div 256 div 256 mod 256)
      + 16777216 * (v div 256 div 256 div 256) = v"
    using mult_div_mod_eq [of 256 v] mult_div_mod_eq [of 256 "v div 256"]
      mult_div_mod_eq [of 256 "v div 256 div 256"] by linarith
  ultimately show ?thesis by (simp add: u32_le_def unat_of_nat)
qed

lemma extract_embed [simp]: "v < 2 ^ 32 \<Longrightarrow> extractVersion (embedVersion v bs) = Inr (v, bs)"
  by (simp add: extractVersion_def embedVersion_def) (simp add: u32_le_def)

interpretation version_header: readback "\<lambda>(v, bs). embedVersion v bs"
  "\<lambda>bs. case extractVersion bs of Inr p \<Rightarrow> p | Inl _ \<Rightarrow> (0, [])" "\<lambda>(v, bs). v < 2 ^ 32"
  by unfold_locales auto

lemma deserialize_embedded:
  "v < 2 ^ 32 \<Longrightarrow> deserializeWithEmbeddedVersion h (embedVersion v bs) = deserializeVersioned h bs v"
  by (simp add: deserializeWithEmbeddedVersion_def)

text \<open>The migrations between two versions, one after the other.\<close>

fun migration_chain :: "(nat \<times> ('d \<Rightarrow> js_err + 'd)) list \<Rightarrow> nat list \<Rightarrow> 'd \<Rightarrow> (js_err + 'd) option" where
  "migration_chain ms [] d = Some (Inr d)"
| "migration_chain ms (v # vs) d =
     (case jm_get ms v of
        None \<Rightarrow> None
      | Some f \<Rightarrow> (case f d of Inl e \<Rightarrow> Some (Inl e) | Inr d' \<Rightarrow> migration_chain ms vs d'))"

lemma migrate_chain:
  "migration_chain (vd_migrations h) [v ..< vd_currentVersion h] d = Some r \<Longrightarrow> migrate h v d = r"
proof (induction h v d arbitrary: r rule: migrate.induct)
  case (1 h v d)
  show ?case
  proof (cases "v < vd_currentVersion h")
    case True
    then show ?thesis
      using 1 by (auto simp: migrate.simps [of h v d] upt_rec [of v] split: option.splits sum.splits)
  next
    case False
    then show ?thesis using "1.prems" by (auto simp: migrate.simps [of h v d] split: sum.splits)
  qed
qed

text \<open>
  Data written under any version up to the current one is read back through the migrations
  from its version on, applied in order, the first error ending the chain; data of the current
  version is returned as the decoder gives it; data of a newer version, or too short to hold a
  version, is refused.
\<close>

theorem versioned_reading:
  assumes "vd_deserializeVersion h bs = Inr d" and "v < 2 ^ 32"
    and "v \<le> vd_currentVersion h \<Longrightarrow>
      migration_chain (vd_migrations h) [v ..< vd_currentVersion h] d = Some r"
  shows "(v \<le> vd_currentVersion h \<longrightarrow> deserializeWithEmbeddedVersion h (embedVersion v bs) = r)
    \<and> (v > vd_currentVersion h \<longrightarrow> (\<exists>m. deserializeWithEmbeddedVersion h (embedVersion v bs) = Inl (EError ''Error'' m)))
    \<and> (\<forall>b. length b < 4 \<longrightarrow> (\<exists>m. deserializeWithEmbeddedVersion h b = Inl (EError ''Error'' m)))"
proof (intro conjI impI allI)
  assume v: "v \<le> vd_currentVersion h"
  show "deserializeWithEmbeddedVersion h (embedVersion v bs) = r"
  proof (cases "v = vd_currentVersion h")
    case True
    then show ?thesis using assms by (simp add: deserialize_embedded deserializeVersioned_def)
  next
    case False
    with v show ?thesis
      using assms migrate_chain [of h v d r] by (simp add: deserialize_embedded deserializeVersioned_def)
  qed
next
  assume "v > vd_currentVersion h"
  then show "\<exists>m. deserializeWithEmbeddedVersion h (embedVersion v bs) = Inl (EError ''Error'' m)"
    using assms by (simp add: deserialize_embedded deserializeVersioned_def)
next
  fix b :: bytes
  assume "length b < 4"
  then show "\<exists>m. deserializeWithEmbeddedVersion h b = Inl (EError ''Error'' m)"
    by (simp add: deserializeWithEmbeddedVersion_def extractVersion_def)
qed

theorem versioned_reading_witness:
  "deserializeWithEmbeddedVersion
     \<lparr>vd_currentVersion = 3, vd_migrations = [(1, \<lambda>d. Inr (d @ [1])), (2, \<lambda>d. Inr (d @ [2]))],
      vd_serializeVersion = Inr, vd_deserializeVersion = Inr\<rparr> (embedVersion 1 [7 :: byte])
   = Inr [7, 1, 2]"
  using versioned_reading [of
      "\<lparr>vd_currentVersion = 3, vd_migrations = [(1, \<lambda>d. Inr (d @ [1])), (2, \<lambda>d. Inr (d @ [2]))],
        vd_serializeVersion = Inr, vd_deserializeVersion = Inr\<rparr>" "[7 :: byte]" "[7]" 1 "Inr [7, 1, 2]"]
  by (simp add: upt_rec)

lemma versioned_roundtrip:
  assumes "vd_currentVersion h < 2 ^ 32" and "serializeWithEmbeddedVersion h d = Inr bs"
  shows "\<exists>b. vd_serializeVersion h d = Inr b \<and> deserializeWithEmbeddedVersion h bs = vd_deserializeVersion h b"
  using assms by (auto simp: serializeWithEmbeddedVersion_def deserialize_embedded deserializeVersioned_def
      split: sum.splits)

section \<open>JSON\<close>

text \<open>The plain data a JSON text stands for.\<close>

datatype json =
    JsNull
  | JsBool bool
  | JsNum rat
  | JsStr string
  | JsArr "json list"
  | JsObj "(string \<times> json) list"

text \<open>
  What \<open>JSON.stringify\<close> with the replacer of \<open>jsonStringifyCompat\<close> makes of a value: big integers
  become their decimal text, undefined, functions and symbols vanish (null inside arrays),
  non-finite numbers become null, a typed array is written as an object of its elements, and
  objects without enumerable properties of their own (\<open>ArrayBuffer\<close>, maps, sets, regular
  expressions, errors) become \<open>{}\<close>.  The text of a date is the parameter \<open>dt\<close>.
\<close>

function json_view :: "(rat \<Rightarrow> string) \<Rightarrow> jsval \<Rightarrow> json option" where
  "json_view dt v =
     (case v of
        JUndef \<Rightarrow> None
      | JNull \<Rightarrow> Some JsNull
      | JBool b \<Rightarrow> Some (JsBool b)
      | JNum n \<Rightarrow> Some (case n of Fin q \<Rightarrow> JsNum q | _ \<Rightarrow> JsNull)
      | JBig i \<Rightarrow> Some (JsStr (int_str i))
      | JStr s \<Rightarrow> Some (JsStr s)
      | JDate d \<Rightarrow> Some (JsStr (dt d))
      | JTyped bs \<Rightarrow> Some (JsObj (map (\<lambda>(i, b). (nat_str i, JsNum (of_nat (unat b)))) (enumerate 0 bs)))
      | JFun f \<Rightarrow> None
      | JSymbol y \<Rightarrow> None
      | JArr xs \<Rightarrow> Some (JsArr (map (\<lambda>(i, x). case json_view dt x of None \<Rightarrow> JsNull | Some j \<Rightarrow> j)
                                      (enumerate 0 xs)))
      | JObj kvs \<Rightarrow> Some (JsObj (concat (map (\<lambda>(k, x). case json_view dt x of
                                                     None \<Rightarrow> [] | Some j \<Rightarrow> [(k, j)]) kvs)))
      | _ \<Rightarrow> Some (JsObj []))"
  by pat_completeness auto

termination
  by (relation "measure (\<lambda>(dt, v). size v)") (auto dest: size_jsval_children)

declare json_view.simps [simp del]

lemma size_json_children:
  "x \<in> set xs \<Longrightarrow> size x < size (JsArr xs)"
  "(k, x) \<in> set kvs \<Longrightarrow> size x < size (JsObj kvs)"
  using size_list_member [of x xs size] size_list_member [of "(k, x)" kvs "size_prod (\<lambda>_. 0) size"]
  by (auto simp: less_Suc_eq_le)

function of_json :: "json \<Rightarrow> jsval" where
  "of_json j =
     (case j of
        JsNull \<Rightarrow> JNull
      | JsBool b \<Rightarrow> JBool b
      | JsNum q \<Rightarrow> JNum (Fin q)
      | JsStr s \<Rightarrow> JStr s
      | JsArr xs \<Rightarrow> JArr (map of_json xs)
      | JsObj kvs \<Rightarrow> JObj (map (\<lambda>(k, x). (k, of_json x)) kvs))"
  by pat_completeness auto

termination
  by (relation "measure size") (auto dest: size_json_children)

declare of_json.simps [simp del]

section \<open>Encodings\<close>

text \<open>The third-party codecs: \<open>cbor-x\<close>, the text form of JSON, dates and UTF-8.\<close>

record codec =
  cd_json_text :: "json \<Rightarrow> string"
  cd_json_parse :: "string \<Rightarrow> js_err + json"
  cd_iso :: "rat \<Rightarrow> string"
  cd_utf8 :: "bytes \<Rightarrow> string"
  cd_cbor_encode :: "jsval \<Rightarrow> js_err + bytes"
  cd_cbor_decode :: "bytes \<Rightarrow> js_err + jsval"

datatype encoding = Json | Cbor | Bare

datatype output_data = OStr string | OBytes bytes

definition encodingIsBinary :: "encoding \<Rightarrow> bool" where
  "encodingIsBinary e = (case e of Json \<Rightarrow> False | Cbor \<Rightarrow> True | Bare \<Rightarrow> True)"

definition contentTypeForEncoding :: "encoding \<Rightarrow> string" where
  "contentTypeForEncoding e =
     (case e of Json \<Rightarrow> ''application/json'' | Cbor \<Rightarrow> ''application/octet-stream''
      | Bare \<Rightarrow> ''application/octet-stream'')"

definition wsBinaryTypeForEncoding :: "encoding \<Rightarrow> string" where
  "wsBinaryTypeForEncoding e =
     (case e of Json \<Rightarrow> ''blob'' | Cbor \<Rightarrow> ''arraybuffer'' | Bare \<Rightarrow> ''arraybuffer'')"

text \<open>\<open>JSON.stringify\<close> returns undefined (\<open>None\<close>) for a value that has no JSON text.\<close>

definition jsonStringifyCompat :: "codec \<Rightarrow> jsval \<Rightarrow> string option" where
  "jsonStringifyCompat c v = map_option (cd_json_text c) (json_view (cd_iso c) v)"

definition serializeWithEncoding ::
    "codec \<Rightarrow> encoding \<Rightarrow> jsval \<Rightarrow> jsval version_handler \<Rightarrow> js_err + output_data option" where
  "serializeWithEncoding c e v h =
     (case e of
        Json \<Rightarrow> Inr (map_option OStr (jsonStringifyCompat c v))
      | Cbor \<Rightarrow> (case cd_cbor_encode c v of Inl x \<Rightarrow> Inl x | Inr bs \<Rightarrow> Inr (Some (OBytes bs)))
      | Bare \<Rightarrow> (case serializeWithEmbeddedVersion h v of Inl x \<Rightarrow> Inl x | Inr bs \<Rightarrow> Inr (Some (OBytes bs))))"

definition invariant_error :: "string \<Rightarrow> js_err" where
  "invariant_error m = EError ''Invariant Violation'' m"

definition deserializeWithEncoding ::
    "codec \<Rightarrow> encoding \<Rightarrow> output_data \<Rightarrow> jsval version_handler \<Rightarrow> js_err + jsval" where
  "deserializeWithEncoding c e buffer h =
     (case e of
        Json \<Rightarrow>
          (case cd_json_parse c (case buffer of OStr s \<Rightarrow> s | OBytes bs \<Rightarrow> cd_utf8 c bs) of
             Inl x \<Rightarrow> Inl x
           | Inr j \<Rightarrow> Inr (of_json j))
      | Cbor \<Rightarrow>
          (case buffer of
             OStr s \<Rightarrow> Inl (invariant_error ''buffer cannot be string for cbor encoding'')
           | OBytes bs \<Rightarrow> cd_cbor_decode c bs)
      | Bare \<Rightarrow>
          (case buffer of
             OStr s \<Rightarrow> Inl (invariant_error ''buffer cannot be string for bare encoding'')
           | OBytes bs \<Rightarrow> deserializeWithEmbeddedVersion h bs))"

section \<open>CachedSerializer\<close>

record cached_serializer =
  cs_data :: jsval
  cs_cache :: "(encoding \<times> output_data option) list"
  cs_handler :: "jsval version_handler"

definition new_CachedSerializer :: "jsval \<Rightarrow> jsval version_handler \<Rightarrow> cached_serializer" where
  "new_CachedSerializer v h = \<lparr>cs_data = v, cs_cache = [], cs_handler = h\<rparr>"

text \<open>A cached empty string or undefined is falsy and computed again.\<close>

definition cs_serialize ::
    "codec \<Rightarrow> encoding \<Rightarrow> cached_serializer \<Rightarrow> (js_err + output_data option) \<times> cached_serializer" where
  "cs_serialize c e s =
     (case jm_get (cs_cache s) e of
        Some (Some d) \<Rightarrow>
          if d = OStr [] then
            (let r = serializeWithEncoding c e (cs_data s) (cs_handler s) in
             (r, case r of Inl _ \<Rightarrow> s | Inr o' \<Rightarrow> s\<lparr>cs_cache := jm_set e o' (cs_cache s)\<rparr>))
          else (Inr (Some d), s)
      | _ \<Rightarrow>
          (let r = serializeWithEncoding c e (cs_data s) (cs_handler s) in
           (r, case r of Inl _ \<Rightarrow> s | Inr o' \<Rightarrow> s\<lparr>cs_cache := jm_set e o' (cs_cache s)\<rparr>)))"

definition cs_inv :: "codec \<Rightarrow> jsval \<Rightarrow> jsval version_handler \<Rightarrow> cached_serializer \<Rightarrow> bool" where
  "cs_inv c v h s =
     (cs_data s = v \<and> cs_handler s = h
      \<and> (\<forall>e d. jm_get (cs_cache s) e = Some d \<longrightarrow> serializeWithEncoding c e v h = Inr d))"

lemma cs_inv_step: "cs_inv c v h s \<Longrightarrow> cs_inv c v h (snd (cs_serialize c e s))"
  by (auto simp: cs_inv_def cs_serialize_def Let_def split: option.splits sum.splits)

interpretation cs: machine "\<lambda>e s. snd (cs_serialize c e s)" "cs_inv c v h" for c v h
  by unfold_locales (rule cs_inv_step)

text \<open>
  The cache of \<open>CachedSerializer\<close> cannot be observed: after any serializations, asking for an
  encoding gives what serializing the value afresh gives, errors included.
\<close>

theorem CachedSerializer_transparent:
  "fst (cs_serialize c e (fold (\<lambda>e s. snd (cs_serialize c e s)) es (new_CachedSerializer v h)))
   = serializeWithEncoding c e v h"
proof -
  let ?s = "fold (\<lambda>e s. snd (cs_serialize c e s)) es (new_CachedSerializer v h)"
  have "cs_inv c v h ?s"
    by (rule cs.run_inv) (simp add: cs_inv_def new_CachedSerializer_def)
  then show ?thesis
    by (auto simp: cs_inv_def cs_serialize_def Let_def split: option.splits)
qed

section \<open>Binary data as text\<close>

text \<open>A binary string has one character per byte; \<open>String.fromCharCode\<close> and \<open>charCodeAt\<close> go
  between the two.\<close>

definition to_binary_string :: "bytes \<Rightarrow> string" where
  "to_binary_string bs = map (\<lambda>b. char_of (unat b)) bs"

definition of_binary_string :: "string \<Rightarrow> bytes" where
  "of_binary_string s = map (\<lambda>c. of_nat (of_char c)) s"

definition b64_alphabet :: string where
  "b64_alphabet = ''ABCDEFGHIJKLMNOPQRSTUVWXYZabcdefghijklmnopqrstuvwxyz0123456789+/''"

text \<open>The sextets of a byte string, three bytes at a time.\<close>

fun b64_sextets :: "nat list \<Rightarrow> nat list" where
  "b64_sextets (a # b # c # bs) =
     [a div 4, a mod 4 * 16 + b div 16, b mod 16 * 4 + c div 64, c mod 64] @ b64_sextets bs"
| "b64_sextets [a, b] = [a div 4, a mod 4 * 16 + b div 16, b mod 16 * 4]"
| "b64_sextets [a] = [a div 4, a mod 4 * 16]"
| "b64_sextets [] = []"

definition b64_padding :: "nat \<Rightarrow> string" where
  "b64_padding n = (if n mod 4 = 2 then ''=='' else if n mod 4 = 3 then ''='' else [])"

definition btoa :: "string \<Rightarrow> string" where
  "btoa s = (let ss = b64_sextets (map of_char s)
             in map (\<lambda>n. b64_alphabet ! n) ss @ b64_padding (length ss))"

fun b64_bytes :: "nat list \<Rightarrow> nat list" where
  "b64_bytes (p # q # r # t # ss) =
     [p * 4 + q div 16, q mod 16 * 16 + r div 4, r mod 4 * 64 + t] @ b64_bytes ss"
| "b64_bytes [p, q, r] = [p * 4 + q div 16, q mod 16 * 16 + r div 4]"
| "b64_bytes [p, q] = [p * 4 + q div 16]"
| "b64_bytes _ = []"

definition b64_strip :: "string \<Rightarrow> string" where
  "b64_strip s =
     (if length s mod 4 = 0 \<and> s \<noteq> [] \<and> last s = CHR ''='' then
        (if length s \<ge> 2 \<and> last (butlast s) = CHR ''='' then butlast (butlast s) else butlast s)
      else s)"

definition atob :: "string \<Rightarrow> js_err + string" where
  "atob s =
     (let t = b64_strip (filter (\<lambda>c. c \<notin> {CHR '' '', CHR 0x09, CHR 0x0A, CHR 0x0C, CHR 0x0D}) s);
          vs = map (\<lambda>c. find_index ((=) c) b64_alphabet) t
      in if length t mod 4 = 1 \<or> None \<in> set vs
         then Inl (EError ''InvalidCharacterError'' ''The string to be decoded is not correctly encoded.'')
         else Inr (map char_of (b64_bytes (map the vs))))"

definition base64EncodeUint8Array :: "bytes \<Rightarrow> string" where
  "base64EncodeUint8Array u = btoa (to_binary_string u)"

definition encodeDataToString :: "output_data \<Rightarrow> string" where
  "encodeDataToString message =
     (case message of OStr s \<Rightarrow> s | OBytes u \<Rightarrow> base64EncodeUint8Array u)"

lemma b64_alphabet_simps:
  "length b64_alphabet = 64" "distinct b64_alphabet"
  "set b64_alphabet \<inter> {CHR ''='', CHR '' '', CHR 0x09, CHR 0x0A, CHR 0x0C, CHR 0x0D} = {}"
  by (simp_all add: b64_alphabet_def)

lemma find_index_nth_distinct: "distinct xs \<Longrightarrow> i < length xs \<Longrightarrow> find_index ((=) (xs ! i)) xs = Some i"
proof (induction xs arbitrary: i)
  case Nil
  then show ?case by simp
next
  case (Cons x xs)
  then show ?case by (cases i) (auto simp: nth_Cons')
qed

lemma b64_sextets_range: "(\<forall>b \<in> set bs. b < 256) \<Longrightarrow> \<forall>x \<in> set (b64_sextets bs). x < 64"
  by (induction bs rule: b64_sextets.induct) auto

lemma b64_sextets_length: "length (b64_sextets bs) mod 4 \<noteq> 1"
  by (induction bs rule: b64_sextets.induct) auto

lemma b64_bytes_sextets: "(\<forall>b \<in> set bs. b < 256) \<Longrightarrow> b64_bytes (b64_sextets bs) = bs"
  by (induction bs rule: b64_sextets.induct) (auto simp: div_add1_eq)

lemma b64_strip_padding:
  assumes "set t \<subseteq> set b64_alphabet" and "length t mod 4 \<noteq> 1"
  shows "b64_strip (t @ b64_padding (length t)) = t"
proof -
  have eq: "CHR ''='' \<notin> set t" using assms(1) b64_alphabet_simps(3) by blast
  then have last: "t \<noteq> [] \<Longrightarrow> last t \<noteq> CHR ''=''" using last_in_set by metis
  have "length t mod 4 = 0 \<or> length t mod 4 = 2 \<or> length t mod 4 = 3" using assms(2) by linarith
  then show ?thesis
  proof (elim disjE)
    assume "length t mod 4 = 0"
    then show ?thesis using last by (cases "t = []") (simp_all add: b64_strip_def b64_padding_def)
  next
    assume "length t mod 4 = 2"
    moreover from this have "Suc (Suc (length t)) mod 4 = 0" by presburger
    ultimately show ?thesis by (simp add: b64_strip_def b64_padding_def butlast_append)
  next
    assume "length t mod 4 = 3"
    moreover from this have "Suc (length t) mod 4 = 0" "t \<noteq> []" by (presburger, auto)
    ultimately show ?thesis using last by (simp add: b64_strip_def b64_padding_def butlast_append)
  qed
qed

lemma atob_btoa: "atob (btoa s) = Inr s"
proof -
  let ?bs = "map of_char s :: nat list"
  let ?ss = "b64_sextets ?bs"
  let ?t = "map (\<lambda>n. b64_alphabet ! n) ?ss"
  have b: "\<forall>b \<in> set ?bs. b < 256" by auto
  have r: "\<forall>x \<in> set ?ss. x < 64" using b64_sextets_range [OF b] .
  have t: "set ?t \<subseteq> set b64_alphabet" using r b64_alphabet_simps(1) by auto
  have len: "length ?t mod 4 \<noteq> 1" using b64_sextets_length [of ?bs] by simp
  have f: "filter (\<lambda>c. c \<notin> {CHR '' '', CHR 0x09, CHR 0x0A, CHR 0x0C, CHR 0x0D}) (btoa s) = btoa s"
    using t b64_alphabet_simps(3) by (fastforce simp: btoa_def Let_def filter_id_conv b64_padding_def)
  have st: "b64_strip (btoa s) = ?t"
    using b64_strip_padding [OF t len] by (simp add: btoa_def Let_def)
  have v: "map (\<lambda>c. find_index ((=) c) b64_alphabet) ?t = map Some ?ss"
    using r b64_alphabet_simps(1,2) by (auto intro!: find_index_nth_distinct)
  show ?thesis
    using len by (simp only: atob_def Let_def f st v) (simp add: b64_bytes_sextets [OF b] comp_def)
qed

interpretation b64: readback btoa "\<lambda>t. case atob t of Inr s \<Rightarrow> s | Inl _ \<Rightarrow> []" "\<lambda>_. True"
  by unfold_locales (simp add: atob_btoa)

lemma of_to_binary_string [simp]: "of_binary_string (to_binary_string bs) = bs"
proof -
  have "of_char (char_of (unat b) :: char) = unat b" for b :: byte
  proof -
    have "unat b < 2 ^ LENGTH(8)" by (rule unsigned_less)
    then show ?thesis by simp
  qed
  then show ?thesis by (simp add: of_binary_string_def to_binary_string_def comp_def)
qed

interpretation binary_string: readback to_binary_string of_binary_string "\<lambda>_. True"
  by unfold_locales simp

text \<open>
  Binary messages survive the text transport of server-sent events: the client's \<open>atob\<close>
  accepts what \<open>encodeDataToString\<close> writes for any bytes and gives the same bytes back, whatever
  their number; so different messages have different texts.
\<close>

theorem encodeDataToString_roundtrip:
  "(\<exists>s. atob (encodeDataToString (OBytes u)) = Inr s \<and> of_binary_string s = u)
   \<and> (encodeDataToString (OBytes u) = encodeDataToString (OBytes u') \<longleftrightarrow> u = u')"
  using b64.ser_inject [of "to_binary_string u" "to_binary_string u'"]
    binary_string.ser_inject [of u u']
  by (simp add: encodeDataToString_def base64EncodeUint8Array_def atob_btoa)

section \<open>Incoming data\<close>

text \<open>\<open>IOther\<close> is any value that is none of the declared kinds, with its text.\<close>

datatype input_data =
    IStr string
  | IBlob bytes
  | IBuffer bytes
  | ITyped bytes
  | IOther string

definition getValueLength :: "input_data \<Rightarrow> js_err + nat" where
  "getValueLength v =
     (case v of
        IStr s \<Rightarrow> Inr (length s)
      | IBlob bs \<Rightarrow> Inr (length bs)
      | IBuffer bs \<Rightarrow> Inr (length bs)
      | ITyped bs \<Rightarrow> Inr (length bs)
      | IOther x \<Rightarrow> Inl (EError ''Error'' (''Unreachable case: '' @ x)))"

definition inputDataToBuffer :: "input_data \<Rightarrow> js_err + output_data" where
  "inputDataToBuffer v =
     (case v of
        IStr s \<Rightarrow> Inr (OStr s)
      | IBlob bs \<Rightarrow> Inr (OBytes bs)
      | IBuffer bs \<Rightarrow> Inr (OBytes bs)
      | ITyped bs \<Rightarrow> Inr (OBytes bs)
      | IOther x \<Rightarrow> Inl (EActor (MalformedMessage ''undefined'')))"

definition parseMessage ::
    "codec \<Rightarrow> jsval version_handler \<Rightarrow> encoding \<Rightarrow> nat \<Rightarrow> input_data \<Rightarrow> js_err + jsval" where
  "parseMessage c h e maxIncomingMessageSize value =
     (case getValueLength value of
        Inl x \<Rightarrow> Inl x
      | Inr len \<Rightarrow>
          if len > maxIncomingMessageSize then Inl (EActor MessageTooLong)
          else case inputDataToBuffer value of
              Inl x \<Rightarrow> Inl x
            | Inr buffer \<Rightarrow> deserializeWithEncoding c e buffer h)"

text \<open>Nothing longer than the limit reaches a decoder.\<close>

lemma parseMessage_limit:
  "getValueLength v = Inr n \<Longrightarrow> n > m \<Longrightarrow> parseMessage c h e m v = Inl (EActor MessageTooLong)"
  by (simp add: parseMessage_def)

end
