(* ===== verification/Persisted.thy ===== *)
theory Persisted
  imports Wire
begin

text \<open>
  What an actor keeps on disk: the objects of \<open>actor/persisted.ts\<close>, their BARE counterparts of the
  \<open>actor-persist\<close> schema, and the two conversions at the end of \<open>actor/instance.ts\<close>.

  Times are doubles in the code and rationals here; \<open>BigInt(t)\<close> throws a \<open>RangeError\<close> for a time
  that is not an integer.  An absent optional value is \<open>JUndef\<close>.
\<close>

section \<open>Persisted objects\<close>

record persisted_conn =
  pc_connId :: string
  pc_token :: string
  pc_connDriver :: string
  pc_connDriverState :: jsval
  pc_params :: jsval
  pc_state :: jsval
  pc_authData :: jsval
  pc_subscriptions :: "string list"
  pc_lastSeen :: rat

record sched_event =
  se_eventId :: string
  se_timestamp :: rat
  se_actionName :: string
  se_args :: "bytes option"

record persisted_actor =
  pa_input :: jsval
  pa_hasInitiated :: bool
  pa_state :: jsval
  pa_connections :: "persisted_conn list"
  pa_scheduledEvents :: "sched_event list"

section \<open>The BARE schema\<close>

record bare_conn =
  bc_id :: string
  bc_token :: string
  bc_driver :: string
  bc_driverState :: bytes
  bc_parameters :: bytes
  bc_state :: bytes
  bc_auth :: "bytes option"
  bc_subscriptions :: "string list"
  bc_lastSeen :: int

record bare_event =
  be_eventId :: string
  be_timestamp :: int
  be_action :: string
  be_args :: "bytes option"

record bare_actor =
  ba_input :: "bytes option"
  ba_hasInitialized :: bool
  ba_state :: bytes
  ba_connections :: "bare_conn list"
  ba_scheduledEvents :: "bare_event list"

section \<open>Conversions\<close>

definition js_BigInt :: "rat \<Rightarrow> js_err + int" where
  "js_BigInt q =
     (case to_bigint q of
        Some i \<Rightarrow> Inr i
      | None \<Rightarrow> Inl (EError ''RangeError'' ''The number cannot be converted to a BigInt because it is not an integer''))"

definition encode_defined :: "codec \<Rightarrow> jsval \<Rightarrow> js_err + bytes option" where
  "encode_defined c v =
     (if v \<noteq> JUndef then andThen (cd_cbor_encode c v) (\<lambda>bs. Inr (Some bs)) else Inr None)"

definition decode_present :: "codec \<Rightarrow> bytes option \<Rightarrow> js_err + jsval" where
  "decode_present c b = (case b of Some bs \<Rightarrow> cd_cbor_decode c bs | None \<Rightarrow> Inr JUndef)"

definition conn_to_bare :: "codec \<Rightarrow> persisted_conn \<Rightarrow> js_err + bare_conn" where
  "conn_to_bare c conn =
     andThen (cd_cbor_encode c (js_or (pc_connDriverState conn) (JObj []))) (\<lambda>driverState.
     andThen (cd_cbor_encode c (js_or (pc_params conn) (JObj []))) (\<lambda>parameters.
     andThen (cd_cbor_encode c (js_or (pc_state conn) (JObj []))) (\<lambda>state.
     andThen (encode_defined c (pc_authData conn)) (\<lambda>auth.
     andThen (js_BigInt (pc_lastSeen conn)) (\<lambda>lastSeen.
       Inr \<lparr>bc_id = pc_connId conn, bc_token = pc_token conn, bc_driver = pc_connDriver conn,
            bc_driverState = driverState, bc_parameters = parameters, bc_state = state,
            bc_auth = auth, bc_subscriptions = pc_subscriptions conn, bc_lastSeen = lastSeen\<rparr>)))))"

definition event_to_bare :: "sched_event \<Rightarrow> js_err + bare_event" where
  "event_to_bare ev =
     andThen (js_BigInt (se_timestamp ev)) (\<lambda>timestamp.
       Inr \<lparr>be_eventId = se_eventId ev, be_timestamp = timestamp,
            be_action = se_actionName ev, be_args = se_args ev\<rparr>)"

definition convertToBarePersisted :: "codec \<Rightarrow> persisted_actor \<Rightarrow> js_err + bare_actor" where
  "convertToBarePersisted c persist =
     andThen (encode_defined c (pa_input persist)) (\<lambda>input.
     andThen (cd_cbor_encode c (pa_state persist)) (\<lambda>state.
     andThen (map_throw (conn_to_bare c) (pa_connections persist)) (\<lambda>conns.
     andThen (map_throw event_to_bare (pa_scheduledEvents persist)) (\<lambda>events.
       Inr \<lparr>ba_input = input, ba_hasInitialized = pa_hasInitiated persist, ba_state = state,
            ba_connections = conns, ba_scheduledEvents = events\<rparr>))))"

definition conn_from_bare :: "codec \<Rightarrow> bare_conn \<Rightarrow> js_err + persisted_conn" where
  "conn_from_bare c b =
     andThen (cd_cbor_decode c (bc_driverState b)) (\<lambda>driverState.
     andThen (cd_cbor_decode c (bc_parameters b)) (\<lambda>params.
     andThen (cd_cbor_decode c (bc_state b)) (\<lambda>state.
     andThen (decode_present c (bc_auth b)) (\<lambda>auth.
       Inr \<lparr>pc_connId = bc_id b, pc_token = bc_token b, pc_connDriver = bc_driver b,
            pc_connDriverState = driverState, pc_params = params, pc_state = state,
            pc_authData = auth, pc_subscriptions = bc_subscriptions b,
            pc_lastSeen = of_int (bc_lastSeen b)\<rparr>))))"

definition event_from_bare :: "bare_event \<Rightarrow> sched_event" where
  "event_from_bare b =
     \<lparr>se_eventId = be_eventId b, se_timestamp = of_int (be_timestamp b),
      se_actionName = be_action b, se_args = be_args b\<rparr>"

definition convertFromBarePersisted :: "codec \<Rightarrow> bare_actor \<Rightarrow> js_err + persisted_actor" where
  "convertFromBarePersisted c b =
     andThen (decode_present c (ba_input b)) (\<lambda>input.
     andThen (cd_cbor_decode c (ba_state b)) (\<lambda>state.
     andThen (map_throw (conn_from_bare c) (ba_connections b)) (\<lambda>conns.
       Inr \<lparr>pa_input = input, pa_hasInitiated = ba_hasInitialized b, pa_state = state,
            pa_connections = conns,
            pa_scheduledEvents = map event_from_bare (ba_scheduledEvents b)\<rparr>)))"

section \<open>What survives a write and a read\<close>

text \<open>The value survives \<open>cbor-x\<close>.\<close>

definition cbor_keeps :: "codec \<Rightarrow> jsval \<Rightarrow> bool" where
  "cbor_keeps c v = (\<exists>bs. cd_cbor_encode c v = Inr bs \<and> cd_cbor_decode c bs = Inr v)"

definition conn_values :: "persisted_conn \<Rightarrow> jsval set" where
  "conn_values conn = {js_or (pc_connDriverState conn) (JObj []), js_or (pc_params conn) (JObj []),
     js_or (pc_state conn) (JObj [])} \<union> {v. v = pc_authData conn \<and> v \<noteq> JUndef}"

definition persisted_values :: "persisted_actor \<Rightarrow> jsval set" where
  "persisted_values p = {v. v = pa_input p \<and> v \<noteq> JUndef} \<union> {pa_state p}
     \<union> (\<Union>conn \<in> set (pa_connections p). conn_values conn)"

definition integral :: "rat \<Rightarrow> bool" where
  "integral q = (to_bigint q \<noteq> None)"

definition stored_conn :: "persisted_conn \<Rightarrow> persisted_conn" where
  "stored_conn conn = conn\<lparr>pc_connDriverState := js_or (pc_connDriverState conn) (JObj []),
     pc_params := js_or (pc_params conn) (JObj []), pc_state := js_or (pc_state conn) (JObj [])\<rparr>"

definition stored :: "persisted_actor \<Rightarrow> persisted_actor" where
  "stored p = p\<lparr>pa_connections := map stored_conn (pa_connections p)\<rparr>"

lemma encode_defined_keeps:
  "v \<noteq> JUndef \<longrightarrow> cbor_keeps c v \<Longrightarrow> \<exists>b. encode_defined c v = Inr b \<and> decode_present c b = Inr v"
  by (cases "v = JUndef") (auto simp: encode_defined_def decode_present_def cbor_keeps_def)

lemma event_roundtrip: "event_to_bare ev = Inr b \<Longrightarrow> event_from_bare b = ev"
  by (auto simp: event_to_bare_def event_from_bare_def andThen_Inr js_BigInt_def to_bigint_Some
      split: option.splits)

lemma events_roundtrip: "map_throw event_to_bare es = Inr bs \<Longrightarrow> map event_from_bare bs = es"
  by (induction es arbitrary: bs) (auto simp: andThen_Inr event_roundtrip)

lemma js_BigInt_ok: "(\<exists>i. js_BigInt q = Inr i) \<longleftrightarrow> integral q"
  by (auto simp: js_BigInt_def integral_def split: option.splits)

lemma event_ok: "(\<exists>b. event_to_bare ev = Inr b) \<longleftrightarrow> integral (se_timestamp ev)"
  unfolding js_BigInt_ok [symmetric] by (auto simp: event_to_bare_def andThen_Inr)

lemma conn_roundtrip:
  assumes "\<forall>v \<in> conn_values conn. cbor_keeps c v"
  shows "(\<exists>b. conn_to_bare c conn = Inr b) \<longleftrightarrow> integral (pc_lastSeen conn)"
    and "conn_to_bare c conn = Inr b \<Longrightarrow> conn_from_bare c b = Inr (stored_conn conn)"
proof -
  have "cbor_keeps c (js_or (pc_connDriverState conn) (JObj []))"
    "cbor_keeps c (js_or (pc_params conn) (JObj []))" "cbor_keeps c (js_or (pc_state conn) (JObj []))"
    "pc_authData conn \<noteq> JUndef \<longrightarrow> cbor_keeps c (pc_authData conn)"
    using assms by (auto simp: conn_values_def)
  then obtain d p s a where eqs: "cd_cbor_encode c (js_or (pc_connDriverState conn) (JObj [])) = Inr d"
    "cd_cbor_decode c d = Inr (js_or (pc_connDriverState conn) (JObj []))"
    "cd_cbor_encode c (js_or (pc_params conn) (JObj [])) = Inr p"
    "cd_cbor_decode c p = Inr (js_or (pc_params conn) (JObj []))"
    "cd_cbor_encode c (js_or (pc_state conn) (JObj [])) = Inr s"
    "cd_cbor_decode c s = Inr (js_or (pc_state conn) (JObj []))"
    "encode_defined c (pc_authData conn) = Inr a" "decode_present c a = Inr (pc_authData conn)"
    using encode_defined_keeps [of "pc_authData conn" c] by (auto simp: cbor_keeps_def)
  show "(\<exists>b. conn_to_bare c conn = Inr b) \<longleftrightarrow> integral (pc_lastSeen conn)"
    unfolding js_BigInt_ok [symmetric] by (auto simp: conn_to_bare_def eqs andThen_Inr)
  show "conn_to_bare c conn = Inr b \<Longrightarrow> conn_from_bare c b = Inr (stored_conn conn)"
    by (auto simp: conn_to_bare_def conn_from_bare_def eqs andThen_Inr stored_conn_def js_BigInt_def
        to_bigint_Some split: option.splits)
qed

text \<open>
  C26.  Writing an actor's persisted object and reading it back: with values the CBOR codec keeps,
  the conversion to the BARE schema succeeds exactly when every last-seen time and every schedule
  timestamp is an integer, and reading the result back gives the same object except that falsy
  connection parameters, connection states and driver states come back as the empty object.
\<close>

theorem persisted_roundtrip:
  assumes keeps: "\<forall>v \<in> persisted_values p. cbor_keeps c v"
  shows "((\<exists>b. convertToBarePersisted c p = Inr b) \<longleftrightarrow>
      (\<forall>conn \<in> set (pa_connections p). integral (pc_lastSeen conn))
      \<and> (\<forall>ev \<in> set (pa_scheduledEvents p). integral (se_timestamp ev)))
    \<and> (\<forall>b. convertToBarePersisted c p = Inr b \<longrightarrow> convertFromBarePersisted c b = Inr (stored p))"
proof -
  have i: "pa_input p \<noteq> JUndef \<longrightarrow> cbor_keeps c (pa_input p)" and "cbor_keeps c (pa_state p)"
    and conns: "\<And>conn. conn \<in> set (pa_connections p) \<Longrightarrow> \<forall>v \<in> conn_values conn. cbor_keeps c v"
    using keeps by (auto simp: persisted_values_def)
  then obtain inp st where eqs: "encode_defined c (pa_input p) = Inr inp"
    "decode_present c inp = Inr (pa_input p)" "cd_cbor_encode c (pa_state p) = Inr st"
    "cd_cbor_decode c st = Inr (pa_state p)"
    using encode_defined_keeps [OF i] by (auto simp: cbor_keeps_def)
  have cs: "(\<exists>bs. map_throw (conn_to_bare c) (pa_connections p) = Inr bs)
      \<longleftrightarrow> (\<forall>conn \<in> set (pa_connections p). integral (pc_lastSeen conn))"
    using conn_roundtrip(1) [OF conns] map_throw_total map_throw_InrD by metis
  have es: "(\<exists>bs. map_throw event_to_bare (pa_scheduledEvents p) = Inr bs)
      \<longleftrightarrow> (\<forall>ev \<in> set (pa_scheduledEvents p). integral (se_timestamp ev))"
    using event_ok map_throw_total map_throw_InrD by metis
  have cr: "map_throw (conn_to_bare c) (pa_connections p) = Inr bs \<Longrightarrow>
      map_throw (conn_from_bare c) bs = Inr (map stored_conn (pa_connections p))" for bs
    by (rule map_throw_roundtrip) (auto intro: conn_roundtrip(2) [OF conns])
  have "(\<exists>b. convertToBarePersisted c p = Inr b) \<longleftrightarrow>
      (\<exists>bs. map_throw (conn_to_bare c) (pa_connections p) = Inr bs)
      \<and> (\<exists>bs. map_throw event_to_bare (pa_scheduledEvents p) = Inr bs)"
    by (auto simp: convertToBarePersisted_def eqs andThen_Inr)
  moreover have "convertToBarePersisted c p = Inr b \<Longrightarrow> convertFromBarePersisted c b = Inr (stored p)" for b
    by (auto simp: convertToBarePersisted_def convertFromBarePersisted_def eqs andThen_Inr cr
        events_roundtrip stored_def)
  ultimately show ?thesis using cs es by blast
qed

text \<open>What the code relies on of \<open>cbor-x\<close>: a value it encodes without an error is decoded to itself.\<close>

definition cbor_faithful :: "codec \<Rightarrow> bool" where
  "cbor_faithful c = (\<forall>v bs. cd_cbor_encode c v = Inr bs \<longrightarrow> cd_cbor_decode c bs = Inr v)"

lemma faithful_defined: "cbor_faithful c \<Longrightarrow> encode_defined c v = Inr b \<Longrightarrow> decode_present c b = Inr v"
  by (cases "v = JUndef") (auto simp: cbor_faithful_def encode_defined_def decode_present_def andThen_Inr)

lemma faithful_conn:
  assumes f: "cbor_faithful c" and "conn_to_bare c conn = Inr b"
  shows "conn_from_bare c b = Inr (stored_conn conn)"
proof -
  have dec: "cd_cbor_encode c v = Inr bs \<Longrightarrow> cd_cbor_decode c bs = Inr v" for v bs
    using f by (simp add: cbor_faithful_def)
  show ?thesis
    using assms(2) by (auto simp: conn_to_bare_def conn_from_bare_def andThen_Inr stored_conn_def
        js_BigInt_def to_bigint_Some dec faithful_defined [OF f] split: option.splits)
qed

lemma faithful_persisted:
  assumes f: "cbor_faithful c" and "convertToBarePersisted c p = Inr b"
  shows "convertFromBarePersisted c b = Inr (stored p)"
proof -
  have dec: "cd_cbor_encode c v = Inr bs \<Longrightarrow> cd_cbor_decode c bs = Inr v" for v bs
    using f by (simp add: cbor_faithful_def)
  have conns: "map_throw (conn_to_bare c) ps = Inr bs \<Longrightarrow> map_throw (conn_from_bare c) bs = Inr (map stored_conn ps)" for ps bs
    by (rule map_throw_roundtrip) (auto intro: faithful_conn [OF f])
  show ?thesis
    using assms(2) by (auto simp: convertToBarePersisted_def convertFromBarePersisted_def andThen_Inr
        dec faithful_defined [OF f] conns events_roundtrip stored_def)
qed

text \<open>A codec for examples: it knows three values.\<close>

definition tiny_codec :: codec where
  "tiny_codec = \<lparr>cd_json_text = (\<lambda>_. []), cd_json_parse = (\<lambda>_. Inr JsNull), cd_iso = (\<lambda>_. []),
     cd_utf8 = (\<lambda>_. []),
     cd_cbor_encode = (\<lambda>v. if v = JObj [] then Inr [160] else if v = JUndef then Inr [247]
       else if v = JNull then Inr [246] else Inl (EError ''Error'' ''Unknown type'')),
     cd_cbor_decode = (\<lambda>b. if b = [160] then Inr (JObj []) else if b = [247] then Inr JUndef
       else if b = [246] then Inr JNull else Inl (EError ''Error'' ''Unexpected end of CBOR data''))\<rparr>"

lemma tiny_codec_faithful: "cbor_faithful tiny_codec"
  by (auto simp: cbor_faithful_def tiny_codec_def split: if_splits)

theorem persisted_roundtrip_witness:
  "convertFromBarePersisted tiny_codec
     \<lparr>ba_input = None, ba_hasInitialized = True, ba_state = [160],
      ba_connections = [\<lparr>bc_id = ''c'', bc_token = ''t'', bc_driver = ''sse'', bc_driverState = [160],
        bc_parameters = [160], bc_state = [160], bc_auth = None, bc_subscriptions = [''e''], bc_lastSeen = 5\<rparr>],
      ba_scheduledEvents = []\<rparr>
   = Inr (stored \<lparr>pa_input = JUndef, pa_hasInitiated = True, pa_state = JObj [],
      pa_connections = [\<lparr>pc_connId = ''c'', pc_token = ''t'', pc_connDriver = ''sse'',
        pc_connDriverState = JUndef, pc_params = JNull, pc_state = JUndef, pc_authData = JUndef,
        pc_subscriptions = [''e''], pc_lastSeen = 5\<rparr>],
      pa_scheduledEvents = []\<rparr>)"
proof -
  let ?p = "\<lparr>pa_input = JUndef, pa_hasInitiated = True, pa_state = JObj [],
      pa_connections = [\<lparr>pc_connId = ''c'', pc_token = ''t'', pc_connDriver = ''sse'',
        pc_connDriverState = JUndef, pc_params = JNull, pc_state = JUndef, pc_authData = JUndef,
        pc_subscriptions = [''e''], pc_lastSeen = 5\<rparr>],
      pa_scheduledEvents = []\<rparr>"
  have five: "to_bigint 5 = Some 5" by (simp add: to_bigint_Some)
  have "\<forall>v \<in> persisted_values ?p. cbor_keeps tiny_codec v"
    by (simp add: persisted_values_def conn_values_def cbor_keeps_def tiny_codec_def)
  from persisted_roundtrip [OF this] show ?thesis
    by (simp add: convertToBarePersisted_def conn_to_bare_def encode_defined_def tiny_codec_def
        js_BigInt_def five)
qed

end
