(* ===== verification/Conn.thy ===== *)
theory Conn
  imports Persisted
begin

text \<open>
  Connections and how messages reach them: \<open>Conn\<close> of \<open>actor/connection.ts\<close>, the WebSocket, SSE and
  HTTP drivers of \<open>actor/generic-conn-driver.ts\<close>, and the messages of the client protocol with the
  reading of a request in \<open>processMessage\<close> (\<open>actor/protocol/old.ts\<close>).

  Sockets and streams are outside the model: what the code asks of them is recorded as effects, and
  what it looks at (is there one, its ready state) is the state \<open>generic_state\<close>.
\<close>

section \<open>Effects\<close>

datatype inspector_event =
    StateUpdated
  | ConnectionUpdated
  | FiredAction string jsval string
  | FiredSubscribe string string
  | FiredUnsubscribe string string
  | FiredBroadcast string "jsval list"
  | FiredEvent string "jsval list" string

datatype effect =
    WsSend string output_data
  | WsClose string nat "string option"
  | SseWrite string string
  | SseClose string
  | DriverSetAlarm rat
  | DriverSleep
  | Inspect inspector_event
  | HttpActionResult nat "js_err + jsval"
  | HttpFetchResult "js_err + jsval"
  | MessageFailed js_err

text \<open>The last three carry results to the caller of a handler: of an action run for an HTTP
  request, of \<open>onFetch\<close>, and the error with which \<open>processMessage\<close> itself rejects.\<close>

section \<open>Driver state\<close>

datatype ready_state = RsUnknown | RsConnecting | RsOpen | RsClosing | RsClosed

text \<open>A registered WebSocket: \<open>None\<close> when \<open>ws.raw\<close> does not exist.\<close>

type_synonym ws_context = "ready_state option"

record sse_stream =
  sse_aborted :: bool
  sse_closed :: bool

record generic_state =
  g_websockets :: "(string \<times> ws_context) list"
  g_sseStreams :: "(string \<times> sse_stream) list"

datatype conn_driver = WebSocketDriver | SseDriver | HttpDriver

text \<open>\<open>connectionDrivers[driverId]\<close> on the map of \<open>createGenericConnDrivers\<close>.\<close>

definition getConnDriver :: "string \<Rightarrow> js_err + conn_driver" where
  "getConnDriver driverId =
     (if driverId = ''webSocket'' then Inr WebSocketDriver
      else if driverId = ''sse'' then Inr SseDriver
      else if driverId = ''http'' then Inr HttpDriver
      else Inl (EError ''Error'' (''No connection driver: '' @ driverId)))"

section \<open>Conn\<close>

datatype conn_status = Connected | Reconnecting

record conn =
  c_persist :: persisted_conn
  c_driver :: conn_driver
  c_stateEnabled :: bool
  c_status :: conn_status
  c_subscriptions :: "string list"

definition new_Conn :: "persisted_conn \<Rightarrow> conn_driver \<Rightarrow> bool \<Rightarrow> conn" where
  "new_Conn persist driver stateEnabled =
     \<lparr>c_persist = persist, c_driver = driver, c_stateEnabled = stateEnabled,
      c_status = Connected, c_subscriptions = []\<rparr>"

definition conn_id :: "conn \<Rightarrow> string" where
  "conn_id c = pc_connId (c_persist c)"

definition conn_get_state :: "conn \<Rightarrow> js_err + jsval" where
  "conn_get_state c =
     (if \<not> c_stateEnabled c then Inl (EActor ConnStateNotEnabled)
      else if \<not> truthy (pc_state (c_persist c)) then Inl (EError ''Error'' ''state should exists'')
      else Inr (pc_state (c_persist c)))"

definition conn_set_state :: "jsval \<Rightarrow> conn \<Rightarrow> js_err + conn" where
  "conn_set_state v c =
     (if \<not> c_stateEnabled c then Inl (EActor ConnStateNotEnabled)
      else Inr (c\<lparr>c_persist := (c_persist c)\<lparr>pc_state := v\<rparr>\<rparr>))"

text \<open>\<open>state.encoding\<close> of the driver state, as \<open>serializeWithEncoding\<close> takes it.\<close>

definition driver_encoding :: "jsval \<Rightarrow> js_err + encoding" where
  "driver_encoding st =
     (if nullish st then Inl TypeError
      else if obj_get st ''encoding'' = JStr ''json'' then Inr Json
      else if obj_get st ''encoding'' = JStr ''cbor'' then Inr Cbor
      else if obj_get st ''encoding'' = JStr ''bare'' then Inr Bare
      else Inl (EError ''Error'' ''Unreachable case''))"

text \<open>A serialization that is undefined: the WebSocket driver reads a property of it, the SSE driver
  hands it to \<open>assertUnreachable\<close>.\<close>

definition driver_sendMessage ::
    "codec \<Rightarrow> generic_state \<Rightarrow> conn \<Rightarrow> cached_serializer \<Rightarrow> (js_err + effect list) \<times> cached_serializer" where
  "driver_sendMessage cd g c m =
     (case c_driver c of
        WebSocketDriver \<Rightarrow>
          (case jm_get (g_websockets g) (conn_id c) of
             None \<Rightarrow> (Inr [], m)
           | Some ws \<Rightarrow>
               (case driver_encoding (pc_connDriverState (c_persist c)) of
                  Inl e \<Rightarrow> (Inl e, m)
                | Inr enc \<Rightarrow>
                    (case cs_serialize cd enc m of
                       (Inl e, m') \<Rightarrow> (Inl e, m')
                     | (Inr None, m') \<Rightarrow> (Inl TypeError, m')
                     | (Inr (Some d), m') \<Rightarrow> (Inr [WsSend (conn_id c) d], m'))))
      | SseDriver \<Rightarrow>
          (case jm_get (g_sseStreams g) (conn_id c) of
             None \<Rightarrow> (Inr [], m)
           | Some st \<Rightarrow>
               (case driver_encoding (pc_connDriverState (c_persist c)) of
                  Inl e \<Rightarrow> (Inl e, m)
                | Inr enc \<Rightarrow>
                    (case cs_serialize cd enc m of
                       (Inl e, m') \<Rightarrow> (Inl e, m')
                     | (Inr None, m') \<Rightarrow> (Inl (EError ''Error'' ''Unreachable case: undefined''), m')
                     | (Inr (Some d), m') \<Rightarrow> (Inr [SseWrite (conn_id c) (encodeDataToString d)], m'))))
      | HttpDriver \<Rightarrow> (Inr [], m))"

definition driver_disconnect :: "generic_state \<Rightarrow> conn \<Rightarrow> string option \<Rightarrow> effect list" where
  "driver_disconnect g c reason =
     (case c_driver c of
        WebSocketDriver \<Rightarrow>
          (case jm_get (g_websockets g) (conn_id c) of
             Some (Some _) \<Rightarrow> [WsClose (conn_id c) 1000 reason]
           | _ \<Rightarrow> [])
      | SseDriver \<Rightarrow>
          (case jm_get (g_sseStreams g) (conn_id c) of
             Some _ \<Rightarrow> [SseClose (conn_id c)]
           | None \<Rightarrow> [])
      | HttpDriver \<Rightarrow> [])"

definition driver_readyState :: "generic_state \<Rightarrow> conn \<Rightarrow> js_err + ready_state option" where
  "driver_readyState g c =
     (case c_driver c of
        WebSocketDriver \<Rightarrow>
          (case jm_get (g_websockets g) (conn_id c) of
             None \<Rightarrow> Inr None
           | Some None \<Rightarrow> Inl TypeError
           | Some (Some r) \<Rightarrow> Inr (Some r))
      | SseDriver \<Rightarrow>
          (case jm_get (g_sseStreams g) (conn_id c) of
             None \<Rightarrow> Inr None
           | Some st \<Rightarrow> Inr (Some (if sse_aborted st \<or> sse_closed st then RsClosed else RsOpen)))
      | HttpDriver \<Rightarrow> Inr (Some RsOpen))"

definition conn_disconnect :: "generic_state \<Rightarrow> string option \<Rightarrow> conn \<Rightarrow> effect list \<times> conn" where
  "conn_disconnect g reason c =
     (let c' = c\<lparr>c_status := Reconnecting\<rparr> in (driver_disconnect g c' reason, c'))"

definition conn_checkLiveness :: "generic_state \<Rightarrow> rat \<Rightarrow> conn \<Rightarrow> js_err + conn" where
  "conn_checkLiveness g now c =
     andThen (driver_readyState g c) (\<lambda>readyState.
       let isConnectionClosed = (readyState = Some RsClosed \<or> readyState = Some RsClosing \<or> readyState = None);
           c1 = (if \<not> isConnectionClosed then c\<lparr>c_persist := (c_persist c)\<lparr>pc_lastSeen := now\<rparr>\<rparr> else c)
       in Inr (c1\<lparr>c_status := (if isConnectionClosed then Reconnecting else Connected)\<rparr>))"

section \<open>Messages to clients\<close>

definition msg :: "string \<Rightarrow> (string \<times> jsval) list \<Rightarrow> jsval" where
  "msg tag val = JObj [(''body'', JObj [(''tag'', JStr tag), (''val'', JObj val)])]"

definition init_message :: "string \<Rightarrow> conn \<Rightarrow> jsval" where
  "init_message actorId c =
     msg ''Init'' [(''actorId'', JStr actorId), (''connectionId'', JStr (conn_id c)),
                 (''connectionToken'', JStr (pc_token (c_persist c)))]"

definition event_message :: "codec \<Rightarrow> string \<Rightarrow> jsval list \<Rightarrow> js_err + jsval" where
  "event_message cd name args =
     andThen (cd_cbor_encode cd (JArr args)) (\<lambda>b.
       Inr (msg ''Event'' [(''name'', JStr name), (''args'', JBuffer b)]))"

definition action_response :: "codec \<Rightarrow> jsval \<Rightarrow> jsval \<Rightarrow> js_err + jsval" where
  "action_response cd actionId output =
     andThen (cd_cbor_encode cd output) (\<lambda>b.
       Inr (msg ''ActionResponse'' [(''id'', actionId), (''output'', JBuffer b)]))"

text \<open>\<open>actionId ?? null\<close> of the error response.\<close>

definition error_message :: "codec \<Rightarrow> deconstructed \<Rightarrow> jsval \<Rightarrow> js_err + jsval" where
  "error_message cd d actionId =
     andThen (cd_cbor_encode cd (de_metadata d)) (\<lambda>b.
       Inr (msg ''Error'' [(''code'', JStr (de_code d)), (''message'', JStr (de_message d)),
                         (''metadata'', JBuffer b),
                         (''actionId'', if nullish actionId then JNull else actionId)]))"

section \<open>Messages from clients\<close>

text \<open>Decoded messages are not validated: a property of null or undefined throws.\<close>

definition read_prop :: "jsval \<Rightarrow> string \<Rightarrow> js_err + jsval" where
  "read_prop v k = (if nullish v then Inl TypeError else Inr (obj_get v k))"

text \<open>\<open>new Uint8Array(x)\<close>: a copy of binary data, nothing for an object without a length (what
  JSON makes of an \<open>ArrayBuffer\<close>); other values are left to the parameter \<open>u8\<close>.\<close>

definition to_Uint8Array :: "(jsval \<Rightarrow> js_err + bytes) \<Rightarrow> jsval \<Rightarrow> js_err + bytes" where
  "to_Uint8Array u8 v =
     (case v of
        JBuffer b \<Rightarrow> Inr b
      | JTyped b \<Rightarrow> Inr b
      | JObj kvs \<Rightarrow> if map_of kvs ''length'' = None then Inr [] else u8 v
      | _ \<Rightarrow> u8 v)"

text \<open>The spread \<open>...args\<close>.\<close>

definition spread_args :: "jsval \<Rightarrow> js_err + jsval list" where
  "spread_args v =
     (case v of
        JArr xs \<Rightarrow> Inr xs
      | JSet xs \<Rightarrow> Inr xs
      | JStr s \<Rightarrow> Inr (map (\<lambda>c. JStr [c]) s)
      | JTyped bs \<Rightarrow> Inr (map (\<lambda>b. JNum (Fin (of_nat (unat b)))) bs)
      | JMap es \<Rightarrow> Inr (map (\<lambda>(k, x). JArr [k, x]) es)
      | _ \<Rightarrow> Inl (EError ''TypeError'' ''Spread syntax requires ...iterable[Symbol.iterator] to be a function''))"

datatype request =
    ReqAction jsval jsval jsval
  | ReqSubscription jsval bool

text \<open>The part of \<open>processMessage\<close> before a handler is called: the action id that the error response
  will name, and the request or the error thrown while reading it.\<close>

definition read_request :: "codec \<Rightarrow> (jsval \<Rightarrow> js_err + bytes) \<Rightarrow> jsval \<Rightarrow> jsval \<times> (js_err + request)" where
  "read_request cd u8 message =
     (case andThen (read_prop message ''body'') (\<lambda>body. andThen (read_prop body ''tag'') (\<lambda>tag. Inr (body, tag))) of
        Inl e \<Rightarrow> (JUndef, Inl e)
      | Inr (body, tag) \<Rightarrow>
          if tag = JStr ''ActionRequest'' then
            (let val = obj_get body ''val'' in
             if nullish val then (JUndef, Inl TypeError)
             else (obj_get val ''id'',
                   andThen (to_Uint8Array u8 (obj_get val ''args'')) (\<lambda>argsRaw.
                   andThen (cd_cbor_decode cd argsRaw) (\<lambda>args.
                     Inr (ReqAction (obj_get val ''id'') (obj_get val ''name'') args)))))
          else if tag = JStr ''SubscriptionRequest'' then
            (let val = obj_get body ''val'' in
             if nullish val then (JUndef, Inl TypeError)
             else (JUndef, Inr (ReqSubscription (obj_get val ''eventName'') (truthy (obj_get val ''subscribe'')))))
          else (JUndef, Inl (EError ''Error'' ''Unreachable case: [object Object]'')))"

section \<open>The JSON encoding of binary fields\<close>

lemma json_view_buffer [simp]: "json_view dt (JBuffer b) = Some (JsObj [])"
  by (simp add: json_view.simps)

lemma json_view_obj: "json_view dt (JObj kvs) =
    Some (JsObj (concat (map (\<lambda>(k, x). case json_view dt x of None \<Rightarrow> [] | Some j \<Rightarrow> [(k, j)]) kvs)))"
  by (simp add: json_view.simps)

lemma response_json:
  assumes "action_response cd i v = Inr m" and "action_response cd i w = Inr m'"
  shows "json_view dt m = json_view dt m'"
  using assms by (auto simp: action_response_def andThen_Inr msg_def json_view_obj)

text \<open>
  A connection that uses the JSON encoding loses the payload of every action response: the
  output travels as an \<open>ArrayBuffer\<close>, which \<open>JSON.stringify\<close> writes as an empty object, so the texts
  of two responses to the same request are equal whatever the two outputs are.
\<close>

theorem json_response_payload_lost:
  assumes "action_response cd i v = Inr m" and "action_response cd i w = Inr m'"
  shows "serializeWithEncoding cd Json m h = serializeWithEncoding cd Json m' h"
  using response_json [OF assms] by (simp add: serializeWithEncoding_def jsonStringifyCompat_def)

theorem json_response_payload_lost_witness:
  "\<forall>h. serializeWithEncoding tiny_codec Json
      (msg ''ActionResponse'' [(''id'', JBig 1), (''output'', JBuffer [160])]) h
   = serializeWithEncoding tiny_codec Json
      (msg ''ActionResponse'' [(''id'', JBig 1), (''output'', JBuffer [246])]) h"
  by (intro allI json_response_payload_lost [of tiny_codec "JBig 1" "JObj []" _ "JNull"])
    (simp_all add: action_response_def tiny_codec_def)

end
