(* ===== verification/ActorState.thy ===== *)
theory ActorState
  imports Conn AsyncUtils CborCheck
begin

text \<open>
  The state of an \<open>ActorInstance\<close> (\<open>actor/instance.ts\<close>) and the operations that touch only it:
  saving, alarms, the schedule, the sleep timer, subscriptions and the removal of connections.
  User code and the handlers that call it are in theory \<open>ActorRun\<close>.

  Connection objects live in a heap and are named by their index, because the code keeps one object
  in three places: the connection map, the subscription index and, through \<open>__persist\<close>, the
  persisted object's connection list.  \<open>now\<close> is what \<open>Date.now()\<close> returns during the operation.
\<close>

section \<open>The instance\<close>

datatype promise_state = Unresolved | Resolved

text \<open>
  What the persist write queue's operation is doing: \<open>WriteFailed\<close> once it has thrown before reaching
  the driver, \<open>Writing\<close> while \<open>writePersistedData\<close> has the bytes.
\<close>

datatype write_op = WriteFailed | Writing bare_actor bytes

text \<open>A timer handle: when it is due, and whether it is still armed (\<open>clearTimeout\<close> disarms it and
  leaves the handle in its field).\<close>

type_synonym timer = "rat \<times> bool"

text \<open>An action whose promise has not settled: its connection, where the result goes (a message with
  the request's id, or the HTTP handler that called \<open>executeAction\<close>), its name and arguments.\<close>

datatype reply = ReplyMessage jsval | ReplyHttp

record running_action =
  ra_conn :: nat
  ra_reply :: reply
  ra_name :: string
  ra_args :: "jsval list"

text \<open>
  Field by field the private fields of the class.  \<open>a_input\<close>, \<open>a_hasInitiated\<close>, \<open>a_state\<close>,
  \<open>a_pconns\<close>, \<open>a_events\<close> are the fields of \<open>#persistRaw\<close>.  \<open>a_saveWaiters\<close> are the write cycles that
  \<open>#savePersistInner\<close> calls await.  \<open>a_actions\<close> are the running actions.  \<open>a_disk\<close> is what the driver last stored and \<open>a_out\<close> what the code did to the
  outside.  \<open>a_stale\<close> is no field of the class: it records that a change of the state went neither
  to the dirty flag nor to a write, because the write failed or the change was rejected.
\<close>

record actor =
  a_id :: string
  a_sleepCalled :: bool
  a_stopCalled :: bool
  a_persistChanged :: bool
  a_isInOnStateChange :: bool
  a_ready :: bool
  a_input :: jsval
  a_hasInitiated :: bool
  a_state :: jsval
  a_pconns :: "nat list"
  a_events :: "sched_event list"
  a_heap :: "conn list"
  a_connections :: "(string \<times> nat) list"
  a_subIndex :: "(string \<times> nat list) list"
  a_generic :: generic_state
  a_writeQ :: "unit spq"
  a_writing :: "write_op option"
  a_saveWaiters :: "nat list"
  a_alarmQ :: "rat spq"
  a_lastSaveTime :: rat
  a_pendingSave :: "timer option"
  a_onPersistSaved :: "promise_state option"
  a_vars :: "jsval option"
  a_db :: bool
  a_background :: "nat list"
  a_sleepTimeout :: "timer option"
  a_fetchCount :: nat
  a_rawWebSockets :: "nat list"
  a_livenessInterval :: bool
  a_aborted :: bool
  a_actions :: "(nat \<times> running_action) list"
  a_nextAction :: nat
  a_disk :: "bytes option"
  a_stale :: bool
  a_out :: "effect list"

definition isStopping :: "actor \<Rightarrow> bool" where
  "isStopping a = (a_stopCalled a \<or> a_sleepCalled a)"

text \<open>What surrounds the instance: codecs, generated coders, \<open>String(v)\<close>, whether the actor driver
  has a \<open>sleep\<close> method, and the timing options of the configuration.\<close>

record env =
  en_codec :: codec
  en_persisted :: "bare_actor version_handler"
  en_toClient :: "jsval version_handler"
  en_str :: "jsval \<Rightarrow> string"
  en_u8 :: "jsval \<Rightarrow> js_err + bytes"
  en_sleep :: bool
  en_noSleep :: bool
  en_sleepTimeout :: rat
  en_stateSaveInterval :: rat
  en_livenessTimeout :: rat

definition emit :: "effect list \<Rightarrow> actor \<Rightarrow> actor" where
  "emit es a = a\<lparr>a_out := a_out a @ es\<rparr>"

definition conn_at :: "actor \<Rightarrow> nat \<Rightarrow> conn" where
  "conn_at a r = a_heap a ! r"

definition set_conn :: "nat \<Rightarrow> conn \<Rightarrow> actor \<Rightarrow> actor" where
  "set_conn r c a = a\<lparr>a_heap := (a_heap a)[r := c]\<rparr>"

text \<open>\<open>#persistRaw\<close> as one object.\<close>

definition persist_of :: "actor \<Rightarrow> persisted_actor" where
  "persist_of a = \<lparr>pa_input = a_input a, pa_hasInitiated = a_hasInitiated a, pa_state = a_state a,
     pa_connections = map (\<lambda>r. c_persist (conn_at a r)) (a_pconns a),
     pa_scheduledEvents = a_events a\<rparr>"

definition assertReady :: "bool \<Rightarrow> actor \<Rightarrow> js_err option" where
  "assertReady allowStoppingState a =
     (if \<not> a_ready a then Some (EActor (InternalError ''Actor not ready''))
      else if \<not> allowStoppingState \<and> a_sleepCalled a then Some (EActor (InternalError ''Actor is going to sleep''))
      else if \<not> allowStoppingState \<and> a_stopCalled a then Some (EActor (InternalError ''Actor is stopping''))
      else None)"

section \<open>Saving\<close>

text \<open>The bytes the write operation hands to the driver.\<close>

definition persisted_bytes :: "env \<Rightarrow> persisted_actor \<Rightarrow> js_err + (bare_actor \<times> bytes)" where
  "persisted_bytes en p =
     andThen (convertToBarePersisted (en_codec en) p) (\<lambda>bare.
     andThen (serializeWithEmbeddedVersion (en_persisted en) bare) (\<lambda>bs. Inr (bare, bs)))"

text \<open>The write operation up to its \<open>await\<close>: the flag is cleared first, then the object converted.\<close>

definition start_write :: "env \<Rightarrow> actor \<Rightarrow> actor" where
  "start_write en a =
     (case persisted_bytes en (persist_of a) of
        Inl e \<Rightarrow> a\<lparr>a_persistChanged := False, a_writing := Some WriteFailed, a_stale := True\<rparr>
      | Inr (bare, bs) \<Rightarrow> a\<lparr>a_persistChanged := False, a_writing := Some (Writing bare bs), a_stale := False\<rparr>)"

definition enqueue_write :: "env \<Rightarrow> actor \<Rightarrow> actor" where
  "enqueue_write en a =
     (let idle = (spq_running (a_writeQ a) = None);
          (p, q) = spq_enqueue () (a_writeQ a);
          a1 = a\<lparr>a_writeQ := q, a_saveWaiters := a_saveWaiters a @ [p]\<rparr>
      in if idle then start_write en a1 else a1)"

definition resolve_saved :: "actor \<Rightarrow> actor" where
  "resolve_saved a = a\<lparr>a_onPersistSaved := map_option (\<lambda>_. Resolved) (a_onPersistSaved a)\<rparr>"

definition savePersistInner :: "env \<Rightarrow> rat \<Rightarrow> actor \<Rightarrow> actor" where
  "savePersistInner en now a =
     (let a1 = a\<lparr>a_lastSaveTime := now\<rparr>
      in if a_persistChanged a1 then enqueue_write en a1 else resolve_saved a1)"

definition savePersistThrottled :: "env \<Rightarrow> rat \<Rightarrow> actor \<Rightarrow> actor" where
  "savePersistThrottled en now a =
     (let timeSinceLastSave = now - a_lastSaveTime a; saveInterval = en_stateSaveInterval en
      in if timeSinceLastSave < saveInterval then
           (if a_pendingSave a = None
            then a\<lparr>a_pendingSave := Some (now + (saveInterval - timeSinceLastSave), True)\<rparr> else a)
         else savePersistInner en now a)"

text \<open>\<open>saveState\<close> up to its first \<open>await\<close>; the option is the error of \<open>#assertReady\<close>.\<close>

definition saveState :: "env \<Rightarrow> rat \<Rightarrow> bool \<Rightarrow> bool \<Rightarrow> actor \<Rightarrow> js_err option \<times> actor" where
  "saveState en now immediate allowStoppingState a =
     (case assertReady allowStoppingState a of
        Some e \<Rightarrow> (Some e, a)
      | None \<Rightarrow>
          (None,
           if a_persistChanged a then
             (if immediate then savePersistInner en now a
              else savePersistThrottled en now
                (if a_onPersistSaved a = None then a\<lparr>a_onPersistSaved := Some Unresolved\<rparr> else a))
           else a))"

text \<open>The pending throttle timer fires.\<close>

definition save_timer :: "env \<Rightarrow> rat \<Rightarrow> actor \<Rightarrow> actor" where
  "save_timer en now a =
     (case a_pendingSave a of
        Some (due, True) \<Rightarrow> savePersistInner en now (a\<lparr>a_pendingSave := None\<rparr>)
      | _ \<Rightarrow> a)"

text \<open>
  The write operation settles, \<open>ok\<close> telling how \<open>writePersistedData\<close> ended.  Its cycle's promise is
  resolved in either case, which resolves \<open>#onPersistSavedPromise\<close> when a save awaited the cycle,
  and the next operation starts.
\<close>

definition store_written :: "bool \<Rightarrow> write_op \<Rightarrow> actor \<Rightarrow> actor" where
  "store_written ok w a =
     (case w of
        Writing bare bs \<Rightarrow> if ok then a\<lparr>a_disk := Some bs\<rparr> else a\<lparr>a_stale := True\<rparr>
      | WriteFailed \<Rightarrow> a)"

definition finish_cycle :: "actor \<Rightarrow> actor" where
  "finish_cycle a =
     (let q = spq_op_done (a_writeQ a);
          settled = (\<exists>p \<in> set (a_saveWaiters a). p \<in> set (spq_settled q));
          a1 = a\<lparr>a_writeQ := q, a_writing := None,
                 a_saveWaiters := filter (\<lambda>p. p \<notin> set (spq_settled q)) (a_saveWaiters a)\<rparr>
      in if settled then resolve_saved a1 else a1)"

definition write_settled :: "env \<Rightarrow> bool \<Rightarrow> actor \<Rightarrow> actor" where
  "write_settled en ok a =
     (case a_writing a of
        None \<Rightarrow> a
      | Some w \<Rightarrow>
          let a1 = finish_cycle (store_written ok w a)
          in if spq_running (a_writeQ a1) = None then a1 else start_write en a1)"

section \<open>Alarms and the schedule\<close>

definition queueSetAlarm :: "rat \<Rightarrow> actor \<Rightarrow> actor" where
  "queueSetAlarm timestamp a =
     (let idle = (spq_running (a_alarmQ a) = None);
          a1 = a\<lparr>a_alarmQ := snd (spq_enqueue timestamp (a_alarmQ a))\<rparr>
      in if idle then emit [DriverSetAlarm timestamp] a1 else a1)"

text \<open>The driver's \<open>setAlarm\<close> settles; a queued one is issued.\<close>

definition alarm_settled :: "actor \<Rightarrow> actor" where
  "alarm_settled a =
     (let q = spq_op_done (a_alarmQ a); a1 = a\<lparr>a_alarmQ := q\<rparr>
      in if spq_running (a_alarmQ a) = None then a
         else case spq_running q of
           None \<Rightarrow> a1
         | Some (ts, _) \<Rightarrow> emit [DriverSetAlarm ts] a1)"

definition insert_event :: "sched_event \<Rightarrow> sched_event list \<Rightarrow> sched_event list" where
  "insert_event newEvent evs =
     (case find_index (\<lambda>x. se_timestamp x > se_timestamp newEvent) evs of
        None \<Rightarrow> evs @ [newEvent]
      | Some i \<Rightarrow> splice_in i newEvent evs)"

definition scheduleEventInner :: "sched_event \<Rightarrow> actor \<Rightarrow> actor" where
  "scheduleEventInner newEvent a =
     (let insertIndex = find_index (\<lambda>x. se_timestamp x > se_timestamp newEvent) (a_events a);
          a1 = a\<lparr>a_events := insert_event newEvent (a_events a)\<rparr>
      in if insertIndex = Some 0 \<or> length (a_events a1) = 1
         then queueSetAlarm (se_timestamp newEvent) a1 else a1)"

definition scheduleEvent :: "env \<Rightarrow> string \<Rightarrow> rat \<Rightarrow> string \<Rightarrow> jsval list \<Rightarrow> actor \<Rightarrow> js_err option \<times> actor" where
  "scheduleEvent en eventId timestamp action args a =
     (case cd_cbor_encode (en_codec en) (JArr args) of
        Inl e \<Rightarrow> (Some e, a)
      | Inr b \<Rightarrow> (None, scheduleEventInner \<lparr>se_eventId = eventId, se_timestamp = timestamp,
                   se_actionName = action, se_args = Some b\<rparr> a))"

section \<open>Sleeping\<close>

definition canSleep :: "actor \<Rightarrow> bool" where
  "canSleep a =
     (if \<not> a_ready a then False
      else if \<exists>(_, r) \<in> set (a_connections a). c_status (conn_at a r) = Connected then False
      else if a_fetchCount a > 0 then False
      else if a_rawWebSockets a \<noteq> [] then False
      else True)"

definition resetSleepTimer :: "env \<Rightarrow> rat \<Rightarrow> actor \<Rightarrow> actor" where
  "resetSleepTimer en now a =
     (if en_noSleep en \<or> \<not> en_sleep en then a
      else let a1 = a\<lparr>a_sleepTimeout := None\<rparr>
        in if a_sleepCalled a1 then a1
           else if canSleep a then a1\<lparr>a_sleepTimeout := Some (now + en_sleepTimeout en, True)\<rparr>
           else a1)"

text \<open>\<open>_sleep\<close>: the driver is asked in a later turn (\<open>sleep_immediate\<close>).\<close>

definition actor_sleep :: "env \<Rightarrow> actor \<Rightarrow> js_err option \<times> actor" where
  "actor_sleep en a =
     (if \<not> en_sleep en then (Some (invariant_error ''sleeping not supported''), a)
      else if a_sleepCalled a then (None, a)
      else (None, a\<lparr>a_sleepCalled := True\<rparr>))"

definition sleep_immediate :: "actor \<Rightarrow> actor" where
  "sleep_immediate a = emit [DriverSleep] a"

definition sleep_timer :: "env \<Rightarrow> actor \<Rightarrow> actor" where
  "sleep_timer en a =
     (case a_sleepTimeout a of
        Some (due, True) \<Rightarrow> snd (actor_sleep en (a\<lparr>a_sleepTimeout := Some (due, False)\<rparr>))
      | _ \<Rightarrow> a)"

section \<open>Subscriptions\<close>

definition addSubscription :: "env \<Rightarrow> rat \<Rightarrow> string \<Rightarrow> nat \<Rightarrow> bool \<Rightarrow> actor \<Rightarrow> actor" where
  "addSubscription en now eventName r fromPersist a =
     (if eventName \<in> set (c_subscriptions (conn_at a r)) then a
      else
        let a1 = (if fromPersist then a
                  else snd (saveState en now True False
                    (set_conn r ((conn_at a r)\<lparr>c_persist := (c_persist (conn_at a r))
                       \<lparr>pc_subscriptions := pc_subscriptions (c_persist (conn_at a r)) @ [eventName]\<rparr>\<rparr>) a)));
            a2 = set_conn r ((conn_at a1 r)\<lparr>c_subscriptions := js_add eventName (c_subscriptions (conn_at a1 r))\<rparr>) a1;
            subscribers = (case jm_get (a_subIndex a2) eventName of Some s \<Rightarrow> s | None \<Rightarrow> [])
        in a2\<lparr>a_subIndex := jm_set eventName (js_add r subscribers) (a_subIndex a2)\<rparr>)"

text \<open>The last part of \<open>#removeSubscription\<close>: the index entry, dropped with its last member.\<close>

definition unindex :: "string \<Rightarrow> nat \<Rightarrow> (string \<times> nat list) list \<Rightarrow> (string \<times> nat list) list" where
  "unindex eventName r idx =
     (case jm_get idx eventName of
        None \<Rightarrow> idx
      | Some subscribers \<Rightarrow>
          if js_remove r subscribers = [] then jm_del eventName idx
          else jm_set eventName (js_remove r subscribers) idx)"

definition removeSubscription :: "env \<Rightarrow> rat \<Rightarrow> string \<Rightarrow> nat \<Rightarrow> bool \<Rightarrow> actor \<Rightarrow> actor" where
  "removeSubscription en now eventName r fromRemoveConn a =
     (if eventName \<notin> set (c_subscriptions (conn_at a r)) then a
      else
        let a1 = (if fromRemoveConn then a
                  else
                    let c = conn_at a r;
                        subs = pc_subscriptions (c_persist c);
                        subs' = (case find_index (\<lambda>s. s = eventName) subs of
                                   Some i \<Rightarrow> splice_out i subs | None \<Rightarrow> subs)
                    in snd (saveState en now True False
                         (set_conn r (c\<lparr>c_subscriptions := js_remove eventName (c_subscriptions c),
                            c_persist := (c_persist c)\<lparr>pc_subscriptions := subs'\<rparr>\<rparr>) a)))
        in a1\<lparr>a_subIndex := unindex eventName r (a_subIndex a1)\<rparr>)"

section \<open>Adding and removing connections\<close>

text \<open>\<open>createConn\<close> from the new object to the save, between which no user code runs.\<close>

definition register_conn :: "env \<Rightarrow> rat \<Rightarrow> conn \<Rightarrow> actor \<Rightarrow> actor" where
  "register_conn en now c a =
     (let r = length (a_heap a);
          a1 = a\<lparr>a_heap := a_heap a @ [c], a_connections := jm_set (conn_id c) r (a_connections a)\<rparr>;
          a2 = resetSleepTimer en now a1;
          a3 = a2\<lparr>a_pconns := a_pconns a2 @ [r]\<rparr>
      in snd (saveState en now True False a3))"

text \<open>\<open>__removeConn\<close> up to the \<open>onDisconnect\<close> hook.\<close>

definition drop_persisted :: "env \<Rightarrow> rat \<Rightarrow> string \<Rightarrow> actor \<Rightarrow> actor" where
  "drop_persisted en now connId a =
     (case find_index (\<lambda>r. conn_id (conn_at a r) = connId) (a_pconns a) of
        None \<Rightarrow> a
      | Some i \<Rightarrow> snd (saveState en now True True (a\<lparr>a_pconns := splice_out i (a_pconns a)\<rparr>)))"

definition unregister_conn :: "env \<Rightarrow> rat \<Rightarrow> nat \<Rightarrow> actor \<Rightarrow> actor" where
  "unregister_conn en now r a =
     (let connId = conn_id (conn_at a r);
          a1 = drop_persisted en now connId a;
          a2 = a1\<lparr>a_connections := jm_del connId (a_connections a1)\<rparr>
      in fold (\<lambda>ev. removeSubscription en now ev r True) (c_subscriptions (conn_at a2 r)) a2)"

end
