(* ===== verification/ActorRun.thy ===== *)
theory ActorRun
  imports ActorState
begin

text \<open>
  The parts of \<open>ActorInstance\<close> that call user code, and the handlers of everything that can happen
  to a running instance.

  User code is data: a function from the instance it finds to the list of things it does through
  the actor context, ended early by the first one that throws, and what it returns.  A function
  that returns an unsettled promise ends with \<open>Pending\<close>; what it does after its first \<open>await\<close> is a
  later \<open>UserCode\<close> event.  Hooks the code awaits before doing anything else (\<open>user_hook\<close>) run in one
  step; their result covers a deadline that passed (\<open>EDeadline\<close>).
\<close>

section \<open>User code\<close>

text \<open>\<open>MutateState sub value st\<close>: a property below the state, at the path \<open>sub\<close>, gets \<open>value\<close>, which
  makes the whole state \<open>st\<close>.  An assignment that \<open>on-change\<close> does not report (same value) is no
  command.  Setting a connection's state is reported under the path \<open>connections\<close>, which the
  callback ignores, or not at all.\<close>

datatype cmd =
    MutateState string jsval jsval
  | AssignState jsval
  | GetState
  | GetVars
  | GetDb
  | Broadcast string "jsval list"
  | SendEvent nat string "jsval list"
  | Disconnect nat "string option"
  | SetConnState nat jsval
  | GetConnState nat
  | ScheduleAt string rat string "jsval list"
  | ScheduleAfter string rat string "jsval list"
  | SaveState bool bool
  | WaitUntil nat
  | Sleep

datatype outcome = Ret jsval | Throw js_err | Pending

type_synonym user_fn = "actor \<Rightarrow> nat \<Rightarrow> jsval list \<Rightarrow> cmd list \<times> outcome"
type_synonym user_hook = "actor \<Rightarrow> nat \<Rightarrow> jsval list \<Rightarrow> cmd list \<times> (js_err + jsval)"
type_synonym user_create = "jsval list \<Rightarrow> js_err + jsval"

text \<open>The configuration of an actor.  \<open>createState\<close>, \<open>createVars\<close> and \<open>createConnState\<close> get a context
  without a state and only return a value.\<close>

record cfg =
  cf_actions :: "(string \<times> user_fn) list"
  cf_createState :: "user_create option"
  cf_state :: "jsval option"
  cf_createVars :: "user_create option"
  cf_vars :: "jsval option"
  cf_createConnState :: "user_create option"
  cf_connState :: "jsval option"
  cf_onCreate :: "user_hook option"
  cf_onStart :: "user_hook option"
  cf_onStop :: "user_hook option"
  cf_onStateChange :: "user_fn option"
  cf_onBeforeConnect :: "user_hook option"
  cf_onConnect :: "user_fn option"
  cf_onDisconnect :: "user_fn option"
  cf_onBeforeActionResponse :: "user_hook option"
  cf_onFetch :: "user_fn option"
  cf_onWebSocket :: "user_fn option"
  cf_db :: "(js_err option) option"

definition stateEnabled :: "cfg \<Rightarrow> bool" where
  "stateEnabled cf = (cf_createState cf \<noteq> None \<or> cf_state cf \<noteq> None)"

definition connStateEnabled :: "cfg \<Rightarrow> bool" where
  "connStateEnabled cf = (cf_createConnState cf \<noteq> None \<or> cf_connState cf \<noteq> None)"

definition varsEnabled :: "cfg \<Rightarrow> bool" where
  "varsEnabled cf = (cf_createVars cf \<noteq> None \<or> cf_vars cf \<noteq> None)"

text \<open>
  The \<open>onChange\<close> callback of \<open>#setPersist\<close>, called after the change was made.  A change that fails
  the check is not undone.  \<open>hook\<close> is the call of \<open>onStateChange\<close>.
\<close>

definition on_persist_change ::
    "env \<Rightarrow> (actor \<Rightarrow> actor) \<Rightarrow> string \<Rightarrow> jsval \<Rightarrow> actor \<Rightarrow> js_err option \<times> actor" where
  "on_persist_change en hook path value a =
     (if path \<noteq> ''state'' \<and> \<not> prefix ''state.'' path then (None, a)
      else case invalid_path (en_str en) value '''' of
          Some invalidPath \<Rightarrow>
            (Some (EActor (InvalidStateType (Some (path @
               (if invalidPath \<noteq> [] then ''.'' @ invalidPath else []))))), a\<lparr>a_stale := True\<rparr>)
        | None \<Rightarrow> (None, hook (emit [Inspect StateUpdated] (a\<lparr>a_persistChanged := True\<rparr>))))"

definition send_message :: "env \<Rightarrow> nat \<Rightarrow> jsval \<Rightarrow> actor \<Rightarrow> js_err option \<times> actor" where
  "send_message en r m a =
     (case fst (driver_sendMessage (en_codec en) (a_generic a) (conn_at a r)
                  (new_CachedSerializer m (en_toClient en))) of
        Inl e \<Rightarrow> (Some e, a)
      | Inr es \<Rightarrow> (None, emit es a))"

text \<open>The loop over the subscribers shares one serializer.\<close>

fun send_all :: "env \<Rightarrow> nat list \<Rightarrow> cached_serializer \<Rightarrow> actor \<Rightarrow> js_err option \<times> actor" where
  "send_all en [] m a = (None, a)"
| "send_all en (r # rs) m a =
     (case driver_sendMessage (en_codec en) (a_generic a) (conn_at a r) m of
        (Inl e, m') \<Rightarrow> (Some e, a)
      | (Inr es, m') \<Rightarrow> send_all en rs m' (emit es a))"

definition broadcast :: "env \<Rightarrow> string \<Rightarrow> jsval list \<Rightarrow> actor \<Rightarrow> js_err option \<times> actor" where
  "broadcast en name args a =
     (case assertReady False a of
        Some e \<Rightarrow> (Some e, a)
      | None \<Rightarrow>
          let a1 = emit [Inspect (FiredBroadcast name args)] a
          in case jm_get (a_subIndex a1) name of
            None \<Rightarrow> (None, a1)
          | Some subscriptions \<Rightarrow>
              (case event_message (en_codec en) name args of
                 Inl e \<Rightarrow> (Some e, a1)
               | Inr m \<Rightarrow> send_all en subscriptions (new_CachedSerializer m (en_toClient en)) a1))"

definition conn_send :: "env \<Rightarrow> nat \<Rightarrow> string \<Rightarrow> jsval list \<Rightarrow> actor \<Rightarrow> js_err option \<times> actor" where
  "conn_send en r name args a =
     (let a1 = emit [Inspect (FiredEvent name args (conn_id (conn_at a r)))] a
      in case event_message (en_codec en) name args of
           Inl e \<Rightarrow> (Some e, a1)
         | Inr m \<Rightarrow> send_message en r m a1)"

definition disconnect :: "nat \<Rightarrow> string option \<Rightarrow> actor \<Rightarrow> actor" where
  "disconnect r reason a =
     (case conn_disconnect (a_generic a) reason (conn_at a r) of
        (es, c) \<Rightarrow> emit es (set_conn r c a))"

definition waitUntil :: "nat \<Rightarrow> actor \<Rightarrow> js_err option \<times> actor" where
  "waitUntil p a =
     (case assertReady False a of
        Some e \<Rightarrow> (Some e, a)
      | None \<Rightarrow> (None, a\<lparr>a_background := a_background a @ [p]\<rparr>))"

definition validate :: "bool \<Rightarrow> actor_error \<Rightarrow> actor \<Rightarrow> js_err option \<times> actor" where
  "validate enabled e a = (if enabled then (None, a) else (Some (EActor e), a))"

text \<open>A command that names a connection object that does not exist does nothing.\<close>

definition exec_cmd :: "env \<Rightarrow> cfg \<Rightarrow> (actor \<Rightarrow> actor) \<Rightarrow> rat \<Rightarrow> cmd \<Rightarrow> actor \<Rightarrow> js_err option \<times> actor" where
  "exec_cmd en cf hook now c a =
     (case c of
        MutateState sub value st \<Rightarrow>
          (if \<not> stateEnabled cf then (Some (EActor StateNotEnabled), a)
           else on_persist_change en hook (''state.'' @ sub) value (a\<lparr>a_state := st\<rparr>))
      | AssignState value \<Rightarrow>
          (if \<not> stateEnabled cf then (Some (EActor StateNotEnabled), a)
           else on_persist_change en hook ''state'' value (a\<lparr>a_state := value\<rparr>))
      | GetState \<Rightarrow> validate (stateEnabled cf) StateNotEnabled a
      | GetVars \<Rightarrow>
          (if \<not> varsEnabled cf then (Some (EActor VarsNotEnabled), a)
           else if a_vars a = None \<or> a_vars a = Some JUndef then (Some (invariant_error ''vars not enabled''), a)
           else (None, a))
      | GetDb \<Rightarrow> validate (a_db a) DatabaseNotEnabled a
      | Broadcast name args \<Rightarrow> broadcast en name args a
      | SendEvent r name args \<Rightarrow>
          (if r < length (a_heap a) then conn_send en r name args a else (None, a))
      | Disconnect r reason \<Rightarrow>
          (if r < length (a_heap a) then (None, disconnect r reason a) else (None, a))
      | SetConnState r v \<Rightarrow>
          (if r < length (a_heap a) then
             (case conn_set_state v (conn_at a r) of
                Inl e \<Rightarrow> (Some e, a)
              | Inr c \<Rightarrow> (None, set_conn r c a))
           else (None, a))
      | GetConnState r \<Rightarrow>
          (if r < length (a_heap a) then
             (case conn_get_state (conn_at a r) of Inl e \<Rightarrow> (Some e, a) | Inr v \<Rightarrow> (None, a))
           else (None, a))
      | ScheduleAt eventId timestamp fn args \<Rightarrow> scheduleEvent en eventId timestamp fn args a
      | ScheduleAfter eventId duration fn args \<Rightarrow> scheduleEvent en eventId (now + duration) fn args a
      | SaveState immediate allowStopping \<Rightarrow> saveState en now immediate allowStopping a
      | WaitUntil p \<Rightarrow> waitUntil p a
      | Sleep \<Rightarrow> (None, snd (actor_sleep en a)))"

fun run_cmds :: "(cmd \<Rightarrow> actor \<Rightarrow> js_err option \<times> actor) \<Rightarrow> cmd list \<Rightarrow> actor \<Rightarrow> js_err option \<times> actor" where
  "run_cmds ex [] a = (None, a)"
| "run_cmds ex (c # cs) a =
     (case ex c a of
        (Some e, a') \<Rightarrow> (Some e, a')
      | (None, a') \<Rightarrow> run_cmds ex cs a')"

text \<open>
  The call of \<open>onStateChange\<close>.  State changes made inside it find \<open>#isInOnStateChange\<close> set and do not
  call it again, so the inner hook is the identity.  Its errors are logged.
\<close>

definition state_change_hook :: "env \<Rightarrow> cfg \<Rightarrow> rat \<Rightarrow> actor \<Rightarrow> actor" where
  "state_change_hook en cf now a =
     (case cf_onStateChange cf of
        Some f \<Rightarrow>
          (if a_ready a \<and> \<not> a_isInOnStateChange a then
             (let a1 = a\<lparr>a_isInOnStateChange := True\<rparr>;
                  (e, a2) = run_cmds (exec_cmd en cf (\<lambda>a. a) now) (fst (f a1 0 [a_state a1])) a1
              in a2\<lparr>a_isInOnStateChange := False\<rparr>)
           else a)
      | None \<Rightarrow> a)"

definition exec :: "env \<Rightarrow> cfg \<Rightarrow> rat \<Rightarrow> cmd list \<Rightarrow> actor \<Rightarrow> js_err option \<times> actor" where
  "exec en cf now cs a = run_cmds (exec_cmd en cf (state_change_hook en cf now) now) cs a"

definition call_user :: "env \<Rightarrow> cfg \<Rightarrow> rat \<Rightarrow> user_fn \<Rightarrow> nat \<Rightarrow> jsval list \<Rightarrow> actor \<Rightarrow> outcome \<times> actor" where
  "call_user en cf now f r args a =
     (case f a r args of
        (cs, out) \<Rightarrow>
          (case exec en cf now cs a of
             (Some e, a') \<Rightarrow> (Throw e, a')
           | (None, a') \<Rightarrow> (out, a')))"

definition call_hook :: "env \<Rightarrow> cfg \<Rightarrow> rat \<Rightarrow> user_hook \<Rightarrow> nat \<Rightarrow> jsval list \<Rightarrow> actor \<Rightarrow> (js_err + jsval) \<times> actor" where
  "call_hook en cf now f r args a =
     (case f a r args of
        (cs, out) \<Rightarrow>
          (case exec en cf now cs a of
             (Some e, a') \<Rightarrow> (Inl e, a')
           | (None, a') \<Rightarrow> (out, a')))"

section \<open>Connections\<close>

definition remove_conn :: "env \<Rightarrow> cfg \<Rightarrow> rat \<Rightarrow> nat \<Rightarrow> actor \<Rightarrow> actor" where
  "remove_conn en cf now r a =
     (let a1 = emit [Inspect ConnectionUpdated] (unregister_conn en now r a);
          a2 = (case cf_onDisconnect cf of
                  Some f \<Rightarrow> snd (call_user en cf now f r [] a1)
                | None \<Rightarrow> a1)
      in resetSleepTimer en now a2)"

definition prepareConn :: "env \<Rightarrow> cfg \<Rightarrow> rat \<Rightarrow> jsval \<Rightarrow> actor \<Rightarrow> (js_err + jsval) \<times> actor" where
  "prepareConn en cf now params a =
     (case (case cf_onBeforeConnect cf of
              Some f \<Rightarrow> call_hook en cf now f 0 [params] a
            | None \<Rightarrow> (Inr JUndef, a)) of
        (Inl e, a1) \<Rightarrow> (Inl e, a1)
      | (Inr _, a1) \<Rightarrow>
          (if connStateEnabled cf then
             (case cf_createConnState cf of
                Some f \<Rightarrow> f [params]
              | None \<Rightarrow> Inr (the (cf_connState cf)))
           else Inr JUndef, a1))"

text \<open>The \<open>onConnect\<close> call of \<open>createConn\<close>; a promise it returns may fail later (\<open>ConnectFailed\<close>).\<close>

definition call_onConnect :: "env \<Rightarrow> cfg \<Rightarrow> rat \<Rightarrow> nat \<Rightarrow> actor \<Rightarrow> actor" where
  "call_onConnect en cf now r a =
     (case cf_onConnect cf of
        None \<Rightarrow> a
      | Some f \<Rightarrow>
          (case call_user en cf now f r [] a of
             (Throw e, a1) \<Rightarrow> disconnect r (Some ''`onConnect` failed'') a1
           | (_, a1) \<Rightarrow> a1))"

definition new_persisted_conn ::
    "rat \<Rightarrow> string \<Rightarrow> string \<Rightarrow> jsval \<Rightarrow> jsval \<Rightarrow> string \<Rightarrow> jsval \<Rightarrow> jsval \<Rightarrow> persisted_conn" where
  "new_persisted_conn now connectionId connectionToken params state driverId driverState authData =
     \<lparr>pc_connId = connectionId, pc_token = connectionToken, pc_connDriver = driverId,
      pc_connDriverState = driverState, pc_params = params, pc_state = state, pc_authData = authData,
      pc_subscriptions = [], pc_lastSeen = now\<rparr>"

text \<open>The middle of \<open>createConn\<close>: registration, hook, inspector event.\<close>

definition admit_conn :: "env \<Rightarrow> cfg \<Rightarrow> rat \<Rightarrow> conn \<Rightarrow> actor \<Rightarrow> actor" where
  "admit_conn en cf now c a =
     emit [Inspect ConnectionUpdated]
       (call_onConnect en cf now (length (a_heap a)) (register_conn en now c a))"

text \<open>\<open>createConn\<close>, with the connection object's index when it returns one.\<close>

definition createConn ::
    "env \<Rightarrow> cfg \<Rightarrow> rat \<Rightarrow> string \<Rightarrow> string \<Rightarrow> jsval \<Rightarrow> jsval \<Rightarrow> string \<Rightarrow> jsval \<Rightarrow> jsval \<Rightarrow> actor
      \<Rightarrow> (js_err + nat) \<times> actor" where
  "createConn en cf now connectionId connectionToken params state driverId driverState authData a =
     (case assertReady False a of
        Some e \<Rightarrow> (Inl e, a)
      | None \<Rightarrow>
          if jm_has (a_connections a) connectionId then
            (Inl (EError ''Error'' (''Connection already exists: '' @ connectionId)), a)
          else case getConnDriver driverId of
              Inl e \<Rightarrow> (Inl e, a)
            | Inr driver \<Rightarrow>
                let persist = new_persisted_conn now connectionId connectionToken params state
                      driverId driverState authData;
                    r = length (a_heap a);
                    a1 = admit_conn en cf now (new_Conn persist driver (connStateEnabled cf)) a
                in (case send_message en r (init_message (a_id a1) (conn_at a1 r)) a1 of
                      (Some e, a2) \<Rightarrow> (Inl e, a2)
                    | (None, a2) \<Rightarrow> (Inr r, a2)))"

lemma snd_case_result:
  "snd (case p of (Some e, x) \<Rightarrow> (Inl e, x) | (None, x) \<Rightarrow> (Inr r, x)) = snd p"
  by (simp split: prod.split option.split)

lemma case_result_Inr:
  "fst (case p of (Some e, x) \<Rightarrow> (Inl e, x) | (None, x) \<Rightarrow> (Inr r, x)) = Inr r' \<Longrightarrow> r' = r"
  by (simp split: prod.splits option.splits)

lemma createConn_admitted:
  assumes ok: "fst (createConn en cf now i t params st d ds au a) = Inr r"
  obtains drv m where "\<not> jm_has (a_connections a) i" and "assertReady False a = None"
    and "getConnDriver d = Inr drv" and "r = length (a_heap a)"
    and "snd (createConn en cf now i t params st d ds au a) = snd (send_message en r m
      (admit_conn en cf now (new_Conn (new_persisted_conn now i t params st d ds au) drv (connStateEnabled cf)) a))"
proof -
  have ready: "assertReady False a = None"
    using ok by (cases "assertReady False a") (simp_all add: createConn_def)
  have new: "\<not> jm_has (a_connections a) i"
    using ok ready by (cases "jm_has (a_connections a) i") (simp_all add: createConn_def)
  obtain drv where drv: "getConnDriver d = Inr drv"
    using ok ready new by (cases "getConnDriver d") (simp_all add: createConn_def)
  note eq = createConn_def [of en cf now i t params st d ds au a, unfolded ready drv Let_def, simplified, simplified new, simplified]
  have "r = length (a_heap a)" using ok unfolding eq by (rule case_result_Inr)
  then show ?thesis using that [OF new ready drv] by (simp add: eq snd_case_result)
qed

text \<open>One round of the liveness loop.  A driver whose ready state cannot be read throws out of it.\<close>

fun check_liveness :: "env \<Rightarrow> cfg \<Rightarrow> rat \<Rightarrow> nat list \<Rightarrow> actor \<Rightarrow> js_err option \<times> actor" where
  "check_liveness en cf now [] a = (None, a)"
| "check_liveness en cf now (r # rs) a =
     (case conn_checkLiveness (a_generic a) now (conn_at a r) of
        Inl e \<Rightarrow> (Some e, a)
      | Inr c \<Rightarrow>
          let a1 = set_conn r c a;
              sinceLastSeen = now - pc_lastSeen (c_persist c)
          in if c_status c = Connected \<or> sinceLastSeen < en_livenessTimeout en
             then check_liveness en cf now rs a1
             else check_liveness en cf now rs (remove_conn en cf now r a1))"

definition checkConnectionsLiveness :: "env \<Rightarrow> cfg \<Rightarrow> rat \<Rightarrow> actor \<Rightarrow> js_err option \<times> actor" where
  "checkConnectionsLiveness en cf now a = check_liveness en cf now (map snd (a_connections a)) a"

end
