(* ===== verification/ActorHandlers.thy ===== *)
theory ActorHandlers
  imports ActorRun
begin

text \<open>
  The handlers of \<open>ActorInstance\<close>: actions and messages, raw requests and sockets, alarms, start and
  stop, and the step function over everything that can happen to a started instance.

  A handler that awaits something the rest of the instance can run beside (an action, \<open>onFetch\<close>,
  \<open>onWebSocket\<close>, a write, an alarm, background work at stop) is split at that \<open>await\<close>.
\<close>

section \<open>Actions\<close>

text \<open>\<open>actionName in actions\<close> also finds what the object inherits.  The inherited functions are called
  without a receiver: \<open>toString\<close> answers, \<open>constructor\<close> (\<open>Object\<close>) returns its argument, the action
  context, and the others throw.\<close>

definition object_prototype_functions :: "string list" where
  "object_prototype_functions = [''constructor'', ''toString'', ''valueOf'', ''hasOwnProperty'',
     ''isPrototypeOf'', ''propertyIsEnumerable'', ''toLocaleString'', ''__defineGetter__'',
     ''__defineSetter__'', ''__lookupGetter__'', ''__lookupSetter__'']"

definition context_value :: "conn \<Rightarrow> jsval" where
  "context_value c =
     JObj [(''conn'', JObj [(''subscriptions'', JSet (map JStr (c_subscriptions c))),
       (''__persist'', JObj [(''connId'', JStr (pc_connId (c_persist c))),
          (''token'', JStr (pc_token (c_persist c))), (''connDriver'', JStr (pc_connDriver (c_persist c))),
          (''connDriverState'', pc_connDriverState (c_persist c)), (''params'', pc_params (c_persist c)),
          (''state'', pc_state (c_persist c)), (''authData'', pc_authData (c_persist c)),
          (''lastSeen'', JNum (Fin (pc_lastSeen (c_persist c)))),
          (''subscriptions'', JArr (map (\<lambda>e. JObj [(''eventName'', JStr e)])
             (pc_subscriptions (c_persist c))))])])]"

definition inherited_function :: "string \<Rightarrow> user_fn" where
  "inherited_function name a r args =
     ([], if name = ''toString'' then Ret (JStr ''[object Undefined]'')
          else if name = ''constructor'' then Ret (context_value (conn_at a r))
          else Throw (EError ''TypeError'' ''Cannot convert undefined or null to object''))"

definition lookup_action :: "cfg \<Rightarrow> string \<Rightarrow> user_fn option" where
  "lookup_action cf actionName =
     (case jm_get (cf_actions cf) actionName of
        Some f \<Rightarrow> Some f
      | None \<Rightarrow> if actionName \<in> set object_prototype_functions
                then Some (inherited_function actionName) else None)"

definition action_failed :: "env \<Rightarrow> rat \<Rightarrow> js_err \<Rightarrow> actor \<Rightarrow> outcome \<times> actor" where
  "action_failed en now e a =
     (Throw (if e = EDeadline then EActor ActionTimedOut else e), savePersistThrottled en now a)"

definition action_returned ::
    "env \<Rightarrow> cfg \<Rightarrow> rat \<Rightarrow> string \<Rightarrow> jsval list \<Rightarrow> jsval \<Rightarrow> actor \<Rightarrow> outcome \<times> actor" where
  "action_returned en cf now actionName args output a =
     (case cf_onBeforeActionResponse cf of
        None \<Rightarrow> (Ret output, savePersistThrottled en now a)
      | Some f \<Rightarrow>
          (case call_hook en cf now f 0 [JStr actionName, JArr args, output] a of
             (Inl e, a1) \<Rightarrow> (Ret output, savePersistThrottled en now a1)
           | (Inr processed, a1) \<Rightarrow> (Ret processed, savePersistThrottled en now a1)))"

definition action_settled ::
    "env \<Rightarrow> cfg \<Rightarrow> rat \<Rightarrow> string \<Rightarrow> jsval list \<Rightarrow> js_err + jsval \<Rightarrow> actor \<Rightarrow> outcome \<times> actor" where
  "action_settled en cf now actionName args res a =
     (case res of
        Inl e \<Rightarrow> action_failed en now e a
      | Inr v \<Rightarrow> action_returned en cf now actionName args v a)"

text \<open>\<open>executeAction\<close> up to the promise of the action, with \<open>Pending\<close> when there is one.\<close>

definition executeAction ::
    "env \<Rightarrow> cfg \<Rightarrow> rat \<Rightarrow> nat \<Rightarrow> string \<Rightarrow> jsval \<Rightarrow> actor \<Rightarrow> outcome \<times> actor" where
  "executeAction en cf now r actionName args a =
     (if \<not> a_ready a then (Throw (invariant_error ''executing action before ready''), a)
      else case lookup_action cf actionName of
          None \<Rightarrow> (Throw (EActor (ActionNotFound actionName)), a)
        | Some f \<Rightarrow>
            (case spread_args args of
               Inl e \<Rightarrow> action_failed en now e a
             | Inr xs \<Rightarrow>
                 (case call_user en cf now f r xs a of
                    (Ret v, a1) \<Rightarrow> action_returned en cf now actionName xs v a1
                  | (Throw e, a1) \<Rightarrow> action_failed en now e a1
                  | (Pending, a1) \<Rightarrow> (Pending, a1))))"

definition park_action :: "nat \<Rightarrow> reply \<Rightarrow> string \<Rightarrow> jsval \<Rightarrow> actor \<Rightarrow> actor" where
  "park_action r rep name args a =
     a\<lparr>a_actions := a_actions a @ [(a_nextAction a, \<lparr>ra_conn = r, ra_reply = rep, ra_name = name,
          ra_args = (case spread_args args of Inr xs \<Rightarrow> xs | Inl _ \<Rightarrow> [])\<rparr>)],
       a_nextAction := Suc (a_nextAction a)\<rparr>"

section \<open>Messages\<close>

text \<open>The \<open>catch\<close> of \<open>processMessage\<close>: an error inside it makes \<open>processMessage\<close> reject.\<close>

definition reply_error :: "env \<Rightarrow> nat \<Rightarrow> jsval \<Rightarrow> js_err \<Rightarrow> actor \<Rightarrow> actor" where
  "reply_error en r actionId e a =
     (case andThen (deconstructError (en_str en) e False) (\<lambda>d. error_message (en_codec en) d actionId) of
        Inl e' \<Rightarrow> emit [MessageFailed e'] a
      | Inr m \<Rightarrow>
          (case send_message en r m a of
             (Some e', a1) \<Rightarrow> emit [MessageFailed e'] a1
           | (None, a1) \<Rightarrow> a1))"

definition reply_output :: "env \<Rightarrow> nat \<Rightarrow> jsval \<Rightarrow> jsval \<Rightarrow> actor \<Rightarrow> actor" where
  "reply_output en r actionId output a =
     (case action_response (en_codec en) actionId output of
        Inl e \<Rightarrow> reply_error en r actionId e a
      | Inr m \<Rightarrow>
          (case send_message en r m a of
             (Some e, a1) \<Rightarrow> reply_error en r actionId e a1
           | (None, a1) \<Rightarrow> a1))"

definition deliver :: "env \<Rightarrow> nat \<Rightarrow> nat \<Rightarrow> reply \<Rightarrow> outcome \<Rightarrow> actor \<Rightarrow> actor" where
  "deliver en k r rep out a =
     (case rep of
        ReplyMessage actionId \<Rightarrow>
          (case out of
             Ret v \<Rightarrow> reply_output en r actionId v a
           | Throw e \<Rightarrow> reply_error en r actionId e a
           | Pending \<Rightarrow> a)
      | ReplyHttp \<Rightarrow>
          (case out of
             Ret v \<Rightarrow> emit [HttpActionResult k (Inr v)] a
           | Throw e \<Rightarrow> emit [HttpActionResult k (Inl e)] a
           | Pending \<Rightarrow> a))"

text \<open>An action is run for a message or an HTTP request, and answered now or parked.\<close>

definition run_action ::
    "env \<Rightarrow> cfg \<Rightarrow> rat \<Rightarrow> nat \<Rightarrow> reply \<Rightarrow> string \<Rightarrow> jsval \<Rightarrow> actor \<Rightarrow> actor" where
  "run_action en cf now r rep name args a =
     (case executeAction en cf now r name args a of
        (Pending, a1) \<Rightarrow> park_action r rep name args a1
      | (out, a1) \<Rightarrow> deliver en (a_nextAction a1) r rep out (a1\<lparr>a_nextAction := Suc (a_nextAction a1)\<rparr>))"

definition action_done :: "env \<Rightarrow> cfg \<Rightarrow> rat \<Rightarrow> nat \<Rightarrow> js_err + jsval \<Rightarrow> actor \<Rightarrow> actor" where
  "action_done en cf now k res a =
     (case jm_get (a_actions a) k of
        None \<Rightarrow> a
      | Some ra \<Rightarrow>
          (case action_settled en cf now (ra_name ra) (ra_args ra) res
                  (a\<lparr>a_actions := jm_del k (a_actions a)\<rparr>) of
             (out, a1) \<Rightarrow> deliver en k (ra_conn ra) (ra_reply ra) out a1))"

text \<open>A property key that is not a string is used by its text.\<close>

definition prop_key :: "env \<Rightarrow> jsval \<Rightarrow> string" where
  "prop_key en v = (case v of JStr s \<Rightarrow> s | _ \<Rightarrow> en_str en v)"

definition processMessage :: "env \<Rightarrow> cfg \<Rightarrow> rat \<Rightarrow> jsval \<Rightarrow> nat \<Rightarrow> actor \<Rightarrow> actor" where
  "processMessage en cf now message r a =
     (case read_request (en_codec en) (en_u8 en) message of
        (actionId, Inl e) \<Rightarrow> reply_error en r actionId e a
      | (actionId, Inr (ReqAction i name args)) \<Rightarrow>
          run_action en cf now r (ReplyMessage i) (prop_key en name) args
            (emit [Inspect (FiredAction (prop_key en name) args (conn_id (conn_at a r)))] a)
      | (actionId, Inr (ReqSubscription eventName subscribe)) \<Rightarrow>
          (let ev = prop_key en eventName; i = conn_id (conn_at a r)
           in if subscribe
              then addSubscription en now ev r False (emit [Inspect (FiredSubscribe ev i)] a)
              else removeSubscription en now ev r False (emit [Inspect (FiredUnsubscribe ev i)] a)))"

section \<open>Raw requests and sockets\<close>

definition fetch_end :: "env \<Rightarrow> rat \<Rightarrow> actor \<Rightarrow> actor" where
  "fetch_end en now a = resetSleepTimer en now (a\<lparr>a_fetchCount := a_fetchCount a - 1\<rparr>)"

definition fetch_finally :: "env \<Rightarrow> rat \<Rightarrow> actor \<Rightarrow> actor" where
  "fetch_finally en now a = savePersistThrottled en now (fetch_end en now a)"

definition fetch_result :: "js_err + jsval \<Rightarrow> js_err + jsval" where
  "fetch_result res =
     (case res of
        Inl e \<Rightarrow> Inl e
      | Inr v \<Rightarrow> if \<not> truthy v then Inl (EActor InvalidFetchResponse) else Inr v)"

definition fetch_begin :: "env \<Rightarrow> rat \<Rightarrow> actor \<Rightarrow> actor" where
  "fetch_begin en now a = resetSleepTimer en now (a\<lparr>a_fetchCount := Suc (a_fetchCount a)\<rparr>)"

definition fetch_settled :: "env \<Rightarrow> rat \<Rightarrow> js_err + jsval \<Rightarrow> actor \<Rightarrow> actor" where
  "fetch_settled en now res a = emit [HttpFetchResult (fetch_result res)] (fetch_finally en now a)"

definition handleFetch :: "env \<Rightarrow> cfg \<Rightarrow> rat \<Rightarrow> jsval list \<Rightarrow> actor \<Rightarrow> actor" where
  "handleFetch en cf now request a =
     (case assertReady False a of
        Some e \<Rightarrow> emit [HttpFetchResult (Inl e)] a
      | None \<Rightarrow>
          (case cf_onFetch cf of
             None \<Rightarrow> emit [HttpFetchResult (Inl (EActor FetchHandlerNotDefined))] a
           | Some f \<Rightarrow>
               (case call_user en cf now f 0 request (fetch_begin en now a) of
                  (Pending, a2) \<Rightarrow> a2
                | (Ret v, a2) \<Rightarrow> fetch_settled en now (Inr v) a2
                | (Throw e, a2) \<Rightarrow> fetch_settled en now (Inl e) a2)))"

definition ws_track :: "env \<Rightarrow> rat \<Rightarrow> nat \<Rightarrow> actor \<Rightarrow> actor" where
  "ws_track en now ws a = resetSleepTimer en now (a\<lparr>a_rawWebSockets := js_add ws (a_rawWebSockets a)\<rparr>)"

text \<open>The listener for the socket's close and error events.\<close>

definition ws_closed :: "env \<Rightarrow> rat \<Rightarrow> nat \<Rightarrow> actor \<Rightarrow> actor" where
  "ws_closed en now ws a = resetSleepTimer en now (a\<lparr>a_rawWebSockets := js_remove ws (a_rawWebSockets a)\<rparr>)"

text \<open>The end of \<open>handleWebSocket\<close>, \<open>stateBeforeHandler\<close> being the dirty flag at its start.\<close>

definition ws_handler_done :: "env \<Rightarrow> rat \<Rightarrow> bool \<Rightarrow> js_err + jsval \<Rightarrow> actor \<Rightarrow> actor" where
  "ws_handler_done en now stateBeforeHandler res a =
     savePersistThrottled en now
       (case res of
          Inl e \<Rightarrow> a
        | Inr _ \<Rightarrow> if a_persistChanged a \<and> \<not> stateBeforeHandler
                   then snd (saveState en now True False a) else a)"

definition handleWebSocket :: "env \<Rightarrow> cfg \<Rightarrow> rat \<Rightarrow> nat \<Rightarrow> jsval list \<Rightarrow> actor \<Rightarrow> js_err option \<times> actor" where
  "handleWebSocket en cf now ws opts a =
     (case assertReady False a of
        Some e \<Rightarrow> (Some e, a)
      | None \<Rightarrow>
          (case cf_onWebSocket cf of
             None \<Rightarrow> (Some (EActor (InternalError ''onWebSocket handler not defined'')), a)
           | Some f \<Rightarrow>
               (case call_user en cf now f ws opts (ws_track en now ws a) of
                  (Pending, a2) \<Rightarrow> (None, a2)
                | (Ret v, a2) \<Rightarrow> (None, ws_handler_done en now (a_persistChanged a) (Inr v) a2)
                | (Throw e, a2) \<Rightarrow> (Some e, ws_handler_done en now (a_persistChanged a) (Inl e) a2))))"

section \<open>Alarms\<close>

text \<open>One scheduled event; every error is logged.\<close>

definition run_event :: "env \<Rightarrow> cfg \<Rightarrow> rat \<Rightarrow> sched_event \<Rightarrow> actor \<Rightarrow> actor" where
  "run_event en cf now ev a =
     (case lookup_action cf (se_actionName ev) of
        None \<Rightarrow> a
      | Some f \<Rightarrow>
          (case (case se_args ev of
                   Some b \<Rightarrow> andThen (cd_cbor_decode (en_codec en) b) spread_args
                 | None \<Rightarrow> Inr []) of
             Inl e \<Rightarrow> a
           | Inr args \<Rightarrow> snd (call_user en cf now f 0 args a)))"

text \<open>The alarm for the first event left in the schedule.\<close>

definition set_next_alarm :: "actor \<Rightarrow> actor" where
  "set_next_alarm a = (case a_events a of [] \<Rightarrow> a | ev # _ \<Rightarrow> queueSetAlarm (se_timestamp ev) a)"

text \<open>What \<open>_onAlarm\<close> does to the schedule before it runs anything: the events it takes.\<close>

definition take_due :: "rat \<Rightarrow> actor \<Rightarrow> sched_event list \<times> actor" where
  "take_due now a =
     (case find_index (\<lambda>x. se_timestamp x \<le> now) (a_events a) of
        None \<Rightarrow> ([], set_next_alarm a)
      | Some runIndex \<Rightarrow>
          (take (Suc runIndex) (a_events a),
           set_next_alarm (a\<lparr>a_events := drop (Suc runIndex) (a_events a)\<rparr>)))"

definition onAlarm :: "env \<Rightarrow> cfg \<Rightarrow> rat \<Rightarrow> actor \<Rightarrow> actor" where
  "onAlarm en cf now a =
     (case take_due now (resetSleepTimer en now a) of
        (evs, a1) \<Rightarrow> fold (run_event en cf now) evs a1)"

section \<open>Start\<close>

definition new_instance :: "string \<Rightarrow> generic_state \<Rightarrow> bytes option \<Rightarrow> actor" where
  "new_instance actorId g disk =
     \<lparr>a_id = actorId, a_sleepCalled = False, a_stopCalled = False, a_persistChanged = False,
      a_isInOnStateChange = False, a_ready = False, a_input = JUndef, a_hasInitiated = False,
      a_state = JUndef, a_pconns = [], a_events = [], a_heap = [], a_connections = [],
      a_subIndex = [], a_generic = g, a_writeQ = spq_new, a_writing = None, a_saveWaiters = [],
      a_alarmQ = spq_new, a_lastSaveTime = 0, a_pendingSave = None, a_onPersistSaved = None,
      a_vars = None, a_db = False, a_background = [], a_sleepTimeout = None, a_fetchCount = 0,
      a_rawWebSockets = [], a_livenessInterval = False, a_aborted = False, a_actions = [],
      a_nextAction = 0, a_disk = disk, a_stale = False, a_out = []\<rparr>"

text \<open>One persisted connection is loaded: a connection object, its map entry and its
  subscriptions.\<close>

definition load_conn :: "env \<Rightarrow> cfg \<Rightarrow> rat \<Rightarrow> persisted_conn \<Rightarrow> actor \<Rightarrow> js_err + actor" where
  "load_conn en cf now p a =
     andThen (getConnDriver (pc_connDriver p)) (\<lambda>driver.
       let r = length (a_heap a);
           a1 = a\<lparr>a_heap := a_heap a @ [new_Conn p driver (connStateEnabled cf)],
                  a_pconns := a_pconns a @ [r],
                  a_connections := jm_set (pc_connId p) r (a_connections a)\<rparr>
       in Inr (fold (\<lambda>ev. addSubscription en now ev r True) (pc_subscriptions p) a1))"

fun load_conns :: "env \<Rightarrow> cfg \<Rightarrow> rat \<Rightarrow> persisted_conn list \<Rightarrow> actor \<Rightarrow> js_err + actor" where
  "load_conns en cf now [] a = Inr a"
| "load_conns en cf now (p # ps) a = andThen (load_conn en cf now p a) (load_conns en cf now ps)"

text \<open>The creation branch of \<open>#initialize\<close>: initial state, first write, \<open>onCreate\<close>.\<close>

definition initial_state :: "cfg \<Rightarrow> jsval \<Rightarrow> js_err + jsval" where
  "initial_state cf input =
     (if stateEnabled cf then
        (case cf_createState cf of
           Some f \<Rightarrow> f [input]
         | None \<Rightarrow> Inr (the (cf_state cf)))
      else Inr JUndef)"

definition call_onCreate :: "env \<Rightarrow> cfg \<Rightarrow> rat \<Rightarrow> actor \<Rightarrow> js_err + actor" where
  "call_onCreate en cf now a =
     (case cf_onCreate cf of
        None \<Rightarrow> Inr a
      | Some f \<Rightarrow> (case call_hook en cf now f 0 [a_input a] a of (Inl e, _) \<Rightarrow> Inl e | (Inr _, a2) \<Rightarrow> Inr a2))"

definition create_new :: "env \<Rightarrow> cfg \<Rightarrow> rat \<Rightarrow> persisted_actor \<Rightarrow> actor \<Rightarrow> js_err + actor" where
  "create_new en cf now p a =
     andThen (initial_state cf (pa_input p)) (\<lambda>stateData.
     andThen (persisted_bytes en (p\<lparr>pa_state := stateData, pa_hasInitiated := True\<rparr>)) (\<lambda>written.
       call_onCreate en cf now
         (a\<lparr>a_disk := Some (snd written), a_input := pa_input p, a_hasInitiated := True,
            a_state := stateData, a_events := pa_scheduledEvents p\<rparr>)))"

text \<open>\<open>#initialize\<close>: the stored actor is restored, or a new one is created and written.  A new
  actor's file has no connections.\<close>

definition read_persisted :: "env \<Rightarrow> bytes option \<Rightarrow> js_err + persisted_actor" where
  "read_persisted en disk =
     (case disk of
        None \<Rightarrow> Inl (invariant_error ''persist data has not been set, it should be set when initialized'')
      | Some bs \<Rightarrow>
          andThen (deserializeWithEmbeddedVersion (en_persisted en) bs)
            (convertFromBarePersisted (en_codec en)))"

definition initialize :: "env \<Rightarrow> cfg \<Rightarrow> rat \<Rightarrow> actor \<Rightarrow> js_err + actor" where
  "initialize en cf now a =
     andThen (read_persisted en (a_disk a)) (\<lambda>p.
       if pa_hasInitiated p then
         load_conns en cf now (pa_connections p)
           (a\<lparr>a_input := pa_input p, a_hasInitiated := True, a_state := pa_state p,
              a_events := pa_scheduledEvents p\<rparr>)
       else create_new en cf now p a)"

definition start_vars :: "cfg \<Rightarrow> actor \<Rightarrow> js_err + actor" where
  "start_vars cf a =
     (if varsEnabled cf then
        andThen (case cf_createVars cf of Some f \<Rightarrow> f [] | None \<Rightarrow> Inr (the (cf_vars cf)))
          (\<lambda>v. Inr (a\<lparr>a_vars := Some v\<rparr>))
      else Inr a)"

definition start_user :: "env \<Rightarrow> cfg \<Rightarrow> rat \<Rightarrow> actor \<Rightarrow> js_err + actor" where
  "start_user en cf now a =
     (case cf_onStart cf of
        None \<Rightarrow> Inr a
      | Some f \<Rightarrow> (case call_hook en cf now f 0 [] a of (Inl e, _) \<Rightarrow> Inl e | (Inr _, a1) \<Rightarrow> Inr a1))"

definition start_db :: "cfg \<Rightarrow> actor \<Rightarrow> js_err + actor" where
  "start_db cf a =
     (case cf_db cf of
        None \<Rightarrow> Inr a
      | Some (Some e) \<Rightarrow> Inl e
      | Some None \<Rightarrow> Inr (a\<lparr>a_db := True\<rparr>))"

text \<open>The end of \<open>start\<close>: the alarm for the first event is set and awaited, then the instance is
  ready.\<close>

definition start_alarm :: "actor \<Rightarrow> actor" where
  "start_alarm a =
     (case a_events a of
        [] \<Rightarrow> a
      | _ # _ \<Rightarrow> alarm_settled (alarm_settled (set_next_alarm a)))"

definition make_ready :: "env \<Rightarrow> cfg \<Rightarrow> rat \<Rightarrow> actor \<Rightarrow> js_err option \<times> actor" where
  "make_ready en cf now a =
     (let a1 = resetSleepTimer en now (a\<lparr>a_ready := True\<rparr>)
      in checkConnectionsLiveness en cf now (a1\<lparr>a_livenessInterval := True\<rparr>))"

text \<open>\<open>start\<close> up to the alarm.\<close>

definition start_prepare :: "env \<Rightarrow> cfg \<Rightarrow> rat \<Rightarrow> actor \<Rightarrow> js_err + actor" where
  "start_prepare en cf now a =
     andThen (initialize en cf now a) (\<lambda>a1.
     andThen (start_vars cf a1) (\<lambda>a2.
     andThen (start_user en cf now a2) (\<lambda>a3.
     start_db cf a3)))"

definition start :: "env \<Rightarrow> cfg \<Rightarrow> rat \<Rightarrow> string \<Rightarrow> generic_state \<Rightarrow> bytes option \<Rightarrow> js_err + actor" where
  "start en cf now actorId g disk =
     andThen (start_prepare en cf now (new_instance actorId g disk)) (\<lambda>a.
       case make_ready en cf now (start_alarm a) of
         (Some e, _) \<Rightarrow> Inl e
       | (None, a1) \<Rightarrow> Inr a1)"

section \<open>Stop\<close>

text \<open>\<open>_stop\<close> up to the wait for background work.\<close>

definition stop_begin :: "env \<Rightarrow> cfg \<Rightarrow> rat \<Rightarrow> actor \<Rightarrow> actor" where
  "stop_begin en cf now a =
     (if a_stopCalled a then a
      else
        let a1 = a\<lparr>a_stopCalled := True, a_aborted := True\<rparr>;
            a2 = (case cf_onStop cf of
                    None \<Rightarrow> a1
                  | Some f \<Rightarrow> snd (call_hook en cf now f 0 [] a1))
        in fold (\<lambda>r. disconnect r None) (map snd (a_connections a2)) a2)"

definition disarm :: "timer option \<Rightarrow> timer option" where
  "disarm t = map_option (\<lambda>(due, armed). (due, False)) t"

text \<open>The rest: the timers are cleared and the state is written.\<close>

definition stop_finish :: "env \<Rightarrow> rat \<Rightarrow> actor \<Rightarrow> js_err option \<times> actor" where
  "stop_finish en now a =
     saveState en now True True
       (a\<lparr>a_pendingSave := disarm (a_pendingSave a), a_sleepTimeout := disarm (a_sleepTimeout a),
          a_livenessInterval := False\<rparr>)"

section \<open>Everything that can happen\<close>

datatype actor_event =
    UserCode "cmd list"
  | CreateConn string string jsval jsval string jsval jsval
  | ConnectFailed nat
  | RemoveConn nat
  | Message nat jsval
  | HttpAction nat string jsval
  | ActionSettled nat "js_err + jsval"
  | Fetch "jsval list"
  | FetchSettled "js_err + jsval"
  | WebSocketOpen nat "jsval list"
  | WebSocketClosed nat
  | WebSocketHandled bool "js_err + jsval"
  | AlarmFired
  | AlarmSettled
  | SaveTimer
  | WriteSettled bool
  | SleepTimer
  | SleepImmediate
  | LivenessInterval
  | Sockets generic_state
  | BackgroundSettled nat
  | StopBegin
  | StopFinish

fun actor_step :: "env \<Rightarrow> cfg \<Rightarrow> rat \<times> actor_event \<Rightarrow> actor \<Rightarrow> actor" where
  "actor_step en cf (now, UserCode cs) a = snd (exec en cf now cs a)"
| "actor_step en cf (now, CreateConn i t p st d ds au) a = snd (createConn en cf now i t p st d ds au a)"
| "actor_step en cf (now, ConnectFailed r) a =
     (if r < length (a_heap a) then disconnect r (Some ''`onConnect` failed'') a else a)"
| "actor_step en cf (now, RemoveConn r) a =
     (if r < length (a_heap a) then remove_conn en cf now r a else a)"
| "actor_step en cf (now, Message r m) a =
     (if r < length (a_heap a) then processMessage en cf now m r a else a)"
| "actor_step en cf (now, HttpAction r name args) a =
     (if r < length (a_heap a) then run_action en cf now r ReplyHttp name args a else a)"
| "actor_step en cf (now, ActionSettled k res) a = action_done en cf now k res a"
| "actor_step en cf (now, Fetch request) a = handleFetch en cf now request a"
| "actor_step en cf (now, FetchSettled res) a = fetch_settled en now res a"
| "actor_step en cf (now, WebSocketOpen ws opts) a = snd (handleWebSocket en cf now ws opts a)"
| "actor_step en cf (now, WebSocketClosed ws) a = ws_closed en now ws a"
| "actor_step en cf (now, WebSocketHandled before res) a = ws_handler_done en now before res a"
| "actor_step en cf (now, AlarmFired) a = onAlarm en cf now a"
| "actor_step en cf (now, AlarmSettled) a = alarm_settled a"
| "actor_step en cf (now, SaveTimer) a = save_timer en now a"
| "actor_step en cf (now, WriteSettled ok) a = write_settled en ok a"
| "actor_step en cf (now, SleepTimer) a = sleep_timer en a"
| "actor_step en cf (now, SleepImmediate) a = sleep_immediate a"
| "actor_step en cf (now, LivenessInterval) a =
     (if a_livenessInterval a then snd (checkConnectionsLiveness en cf now a) else a)"
| "actor_step en cf (now, Sockets g) a = a\<lparr>a_generic := g\<rparr>"
| "actor_step en cf (now, BackgroundSettled p) a = a\<lparr>a_background := js_remove p (a_background a)\<rparr>"
| "actor_step en cf (now, StopBegin) a = stop_begin en cf now a"
| "actor_step en cf (now, StopFinish) a = snd (stop_finish en now a)"

end
