(* ===== verification/ActorInv.thy ===== *)
theory ActorInv
  imports ActorHandlers
begin

text \<open>
  The rule for invariants of an \<open>ActorInstance\<close>: the locale \<open>user_code_invariant\<close> names what each
  primitive change that user code can cause must preserve and proves that then user code preserves
  it; its extension \<open>actor_invariant\<close> adds the changes the handlers make and proves that every
  handler, hence every run, preserves it.  The theories that follow interpret it once per invariant.
\<close>

section \<open>What the operations leave alone\<close>

text \<open>The three groups of fields that the invariants speak about.\<close>

definition conn_view where
  "conn_view a = (a_heap a, a_connections a, a_subIndex a, a_pconns a)"

definition event_view where
  "event_view a = (a_events a, a_alarmQ a)"

definition sleep_view where
  "sleep_view a = (a_ready a, a_sleepTimeout a, a_fetchCount a, a_rawWebSockets a)"

definition save_view where
  "save_view a = (a_hasInitiated a, a_persistChanged a, a_state a, a_writeQ a, a_writing a, a_disk a, a_stale a)"

lemmas view_defs = conn_view_def event_view_def sleep_view_def save_view_def

lemma emit_views [simp, frame_simps]:
  "conn_view (emit es a) = conn_view a" "event_view (emit es a) = event_view a"
  "sleep_view (emit es a) = sleep_view a" "save_view (emit es a) = save_view a"
  by (simp_all add: emit_def view_defs)

lemma start_write_views [simp, frame_simps]:
  "conn_view (start_write en a) = conn_view a" "event_view (start_write en a) = event_view a"
  "sleep_view (start_write en a) = sleep_view a"
  by (auto simp: start_write_def view_defs split: sum.splits prod.splits)

lemma resolve_saved_views [simp, frame_simps]:
  "conn_view (resolve_saved a) = conn_view a" "event_view (resolve_saved a) = event_view a"
  "sleep_view (resolve_saved a) = sleep_view a" "save_view (resolve_saved a) = save_view a"
  by (simp_all add: resolve_saved_def view_defs)

lemma savePersistInner_views [simp, frame_simps]:
  "conn_view (savePersistInner en now a) = conn_view a"
  "event_view (savePersistInner en now a) = event_view a"
  "sleep_view (savePersistInner en now a) = sleep_view a"
  by (auto simp: savePersistInner_def enqueue_write_def Let_def split: prod.splits)
    (simp_all add: view_defs)

lemma savePersistThrottled_views [simp, frame_simps]:
  "conn_view (savePersistThrottled en now a) = conn_view a"
  "event_view (savePersistThrottled en now a) = event_view a"
  "sleep_view (savePersistThrottled en now a) = sleep_view a"
  by (simp_all add: savePersistThrottled_def Let_def) (simp_all add: view_defs)

lemma saveState_views [simp, frame_simps]:
  "conn_view (snd (saveState en now i s a)) = conn_view a"
  "event_view (snd (saveState en now i s a)) = event_view a"
  "sleep_view (snd (saveState en now i s a)) = sleep_view a"
  by (simp_all add: saveState_def split: option.splits) (simp_all add: view_defs)

lemma finish_cycle_views [simp, frame_simps]:
  "conn_view (finish_cycle (store_written ok w a)) = conn_view a"
  "event_view (finish_cycle (store_written ok w a)) = event_view a"
  "sleep_view (finish_cycle (store_written ok w a)) = sleep_view a"
  by (cases w; simp add: finish_cycle_def store_written_def Let_def resolve_saved_def view_defs)+

lemma write_settled_views [simp, frame_simps]:
  "conn_view (write_settled en ok a) = conn_view a"
  "event_view (write_settled en ok a) = event_view a"
  "sleep_view (write_settled en ok a) = sleep_view a"
  by (simp_all add: write_settled_def Let_def split: option.split)

lemma queueSetAlarm_views [simp, frame_simps]:
  "conn_view (queueSetAlarm ts a) = conn_view a" "sleep_view (queueSetAlarm ts a) = sleep_view a"
  "save_view (queueSetAlarm ts a) = save_view a"
  by (simp_all add: queueSetAlarm_def Let_def emit_def view_defs)

lemma alarm_settled_views [simp, frame_simps]:
  "conn_view (alarm_settled a) = conn_view a" "sleep_view (alarm_settled a) = sleep_view a"
  "save_view (alarm_settled a) = save_view a"
  by (auto simp: alarm_settled_def Let_def emit_def view_defs split: option.splits prod.splits)

lemma scheduleEventInner_views [simp, frame_simps]:
  "conn_view (scheduleEventInner ev a) = conn_view a" "sleep_view (scheduleEventInner ev a) = sleep_view a"
  "save_view (scheduleEventInner ev a) = save_view a"
  by (simp_all add: scheduleEventInner_def Let_def) (simp_all add: view_defs)

lemma set_next_alarm_views [simp, frame_simps]:
  "conn_view (set_next_alarm a) = conn_view a" "sleep_view (set_next_alarm a) = sleep_view a"
  "save_view (set_next_alarm a) = save_view a"
  by (simp_all add: set_next_alarm_def split: list.split)

lemma take_due_views [simp, frame_simps]:
  "conn_view (snd (take_due now a)) = conn_view a" "sleep_view (snd (take_due now a)) = sleep_view a"
  "save_view (snd (take_due now a)) = save_view a"
  by (simp_all add: take_due_def split: option.split) (simp_all add: view_defs)

lemma resetSleepTimer_views [simp, frame_simps]:
  "conn_view (resetSleepTimer en now a) = conn_view a" "event_view (resetSleepTimer en now a) = event_view a"
  "save_view (resetSleepTimer en now a) = save_view a"
  by (simp_all add: resetSleepTimer_def Let_def view_defs)

lemma set_conn_views [simp, frame_simps]:
  "event_view (set_conn r c a) = event_view a" "sleep_view (set_conn r c a) = sleep_view a"
  "save_view (set_conn r c a) = save_view a"
  by (simp_all add: set_conn_def view_defs)

lemma addSubscription_views [simp, frame_simps]:
  "event_view (addSubscription en now ev r p a) = event_view a"
  "sleep_view (addSubscription en now ev r p a) = sleep_view a"
  by (simp_all add: addSubscription_def Let_def)
    (simp_all add: event_view_def sleep_view_def set_conn_def
      saveState_views [unfolded event_view_def sleep_view_def, simplified])

lemma removeSubscription_views [simp, frame_simps]:
  "event_view (removeSubscription en now ev r p a) = event_view a"
  "sleep_view (removeSubscription en now ev r p a) = sleep_view a"
  by (simp_all add: removeSubscription_def Let_def)
    (simp_all add: event_view_def sleep_view_def set_conn_def
      saveState_views [unfolded event_view_def sleep_view_def, simplified])

text \<open>The fields of the views, one by one.\<close>

lemma conn_viewD:
  assumes "conn_view a = conn_view b"
  shows "a_heap a = a_heap b" "a_connections a = a_connections b" "a_subIndex a = a_subIndex b"
    "a_pconns a = a_pconns b"
  using assms by (simp_all add: conn_view_def)

lemmas conn_frames [simp] =
  savePersistInner_views(1) [THEN conn_viewD(1)] savePersistInner_views(1) [THEN conn_viewD(2)]
  savePersistInner_views(1) [THEN conn_viewD(3)] savePersistInner_views(1) [THEN conn_viewD(4)]
  saveState_views(1) [THEN conn_viewD(1)] saveState_views(1) [THEN conn_viewD(2)]
  saveState_views(1) [THEN conn_viewD(3)] saveState_views(1) [THEN conn_viewD(4)]
  resetSleepTimer_views(1) [THEN conn_viewD(1)] resetSleepTimer_views(1) [THEN conn_viewD(2)]
  resetSleepTimer_views(1) [THEN conn_viewD(3)] resetSleepTimer_views(1) [THEN conn_viewD(4)]
  emit_views(1) [THEN conn_viewD(1)] emit_views(1) [THEN conn_viewD(2)]
  write_settled_views(1) [THEN conn_viewD(1)] scheduleEventInner_views(1) [THEN conn_viewD(1)]
  set_next_alarm_views(1) [THEN conn_viewD(1)] set_next_alarm_views(1) [THEN conn_viewD(2)]
  write_settled_views(1) [THEN conn_viewD(2)] scheduleEventInner_views(1) [THEN conn_viewD(2)]
  take_due_views(1) [THEN conn_viewD(2)] alarm_settled_views(1) [THEN conn_viewD(2)]
  take_due_views(1) [THEN conn_viewD(1)] alarm_settled_views(1) [THEN conn_viewD(1)]

lemma event_viewD:
  assumes "event_view a = event_view b"
  shows "a_events a = a_events b" "a_alarmQ a = a_alarmQ b"
  using assms by (simp_all add: event_view_def)

lemma sleep_viewD:
  assumes "sleep_view a = sleep_view b"
  shows "a_ready a = a_ready b" "a_sleepTimeout a = a_sleepTimeout b" "a_fetchCount a = a_fetchCount b"
    "a_rawWebSockets a = a_rawWebSockets b"
  using assms by (simp_all add: sleep_view_def)

lemmas event_frames [simp] =
  saveState_views(2) [THEN event_viewD(1)] saveState_views(2) [THEN event_viewD(2)]
  resetSleepTimer_views(2) [THEN event_viewD(1)] resetSleepTimer_views(2) [THEN event_viewD(2)]
  removeSubscription_views(1) [THEN event_viewD(1)] removeSubscription_views(1) [THEN event_viewD(2)]

lemmas sleep_frames [simp] =
  saveState_views(3) [THEN sleep_viewD(1)] saveState_views(3) [THEN sleep_viewD(2)]
  saveState_views(3) [THEN sleep_viewD(3)] saveState_views(3) [THEN sleep_viewD(4)]
  removeSubscription_views(2) [THEN sleep_viewD(1)] removeSubscription_views(2) [THEN sleep_viewD(2)]
  removeSubscription_views(2) [THEN sleep_viewD(3)] removeSubscription_views(2) [THEN sleep_viewD(4)]

lemma fold_removeSubscription_views [simp, frame_simps]:
  "event_view (fold (\<lambda>e. removeSubscription en now e r p) es a) = event_view a"
  "sleep_view (fold (\<lambda>e. removeSubscription en now e r p) es a) = sleep_view a"
  by (induction es arbitrary: a) simp_all

lemma drop_persisted_views [simp, frame_simps]:
  "event_view (drop_persisted en now i a) = event_view a"
  "sleep_view (drop_persisted en now i a) = sleep_view a"
  by (simp_all add: drop_persisted_def split: option.split) (simp_all add: event_view_def sleep_view_def)

lemmas drop_frames [simp] =
  drop_persisted_views(1) [THEN event_viewD(1)] drop_persisted_views(1) [THEN event_viewD(2)]
  drop_persisted_views(2) [THEN sleep_viewD(1)] drop_persisted_views(2) [THEN sleep_viewD(2)]
  drop_persisted_views(2) [THEN sleep_viewD(3)] drop_persisted_views(2) [THEN sleep_viewD(4)]

lemma unregister_conn_views [simp, frame_simps]:
  "event_view (unregister_conn en now r a) = event_view a"
  "sleep_view (unregister_conn en now r a) = sleep_view a"
  by (simp_all add: unregister_conn_def Let_def) (simp_all add: event_view_def sleep_view_def)

lemma register_conn_event_view [simp, frame_simps]:
  "event_view (register_conn en now c a) = event_view a"
  by (simp add: register_conn_def Let_def) (simp add: event_view_def)

lemma reset_variants_event_view [simp, frame_simps]:
  "event_view (fetch_begin en now a) = event_view a" "event_view (fetch_end en now a) = event_view a"
  "event_view (ws_track en now ws a) = event_view a" "event_view (ws_closed en now ws a) = event_view a"
  by (simp_all add: fetch_begin_def fetch_end_def ws_track_def ws_closed_def) (simp_all add: event_view_def)

lemma load_conn_event_view:
  "load_conn en cf now p a = Inr b \<Longrightarrow> event_view b = event_view a"
proof -
  have "event_view (fold (\<lambda>e. addSubscription en now e r q) es c) = event_view c" for r q es c
    by (induction es arbitrary: c) simp_all
  then show "load_conn en cf now p a = Inr b \<Longrightarrow> ?thesis"
    by (auto simp: load_conn_def andThen_Inr Let_def) (simp add: event_view_def)
qed

lemma load_conn_sleep_view:
  "load_conn en cf now p a = Inr b \<Longrightarrow> sleep_view b = sleep_view a"
proof -
  have "sleep_view (fold (\<lambda>e. addSubscription en now e r q) es c) = sleep_view c" for r q es c
    by (induction es arbitrary: c) simp_all
  then show "load_conn en cf now p a = Inr b \<Longrightarrow> ?thesis"
    by (auto simp: load_conn_def andThen_Inr Let_def) (simp add: sleep_view_def)
qed

lemma load_conns_sleep_view:
  "load_conns en cf now ps a = Inr b \<Longrightarrow> sleep_view b = sleep_view a"
  by (induction ps arbitrary: a) (auto simp: andThen_Inr dest: load_conn_sleep_view)

lemma load_conns_event_view:
  "load_conns en cf now ps a = Inr b \<Longrightarrow> event_view b = event_view a"
  by (induction ps arbitrary: a) (auto simp: andThen_Inr dest: load_conn_event_view)

lemma heap_set_conn [simp]: "length (a_heap (set_conn r c a)) = length (a_heap a)"
  by (simp add: set_conn_def)

lemma heap_addSubscription [simp]:
  "length (a_heap (addSubscription en now e r p a)) = length (a_heap a)"
  by (simp add: addSubscription_def Let_def)

lemma heap_removeSubscription [simp]:
  "length (a_heap (removeSubscription en now e r p a)) = length (a_heap a)"
  by (simp add: removeSubscription_def Let_def)

lemma heap_fold_removeSubscription [simp]:
  "length (a_heap (fold (\<lambda>e. removeSubscription en now e r p) es a)) = length (a_heap a)"
  by (induction es arbitrary: a) simp_all

lemma heap_unregister [simp]: "length (a_heap (unregister_conn en now r a)) = length (a_heap a)"
  by (simp add: unregister_conn_def drop_persisted_def Let_def split: option.split)

lemma heap_register [simp]: "length (a_heap (register_conn en now c a)) = Suc (length (a_heap a))"
  by (simp add: register_conn_def Let_def)

section \<open>The rule\<close>

locale user_code_invariant =
  fixes en :: env and I :: "actor \<Rightarrow> bool"
  assumes emit_I: "I a \<Longrightarrow> I (emit es a)"
    and assign_I: "I a \<Longrightarrow> I (a\<lparr>a_state := v, a_persistChanged := True\<rparr>)"
    and reject_I: "I a \<Longrightarrow> I (a\<lparr>a_state := v, a_stale := True\<rparr>)"
    and inside_I: "I a \<Longrightarrow> I (a\<lparr>a_isInOnStateChange := b\<rparr>)"
    and save_I: "I a \<Longrightarrow> I (savePersistInner en now a)"
    and saved_I: "I a \<Longrightarrow> I (a\<lparr>a_onPersistSaved := p\<rparr>)"
    and pendingSave_I: "I a \<Longrightarrow> t = None \<or> (\<exists>due. t = Some (due, True)) \<Longrightarrow> I (a\<lparr>a_pendingSave := t\<rparr>)"
    and schedule_I: "I a \<Longrightarrow> I (scheduleEventInner ev a)"
    and sleepCalled_I: "I a \<Longrightarrow> I (a\<lparr>a_sleepCalled := True\<rparr>)"
    and conn_I: "I a \<Longrightarrow> r < length (a_heap a) \<Longrightarrow> conn_id c = conn_id (conn_at a r) \<Longrightarrow> c_driver c = c_driver (conn_at a r) \<Longrightarrow>
      c_subscriptions c = c_subscriptions (conn_at a r) \<Longrightarrow>
      pc_subscriptions (c_persist c) = pc_subscriptions (c_persist (conn_at a r)) \<Longrightarrow> I (set_conn r c a)"
    and background_I: "I a \<Longrightarrow> I (a\<lparr>a_background := bg\<rparr>)"
begin

lemma throttled_I: "I a \<Longrightarrow> I (savePersistThrottled en now a)"
  by (simp add: savePersistThrottled_def Let_def save_I pendingSave_I)

lemma saveState_I: "I a \<Longrightarrow> I (snd (saveState en now i s a))"
  by (auto simp: saveState_def save_I intro!: throttled_I saved_I split: option.splits)

lemma save_timer_I: "I a \<Longrightarrow> I (save_timer en now a)"
  by (auto simp: save_timer_def intro!: save_I pendingSave_I split: option.splits bool.splits)

lemma scheduleEvent_I: "I a \<Longrightarrow> I (snd (scheduleEvent en i ts fn args a))"
  by (auto simp: scheduleEvent_def intro: schedule_I split: sum.splits)

lemma send_message_I: "I a \<Longrightarrow> I (snd (send_message en r m a))"
  by (auto simp: send_message_def intro: emit_I split: sum.splits)

lemma send_all_I: "I a \<Longrightarrow> I (snd (send_all en rs m a))"
  by (induction rs arbitrary: m a) (auto intro!: emit_I split: prod.splits sum.splits)

lemma broadcast_I: "I a \<Longrightarrow> I (snd (broadcast en name args a))"
  by (auto simp: broadcast_def Let_def intro!: emit_I send_all_I split: option.splits sum.splits)

lemma conn_send_I: "I a \<Longrightarrow> I (snd (conn_send en r name args a))"
  by (auto simp: conn_send_def Let_def intro!: emit_I send_message_I split: sum.splits)

lemma disconnect_I: "I a \<Longrightarrow> I (disconnect r reason a)"
proof (cases "r < length (a_heap a)")
  case True
  then show "I a \<Longrightarrow> ?thesis"
    by (auto simp: disconnect_def conn_disconnect_def Let_def conn_id_def intro!: emit_I conn_I)
next
  case False
  then show "I a \<Longrightarrow> ?thesis"
    by (auto simp: disconnect_def conn_disconnect_def Let_def set_conn_def list_update_beyond intro!: emit_I)
qed

lemma actor_sleep_I: "I a \<Longrightarrow> I (snd (actor_sleep en a))"
  by (simp add: actor_sleep_def sleepCalled_I)

lemma on_change_I:
  assumes "\<And>a. I a \<Longrightarrow> I (hook a)" and "I a" and "path = ''state'' \<or> prefix ''state.'' path"
  shows "I (snd (on_persist_change en hook path value (a\<lparr>a_state := st\<rparr>)))"
  using assms reject_I [of a st] assign_I [of a st]
  by (auto simp: on_persist_change_def intro!: emit_I split: option.splits)

lemma exec_cmd_I:
  assumes h: "\<And>a. I a \<Longrightarrow> I (hook a)" and a: "I a"
  shows "I (snd (exec_cmd en cf hook now c a))"
proof (cases c)
  case (SetConnState r v)
  then show ?thesis
    using a by (auto simp: exec_cmd_def conn_set_state_def conn_id_def intro!: conn_I split: sum.splits if_splits)
next
  case (WaitUntil p)
  then show ?thesis
    using a by (auto simp: exec_cmd_def waitUntil_def intro: background_I split: option.splits)
qed (use a h in \<open>auto simp: exec_cmd_def validate_def intro!: on_change_I broadcast_I conn_send_I
    disconnect_I scheduleEvent_I saveState_I actor_sleep_I split: sum.splits\<close>)

lemma run_cmds_I: "(\<And>c a. I a \<Longrightarrow> I (snd (ex c a))) \<Longrightarrow> I a \<Longrightarrow> I (snd (run_cmds ex cs a))"
proof (induction cs arbitrary: a)
  case Nil
  then show ?case by simp
next
  case (Cons c cs)
  have "I (snd (ex c a))" using Cons.prems by simp
  with Cons.IH [OF Cons.prems(1), of "snd (ex c a)"] show ?case
    by (auto split: prod.splits option.splits)
qed

lemma hook_I: "I a \<Longrightarrow> I (state_change_hook en cf now a)"
proof -
  assume a: "I a"
  have "I (snd (run_cmds (exec_cmd en cf (\<lambda>a. a) now) cs (a\<lparr>a_isInOnStateChange := True\<rparr>)))" for cs
    by (intro run_cmds_I exec_cmd_I inside_I a)
  then show ?thesis
    using a by (auto simp: state_change_hook_def Let_def split_beta intro: inside_I split: option.splits)
qed

lemma exec_I: "I a \<Longrightarrow> I (snd (exec en cf now cs a))"
  unfolding exec_def by (intro run_cmds_I exec_cmd_I hook_I)

lemma call_user_I: "I a \<Longrightarrow> I (snd (call_user en cf now f r args a))"
  using exec_I [of a cf now "fst (f a r args)"]
  by (auto simp: call_user_def split: prod.splits option.splits)

lemma call_hook_I: "I a \<Longrightarrow> I (snd (call_hook en cf now f r args a))"
  using exec_I [of a cf now "fst (f a r args)"]
  by (auto simp: call_hook_def split: prod.splits option.splits)

lemma executeAction_I: "I a \<Longrightarrow> I (snd (executeAction en cf now r name args a))"
proof -
  assume a: "I a"
  have failed: "I b \<Longrightarrow> I (snd (action_failed en now e b))" for e b
    by (simp add: action_failed_def throttled_I)
  have returned: "I b \<Longrightarrow> I (snd (action_returned en cf now name xs v b))" for xs v b
    using call_hook_I [of b cf now _ 0 "[JStr name, JArr xs, v]"]
    by (auto simp: action_returned_def split: option.splits prod.splits sum.splits)
      (metis throttled_I snd_conv)+
  show ?thesis
    using a call_user_I [OF a, of cf now _ r]
    by (auto simp: executeAction_def intro!: failed returned split: option.splits prod.splits sum.splits outcome.splits)
      (metis snd_conv)+
qed

lemma call_onConnect_I: "I a \<Longrightarrow> I (call_onConnect en cf now r a)"
  using call_user_I [of a cf now _ r "[]"]
  by (auto simp: call_onConnect_def split: option.splits prod.splits outcome.splits)
    (metis disconnect_I snd_conv)+

end

text \<open>The other primitive changes, made by the handlers themselves.\<close>

locale actor_invariant = user_code_invariant +
  assumes written_I: "I a \<Longrightarrow> I (write_settled en ok a)"
    and due_I: "I a \<Longrightarrow> I (snd (take_due now a))"
    and alarm_I: "I a \<Longrightarrow> I (alarm_settled a)"
    and reset_I: "I a \<Longrightarrow> I (resetSleepTimer en now a)"
    and disarm_I: "I a \<Longrightarrow> I (a\<lparr>a_sleepTimeout := disarm (a_sleepTimeout a)\<rparr>)"
    and register_I: "I a \<Longrightarrow> \<not> jm_has (a_connections a) (conn_id c) \<Longrightarrow> c_subscriptions c = [] \<Longrightarrow>
      pc_subscriptions (c_persist c) = [] \<Longrightarrow> I (register_conn en now c a)"
    and unregister_I: "I a \<Longrightarrow> r < length (a_heap a) \<Longrightarrow> I (unregister_conn en now r a)"
    and subscribe_I: "I a \<Longrightarrow> r < length (a_heap a) \<Longrightarrow> I (addSubscription en now e r False a)"
    and unsubscribe_I: "I a \<Longrightarrow> r < length (a_heap a) \<Longrightarrow> I (removeSubscription en now e r False a)"
    and fetch_begin_I: "I a \<Longrightarrow> I (fetch_begin en now a)"
    and fetch_end_I: "I a \<Longrightarrow> I (fetch_end en now a)"
    and ws_track_I: "I a \<Longrightarrow> I (ws_track en now ws a)"
    and ws_closed_I: "I a \<Longrightarrow> I (ws_closed en now ws a)"
    and actions_I: "I a \<Longrightarrow> I (a\<lparr>a_actions := acts, a_nextAction := n\<rparr>)"
    and generic_I: "I a \<Longrightarrow> I (a\<lparr>a_generic := g\<rparr>)"
    and stop_I: "I a \<Longrightarrow> I (a\<lparr>a_stopCalled := True, a_aborted := True\<rparr>)"
    and vars_I: "I a \<Longrightarrow> I (a\<lparr>a_vars := vs\<rparr>)"
    and db_I: "I a \<Longrightarrow> I (a\<lparr>a_db := b\<rparr>)"
    and ready_I: "I a \<Longrightarrow> I (a\<lparr>a_ready := True\<rparr>)"
    and next_alarm_I: "I a \<Longrightarrow> I (set_next_alarm a)"
    and interval_I: "I a \<Longrightarrow> I (a\<lparr>a_livenessInterval := l\<rparr>)"
    and stop_save_I: "I a \<Longrightarrow> I (a\<lparr>a_pendingSave := disarm (a_pendingSave a)\<rparr>)"
begin

lemma sleep_timer_I: "I a \<Longrightarrow> I (sleep_timer en a)"
  using disarm_I [of a]
  by (auto simp: sleep_timer_def disarm_def intro!: actor_sleep_I split: option.splits bool.splits)

lemma remove_conn_I: "I a \<Longrightarrow> r < length (a_heap a) \<Longrightarrow> I (remove_conn en cf now r a)"
  unfolding remove_conn_def Let_def
  by (intro reset_I) (auto intro!: call_user_I emit_I unregister_I split: option.split)

lemma prepareConn_I: "I a \<Longrightarrow> I (snd (prepareConn en cf now params a))"
  using call_hook_I [of a cf now _ 0 "[params]"]
  by (auto simp: prepareConn_def split: option.splits prod.splits sum.splits) (metis snd_conv)+

end

text \<open>Connection objects are never freed: an index once valid stays valid.\<close>

interpretation heap_grows: actor_invariant en "\<lambda>a. n \<le> length (a_heap a)" for en n
  by unfold_locales (simp_all add: le_Suc_eq fetch_begin_def fetch_end_def ws_track_def ws_closed_def)

context actor_invariant begin

lemma createConn_I: "I a \<Longrightarrow> I (snd (createConn en cf now i t params st d ds au a))"
  unfolding createConn_def Let_def admit_conn_def
  by (auto simp: snd_case_result new_Conn_def new_persisted_conn_def conn_id_def
      intro!: send_message_I emit_I call_onConnect_I register_I split: option.split sum.split)

lemma check_liveness_I:
  "I a \<Longrightarrow> (\<forall>r \<in> set rs. r < length (a_heap a)) \<Longrightarrow> I (snd (check_liveness en cf now rs a))"
proof (induction rs arbitrary: a)
  case Nil
  then show ?case by simp
next
  case (Cons r rs)
  have c: "conn_checkLiveness (a_generic a) now (conn_at a r) = Inr c \<Longrightarrow> I (set_conn r c a)" for c
    using Cons.prems
    by (intro conn_I) (auto simp: conn_checkLiveness_def andThen_Inr Let_def conn_id_def)
  have len: "length (a_heap a) \<le> length (a_heap (remove_conn en cf now r (set_conn r c a)))" for c
    using Cons.prems by (intro heap_grows.remove_conn_I) auto
  have rest: "\<forall>x \<in> set rs. x < length (a_heap (remove_conn en cf now r (set_conn r c a)))" for c
    using len [of c] Cons.prems by fastforce
  show ?case
    using Cons.prems c rest
    by (auto simp: Let_def intro!: Cons.IH remove_conn_I split: sum.splits)
qed

lemma action_settled_I: "I a \<Longrightarrow> I (snd (action_settled en cf now name xs res a))"
  using call_hook_I [of a cf now _ 0 "[JStr name, JArr xs, _]"]
  by (auto simp: action_settled_def action_failed_def action_returned_def intro: throttled_I
      split: option.splits prod.splits sum.splits) (metis throttled_I snd_conv)+

lemma reply_error_I: "I a \<Longrightarrow> I (reply_error en r i e a)"
  using send_message_I [of a r]
  by (auto simp: reply_error_def intro: emit_I split: sum.splits prod.splits option.splits)
    (metis emit_I snd_conv)+

lemma reply_output_I: "I a \<Longrightarrow> I (reply_output en r i v a)"
  using send_message_I [of a r]
  by (auto simp: reply_output_def intro: reply_error_I split: sum.splits prod.splits option.splits)
    (metis reply_error_I snd_conv)+

lemma deliver_I: "I a \<Longrightarrow> I (deliver en k r rep out a)"
  by (auto simp: deliver_def intro: emit_I reply_error_I reply_output_I split: reply.splits outcome.splits)

lemma next_action_I: "I a \<Longrightarrow> I (a\<lparr>a_nextAction := n\<rparr>)"
  using actions_I [of a n "a_actions a"] by simp

lemma parked_I: "I a \<Longrightarrow> I (a\<lparr>a_actions := acts\<rparr>)"
  using actions_I [of a "a_nextAction a" acts] by simp

lemma run_action_I: "I a \<Longrightarrow> I (run_action en cf now r rep name args a)"
proof -
  assume "I a"
  then have "I (snd (executeAction en cf now r name args a))" by (rule executeAction_I)
  then show ?thesis
    by (cases "executeAction en cf now r name args a")
      (auto simp: run_action_def park_action_def intro!: parked_I deliver_I next_action_I split: outcome.split)
qed

lemma action_done_I: "I a \<Longrightarrow> I (action_done en cf now k res a)"
proof -
  assume "I a"
  then have "I (snd (action_settled en cf now name xs res (a\<lparr>a_actions := acts\<rparr>)))" for acts name xs
    by (intro action_settled_I parked_I)
  with \<open>I a\<close> show ?thesis
    by (auto simp: action_done_def intro!: deliver_I split: option.splits prod.splits) (metis snd_conv)
qed

lemma processMessage_I: "I a \<Longrightarrow> r < length (a_heap a) \<Longrightarrow> I (processMessage en cf now m r a)"
  by (auto simp: processMessage_def Let_def intro!: reply_error_I run_action_I emit_I subscribe_I unsubscribe_I
      split: prod.split sum.split request.split)

lemma fetch_settled_I: "I a \<Longrightarrow> I (fetch_settled en now res a)"
  by (auto simp: fetch_settled_def fetch_finally_def intro!: emit_I throttled_I fetch_end_I)

lemma handleFetch_I: "I a \<Longrightarrow> I (handleFetch en cf now req a)"
proof -
  assume a: "I a"
  have "I (snd (call_user en cf now f 0 req (fetch_begin en now a)))" for f
    by (intro call_user_I fetch_begin_I a)
  then show ?thesis
    using a by (auto simp: handleFetch_def intro!: emit_I split: option.splits prod.splits outcome.splits)
      (metis fetch_settled_I snd_conv)+
qed

lemma ws_handler_done_I: "I a \<Longrightarrow> I (ws_handler_done en now before res a)"
  by (auto simp: ws_handler_done_def intro!: throttled_I saveState_I split: sum.split)

lemma handleWebSocket_I: "I a \<Longrightarrow> I (snd (handleWebSocket en cf now ws opts a))"
proof -
  assume a: "I a"
  have "I (snd (call_user en cf now f ws opts (ws_track en now ws a)))" for f
    by (intro call_user_I ws_track_I a)
  then show ?thesis
    using a by (auto simp: handleWebSocket_def split: option.splits prod.splits outcome.splits)
      (metis ws_handler_done_I snd_conv)+
qed

lemma run_event_I: "I a \<Longrightarrow> I (run_event en cf now ev a)"
  by (auto simp: run_event_def intro: call_user_I split: option.split sum.split)

lemma onAlarm_I: "I a \<Longrightarrow> I (onAlarm en cf now a)"
proof -
  assume "I a"
  then have "I (snd (take_due now (resetSleepTimer en now a)))" by (intro due_I reset_I)
  moreover have "I b \<Longrightarrow> I (fold (run_event en cf now) evs b)" for b evs
    by (induction evs arbitrary: b) (auto intro: run_event_I)
  ultimately show ?thesis by (auto simp: onAlarm_def split: prod.splits)
qed

lemma disconnect_all_I: "I a \<Longrightarrow> I (fold (\<lambda>r. disconnect r reason) rs a)"
  by (induction rs arbitrary: a) (auto intro: disconnect_I)

lemma stop_begin_I: "I a \<Longrightarrow> I (stop_begin en cf now a)"
  by (auto simp: stop_begin_def Let_def intro!: disconnect_all_I call_hook_I stop_I split: option.split)

lemma stop_finish_I: "I a \<Longrightarrow> I (snd (stop_finish en now a))"
proof -
  assume "I a"
  then have "I (a\<lparr>a_pendingSave := disarm (a_pendingSave a), a_sleepTimeout := disarm (a_sleepTimeout a),
      a_livenessInterval := False\<rparr>)"
    using interval_I [OF disarm_I [OF stop_save_I, of a], of False] by simp
  then show ?thesis by (simp add: stop_finish_def saveState_I)
qed

lemma liveness_I:
  "I a \<Longrightarrow> \<forall>(i, r) \<in> set (a_connections a). r < length (a_heap a) \<Longrightarrow>
     I (snd (checkConnectionsLiveness en cf now a))"
  unfolding checkConnectionsLiveness_def by (rule check_liveness_I) auto

end

text \<open>Every entry of the connection map names an existing object.\<close>

definition refs_ok :: "actor \<Rightarrow> bool" where
  "refs_ok a = (\<forall>(i, r) \<in> set (a_connections a). r < length (a_heap a))"

lemma set_jm_set: "set (jm_set k v m) \<subseteq> insert (k, v) (set m)"
  by (induction m) auto

lemma set_jm_del: "set (jm_del k m) \<subseteq> set m"
  by (auto simp: AList.delete_eq)

lemma refs_ok_cong:
  "a_connections a = a_connections b \<Longrightarrow> length (a_heap a) = length (a_heap b) \<Longrightarrow> refs_ok a = refs_ok b"
  by (simp add: refs_ok_def)

lemma connections_addSubscription [simp]:
  "a_connections (addSubscription en now e r p a) = a_connections a"
  by (simp add: addSubscription_def Let_def set_conn_def)

lemma connections_removeSubscription [simp]:
  "a_connections (removeSubscription en now e r p a) = a_connections a"
  by (simp add: removeSubscription_def Let_def set_conn_def)

lemma connections_fold_removeSubscription [simp]:
  "a_connections (fold (\<lambda>e. removeSubscription en now e r p) es a) = a_connections a"
  by (induction es arbitrary: a) simp_all

lemma connections_unregister [simp]:
  "a_connections (unregister_conn en now r a) = jm_del (conn_id (conn_at a r)) (a_connections a)"
  by (simp add: unregister_conn_def drop_persisted_def Let_def split: option.split)

lemma refs_ok_register: "refs_ok a \<Longrightarrow> refs_ok (register_conn en now c a)"
  using set_jm_set [of "conn_id c" "length (a_heap a)" "a_connections a"]
  by (fastforce simp: refs_ok_def register_conn_def Let_def)

lemma refs_ok_unregister: "refs_ok a \<Longrightarrow> refs_ok (unregister_conn en now r a)"
  using set_jm_del [of "conn_id (conn_at a r)" "a_connections a"] by (fastforce simp: refs_ok_def)

lemma connections_fold_addSubscription [simp]:
  "a_connections (fold (\<lambda>e. addSubscription en now e r p) es a) = a_connections a"
  "length (a_heap (fold (\<lambda>e. addSubscription en now e r p) es a)) = length (a_heap a)"
  by (induction es arbitrary: a) simp_all

lemma refs_ok_load_conns: "load_conns en cf now ps a = Inr b \<Longrightarrow> refs_ok a \<Longrightarrow> refs_ok b"
proof (induction ps arbitrary: a)
  case Nil
  then show ?case by simp
next
  case (Cons p ps)
  then obtain c where c: "load_conn en cf now p a = Inr c" "load_conns en cf now ps c = Inr b"
    by (auto simp: andThen_Inr)
  have "refs_ok c"
    using c(1) Cons.prems(2) set_jm_set [of "pc_connId p" "length (a_heap a)" "a_connections a"]
    by (fastforce simp: load_conn_def andThen_Inr Let_def refs_ok_def)
  then show ?case using Cons.IH c(2) by blast
qed

interpretation refs: actor_invariant en refs_ok for en
proof (unfold_locales, goal_cases)
  case 17
  then show ?case by (intro refs_ok_register)
next
  case 18
  then show ?case by (intro refs_ok_unregister)
qed (simp_all add: refs_ok_def fetch_begin_def fetch_end_def ws_track_def ws_closed_def set_conn_def)

context actor_invariant begin

lemma step_I:
  assumes "I a" and "refs_ok a"
  shows "I (actor_step en cf e a)"
proof (cases e)
  case (Pair now ev)
  show ?thesis
    unfolding Pair
    by (cases ev) (use assms in \<open>auto simp: sleep_immediate_def refs_ok_def intro: exec_I createConn_I
      disconnect_I remove_conn_I processMessage_I run_action_I action_done_I handleFetch_I fetch_settled_I
      handleWebSocket_I ws_closed_I ws_handler_done_I onAlarm_I alarm_I written_I sleep_timer_I emit_I
      liveness_I generic_I background_I stop_begin_I stop_finish_I save_timer_I\<close>)
qed

text \<open>An invariant that the freshly initialized instance has, it still has when \<open>start\<close> returns.\<close>

lemma call_onCreate_I: "call_onCreate en cf now a = Inr a' \<Longrightarrow> I a \<Longrightarrow> I a'"
  using call_hook_I [of a cf now _ 0 "[a_input a]"]
  by (auto simp: call_onCreate_def split: option.splits prod.splits sum.splits) (metis snd_conv)

lemma create_new_I:
  assumes "create_new en cf now p a = Inr a'"
    and "\<And>out st. persisted_bytes en (p\<lparr>pa_state := st, pa_hasInitiated := True\<rparr>) = Inr out \<Longrightarrow>
      I (a\<lparr>a_disk := Some (snd out), a_input := pa_input p, a_hasInitiated := True,
           a_state := st, a_events := pa_scheduledEvents p\<rparr>)"
  shows "I a'"
  using assms by (auto simp: create_new_def andThen_Inr intro: call_onCreate_I)

lemma initialize_I:
  assumes i: "initialize en cf now a = Inr a'"
    and load: "\<And>p. read_persisted en (a_disk a) = Inr p \<Longrightarrow> pa_hasInitiated p \<Longrightarrow>
      load_conns en cf now (pa_connections p)
        (a\<lparr>a_input := pa_input p, a_hasInitiated := True, a_state := pa_state p,
           a_events := pa_scheduledEvents p\<rparr>) = Inr a' \<Longrightarrow> I a'"
    and create: "\<And>p. read_persisted en (a_disk a) = Inr p \<Longrightarrow> \<not> pa_hasInitiated p \<Longrightarrow>
      create_new en cf now p a = Inr a' \<Longrightarrow> I a'"
  shows "I a'"
proof -
  obtain p where "read_persisted en (a_disk a) = Inr p" "(if pa_hasInitiated p then
      load_conns en cf now (pa_connections p)
        (a\<lparr>a_input := pa_input p, a_hasInitiated := True, a_state := pa_state p,
           a_events := pa_scheduledEvents p\<rparr>)
      else create_new en cf now p a) = Inr a'"
    using i by (auto simp: initialize_def andThen_Inr)
  then show ?thesis using load [of p] create [of p] by (cases "pa_hasInitiated p") simp_all
qed

lemma start_alarm_I: "I a \<Longrightarrow> I (start_alarm a)"
  by (auto simp: start_alarm_def intro!: alarm_I next_alarm_I split: list.split)

lemma start_prepare_I:
  assumes "start_prepare en cf now a = Inr b"
    and "\<And>a'. initialize en cf now a = Inr a' \<Longrightarrow> I a'"
  shows "I b"
proof -
  obtain a1 a2 a3 where steps: "initialize en cf now a = Inr a1" "start_vars cf a1 = Inr a2"
    "start_user en cf now a2 = Inr a3" "start_db cf a3 = Inr b"
    using assms(1) by (auto simp: start_prepare_def andThen_Inr)
  have "I a2" using steps(2) assms(2) [OF steps(1)]
    by (auto simp: start_vars_def andThen_Inr intro: vars_I split: if_splits)
  then have "I a3" using steps(3) call_hook_I [of a2 cf now _ 0 "[]"]
    by (auto simp: start_user_def split: option.splits prod.splits sum.splits) (metis snd_conv)
  then show ?thesis using steps(4)
    by (auto simp: start_db_def intro: db_I split: option.splits)
qed

lemma make_ready_I: "I a \<Longrightarrow> refs_ok a \<Longrightarrow> I (snd (make_ready en cf now a))"
  unfolding make_ready_def Let_def
  by (intro liveness_I interval_I reset_I ready_I) (auto simp: refs_ok_def)

end

lemma startE:
  assumes "start en cf now i g disk = Inr a"
  obtains b where "start_prepare en cf now (new_instance i g disk) = Inr b"
    and "make_ready en cf now (start_alarm b) = (None, a)"
proof -
  obtain b where b: "start_prepare en cf now (new_instance i g disk) = Inr b"
    and r: "(case make_ready en cf now (start_alarm b) of (Some e, _) \<Rightarrow> Inl e | (None, x) \<Rightarrow> Inr x) = Inr a"
    using assms by (auto simp: start_def andThen_Inr)
  obtain e x where ex: "make_ready en cf now (start_alarm b) = (e, x)" by fastforce
  with r have "make_ready en cf now (start_alarm b) = (None, a)" by (cases e) simp_all
  then show ?thesis using b that by blast
qed

lemma refs_ok_prepared:
  assumes "start_prepare en cf now (new_instance i g disk) = Inr b"
  shows "refs_ok (start_alarm b)"
proof (intro refs.start_alarm_I, rule refs.start_prepare_I [OF assms], rule refs.initialize_I, assumption)
  let ?n = "new_instance i g disk"
  fix a' p
  assume "load_conns en cf now (pa_connections p)
      (?n\<lparr>a_input := pa_input p, a_hasInitiated := True, a_state := pa_state p,
         a_events := pa_scheduledEvents p\<rparr>) = Inr a'"
  then show "refs_ok a'" by (rule refs_ok_load_conns) (simp add: refs_ok_def new_instance_def)
next
  fix a' p
  assume "create_new en cf now p (new_instance i g disk) = Inr a'"
  then show "refs_ok a'" by (rule refs.create_new_I) (simp add: refs_ok_def new_instance_def)
qed

text \<open>A run from a state with the invariant keeps it.\<close>

lemma refs_step: "refs_ok a \<Longrightarrow> refs_ok (actor_step en cf e a)"
  by (intro refs.step_I)

context actor_invariant begin

lemma run_I: "I a \<Longrightarrow> refs_ok a \<Longrightarrow> I (fold (actor_step en cf) es a)"
proof (induction es arbitrary: a)
  case Nil
  then show ?case by simp
next
  case (Cons e es)
  then show ?case by (simp add: step_I refs_step)
qed

end

section \<open>A small instance for examples\<close>

text \<open>An environment whose stored actors are numbered: the file with body \<open>[n]\<close> holds an initiated
  actor with state null, no connections and one event per entry of \<open>example_events n\<close>.\<close>

definition no_sockets :: generic_state where
  "no_sockets = \<lparr>g_websockets = [], g_sseStreams = []\<rparr>"

definition example_bare :: "bytes \<Rightarrow> bare_actor" where
  "example_bare bs = \<lparr>ba_input = None, ba_hasInitialized = True, ba_state = [247], ba_connections = [],
     ba_scheduledEvents = (if bs = [1] then [\<lparr>be_eventId = ''e'', be_timestamp = 7, be_action = ''tick'',
       be_args = None\<rparr>] else [])\<rparr>"

definition example_env :: env where
  "example_env = \<lparr>en_codec = tiny_codec,
     en_persisted = \<lparr>vd_currentVersion = 1, vd_migrations = [],
        vd_serializeVersion = (\<lambda>b. if b = example_bare [0] then Inr [0]
          else if b = example_bare [1] then Inr [1] else Inl (EError ''Error'' ''not an example'')),
        vd_deserializeVersion = (\<lambda>bs. Inr (example_bare bs))\<rparr>,
     en_toClient = \<lparr>vd_currentVersion = 1, vd_migrations = [],
        vd_serializeVersion = (\<lambda>_. Inr []), vd_deserializeVersion = (\<lambda>_. Inr JUndef)\<rparr>,
     en_str = (\<lambda>_. []), en_u8 = (\<lambda>_. Inr []), en_sleep = True, en_noSleep = False,
     en_sleepTimeout = 30, en_stateSaveInterval = 10, en_livenessTimeout = 5\<rparr>"

definition example_cfg :: cfg where
  "example_cfg = \<lparr>cf_actions = [], cf_createState = None, cf_state = Some JNull, cf_createVars = None,
     cf_vars = None, cf_createConnState = None, cf_connState = None, cf_onCreate = None,
     cf_onStart = None, cf_onStop = None, cf_onStateChange = None, cf_onBeforeConnect = None,
     cf_onConnect = None, cf_onDisconnect = None, cf_onBeforeActionResponse = None,
     cf_onFetch = None, cf_onWebSocket = None, cf_db = None\<rparr>"

definition example_file :: "byte \<Rightarrow> bytes option" where
  "example_file n = Some (embedVersion 1 [n])"

lemma example_read:
  "read_persisted example_env (example_file n) = Inr \<lparr>pa_input = JUndef, pa_hasInitiated = True,
     pa_state = JUndef, pa_connections = [],
     pa_scheduledEvents = map event_from_bare (ba_scheduledEvents (example_bare [n]))\<rparr>"
  by (simp add: read_persisted_def example_file_def deserialize_embedded deserializeVersioned_def
      convertFromBarePersisted_def example_env_def example_bare_def decode_present_def tiny_codec_def)

definition example_prepared :: "byte \<Rightarrow> actor" where
  "example_prepared n = (new_instance ''a'' no_sockets (example_file n))
     \<lparr>a_hasInitiated := True,
      a_events := map event_from_bare (ba_scheduledEvents (example_bare [n]))\<rparr>"

lemma example_start:
  "start example_env example_cfg 0 ''a'' no_sockets (example_file n)
     = Inr (resetSleepTimer example_env 0 ((start_alarm (example_prepared n))\<lparr>a_ready := True\<rparr>)
         \<lparr>a_livenessInterval := True\<rparr>)"
proof -
  have "start_prepare example_env example_cfg 0 (new_instance ''a'' no_sockets (example_file n))
      = Inr (example_prepared n)"
    using example_read [of n]
    by (simp add: start_prepare_def initialize_def start_vars_def varsEnabled_def start_user_def
        start_db_def example_cfg_def example_prepared_def new_instance_def)
  moreover have "a_connections (start_alarm (example_prepared n)) = []"
    by (simp add: start_alarm_def example_prepared_def new_instance_def split: list.split)
  ultimately show ?thesis
    by (simp add: start_def make_ready_def Let_def checkConnectionsLiveness_def)
qed

text \<open>The actor of file \<open>0\<close>, started.\<close>

definition example_actor :: actor where
  "example_actor = (new_instance ''a'' no_sockets (example_file 0))
     \<lparr>a_hasInitiated := True, a_ready := True, a_sleepTimeout := Some (30, True), a_livenessInterval := True\<rparr>"

lemma example_actor_started:
  "start example_env example_cfg 0 ''a'' no_sockets (example_file 0) = Inr example_actor"
proof -
  have "start_alarm (example_prepared 0) = (new_instance ''a'' no_sockets (example_file 0))\<lparr>a_hasInitiated := True\<rparr>"
    by (simp add: start_alarm_def example_prepared_def example_bare_def new_instance_def)
  then show ?thesis
    unfolding example_start
    by (simp add: example_actor_def resetSleepTimer_def canSleep_def Let_def example_env_def new_instance_def)
qed

end
