(* ===== verification/ActorConns.thy ===== *)
theory ActorConns
  imports ActorInv
begin

text \<open>
  The three places that know a connection agree: the connection map, the connection list of the
  persisted object and the subscription index.
\<close>

definition members :: "(string \<times> nat list) list \<Rightarrow> string \<Rightarrow> nat set" where
  "members idx ev = (case jm_get idx ev of None \<Rightarrow> {} | Some s \<Rightarrow> set s)"

definition subs_agree :: "conn \<Rightarrow> bool" where
  "subs_agree c = (distinct (pc_subscriptions (c_persist c))
     \<and> set (c_subscriptions c) = set (pc_subscriptions (c_persist c)))"

definition index_ok :: "nat \<Rightarrow> (string \<times> nat list) list \<Rightarrow> bool" where
  "index_ok n idx = (\<forall>ev s. jm_get idx ev = Some s \<longrightarrow> s \<noteq> [] \<and> distinct s \<and> set s \<subseteq> {..<n})"

text \<open>An entry of the connection map: the object exists, carries the id, agrees with its persisted
  subscriptions, and is indexed under exactly its subscriptions.\<close>

definition entry_ok :: "conn list \<Rightarrow> (string \<times> nat list) list \<Rightarrow> string \<times> nat \<Rightarrow> bool" where
  "entry_ok heap idx e = (snd e < length heap \<and> conn_id (heap ! snd e) = fst e
     \<and> subs_agree (heap ! snd e)
     \<and> (\<forall>ev. ev \<in> set (c_subscriptions (heap ! snd e)) \<longleftrightarrow> snd e \<in> members idx ev))"

fun conns_ok :: "conn list \<times> (string \<times> nat) list \<times> (string \<times> nat list) list \<times> nat list \<Rightarrow> bool" where
  "conns_ok (heap, conns, idx, pconns) =
     (jm_wf conns \<and> pconns = map snd conns \<and> index_ok (length heap) idx
      \<and> (\<forall>e \<in> set conns. entry_ok heap idx e))"

definition conn_inv :: "actor \<Rightarrow> bool" where
  "conn_inv a = conns_ok (conn_view a)"

section \<open>The index\<close>

lemma members_set [simp]:
  "members (jm_set ev s idx) ev' = (if ev' = ev then set s else members idx ev')"
  by (simp add: members_def)

lemma members_del [simp]: "members (jm_del ev idx) ev' = (if ev' = ev then {} else members idx ev')"
  by (simp add: members_def)

lemma members_unindex: "members (unindex ev r idx) ev' = (if ev' = ev then members idx ev - {r} else members idx ev')"
proof (cases "jm_get idx ev")
  case None
  then show ?thesis by (auto simp: unindex_def members_def)
next
  case (Some s)
  have "set (js_remove r s) = members idx ev - {r}" by (simp add: members_def Some)
  then show ?thesis
    by (cases "js_remove r s = []") (auto simp: unindex_def Some simp del: set_js_remove)
qed

lemma index_ok_unindex: "index_ok n idx \<Longrightarrow> index_ok n (unindex ev r idx)"
  by (auto simp: index_ok_def unindex_def split: option.split if_splits)

lemma index_ok_add:
  "index_ok n idx \<Longrightarrow> r < n \<Longrightarrow>
     index_ok n (jm_set ev (js_add r (case jm_get idx ev of Some s \<Rightarrow> s | None \<Rightarrow> [])) idx)"
  by (auto simp: index_ok_def js_add_def split: option.splits)

lemma index_ok_mono: "index_ok n idx \<Longrightarrow> n \<le> m \<Longrightarrow> index_ok m idx"
  by (fastforce simp: index_ok_def)

lemma index_ok_members: "index_ok n idx \<Longrightarrow> r \<in> members idx ev \<Longrightarrow> r < n"
  by (auto simp: index_ok_def members_def split: option.splits)

section \<open>Lists searched by a key\<close>

lemma splice_out_remove:
  "distinct xs \<Longrightarrow>
     (case find_index (\<lambda>s. s = x) xs of Some i \<Rightarrow> splice_out i xs | None \<Rightarrow> xs) = js_remove x xs"
proof (induction xs)
  case Nil
  then show ?case by (simp add: js_remove_def)
next
  case (Cons y xs)
  show ?case
  proof (cases "y = x")
    case True
    then show ?thesis using Cons.prems by (simp add: splice_out_def js_remove_def filter_True) (auto intro!: filter_True [symmetric])
  next
    case False
    then show ?thesis
      using Cons by (auto simp: splice_out_def js_remove_def split: option.splits)
  qed
qed

lemma splice_out_delete:
  "jm_wf conns \<Longrightarrow> (\<And>e. e \<in> set conns \<Longrightarrow> key (snd e) = fst e) \<Longrightarrow>
     (case find_index (\<lambda>r. key r = i) (map snd conns) of
        Some n \<Rightarrow> splice_out n (map snd conns) | None \<Rightarrow> map snd conns) = map snd (jm_del i conns)"
proof (induction conns)
  case Nil
  then show ?case by simp
next
  case (Cons e conns)
  show ?case
  proof (cases "fst e = i")
    case True
    then have "i \<notin> fst ` set conns" using Cons.prems(1) by (auto simp: jm_wf_def)
    then have "jm_del i conns = conns" by (rule delete_id)
    then show ?thesis using True Cons.prems(2) [of e] by (cases e) (simp add: splice_out_def)
  next
    case False
    have "jm_wf conns" using Cons.prems(1) by (simp add: jm_wf_def)
    then have ih: "(case find_index (\<lambda>r. key r = i) (map snd conns) of
        Some n \<Rightarrow> splice_out n (map snd conns) | None \<Rightarrow> map snd conns) = map snd (jm_del i conns)"
      by (rule Cons.IH) (simp add: Cons.prems(2))
    have "key (snd e) \<noteq> i" using False Cons.prems(2) [of e] by simp
    with ih False show ?thesis
      by (cases e; cases "find_index (\<lambda>r. key r = i) (map snd conns)") (simp_all add: splice_out_def)
  qed
qed

section \<open>What the operations do to the three places\<close>

lemma conn_view_subscribe:
  "conn_view (addSubscription en now ev r False a) =
     (let c = conn_at a r in
      if ev \<in> set (c_subscriptions c) then conn_view a
      else ((a_heap a)[r := c\<lparr>c_persist := (c_persist c)\<lparr>pc_subscriptions := pc_subscriptions (c_persist c) @ [ev]\<rparr>,
              c_subscriptions := js_add ev (c_subscriptions c)\<rparr>], a_connections a,
            jm_set ev (js_add r (case jm_get (a_subIndex a) ev of Some s \<Rightarrow> s | None \<Rightarrow> [])) (a_subIndex a),
            a_pconns a))" if "r < length (a_heap a)"
  using that by (simp add: addSubscription_def Let_def) (simp add: conn_view_def set_conn_def conn_at_def)

lemma conn_view_load_subscribe:
  "conn_view (addSubscription en now ev r True a) =
     (let c = conn_at a r in
      if ev \<in> set (c_subscriptions c) then conn_view a
      else ((a_heap a)[r := c\<lparr>c_subscriptions := js_add ev (c_subscriptions c)\<rparr>], a_connections a,
            jm_set ev (js_add r (case jm_get (a_subIndex a) ev of Some s \<Rightarrow> s | None \<Rightarrow> [])) (a_subIndex a),
            a_pconns a))"
  by (simp add: addSubscription_def Let_def) (simp add: conn_view_def set_conn_def conn_at_def)

lemma conn_view_unsubscribe:
  "conn_view (removeSubscription en now ev r False a) =
     (let c = conn_at a r; subs = pc_subscriptions (c_persist c) in
      if ev \<notin> set (c_subscriptions c) then conn_view a
      else ((a_heap a)[r := c\<lparr>c_subscriptions := js_remove ev (c_subscriptions c),
              c_persist := (c_persist c)\<lparr>pc_subscriptions :=
                (case find_index (\<lambda>s. s = ev) subs of Some i \<Rightarrow> splice_out i subs | None \<Rightarrow> subs)\<rparr>\<rparr>],
            a_connections a, unindex ev r (a_subIndex a), a_pconns a))"
  by (simp add: removeSubscription_def Let_def) (simp add: conn_view_def set_conn_def conn_at_def)

lemma conn_view_unindex:
  "conn_view (removeSubscription en now ev r True a) =
     (a_heap a, a_connections a,
      if ev \<in> set (c_subscriptions (conn_at a r)) then unindex ev r (a_subIndex a) else a_subIndex a, a_pconns a)"
  by (simp add: removeSubscription_def Let_def) (simp add: conn_view_def)

lemma conn_view_register:
  "conn_view (register_conn en now c a) =
     (a_heap a @ [c], jm_set (conn_id c) (length (a_heap a)) (a_connections a), a_subIndex a,
      a_pconns a @ [length (a_heap a)])"
  by (simp add: register_conn_def Let_def) (simp add: conn_view_def)

lemma conn_view_set_conn:
  "conn_view (set_conn r c a) = ((a_heap a)[r := c], a_connections a, a_subIndex a, a_pconns a)"
  by (simp add: set_conn_def conn_view_def)

section \<open>Preservation\<close>

lemma entry_ok_update:
  assumes "entry_ok heap idx e" and "snd e = r \<Longrightarrow> conn_id c = fst e \<and> subs_agree c
      \<and> (\<forall>ev. ev \<in> set (c_subscriptions c) \<longleftrightarrow> r \<in> members idx' ev)"
    and "snd e \<noteq> r \<Longrightarrow> \<forall>ev. snd e \<in> members idx' ev \<longleftrightarrow> snd e \<in> members idx ev"
  shows "entry_ok (heap[r := c]) idx' e"
  using assms by (cases "snd e = r") (auto simp: entry_ok_def)

lemma conn_inv_set_conn:
  assumes "conn_inv a" and "r < length (a_heap a)" and "conn_id c = conn_id (conn_at a r)"
    and "c_subscriptions c = c_subscriptions (conn_at a r)"
    and "pc_subscriptions (c_persist c) = pc_subscriptions (c_persist (conn_at a r))"
  shows "conn_inv (set_conn r c a)"
proof -
  have "entry_ok ((a_heap a)[r := c]) (a_subIndex a) e" if "e \<in> set (a_connections a)" for e
  proof -
    have "entry_ok (a_heap a) (a_subIndex a) e" using assms(1) that by (simp add: conn_inv_def conn_view_def)
    then show ?thesis
      by (rule entry_ok_update) (use \<open>entry_ok _ _ e\<close> assms(3-5) in \<open>auto simp: entry_ok_def subs_agree_def conn_at_def\<close>)
  qed
  then show ?thesis
    using assms(1) by (simp add: conn_inv_def conn_view_set_conn) (simp add: conn_view_def)
qed

lemma conn_inv_register:
  assumes "conn_inv a" and "\<not> jm_has (a_connections a) (conn_id c)" and "c_subscriptions c = []"
    and "pc_subscriptions (c_persist c) = []"
  shows "conn_inv (register_conn en now c a)"
proof -
  have new: "jm_set (conn_id c) n (a_connections a) = a_connections a @ [(conn_id c, n)]" for n
    using assms(2) by (simp add: jm_set_new jm_has_iff)
  have idx: "index_ok (length (a_heap a)) (a_subIndex a)" and wf: "jm_wf (a_connections a)"
    and old: "\<And>e. e \<in> set (a_connections a) \<Longrightarrow> entry_ok (a_heap a) (a_subIndex a) e"
    and pc: "a_pconns a = map snd (a_connections a)"
    using assms(1) by (auto simp: conn_inv_def conn_view_def)
  have "entry_ok (a_heap a @ [c]) (a_subIndex a) e" if "e \<in> set (a_connections a)" for e
    using old [OF that] by (auto simp: entry_ok_def nth_append)
  moreover have "entry_ok (a_heap a @ [c]) (a_subIndex a) (conn_id c, length (a_heap a))"
    using assms(3,4) index_ok_members [OF idx, of "length (a_heap a)"]
    by (auto simp: entry_ok_def subs_agree_def)
  moreover have "jm_wf (a_connections a @ [(conn_id c, length (a_heap a))])"
    using wf assms(2) by (auto simp: jm_wf_def jm_has_iff)
  ultimately show ?thesis
    using pc index_ok_mono [OF idx, of "Suc (length (a_heap a))"]
    by (auto simp: conn_inv_def conn_view_register new)
qed

lemma conn_inv_subscribe:
  assumes inv: "conn_inv a" and r: "r < length (a_heap a)"
  shows "conn_inv (addSubscription en now ev r False a)"
proof (cases "ev \<in> set (c_subscriptions (conn_at a r))")
  case True
  then show ?thesis using inv r by (simp add: conn_inv_def conn_view_subscribe Let_def)
next
  case False
  let ?c = "conn_at a r"
  let ?c' = "?c\<lparr>c_persist := (c_persist ?c)\<lparr>pc_subscriptions := pc_subscriptions (c_persist ?c) @ [ev]\<rparr>,
              c_subscriptions := js_add ev (c_subscriptions ?c)\<rparr>"
  let ?idx = "jm_set ev (js_add r (case jm_get (a_subIndex a) ev of Some s \<Rightarrow> s | None \<Rightarrow> [])) (a_subIndex a)"
  have mem: "members ?idx e = (if e = ev then insert r (members (a_subIndex a) ev) else members (a_subIndex a) e)" for e
    by (auto simp: members_def split: option.split)
  have "entry_ok ((a_heap a)[r := ?c']) ?idx e" if "e \<in> set (a_connections a)" for e
  proof -
    have ok: "entry_ok (a_heap a) (a_subIndex a) e" using inv that by (simp add: conn_inv_def conn_view_def)
    then show ?thesis
      by (rule entry_ok_update)
        (use ok False in \<open>auto simp: entry_ok_def subs_agree_def conn_at_def conn_id_def mem simp del: members_set\<close>)
  qed
  then show ?thesis
    using inv r False index_ok_add [of "length (a_heap a)" "a_subIndex a" r ev]
    by (simp add: conn_inv_def conn_view_subscribe Let_def del: conns_ok.simps) (simp add: conn_view_def)
qed

lemma conn_inv_unsubscribe:
  assumes inv: "conn_inv a" and r: "r < length (a_heap a)"
  shows "conn_inv (removeSubscription en now ev r False a)"
proof (cases "ev \<in> set (c_subscriptions (conn_at a r))")
  case False
  then show ?thesis using inv by (simp add: conn_inv_def conn_view_unsubscribe Let_def)
next
  case True
  let ?c = "conn_at a r"
  let ?subs = "pc_subscriptions (c_persist ?c)"
  let ?subs' = "case find_index (\<lambda>s. s = ev) ?subs of Some i \<Rightarrow> splice_out i ?subs | None \<Rightarrow> ?subs"
  let ?c' = "?c\<lparr>c_subscriptions := js_remove ev (c_subscriptions ?c),
              c_persist := (c_persist ?c)\<lparr>pc_subscriptions := ?subs'\<rparr>\<rparr>"
  have "entry_ok ((a_heap a)[r := ?c']) (unindex ev r (a_subIndex a)) e" if "e \<in> set (a_connections a)" for e
  proof -
    have ok: "entry_ok (a_heap a) (a_subIndex a) e" using inv that by (simp add: conn_inv_def conn_view_def)
    then show ?thesis
    proof (rule entry_ok_update)
      assume e: "snd e = r"
      then have "subs_agree ?c" using ok by (simp add: entry_ok_def conn_at_def)
      then have "?subs' = js_remove ev ?subs" by (simp add: subs_agree_def splice_out_remove)
      then show "conn_id ?c' = fst e \<and> subs_agree ?c' \<and>
          (\<forall>x. x \<in> set (c_subscriptions ?c') \<longleftrightarrow> r \<in> members (unindex ev r (a_subIndex a)) x)"
        using ok e by (auto simp: entry_ok_def subs_agree_def conn_at_def conn_id_def members_unindex)
    qed (simp add: members_unindex)
  qed
  then show ?thesis
    using inv True index_ok_unindex
    by (simp add: conn_inv_def conn_view_unsubscribe Let_def del: conns_ok.simps) (simp add: conn_view_def)
qed

text \<open>Removing: the persisted entry and the map entry go by id, then the object leaves the index.\<close>

lemma conn_view_fold_unindex:
  "conn_view (fold (\<lambda>ev. removeSubscription en now ev r True) evs a) =
     (a_heap a, a_connections a,
      fold (\<lambda>ev idx. if ev \<in> set (c_subscriptions (conn_at a r)) then unindex ev r idx else idx) evs (a_subIndex a),
      a_pconns a)"
proof (induction evs arbitrary: a)
  case Nil
  then show ?case by (simp add: conn_view_def)
next
  case (Cons ev evs)
  have v: "a_heap (removeSubscription en now ev r True a) = a_heap a"
    "a_connections (removeSubscription en now ev r True a) = a_connections a"
    "a_pconns (removeSubscription en now ev r True a) = a_pconns a"
    "a_subIndex (removeSubscription en now ev r True a) =
      (if ev \<in> set (c_subscriptions (conn_at a r)) then unindex ev r (a_subIndex a) else a_subIndex a)"
    using conn_view_unindex [of en now ev r a] by (simp_all add: conn_view_def)
  show ?case by (simp add: Cons.IH) (simp add: v conn_at_def)
qed

lemma fold_unindex:
  "members (fold (\<lambda>ev idx. if ev \<in> X then unindex ev r idx else idx) evs idx) ev'
     = (if ev' \<in> set evs \<inter> X then members idx ev' - {r} else members idx ev')"
  by (induction evs arbitrary: idx) (auto simp: members_unindex)

lemma index_ok_fold_unindex:
  "index_ok n idx \<Longrightarrow> index_ok n (fold (\<lambda>ev idx. if ev \<in> X then unindex ev r idx else idx) evs idx)"
  by (induction evs arbitrary: idx) (auto intro: index_ok_unindex)

lemma conn_view_drop_persisted:
  "conn_view (drop_persisted en now i a) = (a_heap a, a_connections a, a_subIndex a,
     case find_index (\<lambda>r. conn_id (conn_at a r) = i) (a_pconns a) of
       Some n \<Rightarrow> splice_out n (a_pconns a) | None \<Rightarrow> a_pconns a)"
  by (simp add: drop_persisted_def split: option.split) (simp add: conn_view_def)

lemma conn_view_unregister:
  "conn_view (unregister_conn en now r a) =
     (let i = conn_id (conn_at a r) in
      (a_heap a, jm_del i (a_connections a),
       fold (\<lambda>ev idx. if ev \<in> set (c_subscriptions (conn_at a r)) then unindex ev r idx else idx)
         (c_subscriptions (conn_at a r)) (a_subIndex a),
       case find_index (\<lambda>r. conn_id (conn_at a r) = i) (a_pconns a) of
         Some n \<Rightarrow> splice_out n (a_pconns a) | None \<Rightarrow> a_pconns a))"
proof -
  let ?d = "drop_persisted en now (conn_id (conn_at a r)) a"
  have "a_heap ?d = a_heap a" "a_connections ?d = a_connections a" "a_subIndex ?d = a_subIndex a"
    "a_pconns ?d = (case find_index (\<lambda>x. conn_id (conn_at a x) = conn_id (conn_at a r)) (a_pconns a) of
       Some n \<Rightarrow> splice_out n (a_pconns a) | None \<Rightarrow> a_pconns a)"
    using conn_view_drop_persisted [of en now "conn_id (conn_at a r)" a] by (simp_all add: conn_view_def)
  then show ?thesis
    by (simp add: unregister_conn_def Let_def conn_view_fold_unindex conn_at_def)
qed

lemma conn_inv_unregister:
  assumes inv: "conn_inv a" and r: "r < length (a_heap a)"
  shows "conn_inv (unregister_conn en now r a)"
proof -
  let ?i = "conn_id (conn_at a r)"
  let ?subs = "c_subscriptions (conn_at a r)"
  let ?idx = "fold (\<lambda>ev idx. if ev \<in> set ?subs then unindex ev r idx else idx) ?subs (a_subIndex a)"
  have wf: "jm_wf (a_connections a)" and pc: "a_pconns a = map snd (a_connections a)"
    and idx: "index_ok (length (a_heap a)) (a_subIndex a)"
    and ok: "\<And>e. e \<in> set (a_connections a) \<Longrightarrow> entry_ok (a_heap a) (a_subIndex a) e"
    using inv by (auto simp: conn_inv_def conn_view_def)
  have "(case find_index (\<lambda>x. conn_id (conn_at a x) = ?i) (a_pconns a) of
      Some n \<Rightarrow> splice_out n (a_pconns a) | None \<Rightarrow> a_pconns a) = map snd (jm_del ?i (a_connections a))"
    unfolding pc by (rule splice_out_delete [OF wf]) (use ok in \<open>auto simp: entry_ok_def conn_at_def\<close>)
  moreover have "entry_ok (a_heap a) ?idx e" if "e \<in> set (jm_del ?i (a_connections a))" for e
  proof -
    have "e \<in> set (a_connections a)" "fst e \<noteq> ?i" using that by (auto simp: AList.delete_eq)
    then have "entry_ok (a_heap a) (a_subIndex a) e" "snd e \<noteq> r"
      using ok [of e] by (auto simp: entry_ok_def conn_at_def)
    then show ?thesis by (auto simp: entry_ok_def fold_unindex)
  qed
  ultimately show ?thesis
    using wf idx by (simp add: conn_inv_def conn_view_unregister Let_def index_ok_fold_unindex)
qed

lemma conn_inv_cong: "conn_view a = conn_view b \<Longrightarrow> conn_inv a = conn_inv b"
  by (simp add: conn_inv_def)

interpretation conns: actor_invariant en conn_inv for en
proof (unfold_locales, goal_cases)
  case 10
  then show ?case by (intro conn_inv_set_conn)
next
  case 17
  then show ?case by (intro conn_inv_register)
next
  case 18
  then show ?case by (intro conn_inv_unregister)
next
  case 19
  then show ?case by (intro conn_inv_subscribe)
next
  case 20
  then show ?case by (intro conn_inv_unsubscribe)
qed (simp_all add: conn_inv_def, simp_all add: conn_view_def fetch_begin_def fetch_end_def ws_track_def ws_closed_def)

section \<open>Started instances\<close>

text \<open>Loading the subscriptions of one connection.\<close>

definition loaded :: "nat \<Rightarrow> string set \<Rightarrow> actor \<Rightarrow> actor \<Rightarrow> bool" where
  "loaded r X a b =
     (a_connections b = a_connections a \<and> a_pconns b = a_pconns a \<and> length (a_heap b) = length (a_heap a)
      \<and> (\<forall>x. x \<noteq> r \<longrightarrow> conn_at b x = conn_at a x) \<and> c_persist (conn_at b r) = c_persist (conn_at a r)
      \<and> set (c_subscriptions (conn_at b r)) = set (c_subscriptions (conn_at a r)) \<union> X
      \<and> (\<forall>x ev. x \<in> members (a_subIndex b) ev \<longleftrightarrow> x \<in> members (a_subIndex a) ev
            \<or> x = r \<and> ev \<in> X \<and> ev \<notin> set (c_subscriptions (conn_at a r)))
      \<and> (index_ok (length (a_heap a)) (a_subIndex a) \<longrightarrow> index_ok (length (a_heap a)) (a_subIndex b)))"

lemma loaded_refl: "loaded r {} a a"
  by (simp add: loaded_def)

lemma loaded_trans: "loaded r X a b \<Longrightarrow> loaded r Y b c \<Longrightarrow> loaded r (X \<union> Y) a c"
  unfolding loaded_def by auto

lemma loaded_one:
  assumes r: "r < length (a_heap a)"
  shows "loaded r {e} a (addSubscription en now e r True a)"
proof (cases "e \<in> set (c_subscriptions (conn_at a r))")
  case True
  then have "addSubscription en now e r True a = a" by (simp add: addSubscription_def)
  then show ?thesis using True by (auto simp: loaded_def)
next
  case False
  let ?b = "addSubscription en now e r True a"
  have v: "conn_view ?b = ((a_heap a)[r := (conn_at a r)\<lparr>c_subscriptions := js_add e (c_subscriptions (conn_at a r))\<rparr>],
      a_connections a, jm_set e (js_add r (case jm_get (a_subIndex a) e of Some s \<Rightarrow> s | None \<Rightarrow> [])) (a_subIndex a),
      a_pconns a)"
    using False by (simp add: conn_view_load_subscribe Let_def)
  then have fields: "a_connections ?b = a_connections a" "a_pconns ?b = a_pconns a"
    "a_heap ?b = (a_heap a)[r := (conn_at a r)\<lparr>c_subscriptions := js_add e (c_subscriptions (conn_at a r))\<rparr>]"
    "a_subIndex ?b = jm_set e (js_add r (case jm_get (a_subIndex a) e of Some s \<Rightarrow> s | None \<Rightarrow> [])) (a_subIndex a)"
    by (simp_all add: conn_view_def)
  have "x \<in> members (a_subIndex ?b) ev \<longleftrightarrow> x \<in> members (a_subIndex a) ev \<or> x = r \<and> ev = e" for x ev
    by (auto simp: fields(4) members_def split: option.splits)
  then show ?thesis
    using r False index_ok_add [of "length (a_heap a)" "a_subIndex a" r e]
    by (auto simp: loaded_def fields conn_at_def)
qed

lemma loaded_all:
  "r < length (a_heap a) \<Longrightarrow> loaded r (set evs) a (fold (\<lambda>ev. addSubscription en now ev r True) evs a)"
proof (induction evs arbitrary: a)
  case Nil
  then show ?case by (simp add: loaded_refl)
next
  case (Cons e evs)
  then show ?case
    using loaded_trans [OF loaded_one [OF Cons.prems, of e en now] Cons.IH] by simp
qed

text \<open>What a stored connection list must be for a start: as every instance leaves it.\<close>

definition stored_conns_ok :: "persisted_conn list \<Rightarrow> bool" where
  "stored_conns_ok ps = (distinct (map pc_connId ps) \<and> (\<forall>p \<in> set ps. distinct (pc_subscriptions p)))"

lemma conn_inv_load_conn:
  assumes l: "load_conn en cf now p a = Inr b" and inv: "conn_inv a"
    and new: "pc_connId p \<notin> fst ` set (a_connections a)" and d: "distinct (pc_subscriptions p)"
  shows "conn_inv b \<and> fst ` set (a_connections b) = insert (pc_connId p) (fst ` set (a_connections a))"
proof -
  let ?r = "length (a_heap a)"
  obtain drv where "getConnDriver (pc_connDriver p) = Inr drv"
    using l by (auto simp: load_conn_def andThen_Inr)
  define a1 where "a1 = a\<lparr>a_heap := a_heap a @ [new_Conn p drv (connStateEnabled cf)],
      a_pconns := a_pconns a @ [?r], a_connections := jm_set (pc_connId p) ?r (a_connections a)\<rparr>"
  have b: "b = fold (\<lambda>ev. addSubscription en now ev ?r True) (pc_subscriptions p) a1"
    using l \<open>getConnDriver _ = _\<close> by (simp add: load_conn_def Let_def a1_def)
  have r: "?r < length (a_heap a1)" by (simp add: a1_def)
  have ld: "a_connections b = a_connections a1" "a_pconns b = a_pconns a1"
    "length (a_heap b) = length (a_heap a1)" "\<And>x. x \<noteq> ?r \<Longrightarrow> conn_at b x = conn_at a1 x"
    "c_persist (conn_at b ?r) = c_persist (conn_at a1 ?r)"
    "set (c_subscriptions (conn_at b ?r)) = set (c_subscriptions (conn_at a1 ?r)) \<union> set (pc_subscriptions p)"
    "\<And>x ev. x \<in> members (a_subIndex b) ev \<longleftrightarrow> x \<in> members (a_subIndex a1) ev
      \<or> x = ?r \<and> ev \<in> set (pc_subscriptions p) \<and> ev \<notin> set (c_subscriptions (conn_at a1 ?r))"
    "index_ok (length (a_heap a1)) (a_subIndex a1) \<Longrightarrow> index_ok (length (a_heap a1)) (a_subIndex b)"
    using loaded_all [OF r, of "pc_subscriptions p" en now, folded b] by (simp_all add: loaded_def)
  have a1: "a_connections a1 = a_connections a @ [(pc_connId p, ?r)]" "a_subIndex a1 = a_subIndex a"
    "length (a_heap a1) = Suc ?r" "conn_at a1 ?r = new_Conn p drv (connStateEnabled cf)"
    "a_pconns a1 = a_pconns a @ [?r]" "x < ?r \<Longrightarrow> conn_at a1 x = conn_at a x" for x
    using new by (auto simp: a1_def jm_set_new conn_at_def nth_append)
  have idx: "index_ok ?r (a_subIndex a)" and wf: "jm_wf (a_connections a)"
    and ok: "\<And>e. e \<in> set (a_connections a) \<Longrightarrow> entry_ok (a_heap a) (a_subIndex a) e"
    and pc: "a_pconns a = map snd (a_connections a)"
    using inv by (auto simp: conn_inv_def conn_view_def)
  have out: "?r \<notin> members (a_subIndex a) ev" for ev using index_ok_members [OF idx] by blast
  have "entry_ok (a_heap b) (a_subIndex b) e" if "e \<in> set (a_connections a)" for e
  proof -
    have e: "entry_ok (a_heap a) (a_subIndex a) e" by (rule ok [OF that])
    then have lt: "snd e < ?r" by (simp add: entry_ok_def)
    then have "a_heap b ! snd e = a_heap a ! snd e" using ld(4) [of "snd e"] a1(6) by (simp add: conn_at_def)
    then show ?thesis using e lt ld(3,7) a1 by (auto simp: entry_ok_def)
  qed
  moreover have "entry_ok (a_heap b) (a_subIndex b) (pc_connId p, ?r)"
    using ld(3,5,6,7) a1 out d
    by (auto simp: entry_ok_def subs_agree_def conn_id_def conn_at_def new_Conn_def)
  moreover have "index_ok (length (a_heap b)) (a_subIndex b)"
    using ld(3,8) a1 index_ok_mono [OF idx, of "Suc ?r"] by simp
  moreover have "jm_wf (a_connections b)" using wf new ld(1) a1 by (auto simp: jm_wf_def)
  ultimately show ?thesis using ld(1,2) a1 pc by (auto simp: conn_inv_def conn_view_def)
qed

lemma conn_inv_load_conns:
  "load_conns en cf now ps a = Inr b \<Longrightarrow> conn_inv a \<Longrightarrow> stored_conns_ok ps \<Longrightarrow>
     pc_connId ` set ps \<inter> fst ` set (a_connections a) = {} \<Longrightarrow> conn_inv b"
proof (induction ps arbitrary: a)
  case Nil
  then show ?case by simp
next
  case (Cons p ps)
  then obtain c where c: "load_conn en cf now p a = Inr c" "load_conns en cf now ps c = Inr b"
    by (auto simp: andThen_Inr)
  have "conn_inv c \<and> fst ` set (a_connections c) = insert (pc_connId p) (fst ` set (a_connections a))"
    by (rule conn_inv_load_conn [OF c(1)]) (use Cons.prems in \<open>auto simp: stored_conns_ok_def\<close>)
  then show ?case
    using Cons.IH [OF c(2)] Cons.prems by (auto simp: stored_conns_ok_def)
qed

lemma conns_started:
  assumes st: "start en cf now i g disk = Inr a"
    and stored: "\<And>p. read_persisted en disk = Inr p \<Longrightarrow> pa_hasInitiated p \<Longrightarrow> stored_conns_ok (pa_connections p)"
  shows "conn_inv a \<and> refs_ok a"
proof -
  let ?n = "new_instance i g disk"
  obtain b where b: "start_prepare en cf now ?n = Inr b" "make_ready en cf now (start_alarm b) = (None, a)"
    using st by (rule startE)
  have s: "conn_inv (start_alarm b)"
  proof (intro conns.start_alarm_I, rule conns.start_prepare_I [OF b(1)], rule conns.initialize_I, assumption)
    fix a' p
    assume "read_persisted en (a_disk ?n) = Inr p" "pa_hasInitiated p"
      and l: "load_conns en cf now (pa_connections p)
        (?n\<lparr>a_input := pa_input p, a_hasInitiated := True, a_state := pa_state p,
           a_events := pa_scheduledEvents p\<rparr>) = Inr a'"
    then show "conn_inv a'"
      using stored [of p]
      by (intro conn_inv_load_conns [OF l])
        (simp_all add: new_instance_def conn_inv_def conn_view_def index_ok_def)
  next
    fix a' p
    assume "create_new en cf now p ?n = Inr a'"
    then show "conn_inv a'"
      by (rule conns.create_new_I) (simp add: new_instance_def conn_inv_def conn_view_def index_ok_def)
  qed
  have r: "refs_ok (start_alarm b)" by (rule refs_ok_prepared [OF b(1)])
  show ?thesis
    using conns.make_ready_I [OF s r, of en cf now] refs.make_ready_I [OF r r, of en cf now] b(2) by simp
qed

text \<open>What an instance leaves is what a start needs.\<close>

lemma conn_inv_stored: "conn_inv a \<Longrightarrow> stored_conns_ok (pa_connections (persist_of a))"
proof -
  assume "conn_inv a"
  then have wf: "jm_wf (a_connections a)" and pc: "a_pconns a = map snd (a_connections a)"
    and ok: "\<And>e. e \<in> set (a_connections a) \<Longrightarrow> entry_ok (a_heap a) (a_subIndex a) e"
    by (auto simp: conn_inv_def conn_view_def)
  have "map (\<lambda>e. pc_connId (c_persist (conn_at a (snd e)))) (a_connections a) = map fst (a_connections a)"
    using ok by (auto simp: entry_ok_def conn_at_def conn_id_def)
  then have "distinct (map (\<lambda>e. pc_connId (c_persist (conn_at a (snd e)))) (a_connections a))"
    using wf by (simp only: jm_wf_def)
  moreover have "distinct (pc_subscriptions (c_persist (conn_at a (snd e))))" if "e \<in> set (a_connections a)" for e
    using ok [OF that] by (simp add: entry_ok_def subs_agree_def conn_at_def)
  ultimately show ?thesis by (simp add: stored_conns_ok_def persist_of_def pc comp_def)
qed



end
