(* ===== verification/ActorSave.thy ===== *)
theory ActorSave
  imports ActorInv
begin

text \<open>
  What the disk holds: as long as no write failed and no rejected change is pending, a clear dirty
  flag means that the state is on disk or in the write that is under way.
\<close>

text \<open>Reading these bytes back gives an initiated actor with this state.\<close>

definition holds_state :: "env \<Rightarrow> bytes \<Rightarrow> jsval \<Rightarrow> bool" where
  "holds_state en bs st =
     (\<exists>p. read_persisted en (Some bs) = Inr p \<and> pa_state p = st \<and> pa_hasInitiated p)"

text \<open>The documented behaviour of the codecs: they decode what they encode, and the schema version
  fits in the header.\<close>

definition coders_ok :: "env \<Rightarrow> bool" where
  "coders_ok en =
     (cbor_faithful (en_codec en) \<and> vd_currentVersion (en_persisted en) < 2 ^ 32
      \<and> (\<forall>b bs. vd_serializeVersion (en_persisted en) b = Inr bs \<longrightarrow>
           vd_deserializeVersion (en_persisted en) bs = Inr b))"

lemma persisted_bytes_hold:
  assumes ok: "coders_ok en" and w: "persisted_bytes en p = Inr (bare, bs)" and "pa_hasInitiated p"
  shows "holds_state en bs (pa_state p)"
proof -
  have c: "convertToBarePersisted (en_codec en) p = Inr bare"
    and s: "serializeWithEmbeddedVersion (en_persisted en) bare = Inr bs"
    using w by (auto simp: persisted_bytes_def andThen_Inr)
  have "read_persisted en (Some bs) = Inr (stored p)"
    using versioned_roundtrip [OF _ s] ok faithful_persisted [OF _ c]
    by (auto simp: read_persisted_def coders_ok_def)
  then show ?thesis using assms(3) by (simp add: holds_state_def stored_def)
qed

definition save_inv :: "env \<Rightarrow> actor \<Rightarrow> bool" where
  "save_inv en a =
     (case save_view a of
        (initiated, changed, st, q, writing, disk, stale) \<Rightarrow>
          initiated
          \<and> (writing = None \<longleftrightarrow> spq_running q = None) \<and> (spq_running q = None \<longrightarrow> spq_queued q = None)
          \<and> (\<not> changed \<longrightarrow> \<not> stale \<longrightarrow>
               (case writing of
                  None \<Rightarrow> \<exists>bs. disk = Some bs \<and> holds_state en bs st
                | Some WriteFailed \<Rightarrow> False
                | Some (Writing bare bs) \<Rightarrow> holds_state en bs st)))"

lemma save_inv_cong: "save_view a = save_view b \<Longrightarrow> save_inv en a = save_inv en b"
  by (simp add: save_inv_def)

lemma save_inv_start_write:
  assumes ok: "coders_ok en" and "a_hasInitiated a" and "spq_running (a_writeQ a) = Some op"
  shows "save_inv en (start_write en a)"
proof (cases "persisted_bytes en (persist_of a)")
  case (Inl e)
  then show ?thesis using assms(2,3) by (simp add: start_write_def save_inv_def save_view_def)
next
  case (Inr w)
  then have "holds_state en (snd w) (a_state a)"
    using persisted_bytes_hold [OF ok, of "persist_of a" "fst w" "snd w"] assms(2)
    by (simp add: persist_of_def)
  then show ?thesis
    using Inr assms(2,3) by (cases w) (simp add: start_write_def save_inv_def save_view_def)
qed

lemma spq_enqueue_idle:
  "spq_running q = None \<Longrightarrow> \<exists>r. spq_running (snd (spq_enqueue x q)) = Some (x, r)"
  by (simp add: spq_defs Let_def split: option.split)

lemma spq_enqueue_busy:
  "spq_running q = Some o' \<Longrightarrow> spq_running (snd (spq_enqueue x q)) = Some o'"
  by (simp add: spq_defs Let_def split: option.split)

lemma save_inv_enqueue:
  assumes ok: "coders_ok en" and inv: "save_inv en a" and ch: "a_persistChanged a"
  shows "save_inv en (enqueue_write en a)"
proof -
  let ?q = "spq_enqueue () (a_writeQ a)"
  let ?b = "a\<lparr>a_writeQ := snd ?q, a_saveWaiters := a_saveWaiters a @ [fst ?q]\<rparr>"
  have eq: "enqueue_write en a = (if spq_running (a_writeQ a) = None then start_write en ?b else ?b)"
    by (simp add: enqueue_write_def Let_def split: prod.split)
  show ?thesis
  proof (cases "spq_running (a_writeQ a)")
    case None
    obtain r where "spq_running (snd ?q) = Some ((), r)" using spq_enqueue_idle [OF None] by blast
    then show ?thesis
      using inv None by (simp add: eq, intro save_inv_start_write [OF ok]) (simp_all add: save_inv_def save_view_def)
  next
    case (Some x)
    then show ?thesis
      using inv ch spq_enqueue_busy [OF Some] by (simp add: eq save_inv_def save_view_def)
  qed
qed

lemma save_inv_frame [simp]:
  "save_inv en (a\<lparr>a_lastSaveTime := t\<rparr>) = save_inv en a"
  "save_inv en (a\<lparr>a_pendingSave := ps\<rparr>) = save_inv en a"
  "save_inv en (a\<lparr>a_onPersistSaved := pr\<rparr>) = save_inv en a"
  "save_inv en (a\<lparr>a_subIndex := idx\<rparr>) = save_inv en a"
  "save_inv en (a\<lparr>a_connections := cs\<rparr>) = save_inv en a"
  "save_inv en (a\<lparr>a_pconns := pcs\<rparr>) = save_inv en a"
  "save_inv en (a\<lparr>a_heap := h\<rparr>) = save_inv en a"
  by (simp_all add: save_inv_def save_view_def)

lemma save_inv_resolve [simp]: "save_inv en (resolve_saved a) = save_inv en a"
  by (rule save_inv_cong) simp

lemma save_inv_save: "coders_ok en \<Longrightarrow> save_inv en a \<Longrightarrow> save_inv en (savePersistInner en now a)"
  by (simp add: savePersistInner_def Let_def save_inv_enqueue)

lemma save_inv_throttled: "coders_ok en \<Longrightarrow> save_inv en a \<Longrightarrow> save_inv en (savePersistThrottled en now a)"
  by (simp add: savePersistThrottled_def Let_def save_inv_save)

lemma save_inv_saveState: "coders_ok en \<Longrightarrow> save_inv en a \<Longrightarrow> save_inv en (snd (saveState en now i s a))"
  by (simp add: saveState_def save_inv_save save_inv_throttled split: option.split)

lemma save_view_finished:
  "save_view (finish_cycle (store_written k w a)) =
     (a_hasInitiated a, a_persistChanged a, a_state a, spq_op_done (a_writeQ a), None,
      (case w of Writing bare bs \<Rightarrow> if k then Some bs else a_disk a | WriteFailed \<Rightarrow> a_disk a),
      (case w of Writing bare bs \<Rightarrow> a_stale a \<or> \<not> k | WriteFailed \<Rightarrow> a_stale a))"
  by (cases w) (simp_all add: finish_cycle_def store_written_def Let_def resolve_saved_def save_view_def)

lemma save_inv_written:
  assumes ok: "coders_ok en" and inv: "save_inv en a"
  shows "save_inv en (write_settled en k a)"
proof (cases "a_writing a")
  case None
  then show ?thesis using inv by (simp add: write_settled_def)
next
  case (Some w)
  let ?b = "finish_cycle (store_written k w a)"
  have q: "a_writeQ ?b = spq_op_done (a_writeQ a)" and i: "a_hasInitiated ?b = a_hasInitiated a"
    using save_view_finished [of k w a] by (simp_all add: save_view_def)
  have ini: "a_hasInitiated a" and run: "spq_running (a_writeQ a) \<noteq> None"
    using inv Some by (auto simp: save_inv_def save_view_def)
  show ?thesis
  proof (cases "spq_running (spq_op_done (a_writeQ a))")
    case None
    then have "spq_queued (spq_op_done (a_writeQ a)) = None"
      using run by (auto simp: spq_defs split: option.splits)
    moreover have "write_settled en k a = ?b"
      using None \<open>a_writing a = Some w\<close> q by (simp add: write_settled_def Let_def)
    ultimately show ?thesis
      using inv None \<open>a_writing a = Some w\<close>
      by (cases w) (simp_all add: save_inv_def save_view_finished, simp_all add: save_view_def)
  next
    case (Some op)
    then show ?thesis
      using \<open>a_writing a = Some w\<close> ini i q by (simp add: write_settled_def Let_def save_inv_start_write [OF ok])
  qed
qed

lemma save_inv_subscribe:
  "coders_ok en \<Longrightarrow> save_inv en a \<Longrightarrow> save_inv en (addSubscription en now e r False a)"
proof -
  assume ok: "coders_ok en" and inv: "save_inv en a"
  have "save_inv en (snd (saveState en now True False (set_conn r c a)))" for c
    by (intro save_inv_saveState ok) (simp add: inv save_inv_cong [OF set_conn_views(3)])
  then show ?thesis
    by (simp add: addSubscription_def Let_def inv save_inv_cong [OF set_conn_views(3)])
qed

lemma save_inv_unsubscribe:
  "coders_ok en \<Longrightarrow> save_inv en a \<Longrightarrow> save_inv en (removeSubscription en now e r p a)"
proof -
  assume ok: "coders_ok en" and inv: "save_inv en a"
  have "save_inv en (snd (saveState en now True False (set_conn r c a)))" for c
    by (intro save_inv_saveState ok) (simp add: inv save_inv_cong [OF set_conn_views(3)])
  then show ?thesis
    by (simp add: removeSubscription_def Let_def inv)
qed

lemma save_inv_register: "coders_ok en \<Longrightarrow> save_inv en a \<Longrightarrow> save_inv en (register_conn en now c a)"
  by (simp add: register_conn_def Let_def save_inv_saveState save_inv_cong [OF resetSleepTimer_views(3)])

lemma save_inv_unregister: "coders_ok en \<Longrightarrow> save_inv en a \<Longrightarrow> save_inv en (unregister_conn en now r a)"
proof -
  assume ok: "coders_ok en" and inv: "save_inv en a"
  have "save_inv en (drop_persisted en now i a)" for i
    using inv by (simp add: drop_persisted_def save_inv_saveState ok split: option.split)
  moreover have "save_inv en b \<Longrightarrow> save_inv en (fold (\<lambda>ev. removeSubscription en now ev r True) evs b)" for evs b
    by (induction evs arbitrary: b) (simp_all add: save_inv_unsubscribe ok)
  ultimately show ?thesis by (simp add: unregister_conn_def Let_def)
qed

text \<open>Environments whose codecs are correct.\<close>

lemma save_invariant: "coders_ok en \<Longrightarrow> actor_invariant en (save_inv en)"
proof (unfold_locales, goal_cases)
  case 5 then show ?case by (simp add: save_inv_save)
next
  case 12 then show ?case by (simp add: save_inv_written)
next
  case 17 then show ?case by (simp add: save_inv_register)
next
  case 18 then show ?case by (simp add: save_inv_unregister)
next
  case 19 then show ?case by (simp add: save_inv_subscribe)
next
  case 20 then show ?case by (simp add: save_inv_unsubscribe)
qed (simp_all add: fetch_begin_def fetch_end_def ws_track_def ws_closed_def save_inv_cong [OF emit_views(4)]
    save_inv_cong [OF set_conn_views(3)] save_inv_cong [OF resetSleepTimer_views(3)]
    save_inv_cong [OF scheduleEventInner_views(3)] save_inv_cong [OF take_due_views(3)]
    save_inv_cong [OF alarm_settled_views(3)] save_inv_cong [OF set_next_alarm_views(3)],
    simp_all add: save_inv_def save_view_def)

section \<open>Started instances\<close>

lemma load_conn_save_view: "load_conn en cf now p a = Inr b \<Longrightarrow> save_view b = save_view a"
proof -
  have "save_view (fold (\<lambda>e. addSubscription en now e r True) es c) = save_view c" for r es c
  proof (induction es arbitrary: c)
    case Nil
    then show ?case by simp
  next
    case (Cons e es)
    have "save_view (d\<lparr>a_subIndex := i\<rparr>) = save_view d" for d :: actor and i by (simp add: save_view_def)
    then have "save_view (addSubscription en now e r True c) = save_view c"
      by (simp add: addSubscription_def Let_def)
    then show ?case by (simp add: Cons.IH)
  qed
  then show "load_conn en cf now p a = Inr b \<Longrightarrow> ?thesis"
    by (auto simp: load_conn_def andThen_Inr Let_def) (simp add: save_view_def)
qed

lemma load_conns_save_view: "load_conns en cf now ps a = Inr b \<Longrightarrow> save_view b = save_view a"
  by (induction ps arbitrary: a) (auto simp: andThen_Inr dest: load_conn_save_view)

lemma save_inv_initialized:
  assumes ok: "coders_ok en"
    and i: "initialize en cf now (new_instance actorId g disk) = Inr a"
  shows "save_inv en a"
proof (rule actor_invariant.initialize_I [OF save_invariant [OF ok] i], goal_cases)
  case (1 p)
  obtain bs where bs: "disk = Some bs"
    using 1(1) by (cases disk) (simp_all add: read_persisted_def new_instance_def)
  have "holds_state en bs (pa_state p)" using 1(1,2) bs by (auto simp: holds_state_def new_instance_def)
  then show ?case
    using load_conns_save_view [OF 1(3)] bs by (simp add: save_inv_def save_view_def new_instance_def spq_new_def)
next
  case (2 p)
  show ?case
  proof (rule actor_invariant.create_new_I [OF save_invariant [OF ok] 2(3)], goal_cases)
    case (1 out st)
    have "holds_state en (snd out) st"
      using persisted_bytes_hold [OF ok, of "p\<lparr>pa_state := st, pa_hasInitiated := True\<rparr>" "fst out" "snd out"] 1
      by simp
    then show ?case by (simp add: save_inv_def save_view_def new_instance_def spq_new_def)
  qed
qed

lemma save_started:
  assumes ok: "coders_ok en" and st: "start en cf now i g disk = Inr a"
  shows "save_inv en a \<and> refs_ok a"
proof -
  obtain b where b: "start_prepare en cf now (new_instance i g disk) = Inr b"
    "make_ready en cf now (start_alarm b) = (None, a)"
    using st by (rule startE)
  have s: "save_inv en (start_alarm b)"
    by (intro actor_invariant.start_alarm_I [OF save_invariant [OF ok]],
        rule actor_invariant.start_prepare_I [OF save_invariant [OF ok] b(1)])
      (rule save_inv_initialized [OF ok])
  have r: "refs_ok (start_alarm b)" by (rule refs_ok_prepared [OF b(1)])
  show ?thesis
    using actor_invariant.make_ready_I [OF save_invariant [OF ok] s r, of cf now]
      refs.make_ready_I [OF r r, of en cf now] b(2) by simp
qed

lemma save_reachable:
  assumes "coders_ok en" and "start en cf now i g disk = Inr a0"
  shows "save_inv en (fold (actor_step en cf) es a0)"
  using actor_invariant.run_I [OF save_invariant [OF assms(1)]] save_started [OF assms] by blast

text \<open>
  C2.  In every state an instance can reach with correct codecs: when no change is pending, none was
  lost and no write is under way, the driver holds a file from which the present state is read back;
  when a write is under way, the bytes it writes have that property.
\<close>

theorem clean_state_is_on_disk:
  assumes "coders_ok en" and "start en cf now i g disk = Inr a0" and "a = fold (actor_step en cf) es a0"
    and "\<not> a_persistChanged a" and "\<not> a_stale a"
  shows "case a_writing a of
      None \<Rightarrow> \<exists>bs p. a_disk a = Some bs \<and> read_persisted en (Some bs) = Inr p \<and> pa_state p = a_state a
        \<and> pa_hasInitiated p
    | Some WriteFailed \<Rightarrow> False
    | Some (Writing bare bs) \<Rightarrow> \<exists>p. read_persisted en (Some bs) = Inr p \<and> pa_state p = a_state a
        \<and> pa_hasInitiated p"
  using save_reachable [OF assms(1,2), of es] assms(3-5)
  by (auto simp: save_inv_def save_view_def holds_state_def split: option.splits write_op.splits)

lemma example_coders_ok: "coders_ok example_env"
proof -
  have "bs' = [0] \<or> bs' = [1]" if "vd_serializeVersion (en_persisted example_env) b = Inr bs'" for b bs'
    using that by (auto simp: example_env_def split: if_splits)
  then show ?thesis
    by (auto simp: coders_ok_def example_env_def cbor_faithful_def tiny_codec_def split: if_splits)
qed

section \<open>What stop leaves behind\<close>

interpretation ready: actor_invariant en a_ready for en
  by unfold_locales (simp_all add: set_conn_def emit_def fetch_begin_def fetch_end_def ws_track_def
    ws_closed_def register_conn_def Let_def savePersistInner_views(3) [THEN sleep_viewD(1)]
    scheduleEventInner_views(2) [THEN sleep_viewD(1)] write_settled_views(3) [THEN sleep_viewD(1)]
    take_due_views(2) [THEN sleep_viewD(1)] alarm_settled_views(2) [THEN sleep_viewD(1)]
    unregister_conn_views(2) [THEN sleep_viewD(1)] addSubscription_views(2) [THEN sleep_viewD(1)]
    set_next_alarm_views(2) [THEN sleep_viewD(1)] resetSleepTimer_def)

lemma ready_started:
  assumes "start en cf now i g disk = Inr a"
  shows "a_ready a"
proof -
  obtain b where b: "start_prepare en cf now (new_instance i g disk) = Inr b"
    "make_ready en cf now (start_alarm b) = (None, a)"
    using assms by (rule startE)
  have "refs_ok (start_alarm b)" by (rule refs_ok_prepared [OF b(1)])
  then have "refs_ok ((resetSleepTimer en now ((start_alarm b)\<lparr>a_ready := True\<rparr>))\<lparr>a_livenessInterval := True\<rparr>)"
    by (simp add: refs_ok_def)
  then have "a_ready (snd (make_ready en cf now (start_alarm b)))"
    unfolding make_ready_def Let_def
    by (intro ready.liveness_I) (auto simp: refs_ok_def intro!: ready.interval_I ready.reset_I)
  then show ?thesis by (simp add: b(2))
qed

lemma persist_of_write [simp]: "persist_of (start_write en a) = persist_of a"
  by (simp add: start_write_def persist_of_def conn_at_def split: sum.split prod.split)

lemma persist_of_finish [simp]: "persist_of (finish_cycle (store_written k w a)) = persist_of a"
  by (cases w) (simp_all add: finish_cycle_def store_written_def resolve_saved_def Let_def persist_of_def conn_at_def)

lemma persist_of_settled [simp]: "persist_of (write_settled en k a) = persist_of a"
  by (simp add: write_settled_def Let_def split: option.split)

lemma persist_of_save [simp]: "persist_of (savePersistInner en now a) = persist_of a"
proof -
  have "persist_of (a\<lparr>a_lastSaveTime := now\<rparr>) = persist_of a"
    "persist_of (a\<lparr>a_writeQ := q, a_saveWaiters := w\<rparr>) = persist_of a"
    "persist_of (a\<lparr>a_onPersistSaved := p\<rparr>) = persist_of a" for a :: actor and q w p
    by (simp_all add: persist_of_def conn_at_def)
  then show ?thesis
    by (simp add: savePersistInner_def enqueue_write_def resolve_saved_def Let_def split: prod.split)
qed

text \<open>Nothing is lost, and a pending change is in a queued write.\<close>

definition save_on_way :: "env \<Rightarrow> actor \<Rightarrow> bool" where
  "save_on_way en a =
     (save_inv en a \<and> \<not> a_stale a \<and> (\<exists>w. persisted_bytes en (persist_of a) = Inr w)
      \<and> (a_persistChanged a \<longrightarrow> spq_queued (a_writeQ a) \<noteq> None))"

lemma spq_done_queued: "spq_running q \<noteq> None \<Longrightarrow> spq_queued (spq_op_done q) = None"
  by (auto simp: spq_defs split: option.split)

lemma spq_done_running: "spq_running q \<noteq> None \<Longrightarrow> spq_running (spq_op_done q) = None \<longleftrightarrow> spq_queued q = None"
  by (auto simp: spq_defs split: option.split)

lemma start_write_fields [simp]:
  "a_writeQ (start_write en a) = a_writeQ a" "\<not> a_persistChanged (start_write en a)"
  "a_writing (start_write en a) \<noteq> None"
  by (simp_all add: start_write_def split: sum.split prod.split)

lemma start_write_kept: "persisted_bytes en (persist_of a) = Inr w \<Longrightarrow> \<not> a_stale (start_write en a)"
  by (cases w) (simp add: start_write_def)

lemma save_on_way_settled:
  assumes ok: "coders_ok en" and w: "save_on_way en a"
  defines "b \<equiv> write_settled en True a"
  shows "save_on_way en b \<and> \<not> a_persistChanged b \<and> spq_queued (a_writeQ b) = None
     \<and> (spq_queued (a_writeQ a) = None \<longrightarrow> a_writing b = None)"
proof (cases "a_writing a")
  case None
  then show ?thesis using w by (auto simp: b_def write_settled_def save_on_way_def save_inv_def save_view_def)
next
  case (Some op)
  let ?c = "finish_cycle (store_written True op a)"
  have run: "spq_running (a_writeQ a) \<noteq> None" using w Some by (auto simp: save_on_way_def save_inv_def save_view_def)
  have c: "a_writeQ ?c = spq_op_done (a_writeQ a)" "a_writing ?c = None" "a_persistChanged ?c = a_persistChanged a"
    "a_stale ?c = a_stale a"
    using save_view_finished [of True op a] by (cases op; simp add: save_view_def)+
  have b: "b = (if spq_queued (a_writeQ a) = None then ?c else start_write en ?c)"
    using Some run by (simp add: b_def write_settled_def Let_def c spq_done_running)
  have "save_inv en b" using w save_inv_written [OF ok] by (simp add: b_def save_on_way_def)
  moreover have "persist_of b = persist_of a" by (simp add: b_def)
  moreover from w have "\<not> a_stale (start_write en ?c)"
    using start_write_kept [of en ?c] by (auto simp: save_on_way_def)
  with w have "\<not> a_stale b" by (simp add: b c save_on_way_def)
  moreover have "\<not> a_persistChanged b" using w by (auto simp: b c save_on_way_def)
  moreover have "spq_queued (a_writeQ b) = None" using run by (simp add: b c spq_done_queued)
  moreover have "spq_queued (a_writeQ a) = None \<longrightarrow> a_writing b = None" by (simp add: b c)
  ultimately show ?thesis using w by (simp add: save_on_way_def)
qed

lemma save_on_way_done:
  assumes ok: "coders_ok en" and w: "save_on_way en a"
  defines "b \<equiv> write_settled en True (write_settled en True a)"
  shows "a_writing b = None \<and> (\<exists>bs. a_disk b = Some bs \<and> holds_state en bs (a_state a))"
proof -
  let ?a = "write_settled en True a"
  have 1: "save_on_way en ?a" "spq_queued (a_writeQ ?a) = None"
    using save_on_way_settled [OF ok w] by auto
  have 2: "save_on_way en b" "\<not> a_persistChanged b" "a_writing b = None"
    using save_on_way_settled [OF ok 1(1)] 1(2) by (auto simp: b_def)
  have "persist_of b = persist_of a" by (simp add: b_def)
  then have "a_state b = a_state a" by (simp add: persist_of_def)
  then show ?thesis using 2 by (auto simp: save_on_way_def save_inv_def save_view_def)
qed

lemma saveState_queues:
  assumes ok: "coders_ok en" and inv: "save_inv en a" and r: "a_ready a" and st: "\<not> a_stale a"
    and w: "persisted_bytes en (persist_of a) = Inr w"
  shows "fst (saveState en now True True a) = None \<and> save_on_way en (snd (saveState en now True True a))"
proof (cases "a_persistChanged a")
  case False
  then show ?thesis
    using assms by (simp add: saveState_def assertReady_def save_on_way_def)
next
  case True
  let ?b = "a\<lparr>a_lastSaveTime := now\<rparr>"
  let ?q = "spq_enqueue () (a_writeQ a)"
  let ?c = "?b\<lparr>a_writeQ := snd ?q, a_saveWaiters := a_saveWaiters a @ [fst ?q]\<rparr>"
  have eq: "saveState en now True True a =
      (None, if spq_running (a_writeQ a) = None then start_write en ?c else ?c)"
    using True r by (simp add: saveState_def assertReady_def savePersistInner_def enqueue_write_def Let_def
        split: prod.split)
  have "persist_of ?c = persist_of a" by (simp add: persist_of_def conn_at_def)
  then have "\<not> a_stale (start_write en ?c)" using w start_write_kept [of en ?c w] by simp
  moreover have "spq_running (a_writeQ a) \<noteq> None \<Longrightarrow> spq_queued (snd ?q) \<noteq> None"
    by (auto simp: spq_defs Let_def split: option.split)
  moreover have "save_inv en (snd (saveState en now True True a))"
    by (rule save_inv_saveState [OF ok inv])
  ultimately show ?thesis
    using st w \<open>persist_of ?c = persist_of a\<close> by (auto simp: save_on_way_def eq split: if_splits)
qed

text \<open>
  C10.  When \<open>_stop\<close> ends in a state from which no change was lost and which the codecs can encode,
  its save is accepted, and once the write under way and the one queued behind it are done, the driver
  holds a file from which the state of that moment is read back.
\<close>

theorem stop_saves_state:
  assumes "coders_ok en" and "start en cf now i g disk = Inr a0" and "a = fold (actor_step en cf) es a0"
    and "\<not> a_stale a" and "persisted_bytes en (persist_of a) = Inr w"
  shows "fst (stop_finish en t a) = None
    \<and> (\<exists>bs p. a_disk (write_settled en True (write_settled en True (snd (stop_finish en t a)))) = Some bs
         \<and> read_persisted en (Some bs) = Inr p \<and> pa_state p = a_state a \<and> pa_hasInitiated p)"
proof -
  let ?a = "a\<lparr>a_pendingSave := disarm (a_pendingSave a), a_sleepTimeout := disarm (a_sleepTimeout a),
    a_livenessInterval := False\<rparr>"
  have inv: "save_inv en ?a" using save_reachable [OF assms(1,2), of es] assms(3)
    by (simp add: save_inv_def save_view_def)
  have "a_ready a" using ready.run_I [OF ready_started [OF assms(2)]] save_started [OF assms(1,2)] assms(3) by blast
  moreover have "persist_of ?a = persist_of a" by (simp add: persist_of_def conn_at_def)
  ultimately have s: "fst (stop_finish en t a) = None" "save_on_way en (snd (stop_finish en t a))"
    using saveState_queues [OF assms(1) inv, of w t] assms(4,5) by (simp_all add: stop_finish_def)
  have "persist_of (snd (stop_finish en t a)) = persist_of a"
    using \<open>persist_of ?a = persist_of a\<close> by (simp add: stop_finish_def saveState_def split: option.split)
  then have "a_state (snd (stop_finish en t a)) = a_state a" by (simp add: persist_of_def)
  then show ?thesis using s(1) save_on_way_done [OF assms(1) s(2)] by (auto simp: holds_state_def)
qed

text \<open>A run with a pending change: user code assigns the state twice.\<close>

definition example_run :: "(rat \<times> actor_event) list" where
  "example_run = [(1, UserCode [AssignState JNull, AssignState JUndef])]"

lemma example_changed:
  "fold (actor_step example_env example_cfg) example_run example_actor =
     example_actor\<lparr>a_persistChanged := True, a_out := [Inspect StateUpdated, Inspect StateUpdated]\<rparr>"
  by (simp add: example_run_def exec_def exec_cmd_def stateEnabled_def example_cfg_def on_persist_change_def
      state_change_hook_def emit_def example_actor_def new_instance_def)

lemma example_bytes:
  "persisted_bytes example_env (persist_of (example_actor\<lparr>a_persistChanged := c, a_out := out\<rparr>))
     = Inr (example_bare [0], embedVersion 1 [0])"
  by (simp add: persisted_bytes_def persist_of_def example_actor_def new_instance_def convertToBarePersisted_def
      encode_defined_def example_env_def tiny_codec_def example_bare_def serializeWithEmbeddedVersion_def
      conn_at_def)

theorem clean_state_is_on_disk_witness:
  "\<exists>bs p. a_disk example_actor = Some bs \<and> read_persisted example_env (Some bs) = Inr p
     \<and> pa_state p = a_state example_actor \<and> pa_hasInitiated p"
  using clean_state_is_on_disk [OF example_coders_ok example_actor_started refl, of "[]"]
  by (simp add: example_actor_def new_instance_def)

theorem stop_saves_state_witness:
  "\<exists>bs p. a_disk (write_settled example_env True (write_settled example_env True (snd (stop_finish example_env 2
       (fold (actor_step example_env example_cfg) example_run example_actor))))) = Some bs
     \<and> read_persisted example_env (Some bs) = Inr p \<and> pa_state p = JUndef \<and> pa_hasInitiated p"
  using stop_saves_state [OF example_coders_ok example_actor_started refl, of example_run "(example_bare [0], embedVersion 1 [0])" 2]
  unfolding example_changed example_bytes
  by (simp add: example_actor_def new_instance_def)

lemma saveState_clean: "\<not> a_persistChanged a \<Longrightarrow> snd (saveState en t i s a) = a"
  by (simp add: saveState_def split: option.split)

text \<open>
  C32.  A write that fails is not reported: with the queue idle, an immediate \<open>saveState\<close> whose write
  the driver rejects is accepted, its promise is resolved all the same, the file is the old one, and
  the dirty flag is clear, so that no later \<open>saveState\<close> writes the state before it changes again.
\<close>

theorem failed_write_is_swallowed:
  assumes "a_ready a" and "a_persistChanged a" and "spq_running (a_writeQ a) = None"
  shows "fst (saveState en t True True a) = None
    \<and> (let b = write_settled en False (snd (saveState en t True True a))
       in a_disk b = a_disk a \<and> a_state b = a_state a \<and> a_writing b = None
         \<and> fst (spq_enqueue () (a_writeQ a)) \<in> set (spq_settled (a_writeQ b))
         \<and> fst (spq_enqueue () (a_writeQ a)) \<notin> set (a_saveWaiters b)
         \<and> (\<forall>t' i s. snd (saveState en t' i s b) = b))"
proof -
  let ?p = "fst (spq_enqueue () (a_writeQ a))" and ?q = "snd (spq_enqueue () (a_writeQ a))"
  let ?c = "a\<lparr>a_lastSaveTime := t, a_writeQ := ?q, a_saveWaiters := a_saveWaiters a @ [?p]\<rparr>"
  have eq: "saveState en t True True a = (None, start_write en ?c)"
    using assms by (simp add: saveState_def assertReady_def savePersistInner_def enqueue_write_def Let_def
        split: prod.split)
  have run: "spq_running ?q = Some ((), Some ?p)" "spq_queued ?q = None"
    using assms(3) by (simp_all add: spq_defs Let_def split: option.split)
  then have q: "spq_running (spq_op_done ?q) = None" "?p \<in> set (spq_settled (spq_op_done ?q))"
    by (simp_all add: spq_op_done_def spq_drain_def)
  obtain w where w: "a_writing (start_write en ?c) = Some w"
    using start_write_fields(3) [of en ?c] by blast
  let ?b = "finish_cycle (store_written False w (start_write en ?c))"
  have b: "a_writeQ ?b = spq_op_done ?q" "a_writing ?b = None" "a_persistChanged ?b = False"
    "a_disk ?b = a_disk (start_write en ?c)" "a_state ?b = a_state (start_write en ?c)"
    using save_view_finished [of False w "start_write en ?c"] by (cases w; simp add: save_view_def)+
  have "?p \<notin> set (a_saveWaiters ?b)"
    using q(2) by (cases w) (auto simp: finish_cycle_def store_written_def Let_def resolve_saved_def)
  moreover have "a_disk (start_write en ?c) = a_disk a" "a_state (start_write en ?c) = a_state a"
    by (simp_all add: start_write_def split: sum.split prod.split)
  moreover have "write_settled en False (start_write en ?c) = ?b"
    using w q(1) b(1) by (simp add: write_settled_def Let_def)
  ultimately show ?thesis using b q
    by (simp only: eq Let_def fst_conv snd_conv) (simp add: saveState_clean)
qed

theorem failed_write_is_swallowed_witness:
  "let a = example_actor\<lparr>a_persistChanged := True\<rparr>;
       b = write_settled example_env False (snd (saveState example_env 5 True True a))
   in a_disk b = example_file 0 \<and> a_writing b = None \<and> snd (saveState example_env 9 True True b) = b"
  using failed_write_is_swallowed [of "example_actor\<lparr>a_persistChanged := True\<rparr>" example_env 5]
  by (simp add: Let_def example_actor_def new_instance_def spq_new_def)

text \<open>A scheduled time that is not a whole number of milliseconds makes every write throw.\<close>

lemma fractional_timestamp_blocks_writes:
  assumes "ev \<in> set (a_events a)" and "to_bigint (se_timestamp ev) = None"
  shows "\<exists>e. persisted_bytes en (persist_of a) = Inl e"
proof (cases "persisted_bytes en (persist_of a)")
  case (Inr w)
  then have "\<exists>bs. map_throw event_to_bare (a_events a) = Inr bs"
    by (auto simp: persisted_bytes_def persist_of_def convertToBarePersisted_def andThen_Inr)
  then have "\<exists>b. event_to_bare ev = Inr b" by (auto dest: map_throw_InrD [OF _ assms(1)])
  then show ?thesis using assms(2) by (auto simp: event_to_bare_def js_BigInt_def andThen_Inr)
qed simp

end
