(* ===== verification/ActorSchedule.thy ===== *)
theory ActorSchedule
  imports ActorInv "HOL-Library.Multiset"
begin

text \<open>
  The schedule of an actor: a list kept in order of time, an alarm that is always set for its
  first event, and what an alarm runs.
\<close>

section \<open>The schedule as an ordered bag\<close>

text \<open>
  What the instance relies on from the insertion: the events stay in order and none is lost or
  made up.
\<close>

locale ordered_bag =
  fixes time :: "'e \<Rightarrow> rat" and ins :: "'e \<Rightarrow> 'e list \<Rightarrow> 'e list"
  assumes ins_sorted: "sorted (map time es) \<Longrightarrow> sorted (map time (ins e es))"
    and ins_mset: "sorted (map time es) \<Longrightarrow> mset (ins e es) = add_mset e (mset es)"
begin

lemma all_inserted:
  "sorted (map time es) \<Longrightarrow>
     sorted (map time (fold ins xs es)) \<and> mset (fold ins xs es) = mset xs + mset es"
  by (induction xs arbitrary: es) (simp_all add: ins_sorted ins_mset)

lemma ins_nonempty: "sorted (map time es) \<Longrightarrow> ins e es \<noteq> []"
  using ins_mset [of es e] by force

lemma ins_hd_le: "sorted (map time es) \<Longrightarrow> x \<in> set (ins e es) \<Longrightarrow> time (hd (ins e es)) \<le> time x"
  using ins_sorted [of es e] by (cases "ins e es") auto

end

abbreviation in_order :: "sched_event list \<Rightarrow> bool" where
  "in_order es \<equiv> sorted (map se_timestamp es)"

text \<open>On a list in order the insertion goes behind the events that are due no later.\<close>

lemma insert_event_split:
  assumes "in_order es"
  shows "insert_event e es = filter (\<lambda>x. se_timestamp x \<le> se_timestamp e) es
    @ e # filter (\<lambda>x. se_timestamp x > se_timestamp e) es"
  using assms
proof (induction es)
  case Nil
  then show ?case by (simp add: insert_event_def)
next
  case (Cons x es)
  show ?case
  proof (cases "se_timestamp x > se_timestamp e")
    case True
    then have "\<forall>y \<in> set es. se_timestamp y > se_timestamp e" using Cons.prems by auto
    then show ?thesis
      using True by (auto simp: insert_event_def splice_in_def filter_empty_conv not_le intro!: filter_True [symmetric])
  next
    case False
    then have "insert_event e (x # es) = x # insert_event e es"
      by (auto simp: insert_event_def splice_in_def split: option.splits)
    then show ?thesis using Cons False by simp
  qed
qed

lemma mset_parts: "mset (filter (\<lambda>x. f x \<le> (t :: rat)) es) + mset (filter (\<lambda>x. t < f x) es) = mset es"
  by (induction es) (auto simp: not_le)

interpretation schedule: ordered_bag se_timestamp insert_event
proof
  fix es :: "sched_event list" and e
  assume o: "in_order es"
  show "in_order (insert_event e es)"
    using o by (auto simp: insert_event_split [OF o] sorted_append sorted_map intro!: sorted_wrt_filter)
  show "mset (insert_event e es) = add_mset e (mset es)"
    using mset_parts [of se_timestamp "se_timestamp e" es] by (simp add: insert_event_split [OF o])
qed


abbreviation ev_at :: "string \<Rightarrow> rat \<Rightarrow> sched_event" where
  "ev_at i t \<equiv> \<lparr>se_eventId = i, se_timestamp = t, se_actionName = ''tick'', se_args = None\<rparr>"


section \<open>The alarm\<close>

text \<open>The time of the alarm most recently asked for: the queued request, else the last one issued.\<close>

definition alarm_latest :: "rat spq \<Rightarrow> rat option" where
  "alarm_latest q =
     (case spq_queued q of
        Some ts \<Rightarrow> Some ts
      | None \<Rightarrow> if spq_started q = [] then None else Some (last (spq_started q)))"

lemma alarm_latest_enqueue: "alarm_latest (snd (spq_enqueue ts q)) = Some ts"
  by (simp add: alarm_latest_def spq_defs Let_def split: option.split)

lemma alarm_latest_done [simp]: "alarm_latest (spq_op_done q) = alarm_latest q"
  by (auto simp: alarm_latest_def spq_defs split: option.split)

definition sched_inv :: "actor \<Rightarrow> bool" where
  "sched_inv a =
     (case event_view a of
        (evs, q) \<Rightarrow> in_order evs \<and> (evs \<noteq> [] \<longrightarrow> alarm_latest q = Some (se_timestamp (hd evs))))"

lemma event_view_alarm [simp]:
  "event_view (alarm_settled a) = (a_events a, if spq_running (a_alarmQ a) = None then a_alarmQ a else spq_op_done (a_alarmQ a))"
  "event_view (queueSetAlarm ts a) = (a_events a, snd (spq_enqueue ts (a_alarmQ a)))"
  by (auto simp: alarm_settled_def queueSetAlarm_def Let_def event_view_def emit_def split: option.split)

lemma sched_inv_next_alarm: "in_order (a_events a) \<Longrightarrow> sched_inv (set_next_alarm a)"
  by (cases "a_events a") (simp_all add: sched_inv_def set_next_alarm_def alarm_latest_enqueue,
    simp add: event_view_def)

lemma sched_inv_alarm_settled: "sched_inv a \<Longrightarrow> sched_inv (alarm_settled a)"
  by (simp add: sched_inv_def) (simp add: event_view_def)

lemma sched_inv_schedule: "sched_inv a \<Longrightarrow> sched_inv (scheduleEventInner ev a)"
proof -
  let ?i = "find_index (\<lambda>x. se_timestamp x > se_timestamp ev) (a_events a)"
  assume inv: "sched_inv a"
  then have o: "in_order (a_events a)"
    and al: "a_events a \<noteq> [] \<Longrightarrow> alarm_latest (a_alarmQ a) = Some (se_timestamp (hd (a_events a)))"
    by (auto simp: sched_inv_def event_view_def)
  have o': "in_order (insert_event ev (a_events a))" by (rule schedule.ins_sorted [OF o])
  have len: "length (insert_event ev (a_events a)) = Suc (length (a_events a))"
    using arg_cong [OF schedule.ins_mset [OF o, of ev], of size] by simp
  show ?thesis
  proof (cases "?i = Some 0 \<or> a_events a = []")
    case True
    then have "hd (insert_event ev (a_events a)) = ev"
      by (auto simp: insert_event_def splice_in_def)
    moreover have "?i = Some 0 \<or> length (insert_event ev (a_events a)) = 1" using True len by auto
    ultimately show ?thesis
      using o' by (simp add: scheduleEventInner_def Let_def sched_inv_def alarm_latest_enqueue)
  next
    case False
    then have "hd (insert_event ev (a_events a)) = hd (a_events a)"
      by (auto simp: insert_event_def splice_in_def hd_append split: option.split)
    moreover have "\<not> (?i = Some 0 \<or> length (insert_event ev (a_events a)) = 1)" using False len by auto
    ultimately show ?thesis
      using o' al False by (simp add: scheduleEventInner_def Let_def sched_inv_def event_view_def)
  qed
qed

text \<open>On a schedule in order an alarm takes the first event, if it is due, and no other.\<close>

lemma take_due_split:
  assumes "in_order (a_events a)"
  shows "take_due now a =
     (case a_events a of
        [] \<Rightarrow> ([], a)
      | ev # evs \<Rightarrow> if se_timestamp ev \<le> now
          then ([ev], set_next_alarm (a\<lparr>a_events := evs\<rparr>)) else ([], set_next_alarm a))"
proof (cases "a_events a")
  case Nil
  then show ?thesis by (simp add: take_due_def set_next_alarm_def)
next
  case (Cons ev evs)
  show ?thesis
  proof (cases "se_timestamp ev \<le> now")
    case True
    then show ?thesis by (simp add: take_due_def Cons)
  next
    case False
    then have "find_index (\<lambda>x. se_timestamp x \<le> now) evs = None"
      using assms Cons by (force simp: find_index_None)
    then show ?thesis using False by (simp add: take_due_def Cons)
  qed
qed

lemma sched_inv_take_due: "sched_inv a \<Longrightarrow> sched_inv (snd (take_due now a))"
proof -
  assume "sched_inv a"
  then have o: "in_order (a_events a)" by (simp add: sched_inv_def event_view_def)
  with \<open>sched_inv a\<close> show ?thesis
    by (auto simp: take_due_split [OF o] intro!: sched_inv_next_alarm split: list.split)
qed

interpretation sched: actor_invariant en sched_inv for en
proof (unfold_locales, goal_cases)
  case (8 a ev)
  then show ?case by (rule sched_inv_schedule)
next
  case (13 a now)
  then show ?case by (rule sched_inv_take_due)
next
  case (14 a)
  then show ?case by (rule sched_inv_alarm_settled)
next
  case (31 a)
  then show ?case by (intro sched_inv_next_alarm) (simp add: sched_inv_def event_view_def)
qed (simp_all add: sched_inv_def, simp_all add: event_view_def)

text \<open>Order alone, for the part of \<open>start\<close> before the alarm is set.\<close>

interpretation sched_order: actor_invariant en "\<lambda>a. in_order (fst (event_view a))" for en
proof (unfold_locales, goal_cases)
  case (8 a ev)
  then show ?case
    by (simp add: scheduleEventInner_def Let_def schedule.ins_sorted) (simp add: event_view_def schedule.ins_sorted)
next
  case (13 a now)
  then have o: "in_order (a_events a)" by (simp add: event_view_def)
  then show ?case
    by (auto simp: take_due_split [OF o] set_next_alarm_def split: list.split) (simp_all add: event_view_def)
next
  case (31 a)
  then show ?case by (cases "a_events a") (simp_all add: set_next_alarm_def, simp_all add: event_view_def)
qed (simp_all, simp_all add: event_view_def)

section \<open>Started instances\<close>

text \<open>What a stored schedule must be for a start: in order, as every instance leaves it.\<close>

lemma sched_started:
  assumes st: "start en cf now i g disk = Inr a"
    and order: "\<And>p. read_persisted en disk = Inr p \<Longrightarrow> in_order (pa_scheduledEvents p)"
  shows "sched_inv a \<and> refs_ok a"
proof -
  let ?n = "new_instance i g disk"
  obtain b where b: "start_prepare en cf now ?n = Inr b" "make_ready en cf now (start_alarm b) = (None, a)"
    using st by (rule startE)
  have disk: "a_disk ?n = disk" by (simp add: new_instance_def)
  have "in_order (fst (event_view b))"
  proof (rule sched_order.start_prepare_I [OF b(1)], rule sched_order.initialize_I, assumption)
    fix a' p
    assume p: "read_persisted en (a_disk ?n) = Inr p" and l: "load_conns en cf now (pa_connections p)
        (?n\<lparr>a_input := pa_input p, a_hasInitiated := True, a_state := pa_state p,
           a_events := pa_scheduledEvents p\<rparr>) = Inr a'"
    show "in_order (fst (event_view a'))"
      using order [of p] p by (simp add: load_conns_event_view [OF l] disk) (simp add: event_view_def)
  next
    fix a' p
    assume p: "read_persisted en (a_disk ?n) = Inr p" and c: "create_new en cf now p ?n = Inr a'"
    show "in_order (fst (event_view a'))"
      by (rule sched_order.create_new_I [OF c]) (use order [of p] p disk in \<open>simp add: event_view_def\<close>)
  qed
  then have s: "sched_inv (start_alarm b)"
    by (auto simp: start_alarm_def event_view_def intro!: sched_inv_alarm_settled sched_inv_next_alarm
        split: list.split) (simp add: sched_inv_def event_view_def)
  have r: "refs_ok (start_alarm b)" by (rule refs_ok_prepared [OF b(1)])
  show ?thesis
    using sched.make_ready_I [OF s r, of en cf now] refs.make_ready_I [OF r r, of en cf now] b(2) by simp
qed



text \<open>
  An alarm runs at most one event: on a schedule in order \<open>_onAlarm\<close> takes the first event if
  it is due and leaves every later one, even those already due, for the alarm it then sets at the
  time of the next; if the first is not due it only sets the alarm again.
\<close>

theorem onAlarm_takes_first:
  assumes "in_order (a_events a)" and "a_events a = ev # evs"
  shows "fst (take_due now a) = (if se_timestamp ev \<le> now then [ev] else [])
    \<and> a_events (snd (take_due now a)) = (if se_timestamp ev \<le> now then evs else ev # evs)
    \<and> (\<forall>next rest. a_events (snd (take_due now a)) = next # rest \<longrightarrow>
         alarm_latest (a_alarmQ (snd (take_due now a))) = Some (se_timestamp next))"
proof -
  have *: "event_view (set_next_alarm b) = (a_events b,
      case a_events b of [] \<Rightarrow> a_alarmQ b | e # _ \<Rightarrow> snd (spq_enqueue (se_timestamp e) (a_alarmQ b)))" for b
    by (simp add: set_next_alarm_def split: list.split) (simp add: event_view_def)
  have evs: "a_events (set_next_alarm b) = a_events b" for b using * [of b] by (simp add: event_view_def)
  have al: "a_events b = e # es \<Longrightarrow> alarm_latest (a_alarmQ (set_next_alarm b)) = Some (se_timestamp e)" for b e es
    using * [of b] by (simp add: event_view_def alarm_latest_enqueue)
  show ?thesis using assms by (auto simp: take_due_split evs al)
qed

theorem onAlarm_takes_first_witness:
  "fst (take_due 5 ((new_instance ''a'' no_sockets None)\<lparr>a_events := [ev_at ''x'' 1, ev_at ''y'' 2]\<rparr>)) = [ev_at ''x'' 1]"
  using onAlarm_takes_first [of "(new_instance ''a'' no_sockets None)\<lparr>a_events := [ev_at ''x'' 1, ev_at ''y'' 2]\<rparr>"
      "ev_at ''x'' 1" "[ev_at ''y'' 2]" 5] by simp

end
