(* ===== verification/ActorSleep.thy ===== *)
theory ActorSleep
  imports ActorInv
begin

text \<open>
  When an actor may be put to sleep: the sleep timer is never armed while a raw request or a raw
  WebSocket is in flight, and a new connection disarms it.
\<close>

definition armed :: "actor \<Rightarrow> bool" where
  "armed a = (\<exists>due. a_sleepTimeout a = Some (due, True))"

definition sleep_inv :: "env \<Rightarrow> actor \<Rightarrow> bool" where
  "sleep_inv en a =
     (case sleep_view a of
        (ready, timer, fetches, sockets) \<Rightarrow>
          (\<exists>due. timer = Some (due, True)) \<longrightarrow>
            ready \<and> fetches = 0 \<and> sockets = [] \<and> \<not> en_noSleep en \<and> en_sleep en)"

lemma sleep_inv_reset:
  "sleep_inv en a \<or> (\<not> en_noSleep en \<and> en_sleep en) \<Longrightarrow> sleep_inv en (resetSleepTimer en now a)"
  by (auto simp: sleep_inv_def sleep_view_def resetSleepTimer_def Let_def canSleep_def split: if_splits)

lemma sleep_inv_off: "en_noSleep en \<or> \<not> en_sleep en \<Longrightarrow> sleep_inv en a \<longleftrightarrow> \<not> armed a"
  by (auto simp: sleep_inv_def sleep_view_def armed_def)

text \<open>Any change outside the timer followed by a reset keeps the invariant.\<close>

lemma sleep_inv_change_reset:
  assumes "sleep_inv en a" and "a_sleepTimeout b = a_sleepTimeout a"
  shows "sleep_inv en (resetSleepTimer en now b)"
proof (cases "en_noSleep en \<or> \<not> en_sleep en")
  case True
  then have "sleep_inv en b" using assms sleep_inv_off [of en a] sleep_inv_off [of en b] by (simp add: armed_def)
  then show ?thesis by (simp add: sleep_inv_reset)
next
  case False
  then show ?thesis by (intro sleep_inv_reset) simp
qed

lemma sleep_inv_register:
  assumes "sleep_inv en a"
  shows "sleep_inv en (register_conn en now c a)"
proof -
  have "sleep_inv en (resetSleepTimer en now
      (a\<lparr>a_heap := a_heap a @ [c], a_connections := jm_set (conn_id c) (length (a_heap a)) (a_connections a)\<rparr>))"
    by (rule sleep_inv_change_reset [OF assms]) simp
  then show ?thesis
    by (simp add: register_conn_def Let_def sleep_inv_def) (simp add: sleep_view_def)
qed

interpretation sleep: actor_invariant en "sleep_inv en" for en
proof (unfold_locales, goal_cases)
  case (15 a now)
  then show ?case by (simp add: sleep_inv_reset)
next
  case (17 a c now)
  then show ?case by (simp add: sleep_inv_register)
next
  case (21 a now)
  then show ?case unfolding fetch_begin_def by (rule sleep_inv_change_reset) simp
next
  case (22 a now)
  then show ?case unfolding fetch_end_def by (rule sleep_inv_change_reset) simp
next
  case (23 a now ws)
  then show ?case unfolding ws_track_def by (rule sleep_inv_change_reset) simp
next
  case (24 a now ws)
  then show ?case unfolding ws_closed_def by (rule sleep_inv_change_reset) simp
next
  case (16 a)
  then show ?case by (auto simp: sleep_inv_def sleep_view_def disarm_def)
qed (simp_all add: sleep_inv_def, auto simp: sleep_view_def)

text \<open>User code does not touch the timer.\<close>

interpretation timer_kept: user_code_invariant en "\<lambda>a. a_sleepTimeout a = t" for en t
  by unfold_locales (simp_all add: emit_def set_conn_def
    savePersistInner_views(3) [THEN sleep_viewD(2)] scheduleEventInner_views(2) [THEN sleep_viewD(2)])

lemma register_conn_disarms:
  assumes "c_status c = Connected" and "\<not> jm_has (a_connections a) (conn_id c)"
    and "sleep_inv en a"
  shows "\<not> armed (register_conn en now c a)"
proof -
  let ?b = "a\<lparr>a_heap := a_heap a @ [c], a_connections := jm_set (conn_id c) (length (a_heap a)) (a_connections a)\<rparr>"
  have "(conn_id c, length (a_heap a)) \<in> set (a_connections ?b)"
    using jm_set_new [of "conn_id c" "a_connections a" "length (a_heap a)"] assms(2) by (simp add: jm_has_iff)
  then have "\<not> canSleep ?b"
    using assms(1)
    by (auto simp: canSleep_def conn_at_def intro!: bexI [of _ "(conn_id c, length (a_heap a))"])
  then have "\<not> armed (resetSleepTimer en now ?b)"
    using assms(3) sleep_inv_off [of en a] by (auto simp: resetSleepTimer_def Let_def armed_def)
  then show ?thesis by (simp add: register_conn_def Let_def armed_def)
qed

lemma sleep_started:
  assumes st: "start en cf now i g disk = Inr a"
  shows "sleep_inv en a \<and> refs_ok a"
proof -
  let ?n = "new_instance i g disk"
  obtain b where b: "start_prepare en cf now ?n = Inr b" "make_ready en cf now (start_alarm b) = (None, a)"
    using st by (rule startE)
  have s: "sleep_inv en (start_alarm b)"
  proof (intro sleep.start_alarm_I, rule sleep.start_prepare_I [OF b(1)], rule sleep.initialize_I, assumption)
    fix a' p
    assume l: "load_conns en cf now (pa_connections p)
        (?n\<lparr>a_input := pa_input p, a_hasInitiated := True, a_state := pa_state p,
           a_events := pa_scheduledEvents p\<rparr>) = Inr a'"
    show "sleep_inv en a'"
      using load_conns_sleep_view [OF l] by (simp add: sleep_inv_def sleep_view_def new_instance_def)
  next
    fix a' p
    assume "create_new en cf now p ?n = Inr a'"
    then show "sleep_inv en a'"
      by (rule sleep.create_new_I) (simp add: sleep_inv_def sleep_view_def new_instance_def)
  qed
  have r: "refs_ok (start_alarm b)" by (rule refs_ok_prepared [OF b(1)])
  show ?thesis
    using sleep.make_ready_I [OF s r, of cf now] refs.make_ready_I [OF r r, of en cf now] b(2) by simp
qed

text \<open>
  C8.  The sleep timer is safe: in every state an instance can reach, if the timer is armed then the
  instance is ready, the driver can sleep, no raw fetch is in flight and no raw WebSocket is open;
  and a connection that \<open>createConn\<close> has just admitted leaves the timer disarmed.
\<close>

theorem sleep_timer_safe:
  assumes "start en cf now i g disk = Inr a0" and "a = fold (actor_step en cf) es a0"
  shows "(armed a \<longrightarrow> a_ready a \<and> a_fetchCount a = 0 \<and> a_rawWebSockets a = []
      \<and> \<not> en_noSleep en \<and> en_sleep en)
    \<and> (fst (createConn en cf t c tok params st d ds au a) = Inr r \<longrightarrow>
         \<not> armed (snd (createConn en cf t c tok params st d ds au a)))"
proof -
  have inv: "sleep_inv en a" using sleep.run_I sleep_started [OF assms(1)] assms(2) by blast
  then have 1: "armed a \<longrightarrow> a_ready a \<and> a_fetchCount a = 0 \<and> a_rawWebSockets a = []
      \<and> \<not> en_noSleep en \<and> en_sleep en"
    by (auto simp: sleep_inv_def sleep_view_def armed_def)
  have 2: "\<not> armed (snd (createConn en cf t c tok params st d ds au a))"
    if "fst (createConn en cf t c tok params st d ds au a) = Inr r"
    using that
  proof (rule createConn_admitted)
    fix drv m
    let ?c = "new_Conn (new_persisted_conn t c tok params st d ds au) drv (connStateEnabled cf)"
    let ?b = "register_conn en t ?c a"
    assume new: "\<not> jm_has (a_connections a) c"
      and eq: "snd (createConn en cf t c tok params st d ds au a) = snd (send_message en r m (admit_conn en cf t ?c a))"
    have "a_sleepTimeout (snd (send_message en r m (admit_conn en cf t ?c a))) = a_sleepTimeout ?b"
      unfolding admit_conn_def
      by (intro timer_kept.send_message_I timer_kept.emit_I timer_kept.call_onConnect_I refl)
    moreover have "\<not> armed ?b"
      by (rule register_conn_disarms) (use new inv in \<open>simp_all add: new_Conn_def conn_id_def new_persisted_conn_def\<close>)
    ultimately show ?thesis by (simp add: armed_def eq)
  qed
  show ?thesis using 1 2 by blast
qed

theorem sleep_timer_safe_witness:
  "\<exists>a. start example_env example_cfg 0 ''a'' no_sockets (example_file 0) = Inr a
     \<and> armed a \<and> a_fetchCount a = 0
     \<and> \<not> armed (snd (createConn example_env example_cfg 1 ''c'' ''t'' JNull JNull ''http'' JNull JUndef a))"
proof -
  have armed: "armed example_actor" by (simp add: armed_def example_actor_def)
  have ok: "fst (createConn example_env example_cfg 1 ''c'' ''t'' JNull JNull ''http'' JNull JUndef example_actor)
      = Inr 0"
    by (simp add: createConn_def assertReady_def resetSleepTimer_def Let_def example_env_def
        example_actor_def new_instance_def canSleep_def jm_has_def getConnDriver_def send_message_def
        driver_sendMessage_def call_onConnect_def example_cfg_def register_conn_def saveState_def emit_def
        new_Conn_def conn_at_def no_sockets_def connStateEnabled_def admit_conn_def)
  show ?thesis
    using sleep_timer_safe [OF example_actor_started refl, of "[]"] armed ok
    by (auto simp: example_actor_started)
qed

end
