(* ===== verification/ActorActions.thy ===== *)
theory ActorActions
  imports ActorInv
begin

text \<open>
  Actions: which names run, how they end, and that the change one made is on its way to the disk.
\<close>

section \<open>Pending saves\<close>

text \<open>The throttle timer is armed whenever its handle is set: true until \<open>_stop\<close> clears it.\<close>

definition save_timer_live :: "actor \<Rightarrow> bool" where
  "save_timer_live a = (\<forall>t. a_pendingSave a = Some t \<longrightarrow> snd t)"

lemma pendingSave_inner [simp]: "a_pendingSave (savePersistInner en now a) = a_pendingSave a"
  by (simp add: savePersistInner_def enqueue_write_def resolve_saved_def start_write_def Let_def
      split: prod.split sum.split)

interpretation live: user_code_invariant en save_timer_live for en
  by unfold_locales (auto simp: save_timer_live_def emit_def set_conn_def scheduleEventInner_def
      queueSetAlarm_def Let_def)

text \<open>A pending change is in a queued write or an armed timer will write it.\<close>

definition change_on_way :: "actor \<Rightarrow> bool" where
  "change_on_way a =
     (a_persistChanged a \<longrightarrow>
        spq_queued (a_writeQ a) \<noteq> None \<or> (\<exists>due. a_pendingSave a = Some (due, True)))"

lemma change_on_way_inner: "change_on_way (savePersistInner en now a)"
proof (cases "spq_running (a_writeQ a)")
  case None
  then show ?thesis
    by (simp add: change_on_way_def savePersistInner_def enqueue_write_def resolve_saved_def start_write_def
        Let_def split: prod.split sum.split)
next
  case (Some x)
  then have "spq_queued (snd (spq_enqueue () (a_writeQ a))) \<noteq> None"
    by (auto simp: spq_defs Let_def split: option.split)
  with Some show ?thesis
    by (auto simp: change_on_way_def savePersistInner_def enqueue_write_def resolve_saved_def
        Let_def split: prod.split)
qed

lemma change_on_way_throttled: "save_timer_live a \<Longrightarrow> change_on_way (savePersistThrottled en now a)"
  using change_on_way_inner [of en now a]
  by (auto simp: savePersistThrottled_def Let_def save_timer_live_def) (auto simp: change_on_way_def)

lemma action_settled_saves:
  assumes "save_timer_live a"
  shows "change_on_way (snd (action_settled en cf now name args res a))"
proof -
  have "save_timer_live (snd (call_hook en cf now f 0 xs a))" for f xs
    by (intro live.call_hook_I assms)
  then show ?thesis
    using assms by (auto simp: action_settled_def action_failed_def action_returned_def change_on_way_throttled
        split: sum.split option.split prod.split)
      (metis change_on_way_throttled snd_conv)+
qed

lemma executeAction_settled:
  assumes "executeAction en cf now r name args a = (out, b)" and "out \<noteq> Pending"
    and "a_ready a" and "lookup_action cf name \<noteq> None" and "save_timer_live a"
  shows "\<exists>xs res c. save_timer_live c \<and> (out, b) = action_settled en cf now name xs res c"
proof -
  obtain f where f: "lookup_action cf name = Some f" using assms(4) by blast
  show ?thesis
  proof (cases "spread_args args")
    case (Inl e)
    then have "(out, b) = action_settled en cf now name [] (Inl e) a"
      using assms(1,3) f by (simp add: executeAction_def action_settled_def)
    then show ?thesis using assms(5) by blast
  next
    case (Inr xs)
    obtain o' c where c: "call_user en cf now f r xs a = (o', c)" by fastforce
    have "save_timer_live c" using live.call_user_I [OF assms(5), of en cf now f r xs] c by simp
    moreover have "(out, b) = action_settled en cf now name xs (case o' of Throw e \<Rightarrow> Inl e | Ret v \<Rightarrow> Inr v) c"
      using assms(1-3) f Inr c
      by (cases o') (simp_all add: executeAction_def action_settled_def)
    ultimately show ?thesis by blast
  qed
qed


definition example_action_cfg :: cfg where
  "example_action_cfg = example_cfg\<lparr>cf_actions := [(''inc'', \<lambda>a r args. ([AssignState JUndef], Ret JNull))]\<rparr>"


section \<open>Names that are not actions\<close>

text \<open>
  The test \<open>actionName in actions\<close> also finds what every object inherits: a client may call
  \<open>toString\<close>, and \<open>constructor\<close> returns the action context itself, whose connection object carries
  the persisted connection with its token.  A name that is neither configured nor inherited is refused
  and leaves the actor as it was.
\<close>

theorem inherited_functions_are_actions:
  assumes "a_ready a" and "jm_get (cf_actions cf) name = None" and "cf_onBeforeActionResponse cf = None"
  shows "(name = ''constructor'' \<longrightarrow>
        (\<exists>v. fst (executeAction en cf now r name (JArr xs) a) = Ret v
           \<and> obj_get (obj_get (obj_get v ''conn'') ''__persist'') ''token''
               = JStr (pc_token (c_persist (conn_at a r)))))
    \<and> (name = ''toString'' \<longrightarrow>
        fst (executeAction en cf now r name (JArr xs) a) = Ret (JStr ''[object Undefined]''))
    \<and> (name \<notin> set object_prototype_functions \<longrightarrow>
        executeAction en cf now r name args a = (Throw (EActor (ActionNotFound name)), a))"
proof -
  have l: "lookup_action cf name = (if name \<in> set object_prototype_functions
      then Some (inherited_function name) else None)"
    using assms(2) by (simp add: lookup_action_def)
  have run: "fst (executeAction en cf now r name (JArr xs) a) = Ret v"
    if "name \<in> set object_prototype_functions" "inherited_function name a r xs = ([], Ret v)" for v
    using assms that l
    by (simp add: executeAction_def spread_args_def call_user_def exec_def action_returned_def)
  have "name = ''constructor'' \<Longrightarrow> fst (executeAction en cf now r name (JArr xs) a) = Ret (context_value (conn_at a r))"
    and "name = ''toString'' \<Longrightarrow> fst (executeAction en cf now r name (JArr xs) a) = Ret (JStr ''[object Undefined]'')"
    by (rule run; simp add: object_prototype_functions_def inherited_function_def)+
  moreover have "obj_get (obj_get (obj_get (context_value c) ''conn'') ''__persist'') ''token''
      = JStr (pc_token (c_persist c))" for c
    by (simp add: context_value_def)
  ultimately show ?thesis using assms(1) l by (auto simp: executeAction_def)
qed

theorem inherited_functions_are_actions_witness:
  "fst (executeAction example_env example_cfg 3 0 ''toString'' (JArr []) example_actor)
     = Ret (JStr ''[object Undefined]'')
   \<and> executeAction example_env example_cfg 3 0 ''x'' (JArr []) example_actor
     = (Throw (EActor (ActionNotFound ''x'')), example_actor)"
proof -
  have r: "a_ready example_actor" by (simp add: example_actor_def)
  have c: "jm_get (cf_actions example_cfg) n = None" "cf_onBeforeActionResponse example_cfg = None" for n
    by (simp_all add: example_cfg_def)
  show ?thesis
    using inherited_functions_are_actions [OF r c(1) c(2), of "''toString''" example_env 3 0 "[]"]
      inherited_functions_are_actions [OF r c(1) c(2), of "''x''" example_env 3 0 "[]" "JArr []"]
    by (simp add: object_prototype_functions_def)
qed

text \<open>\<open>#resetSleepTimer\<close> does not look at \<open>#stopCalled\<close>: a socket that closes after \<open>_stop\<close> cleared the
  timers arms the sleep timer of the stopped instance again.\<close>

lemma stopped_instance_rearmed:
  assumes "en_sleep en" and "\<not> en_noSleep en" and "a_ready a" and "\<not> a_sleepCalled a"
    and "\<forall>(i, r) \<in> set (a_connections a). c_status (conn_at a r) \<noteq> Connected"
    and "a_fetchCount a = 0" and "set (a_rawWebSockets a) \<subseteq> {ws}"
  shows "a_sleepTimeout (ws_closed en now ws a) = Some (now + en_sleepTimeout en, True)"
proof -
  have "js_remove ws (a_rawWebSockets a) = []" using assms(7) by (auto simp: js_remove_def filter_empty_conv)
  then show ?thesis
    using assms by (auto simp: ws_closed_def resetSleepTimer_def canSleep_def Let_def conn_at_def)
qed

end
