(* ===== verification/ClientConn.thy ===== *)
theory ClientConn
  imports Conn
begin

text \<open>
  The client's side of a connection: \<open>ActorConnRaw\<close> of \<open>client/actor-conn.ts\<close>.

  Every handler is one step on the record of the private fields; what it does to the outside is
  recorded in \<open>cc_out\<close>.  Sockets are outside: their ready state is part of the transport and changes
  by an event.  The caller's callbacks are data, like the actor's: what they do to the connection, and
  the error they end with.
\<close>

section \<open>State\<close>

datatype client_cmd =
    On string nat bool
  | Unsubscribe string nat
  | OnError nat
  | OffError nat
  | Action string jsval
  | Dispose

text \<open>What a promise is rejected with: the client's \<open>ActorError\<close> (code, message, metadata) or
  another error.\<close>

datatype rejection = RejActor jsval jsval jsval | RejError js_err

datatype client_effect =
    SocketSend output_data
  | HttpSend nat jsval
  | SocketClose
  | StreamClose
  | StartConnect
  | DriverConnect
  | OpenResolved
  | OpenRejected rejection
  | ActionResolved nat jsval
  | ActionRejected nat rejection
  | CallListener nat "jsval list"
  | CallErrorHandler nat rejection
  | CallerThrew js_err
  | HandlerThrew js_err
  | Aborted

datatype transport_kind = WsTransport | SseTransport

text \<open>\<open>cc_listeners\<close> holds the listener objects by number and \<open>cc_sets\<close> the sets of listeners, which
  \<open>#dispatchEvent\<close> keeps hold of while the map may change; \<open>cc_open\<close> is \<open>#onOpenPromise\<close> with the
  rejection it is settled with, if it is; \<open>cc_http\<close> are the HTTP messages under way.
  \<open>cc_accepted\<close> is no field: the messages that were to be delivered, in order.\<close>

datatype open_promise = OpenPending | OpenDone "rejection option"

record client_conn =
  cc_disposed :: bool
  cc_connecting :: bool
  cc_actorId :: jsval
  cc_connectionId :: jsval
  cc_connectionToken :: jsval
  cc_transport :: "(transport_kind \<times> nat) option"
  cc_messageQueue :: "jsval list"
  cc_actionsInFlight :: "(nat \<times> string) list"
  cc_eventSubscriptions :: "(string \<times> nat) list"
  cc_sets :: "nat list list"
  cc_listeners :: "(nat \<times> bool) list"
  cc_errorHandlers :: "nat list"
  cc_actionIdCounter :: nat
  cc_open :: "open_promise option"
  cc_http :: "(nat \<times> (jsval \<times> bool)) list"
  cc_nextHttp :: nat
  cc_accepted :: "jsval list"
  cc_sent :: "jsval list"
  cc_out :: "client_effect list"

text \<open>What surrounds the connection.  \<open>ce_number\<close> is \<open>Number(s)\<close> of a string.\<close>

record client_env =
  ce_codec :: codec
  ce_encoding :: encoding
  ce_transport :: transport_kind
  ce_toServer :: "jsval version_handler"
  ce_toClient :: "jsval version_handler"
  ce_u8 :: "jsval \<Rightarrow> js_err + bytes"
  ce_number :: "string \<Rightarrow> jsnum"
  ce_listener :: "nat \<Rightarrow> jsval list \<Rightarrow> client_cmd list \<times> js_err option"
  ce_errorHandler :: "nat \<Rightarrow> rejection \<Rightarrow> client_cmd list"

definition new_client_conn :: client_conn where
  "new_client_conn =
     \<lparr>cc_disposed = False, cc_connecting = False, cc_actorId = JUndef, cc_connectionId = JUndef,
      cc_connectionToken = JUndef, cc_transport = None, cc_messageQueue = [], cc_actionsInFlight = [],
      cc_eventSubscriptions = [], cc_sets = [], cc_listeners = [], cc_errorHandlers = [], cc_actionIdCounter = 0,
      cc_open = None, cc_http = [], cc_nextHttp = 0, cc_accepted = [], cc_sent = [], cc_out = []\<rparr>"

definition cemit :: "client_effect list \<Rightarrow> client_conn \<Rightarrow> client_conn" where
  "cemit es c = c\<lparr>cc_out := cc_out c @ es\<rparr>"

section \<open>Sending\<close>

definition ActorConnDisposed :: js_err where
  "ActorConnDisposed = EError ''Error'' ''Attempting to interact with a disposed actor connection.''"

definition action_request :: "nat \<Rightarrow> string \<Rightarrow> bytes \<Rightarrow> jsval" where
  "action_request i name args =
     msg ''ActionRequest'' [(''id'', JBig (int i)), (''name'', JStr name), (''args'', JBuffer args)]"

definition subscription_request :: "string \<Rightarrow> bool \<Rightarrow> jsval" where
  "subscription_request eventName subscribe =
     msg ''SubscriptionRequest'' [(''eventName'', JStr eventName), (''subscribe'', JBool subscribe)]"

text \<open>\<open>#sendHttpMessage\<close> up to the request; its \<open>catch\<close> puts the message at the front of the queue.\<close>

definition requeue :: "jsval \<Rightarrow> bool \<Rightarrow> client_conn \<Rightarrow> client_conn" where
  "requeue message ephemeral c =
     (if ephemeral then c else c\<lparr>cc_messageQueue := message # cc_messageQueue c\<rparr>)"

definition sendHttpMessage :: "jsval \<Rightarrow> bool \<Rightarrow> client_conn \<Rightarrow> client_conn" where
  "sendHttpMessage message ephemeral c =
     (if \<not> truthy (cc_actorId c) \<or> \<not> truthy (cc_connectionId c) \<or> \<not> truthy (cc_connectionToken c)
      then requeue message ephemeral c
      else cemit [HttpSend (cc_nextHttp c) message]
        (c\<lparr>cc_http := cc_http c @ [(cc_nextHttp c, (message, ephemeral))], cc_nextHttp := Suc (cc_nextHttp c)\<rparr>))"

definition http_failed :: "nat \<Rightarrow> client_conn \<Rightarrow> client_conn" where
  "http_failed k c =
     (case jm_get (cc_http c) k of
        None \<Rightarrow> c
      | Some (message, ephemeral) \<Rightarrow> requeue message ephemeral (c\<lparr>cc_http := jm_del k (cc_http c)\<rparr>))"

definition http_done :: "nat \<Rightarrow> client_conn \<Rightarrow> client_conn" where
  "http_done k c =
     (case jm_get (cc_http c) k of
        None \<Rightarrow> c
      | Some (message, ephemeral) \<Rightarrow>
          c\<lparr>cc_http := jm_del k (cc_http c),
            cc_sent := cc_sent c @ (if ephemeral then [] else [message])\<rparr>)"

text \<open>Where \<open>#sendMessage\<close> puts a message.  A serialization that is undefined goes out as text.\<close>

definition ws_payload :: "client_env \<Rightarrow> jsval \<Rightarrow> output_data option" where
  "ws_payload ce message =
     (case serializeWithEncoding (ce_codec ce) (ce_encoding ce) message (ce_toServer ce) of
        Inl e \<Rightarrow> None
      | Inr None \<Rightarrow> Some (OStr ''undefined'')
      | Inr (Some d) \<Rightarrow> Some d)"

definition enqueue_message :: "jsval \<Rightarrow> bool \<Rightarrow> client_conn \<Rightarrow> client_conn" where
  "enqueue_message message ephemeral c =
     (if ephemeral then c else c\<lparr>cc_messageQueue := cc_messageQueue c @ [message]\<rparr>)"

definition post_message :: "client_env \<Rightarrow> jsval \<Rightarrow> bool \<Rightarrow> client_conn \<Rightarrow> client_conn" where
  "post_message ce message ephemeral c =
     (case cc_transport c of
        None \<Rightarrow> enqueue_message message ephemeral c
      | Some (WsTransport, readyState) \<Rightarrow>
          (if readyState = 1 then
             (case ws_payload ce message of
                Some d \<Rightarrow> cemit [SocketSend d]
                  (c\<lparr>cc_sent := cc_sent c @ (if ephemeral then [] else [message])\<rparr>)
              | None \<Rightarrow> enqueue_message message ephemeral c)
           else enqueue_message message ephemeral c)
      | Some (SseTransport, readyState) \<Rightarrow>
          (if readyState = 1 then sendHttpMessage message ephemeral c
           else enqueue_message message ephemeral c))"

definition send_client :: "client_env \<Rightarrow> jsval \<Rightarrow> bool \<Rightarrow> client_conn \<Rightarrow> js_err option \<times> client_conn" where
  "send_client ce message ephemeral c =
     (if cc_disposed c then (Some ActorConnDisposed, c)
      else (None, post_message ce message ephemeral c))"

definition sendSubscription :: "client_env \<Rightarrow> string \<Rightarrow> bool \<Rightarrow> client_conn \<Rightarrow> js_err option \<times> client_conn" where
  "sendSubscription ce eventName subscribe c = send_client ce (subscription_request eventName subscribe) True c"

section \<open>The caller's operations\<close>

text \<open>\<open>action\<close>: an error leaves the entry in \<open>#actionsInFlight\<close>.\<close>

definition client_action :: "client_env \<Rightarrow> string \<Rightarrow> jsval \<Rightarrow> client_conn \<Rightarrow> js_err option \<times> client_conn" where
  "client_action ce name args c =
     (let actionId = cc_actionIdCounter c;
          c1 = c\<lparr>cc_actionIdCounter := Suc actionId,
                 cc_actionsInFlight := jm_set actionId name (cc_actionsInFlight c)\<rparr>
      in case cd_cbor_encode (ce_codec ce) args of
           Inl e \<Rightarrow> (Some e, c1)
         | Inr b \<Rightarrow>
             (if cc_disposed c1 then (Some ActorConnDisposed, c1)
              else (None, post_message ce (action_request actionId name b) False
                     (c1\<lparr>cc_accepted := cc_accepted c1 @ [action_request actionId name b]\<rparr>))))"

text \<open>\<open>#addEventSubscription\<close>: when the connection is disposed the event stays in the map, with an
  empty set.\<close>

definition addEventSubscription ::
    "client_env \<Rightarrow> string \<Rightarrow> nat \<Rightarrow> bool \<Rightarrow> client_conn \<Rightarrow> js_err option \<times> client_conn" where
  "addEventSubscription ce eventName callback once c =
     (let listener = length (cc_listeners c);
          c1 = c\<lparr>cc_listeners := cc_listeners c @ [(callback, once)]\<rparr>
      in case jm_get (cc_eventSubscriptions c1) eventName of
           Some s \<Rightarrow> (None, c1\<lparr>cc_sets := (cc_sets c1)[s := js_add listener (cc_sets c1 ! s)]\<rparr>)
         | None \<Rightarrow>
             (let s = length (cc_sets c1)
              in case sendSubscription ce eventName True
                        (c1\<lparr>cc_sets := cc_sets c1 @ [[]],
                            cc_eventSubscriptions := jm_set eventName s (cc_eventSubscriptions c1)\<rparr>) of
                   (Some e, c2) \<Rightarrow> (Some e, c2)
                 | (None, c2) \<Rightarrow> (None, c2\<lparr>cc_sets := (cc_sets c2)[s := js_add listener (cc_sets c2 ! s)]\<rparr>)))"

text \<open>The function \<open>#addEventSubscription\<close> returns.\<close>

definition unsubscribe_listener ::
    "client_env \<Rightarrow> string \<Rightarrow> nat \<Rightarrow> client_conn \<Rightarrow> js_err option \<times> client_conn" where
  "unsubscribe_listener ce eventName listener c =
     (case jm_get (cc_eventSubscriptions c) eventName of
        None \<Rightarrow> (None, c)
      | Some s \<Rightarrow>
          (let c1 = c\<lparr>cc_sets := (cc_sets c)[s := js_remove listener (cc_sets c ! s)]\<rparr>
           in if cc_sets c1 ! s = [] then sendSubscription ce eventName False
                (c1\<lparr>cc_eventSubscriptions := jm_del eventName (cc_eventSubscriptions c1)\<rparr>)
              else (None, c1)))"

text \<open>\<open>dispose\<close>; an open socket is closed and stays the transport until its close event.\<close>

definition client_dispose :: "client_conn \<Rightarrow> client_conn" where
  "client_dispose c =
     (if cc_disposed c then c
      else
        let c1 = cemit [Aborted] (c\<lparr>cc_disposed := True\<rparr>)
        in case cc_transport c1 of
             None \<Rightarrow> c1
           | Some (WsTransport, readyState) \<Rightarrow>
               if readyState = 2 \<or> readyState = 3 then c1\<lparr>cc_transport := None\<rparr> else cemit [SocketClose] c1
           | Some (SseTransport, readyState) \<Rightarrow> cemit [StreamClose] (c1\<lparr>cc_transport := None\<rparr>))"

definition client_cmd :: "client_env \<Rightarrow> client_cmd \<Rightarrow> client_conn \<Rightarrow> js_err option \<times> client_conn" where
  "client_cmd ce cmd c =
     (case cmd of
        On ev cb once \<Rightarrow> addEventSubscription ce ev cb once c
      | Unsubscribe ev l \<Rightarrow> unsubscribe_listener ce ev l c
      | OnError h \<Rightarrow> (None, c\<lparr>cc_errorHandlers := js_add h (cc_errorHandlers c)\<rparr>)
      | OffError h \<Rightarrow> (None, c\<lparr>cc_errorHandlers := js_remove h (cc_errorHandlers c)\<rparr>)
      | Action name args \<Rightarrow> client_action ce name args c
      | Dispose \<Rightarrow> (None, client_dispose c))"

text \<open>A caller's code runs its commands; \<open>action\<close> is asynchronous, so its error does not end it.\<close>

fun client_cmds :: "client_env \<Rightarrow> client_cmd list \<Rightarrow> client_conn \<Rightarrow> js_err option \<times> client_conn" where
  "client_cmds ce [] c = (None, c)"
| "client_cmds ce (cmd # cmds) c =
     (case client_cmd ce cmd c of
        (Some e, c1) \<Rightarrow>
          (case cmd of
             Action name args \<Rightarrow> client_cmds ce cmds (cemit [CallerThrew e] c1)
           | _ \<Rightarrow> (Some e, c1))
      | (None, c1) \<Rightarrow> client_cmds ce cmds c1)"

section \<open>Connecting\<close>

definition connectWithRetry :: "client_conn \<Rightarrow> client_conn" where
  "connectWithRetry c = cemit [StartConnect] (c\<lparr>cc_connecting := True\<rparr>)"

text \<open>\<open>#connectAndWait\<close> up to the driver; the error of a second attempt beside it clears the promise
  in its \<open>finally\<close>.\<close>

definition attempt_begin :: "client_conn \<Rightarrow> client_conn" where
  "attempt_begin c =
     (if cc_open c \<noteq> None then c\<lparr>cc_open := None\<rparr>
      else cemit [DriverConnect] (c\<lparr>cc_open := Some OpenPending\<rparr>))"

text \<open>The driver has returned a socket or stream in the given ready state, or failed.\<close>

definition transport_ready :: "client_env \<Rightarrow> nat \<Rightarrow> client_conn \<Rightarrow> client_conn" where
  "transport_ready ce readyState c = c\<lparr>cc_transport := Some (ce_transport ce, readyState)\<rparr>"

definition connect_failed :: "client_conn \<Rightarrow> client_conn" where
  "connect_failed c = c\<lparr>cc_open := None\<rparr>"

text \<open>The awaited promise is settled: the attempt ends, and with it the retries when it succeeded.\<close>

definition attempt_settled :: "client_conn \<Rightarrow> client_conn" where
  "attempt_settled c =
     (case cc_open c of
        Some (OpenDone None) \<Rightarrow> c\<lparr>cc_open := None, cc_connecting := (if cc_disposed c then cc_connecting c else False)\<rparr>
      | Some (OpenDone (Some e)) \<Rightarrow> c\<lparr>cc_open := None\<rparr>
      | _ \<Rightarrow> c)"

definition settle_open :: "rejection option \<Rightarrow> client_conn \<Rightarrow> client_conn" where
  "settle_open r c =
     (case cc_open c of
        Some OpenPending \<Rightarrow>
          cemit [case r of None \<Rightarrow> OpenResolved | Some e \<Rightarrow> OpenRejected e] (c\<lparr>cc_open := Some (OpenDone r)\<rparr>)
      | _ \<Rightarrow> c)"

fun send_all_client :: "(client_conn \<Rightarrow> js_err option \<times> client_conn) list \<Rightarrow> client_conn \<Rightarrow> js_err option \<times> client_conn" where
  "send_all_client [] c = (None, c)"
| "send_all_client (f # fs) c =
     (case f c of
        (Some e, c1) \<Rightarrow> (Some e, c1)
      | (None, c1) \<Rightarrow> send_all_client fs c1)"

text \<open>\<open>#handleOnOpen\<close>\<close>

definition handleOnOpen :: "client_env \<Rightarrow> client_conn \<Rightarrow> js_err option \<times> client_conn" where
  "handleOnOpen ce c =
     (let c1 = settle_open None c
      in case send_all_client (map (\<lambda>(ev, ls). sendSubscription ce ev True) (cc_eventSubscriptions c1)) c1 of
           (Some e, c2) \<Rightarrow> (Some e, c2)
         | (None, c2) \<Rightarrow>
             send_all_client (map (\<lambda>m. send_client ce m False) (cc_messageQueue c2)) (c2\<lparr>cc_messageQueue := []\<rparr>))"

definition handleOnClose :: "client_conn \<Rightarrow> client_conn" where
  "handleOnClose c =
     (let c1 = (settle_open (Some (RejError (EError ''Error'' ''Closed''))) c)\<lparr>cc_transport := None\<rparr>
      in if \<not> cc_disposed c1 \<and> \<not> cc_connecting c1 then connectWithRetry c1 else c1)"

section \<open>Receiving\<close>

definition js_Number :: "client_env \<Rightarrow> jsval \<Rightarrow> jsnum" where
  "js_Number ce v =
     (case v of
        JBig i \<Rightarrow> Fin (of_int i)
      | JNum n \<Rightarrow> n
      | JStr s \<Rightarrow> ce_number ce s
      | JBool b \<Rightarrow> Fin (if b then 1 else 0)
      | JNull \<Rightarrow> Fin 0
      | _ \<Rightarrow> NaN)"

text \<open>\<open>#takeActionInFlight\<close>: the key of the entry, if there is one.\<close>

definition in_flight :: "jsnum \<Rightarrow> client_conn \<Rightarrow> nat option" where
  "in_flight i c =
     (case find_index (\<lambda>(k, name). Fin (of_nat k) = i) (cc_actionsInFlight c) of
        None \<Rightarrow> None
      | Some j \<Rightarrow> Some (fst (cc_actionsInFlight c ! j)))"

definition take_in_flight :: "nat \<Rightarrow> client_conn \<Rightarrow> client_conn" where
  "take_in_flight k c = c\<lparr>cc_actionsInFlight := jm_del k (cc_actionsInFlight c)\<rparr>"

definition NoInFlight :: js_err where
  "NoInFlight = EError ''Error'' ''No in flight response''"

text \<open>\<open>action\<close> after its promise resolved: the id of the response is compared with the \<open>BigInt\<close> of the
  action's own, without conversion, and the output decoded.\<close>

definition action_result :: "client_env \<Rightarrow> nat \<Rightarrow> jsval \<Rightarrow> rejection + jsval" where
  "action_result ce actionId response =
     (if obj_get response ''id'' \<noteq> JBig (int actionId) then
        Inl (RejError (EError ''Error'' (''Request ID '' @ nat_str actionId @ '' does not match response ID'')))
      else case andThen (to_Uint8Array (ce_u8 ce) (obj_get response ''output'')) (cd_cbor_decode (ce_codec ce)) of
          Inl e \<Rightarrow> Inl (RejError e)
        | Inr v \<Rightarrow> Inr v)"

definition settle_action :: "client_env \<Rightarrow> nat \<Rightarrow> jsval \<Rightarrow> client_conn \<Rightarrow> client_conn" where
  "settle_action ce k response c =
     cemit [case action_result ce k response of Inl r \<Rightarrow> ActionRejected k r | Inr v \<Rightarrow> ActionResolved k v] c"

text \<open>\<open>#dispatchEvent\<close>: a listener that throws ends the loop.  \<open>s\<close> is the set found at the start.\<close>

fun call_listeners :: "client_env \<Rightarrow> nat \<Rightarrow> jsval \<Rightarrow> nat list \<Rightarrow> client_conn \<Rightarrow> js_err option \<times> client_conn" where
  "call_listeners ce s argv [] c = (None, c)"
| "call_listeners ce s argv (l # ls) c =
     (case spread_args argv of
        Inl e \<Rightarrow> (Some e, c)
      | Inr args \<Rightarrow>
          (case client_cmds ce (fst (ce_listener ce (fst (cc_listeners c ! l)) args))
                  (cemit [CallListener l args] c) of
             (Some e, c1) \<Rightarrow> (Some e, c1)
           | (None, c1) \<Rightarrow>
               (case snd (ce_listener ce (fst (cc_listeners c ! l)) args) of
                  Some e \<Rightarrow> (Some e, c1)
                | None \<Rightarrow>
                    call_listeners ce s argv ls
                      (if snd (cc_listeners c ! l)
                       then c1\<lparr>cc_sets := (cc_sets c1)[s := js_remove l (cc_sets c1 ! s)]\<rparr> else c1))))"

definition dispatchEvent :: "client_env \<Rightarrow> jsval \<Rightarrow> client_conn \<Rightarrow> js_err option \<times> client_conn" where
  "dispatchEvent ce event c =
     (case andThen (to_Uint8Array (ce_u8 ce) (obj_get event ''args'')) (cd_cbor_decode (ce_codec ce)) of
        Inl e \<Rightarrow> (Some e, c)
      | Inr argv \<Rightarrow>
          (case (case obj_get event ''name'' of JStr name \<Rightarrow> jm_get (cc_eventSubscriptions c) name | _ \<Rightarrow> None) of
             None \<Rightarrow> (None, c)
           | Some s \<Rightarrow>
               (case call_listeners ce s argv (cc_sets c ! s) c of
                  (Some e, c1) \<Rightarrow> (Some e, c1)
                | (None, c1) \<Rightarrow>
                    (None,
                     case obj_get event ''name'' of
                       JStr name \<Rightarrow>
                         (if cc_sets c1 ! s = []
                          then c1\<lparr>cc_eventSubscriptions := jm_del name (cc_eventSubscriptions c1)\<rparr> else c1)
                     | _ \<Rightarrow> c1))))"

text \<open>\<open>#dispatchActorError\<close>: the error of a handler is logged.\<close>

fun dispatchActorError :: "client_env \<Rightarrow> rejection \<Rightarrow> nat list \<Rightarrow> client_conn \<Rightarrow> client_conn" where
  "dispatchActorError ce r [] c = c"
| "dispatchActorError ce r (h # hs) c =
     dispatchActorError ce r hs (snd (client_cmds ce (ce_errorHandler ce h r) (cemit [CallErrorHandler h r] c)))"

text \<open>The branch of \<open>#handleOnMessage\<close> for errors that name no action.\<close>

definition connection_error :: "client_env \<Rightarrow> rejection \<Rightarrow> client_conn \<Rightarrow> client_conn" where
  "connection_error ce r c =
     (let c1 = settle_open (Some r) c;
          c2 = cemit (map (\<lambda>(k, name). ActionRejected k r) (cc_actionsInFlight c1)) (c1\<lparr>cc_actionsInFlight := []\<rparr>)
      in dispatchActorError ce r (cc_errorHandlers c2) c2)"

definition handle_error :: "client_env \<Rightarrow> jsval \<Rightarrow> client_conn \<Rightarrow> js_err option \<times> client_conn" where
  "handle_error ce val c =
     (let r = RejActor (obj_get val ''code'') (obj_get val ''message'') (obj_get val ''metadata'');
          actionId = obj_get val ''actionId''
      in if truthy actionId then
           (case in_flight (js_Number ce actionId) c of
              None \<Rightarrow> (Some NoInFlight, c)
            | Some k \<Rightarrow> (None, cemit [ActionRejected k r] (take_in_flight k c)))
         else (None, connection_error ce r c))"

text \<open>\<open>#handleOnMessage\<close> on a parsed message.\<close>

definition handle_response :: "client_env \<Rightarrow> jsval \<Rightarrow> client_conn \<Rightarrow> js_err option \<times> client_conn" where
  "handle_response ce response c =
     (case andThen (read_prop response ''body'') (\<lambda>body. andThen (read_prop body ''tag'') (\<lambda>tag. Inr (body, tag))) of
        Inl e \<Rightarrow> (Some e, c)
      | Inr (body, tag) \<Rightarrow>
          (let val = obj_get body ''val''
           in if tag \<in> {JStr ''Init'', JStr ''Error'', JStr ''ActionResponse'', JStr ''Event''} \<and> nullish val
              then (Some TypeError, c)
              else if tag = JStr ''Init'' then
                handleOnOpen ce (c\<lparr>cc_actorId := obj_get val ''actorId'',
                  cc_connectionId := obj_get val ''connectionId'',
                  cc_connectionToken := obj_get val ''connectionToken''\<rparr>)
              else if tag = JStr ''Error'' then handle_error ce val c
              else if tag = JStr ''ActionResponse'' then
                (case in_flight (js_Number ce (obj_get val ''id'')) c of
                   None \<Rightarrow> (Some NoInFlight, c)
                 | Some k \<Rightarrow> (None, settle_action ce k val (take_in_flight k c)))
              else if tag = JStr ''Event'' then dispatchEvent ce val c
              else (Some (EError ''Error'' ''Unreachable case: [object Object]''), c)))"

definition parse_client_message :: "client_env \<Rightarrow> input_data \<Rightarrow> client_conn \<Rightarrow> js_err + jsval" where
  "parse_client_message ce data c =
     (case cc_transport c of
        None \<Rightarrow> Inl (invariant_error ''transport must be defined'')
      | Some (kind, readyState) \<Rightarrow>
          andThen (if encodingIsBinary (ce_encoding ce) \<and> kind = SseTransport then
                     (case data of
                        IStr s \<Rightarrow> andThen (atob s) (\<lambda>b. Inr (ITyped (of_binary_string b)))
                      | _ \<Rightarrow> Inl (EError ''Error'' ''Expected data to be a string for SSE''))
                   else Inr data) (\<lambda>d.
          andThen (inputDataToBuffer d) (\<lambda>buffer.
            deserializeWithEncoding (ce_codec ce) (ce_encoding ce) buffer (ce_toClient ce))))"

definition handleOnMessage :: "client_env \<Rightarrow> input_data \<Rightarrow> client_conn \<Rightarrow> client_conn" where
  "handleOnMessage ce data c =
     (case (case parse_client_message ce data c of
              Inl e \<Rightarrow> (Some e, c)
            | Inr response \<Rightarrow> handle_response ce response c) of
        (Some e, c1) \<Rightarrow> cemit [HandlerThrew e] c1
      | (None, c1) \<Rightarrow> c1)"

section \<open>Everything that can happen\<close>

datatype client_event =
    Caller "client_cmd list"
  | Connect
  | AttemptBegin
  | TransportReady nat
  | ConnectError
  | AttemptSettled
  | Incoming input_data
  | ReadyState nat
  | Closed
  | HttpFailed nat
  | HttpDone nat

fun client_step :: "client_env \<Rightarrow> client_event \<Rightarrow> client_conn \<Rightarrow> client_conn" where
  "client_step ce (Caller cmds) c =
     (case client_cmds ce cmds c of (Some e, c1) \<Rightarrow> cemit [CallerThrew e] c1 | (None, c1) \<Rightarrow> c1)"
| "client_step ce Connect c = connectWithRetry c"
| "client_step ce AttemptBegin c = attempt_begin c"
| "client_step ce (TransportReady s) c = transport_ready ce s c"
| "client_step ce ConnectError c = connect_failed c"
| "client_step ce AttemptSettled c = attempt_settled c"
| "client_step ce (Incoming d) c = handleOnMessage ce d c"
| "client_step ce (ReadyState s) c = c\<lparr>cc_transport := map_option (\<lambda>(k, _). (k, s)) (cc_transport c)\<rparr>"
| "client_step ce Closed c = handleOnClose c"
| "client_step ce (HttpFailed k) c = http_failed k c"
| "client_step ce (HttpDone k) c = http_done k c"

end
