(* ===== verification/ClientInv.thy ===== *)
theory ClientInv
  imports ClientConn "HOL-Library.Multiset"
begin

text \<open>
  Invariants of the client connection: the locale \<open>client_invariant\<close> proves once that every step keeps
  what the primitive changes keep.  Two interpretations: an action's promise is settled at most
  once, and no action request is lost.
\<close>

section \<open>The rule\<close>

text \<open>The actions whose promises the effects settle.\<close>

fun settles :: "client_effect \<Rightarrow> nat list" where
  "settles (ActionResolved k v) = [k]"
| "settles (ActionRejected k r) = [k]"
| "settles _ = []"

definition settled_ids :: "client_effect list \<Rightarrow> nat list" where
  "settled_ids es = concat (map settles es)"

lemma settled_ids_simps [simp]:
  "settled_ids [] = []" "settled_ids (e # es) = settles e @ settled_ids es"
  "settled_ids (es @ es') = settled_ids es @ settled_ids es'"
  by (simp_all add: settled_ids_def)

lemma settled_ids_all [simp]: "settled_ids (map (\<lambda>(k, name). ActionRejected k r) m) = map fst m"
  by (induction m) (auto simp: settled_ids_def)

locale client_invariant =
  fixes ce :: client_env and I :: "client_conn \<Rightarrow> bool"
  assumes emit_I: "I c \<Longrightarrow> settled_ids es = [] \<Longrightarrow> I (cemit es c)"
    and post_I: "I c \<Longrightarrow> I (post_message ce mess True c)"
    and action_I: "I c \<Longrightarrow> I (snd (client_action ce name args c))"
    and listeners_I: "I c \<Longrightarrow> I (c\<lparr>cc_listeners := ls\<rparr>)"
    and sets_I: "I c \<Longrightarrow> I (c\<lparr>cc_sets := ss\<rparr>)"
    and subs_I: "I c \<Longrightarrow> I (c\<lparr>cc_eventSubscriptions := m\<rparr>)"
    and handlers_I: "I c \<Longrightarrow> I (c\<lparr>cc_errorHandlers := hs\<rparr>)"
    and disposed_I: "I c \<Longrightarrow> I (c\<lparr>cc_disposed := True\<rparr>)"
    and transport_I: "I c \<Longrightarrow> I (c\<lparr>cc_transport := t\<rparr>)"
    and connecting_I: "I c \<Longrightarrow> I (c\<lparr>cc_connecting := b\<rparr>)"
    and open_I: "I c \<Longrightarrow> I (c\<lparr>cc_open := op\<rparr>)"
    and ids_I: "I c \<Longrightarrow> I (c\<lparr>cc_actorId := x, cc_connectionId := y, cc_connectionToken := z\<rparr>)"
    and settle_I: "I c \<Longrightarrow> k \<in> fst ` set (cc_actionsInFlight c) \<Longrightarrow> settled_ids es = [k] \<Longrightarrow>
      I (cemit es (take_in_flight k c))"
    and reject_all_I: "I c \<Longrightarrow> settled_ids es = map fst (cc_actionsInFlight c) \<Longrightarrow>
      I (cemit es (c\<lparr>cc_actionsInFlight := []\<rparr>))"
    and flush_I: "I c \<Longrightarrow>
      I (snd (send_all_client (map (\<lambda>m. send_client ce m False) (cc_messageQueue c)) (c\<lparr>cc_messageQueue := []\<rparr>)))"
    and http_failed_I: "I c \<Longrightarrow> I (http_failed k c)"
    and http_done_I: "I c \<Longrightarrow> I (http_done k c)"
begin

lemma sendSubscription_I: "I c \<Longrightarrow> I (snd (sendSubscription ce ev b c))"
  by (simp add: sendSubscription_def send_client_def post_I)

lemma addEventSubscription_I: "I c \<Longrightarrow> I (snd (addEventSubscription ce ev cb once c))"
proof -
  assume "I c"
  then have "I (snd (sendSubscription ce ev True (c\<lparr>cc_listeners := ls, cc_sets := ss, cc_eventSubscriptions := m\<rparr>)))" for ls ss m
    by (intro sendSubscription_I subs_I sets_I listeners_I)
  then show ?thesis
    using \<open>I c\<close> by (auto simp: addEventSubscription_def Let_def intro!: sets_I listeners_I split: option.split prod.split)
      (metis snd_conv sets_I)+
qed

lemma unsubscribe_I: "I c \<Longrightarrow> I (snd (unsubscribe_listener ce ev l c))"
  by (auto simp: unsubscribe_listener_def Let_def intro!: sendSubscription_I subs_I sets_I split: option.split)

lemma dispose_I: "I c \<Longrightarrow> I (client_dispose c)"
  by (auto simp: client_dispose_def Let_def intro!: transport_I emit_I disposed_I
      split: option.split transport_kind.split)

lemma client_cmd_I: "I c \<Longrightarrow> I (snd (client_cmd ce cmd c))"
  by (cases cmd) (auto simp: client_cmd_def intro: addEventSubscription_I unsubscribe_I handlers_I action_I dispose_I)

lemma client_cmds_I: "I c \<Longrightarrow> I (snd (client_cmds ce cmds c))"
proof (induction cmds arbitrary: c)
  case Nil
  then show ?case by simp
next
  case (Cons cmd cmds)
  obtain e c1 where eq: "client_cmd ce cmd c = (e, c1)" by fastforce
  then have "I c1" using client_cmd_I [OF Cons.prems, of cmd] by simp
  then show ?case using eq by (cases e) (auto intro!: Cons.IH emit_I split: client_cmd.split)
qed

lemma connect_I: "I c \<Longrightarrow> I (connectWithRetry c)"
  by (auto simp: connectWithRetry_def intro!: emit_I connecting_I)

lemma settle_open_I: "I c \<Longrightarrow> I (settle_open r c)"
  by (auto simp: settle_open_def intro!: emit_I open_I split: option.split open_promise.split)

lemma send_subs_I: "I c \<Longrightarrow> I (snd (send_all_client (map (\<lambda>(ev, s). sendSubscription ce ev True) m) c))"
proof (induction m arbitrary: c)
  case Nil
  then show ?case by simp
next
  case (Cons a m)
  obtain e c1 where eq: "sendSubscription ce (fst a) True c = (e, c1)" by fastforce
  then have "I c1" using sendSubscription_I [OF Cons.prems, of "fst a" True] by simp
  then show ?case using Cons.IH eq by (cases e) (simp_all add: case_prod_beta)
qed

lemma handleOnOpen_I: "I c \<Longrightarrow> I (snd (handleOnOpen ce c))"
proof -
  assume "I c"
  then have "I (snd (send_all_client (map (\<lambda>(ev, s). sendSubscription ce ev True)
      (cc_eventSubscriptions (settle_open None c))) (settle_open None c)))"
    by (intro send_subs_I settle_open_I)
  then show ?thesis
    by (auto simp: handleOnOpen_def Let_def split: prod.split option.split intro!: flush_I)
qed

lemma handleOnClose_I: "I c \<Longrightarrow> I (handleOnClose c)"
  by (auto simp: handleOnClose_def Let_def intro!: connect_I transport_I settle_open_I)

lemma in_flight_mem: "in_flight n c = Some k \<Longrightarrow> k \<in> fst ` set (cc_actionsInFlight c)"
  by (auto simp: in_flight_def dest!: find_index_SomeD split: option.splits)
    (metis fst_conv imageI nth_mem)

lemma call_listeners_I: "I c \<Longrightarrow> I (snd (call_listeners ce s argv ls c))"
proof (induction ls arbitrary: c)
  case Nil
  then show ?case by simp
next
  case (Cons l ls)
  have "I (snd (client_cmds ce cmds (cemit [CallListener l args] c)))" for cmds args
    by (intro client_cmds_I emit_I Cons.prems) simp
  then have h: "client_cmds ce cmds (cemit [CallListener l args] c) = (x, c1) \<Longrightarrow> I c1" for cmds args x c1
    by (metis snd_conv)
  show ?case using Cons.prems
    by (auto dest: h intro!: Cons.IH sets_I split: sum.split prod.split option.split)
qed

lemma dispatchEvent_I: "I c \<Longrightarrow> I (snd (dispatchEvent ce ev c))"
proof -
  assume "I c"
  then have "call_listeners ce s argv ls c = (x, c1) \<Longrightarrow> I c1" for s argv ls x c1
    using call_listeners_I [of c s argv ls] by simp
  then show ?thesis using \<open>I c\<close>
    by (auto simp: dispatchEvent_def intro!: subs_I split: sum.split option.split prod.split jsval.split)
qed

lemma dispatchActorError_I: "I c \<Longrightarrow> I (dispatchActorError ce r hs c)"
proof (induction hs arbitrary: c)
  case Nil
  then show ?case by simp
next
  case (Cons h hs)
  then show ?case by (simp add: Cons.IH client_cmds_I emit_I)
qed

lemma handle_error_I: "I c \<Longrightarrow> I (snd (handle_error ce val c))"
proof -
  assume "I c"
  then have "I (connection_error ce r c)" for r
    unfolding connection_error_def Let_def
    by (intro dispatchActorError_I reject_all_I settle_open_I) simp_all
  then show ?thesis using \<open>I c\<close>
    by (auto simp: handle_error_def Let_def intro!: settle_I in_flight_mem split: option.split)
qed

lemma handle_response_I: "I c \<Longrightarrow> I (snd (handle_response ce m c))"
proof -
  assume "I c"
  then have "I (settle_action ce k val (take_in_flight k c))" if "in_flight n c = Some k" for n k val
    using that unfolding settle_action_def
    by (intro settle_I in_flight_mem) (auto split: sum.split)
  then show ?thesis using \<open>I c\<close>
    by (auto simp: handle_response_def Let_def split: sum.split option.split
        intro!: handleOnOpen_I ids_I handle_error_I dispatchEvent_I)
qed

lemma step_I: "I c \<Longrightarrow> I (client_step ce e c)"
proof (cases e)
  case (Caller cmds)
  assume "I c"
  then show ?thesis using Caller client_cmds_I [OF \<open>I c\<close>, of cmds]
    by (auto intro!: emit_I split: prod.split option.split)
next
  case (Incoming d)
  assume "I c"
  then have "handle_response ce m c = (x, c1) \<Longrightarrow> I c1" for m x c1
    using handle_response_I [of c m] by simp
  then show ?thesis using Incoming \<open>I c\<close>
    by (auto simp: handleOnMessage_def intro!: emit_I split: prod.split option.split sum.split)
qed (auto simp: attempt_begin_def transport_ready_def connect_failed_def attempt_settled_def
    intro!: connect_I open_I emit_I transport_I connecting_I handleOnClose_I http_failed_I http_done_I
    split: option.split open_promise.split)

lemma run_I: "I c \<Longrightarrow> I (fold (client_step ce) es c)"
  by (induction es arbitrary: c) (auto intro: step_I)

end

lemma keys_jm_del: "set (jm_del k m) \<subseteq> set m"
  by (auto simp: AList.delete_eq)

section \<open>Promises of actions\<close>

definition act_view where
  "act_view c = (cc_actionsInFlight c, cc_actionIdCounter c, settled_ids (cc_out c))"

lemma act_view_cemit: "settled_ids es = [] \<Longrightarrow> act_view (cemit es c) = act_view c"
  by (simp add: act_view_def cemit_def)

lemma act_view_fields [simp]:
  "act_view (c\<lparr>cc_sent := l\<rparr>) = act_view c" "act_view (c\<lparr>cc_messageQueue := l\<rparr>) = act_view c"
  "act_view (c\<lparr>cc_http := h\<rparr>) = act_view c" "act_view (c\<lparr>cc_nextHttp := n\<rparr>) = act_view c"
  "act_view (c\<lparr>cc_accepted := l\<rparr>) = act_view c"
  by (simp_all add: act_view_def)

lemma act_view_post [simp]: "act_view (post_message ce m e c) = act_view c"
  by (simp add: post_message_def enqueue_message_def sendHttpMessage_def requeue_def act_view_cemit
      split: option.split transport_kind.split prod.split)

lemma act_view_send_all [simp]:
  "act_view (snd (send_all_client (map (\<lambda>m. send_client ce m e) ms) c)) = act_view c"
  by (induction ms arbitrary: c) (simp_all add: send_client_def)

lemma act_view_http [simp]: "act_view (http_failed k c) = act_view c" "act_view (http_done k c) = act_view c"
  by (auto simp: http_failed_def http_done_def requeue_def split: option.split)

text \<open>An entry in flight or a settled promise belongs to an action that was started, no promise is
  settled twice, and none that is settled is still in flight.\<close>

definition act_inv :: "client_conn \<Rightarrow> bool" where
  "act_inv c =
     (case act_view c of
        (flight, n, settled) \<Rightarrow>
          distinct (map fst flight @ settled) \<and> (\<forall>k \<in> set (map fst flight @ settled). k < n))"

lemma act_inv_cong: "act_view c = act_view d \<Longrightarrow> act_inv c = act_inv d"
  by (simp add: act_inv_def)

lemma jm_del_keys: "map fst (jm_del k m) = filter (\<lambda>x. x \<noteq> k) (map fst m)"
  by (induction m) auto

lemma act_inv_start:
  assumes "act_inv c"
  shows "act_inv (c\<lparr>cc_actionIdCounter := Suc (cc_actionIdCounter c),
    cc_actionsInFlight := jm_set (cc_actionIdCounter c) name (cc_actionsInFlight c)\<rparr>)"
proof -
  have "cc_actionIdCounter c \<notin> fst ` set (cc_actionsInFlight c)" "cc_actionIdCounter c \<notin> set (settled_ids (cc_out c))"
    using assms by (force simp: act_inv_def act_view_def)+
  then show ?thesis
    using assms by (auto simp: act_inv_def act_view_def jm_set_new less_Suc_eq)
qed

interpretation acts: client_invariant ce act_inv for ce
proof (unfold_locales, goal_cases)
  case (1 c es)
  then show ?case by (simp add: act_inv_cong [OF act_view_cemit])
next
  case (2 c m)
  then show ?case by (simp add: act_inv_def)
next
  case (3 c name args)
  note act_inv_start [OF 3, of name]
  then show ?case
    by (simp add: client_action_def Let_def split: sum.split) (simp add: act_inv_def)
next
  case (13 c k es)
  then show ?case
    by (auto simp: act_inv_def act_view_def cemit_def take_in_flight_def jm_del_keys)
next
  case (15 c)
  then show ?case by (simp add: act_inv_def)
next
  case (16 c k)
  then show ?case by (simp add: act_inv_def)
next
  case (17 c k)
  then show ?case by (simp add: act_inv_def)
qed (auto simp: act_inv_def act_view_def cemit_def)


section \<open>Messages\<close>

text \<open>The messages in HTTP requests that are to be queued again when they fail.\<close>

definition http_messages :: "(nat \<times> (jsval \<times> bool)) list \<Rightarrow> jsval list" where
  "http_messages h = map (fst \<circ> snd) (filter (\<lambda>(k, m, ephemeral). \<not> ephemeral) h)"

definition on_way :: "client_conn \<Rightarrow> jsval multiset" where
  "on_way c = mset (cc_messageQueue c) + mset (cc_sent c) + mset (http_messages (cc_http c))"

definition http_ok :: "client_conn \<Rightarrow> bool" where
  "http_ok c = (distinct (map fst (cc_http c)) \<and> (\<forall>k \<in> set (map fst (cc_http c)). k < cc_nextHttp c))"

definition msg_inv :: "client_conn \<Rightarrow> bool" where
  "msg_inv c =
     (http_ok c \<and> (\<not> cc_disposed c \<longrightarrow> mset (cc_accepted c) = on_way c))"

lemma http_messages_simps [simp]:
  "http_messages [] = []"
  "http_messages (h @ [(k, m, e)]) = http_messages h @ (if e then [] else [m])"
  by (simp_all add: http_messages_def)

lemma jm_del_absent: "k \<notin> fst ` set m \<Longrightarrow> jm_del k m = m"
  by (induction m) auto

lemma http_messages_del:
  "distinct (map fst h) \<Longrightarrow> jm_get h k = Some (m, e) \<Longrightarrow>
     mset (http_messages h) = mset (http_messages (jm_del k h)) + (if e then {#} else {#m#})"
proof (induction h)
  case Nil
  then show ?case by simp
next
  case (Cons x h)
  obtain k' m' e' where x: "x = (k', m', e')" by (cases x) auto
  show ?case
  proof (cases "k' = k")
    case True
    then show ?thesis using Cons.prems x by (simp add: http_messages_def jm_del_absent)
  next
    case False
    then show ?thesis using Cons x by (auto simp: http_messages_def)
  qed
qed

lemma post_disposed [simp]: "cc_disposed (post_message ce m e c) = cc_disposed c"
  "cc_accepted (post_message ce m e c) = cc_accepted c"
  by (simp_all add: post_message_def enqueue_message_def sendHttpMessage_def requeue_def cemit_def
      split: option.split transport_kind.split prod.split)

lemma post_on_way:
  "on_way (post_message ce m e c) = on_way c + (if e then {#} else {#m#})"
  by (auto simp: post_message_def enqueue_message_def sendHttpMessage_def requeue_def cemit_def on_way_def
      split: option.split transport_kind.split prod.split)

lemma post_http: "http_ok c \<Longrightarrow> http_ok (post_message ce m e c)"
  by (auto simp: http_ok_def post_message_def enqueue_message_def sendHttpMessage_def requeue_def cemit_def
      less_Suc_eq split: option.split transport_kind.split prod.split)

lemma msg_inv_post: "msg_inv c \<Longrightarrow> msg_inv (post_message ce m True c)"
  by (simp add: msg_inv_def post_on_way post_http)

lemma msg_inv_accept:
  assumes "msg_inv c"
  shows "msg_inv (post_message ce m False (c\<lparr>cc_accepted := cc_accepted c @ [m]\<rparr>))"
proof -
  let ?c = "c\<lparr>cc_accepted := cc_accepted c @ [m]\<rparr>"
  have "http_ok ?c" "on_way ?c = on_way c" using assms by (simp_all add: msg_inv_def http_ok_def on_way_def)
  then show ?thesis using assms by (simp add: msg_inv_def post_http post_on_way)
qed

text \<open>Flushing the queue: every message of it is posted once.\<close>

lemma flush_posts:
  assumes "\<not> cc_disposed c" and "http_ok c"
    and "d = snd (send_all_client (map (\<lambda>m. send_client ce m False) ms) c)"
  shows "on_way d = on_way c + mset ms \<and> cc_accepted d = cc_accepted c \<and> \<not> cc_disposed d \<and> http_ok d"
  using assms
proof (induction ms arbitrary: c)
  case Nil
  then show ?case by simp
next
  case (Cons m ms)
  let ?c = "post_message ce m False c"
  have "send_client ce m False c = (None, ?c)" using Cons.prems(1) by (simp add: send_client_def)
  then have "d = snd (send_all_client (map (\<lambda>m. send_client ce m False) ms) ?c)"
    using Cons.prems(3) by simp
  with Cons.IH [of ?c] post_http [OF Cons.prems(2)] Cons.prems(1) show ?case
    by (simp add: post_on_way)
qed

lemma flush_disposed:
  "cc_disposed c \<Longrightarrow> snd (send_all_client (map (\<lambda>m. send_client ce m False) ms) c) = c"
  by (cases ms) (simp_all add: send_client_def)

lemma msg_inv_flush:
  assumes i: "msg_inv c"
  shows "msg_inv (snd (send_all_client (map (\<lambda>m. send_client ce m False) (cc_messageQueue c))
    (c\<lparr>cc_messageQueue := []\<rparr>)))"
proof -
  let ?c = "c\<lparr>cc_messageQueue := []\<rparr>"
  let ?d = "snd (send_all_client (map (\<lambda>m. send_client ce m False) (cc_messageQueue c)) ?c)"
  have ok: "http_ok ?c" "on_way c = on_way ?c + mset (cc_messageQueue c)"
    using i by (simp_all add: msg_inv_def http_ok_def on_way_def)
  show ?thesis
  proof (cases "cc_disposed c")
    case True
    then show ?thesis using ok(1) by (simp add: flush_disposed msg_inv_def)
  next
    case False
    then have "on_way ?d = on_way c" "cc_accepted ?d = cc_accepted c" "\<not> cc_disposed ?d" "http_ok ?d"
      using flush_posts [OF _ ok(1) refl, of ce "cc_messageQueue c"] ok(2) by simp_all
    then show ?thesis using i False by (simp add: msg_inv_def)
  qed
qed

lemma msg_inv_http:
  assumes i: "msg_inv c"
  shows "msg_inv (http_failed k c) \<and> msg_inv (http_done k c)"
proof -
  show ?thesis
  proof (cases "jm_get (cc_http c) k")
    case None
    then show ?thesis using i by (simp add: http_failed_def http_done_def)
  next
    case (Some me)
    obtain m e where me: "me = (m, e)" by (cases me)
    have ok: "distinct (map fst (cc_http c))" "\<forall>x \<in> set (map fst (cc_http c)). x < cc_nextHttp c"
      using i by (simp_all add: msg_inv_def http_ok_def)
    have "mset (http_messages (cc_http c)) = mset (http_messages (jm_del k (cc_http c))) + (if e then {#} else {#m#})"
      using http_messages_del [OF ok(1)] Some me by blast
    moreover have "distinct (map fst (jm_del k (cc_http c)))" "\<forall>x \<in> set (jm_del k (cc_http c)). fst x < cc_nextHttp c"
      "\<forall>x \<in> fst ` set (cc_http c) - {k}. x < cc_nextHttp c"
      using ok keys_jm_del [of k "cc_http c"] by (auto simp: jm_del_keys)
    then have "http_ok (requeue m e (c\<lparr>cc_http := jm_del k (cc_http c)\<rparr>))"
      "http_ok (c\<lparr>cc_http := jm_del k (cc_http c), cc_sent := s\<rparr>)" for s
      by (simp_all add: http_ok_def requeue_def)
    ultimately show ?thesis
      using i Some me
      by (simp add: msg_inv_def http_failed_def http_done_def on_way_def) (simp add: requeue_def)
  qed
qed

interpretation msgs: client_invariant ce msg_inv for ce
proof (unfold_locales, goal_cases)
  case (2 c m)
  then show ?case by (rule msg_inv_post)
next
  case (3 c name args)
  have i: "msg_inv (c\<lparr>cc_actionIdCounter := n, cc_actionsInFlight := f\<rparr>)" for n f
    using 3 by (simp add: msg_inv_def on_way_def http_ok_def)
  show ?case
    using i msg_inv_accept [OF i] by (simp add: client_action_def Let_def split: sum.split)
next
  case (15 c)
  then show ?case by (rule msg_inv_flush)
next
  case (16 c k)
  then show ?case by (simp add: msg_inv_http)
next
  case (17 c k)
  then show ?case by (simp add: msg_inv_http)
qed (simp_all add: msg_inv_def on_way_def http_ok_def cemit_def take_in_flight_def)

text \<open>
  C30.  No action request is lost or doubled: until the connection is disposed, the requests accepted
  by \<open>action\<close> are, as multisets, those handed to a transport, those waiting in the queue, and those in
  HTTP requests under way.
\<close>

theorem action_requests_conserved:
  "let c = fold (client_step ce) es new_client_conn
   in cc_disposed c
      \<or> mset (cc_accepted c) = mset (cc_sent c) + mset (cc_messageQueue c) + mset (http_messages (cc_http c))"
proof -
  have "msg_inv new_client_conn" by (simp add: msg_inv_def on_way_def http_ok_def new_client_conn_def)
  then have "msg_inv (fold (client_step ce) es new_client_conn)" by (rule msgs.run_I)
  then show ?thesis by (auto simp: msg_inv_def on_way_def Let_def)
qed

end
