(* ===== verification/ClientProps.thy ===== *)
theory ClientProps
  imports ClientInv
begin

text \<open>
  What the client connection does when it opens, with responses, with errors and with events.
\<close>

section \<open>Opening\<close>

lemma post_open_socket:
  assumes "cc_transport c = Some (WsTransport, 1)" and "ws_payload ce m = Some d"
  shows "post_message ce m e c = cemit [SocketSend d] (c\<lparr>cc_sent := cc_sent c @ (if e then [] else [m])\<rparr>)"
  using assms by (simp add: post_message_def)

lemma send_open_socket:
  assumes "cc_transport c = Some (WsTransport, 1)" and "\<not> cc_disposed c"
    and "list_all2 (\<lambda>m d. ws_payload ce m = Some d) ms ds"
  shows "send_all_client (map (\<lambda>m. send_client ce m e) ms) c =
    (None, cemit (map SocketSend ds) (c\<lparr>cc_sent := cc_sent c @ (if e then [] else ms)\<rparr>))"
  using assms(3,1,2)
proof (induction ms ds arbitrary: c rule: list_all2_induct)
  case Nil
  then show ?case by (simp add: cemit_def)
next
  case (Cons m ms d ds)
  let ?c = "cemit [SocketSend d] (c\<lparr>cc_sent := cc_sent c @ (if e then [] else [m])\<rparr>)"
  have "send_client ce m e c = (None, ?c)"
    using Cons by (simp add: send_client_def post_open_socket)
  moreover have "cc_transport ?c = Some (WsTransport, 1)" "\<not> cc_disposed ?c"
    using Cons.prems by (simp_all add: cemit_def)
  ultimately show ?case using Cons.IH [of ?c] by (simp add: cemit_def)
qed


text \<open>An environment for examples: a text for every message, and one event listener that does
  nothing.\<close>

definition quiet_env :: client_env where
  "quiet_env = \<lparr>ce_codec = tiny_codec, ce_encoding = Json, ce_transport = WsTransport,
     ce_toServer = \<lparr>vd_currentVersion = 1, vd_migrations = [], vd_serializeVersion = (\<lambda>_. Inr []),
       vd_deserializeVersion = (\<lambda>_. Inr JUndef)\<rparr>,
     ce_toClient = \<lparr>vd_currentVersion = 1, vd_migrations = [], vd_serializeVersion = (\<lambda>_. Inr []),
       vd_deserializeVersion = (\<lambda>_. Inr JUndef)\<rparr>,
     ce_u8 = (\<lambda>_. Inr []), ce_number = (\<lambda>s. if s = ''0'' then Fin 0 else NaN),
     ce_listener = (\<lambda>cb args. ([], None)), ce_errorHandler = (\<lambda>h r. [])\<rparr>"

lemma quiet_payload: "ws_payload quiet_env (subscription_request ev b) = Some (OStr [])"
  by (simp add: ws_payload_def quiet_env_def serializeWithEncoding_def jsonStringifyCompat_def
      subscription_request_def msg_def json_view_obj json_view.simps [of _ "JBool b"] tiny_codec_def
      json_view.simps [of _ "JStr _"])

definition open_conn :: client_conn where
  "open_conn = new_client_conn\<lparr>cc_transport := Some (WsTransport, 1), cc_open := Some OpenPending,
     cc_eventSubscriptions := [(''tick'', 0)], cc_sets := [[0]], cc_listeners := [(7, True)]\<rparr>"


section \<open>Responses with the JSON encoding\<close>

lemma of_json_cases [simp]:
  "of_json JsNull = JNull" "of_json (JsBool b) = JBool b" "of_json (JsNum q) = JNum (Fin q)"
  "of_json (JsStr s) = JStr s" "of_json (JsArr xs) = JArr (map of_json xs)"
  "of_json (JsObj kvs) = JObj (map (\<lambda>(k, x). (k, of_json x)) kvs)"
  by (simp_all add: of_json.simps)

definition from_json :: "jsval \<Rightarrow> bool" where
  "from_json v = (v = JUndef \<or> (\<exists>j. v = of_json j))"

lemma from_json_get: "from_json v \<Longrightarrow> from_json (obj_get v k)"
proof -
  have "from_json (obj_get (of_json j) k)" for j
  proof (cases j)
    case (JsObj kvs)
    have "map_of (map (\<lambda>(k, x). (k, of_json x)) kvs) k = map_option of_json (map_of kvs k)"
      by (induction kvs) auto
    then show ?thesis using JsObj by (auto simp: from_json_def split: option.split)
  qed (auto simp: from_json_def)
  then show "from_json v \<Longrightarrow> ?thesis" by (auto simp: from_json_def)
qed

lemma from_json_not_big: "from_json v \<Longrightarrow> v \<noteq> JBig i"
proof -
  have n: "of_json j \<noteq> JBig i" for j by (cases j) simp_all
  show "from_json v \<Longrightarrow> ?thesis" using n by (force simp: from_json_def)
qed

lemma parsed_from_json:
  assumes "ce_encoding ce = Json" and "parse_client_message ce d c = Inr response"
  shows "from_json response"
proof -
  obtain buffer where "deserializeWithEncoding (ce_codec ce) Json buffer (ce_toClient ce) = Inr response"
    using assms by (auto simp: parse_client_message_def encodingIsBinary_def andThen_Inr split: option.splits)
  then show ?thesis
    by (cases buffer) (auto simp: deserializeWithEncoding_def from_json_def split: sum.splits)
qed

text \<open>
  With the JSON encoding no action of a connection succeeds: \<open>jsonStringifyCompat\<close> writes the
  \<open>bigint\<close> id as text and \<open>JSON.parse\<close> does not turn it back, so the response finds its action in
  flight and then fails the comparison with \<open>BigInt(actionId)\<close>, and the action is rejected.
\<close>

theorem json_actions_rejected:
  assumes "ce_encoding ce = Json" and "parse_client_message ce d c = Inr response"
    and "obj_get response ''body'' = body" and "obj_get body ''tag'' = JStr ''ActionResponse''"
    and "in_flight (js_Number ce (obj_get (obj_get body ''val'') ''id'')) c = Some k"
    and "\<not> nullish (obj_get body ''val'')"
  shows "\<exists>e. handleOnMessage ce d c = cemit [ActionRejected k (RejError e)] (take_in_flight k c)"
proof -
  have "from_json (obj_get (obj_get body ''val'') ''id'')"
    using parsed_from_json [OF assms(1,2)] assms(3) by (auto intro: from_json_get)
  then have "obj_get (obj_get body ''val'') ''id'' \<noteq> JBig (int k)" by (rule from_json_not_big)
  moreover have "\<not> nullish response" "\<not> nullish body"
    using assms(3,4) by (auto simp: nullish_def)
  ultimately show ?thesis
    using assms by (auto simp: handleOnMessage_def handle_response_def read_prop_def settle_action_def
        action_result_def Let_def)
qed

text \<open>The environment in which \<open>JSON.parse\<close> knows one text: the response to action 0.\<close>

definition json_env :: client_env where
  "json_env = quiet_env\<lparr>ce_codec := tiny_codec\<lparr>cd_json_parse := (\<lambda>s. Inr (JsObj [(''body'',
     JsObj [(''tag'', JsStr ''ActionResponse''),
            (''val'', JsObj [(''id'', JsStr ''0''), (''output'', JsObj [])])])]))\<rparr>\<rparr>"

theorem json_actions_rejected_witness:
  "\<exists>e. handleOnMessage json_env (IStr ''r'') (open_conn\<lparr>cc_actionsInFlight := [(0, ''inc'')]\<rparr>)
     = cemit [ActionRejected 0 (RejError e)]
         (take_in_flight 0 (open_conn\<lparr>cc_actionsInFlight := [(0, ''inc'')]\<rparr>))"
  by (rule json_actions_rejected [of json_env _ _ "of_json (JsObj [(''body'',
        JsObj [(''tag'', JsStr ''ActionResponse''),
          (''val'', JsObj [(''id'', JsStr ''0''), (''output'', JsObj [])])])])", OF _ _ refl])
    (simp_all add: json_env_def quiet_env_def parse_client_message_def open_conn_def new_client_conn_def
      encodingIsBinary_def inputDataToBuffer_def deserializeWithEncoding_def
      in_flight_def js_Number_def nullish_def)

section \<open>Errors\<close>

text \<open>
  An error response that names action 0 is taken for a connection error: \<open>0n\<close> is falsy, so every
  action in flight is rejected with the error of the first one, and the error handlers are called.
\<close>

theorem first_action_error_hits_all:
  assumes "obj_get val ''actionId'' = JBig 0"
    and "\<forall>h r. ce_errorHandler ce h r = []"
  shows "fst (handle_error ce val c) = None
    \<and> cc_actionsInFlight (snd (handle_error ce val c)) = []
    \<and> (\<forall>k \<in> fst ` set (cc_actionsInFlight c).
         ActionRejected k (RejActor (obj_get val ''code'') (obj_get val ''message'') (obj_get val ''metadata''))
           \<in> set (cc_out (snd (handle_error ce val c))))"
proof -
  have d: "cc_actionsInFlight (dispatchActorError ce r hs c) = cc_actionsInFlight c
      \<and> set (cc_out c) \<subseteq> set (cc_out (dispatchActorError ce r hs c))" for r hs c
  proof (induction hs arbitrary: c)
    case Nil
    then show ?case by simp
  next
    case (Cons h hs)
    then show ?case using assms(2) Cons.IH [of "cemit [CallErrorHandler h r] c"] by (auto simp: cemit_def)
  qed
  let ?r = "RejActor (obj_get val ''code'') (obj_get val ''message'') (obj_get val ''metadata'')"
  let ?c1 = "settle_open (Some ?r) c"
  let ?c2 = "cemit (map (\<lambda>(k, name). ActionRejected k ?r) (cc_actionsInFlight ?c1)) (?c1\<lparr>cc_actionsInFlight := []\<rparr>)"
  have "cc_actionsInFlight ?c1 = cc_actionsInFlight c"
    by (simp add: settle_open_def cemit_def split: option.split open_promise.split)
  then have "\<forall>k \<in> fst ` set (cc_actionsInFlight c). ActionRejected k ?r \<in> set (cc_out ?c2)"
    by (force simp: cemit_def)
  then show ?thesis
    using d [of ?r "cc_errorHandlers ?c2" ?c2] assms(1)
    by (auto simp: handle_error_def connection_error_def Let_def cemit_def)
qed

theorem first_action_error_hits_all_witness:
  "cc_actionsInFlight (snd (handle_error quiet_env (JObj [(''actionId'', JBig 0)])
     (open_conn\<lparr>cc_actionsInFlight := [(0, ''a''), (1, ''b'')]\<rparr>))) = []"
  using first_action_error_hits_all [of "JObj [(''actionId'', JBig 0)]" quiet_env
      "open_conn\<lparr>cc_actionsInFlight := [(0, ''a''), (1, ''b'')]\<rparr>"]
  by (simp add: quiet_env_def)

section \<open>Events\<close>

text \<open>
  When the last listener of an event is one registered with \<open>once\<close>, dispatching the event drops
  the event from the client's map and sends nothing: the server keeps the subscription.
\<close>

theorem once_listener_not_unsubscribed:
  assumes "obj_get event ''name'' = JStr name" and "jm_get (cc_eventSubscriptions c) name = Some s"
    and "s < length (cc_sets c)" and "cc_sets c ! s = [l]" and "cc_listeners c ! l = (cb, True)"
    and "ce_listener ce cb args = ([], None)"
    and "andThen (to_Uint8Array (ce_u8 ce) (obj_get event ''args'')) (cd_cbor_decode (ce_codec ce)) = Inr (JArr args)"
  shows "fst (dispatchEvent ce event c) = None
    \<and> jm_get (cc_eventSubscriptions (snd (dispatchEvent ce event c))) name = None
    \<and> cc_out (snd (dispatchEvent ce event c)) = cc_out c @ [CallListener l args]"
  using assms by (simp add: dispatchEvent_def spread_args_def cemit_def js_remove_def)

theorem once_listener_not_unsubscribed_witness:
  "cc_out (snd (dispatchEvent (quiet_env\<lparr>ce_codec := tiny_codec\<lparr>cd_cbor_decode := (\<lambda>_. Inr (JArr []))\<rparr>\<rparr>)
     (JObj [(''name'', JStr ''tick''), (''args'', JBuffer [])]) open_conn)) = [CallListener 0 []]"
  using once_listener_not_unsubscribed [of "JObj [(''name'', JStr ''tick''), (''args'', JBuffer [])]" "''tick''"
      open_conn 0 0 7 "quiet_env\<lparr>ce_codec := tiny_codec\<lparr>cd_cbor_decode := (\<lambda>_. Inr (JArr []))\<rparr>\<rparr>" "[]"]
  by (simp add: open_conn_def new_client_conn_def quiet_env_def to_Uint8Array_def)

text \<open>A listener that unsubscribes itself and subscribes again, as the only one of its event, is
  dropped: the set it left is empty, and the entry of the new set is deleted for it.\<close>

lemma resubscribing_listener_lost:
  assumes ev: "obj_get event ''name'' = JStr name" "jm_get (cc_eventSubscriptions c) name = Some s"
    and "s < length (cc_sets c)" and "cc_sets c ! s = [l]" and "cc_listeners c ! l = (cb, False)"
    and "l < length (cc_listeners c)"
    and "ce_listener ce cb args = ([Unsubscribe name l, On name cb False], None)"
    and "andThen (to_Uint8Array (ce_u8 ce) (obj_get event ''args'')) (cd_cbor_decode (ce_codec ce)) = Inr (JArr args)"
    and "\<not> cc_disposed c"
  shows "jm_get (cc_eventSubscriptions (snd (dispatchEvent ce event c))) name = None"
proof -
  have views: "cc_eventSubscriptions (post_message ce m e d) = cc_eventSubscriptions d"
    "cc_sets (post_message ce m e d) = cc_sets d" "cc_listeners (post_message ce m e d) = cc_listeners d" for m e d
    by (simp_all add: post_message_def enqueue_message_def sendHttpMessage_def requeue_def cemit_def
        split: option.split transport_kind.split prod.split)
  show ?thesis
    using assms
    by (simp add: dispatchEvent_def spread_args_def client_cmd_def unsubscribe_listener_def
        addEventSubscription_def sendSubscription_def send_client_def Let_def js_remove_def views
        cemit_def nth_append split del: if_split)
qed

text \<open>A socket that the driver delivers after \<open>dispose\<close> becomes the transport and is never closed:
  \<open>dispose\<close> does nothing the second time.\<close>

lemma dispose_during_connect_leaks:
  assumes "cc_disposed c"
  shows "client_dispose (client_step ce (TransportReady s) c) = client_step ce (TransportReady s) c"
    and "cc_transport (client_step ce (TransportReady s) c) = Some (ce_transport ce, s)"
  using assms by (simp_all add: client_dispose_def transport_ready_def)

end
