(* ===== verification/FsState.thy ===== *)
theory FsState
  imports AsyncUtils Persisted
begin

text \<open>
  The file-system driver: \<open>FileSystemGlobalState\<close> of \<open>drivers/file-system/global-state.ts\<close>, and the actor
  and manager drivers that call it (\<open>actor.ts\<close>, \<open>manager.ts\<close>, \<open>utils.ts\<close>).  Without persistence it is
  the memory driver.

  An asynchronous call runs up to its next \<open>await\<close>; what is then awaited is an entry of \<open>fs_calls\<close>, and
  the events at the end let the calls go on in any order.  Actor instances are outside: starting,
  stopping and alarms of one are answered by events.
\<close>

section \<open>Files\<close>

record actor_file =
  af_actorId :: string
  af_name :: string
  af_key :: "string list"
  af_createdAt :: int
  af_persistedData :: bytes

record alarm_file =
  al_actorId :: string
  al_timestamp :: int

text \<open>What surrounds the driver: the coders of \<open>schemas/file-system-driver\<close>, SHA-256 as hexadecimal
  text, the names in the registry, and how an error prints.\<close>

record fs_env =
  fe_persist :: bool
  fe_stateCoder :: "actor_file version_handler"
  fe_alarmCoder :: "alarm_file version_handler"
  fe_persistCoder :: "bare_actor version_handler"
  fe_codec :: codec
  fe_sha256 :: "string \<Rightarrow> string"
  fe_use :: "string list"
  fe_text :: "js_err \<Rightarrow> string"

definition generateActorId :: "fs_env \<Rightarrow> string \<Rightarrow> string list \<Rightarrow> string" where
  "generateActorId fe name key =
     take 16 (fe_sha256 fe (cd_json_text (fe_codec fe) (JsArr [JsStr name, JsArr (map JsStr key)])))"

definition serializeEmptyPersistData :: "fs_env \<Rightarrow> jsval \<Rightarrow> js_err + bytes" where
  "serializeEmptyPersistData fe input =
     andThen (encode_defined (fe_codec fe) input) (\<lambda>inputBytes.
     andThen (cd_cbor_encode (fe_codec fe) JUndef) (\<lambda>state.
       serializeWithEmbeddedVersion (fe_persistCoder fe)
         \<lparr>ba_input = inputBytes, ba_hasInitialized = False, ba_state = state, ba_connections = [],
          ba_scheduledEvents = []\<rparr>))"

section \<open>State\<close>

text \<open>\<open>ActorEntry\<close>.  Promises are numbers: \<open>en_load\<close> and \<open>en_start\<close> index \<open>fs_loads\<close> and
  \<open>fs_starts\<close>; \<open>en_actor\<close> is the number of an instance, \<open>en_alarm\<close> of a timer.\<close>

record actor_entry =
  en_id :: string
  en_state :: "actor_file option"
  en_load :: "nat option"
  en_actor :: "nat option"
  en_start :: "nat option"
  en_alarm :: "nat option"
  en_alarmTimestamp :: "rat option"
  en_removed :: bool

datatype settled = Pending | Fulfilled | Rejected js_err

datatype fs_call =
    GetForId string
  | GetWithKey string "string list"
  | GetOrCreateWithKey string "string list" jsval
  | CreateActor string "string list" jsval
  | LoadActorState string
  | ReadPersistedData string
  | WritePersistedData string bytes
  | SetAlarm string rat
  | StartActor string
  | SleepActor string
  | AlarmTimer string
  | AlarmStart string nat

datatype fs_result =
    ActorOutput string string "string list"
  | Undefined
  | StateOf actor_file
  | Data bytes
  | Instance nat
  | OnAlarm nat
  | Void
  | Failed js_err

text \<open>What a call waits for.  Entries are referred to by their place in \<open>fs_heap\<close>, as the code's
  continuations hold on to the entry they found.\<close>

datatype fs_wait =
    AwaitLoad "nat option" nat
  | AwaitWrite string bytes nat
  | AwaitAlarmWrite bytes
  | AwaitStart nat nat
  | AwaitInstance nat nat
  | AwaitStop nat
  | AwaitUnlink

record fs =
  fs_heap :: "actor_entry list"
  fs_actors :: "(string \<times> nat) list"
  fs_disk :: "(string \<times> bytes) list"
  fs_alarmFiles :: "(string \<times> bytes) list"
  fs_runner :: bool
  fs_loads :: "(nat \<times> settled) list"
  fs_starts :: "settled list"
  fs_timers :: "(nat \<times> (nat \<times> rat)) list"
  fs_nextTimer :: nat
  fs_nextInstance :: nat
  fs_calls :: "(nat \<times> (fs_call \<times> fs_wait)) list"
  fs_nextCall :: nat
  fs_unhandled :: "js_err list"
  fs_out :: "(fs_call \<times> fs_result) list"

abbreviation entry :: "fs \<Rightarrow> nat \<Rightarrow> actor_entry" where
  "entry s r \<equiv> fs_heap s ! r"

definition upd_entry :: "nat \<Rightarrow> (actor_entry \<Rightarrow> actor_entry) \<Rightarrow> fs \<Rightarrow> fs" where
  "upd_entry r f s = s\<lparr>fs_heap := (fs_heap s)[r := f (fs_heap s ! r)]\<rparr>"

definition finish :: "fs_call \<Rightarrow> fs_result \<Rightarrow> fs \<Rightarrow> fs" where
  "finish call res s = s\<lparr>fs_out := fs_out s @ [(call, res)]\<rparr>"

definition await :: "fs_call \<Rightarrow> fs_wait \<Rightarrow> fs \<Rightarrow> fs" where
  "await call w s =
     s\<lparr>fs_calls := fs_calls s @ [(fs_nextCall s, (call, w))], fs_nextCall := Suc (fs_nextCall s)\<rparr>"

definition new_entry :: "string \<Rightarrow> actor_entry" where
  "new_entry actorId =
     \<lparr>en_id = actorId, en_state = None, en_load = None, en_actor = None, en_start = None,
      en_alarm = None, en_alarmTimestamp = None, en_removed = False\<rparr>"

definition upsertEntry :: "string \<Rightarrow> fs \<Rightarrow> nat \<times> fs" where
  "upsertEntry actorId s =
     (case jm_get (fs_actors s) actorId of
        Some r \<Rightarrow> (r, s)
      | None \<Rightarrow>
          (length (fs_heap s),
           s\<lparr>fs_heap := fs_heap s @ [new_entry actorId],
             fs_actors := jm_set actorId (length (fs_heap s)) (fs_actors s)\<rparr>))"

section \<open>Loading\<close>

text \<open>\<open>loadActor\<close>; a call with nothing left to wait for still goes on in a later turn.\<close>

definition loadActor :: "fs_env \<Rightarrow> string \<Rightarrow> fs_call \<Rightarrow> fs \<Rightarrow> fs" where
  "loadActor fe actorId call s =
     (case upsertEntry actorId s of
        (r, s1) \<Rightarrow>
          if en_state (entry s1 r) \<noteq> None then await call (AwaitLoad None r) s1
          else if \<not> fe_persist fe then await call (AwaitLoad None r) s1
          else case en_load (entry s1 r) of
              Some l \<Rightarrow> await call (AwaitLoad (Some l) r) s1
            | None \<Rightarrow>
                await call (AwaitLoad (Some (length (fs_loads s1))) r)
                  (upd_entry r (\<lambda>e. e\<lparr>en_load := Some (length (fs_loads s1))\<rparr>)
                    (s1\<lparr>fs_loads := fs_loads s1 @ [(r, Pending)]\<rparr>)))"

definition settle_load :: "nat \<Rightarrow> settled \<Rightarrow> fs \<Rightarrow> fs" where
  "settle_load l v s = s\<lparr>fs_loads := (fs_loads s)[l := (fst (fs_loads s ! l), v)]\<rparr>"

text \<open>\<open>loadActorState\<close> once the file has been read (\<open>Inr\<close>), is missing (\<open>Inr None\<close>), or cannot be
  read (\<open>Inl\<close>).  After an error \<open>loadPromise\<close> stays, rejected.\<close>

definition loadActorState :: "fs_env \<Rightarrow> nat \<Rightarrow> js_err + bytes option \<Rightarrow> fs \<Rightarrow> fs" where
  "loadActorState fe l stateData s =
     (let r = fst (fs_loads s ! l);
          failed = (\<lambda>e. settle_load l (Rejected (EError ''Error'' (''Failed to load actor state: '' @ fe_text fe e))) s)
      in case stateData of
           Inl e \<Rightarrow> failed e
         | Inr None \<Rightarrow> settle_load l Fulfilled (upd_entry r (\<lambda>e. e\<lparr>en_load := None\<rparr>) s)
         | Inr (Some bytes) \<Rightarrow>
             (case deserializeWithEmbeddedVersion (fe_stateCoder fe) bytes of
                Inl e \<Rightarrow> failed e
              | Inr st \<Rightarrow> settle_load l Fulfilled (upd_entry r (\<lambda>e. e\<lparr>en_state := Some st\<rparr>) s)))"

section \<open>Writing\<close>

text \<open>\<open>performWrite\<close>: the file is written beside and renamed into place, so it appears at once.\<close>

definition performWrite :: "fs_env \<Rightarrow> string \<Rightarrow> actor_file \<Rightarrow> fs_call \<Rightarrow> nat \<Rightarrow> fs \<Rightarrow> fs" where
  "performWrite fe actorId st call r s =
     (case serializeWithEmbeddedVersion (fe_stateCoder fe) st of
        Inl e \<Rightarrow> finish call (Failed (EError ''Error'' (''Failed to save actor state: '' @ fe_text fe e))) s
      | Inr bytes \<Rightarrow> await call (AwaitWrite actorId bytes r) s)"

text \<open>What the calls that write do after it.\<close>

definition written :: "fs_env \<Rightarrow> fs_call \<Rightarrow> nat \<Rightarrow> fs \<Rightarrow> fs" where
  "written fe call r s =
     finish call
       (case call of
          GetOrCreateWithKey name key input \<Rightarrow>
            (case en_state (entry s r) of
               Some st \<Rightarrow> ActorOutput (af_actorId st) (af_name st) (af_key st)
             | None \<Rightarrow> Failed (invariant_error ''must have state''))
        | CreateActor name key input \<Rightarrow> ActorOutput (generateActorId fe name key) name key
        | _ \<Rightarrow> Void) s"

definition writeActor :: "fs_env \<Rightarrow> string \<Rightarrow> actor_file \<Rightarrow> fs_call \<Rightarrow> nat \<Rightarrow> fs \<Rightarrow> fs" where
  "writeActor fe actorId st call r s =
     (if \<not> fe_persist fe then written fe call r s
      else case jm_get (fs_actors s) actorId of
          None \<Rightarrow> finish call (Failed (invariant_error ''actor entry does not exist'')) s
        | Some _ \<Rightarrow> performWrite fe actorId st call r s)"

definition new_state :: "fs_env \<Rightarrow> string \<Rightarrow> string \<Rightarrow> string list \<Rightarrow> jsval \<Rightarrow> int \<Rightarrow> js_err + actor_file" where
  "new_state fe actorId name key input now =
     andThen (serializeEmptyPersistData fe input) (\<lambda>bytes.
       Inr \<lparr>af_actorId = actorId, af_name = name, af_key = key, af_createdAt = now, af_persistedData = bytes\<rparr>)"

text \<open>\<open>createActor\<close>\<close>

definition createActor :: "fs_env \<Rightarrow> int \<Rightarrow> string \<Rightarrow> string list \<Rightarrow> jsval \<Rightarrow> fs \<Rightarrow> fs" where
  "createActor fe now name key input s =
     (let actorId = generateActorId fe name key;
          call = CreateActor name key input
      in if jm_has (fs_actors s) actorId then
           finish call (Failed (EActor (ActorAlreadyExists name
             (cd_json_text (fe_codec fe) (JsArr (map JsStr key)))))) s
         else case upsertEntry actorId s of
             (r, s1) \<Rightarrow>
               (case new_state fe actorId name key input now of
                  Inl e \<Rightarrow> finish call (Failed e) s1
                | Inr st \<Rightarrow> writeActor fe actorId st call r (upd_entry r (\<lambda>e. e\<lparr>en_state := Some st\<rparr>) s1)))"

text \<open>\<open>loadOrCreateActor\<close> after the load\<close>

definition loadOrCreateActor ::
    "fs_env \<Rightarrow> int \<Rightarrow> string \<Rightarrow> string list \<Rightarrow> jsval \<Rightarrow> nat \<Rightarrow> fs \<Rightarrow> fs" where
  "loadOrCreateActor fe now name key input r s =
     (let actorId = generateActorId fe name key;
          call = GetOrCreateWithKey name key input
      in case en_state (entry s r) of
           Some st \<Rightarrow> written fe call r s
         | None \<Rightarrow>
             (case new_state fe actorId name key input now of
                Inl e \<Rightarrow> finish call (Failed e) s
              | Inr st \<Rightarrow> writeActor fe actorId st call r (upd_entry r (\<lambda>e. e\<lparr>en_state := Some st\<rparr>) s)))"

section \<open>Starting and sleeping\<close>

text \<open>\<open>startActor\<close> after the load.  When the alarm timer started the actor, it goes on with the entry it
  had loaded before.\<close>

definition started :: "fs_call \<Rightarrow> nat \<Rightarrow> fs \<Rightarrow> fs" where
  "started call r s =
     finish call
       (case en_actor (entry s r) of
          None \<Rightarrow> Failed (invariant_error ''actor should have loaded'')
        | Some a \<Rightarrow>
            (case call of
               AlarmStart i r0 \<Rightarrow>
                 (case en_actor (entry s r0) of
                    None \<Rightarrow> Failed (invariant_error ''actor should be loaded after wake'')
                  | Some a0 \<Rightarrow> OnAlarm a0)
             | _ \<Rightarrow> Instance a)) s"

definition settle_start :: "nat \<Rightarrow> settled \<Rightarrow> fs \<Rightarrow> fs" where
  "settle_start p v s = s\<lparr>fs_starts := (fs_starts s)[p := v]\<rparr>"

definition start_waiters :: "nat \<Rightarrow> fs \<Rightarrow> (nat \<times> (fs_call \<times> fs_wait)) list" where
  "start_waiters p s = filter (\<lambda>(k, call, w). case w of AwaitStart p' r \<Rightarrow> p' = p | _ \<Rightarrow> False) (fs_calls s)"

text \<open>The \<open>catch\<close> of \<open>startActor\<close>; a rejected promise nobody waits for is an unhandled rejection.\<close>

definition start_failed :: "fs_env \<Rightarrow> fs_call \<Rightarrow> nat \<Rightarrow> nat \<Rightarrow> js_err \<Rightarrow> fs \<Rightarrow> fs" where
  "start_failed fe call r p innerError s =
     (let err = EError ''Error'' (''Failed to start actor '' @ en_id (entry s r) @ '': '' @ fe_text fe innerError)
      in finish call (Failed err)
           (upd_entry r (\<lambda>e. e\<lparr>en_start := None\<rparr>)
             (settle_start p (Rejected err)
               (if start_waiters p s = [] then s\<lparr>fs_unhandled := fs_unhandled s @ [err]\<rparr> else s))))"

definition start_succeeded :: "fs_call \<Rightarrow> nat \<Rightarrow> nat \<Rightarrow> fs \<Rightarrow> fs" where
  "start_succeeded call r p s =
     started call r (upd_entry r (\<lambda>e. e\<lparr>en_start := None\<rparr>) (settle_start p Fulfilled s))"

definition startActor :: "fs_env \<Rightarrow> fs_call \<Rightarrow> nat \<Rightarrow> fs \<Rightarrow> fs" where
  "startActor fe call r s =
     (case en_state (entry s r) of
        None \<Rightarrow>
          finish call (Failed (EError ''Error'' (''Actor does exist and cannot be started: '' @ en_id (entry s r)))) s
      | Some st \<Rightarrow>
          (case en_start (entry s r) of
             Some p \<Rightarrow> await call (AwaitStart p r) s
           | None \<Rightarrow>
               if en_actor (entry s r) \<noteq> None then started call r s
               else
                 let p = length (fs_starts s);
                     s1 = upd_entry r (\<lambda>e. e\<lparr>en_start := Some p\<rparr>) (s\<lparr>fs_starts := fs_starts s @ [Pending]\<rparr>)
                 in if af_name st \<notin> set (fe_use fe) then
                      start_failed fe call r p (EError ''Error'' (''no actor in registry for name '' @ af_name st)) s1
                    else
                      await call (AwaitInstance p r)
                        (upd_entry r (\<lambda>e. e\<lparr>en_actor := Some (fs_nextInstance s)\<rparr>)
                          (s1\<lparr>fs_nextInstance := Suc (fs_nextInstance s)\<rparr>))))"

text \<open>\<open>sleepActor\<close>: first the load and start under way, then the instance's \<open>_stop\<close>.\<close>

definition sleepActor :: "fs_env \<Rightarrow> string \<Rightarrow> fs \<Rightarrow> fs" where
  "sleepActor fe actorId s =
     (if \<not> fe_persist fe then
        finish (SleepActor actorId)
          (Failed (invariant_error ''cannot sleep actor with memory driver, must use file system driver'')) s
      else case jm_get (fs_actors s) actorId of
          None \<Rightarrow>
            finish (SleepActor actorId)
              (Failed (invariant_error (''tried to sleep '' @ actorId @ '', does not exist''))) s
        | Some r \<Rightarrow> await (SleepActor actorId) (AwaitLoad (en_load (entry s r)) r) s)"

definition sleep_stop :: "string \<Rightarrow> nat \<Rightarrow> fs \<Rightarrow> fs" where
  "sleep_stop actorId r s =
     (let s1 = upd_entry r (\<lambda>e. e\<lparr>en_removed := True\<rparr>) s
      in if en_actor (entry s r) = None then
           finish (SleepActor actorId) (Failed (invariant_error ''actor should be loaded'')) s1
         else await (SleepActor actorId) (AwaitStop r) s1)"

definition sleep_loaded :: "string \<Rightarrow> nat \<Rightarrow> fs \<Rightarrow> fs" where
  "sleep_loaded actorId r s =
     (case en_start (entry s r) of
        Some p \<Rightarrow> await (SleepActor actorId) (AwaitStart p r) s
      | None \<Rightarrow> sleep_stop actorId r s)"

definition sleep_stopped :: "string \<Rightarrow> fs \<Rightarrow> fs" where
  "sleep_stopped actorId s = finish (SleepActor actorId) Void (s\<lparr>fs_actors := jm_del actorId (fs_actors s)\<rparr>)"

section \<open>Alarms\<close>

definition scheduleAlarmTimeout :: "string \<Rightarrow> rat \<Rightarrow> fs \<Rightarrow> fs" where
  "scheduleAlarmTimeout actorId timestamp s =
     (case upsertEntry actorId s of
        (r, s1) \<Rightarrow>
          if (case en_alarmTimestamp (entry s1 r) of Some t \<Rightarrow> timestamp \<ge> t | None \<Rightarrow> False) then s1
          else
            upd_entry r (\<lambda>e. e\<lparr>en_alarmTimestamp := Some timestamp, en_alarm := Some (fs_nextTimer s1)\<rparr>)
              (s1\<lparr>fs_timers := (case en_alarm (entry s1 r) of Some k \<Rightarrow> jm_del k (fs_timers s1) | None \<Rightarrow> fs_timers s1)
                     @ [(fs_nextTimer s1, (r, timestamp))],
                  fs_nextTimer := Suc (fs_nextTimer s1)\<rparr>))"

definition setActorAlarm :: "fs_env \<Rightarrow> string \<Rightarrow> rat \<Rightarrow> fs \<Rightarrow> fs" where
  "setActorAlarm fe actorId timestamp s =
     (let call = SetAlarm actorId timestamp
      in case jm_get (fs_actors s) actorId of
           None \<Rightarrow> finish call (Failed (invariant_error ''actor entry does not exist'')) s
         | Some _ \<Rightarrow>
             if fe_persist fe then
               (case andThen (js_BigInt timestamp) (\<lambda>i.
                       serializeWithEmbeddedVersion (fe_alarmCoder fe) \<lparr>al_actorId = actorId, al_timestamp = i\<rparr>) of
                  Inl e \<Rightarrow> finish call (Failed (EError ''Error'' (''Failed to write alarm: '' @ fe_text fe e))) s
                | Inr bytes \<Rightarrow> await call (AwaitAlarmWrite bytes) s)
             else finish call Void (scheduleAlarmTimeout actorId timestamp s))"

text \<open>The callback of the timeout: up to the removal of the file, after it, and after the load.\<close>

definition alarm_fired :: "fs_env \<Rightarrow> nat \<Rightarrow> fs \<Rightarrow> fs" where
  "alarm_fired fe k s =
     (case jm_get (fs_timers s) k of
        None \<Rightarrow> s
      | Some (r, timestamp) \<Rightarrow>
          (let actorId = en_id (entry s r);
               s1 = upd_entry r (\<lambda>e. e\<lparr>en_alarmTimestamp := None\<rparr>) (s\<lparr>fs_timers := jm_del k (fs_timers s)\<rparr>)
           in if fe_persist fe then await (AlarmTimer actorId) AwaitUnlink s1
              else loadActor fe actorId (AlarmTimer actorId) s1))"

definition alarm_loaded :: "fs_env \<Rightarrow> string \<Rightarrow> nat \<Rightarrow> fs \<Rightarrow> fs" where
  "alarm_loaded fe actorId r s =
     (if en_state (entry s r) = None then
        finish (AlarmTimer actorId) (Failed (EError ''Error'' (''Actor does not exist: '' @ actorId))) s
      else if \<not> fs_runner s then
        finish (AlarmTimer actorId) (Failed (invariant_error ''missing runner params'')) s
      else case en_actor (entry s r) of
          Some a \<Rightarrow> finish (AlarmTimer actorId) (OnAlarm a) s
        | None \<Rightarrow> loadActor fe actorId (AlarmStart actorId r) s)"

text \<open>\<open>onRunnerStart\<close> with \<open>loadAlarmsSync\<close>; files that cannot be read are skipped.\<close>

definition is_temp :: "string \<Rightarrow> bool" where
  "is_temp file = sublist ''.tmp.'' file"

definition load_alarm :: "fs_env \<Rightarrow> string \<times> bytes \<Rightarrow> fs \<Rightarrow> fs" where
  "load_alarm fe = (\<lambda>(file, buf) s.
     if is_temp file then s
     else case deserializeWithEmbeddedVersion (fe_alarmCoder fe) buf of
         Inl e \<Rightarrow> s
       | Inr alarmData \<Rightarrow> scheduleAlarmTimeout (al_actorId alarmData) (of_int (al_timestamp alarmData)) s)"

definition onRunnerStart :: "fs_env \<Rightarrow> fs \<Rightarrow> fs" where
  "onRunnerStart fe s =
     (if fs_runner s then s else fold (load_alarm fe) (fs_alarmFiles s) (s\<lparr>fs_runner := True\<rparr>))"

section \<open>Calls and events\<close>

text \<open>A call of a driver method.  The time is \<open>Date.now()\<close>.\<close>

definition begin_call :: "fs_env \<Rightarrow> int \<Rightarrow> fs_call \<Rightarrow> fs \<Rightarrow> fs" where
  "begin_call fe now call s =
     (case call of
        GetForId i \<Rightarrow> loadActor fe i call s
      | GetWithKey name key \<Rightarrow> loadActor fe (generateActorId fe name key) call s
      | GetOrCreateWithKey name key input \<Rightarrow> loadActor fe (generateActorId fe name key) call s
      | CreateActor name key input \<Rightarrow> createActor fe now name key input s
      | LoadActorState i \<Rightarrow> loadActor fe i call s
      | ReadPersistedData i \<Rightarrow> loadActor fe i call s
      | WritePersistedData i data \<Rightarrow> loadActor fe i call s
      | SetAlarm i t \<Rightarrow> setActorAlarm fe i t s
      | StartActor i \<Rightarrow> loadActor fe i call s
      | SleepActor i \<Rightarrow> sleepActor fe i s
      | _ \<Rightarrow> s)"

definition no_actor :: "string \<Rightarrow> js_err" where
  "no_actor actorId = EError ''Error'' (''Actor does not exist: '' @ actorId)"

text \<open>What a call does when \<open>loadActor\<close> has given it the entry \<open>r\<close>.\<close>

definition loaded_call :: "fs_env \<Rightarrow> int \<Rightarrow> fs_call \<Rightarrow> nat \<Rightarrow> fs \<Rightarrow> fs" where
  "loaded_call fe now call r s =
     (case call of
        GetForId i \<Rightarrow>
          finish call (case en_state (entry s r) of
            None \<Rightarrow> Undefined | Some st \<Rightarrow> ActorOutput i (af_name st) (af_key st)) s
      | GetWithKey name key \<Rightarrow>
          finish call (if en_state (entry s r) = None then Undefined
                       else ActorOutput (generateActorId fe name key) name key) s
      | GetOrCreateWithKey name key input \<Rightarrow> loadOrCreateActor fe now name key input r s
      | LoadActorState i \<Rightarrow>
          finish call (case en_state (entry s r) of None \<Rightarrow> Failed (no_actor i) | Some st \<Rightarrow> StateOf st) s
      | ReadPersistedData i \<Rightarrow>
          finish call (case en_state (entry s r) of
            None \<Rightarrow> Failed (no_actor i) | Some st \<Rightarrow> Data (af_persistedData st)) s
      | WritePersistedData i data \<Rightarrow>
          (case en_state (entry s r) of
             None \<Rightarrow> finish call (Failed (no_actor i)) s
           | Some st \<Rightarrow> writeActor fe i (st\<lparr>af_persistedData := data\<rparr>) call r s)
      | StartActor i \<Rightarrow> startActor fe call r s
      | SleepActor i \<Rightarrow> sleep_loaded i r s
      | AlarmTimer i \<Rightarrow> alarm_loaded fe i r s
      | AlarmStart i r0 \<Rightarrow> startActor fe call r s
      | _ \<Rightarrow> s)"

text \<open>A waiting call goes on when what it awaits is settled: a rejection ends it.\<close>

definition go_on :: "fs_call \<Rightarrow> settled \<Rightarrow> (fs \<Rightarrow> fs) \<Rightarrow> nat \<Rightarrow> fs \<Rightarrow> fs" where
  "go_on call v f c s =
     (case v of
        Pending \<Rightarrow> s
      | Rejected e \<Rightarrow> finish call (Failed e) (s\<lparr>fs_calls := jm_del c (fs_calls s)\<rparr>)
      | Fulfilled \<Rightarrow> f (s\<lparr>fs_calls := jm_del c (fs_calls s)\<rparr>))"

definition resume :: "fs_env \<Rightarrow> int \<Rightarrow> nat \<Rightarrow> fs \<Rightarrow> fs" where
  "resume fe now c s =
     (case jm_get (fs_calls s) c of
        Some (call, AwaitLoad l r) \<Rightarrow>
          go_on call (case l of None \<Rightarrow> Fulfilled | Some l' \<Rightarrow> snd (fs_loads s ! l')) (loaded_call fe now call r) c s
      | Some (call, AwaitStart p r) \<Rightarrow>
          go_on call (fs_starts s ! p)
            (case call of SleepActor i \<Rightarrow> sleep_stop i r | _ \<Rightarrow> started call r) c s
      | _ \<Rightarrow> s)"

text \<open>The answers of the file system and of the instances to a waiting call: success or an error.\<close>

definition answer_call :: "fs_env \<Rightarrow> js_err option \<Rightarrow> fs_call \<Rightarrow> fs_wait \<Rightarrow> fs \<Rightarrow> fs" where
  "answer_call fe err call w s =
     (case w of
        AwaitWrite i bytes r \<Rightarrow>
          (case err of
             None \<Rightarrow> written fe call r (s\<lparr>fs_disk := jm_set i bytes (fs_disk s)\<rparr>)
           | Some e \<Rightarrow> finish call (Failed (EError ''Error'' (''Failed to save actor state: '' @ fe_text fe e))) s)
      | AwaitAlarmWrite bytes \<Rightarrow>
          (case call of
             SetAlarm i t \<Rightarrow>
               (case err of
                  None \<Rightarrow>
                    finish call Void
                      (scheduleAlarmTimeout i t (s\<lparr>fs_alarmFiles := jm_set i bytes (fs_alarmFiles s)\<rparr>))
                | Some e \<Rightarrow> finish call (Failed (EError ''Error'' (''Failed to write alarm: '' @ fe_text fe e))) s)
           | _ \<Rightarrow> s)
      | AwaitUnlink \<Rightarrow>
          (case call of
             AlarmTimer i \<Rightarrow>
               loadActor fe i call
                 (if err = None then s\<lparr>fs_alarmFiles := jm_del i (fs_alarmFiles s)\<rparr> else s)
           | _ \<Rightarrow> s)
      | AwaitInstance p r \<Rightarrow>
          (case err of None \<Rightarrow> start_succeeded call r p s | Some e \<Rightarrow> start_failed fe call r p e s)
      | AwaitStop r \<Rightarrow>
          (case call of
             SleepActor i \<Rightarrow> (case err of None \<Rightarrow> sleep_stopped i s | Some e \<Rightarrow> finish call (Failed e) s)
           | _ \<Rightarrow> s)
      | _ \<Rightarrow> s)"

definition awaits_answer :: "fs_wait \<Rightarrow> bool" where
  "awaits_answer w =
     (case w of AwaitLoad l r \<Rightarrow> False | AwaitStart p r \<Rightarrow> False | _ \<Rightarrow> True)"

definition answer :: "fs_env \<Rightarrow> js_err option \<Rightarrow> nat \<Rightarrow> fs \<Rightarrow> fs" where
  "answer fe err c s =
     (case jm_get (fs_calls s) c of
        Some (call, w) \<Rightarrow>
          if awaits_answer w then answer_call fe err call w (s\<lparr>fs_calls := jm_del c (fs_calls s)\<rparr>) else s
      | None \<Rightarrow> s)"

text \<open>The file of a pending load is read.\<close>

definition read_file :: "fs_env \<Rightarrow> js_err option \<Rightarrow> nat \<Rightarrow> fs \<Rightarrow> fs" where
  "read_file fe err l s =
     (if l < length (fs_loads s) \<and> snd (fs_loads s ! l) = Pending then
        loadActorState fe l
          (case err of Some e \<Rightarrow> Inl e | None \<Rightarrow> Inr (jm_get (fs_disk s) (en_id (entry s (fst (fs_loads s ! l)))))) s
      else s)"

datatype fs_event =
    Call int fs_call
  | Resume int nat
  | Answer "js_err option" nat
  | ReadFile "js_err option" nat
  | AlarmFires nat
  | RunnerStart

fun fs_step :: "fs_env \<Rightarrow> fs_event \<Rightarrow> fs \<Rightarrow> fs" where
  "fs_step fe (Call now call) s = begin_call fe now call s"
| "fs_step fe (Resume now c) s = resume fe now c s"
| "fs_step fe (Answer err c) s = answer fe err c s"
| "fs_step fe (ReadFile err l) s = read_file fe err l s"
| "fs_step fe (AlarmFires k) s = alarm_fired fe k s"
| "fs_step fe RunnerStart s = onRunnerStart fe s"

text \<open>The driver of a process that finds these files.\<close>

definition fs_boot :: "(string \<times> bytes) list \<Rightarrow> (string \<times> bytes) list \<Rightarrow> fs" where
  "fs_boot files alarms =
     \<lparr>fs_heap = [], fs_actors = [], fs_disk = files, fs_alarmFiles = alarms, fs_runner = False, fs_loads = [],
      fs_starts = [], fs_timers = [], fs_nextTimer = 0, fs_nextInstance = 0, fs_calls = [], fs_nextCall = 0,
      fs_unhandled = [], fs_out = []\<rparr>"

section \<open>An example\<close>

text \<open>A driver whose coder knows one file: the actor \<open>chat\<close>, as it is created at time 5.\<close>

definition chat_file :: actor_file where
  "chat_file = \<lparr>af_actorId = ''id'', af_name = ''chat'', af_key = [], af_createdAt = 5, af_persistedData = [1, 0, 0, 0, 7]\<rparr>"

definition chat_env :: fs_env where
  "chat_env = \<lparr>fe_persist = True,
     fe_stateCoder = \<lparr>vd_currentVersion = 1, vd_migrations = [],
       vd_serializeVersion = (\<lambda>st. if st = chat_file then Inr [9] else Inl (EError ''Error'' ''unknown'')),
       vd_deserializeVersion = (\<lambda>b. if b = [9] then Inr chat_file else Inl (EError ''Error'' ''unknown''))\<rparr>,
     fe_alarmCoder = \<lparr>vd_currentVersion = 1, vd_migrations = [],
       vd_serializeVersion = (\<lambda>a. Inr [3]), vd_deserializeVersion = (\<lambda>b. Inr \<lparr>al_actorId = ''id'', al_timestamp = 50\<rparr>)\<rparr>,
     fe_persistCoder = \<lparr>vd_currentVersion = 1, vd_migrations = [],
       vd_serializeVersion = (\<lambda>a. Inr [7]), vd_deserializeVersion = (\<lambda>b. Inl (EError ''Error'' ''unknown''))\<rparr>,
     fe_codec = tiny_codec, fe_sha256 = (\<lambda>_. ''id''), fe_use = [''chat''], fe_text = (\<lambda>_. ''text'')\<rparr>"

lemma chat_id: "generateActorId chat_env n k = ''id''"
  by (simp add: generateActorId_def chat_env_def)

lemma chat_new: "new_state chat_env ''id'' ''chat'' [] JUndef 5 = Inr chat_file"
  by (simp add: new_state_def serializeEmptyPersistData_def encode_defined_def chat_env_def tiny_codec_def
      serializeWithEmbeddedVersion_def embedVersion_def u32_le_def chat_file_def)

lemmas fs_ops = begin_call_def loadActor_def upsertEntry_def await_def upd_entry_def new_entry_def
  read_file_def loadActorState_def settle_load_def resume_def go_on_def loaded_call_def finish_def
  loadOrCreateActor_def createActor_def writeActor_def performWrite_def written_def Let_def jm_has_def

end
