(* ===== verification/FsDirectory.thy ===== *)
theory FsDirectory
  imports FsState
begin

text \<open>
  The file-system driver refines an abstract directory of actors: a map from ids to the name, key and
  creation time an actor was created with, which only grows.  Whatever the interleaving of calls,
  reads and writes, a lookup answers what the directory holds at that moment.
\<close>

section \<open>The abstract directory\<close>

type_synonym actor_meta = "string \<times> string list \<times> int"
type_synonym directory = "string \<rightharpoonup> actor_meta"

definition meta :: "actor_file \<Rightarrow> actor_meta" where
  "meta st = (af_name st, af_key st, af_createdAt st)"

text \<open>The answers the directory allows to a call.\<close>

fun call_id :: "fs_env \<Rightarrow> fs_call \<Rightarrow> string" where
  "call_id fe (GetForId i) = i"
| "call_id fe (GetWithKey n k) = generateActorId fe n k"
| "call_id fe (GetOrCreateWithKey n k inp) = generateActorId fe n k"
| "call_id fe (CreateActor n k inp) = generateActorId fe n k"
| "call_id fe (LoadActorState i) = i"
| "call_id fe (ReadPersistedData i) = i"
| "call_id fe (WritePersistedData i b) = i"
| "call_id fe (SetAlarm i t) = i"
| "call_id fe (StartActor i) = i"
| "call_id fe (SleepActor i) = i"
| "call_id fe (AlarmTimer i) = i"
| "call_id fe (AlarmStart i r) = i"

definition named :: "directory \<Rightarrow> string \<Rightarrow> string \<Rightarrow> string list \<Rightarrow> bool" where
  "named d i n k = (map_option (\<lambda>(n, k, t). (n, k)) (d i) = Some (n, k))"

definition output_ok :: "directory \<Rightarrow> fs_call \<Rightarrow> string \<Rightarrow> string \<Rightarrow> string list \<Rightarrow> bool" where
  "output_ok d call i n k =
     (case call of
        GetForId i' \<Rightarrow> named d i n k
      | GetWithKey n' k' \<Rightarrow> n = n' \<and> k = k' \<and> d i \<noteq> None
      | GetOrCreateWithKey n' k' inp \<Rightarrow> named d i n k
      | CreateActor n' k' inp \<Rightarrow> n = n' \<and> k = k' \<and> named d i n k
      | _ \<Rightarrow> False)"

definition answer_ok :: "fs_env \<Rightarrow> directory \<Rightarrow> fs_call \<times> fs_result \<Rightarrow> bool" where
  "answer_ok fe d = (\<lambda>(call, res).
     case res of
       Failed e \<Rightarrow> True
     | Undefined \<Rightarrow>
         (case call of GetForId i \<Rightarrow> d i = None | GetWithKey n k \<Rightarrow> d (generateActorId fe n k) = None | _ \<Rightarrow> False)
     | ActorOutput i n k \<Rightarrow> i = call_id fe call \<and> output_ok d call i n k
     | StateOf st \<Rightarrow> (case call of LoadActorState i \<Rightarrow> af_actorId st = i \<and> d i = Some (meta st) | _ \<Rightarrow> False)
     | _ \<Rightarrow> (case call of SetAlarm i t \<Rightarrow> True | SleepActor i \<Rightarrow> True | _ \<Rightarrow> d (call_id fe call) \<noteq> None))"

inductive dir_step :: "fs_env \<Rightarrow> directory \<Rightarrow> (fs_call \<times> fs_result) list \<Rightarrow> directory \<Rightarrow> bool" for fe where
  observe: "list_all (answer_ok fe d) outs \<Longrightarrow> dir_step fe d outs d"
| create: "d i = None \<Longrightarrow> list_all (answer_ok fe (d(i \<mapsto> m))) outs \<Longrightarrow> dir_step fe d outs (d(i \<mapsto> m))"

section \<open>The directory a state stands for\<close>

definition file_meta :: "fs_env \<Rightarrow> bytes \<Rightarrow> actor_meta option" where
  "file_meta fe b =
     (case deserializeWithEmbeddedVersion (fe_stateCoder fe) b of Inl e \<Rightarrow> None | Inr st \<Rightarrow> Some (meta st))"

definition fs_directory :: "fs_env \<Rightarrow> fs \<Rightarrow> directory" where
  "fs_directory fe s i =
     (case Option.bind (jm_get (fs_actors s) i) (\<lambda>r. en_state (entry s r)) of
        Some st \<Rightarrow> Some (meta st)
      | None \<Rightarrow> Option.bind (jm_get (fs_disk s) i) (file_meta fe))"

text \<open>What the driver relies on of a generated coder: it reads back what it wrote.\<close>

definition bare_faithful :: "'d version_handler \<Rightarrow> bool" where
  "bare_faithful h =
     (vd_currentVersion h < 2 ^ 32
      \<and> (\<forall>x b. vd_serializeVersion h x = Inr b \<longrightarrow> vd_deserializeVersion h b = Inr x))"

section \<open>The invariant\<close>

text \<open>Every trace of an actor (an entry in memory, a file, a write under way) agrees with the
  directory, and an entry out of the map has its state.\<close>

definition entry_ok :: "directory \<Rightarrow> nat \<Rightarrow> actor_entry \<Rightarrow> (string \<times> nat) list \<Rightarrow> (nat \<times> settled) list \<Rightarrow> bool" where
  "entry_ok d r e actors loads =
     ((\<forall>st. en_state e = Some st \<longrightarrow> af_actorId st = en_id e \<and> d (en_id e) = Some (meta st))
      \<and> (en_state e = None \<longrightarrow> jm_get actors (en_id e) = Some r \<and> en_actor e = None \<and> en_start e = None)
      \<and> (\<forall>l. en_load e = Some l \<longrightarrow> l < length loads \<and> fst (loads ! l) = r))"

definition file_ok :: "fs_env \<Rightarrow> directory \<Rightarrow> string \<Rightarrow> bytes \<Rightarrow> bool" where
  "file_ok fe d i b =
     (\<exists>st. deserializeWithEmbeddedVersion (fe_stateCoder fe) b = Inr st \<and> af_actorId st = i \<and> d i = Some (meta st))"

definition is_writer :: "fs_call \<Rightarrow> bool" where
  "is_writer call =
     (case call of
        GetOrCreateWithKey n k inp \<Rightarrow> True
      | CreateActor n k inp \<Rightarrow> True
      | WritePersistedData i b \<Rightarrow> True
      | _ \<Rightarrow> False)"

definition is_starter :: "fs_call \<Rightarrow> bool" where
  "is_starter call = (case call of StartActor i \<Rightarrow> True | AlarmStart i r \<Rightarrow> True | _ \<Rightarrow> False)"

definition is_sleep :: "fs_call \<Rightarrow> bool" where
  "is_sleep call = (case call of SleepActor i \<Rightarrow> True | _ \<Rightarrow> False)"

text \<open>What is kept for a waiting call.\<close>

fun wait_ok :: "fs_env \<Rightarrow> directory \<Rightarrow> fs \<Rightarrow> fs_call \<Rightarrow> fs_wait \<Rightarrow> bool" where
  "wait_ok fe d s call (AwaitLoad l r) =
     (r < length (fs_heap s) \<and> en_id (entry s r) = call_id fe call
      \<and> (case l of
           Some l' \<Rightarrow> l' < length (fs_loads s) \<and> fst (fs_loads s ! l') = r
         | None \<Rightarrow> en_state (entry s r) \<noteq> None \<or> \<not> fe_persist fe \<or> is_sleep call))"
| "wait_ok fe d s call (AwaitWrite i b r) =
     (r < length (fs_heap s) \<and> en_id (entry s r) = call_id fe call \<and> en_state (entry s r) \<noteq> None
      \<and> fe_persist fe \<and> i = call_id fe call \<and> file_ok fe d i b \<and> is_writer call
      \<and> (case call of CreateActor n k inp \<Rightarrow> named d i n k | _ \<Rightarrow> True))"
| "wait_ok fe d s call (AwaitStop r) = (r < length (fs_heap s) \<and> en_state (entry s r) \<noteq> None)"
| "wait_ok fe d s call (AwaitStart p r) =
     (r < length (fs_heap s) \<and> en_id (entry s r) = call_id fe call \<and> en_state (entry s r) \<noteq> None
      \<and> (is_starter call \<or> is_sleep call))"
| "wait_ok fe d s call (AwaitInstance p r) =
     (r < length (fs_heap s) \<and> en_id (entry s r) = call_id fe call \<and> en_state (entry s r) \<noteq> None \<and> is_starter call)"
| "wait_ok fe d s call _ = True"

definition load_ok :: "fs \<Rightarrow> nat \<times> settled \<Rightarrow> bool" where
  "load_ok s = (\<lambda>(r, v).
     r < length (fs_heap s)
     \<and> (v = Fulfilled \<longrightarrow> en_state (entry s r) = None \<longrightarrow> jm_get (fs_disk s) (en_id (entry s r)) = None))"

definition holds :: "fs_env \<Rightarrow> directory \<Rightarrow> fs \<Rightarrow> bool" where
  "holds fe d s =
     ((\<forall>i r. jm_get (fs_actors s) i = Some r \<longrightarrow> r < length (fs_heap s) \<and> en_id (entry s r) = i)
      \<and> (\<forall>r < length (fs_heap s). entry_ok d r (entry s r) (fs_actors s) (fs_loads s))
      \<and> (\<forall>i b. jm_get (fs_disk s) i = Some b \<longrightarrow> file_ok fe d i b)
      \<and> (\<forall>i m. d i = Some m \<longrightarrow> jm_get (fs_disk s) i \<noteq> None
            \<or> (\<exists>r. jm_get (fs_actors s) i = Some r \<and> en_state (entry s r) \<noteq> None))
      \<and> list_all (load_ok s) (fs_loads s)
      \<and> list_all (\<lambda>(c, call, w). wait_ok fe d s call w) (fs_calls s)
      \<and> (fe_persist fe \<or> fs_disk s = []))"

lemma holdsI:
  assumes "\<And>i r. jm_get (fs_actors s) i = Some r \<Longrightarrow> r < length (fs_heap s) \<and> en_id (entry s r) = i"
    and "\<And>r. r < length (fs_heap s) \<Longrightarrow> entry_ok d r (entry s r) (fs_actors s) (fs_loads s)"
    and "\<And>i b. jm_get (fs_disk s) i = Some b \<Longrightarrow> file_ok fe d i b"
    and "\<And>i m. d i = Some m \<Longrightarrow> jm_get (fs_disk s) i = None \<Longrightarrow>
      \<exists>r. jm_get (fs_actors s) i = Some r \<and> en_state (entry s r) \<noteq> None"
    and "list_all (load_ok s) (fs_loads s)"
    and "list_all (\<lambda>(c, call, w). wait_ok fe d s call w) (fs_calls s)"
    and "fe_persist fe \<or> fs_disk s = []"
  shows "holds fe d s"
  unfolding holds_def using assms by blast

lemma holds_persist: "holds fe d s \<Longrightarrow> fe_persist fe \<or> fs_disk s = []"
  and holds_loads: "holds fe d s \<Longrightarrow> list_all (load_ok s) (fs_loads s)"
  and holds_waits: "holds fe d s \<Longrightarrow> list_all (\<lambda>(c, call, w). wait_ok fe d s call w) (fs_calls s)"
  by (simp_all add: holds_def)

lemma holds_actor: "holds fe d s \<Longrightarrow> jm_get (fs_actors s) i = Some r \<Longrightarrow> r < length (fs_heap s) \<and> en_id (entry s r) = i"
  and holds_entry: "holds fe d s \<Longrightarrow> r < length (fs_heap s) \<Longrightarrow> entry_ok d r (entry s r) (fs_actors s) (fs_loads s)"
  and holds_file: "holds fe d s \<Longrightarrow> jm_get (fs_disk s) i = Some b \<Longrightarrow> file_ok fe d i b"
  and holds_covered: "holds fe d s \<Longrightarrow> d i = Some m \<Longrightarrow> jm_get (fs_disk s) i = None \<Longrightarrow>
    \<exists>r. jm_get (fs_actors s) i = Some r \<and> en_state (entry s r) \<noteq> None"
  and holds_load: "holds fe d s \<Longrightarrow> l < length (fs_loads s) \<Longrightarrow> load_ok s (fs_loads s ! l)"
  unfolding holds_def list_all_length by blast+

lemma holds_wait: "holds fe d s \<Longrightarrow> jm_get (fs_calls s) c = Some (call, w) \<Longrightarrow> wait_ok fe d s call w"
  by (drule map_of_SomeD) (auto simp: holds_def list_all_iff)

lemma holds_state:
  "holds fe d s \<Longrightarrow> r < length (fs_heap s) \<Longrightarrow> en_state (entry s r) = Some st \<Longrightarrow>
     af_actorId st = en_id (entry s r) \<and> d (en_id (entry s r)) = Some (meta st)"
  by (drule holds_entry) (auto simp: entry_ok_def)

lemma holds_live:
  "holds fe d s \<Longrightarrow> r < length (fs_heap s) \<Longrightarrow> en_state (entry s r) = None \<Longrightarrow>
     jm_get (fs_actors s) (en_id (entry s r)) = Some r"
  by (drule holds_entry) (auto simp: entry_ok_def)

lemma holds_directory: "holds fe d s \<Longrightarrow> fs_directory fe s = d"
proof
  fix i
  assume h: "holds fe d s"
  show "fs_directory fe s i = d i"
  proof (cases "Option.bind (jm_get (fs_actors s) i) (\<lambda>r. en_state (entry s r))")
    case (Some st)
    then obtain r where "jm_get (fs_actors s) i = Some r" "en_state (entry s r) = Some st"
      by (auto simp: bind_eq_Some_conv)
    then show ?thesis
      using Some holds_actor [OF h, of i r] holds_state [OF h, of r st] by (simp add: fs_directory_def)
  next
    case None
    then have "jm_get (fs_disk s) i = None \<Longrightarrow> d i = None"
      using holds_covered [OF h, of i] by (cases "d i") (force simp: bind_eq_None_conv)+
    moreover have "file_meta fe b = d i" if "jm_get (fs_disk s) i = Some b" for b
      using holds_file [OF h that] by (auto simp: file_ok_def file_meta_def)
    ultimately show ?thesis using None
      by (cases "jm_get (fs_disk s) i") (auto simp: fs_directory_def)
  qed
qed

section \<open>Changes that keep the invariant\<close>

lemma wait_ok_cong:
  "fs_heap s' = fs_heap s \<Longrightarrow> fs_loads s' = fs_loads s \<Longrightarrow> wait_ok fe d s' call w = wait_ok fe d s call w"
  by (cases w) (auto split: option.split)

lemma holds_cong:
  assumes "fs_heap s' = fs_heap s" "fs_actors s' = fs_actors s" "fs_disk s' = fs_disk s"
    "fs_loads s' = fs_loads s" "fs_calls s' = fs_calls s"
  shows "holds fe d s' = holds fe d s"
proof -
  have "load_ok s' = load_ok s" by (auto simp: load_ok_def assms)
  moreover have "wait_ok fe d s' = wait_ok fe d s" using assms by (intro ext wait_ok_cong)
  ultimately show ?thesis by (simp add: holds_def assms)
qed

lemma holds_fields [simp]:
  "holds fe d (s\<lparr>fs_out := x\<rparr>) = holds fe d s"
  "holds fe d (s\<lparr>fs_alarmFiles := a\<rparr>) = holds fe d s"
  "holds fe d (s\<lparr>fs_runner := b\<rparr>) = holds fe d s"
  "holds fe d (s\<lparr>fs_timers := t\<rparr>) = holds fe d s"
  "holds fe d (s\<lparr>fs_nextTimer := n\<rparr>) = holds fe d s"
  "holds fe d (s\<lparr>fs_nextInstance := n\<rparr>) = holds fe d s"
  "holds fe d (s\<lparr>fs_nextCall := n\<rparr>) = holds fe d s"
  "holds fe d (s\<lparr>fs_starts := p\<rparr>) = holds fe d s"
  "holds fe d (s\<lparr>fs_unhandled := u\<rparr>) = holds fe d s"
  by (rule holds_cong; simp)+

lemma holds_calls:
  assumes "holds fe d s" and "\<And>c call w. (c, call, w) \<in> set cs \<Longrightarrow> (c, call, w) \<in> set (fs_calls s) \<or> wait_ok fe d s call w"
  shows "holds fe d (s\<lparr>fs_calls := cs\<rparr>)"
proof -
  have "load_ok (s\<lparr>fs_calls := cs\<rparr>) = load_ok s" by (auto simp: load_ok_def)
  moreover have "wait_ok fe d (s\<lparr>fs_calls := cs\<rparr>) = wait_ok fe d s" by (intro ext wait_ok_cong) simp_all
  moreover have "list_all (\<lambda>(c, call, w). wait_ok fe d s call w) cs"
    using assms by (fastforce simp: list_all_iff holds_def)
  ultimately show ?thesis using assms(1) by (simp add: holds_def)
qed

lemma holds_drop_call [simp, intro]: "holds fe d s \<Longrightarrow> holds fe d (s\<lparr>fs_calls := jm_del c (fs_calls s)\<rparr>)"
  by (rule holds_calls) (auto simp: AList.delete_eq)

lemma holds_await: "holds fe d s \<Longrightarrow> wait_ok fe d s call w \<Longrightarrow> holds fe d (await call w s)"
proof -
  assume h: "holds fe d s" and w: "wait_ok fe d s call w"
  have "holds fe d (s\<lparr>fs_calls := fs_calls s @ [(fs_nextCall s, call, w)]\<rparr>)"
    by (rule holds_calls [OF h]) (use w in auto)
  then show ?thesis by (simp add: await_def)
qed

text \<open>An entry may get its state, once, and lose nothing.\<close>

definition grows :: "actor_entry \<Rightarrow> actor_entry \<Rightarrow> bool" where
  "grows e e' = (en_id e' = en_id e \<and> (en_state e \<noteq> None \<longrightarrow> en_state e' \<noteq> None))"

lemma wait_ok_grows:
  assumes "wait_ok fe d s call w" and "length (fs_heap s) \<le> length (fs_heap s')"
    and "\<And>r. r < length (fs_heap s) \<Longrightarrow> grows (entry s r) (entry s' r)"
    and "length (fs_loads s) \<le> length (fs_loads s')" "\<And>l. l < length (fs_loads s) \<Longrightarrow> fst (fs_loads s' ! l) = fst (fs_loads s ! l)"
    and "\<And>i m. d i = Some m \<Longrightarrow> d' i = Some m"
  shows "wait_ok fe d' s' call w"
proof -
  have g: "r < length (fs_heap s) \<Longrightarrow> en_id (entry s' r) = en_id (entry s r)"
    "r < length (fs_heap s) \<Longrightarrow> en_state (entry s r) \<noteq> None \<Longrightarrow> en_state (entry s' r) \<noteq> None" for r
    using assms(3) by (auto simp: grows_def)
  have f: "file_ok fe d i b \<Longrightarrow> file_ok fe d' i b" for i b using assms(6) unfolding file_ok_def by blast
  have n: "named d i n k \<Longrightarrow> named d' i n k" for i n k using assms(6) by (auto simp: named_def)
  show ?thesis
    using assms(1,2,4,5) g f n by (cases w) (auto split: option.splits fs_call.splits)
qed

lemma upd_entry_fields [simp]:
  "fs_actors (upd_entry r f s) = fs_actors s" "fs_disk (upd_entry r f s) = fs_disk s"
  "fs_loads (upd_entry r f s) = fs_loads s" "fs_calls (upd_entry r f s) = fs_calls s"
  "fs_out (upd_entry r f s) = fs_out s" "length (fs_heap (upd_entry r f s)) = length (fs_heap s)"
  "fs_alarmFiles (upd_entry r f s) = fs_alarmFiles s" "fs_starts (upd_entry r f s) = fs_starts s"
  "fs_timers (upd_entry r f s) = fs_timers s" "fs_nextCall (upd_entry r f s) = fs_nextCall s"
  by (simp_all add: upd_entry_def)

lemma entry_upd: "r < length (fs_heap s) \<Longrightarrow>
    entry (upd_entry r f s) r' = (if r' = r then f (entry s r) else entry s r')"
  by (simp add: upd_entry_def nth_list_update)

text \<open>A change of one entry.\<close>

lemma holds_upd:
  assumes h: "holds fe d s" and r: "r < length (fs_heap s)"
    and id: "en_id (f (entry s r)) = en_id (entry s r)"
    and ok: "entry_ok d' r (f (entry s r)) (fs_actors s) (fs_loads s)"
    and keep: "en_state (entry s r) \<noteq> None \<Longrightarrow> en_state (f (entry s r)) \<noteq> None"
    and d: "\<And>i m. d i = Some m \<Longrightarrow> d' i = Some m"
    and d': "\<And>i. i \<noteq> en_id (entry s r) \<Longrightarrow> d' i = d i"
    and cov: "d (en_id (entry s r)) = None \<Longrightarrow> d' (en_id (entry s r)) \<noteq> None \<Longrightarrow>
        jm_get (fs_actors s) (en_id (entry s r)) = Some r \<and> en_state (f (entry s r)) \<noteq> None"
  shows "holds fe d' (upd_entry r f s)"
proof -
  let ?s = "upd_entry r f s"
  have g: "grows (entry s r') (entry ?s r')" for r'
    using id keep by (simp add: entry_upd [OF r] grows_def)
  have ids: "en_id (entry ?s r') = en_id (entry s r')" for r' using id by (simp add: entry_upd [OF r])
  have "wait_ok fe d' ?s call w" if "wait_ok fe d s call w" for call w
    by (rule wait_ok_grows [OF that]) (use d g in auto)
  then have calls: "list_all (\<lambda>(c, call, w). wait_ok fe d' ?s call w) (fs_calls s)"
    using holds_waits [OF h] by (auto simp: list_all_iff)
  have loads: "list_all (load_ok ?s) (fs_loads s)"
    using holds_loads [OF h] g by (fastforce simp: list_all_iff load_ok_def ids grows_def)
  show ?thesis
  proof (rule holdsI)
    show "r' < length (fs_heap ?s) \<and> en_id (entry ?s r') = i" if "jm_get (fs_actors ?s) i = Some r'" for i r'
      using holds_actor [OF h, of i r'] that by (simp add: ids)
    show "entry_ok d' r' (entry ?s r') (fs_actors ?s) (fs_loads ?s)" if "r' < length (fs_heap ?s)" for r'
      using holds_entry [OF h, of r'] that ok d by (simp add: entry_upd [OF r] entry_ok_def)
    show "file_ok fe d' i b" if "jm_get (fs_disk ?s) i = Some b" for i b
      using holds_file [OF h, of i b] that d unfolding file_ok_def upd_entry_fields by blast
    show "\<exists>r. jm_get (fs_actors ?s) i = Some r \<and> en_state (entry ?s r) \<noteq> None"
      if di: "d' i = Some m" and no: "jm_get (fs_disk ?s) i = None" for i m
    proof (cases "d i")
      case None
      then have "i = en_id (entry s r)" using d' [of i] di by auto
      then have "jm_get (fs_actors s) i = Some r" "en_state (f (entry s r)) \<noteq> None"
        using cov None di by (metis option.distinct(1))+
      then show ?thesis by (auto simp: entry_upd [OF r])
    next
      case (Some m')
      then obtain r' where "jm_get (fs_actors s) i = Some r'" "en_state (entry s r') \<noteq> None"
        using holds_covered [OF h Some] no by auto
      then show ?thesis using g [of r'] by (auto simp: grows_def)
    qed
  qed (use calls loads holds_persist [OF h] in simp_all)
qed

lemma holds_upd_same:
  assumes "holds fe d s" "r < length (fs_heap s)" "entry s r = e"
    and "en_id (f e) = en_id e" "en_state (f e) = en_state e"
    and "en_load (f e) = en_load e \<or> (\<forall>l. en_load (f e) = Some l \<longrightarrow> l < length (fs_loads s) \<and> fst (fs_loads s ! l) = r)"
    and "en_state e = None \<Longrightarrow> en_actor (f e) = None \<and> en_start (f e) = None"
  shows "holds fe d (upd_entry r f s)"
  using assms holds_entry [OF assms(1,2)] by (intro holds_upd [OF assms(1,2)]) (auto simp: entry_ok_def)

lemma holds_set_state:
  assumes h: "holds fe d s" and r: "r < length (fs_heap s)" and i: "en_id (entry s r) = i" "af_actorId st = i"
    and d: "d i = None \<or> d i = Some (meta st)"
  shows "holds fe (d(i \<mapsto> meta st)) (upd_entry r (\<lambda>e. e\<lparr>en_state := Some st\<rparr>) s)"
proof (rule holds_upd [OF h r])
  show "entry_ok (d(i \<mapsto> meta st)) r (entry s r\<lparr>en_state := Some st\<rparr>) (fs_actors s) (fs_loads s)"
    using i holds_entry [OF h r] by (simp add: entry_ok_def)
  show "jm_get (fs_actors s) (en_id (entry s r)) = Some r \<and> en_state (entry s r\<lparr>en_state := Some st\<rparr>) \<noteq> None"
    if "d (en_id (entry s r)) = None"
    using holds_live [OF h r] holds_state [OF h r] that by (cases "en_state (entry s r)") auto
qed (use i d in auto)

text \<open>A new entry, a new load, a settled load, a written file, a deleted entry.\<close>

lemma upsertEntry_out: "fs_out (snd (upsertEntry i s)) = fs_out s" "fs_disk (snd (upsertEntry i s)) = fs_disk s"
  "fs_calls (snd (upsertEntry i s)) = fs_calls s" "fs_loads (snd (upsertEntry i s)) = fs_loads s"
  by (simp_all add: upsertEntry_def split: option.split)

lemma holds_upsert:
  assumes h: "holds fe d s" and u: "upsertEntry i s = (r, s1)"
  shows "holds fe d s1 \<and> r < length (fs_heap s1) \<and> en_id (entry s1 r) = i \<and> jm_get (fs_actors s1) i = Some r"
proof (cases "jm_get (fs_actors s) i")
  case (Some r')
  then show ?thesis using u h holds_actor [OF h Some] by (auto simp: upsertEntry_def)
next
  case None
  let ?n = "length (fs_heap s)"
  have s1: "s1 = s\<lparr>fs_heap := fs_heap s @ [new_entry i], fs_actors := jm_set i ?n (fs_actors s)\<rparr>" and r: "r = ?n"
    using u None by (auto simp: upsertEntry_def)
  have e: "r' < ?n \<Longrightarrow> entry s1 r' = entry s r'" and n: "entry s1 ?n = new_entry i" for r'
    by (simp_all add: s1 nth_append)
  have acts: "jm_get (fs_actors s1) j = (if j = i then Some ?n else jm_get (fs_actors s) j)" for j by (simp add: s1)
  have same: "fs_loads s1 = fs_loads s" "fs_disk s1 = fs_disk s" "fs_calls s1 = fs_calls s"
    "length (fs_heap s1) = Suc ?n" by (simp_all add: s1)
  have "wait_ok fe d s1 call w" if "wait_ok fe d s call w" for call w
    by (rule wait_ok_grows [OF that]) (use e in \<open>auto simp: grows_def same\<close>)
  then have calls: "list_all (\<lambda>(c, call, w). wait_ok fe d s1 call w) (fs_calls s1)"
    using holds_waits [OF h] by (auto simp: list_all_iff same)
  have loads: "list_all (load_ok s1) (fs_loads s1)"
    using holds_loads [OF h] e by (fastforce simp: list_all_iff load_ok_def same)
  have ents: "entry_ok d r' (entry s1 r') (fs_actors s1) (fs_loads s1)" if "r' < Suc ?n" for r'
  proof (cases "r' = ?n")
    case True
    then show ?thesis by (simp add: n entry_ok_def acts) (simp add: new_entry_def)
  next
    case False
    then have r': "r' < ?n" using that by simp
    show ?thesis using holds_entry [OF h r'] None by (auto simp: e [OF r'] entry_ok_def acts same)
  qed
  have "holds fe d s1"
  proof (rule holdsI)
    show "r' < length (fs_heap s1) \<and> en_id (entry s1 r') = j" if "jm_get (fs_actors s1) j = Some r'" for j r'
      using that holds_actor [OF h, of j r'] e [of r'] n by (auto simp: acts same new_entry_def split: if_splits)
    show "entry_ok d r' (entry s1 r') (fs_actors s1) (fs_loads s1)" if "r' < length (fs_heap s1)" for r'
      using ents that by (simp add: same)
    show "file_ok fe d j b" if "jm_get (fs_disk s1) j = Some b" for j b
      using that holds_file [OF h] by (simp add: same)
    show "\<exists>r. jm_get (fs_actors s1) j = Some r \<and> en_state (entry s1 r) \<noteq> None"
      if dj: "d j = Some m" and no: "jm_get (fs_disk s1) j = None" for j m
    proof -
      obtain r' where r': "jm_get (fs_actors s) j = Some r'" "en_state (entry s r') \<noteq> None"
        using holds_covered [OF h dj] no by (auto simp: same)
      then show ?thesis using None holds_actor [OF h r'(1)] e [of r'] by (auto simp: acts)
    qed
  qed (use calls loads holds_persist [OF h] in \<open>simp_all add: same\<close>)
  then show ?thesis using n by (simp add: r same(4) acts new_entry_def)
qed

lemma holds_new_load:
  assumes h: "holds fe d s" and r: "r < length (fs_heap s)"
  shows "holds fe d (s\<lparr>fs_loads := fs_loads s @ [(r, Pending)]\<rparr>)"
proof -
  let ?s = "s\<lparr>fs_loads := fs_loads s @ [(r, Pending)]\<rparr>"
  have "wait_ok fe d ?s call w" if "wait_ok fe d s call w" for call w
    by (rule wait_ok_grows [OF that]) (auto simp: grows_def nth_append)
  then have "list_all (\<lambda>(c, call, w). wait_ok fe d ?s call w) (fs_calls s)"
    using holds_waits [OF h] by (auto simp: list_all_iff)
  moreover have "load_ok ?s = load_ok s" by (auto simp: load_ok_def)
  moreover have "entry_ok d r' (entry s r') (fs_actors s) (fs_loads ?s)" if "r' < length (fs_heap s)" for r'
    using holds_entry [OF h that] by (fastforce simp: entry_ok_def nth_append)
  ultimately show ?thesis
    using holds_actor [OF h] holds_file [OF h] holds_covered [OF h] holds_loads [OF h] holds_persist [OF h] r
    by (intro holdsI) (auto simp: load_ok_def)
qed

lemma holds_settle:
  assumes h: "holds fe d s" and l: "l < length (fs_loads s)"
    and ok: "v = Fulfilled \<Longrightarrow> en_state (entry s (fst (fs_loads s ! l))) = None \<Longrightarrow>
      jm_get (fs_disk s) (en_id (entry s (fst (fs_loads s ! l)))) = None"
  shows "holds fe d (settle_load l v s)"
proof -
  let ?s = "settle_load l v s"
  have firsts: "fst (fs_loads ?s ! k) = fst (fs_loads s ! k)" for k
    using l by (cases "k = l") (simp_all add: settle_load_def)
  have "wait_ok fe d ?s call w" if "wait_ok fe d s call w" for call w
    by (rule wait_ok_grows [OF that]) (use firsts in \<open>auto simp: grows_def settle_load_def\<close>)
  then have calls: "list_all (\<lambda>(c, call, w). wait_ok fe d ?s call w) (fs_calls ?s)"
    using holds_waits [OF h] by (auto simp: list_all_iff settle_load_def)
  have "load_ok ?s (fs_loads ?s ! k)" if "k < length (fs_loads s)" for k
    using holds_load [OF h that] holds_load [OF h l] ok l
    by (cases "k = l") (auto simp: load_ok_def settle_load_def)
  then have loads: "list_all (load_ok ?s) (fs_loads ?s)" by (simp add: list_all_length settle_load_def)
  have fields: "fs_heap ?s = fs_heap s" "fs_actors ?s = fs_actors s" "fs_disk ?s = fs_disk s"
    "length (fs_loads ?s) = length (fs_loads s)" by (simp_all add: settle_load_def)
  show ?thesis
  proof (rule holdsI)
    show "entry_ok d r (entry ?s r) (fs_actors ?s) (fs_loads ?s)" if "r < length (fs_heap ?s)" for r
      using holds_entry [OF h, of r] that firsts by (simp add: entry_ok_def fields)
    show "\<exists>r. jm_get (fs_actors ?s) i = Some r \<and> en_state (entry ?s r) \<noteq> None"
      if "d i = Some m" "jm_get (fs_disk ?s) i = None" for i m
      using holds_covered [OF h that(1)] that(2) by (simp add: fields)
  qed (use calls loads holds_actor [OF h] holds_file [OF h] holds_persist [OF h] in \<open>auto simp: fields\<close>)
qed

lemma holds_written:
  assumes h: "holds fe d s" and f: "file_ok fe d i b" and p: "fe_persist fe"
  shows "holds fe d (s\<lparr>fs_disk := jm_set i b (fs_disk s)\<rparr>)"
proof -
  let ?s = "s\<lparr>fs_disk := jm_set i b (fs_disk s)\<rparr>"
  obtain m where m: "d i = Some m" using f unfolding file_ok_def by blast
  have some: "en_state (entry s r) \<noteq> None"
    if r: "r < length (fs_heap s)" "en_id (entry s r) = i" and no: "jm_get (fs_disk s) i = None" for r
    using holds_covered [OF h m no] holds_live [OF h r(1)] r(2) by fastforce
  have "wait_ok fe d ?s = wait_ok fe d s" by (intro ext wait_ok_cong) simp_all
  moreover have "load_ok ?s v" if "load_ok s v" for v
    using that some [of "fst v"] by (auto simp: load_ok_def)
  then have "list_all (load_ok ?s) (fs_loads ?s)" using holds_loads [OF h] by (auto simp: list_all_iff)
  moreover have "\<exists>r. jm_get (fs_actors ?s) j = Some r \<and> en_state (entry ?s r) \<noteq> None"
    if "d j = Some m'" "jm_get (fs_disk ?s) j = None" for j m'
    using holds_covered [OF h that(1)] that(2) by (simp split: if_splits)
  ultimately show ?thesis
    using f p holds_actor [OF h] holds_entry [OF h] holds_file [OF h] holds_waits [OF h]
    by (intro holdsI) (auto split: if_splits)
qed

text \<open>An entry may leave the map when it has its state and the file has been written.\<close>

lemma holds_removed:
  assumes h: "holds fe d s" and r: "jm_get (fs_actors s) i = Some r" "en_state (entry s r) \<noteq> None"
    and f: "jm_get (fs_disk s) i \<noteq> None"
  shows "holds fe d (s\<lparr>fs_actors := jm_del i (fs_actors s)\<rparr>)"
proof -
  let ?s = "s\<lparr>fs_actors := jm_del i (fs_actors s)\<rparr>"
  have "wait_ok fe d ?s = wait_ok fe d s" by (intro ext wait_ok_cong) simp_all
  moreover have "load_ok ?s = load_ok s" by (auto simp: load_ok_def)
  moreover have "entry_ok d r' (entry s r') (fs_actors ?s) (fs_loads s)" if "r' < length (fs_heap s)" for r'
    using holds_entry [OF h that] r by (auto simp: entry_ok_def)
  moreover have "\<exists>r. jm_get (fs_actors ?s) j = Some r \<and> en_state (entry ?s r) \<noteq> None"
    if "d j = Some m'" "jm_get (fs_disk ?s) j = None" for j m'
    using holds_covered [OF h that(1)] that(2) f by auto
  ultimately show ?thesis
    using holds_actor [OF h] holds_file [OF h] holds_waits [OF h] holds_loads [OF h] holds_persist [OF h]
    by (intro holdsI) (auto split: if_splits)
qed

section \<open>Steps\<close>

text \<open>From \<open>s\<close> to \<open>s'\<close> the answers given are those of the directory, which stays as it is or gains
  an actor.\<close>

definition answers :: "fs_env \<Rightarrow> directory \<Rightarrow> fs \<Rightarrow> fs \<Rightarrow> bool" where
  "answers fe d s s' =
     (\<exists>outs. holds fe d s' \<and> fs_out s' = fs_out s @ outs \<and> list_all (answer_ok fe d) outs)"

definition leads :: "fs_env \<Rightarrow> directory \<Rightarrow> fs \<Rightarrow> fs \<Rightarrow> bool" where
  "leads fe d s s' = (answers fe d s s' \<or> (\<exists>i m. d i = None \<and> answers fe (d(i \<mapsto> m)) s s'))"

lemma answers_leads: "answers fe d s s' \<Longrightarrow> leads fe d s s'"
  by (simp add: leads_def)

lemma answers_from: "fs_out s1 = fs_out s \<Longrightarrow> answers fe d s1 s' \<Longrightarrow> answers fe d s s'"
  by (auto simp: answers_def)

lemma leads_from: "fs_out s1 = fs_out s \<Longrightarrow> leads fe d s1 s' \<Longrightarrow> leads fe d s s'"
  unfolding leads_def using answers_from by blast

lemma answers_keep [intro]: "holds fe d s' \<Longrightarrow> fs_out s' = fs_out s \<Longrightarrow> answers fe d s s'"
  by (auto simp: answers_def)

lemma answers_finish [intro]: "holds fe d s \<Longrightarrow> answer_ok fe d (call, res) \<Longrightarrow> answers fe d s (finish call res s)"
  by (simp add: answers_def finish_def)

lemma answers_await [intro]: "holds fe d s \<Longrightarrow> wait_ok fe d s call w \<Longrightarrow> answers fe d s (await call w s)"
  by (rule answers_keep [OF holds_await]) (simp_all add: await_def)

lemma failed_ok [simp]: "answer_ok fe d (call, Failed e)"
  by (simp add: answer_ok_def)

lemma answers_load:
  assumes h: "holds fe d s" and i: "call_id fe call = i"
  shows "answers fe d s (loadActor fe i call s)"
proof -
  obtain r s1 where u: "upsertEntry i s = (r, s1)" by (cases "upsertEntry i s")
  have s1: "holds fe d s1" "r < length (fs_heap s1)" "en_id (entry s1 r) = i" and out: "fs_out s1 = fs_out s"
    using holds_upsert [OF h u] upsertEntry_out(1) [of i s] u by auto
  have "answers fe d s1 (loadActor fe i call s)"
  proof (cases "en_state (entry s1 r) \<noteq> None \<or> \<not> fe_persist fe")
    case True
    then show ?thesis using s1 i by (auto simp: loadActor_def u)
  next
    case False
    show ?thesis
    proof (cases "en_load (entry s1 r)")
      case (Some l)
      then have "l < length (fs_loads s1)" "fst (fs_loads s1 ! l) = r"
        using holds_entry [OF s1(1,2)] by (auto simp: entry_ok_def)
      then show ?thesis using False Some s1 i by (auto simp: loadActor_def u)
    next
      case None
      let ?s2 = "s1\<lparr>fs_loads := fs_loads s1 @ [(r, Pending)]\<rparr>"
      let ?s3 = "upd_entry r (\<lambda>e. e\<lparr>en_load := Some (length (fs_loads s1))\<rparr>) ?s2"
      have h2: "holds fe d ?s2" by (rule holds_new_load [OF s1(1,2)])
      have h3: "holds fe d ?s3"
        using holds_entry [OF h2, of r] s1(2)
        by (intro holds_upd_same [OF h2 _ refl]) (auto simp: entry_ok_def)
      have "loadActor fe i call s = await call (AwaitLoad (Some (length (fs_loads s1))) r) ?s3"
        using False None by (simp add: loadActor_def u)
      moreover have "answers fe d ?s3 (await call (AwaitLoad (Some (length (fs_loads s1))) r) ?s3)"
        using s1 i by (intro answers_await h3) (simp add: entry_upd)
      ultimately show ?thesis by (auto intro: answers_from [rotated])
    qed
  qed
  then show ?thesis by (rule answers_from [OF out])
qed

lemma read_back:
  assumes "bare_faithful (fe_stateCoder fe)" and "serializeWithEmbeddedVersion (fe_stateCoder fe) st = Inr b"
  shows "deserializeWithEmbeddedVersion (fe_stateCoder fe) b = Inr st"
  using assms by (auto simp: bare_faithful_def serializeWithEmbeddedVersion_def deserialize_embedded
      deserializeVersioned_def split: sum.splits)

lemma answers_write:
  assumes f: "bare_faithful (fe_stateCoder fe)" and h: "holds fe d s" and r: "r < length (fs_heap s)"
    and i: "en_id (entry s r) = i" "call_id fe call = i" "en_state (entry s r) \<noteq> None"
    and st: "af_actorId st = i" "d i = Some (meta st)" and w: "is_writer call"
    and c: "\<And>n k inp. call = CreateActor n k inp \<Longrightarrow> named d i n k"
  shows "answers fe d s (writeActor fe i st call r s)"
proof -
  have saved: "file_ok fe d i b" if "serializeWithEmbeddedVersion (fe_stateCoder fe) st = Inr b" for b
    using read_back [OF f that] st by (simp add: file_ok_def)
  have "answer_ok fe d (call, case call of
          GetOrCreateWithKey name key input \<Rightarrow>
            (case en_state (entry s r) of
               Some st \<Rightarrow> ActorOutput (af_actorId st) (af_name st) (af_key st)
             | None \<Rightarrow> Failed (invariant_error ''must have state''))
        | CreateActor name key input \<Rightarrow> ActorOutput (generateActorId fe name key) name key
        | _ \<Rightarrow> Void)"
    using w i st c holds_state [OF h r]
    by (cases call) (auto simp: answer_ok_def output_ok_def is_writer_def named_def meta_def split: option.split)
  then show ?thesis
    using h r i w c saved
    by (auto simp: writeActor_def performWrite_def written_def split: option.split sum.split fs_call.split)
qed

lemma written_writeActor_view:
  assumes f: "bare_faithful (fe_stateCoder fe)" and h: "holds fe d s" and r: "r < length (fs_heap s)"
    and i: "en_id (entry s r) = i" "call_id fe call = i" and new: "d i = None"
    and st: "af_actorId st = i" and w: "is_writer call"
    and c: "\<And>n k inp. call = CreateActor n k inp \<Longrightarrow> af_name st = n \<and> af_key st = k"
  shows "leads fe d s (writeActor fe i st call r (upd_entry r (\<lambda>e. e\<lparr>en_state := Some st\<rparr>) s))"
proof -
  let ?s = "upd_entry r (\<lambda>e. e\<lparr>en_state := Some st\<rparr>) s"
  have "holds fe (d(i \<mapsto> meta st)) ?s" using holds_set_state [OF h r i(1) st] new by simp
  then have "answers fe (d(i \<mapsto> meta st)) ?s (writeActor fe i st call r ?s)"
    using r i st w c by (intro answers_write [OF f]) (auto simp: entry_upd named_def meta_def)
  then have "answers fe (d(i \<mapsto> meta st)) s (writeActor fe i st call r ?s)"
    by (rule answers_from [rotated]) simp
  then show ?thesis using new unfolding leads_def by blast
qed

lemma new_state_fields:
  "new_state fe i n k inp now = Inr st \<Longrightarrow> af_actorId st = i \<and> af_name st = n \<and> af_key st = k"
  by (auto simp: new_state_def andThen_Inr)

text \<open>An entry without a state, its load settled, is that of an actor that does not exist.\<close>

lemma absent:
  assumes h: "holds fe d s" and r: "r < length (fs_heap s)" "en_state (entry s r) = None"
    and disk: "jm_get (fs_disk s) (en_id (entry s r)) = None"
  shows "d (en_id (entry s r)) = None"
proof (rule ccontr)
  assume "d (en_id (entry s r)) \<noteq> None"
  then obtain m where "d (en_id (entry s r)) = Some m" by blast
  then show False using holds_covered [OF h _ disk] holds_live [OF h r] r(2) by fastforce
qed

lemma leads_create:
  assumes f: "bare_faithful (fe_stateCoder fe)" and h: "holds fe d s"
    and g: "jm_has (fs_actors s) (generateActorId fe n k) \<or> jm_get (fs_disk s) (generateActorId fe n k) = None"
  shows "leads fe d s (createActor fe now n k inp s)"
proof (cases "jm_has (fs_actors s) (generateActorId fe n k)")
  case True
  then show ?thesis using h by (auto simp: createActor_def Let_def intro!: answers_leads)
next
  case False
  let ?i = "generateActorId fe n k"
  obtain r s1 where u: "upsertEntry ?i s = (r, s1)" by (cases "upsertEntry ?i s")
  have s1: "holds fe d s1" "r < length (fs_heap s1)" "en_id (entry s1 r) = ?i" and out: "fs_out s1 = fs_out s"
    using holds_upsert [OF h u] upsertEntry_out(1) [of ?i s] u by auto
  have "en_state (entry s1 r) = None" "fs_disk s1 = fs_disk s"
    using False u by (auto simp: upsertEntry_def jm_has_def new_entry_def split: option.splits)
  then have new: "d ?i = None" using absent [OF s1(1,2)] s1(3) g False by simp
  have "leads fe d s1 (createActor fe now n k inp s)"
  proof (cases "new_state fe ?i n k inp now")
    case (Inl e)
    then show ?thesis using False s1 by (auto simp: createActor_def Let_def u intro!: answers_leads)
  next
    case (Inr st)
    then show ?thesis
      using False written_writeActor_view [OF f s1(1,2), of ?i "CreateActor n k inp" st] s1(3) new new_state_fields [OF Inr]
      by (simp add: createActor_def Let_def u is_writer_def)
  qed
  then show ?thesis by (rule leads_from [OF out])
qed

lemma leads_load_or_create:
  assumes f: "bare_faithful (fe_stateCoder fe)" and h: "holds fe d s" and r: "r < length (fs_heap s)"
    and i: "en_id (entry s r) = generateActorId fe n k"
    and a: "en_state (entry s r) = None \<Longrightarrow> d (en_id (entry s r)) = None"
  shows "leads fe d s (loadOrCreateActor fe now n k inp r s)"
proof (cases "en_state (entry s r)")
  case (Some st)
  then have "answer_ok fe d (GetOrCreateWithKey n k inp, ActorOutput (af_actorId st) (af_name st) (af_key st))"
    using holds_state [OF h r Some] i by (simp add: answer_ok_def output_ok_def named_def meta_def)
  then show ?thesis using Some h by (auto simp: loadOrCreateActor_def written_def intro!: answers_leads)
next
  case None
  show ?thesis
  proof (cases "new_state fe (generateActorId fe n k) n k inp now")
    case (Inl e)
    then show ?thesis using None h by (auto simp: loadOrCreateActor_def Let_def intro!: answers_leads)
  next
    case (Inr st)
    then show ?thesis
      using None written_writeActor_view [OF f h r i, of "GetOrCreateWithKey n k inp" st] a i new_state_fields [OF Inr]
      by (simp add: loadOrCreateActor_def Let_def is_writer_def)
  qed
qed

subsection \<open>Starting, sleeping and alarms\<close>

lemma starter_ok:
  "is_starter call \<or> is_sleep call \<Longrightarrow> d (call_id fe call) \<noteq> None \<Longrightarrow>
     answer_ok fe d (call, Instance a) \<and> answer_ok fe d (call, OnAlarm a)"
  by (cases call) (auto simp: is_starter_def is_sleep_def answer_ok_def)

lemma answers_started:
  assumes h: "holds fe d s" and r: "r < length (fs_heap s)" "en_id (entry s r) = call_id fe call"
    "en_state (entry s r) \<noteq> None" and c: "is_starter call \<or> is_sleep call"
  shows "answers fe d s (started call r s)"
proof -
  obtain st where "en_state (entry s r) = Some st" using r(3) by blast
  then have d: "d (call_id fe call) \<noteq> None" using holds_state [OF h r(1)] r(2) by auto
  have "answer_ok fe d (call, res)"
    if "res \<in> {Failed e, Failed e', Instance a, OnAlarm a'}" for res e e' a a'
    using that starter_ok [OF c, of d fe] d by auto
  then show ?thesis unfolding started_def
    by (intro answers_finish [OF h]) (auto split: option.split fs_call.split)
qed

lemma holds_start_settled:
  "holds fe d s \<Longrightarrow> r < length (fs_heap s) \<Longrightarrow> en_state (entry s r) \<noteq> None \<Longrightarrow>
     holds fe d (upd_entry r (\<lambda>e. e\<lparr>en_start := None\<rparr>) (settle_start p v s))"
  by (intro holds_upd_same [OF _ _ refl]) (auto simp: settle_start_def)

lemma answers_start_failed:
  assumes h: "holds fe d s" and r: "r < length (fs_heap s)" "en_state (entry s r) \<noteq> None"
  shows "answers fe d s (start_failed fe call r p e s)"
proof -
  have a: "answers fe d s (finish call (Failed err) (upd_entry r (\<lambda>e. e\<lparr>en_start := None\<rparr>)
      (settle_start p v s')))" if s': "s' = s \<or> s' = s\<lparr>fs_unhandled := u\<rparr>" for err v s' u
  proof -
    have "holds fe d s'" "r < length (fs_heap s')" "en_state (entry s' r) \<noteq> None" "fs_out s' = fs_out s"
      using s' h r by auto
    then show ?thesis
      by (intro answers_from [OF _ answers_finish [OF holds_start_settled]]) (simp_all add: settle_start_def)
  qed
  have "answers fe d s (finish call (Failed err) (upd_entry r (\<lambda>e. e\<lparr>en_start := None\<rparr>) (settle_start p v s)))"
    "answers fe d s (finish call (Failed err) (upd_entry r (\<lambda>e. e\<lparr>en_start := None\<rparr>)
       (settle_start p v (s\<lparr>fs_unhandled := u\<rparr>))))" for err v u
    using a [of s] a [of "s\<lparr>fs_unhandled := u\<rparr>" u] by blast+
  then show ?thesis by (simp add: start_failed_def Let_def)
qed

lemma answers_startActor:
  assumes h: "holds fe d s" and r: "r < length (fs_heap s)" "en_id (entry s r) = call_id fe call" and c: "is_starter call"
  shows "answers fe d s (startActor fe call r s)"
proof (cases "en_state (entry s r)")
  case None
  then show ?thesis using h by (auto simp: startActor_def)
next
  case (Some st)
  show ?thesis
  proof (cases "en_start (entry s r) \<noteq> None \<or> en_actor (entry s r) \<noteq> None")
    case True
    then show ?thesis
      using Some h r c answers_started [OF h r] by (auto simp: startActor_def split: option.split)
  next
    case False
    let ?p = "length (fs_starts s)"
    let ?s1 = "upd_entry r (\<lambda>e. e\<lparr>en_start := Some ?p\<rparr>) (s\<lparr>fs_starts := fs_starts s @ [Pending]\<rparr>)"
    let ?s2 = "upd_entry r (\<lambda>e. e\<lparr>en_actor := Some (fs_nextInstance s)\<rparr>) (?s1\<lparr>fs_nextInstance := Suc (fs_nextInstance s)\<rparr>)"
    have h1: "holds fe d ?s1" using h r Some by (intro holds_upd_same [OF _ _ refl]) auto
    have e1: "entry ?s1 r = (entry s r)\<lparr>en_start := Some ?p\<rparr>" using r by (simp add: upd_entry_def)
    have h2: "holds fe d ?s2" using h1 r Some by (intro holds_upd_same [OF _ _ refl]) (auto simp: upd_entry_def)
    have "answers fe d s (start_failed fe call r ?p e ?s1)" for e
      using r Some by (intro answers_from [OF _ answers_start_failed [OF h1]]) (auto simp: e1)
    moreover have "answers fe d s (await call (AwaitInstance ?p r) ?s2)"
      using r Some c by (intro answers_from [OF _ answers_await [OF h2]]) (auto simp: upd_entry_def)
    ultimately show ?thesis using False Some by (simp add: startActor_def Let_def)
  qed
qed

lemma answers_sleep_stop:
  assumes h: "holds fe d s" and r: "r < length (fs_heap s)"
  shows "answers fe d s (sleep_stop i r s)"
proof -
  let ?s = "upd_entry r (\<lambda>e. e\<lparr>en_removed := True\<rparr>) s"
  have h1: "holds fe d ?s"
    using h r holds_entry [OF h r] by (intro holds_upd_same [OF _ _ refl]) (auto simp: entry_ok_def)
  have "en_actor (entry s r) \<noteq> None \<Longrightarrow> en_state (entry s r) \<noteq> None"
    using holds_entry [OF h r] by (auto simp: entry_ok_def)
  then have "en_actor (entry s r) \<noteq> None \<Longrightarrow> answers fe d s (await (SleepActor i) (AwaitStop r) ?s)"
    using r by (intro answers_from [OF _ answers_await [OF h1]]) (auto simp: upd_entry_def)
  moreover have "answers fe d s (finish (SleepActor i) (Failed e) ?s)" for e
    by (intro answers_from [OF _ answers_finish [OF h1]]) auto
  ultimately show ?thesis by (simp add: sleep_stop_def Let_def)
qed

lemma answers_sleep_loaded:
  assumes h: "holds fe d s" and r: "r < length (fs_heap s)" "en_id (entry s r) = i"
  shows "answers fe d s (sleep_loaded i r s)"
proof -
  have "en_start (entry s r) \<noteq> None \<Longrightarrow> en_state (entry s r) \<noteq> None"
    using holds_entry [OF h r(1)] by (auto simp: entry_ok_def)
  then show ?thesis
    using answers_sleep_stop [OF h r(1)] h r
    by (auto simp: sleep_loaded_def is_sleep_def split: option.split intro!: answers_await)
qed

lemma answers_sleep:
  assumes h: "holds fe d s"
  shows "answers fe d s (sleepActor fe i s)"
proof (cases "jm_get (fs_actors s) i")
  case None
  then show ?thesis using h by (auto simp: sleepActor_def)
next
  case (Some r)
  have r: "r < length (fs_heap s)" "en_id (entry s r) = i" using holds_actor [OF h Some] by simp_all
  have "wait_ok fe d s (SleepActor i) (AwaitLoad (en_load (entry s r)) r)"
    using holds_entry [OF h r(1)] r by (auto simp: entry_ok_def is_sleep_def split: option.split)
  then show ?thesis using Some h by (auto simp: sleepActor_def)
qed

lemma holds_schedule:
  assumes h: "holds fe d s"
  shows "holds fe d (scheduleAlarmTimeout i t s) \<and> fs_out (scheduleAlarmTimeout i t s) = fs_out s"
proof -
  obtain r s1 where u: "upsertEntry i s = (r, s1)" by (cases "upsertEntry i s")
  have s1: "holds fe d s1" "r < length (fs_heap s1)" and out: "fs_out s1 = fs_out s"
    using holds_upsert [OF h u] upsertEntry_out(1) [of i s] u by auto
  have "holds fe d (upd_entry r (\<lambda>e. e\<lparr>en_alarmTimestamp := x, en_alarm := y\<rparr>) (s1\<lparr>fs_timers := ts, fs_nextTimer := n\<rparr>))"
    for x y ts n
    using s1 holds_entry [OF s1] by (intro holds_upd_same [OF _ _ refl]) (auto simp: entry_ok_def)
  then show ?thesis using s1 out by (simp add: scheduleAlarmTimeout_def u)
qed

lemma answers_set_alarm:
  assumes h: "holds fe d s"
  shows "answers fe d s (setActorAlarm fe i t s)"
proof -
  have "answers fe d s (finish (SetAlarm i t) Void (scheduleAlarmTimeout i t s))"
    using holds_schedule [OF h, of i t] by (intro answers_from [OF _ answers_finish]) (auto simp: answer_ok_def)
  then show ?thesis using h by (auto simp: setActorAlarm_def Let_def split: option.split sum.split)
qed

lemma holds_runner_start:
  assumes h: "holds fe d s"
  shows "answers fe d s (onRunnerStart fe s)"
proof -
  have l: "holds fe d s \<Longrightarrow> holds fe d (load_alarm fe f s) \<and> fs_out (load_alarm fe f s) = fs_out s" for f s
    using holds_schedule [of fe d s] by (auto simp: load_alarm_def split: prod.split sum.split)
  have "holds fe d s \<Longrightarrow> holds fe d (fold (load_alarm fe) fs s) \<and> fs_out (fold (load_alarm fe) fs s) = fs_out s" for fs s
  proof (induction fs arbitrary: s)
    case (Cons f fs)
    then show ?case using l [of s f] Cons.IH [of "load_alarm fe f s"] by simp
  qed simp
  then show ?thesis using h by (auto simp: onRunnerStart_def)
qed

lemma answers_alarm_fired:
  assumes h: "holds fe d s"
  shows "answers fe d s (alarm_fired fe k s)"
proof (cases "jm_get (fs_timers s) k")
  case None
  then show ?thesis using h by (auto simp: alarm_fired_def)
next
  case (Some p)
  obtain r t where p: "p = (r, t)" by (cases p)
  let ?s = "upd_entry r (\<lambda>e. e\<lparr>en_alarmTimestamp := None\<rparr>) (s\<lparr>fs_timers := jm_del k (fs_timers s)\<rparr>)"
  have h1: "holds fe d ?s"
  proof (cases "r < length (fs_heap s)")
    case True
    then show ?thesis
      using h holds_entry [OF h True] by (intro holds_upd_same [OF _ _ refl]) (auto simp: entry_ok_def)
  next
    case False
    then show ?thesis using h by (subst holds_cong [of _ s]) (simp_all add: upd_entry_def list_update_beyond)
  qed
  have "answers fe d s (await (AlarmTimer i) AwaitUnlink ?s)" for i
    by (intro answers_from [OF _ answers_await [OF h1]]) auto
  moreover have "answers fe d s (loadActor fe i (AlarmTimer i) ?s)" for i
    by (intro answers_from [OF _ answers_load [OF h1]]) auto
  ultimately show ?thesis using Some p by (simp add: alarm_fired_def Let_def)
qed

subsection \<open>Waiting calls\<close>

lemma leads_loaded:
  assumes f: "bare_faithful (fe_stateCoder fe)" and h: "holds fe d s" and r: "r < length (fs_heap s)"
    and i: "en_id (entry s r) = call_id fe call"
    and a: "\<not> is_sleep call \<Longrightarrow> en_state (entry s r) = None \<Longrightarrow> jm_get (fs_disk s) (call_id fe call) = None"
  shows "leads fe d s (loaded_call fe now call r s)"
proof -
  have none: "\<not> is_sleep call \<Longrightarrow> en_state (entry s r) = None \<Longrightarrow> d (call_id fe call) = None"
    using absent [OF h r] i a by simp
  have some: "en_state (entry s r) = Some st \<Longrightarrow> af_actorId st = call_id fe call \<and> d (call_id fe call) = Some (meta st)" for st
    using holds_state [OF h r] i by simp
  show ?thesis
  proof (cases call)
    case (GetOrCreateWithKey n k inp)
    then show ?thesis
      using leads_load_or_create [OF f h r] i none by (simp add: loaded_call_def is_sleep_def)
  next
    case (WritePersistedData j b)
    then have "answers fe d s (writeActor fe j (st\<lparr>af_persistedData := b\<rparr>) call r s)"
      if "en_state (entry s r) = Some st" for st
      using some [OF that] i that by (intro answers_write [OF f h r]) (auto simp: is_writer_def meta_def)
    then show ?thesis
      using WritePersistedData h by (auto simp: loaded_call_def intro!: answers_leads split: option.split)
  next
    case (StartActor j)
    then show ?thesis
      using answers_startActor [OF h r i] by (simp add: loaded_call_def is_starter_def answers_leads)
  next
    case (AlarmStart j r0)
    then show ?thesis
      using answers_startActor [OF h r i] by (simp add: loaded_call_def is_starter_def answers_leads)
  next
    case (SleepActor j)
    then show ?thesis using answers_sleep_loaded [OF h r] i by (simp add: loaded_call_def answers_leads)
  next
    case (AlarmTimer j)
    have "answers fe d s (loadActor fe j (AlarmStart j r) s)" by (rule answers_load [OF h]) simp
    then show ?thesis
      using AlarmTimer h some
      by (auto simp: loaded_call_def alarm_loaded_def answer_ok_def intro!: answers_leads split: option.split)
  qed (use h none some in \<open>auto simp: loaded_call_def answer_ok_def output_ok_def named_def meta_def is_sleep_def
      intro!: answers_leads split: option.split\<close>)
qed

lemma leads_resume:
  assumes f: "bare_faithful (fe_stateCoder fe)" and h: "holds fe d s"
  shows "leads fe d s (resume fe now c s)"
proof -
  let ?s = "s\<lparr>fs_calls := jm_del c (fs_calls s)\<rparr>"
  have h1: "holds fe d ?s" using h by simp
  have fail: "leads fe d s (finish call (Failed e) ?s)" for call e
    by (intro answers_leads answers_from [OF _ answers_finish [OF h1]]) auto
  have same: "leads fe d s s" using h by (auto intro!: answers_leads)
  have load: "leads fe d s (resume fe now c s)" if c: "jm_get (fs_calls s) c = Some (call, AwaitLoad l r)" for call l r
  proof -
    have w: "wait_ok fe d s call (AwaitLoad l r)" by (rule holds_wait [OF h c])
    let ?v = "case l of None \<Rightarrow> Fulfilled | Some l' \<Rightarrow> snd (fs_loads s ! l')"
    have "jm_get (fs_disk s) (call_id fe call) = None"
      if v: "?v = Fulfilled" and n: "\<not> is_sleep call" "en_state (entry s r) = None"
    proof (cases l)
      case None
      then show ?thesis using w n holds_persist [OF h] by auto
    next
      case (Some l')
      then show ?thesis using w n v holds_load [OF h, of l'] by (auto simp: load_ok_def split: prod.splits)
    qed
    then have "?v = Fulfilled \<Longrightarrow> leads fe d ?s (loaded_call fe now call r ?s)"
      using w by (intro leads_loaded [OF f h1]) auto
    then have "?v = Fulfilled \<Longrightarrow> leads fe d s (loaded_call fe now call r ?s)"
      by (intro leads_from [of ?s s]) simp_all
    then show ?thesis using c fail same by (cases ?v) (simp_all add: resume_def go_on_def)
  qed
  have start: "leads fe d s (resume fe now c s)" if c: "jm_get (fs_calls s) c = Some (call, AwaitStart p r)" for call p r
  proof -
    have w: "wait_ok fe d ?s call (AwaitStart p r)"
      using holds_wait [OF h c] by (simp add: wait_ok_cong)
    have "leads fe d s (started call r ?s)"
      using w by (intro answers_leads answers_from [OF _ answers_started [OF h1]]) auto
    moreover have "leads fe d s (sleep_stop i r ?s)" for i
      using w by (intro answers_leads answers_from [OF _ answers_sleep_stop [OF h1]]) auto
    ultimately show ?thesis
      using c fail same by (cases "fs_starts s ! p"; cases call) (simp_all add: resume_def go_on_def)
  qed
  show ?thesis
    using load start same by (auto simp: resume_def split: option.split prod.split fs_wait.split)
qed

lemma answers_written_file:
  assumes h: "holds fe d s" and c: "jm_get (fs_calls s) c = Some (call, AwaitWrite i b r)"
  shows "answers fe d s (written fe call r (s\<lparr>fs_calls := jm_del c (fs_calls s), fs_disk := jm_set i b (fs_disk s)\<rparr>))"
proof -
  have w: "wait_ok fe d s call (AwaitWrite i b r)" by (rule holds_wait [OF h c])
  let ?s = "s\<lparr>fs_calls := jm_del c (fs_calls s), fs_disk := jm_set i b (fs_disk s)\<rparr>"
  have h1: "holds fe d ?s"
    using holds_written [OF holds_drop_call [OF h, of c], of i b] w by auto
  have d: "d (call_id fe call) \<noteq> None" using w by (auto simp: file_ok_def meta_def)
  have "answer_ok fe d (call, case call of
          GetOrCreateWithKey name key input \<Rightarrow>
            (case en_state (entry ?s r) of
               Some st \<Rightarrow> ActorOutput (af_actorId st) (af_name st) (af_key st)
             | None \<Rightarrow> Failed (invariant_error ''must have state''))
        | CreateActor name key input \<Rightarrow> ActorOutput (generateActorId fe name key) name key
        | _ \<Rightarrow> Void)"
    using w d holds_state [OF h, of r]
    by (cases call) (auto simp: answer_ok_def output_ok_def is_writer_def named_def meta_def split: option.split)
  then show ?thesis unfolding written_def by (intro answers_from [OF _ answers_finish [OF h1]]) simp_all
qed

text \<open>Which events the directory is promised for: \<open>createActor\<close> does not look on the disk, and
  \<open>sleepActor\<close> forgets the entry in memory, which is safe when the actor has been written.\<close>

definition fs_allowed :: "fs_env \<Rightarrow> fs_event \<Rightarrow> fs \<Rightarrow> bool" where
  "fs_allowed fe e s =
     (case e of
        Call now (CreateActor n k inp) \<Rightarrow>
          jm_has (fs_actors s) (generateActorId fe n k) \<or> jm_get (fs_disk s) (generateActorId fe n k) = None
      | Answer None c \<Rightarrow>
          (case jm_get (fs_calls s) c of
             Some (SleepActor i, AwaitStop r) \<Rightarrow> jm_get (fs_actors s) i = Some r \<and> jm_get (fs_disk s) i \<noteq> None
           | _ \<Rightarrow> True)
      | _ \<Rightarrow> True)"

lemma answers_stopped:
  assumes h: "holds fe d s" and c: "jm_get (fs_calls s) c = Some (SleepActor i, AwaitStop r)"
    and g: "jm_get (fs_actors s) i = Some r" "jm_get (fs_disk s) i \<noteq> None"
  shows "answers fe d s (sleep_stopped i (s\<lparr>fs_calls := jm_del c (fs_calls s)\<rparr>))"
proof -
  let ?s = "s\<lparr>fs_calls := jm_del c (fs_calls s)\<rparr>"
  have "en_state (entry s r) \<noteq> None" using holds_wait [OF h c] by simp
  then have "holds fe d (?s\<lparr>fs_actors := jm_del i (fs_actors ?s)\<rparr>)"
    using g h by (intro holds_removed [of fe d ?s i r]) auto
  then have "holds fe d (?s\<lparr>fs_actors := jm_del i (fs_actors s)\<rparr>)" by simp
  then show ?thesis
    unfolding sleep_stopped_def
    by (intro answers_from [OF _ answers_finish]) (simp_all add: answer_ok_def)
qed

lemma answers_instance:
  assumes h: "holds fe d s" and c: "jm_get (fs_calls s) c = Some (call, AwaitInstance p r)"
  shows "answers fe d s (start_succeeded call r p (s\<lparr>fs_calls := jm_del c (fs_calls s)\<rparr>))"
    and "answers fe d s (start_failed fe call r p e (s\<lparr>fs_calls := jm_del c (fs_calls s)\<rparr>))"
proof -
  let ?s = "s\<lparr>fs_calls := jm_del c (fs_calls s)\<rparr>"
  have w: "r < length (fs_heap s)" "en_id (entry s r) = call_id fe call" "en_state (entry s r) \<noteq> None" "is_starter call"
    using holds_wait [OF h c] by auto
  have h1: "holds fe d ?s" using h by simp
  show "answers fe d s (start_failed fe call r p e ?s)"
    using w by (intro answers_from [OF _ answers_start_failed [OF h1]]) simp_all
  have "holds fe d (upd_entry r (\<lambda>e. e\<lparr>en_start := None\<rparr>) (settle_start p Fulfilled ?s))"
    using w by (intro holds_start_settled [OF h1]) simp_all
  then show "answers fe d s (start_succeeded call r p ?s)"
    unfolding start_succeeded_def
    using w by (intro answers_from [OF _ answers_started]) (simp_all add: settle_start_def entry_upd)
qed

lemma answers_answer:
  assumes h: "holds fe d s" and g: "fs_allowed fe (Answer err c) s"
  shows "answers fe d s (answer fe err c s)"
proof (cases "jm_get (fs_calls s) c")
  case None
  then show ?thesis using h by (auto simp: answer_def)
next
  case (Some p)
  obtain call w where p: "p = (call, w)" by (cases p)
  note c = Some [unfolded p]
  let ?s = "s\<lparr>fs_calls := jm_del c (fs_calls s)\<rparr>"
  have h1: "holds fe d ?s" using h by simp
  have same: "answers fe d s s" and same': "answers fe d s ?s" using h by auto
  have fail: "answers fe d s (finish call (Failed e) ?s)" for call e
    by (intro answers_from [OF _ answers_finish [OF h1]]) auto
  have load: "answers fe d s (loadActor fe i (AlarmTimer i) (?s\<lparr>fs_alarmFiles := f\<rparr>))" for i f
    using h1 by (intro answers_from [OF _ answers_load]) simp_all
  have load': "answers fe d s (loadActor fe i (AlarmTimer i) ?s)" for i
    using h1 by (intro answers_from [OF _ answers_load]) simp_all
  have alarm: "answers fe d s (finish (SetAlarm i t) Void (scheduleAlarmTimeout i t (?s\<lparr>fs_alarmFiles := f\<rparr>)))" for i t f
    using holds_schedule [of fe d "?s\<lparr>fs_alarmFiles := f\<rparr>" i t] h1
    by (intro answers_from [OF _ answers_finish]) (simp_all add: answer_ok_def)
  have "answers fe d s (answer_call fe err call w ?s)"
  proof (cases w)
    case (AwaitWrite i b r)
    then show ?thesis
      using fail answers_written_file [OF h c [unfolded AwaitWrite]]
      by (cases err) (simp_all add: answer_call_def)
  next
    case (AwaitInstance p r)
    then show ?thesis
      using answers_instance [OF h c [unfolded AwaitInstance]]
      by (cases err) (simp_all add: answer_call_def)
  next
    case (AwaitStop r)
    have "answers fe d s (sleep_stopped i ?s)" if "call = SleepActor i" "err = None" for i
      using answers_stopped [of fe d s c i r] c AwaitStop g h that by (simp add: fs_allowed_def)
    then show ?thesis
      using AwaitStop fail same' by (auto simp: answer_call_def split: fs_call.split option.split)
  next
    case (AwaitAlarmWrite b)
    then show ?thesis
      using fail alarm same' by (auto simp: answer_call_def split: fs_call.split option.split)
  next
    case AwaitUnlink
    then show ?thesis
      using load load' same' by (auto simp: answer_call_def split: fs_call.split)
  qed (use same' in \<open>simp_all add: answer_call_def\<close>)
  then show ?thesis using c same by (simp add: answer_def)
qed

text \<open>A read brings the state of the file or, when there is none, finds the actor absent.\<close>

lemma answers_read:
  assumes h: "holds fe d s"
  shows "answers fe d s (read_file fe err l s)"
proof (cases "l < length (fs_loads s) \<and> snd (fs_loads s ! l) = Pending")
  case False
  then show ?thesis using h by (auto simp: read_file_def)
next
  case True
  then have l: "l < length (fs_loads s)" by simp
  let ?r = "fst (fs_loads s ! l)"
  have r: "?r < length (fs_heap s)" using holds_load [OF h l] by (auto simp: load_ok_def split: prod.splits)
  have fail: "answers fe d s (settle_load l (Rejected e) s)" for e
    by (rule answers_keep [OF holds_settle [OF h l]]) (simp_all add: settle_load_def)
  show ?thesis
  proof (cases "err = None")
    case False
    then show ?thesis using True fail by (auto simp: read_file_def loadActorState_def Let_def)
  next
    case ok: True
    show ?thesis
    proof (cases "jm_get (fs_disk s) (en_id (entry s ?r))")
      case None
      let ?s = "upd_entry ?r (\<lambda>e. e\<lparr>en_load := None\<rparr>) s"
      have h1: "holds fe d ?s"
        using holds_entry [OF h r] by (intro holds_upd_same [OF h r refl]) (auto simp: entry_ok_def)
      have "holds fe d (settle_load l Fulfilled ?s)"
        using l None r by (intro holds_settle [OF h1]) (simp_all add: entry_upd)
      then show ?thesis
        using True ok None
        by (auto simp: read_file_def loadActorState_def Let_def settle_load_def intro!: answers_keep)
    next
      case (Some b)
      then obtain st where st: "deserializeWithEmbeddedVersion (fe_stateCoder fe) b = Inr st"
        "af_actorId st = en_id (entry s ?r)" "d (en_id (entry s ?r)) = Some (meta st)"
        using holds_file [OF h Some] by (auto simp: file_ok_def)
      let ?s = "upd_entry ?r (\<lambda>e. e\<lparr>en_state := Some st\<rparr>) s"
      have "d(en_id (entry s ?r) \<mapsto> meta st) = d" using st(3) by (simp add: fun_upd_idem)
      then have h1: "holds fe d ?s" using holds_set_state [OF h r refl st(2)] st(3) by simp
      have "holds fe d (settle_load l Fulfilled ?s)"
        using l r by (intro holds_settle [OF h1]) (simp_all add: entry_upd)
      then show ?thesis
        using True ok Some st(1)
        by (auto simp: read_file_def loadActorState_def Let_def settle_load_def intro!: answers_keep)
    qed
  qed
qed

lemma leads_step:
  assumes f: "bare_faithful (fe_stateCoder fe)" and h: "holds fe d s" and g: "fs_allowed fe e s"
  shows "leads fe d s (fs_step fe e s)"
proof (cases e)
  case (Call now call)
  have load: "leads fe d s (loadActor fe i call s)" if "call_id fe call = i" for i
    by (rule answers_leads [OF answers_load [OF h that]])
  show ?thesis
    using Call load answers_leads [OF answers_sleep [OF h]] leads_create [OF f h] answers_set_alarm [OF h] g h
    by (cases call) (auto simp: begin_call_def fs_allowed_def intro!: answers_leads)
next
  case (Resume now c)
  then show ?thesis using leads_resume [OF f h] by simp
next
  case (Answer err c)
  then show ?thesis using answers_answer [OF h] g by (simp add: answers_leads)
next
  case (ReadFile err l)
  then show ?thesis using answers_read [OF h] by (simp add: answers_leads)
next
  case (AlarmFires k)
  then show ?thesis using answers_alarm_fired [OF h] by (simp add: answers_leads)
next
  case RunnerStart
  then show ?thesis using holds_runner_start [OF h] by (simp add: answers_leads)
qed

section \<open>Reachable states\<close>

text \<open>The files a process may find: those of a driver before it.\<close>

definition valid_files :: "fs_env \<Rightarrow> (string \<times> bytes) list \<Rightarrow> bool" where
  "valid_files fe files =
     ((fe_persist fe \<or> files = [])
      \<and> (\<forall>(i, b) \<in> set files.
            case deserializeWithEmbeddedVersion (fe_stateCoder fe) b of Inl e \<Rightarrow> False | Inr st \<Rightarrow> af_actorId st = i))"

inductive fs_reachable :: "fs_env \<Rightarrow> fs \<Rightarrow> bool" for fe where
  boot: "valid_files fe files \<Longrightarrow> fs_reachable fe (fs_boot files alarms)"
| step: "fs_reachable fe s \<Longrightarrow> fs_allowed fe e s \<Longrightarrow> fs_reachable fe (fs_step fe e s)"

lemma holds_boot: "valid_files fe files \<Longrightarrow> holds fe (fs_directory fe (fs_boot files alarms)) (fs_boot files alarms)"
  by (rule holdsI)
    (auto simp: fs_boot_def fs_directory_def file_ok_def file_meta_def valid_files_def bind_eq_Some_conv
      split: sum.splits dest!: map_of_SomeD)

lemma holds_reachable:
  "fs_reachable fe s \<Longrightarrow> bare_faithful (fe_stateCoder fe) \<Longrightarrow> holds fe (fs_directory fe s) s"
proof (induction rule: fs_reachable.induct)
  case (boot files alarms)
  then show ?case by (simp add: holds_boot)
next
  case (step s e)
  then have "leads fe (fs_directory fe s) s (fs_step fe e s)" by (intro leads_step)
  then obtain d where "holds fe d (fs_step fe e s)" by (auto simp: leads_def answers_def)
  then show ?case using holds_directory by metis
qed


end
