(* ===== verification/FsAlarms.thy ===== *)
theory FsAlarms
  imports FsState
begin

text \<open>
  The alarm timers of the file-system driver: at every moment an actor's entry has one timer, at the
  time the entry notes, or none; a completed \<open>setAlarm\<close> leaves one no later than was asked for.
\<close>

section \<open>The timers and what the entries note of them\<close>

definition timer_view :: "fs \<Rightarrow> (nat option \<times> rat option) list \<times> (nat \<times> (nat \<times> rat)) list \<times> nat \<times> (string \<times> nat) list" where
  "timer_view s =
     (map (\<lambda>e. (en_alarm e, en_alarmTimestamp e)) (fs_heap s), fs_timers s, fs_nextTimer s, fs_actors s)"

definition timers_ok :: "fs \<Rightarrow> bool" where
  "timers_ok s =
     (distinct (map fst (fs_timers s)) \<and> (\<forall>i r. jm_get (fs_actors s) i = Some r \<longrightarrow> r < length (fs_heap s))
      \<and> list_all (\<lambda>(k, r, t). k < fs_nextTimer s \<and> r < length (fs_heap s)
           \<and> en_alarm (entry s r) = Some k \<and> en_alarmTimestamp (entry s r) = Some t) (fs_timers s)
      \<and> (\<forall>r < length (fs_heap s). \<forall>k. en_alarm (entry s r) = Some k \<longrightarrow> k < fs_nextTimer s
           \<and> (\<forall>r' t. (k, r', t) \<in> set (fs_timers s) \<longrightarrow> r' = r))
      \<and> (\<forall>r < length (fs_heap s). \<forall>t. en_alarmTimestamp (entry s r) = Some t \<longrightarrow>
           (\<exists>k. en_alarm (entry s r) = Some k \<and> (k, r, t) \<in> set (fs_timers s))))"

lemma timers_okD:
  assumes "timers_ok s"
  shows "distinct (map fst (fs_timers s))"
    and "(k, r, t) \<in> set (fs_timers s) \<Longrightarrow> k < fs_nextTimer s \<and> r < length (fs_heap s)
      \<and> en_alarm (entry s r) = Some k \<and> en_alarmTimestamp (entry s r) = Some t"
    and "r < length (fs_heap s) \<Longrightarrow> en_alarm (entry s r) = Some k \<Longrightarrow> k < fs_nextTimer s"
    and "r < length (fs_heap s) \<Longrightarrow> en_alarm (entry s r) = Some k \<Longrightarrow> (k, r', t) \<in> set (fs_timers s) \<Longrightarrow> r' = r"
    and "r < length (fs_heap s) \<Longrightarrow> en_alarmTimestamp (entry s r) = Some t \<Longrightarrow>
      \<exists>k. en_alarm (entry s r) = Some k \<and> (k, r, t) \<in> set (fs_timers s)"
    and "jm_get (fs_actors s) i = Some r \<Longrightarrow> r < length (fs_heap s)"
  using assms unfolding timers_ok_def list_all_iff by blast+

lemma timers_okI:
  assumes "distinct (map fst (fs_timers s))"
    and "\<And>k r t. (k, r, t) \<in> set (fs_timers s) \<Longrightarrow> k < fs_nextTimer s \<and> r < length (fs_heap s)
      \<and> en_alarm (entry s r) = Some k \<and> en_alarmTimestamp (entry s r) = Some t"
    and "\<And>r k. r < length (fs_heap s) \<Longrightarrow> en_alarm (entry s r) = Some k \<Longrightarrow> k < fs_nextTimer s"
    and "\<And>r k r' t. r < length (fs_heap s) \<Longrightarrow> en_alarm (entry s r) = Some k \<Longrightarrow> (k, r', t) \<in> set (fs_timers s) \<Longrightarrow> r' = r"
    and "\<And>r t. r < length (fs_heap s) \<Longrightarrow> en_alarmTimestamp (entry s r) = Some t \<Longrightarrow>
      \<exists>k. en_alarm (entry s r) = Some k \<and> (k, r, t) \<in> set (fs_timers s)"
    and "\<And>i r. jm_get (fs_actors s) i = Some r \<Longrightarrow> r < length (fs_heap s)"
  shows "timers_ok s"
  unfolding timers_ok_def list_all_iff using assms by blast

lemma timers_ok_view:
  assumes v: "timer_view s' = timer_view s"
  shows "timers_ok s' = timers_ok s"
proof -
  have m: "map (\<lambda>e. (en_alarm e, en_alarmTimestamp e)) (fs_heap s') = map (\<lambda>e. (en_alarm e, en_alarmTimestamp e)) (fs_heap s)"
    and t: "fs_timers s' = fs_timers s" "fs_nextTimer s' = fs_nextTimer s" "fs_actors s' = fs_actors s"
    using v by (simp_all add: timer_view_def)
  have len: "length (fs_heap s') = length (fs_heap s)" using m by (metis length_map)
  have "en_alarm (entry s' r) = en_alarm (entry s r) \<and> en_alarmTimestamp (entry s' r) = en_alarmTimestamp (entry s r)"
    if "r < length (fs_heap s)" for r
    using arg_cong [OF m, of "\<lambda>xs. xs ! r"] that len by simp
  then show ?thesis by (auto simp: timers_ok_def len t list_all_iff)
qed

text \<open>The invariant as a function of the view, so that an operation that keeps the view keeps it by
  rewriting.\<close>

definition view_ok :: "(nat option \<times> rat option) list \<times> (nat \<times> (nat \<times> rat)) list \<times> nat \<times> (string \<times> nat) list \<Rightarrow> bool" where
  "view_ok v = (\<exists>s. timer_view s = v \<and> timers_ok s)"

lemma timers_view_ok: "timers_ok s = view_ok (timer_view s)"
  unfolding view_ok_def using timers_ok_view by blast

lemma view_fields [frame_simps]:
  "timer_view (s\<lparr>fs_out := x1\<rparr>) = timer_view s" "timer_view (s\<lparr>fs_calls := x2\<rparr>) = timer_view s"
  "timer_view (s\<lparr>fs_disk := x3\<rparr>) = timer_view s" "timer_view (s\<lparr>fs_alarmFiles := x4\<rparr>) = timer_view s"
  "timer_view (s\<lparr>fs_loads := x5\<rparr>) = timer_view s" "timer_view (s\<lparr>fs_starts := x6\<rparr>) = timer_view s"
  "timer_view (s\<lparr>fs_runner := x8\<rparr>) = timer_view s"
  "timer_view (s\<lparr>fs_nextCall := x9\<rparr>) = timer_view s" "timer_view (s\<lparr>fs_nextInstance := x9\<rparr>) = timer_view s"
  "timer_view (s\<lparr>fs_unhandled := u\<rparr>) = timer_view s"
  by (simp_all add: timer_view_def)

lemma view_upd:
  assumes "\<And>e. en_alarm (f e) = en_alarm e" "\<And>e. en_alarmTimestamp (f e) = en_alarmTimestamp e"
  shows "timer_view (upd_entry r f s) = timer_view s"
proof -
  have "map (\<lambda>e. (en_alarm e, en_alarmTimestamp e)) (xs[r := f (xs ! r)]) = map (\<lambda>e. (en_alarm e, en_alarmTimestamp e)) xs"
    for xs :: "actor_entry list"
    by (cases "r < length xs") (simp_all add: map_update assms list_update_same_conv list_update_beyond)
  then show ?thesis by (simp add: timer_view_def upd_entry_def)
qed

lemma view_ops [frame_simps]:
  "timer_view (upd_entry r (\<lambda>e. e\<lparr>en_state := a\<rparr>) s) = timer_view s"
  "timer_view (upd_entry r (\<lambda>e. e\<lparr>en_load := l\<rparr>) s) = timer_view s"
  "timer_view (upd_entry r (\<lambda>e. e\<lparr>en_actor := l\<rparr>) s) = timer_view s"
  "timer_view (upd_entry r (\<lambda>e. e\<lparr>en_start := l\<rparr>) s) = timer_view s"
  "timer_view (upd_entry r (\<lambda>e. e\<lparr>en_removed := b\<rparr>) s) = timer_view s"
  "timer_view (finish call res s) = timer_view s" "timer_view (await call w s) = timer_view s"
  "timer_view (settle_load k v s) = timer_view s" "timer_view (settle_start k v s) = timer_view s"
  by (simp_all add: view_upd finish_def await_def settle_load_def settle_start_def frame_simps)

lemma view_calls [frame_simps]:
  "timer_view (written fe call r s) = timer_view s" "timer_view (started call r s) = timer_view s"
  "timer_view (start_failed fe call r p e s) = timer_view s"
  "timer_view (start_succeeded call r p s) = timer_view s" "timer_view (sleep_stop i r s) = timer_view s"
  by (simp_all add: written_def started_def start_failed_def start_succeeded_def sleep_stop_def
      Let_def frame_simps)

lemma view_calls2 [frame_simps]:
  "timer_view (writeActor fe i st call r s) = timer_view s" "timer_view (sleep_loaded i r s) = timer_view s"
  "timer_view (startActor fe call r s) = timer_view s" "timer_view (sleepActor fe i s) = timer_view s"
  by (auto simp: writeActor_def performWrite_def sleep_loaded_def startActor_def sleepActor_def Let_def frame_simps
      split: option.split sum.split)

lemma view_calls3 [frame_simps]:
  "timer_view (loadOrCreateActor fe now n k inp r s) = timer_view s"
  "timer_view (loadActorState fe l d s) = timer_view s"
  "timer_view (read_file fe err l s) = timer_view s"
  by (auto simp: loadOrCreateActor_def loadActorState_def read_file_def Let_def frame_simps split: option.split sum.split)

section \<open>Every step\<close>

lemma timers_upsert: "timers_ok s \<Longrightarrow> timers_ok (snd (upsertEntry i s))"
proof (cases "jm_get (fs_actors s) i")
  case None
  assume t: "timers_ok s"
  define s1 where "s1 = snd (upsertEntry i s)"
  have f: "fs_timers s1 = fs_timers s" "fs_nextTimer s1 = fs_nextTimer s" "length (fs_heap s1) = Suc (length (fs_heap s))"
    using None by (simp_all add: s1_def upsertEntry_def)
  have a: "r < Suc (length (fs_heap s))" if "jm_get (fs_actors s1) j = Some r" for j r
    using None that timers_okD(6) [OF t, of j r] by (auto simp: s1_def upsertEntry_def split: if_splits)
  have e: "entry s1 r = entry s r" if "r < length (fs_heap s)" for r
    using None that by (simp add: s1_def upsertEntry_def nth_append)
  have n: "en_alarm (entry s1 (length (fs_heap s))) = None" "en_alarmTimestamp (entry s1 (length (fs_heap s))) = None"
    using None by (simp_all add: s1_def upsertEntry_def new_entry_def)
  note d = timers_okD [OF t]
  have live: "r < length (fs_heap s) \<and> en_alarm (entry s r) = Some k"
    if "r < Suc (length (fs_heap s))" "en_alarm (entry s1 r) = Some k" for r k
    using that e [of r] n by (cases "r = length (fs_heap s)") simp_all
  have "timers_ok s1"
  proof (rule timers_okI; unfold f)
    show "k < fs_nextTimer s \<and> r < Suc (length (fs_heap s)) \<and> en_alarm (entry s1 r) = Some k
        \<and> en_alarmTimestamp (entry s1 r) = Some t'" if "(k, r, t') \<in> set (fs_timers s)" for k r t'
      using d(2) [OF that] e [of r] by simp
    show "\<exists>k. en_alarm (entry s1 r) = Some k \<and> (k, r, t') \<in> set (fs_timers s)"
      if "r < Suc (length (fs_heap s))" "en_alarmTimestamp (entry s1 r) = Some t'" for r t'
      using that d(5) [of r t'] e [of r] n by (cases "r = length (fs_heap s)") simp_all
  qed (use d live a in blast)+
  then show ?thesis by (simp add: s1_def)
qed (simp add: upsertEntry_def)

lemma timers_load: "timers_ok s \<Longrightarrow> timers_ok (loadActor fe i call s)"
proof -
  assume "timers_ok s"
  moreover have "timer_view (loadActor fe i call s) = timer_view (snd (upsertEntry i s))"
    by (auto simp: loadActor_def Let_def frame_simps split: prod.split option.split)
  ultimately show ?thesis using timers_upsert timers_ok_view by blast
qed

lemma timers_create: "timers_ok s \<Longrightarrow> timers_ok (createActor fe now n k inp s)"
proof -
  assume t: "timers_ok s"
  show ?thesis
  proof (cases "jm_has (fs_actors s) (generateActorId fe n k)")
    case True
    then have "timer_view (createActor fe now n k inp s) = timer_view s"
      by (simp add: createActor_def Let_def frame_simps)
    then show ?thesis using t timers_ok_view by blast
  next
    case False
    then have "timer_view (createActor fe now n k inp s) = timer_view (snd (upsertEntry (generateActorId fe n k) s))"
      by (simp add: createActor_def Let_def frame_simps split: prod.split sum.split)
    then show ?thesis using timers_upsert [OF t] timers_ok_view by blast
  qed
qed

lemma timers_new:
  assumes t: "timers_ok s" and r: "r < length (fs_heap s)"
    and ts: "ts = (case en_alarm (entry s r) of Some k \<Rightarrow> jm_del k (fs_timers s) | None \<Rightarrow> fs_timers s)"
    and s': "s' = upd_entry r (\<lambda>e. e\<lparr>en_alarmTimestamp := Some time, en_alarm := Some (fs_nextTimer s)\<rparr>)
           (s\<lparr>fs_timers := ts @ [(fs_nextTimer s, r, time)], fs_nextTimer := Suc (fs_nextTimer s)\<rparr>)"
  shows "timers_ok s'"
proof -
  let ?n = "fs_nextTimer s"
  note d = timers_okD [OF t]
  have sub: "set ts \<subseteq> set (fs_timers s)" and dist: "distinct (map fst ts)"
    using d(1) by (auto simp: ts AList.delete_eq distinct_map_filter split: option.split)
  have gone: "(k, r, t) \<notin> set ts" for k t
    using d(2) [of k r t] by (auto simp: ts AList.delete_eq split: option.split)
  have keep: "(k, r', t') \<in> set ts" if "(k, r', t') \<in> set (fs_timers s)" "r' \<noteq> r" for k r' t'
    using that d(4) [OF r, of k r' t'] by (auto simp: ts AList.delete_eq split: option.split)
  have old: "k < ?n \<and> r' < length (fs_heap s) \<and> r' \<noteq> r \<and> en_alarm (entry s r') = Some k \<and> en_alarmTimestamp (entry s r') = Some t'"
    if "(k, r', t') \<in> set ts" for k r' t'
    using d(2) [of k r' t'] sub gone that by blast
  have acts: "fs_actors s' = fs_actors s" by (simp add: s' upd_entry_def)
  have fields: "fs_timers s' = ts @ [(?n, r, time)]" "fs_nextTimer s' = Suc ?n" "length (fs_heap s') = length (fs_heap s)"
    "entry s' r' = (if r' = r then (entry s r)\<lparr>en_alarmTimestamp := Some time, en_alarm := Some ?n\<rparr> else entry s r')" for r'
    using r by (simp_all add: s' upd_entry_def nth_list_update)
  show ?thesis
  proof (rule timers_okI; unfold fields(1-3))
    show "distinct (map fst (ts @ [(?n, r, time)]))" using dist old by force
    show "k < Suc ?n \<and> r' < length (fs_heap s) \<and> en_alarm (entry s' r') = Some k \<and> en_alarmTimestamp (entry s' r') = Some t'"
      if "(k, r', t') \<in> set (ts @ [(?n, r, time)])" for k r' t'
      using that old [of k r' t'] r by (auto simp: fields(4))
    show "k < Suc ?n" if "r' < length (fs_heap s)" "en_alarm (entry s' r') = Some k" for r' k
      using that d(3) [of r' k] by (auto simp: fields(4) split: if_splits)
    show "r'' = r'" if "r' < length (fs_heap s)" "en_alarm (entry s' r') = Some k" "(k, r'', t') \<in> set (ts @ [(?n, r, time)])" for r' k r'' t'
      using that d(3) [of r' k] d(4) [of r' k r'' t'] old [of k r'' t'] sub by (auto simp: fields(4) split: if_splits)
    show "\<exists>k. en_alarm (entry s' r') = Some k \<and> (k, r', t') \<in> set (ts @ [(?n, r, time)])"
      if "r' < length (fs_heap s)" "en_alarmTimestamp (entry s' r') = Some t'" for r' t'
      using that d(5) [of r' t'] keep [of _ r' t'] by (auto simp: fields(4) split: if_splits)
  qed (use d(6) in \<open>simp add: acts\<close>)
qed

lemma timers_schedule: "timers_ok s \<Longrightarrow> timers_ok (scheduleAlarmTimeout i t s)"
proof -
  assume t: "timers_ok s"
  obtain r s1 where u: "upsertEntry i s = (r, s1)" by (cases "upsertEntry i s")
  have "timers_ok s1" using timers_upsert [OF t, of i] u by simp
  moreover have "r < length (fs_heap s1)"
    using u timers_okD(6) [OF t] by (auto simp: upsertEntry_def split: option.splits)
  ultimately show ?thesis
    using timers_new [OF _ _ refl refl, of s1 r] by (simp add: scheduleAlarmTimeout_def u)
qed

lemma timers_fired:
  assumes t: "timers_ok s" and k: "jm_get (fs_timers s) k = Some (r, time)"
  shows "timers_ok (upd_entry r (\<lambda>e. e\<lparr>en_alarmTimestamp := None\<rparr>) (s\<lparr>fs_timers := jm_del k (fs_timers s)\<rparr>))"
    (is "timers_ok ?s")
proof -
  note d = timers_okD [OF t]
  have kr: "(k, r, time) \<in> set (fs_timers s)" using k by (rule map_of_SomeD)
  note dk = d(2) [OF kr]
  have e: "entry ?s r' = (if r' = r then (entry s r)\<lparr>en_alarmTimestamp := None\<rparr> else entry s r')" for r'
    using dk by (simp add: upd_entry_def nth_list_update)
  have al: "en_alarm (entry ?s r') = en_alarm (entry s r')" for r' by (simp add: e)
  have f: "fs_timers ?s = jm_del k (fs_timers s)" "fs_nextTimer ?s = fs_nextTimer s"
    "length (fs_heap ?s) = length (fs_heap s)" "fs_actors ?s = fs_actors s"
    by (simp_all add: upd_entry_def)
  have sub: "(k', r', t') \<in> set (fs_timers s) \<and> k' \<noteq> k" if "(k', r', t') \<in> set (jm_del k (fs_timers s))" for k' r' t'
    using that by (auto simp: AList.delete_eq)
  show ?thesis
  proof (rule timers_okI; unfold f)
    show "distinct (map fst (jm_del k (fs_timers s)))" using d(1) by (rule distinct_delete)
    show "k' < fs_nextTimer s \<and> r' < length (fs_heap s) \<and> en_alarm (entry ?s r') = Some k' \<and> en_alarmTimestamp (entry ?s r') = Some t'"
      if "(k', r', t') \<in> set (jm_del k (fs_timers s))" for k' r' t'
      using d(2) [of k' r' t'] sub [OF that] dk by (auto simp: e)
    show "\<exists>k'. en_alarm (entry ?s r') = Some k' \<and> (k', r', t') \<in> set (jm_del k (fs_timers s))"
      if len: "r' < length (fs_heap s)" and at: "en_alarmTimestamp (entry ?s r') = Some t'" for r' t'
    proof -
      have r': "r' \<noteq> r" "en_alarmTimestamp (entry s r') = Some t'" using at by (auto simp: e split: if_splits)
      then obtain k' where k': "en_alarm (entry s r') = Some k'" "(k', r', t') \<in> set (fs_timers s)"
        using d(5) [OF len] by blast
      have "k' \<noteq> k" using d(4) [of r' k r time] k'(1) kr r'(1) len by blast
      then have "(k', r', t') \<in> set (jm_del k (fs_timers s))" using k'(2) by (auto simp: AList.delete_eq)
      then show ?thesis using k'(1) r'(1) e [of r'] by auto
    qed
    show "k' < fs_nextTimer s" if "r' < length (fs_heap s)" "en_alarm (entry ?s r') = Some k'" for r' k'
      by (rule d(3) [OF that(1)]) (use that(2) al in simp)
    show "r'' = r'" if "r' < length (fs_heap s)" "en_alarm (entry ?s r') = Some k'" "(k', r'', t') \<in> set (jm_del k (fs_timers s))"
      for r' k' r'' t'
      by (rule d(4) [OF that(1), of k' r'' t']) (use that(2) al sub [OF that(3)] in simp_all)
    show "r' < length (fs_heap s)" if "jm_get (fs_actors s) i = Some r'" for i r'
      by (rule d(6) [OF that])
  qed
qed

lemma timers_alarm_fired: "timers_ok s \<Longrightarrow> timers_ok (alarm_fired fe k s)"
proof (cases "jm_get (fs_timers s) k")
  case (Some p)
  assume t: "timers_ok s"
  obtain r time where p: "p = (r, time)" by (cases p)
  let ?s = "upd_entry r (\<lambda>e. e\<lparr>en_alarmTimestamp := None\<rparr>) (s\<lparr>fs_timers := jm_del k (fs_timers s)\<rparr>)"
  have t1: "timers_ok ?s" by (rule timers_fired [OF t Some [unfolded p]])
  then have "timers_ok (await (AlarmTimer i) AwaitUnlink ?s)" for i
    by (simp add: timers_view_ok frame_simps)
  then show ?thesis
    using timers_load [OF t1] by (simp add: alarm_fired_def Some p Let_def)
qed (simp add: alarm_fired_def)

lemma timers_set_alarm: "timers_ok s \<Longrightarrow> timers_ok (setActorAlarm fe i t s)"
proof -
  assume t: "timers_ok s"
  have "timers_ok (finish c res s)" "timers_ok (await c w s)"
    "timers_ok (finish c res (scheduleAlarmTimeout i t s))" for c res w
    using t timers_schedule [OF t, of i] by (simp_all add: timers_view_ok frame_simps)
  then show ?thesis by (simp add: setActorAlarm_def Let_def split: option.split sum.split)
qed

lemma timers_loaded: "timers_ok s \<Longrightarrow> timers_ok (loaded_call fe now call r s)"
proof -
  assume t: "timers_ok s"
  have same: "timers_ok s'" if "timer_view s' = timer_view s" for s' using t that by (simp add: timers_view_ok)
  show ?thesis
    using timers_load [OF t] t
    by (cases call) (auto simp: loaded_call_def alarm_loaded_def frame_simps intro: same split: option.split)
qed

lemma timers_resume:
  assumes t: "timers_ok s"
  shows "timers_ok (resume fe now c s)"
proof -
  let ?s = "s\<lparr>fs_calls := jm_del c (fs_calls s)\<rparr>"
  have t1: "timers_ok ?s" using t by (simp add: timers_view_ok frame_simps)
  then have ops: "timers_ok (finish call res ?s)" "timers_ok (sleep_stop i r ?s)" "timers_ok (started call r ?s)" for call r i res
    by (simp_all add: timers_view_ok frame_simps)
  have g: "timers_ok (go_on call v f c s)" if "timers_ok (f ?s)" for call v f
    using that ops(1) t by (simp add: go_on_def split: settled.split)
  have "timers_ok (go_on call v (loaded_call fe now call r) c s)" "timers_ok (go_on call v (sleep_stop i r) c s)"
    "timers_ok (go_on call v (started call r) c s)" for call v r i
    by (rule g, rule timers_loaded [OF t1]) (rule g, rule ops)+
  then show ?thesis
    using t by (simp add: resume_def split: option.split prod.split fs_wait.split fs_call.split)
qed

lemma timers_answer_call: "timers_ok s \<Longrightarrow> timers_ok (answer_call fe err call w s)"
proof -
  assume t: "timers_ok s"
  have files: "timers_ok (s\<lparr>fs_alarmFiles := f\<rparr>)" "timers_ok (s\<lparr>fs_disk := d\<rparr>)" for f d
    using t by (simp_all add: timers_view_ok frame_simps)
  have "timers_ok (s\<lparr>fs_actors := jm_del i (fs_actors s)\<rparr>)" for i
    using t by (auto simp: timers_ok_def)
  then have stop: "timers_ok (sleep_stopped i s)" for i
    by (simp add: sleep_stopped_def timers_ok_view [OF view_ops(6)])
  have fin: "timers_ok (finish c res s')" if "timers_ok s'" for c res s'
    using that by (simp add: timers_ok_view [OF view_ops(6)])
  show ?thesis
  proof (cases w)
    case (AwaitWrite i b r)
    have "timers_ok (written fe call r (s\<lparr>fs_disk := d\<rparr>))" for d
      using files(2) by (simp add: timers_ok_view [OF view_calls(1)])
    then show ?thesis using AwaitWrite fin [OF t] by (simp add: answer_call_def split: option.split)
  next
    case (AwaitInstance p r)
    then show ?thesis
      using t by (simp add: answer_call_def timers_ok_view [OF view_calls(3)] timers_ok_view [OF view_calls(4)] split: option.split)
  next
    case (AwaitStop r)
    then show ?thesis
      using t stop fin [OF t] by (simp add: answer_call_def split: option.split fs_call.split)
  next
    case (AwaitAlarmWrite b)
    then show ?thesis
      using t fin [OF t] fin [OF timers_schedule [OF files(1)]]
      by (simp add: answer_call_def split: option.split fs_call.split)
  next
    case AwaitUnlink
    then show ?thesis
      using t timers_load [OF t] timers_load [OF files(1)] by (simp add: answer_call_def split: fs_call.split)
  qed (use t in \<open>simp_all add: answer_call_def\<close>)
qed

lemma timers_runner: "timers_ok s \<Longrightarrow> timers_ok (onRunnerStart fe s)"
proof -
  assume t: "timers_ok s"
  have l: "timers_ok s \<Longrightarrow> timers_ok (load_alarm fe f s)" for f s
    using timers_schedule [of s] by (cases f) (simp add: load_alarm_def split: sum.split)
  have "timers_ok s \<Longrightarrow> timers_ok (fold (load_alarm fe) fs s)" for fs s
    by (induction fs arbitrary: s) (simp_all add: l)
  moreover have "timers_ok (s\<lparr>fs_runner := True\<rparr>)" using t by (simp add: timers_view_ok frame_simps)
  ultimately show ?thesis using t by (simp add: onRunnerStart_def)
qed

lemma timers_step: "timers_ok s \<Longrightarrow> timers_ok (fs_step fe e s)"
proof (cases e)
  case (Call now call)
  assume t: "timers_ok s"
  have "timers_ok (sleepActor fe i s)" for i using t by (simp add: timers_view_ok frame_simps)
  then show ?thesis
    using Call timers_load [OF t] timers_create [OF t] timers_set_alarm [OF t] t
    by (cases call) (simp_all add: begin_call_def)
next
  case (Answer err c)
  assume t: "timers_ok s"
  then have "timers_ok (s\<lparr>fs_calls := jm_del c (fs_calls s)\<rparr>)" by (simp add: timers_view_ok frame_simps)
  then show ?thesis using Answer t timers_answer_call by (simp add: answer_def split: option.split prod.split)
next
  case (ReadFile err l)
  assume "timers_ok s"
  then show ?thesis using ReadFile by (simp add: timers_view_ok frame_simps)
qed (simp_all add: timers_resume timers_alarm_fired timers_runner)

interpretation fs_timers: machine "fs_step fe" timers_ok
  by unfold_locales (rule timers_step)

lemma timers_boot: "timers_ok (fs_boot files alarms)"
  by (simp add: timers_ok_def fs_boot_def)

section \<open>What callers see\<close>

lemma distinct_filter_single: "distinct xs \<Longrightarrow> x \<in> set xs \<Longrightarrow> filter ((=) x) xs = [x]"
  by (induction xs) (auto simp: filter_empty_conv)

text \<open>
  C14.  Whatever happens, the timers of an actor's entry are exactly one at the time the entry notes,
  or none when it notes none: no alarm is armed twice, and none is forgotten while it is noted.
\<close>

theorem one_alarm_timer:
  "let s = fold (fs_step fe) es (fs_boot files alarms)
   in list_all (\<lambda>r. filter (\<lambda>(k, r', t). r' = r) (fs_timers s)
        = (case (en_alarm (entry s r), en_alarmTimestamp (entry s r)) of
             (Some k, Some t) \<Rightarrow> [(k, r, t)] | _ \<Rightarrow> [])) [0 ..< length (fs_heap s)]"
proof -
  define s where "s = fold (fs_step fe) es (fs_boot files alarms)"
  have t: "timers_ok s" unfolding s_def by (rule fs_timers.run_inv [OF timers_boot])
  note d = timers_okD [OF t]
  have "filter (\<lambda>(k, r', t). r' = r) (fs_timers s)
      = (case (en_alarm (entry s r), en_alarmTimestamp (entry s r)) of
           (Some k, Some t) \<Rightarrow> [(k, r, t)] | _ \<Rightarrow> [])" if r: "r < length (fs_heap s)" for r
  proof (cases "en_alarmTimestamp (entry s r)")
    case None
    then have "filter (\<lambda>(k, r', t). r' = r) (fs_timers s) = []"
      using d(2) by (fastforce simp: filter_empty_conv)
    then show ?thesis using None by (simp split: option.split)
  next
    case (Some t)
    then obtain k where k: "en_alarm (entry s r) = Some k" "(k, r, t) \<in> set (fs_timers s)" using d(5) [OF r] by blast
    have "x = (k, r, t)" if "x \<in> set (fs_timers s)" "fst (snd x) = r" for x
      using d(2) [of "fst x" r "snd (snd x)"] that k Some by (cases x) auto
    then have "filter (\<lambda>(k, r', t). r' = r) (fs_timers s) = filter ((=) (k, r, t)) (fs_timers s)"
      by (intro filter_cong) auto
    moreover have "distinct (fs_timers s)" using d(1) by (simp add: distinct_map)
    ultimately show ?thesis using k Some by (simp add: distinct_filter_single)
  qed
  then show ?thesis by (simp add: s_def [symmetric] list_all_iff)
qed

lemma schedule_arms:
  assumes t: "timers_ok s" and s': "s' = scheduleAlarmTimeout i time s"
  shows "\<exists>k r t0. jm_get (fs_actors s') i = Some r \<and> (k, r, t0) \<in> set (fs_timers s') \<and> t0 \<le> time"
proof -
  obtain r s1 where u: "upsertEntry i s = (r, s1)" by (cases "upsertEntry i s")
  have t1: "timers_ok s1" using timers_upsert [OF t, of i] u by simp
  have r: "jm_get (fs_actors s1) i = Some r" using u by (auto simp: upsertEntry_def split: option.splits)
  note rl = timers_okD(6) [OF t1 r]
  show ?thesis
  proof (cases "\<exists>t0. en_alarmTimestamp (entry s1 r) = Some t0 \<and> time \<ge> t0")
    case True
    then obtain t0 k where "(k, r, t0) \<in> set (fs_timers s1)" "t0 \<le> time"
      using timers_okD(5) [OF t1 rl] by blast
    then show ?thesis using True r by (auto simp: s' scheduleAlarmTimeout_def u)
  next
    case False
    then have "s' = upd_entry r (\<lambda>e. e\<lparr>en_alarmTimestamp := Some time, en_alarm := Some (fs_nextTimer s1)\<rparr>)
              (s1\<lparr>fs_timers := (case en_alarm (entry s1 r) of Some k \<Rightarrow> jm_del k (fs_timers s1) | None \<Rightarrow> fs_timers s1)
                     @ [(fs_nextTimer s1, (r, time))],
                  fs_nextTimer := Suc (fs_nextTimer s1)\<rparr>)"
      by (auto simp: s' scheduleAlarmTimeout_def u split: option.split)
    then have "fs_actors s' = fs_actors s1" "(fs_nextTimer s1, r, time) \<in> set (fs_timers s')"
      by (simp_all add: upd_entry_def)
    then show ?thesis using r by auto
  qed
qed

text \<open>
  C16.  When \<open>setAlarm\<close> completes, the actor has an armed timer for no later than the time asked for,
  and the file of the alarm holds this time.
\<close>

theorem set_alarm_armed:
  assumes "s = fold (fs_step fe) es (fs_boot files alarms)"
    and "jm_get (fs_calls s) c = Some (SetAlarm i t, AwaitAlarmWrite b)"
    and "s' = fs_step fe (Answer None c) s"
  shows "(\<exists>k r t0. jm_get (fs_actors s') i = Some r \<and> (k, r, t0) \<in> set (fs_timers s') \<and> t0 \<le> t)
    \<and> jm_get (fs_alarmFiles s') i = Some b \<and> fs_out s' = fs_out s @ [(SetAlarm i t, Void)]"
proof -
  let ?s = "s\<lparr>fs_calls := jm_del c (fs_calls s), fs_alarmFiles := jm_set i b (fs_alarmFiles s)\<rparr>"
  have "timers_ok s" unfolding assms(1) by (rule fs_timers.run_inv [OF timers_boot])
  then have "timers_ok ?s" by (simp add: timers_view_ok frame_simps)
  then obtain k r t0 where "jm_get (fs_actors (scheduleAlarmTimeout i t ?s)) i = Some r"
    "(k, r, t0) \<in> set (fs_timers (scheduleAlarmTimeout i t ?s))" "t0 \<le> t"
    using schedule_arms [OF _ refl] by blast
  moreover have "fs_alarmFiles (scheduleAlarmTimeout i t ?s) = fs_alarmFiles ?s" "fs_out (scheduleAlarmTimeout i t ?s) = fs_out s"
    by (simp_all add: scheduleAlarmTimeout_def upsertEntry_def upd_entry_def split: option.split)
  ultimately show ?thesis
    using assms(2) by (auto simp: assms(3) answer_def answer_call_def awaits_answer_def finish_def)
qed

theorem set_alarm_armed_witness:
  "fs_out (fs_step chat_env (Answer None 1) (fold (fs_step chat_env)
     [Call 5 (GetForId ''id''), ReadFile None 0, Resume 5 0, Call 5 (SetAlarm ''id'' 50)] (fs_boot [] [])))
   = [(GetForId ''id'', Undefined), (SetAlarm ''id'' 50, Void)]"
proof -
  let ?es = "[Call 5 (GetForId ''id''), ReadFile None 0, Resume 5 0, Call 5 (SetAlarm ''id'' 50)]"
  let ?s = "fold (fs_step chat_env) ?es (fs_boot [] [])"
  have bigint: "to_bigint 50 = Some 50" using to_bigint_of_int [of 50] by simp
  have "fs_calls ?s = [(1, SetAlarm ''id'' 50, AwaitAlarmWrite [1, 0, 0, 0, 3])] \<and> fs_out ?s = [(GetForId ''id'', Undefined)]"
    by (simp add: fs_ops fs_boot_def chat_env_def setActorAlarm_def js_BigInt_def bigint
        serializeWithEmbeddedVersion_def embedVersion_def u32_le_def)
  then show ?thesis
    using set_alarm_armed [of ?s chat_env ?es "[]" "[]" 1 "''id''" 50 "[1, 0, 0, 0, 3]", OF refl _ refl]
    by simp
qed

end
