(* ===== verification/FsProps.thy ===== *)
theory FsProps
  imports FsDirectory FsAlarms
begin

text \<open>
  What the file-system driver promises beyond the directory, and where it falls short of it: alarms,
  lookups that block a creation, creations over an actor on disk, reads and starts that fail.
\<close>

section \<open>Examples of the directory\<close>

lemma chat_faithful: "bare_faithful (fe_stateCoder chat_env)"
  by (auto simp: bare_faithful_def chat_env_def split: if_splits)

definition chat_lookup :: "fs_call \<Rightarrow> fs" where
  "chat_lookup call = fs_step chat_env (ReadFile None 0) (fs_step chat_env (Call 5 call) (fs_boot [] []))"

lemma chat_reachable:
  assumes "\<And>n k inp. call \<noteq> CreateActor n k inp"
  shows "fs_reachable chat_env (chat_lookup call)"
  unfolding chat_lookup_def
  by (intro fs_reachable.step fs_reachable.boot)
    (use assms in \<open>auto simp: valid_files_def fs_allowed_def split: fs_call.split\<close>)


text \<open>The directory only grows: an actor is never created twice nor replaced.\<close>

lemma directory_grows:
  assumes "bare_faithful (fe_stateCoder fe)" and "fs_reachable fe s" and "fs_allowed fe e s"
    and "fs_directory fe s i = Some m"
  shows "fs_directory fe (fs_step fe e s) i = Some m"
proof -
  have "leads fe (fs_directory fe s) s (fs_step fe e s)"
    by (rule leads_step [OF assms(1) holds_reachable assms(3)]) (use assms in auto)
  then show ?thesis using assms(4) holds_directory unfolding leads_def answers_def
    by (metis fun_upd_other option.distinct(1))
qed

section \<open>Creating\<close>

text \<open>
  A lookup of an actor that does not exist leaves an entry in the map, so that creating the actor
  afterwards is refused with \<open>ActorAlreadyExists\<close>, although the directory does not have it.
\<close>

theorem lookup_blocks_create:
  assumes "jm_get (fs_actors s) i = None" and "i = generateActorId fe n k" and "fe_persist fe"
    and "s' = fs_step fe (Resume now (fs_nextCall s)) (fs_step fe (ReadFile None (length (fs_loads s)))
              (fs_step fe (Call now (GetForId i)) s))"
    and "jm_get (fs_disk s) i = None" and "fs_nextCall s \<notin> fst ` set (fs_calls s)"
  shows "fs_out s' = fs_out s @ [(GetForId i, Undefined)] \<and> fs_directory fe s' i = None
    \<and> fs_step fe (Call now (CreateActor n k inp)) s'
      = finish (CreateActor n k inp) (Failed (EActor (ActorAlreadyExists n
          (cd_json_text (fe_codec fe) (JsArr (map JsStr k)))))) s'"
proof -
  have "jm_get (fs_calls s) (fs_nextCall s) = None" using assms(6) by (simp add: map_of_eq_None_iff)
  then show ?thesis
    using assms by (simp add: fs_ops nth_append map_add_def fs_directory_def)
qed

definition chat_blocked :: fs where
  "chat_blocked = fs_step chat_env (Resume 5 0) (chat_lookup (GetForId ''id''))"

theorem lookup_blocks_create_witness:
  "fs_step chat_env (Call 5 (CreateActor ''chat'' [] JUndef)) chat_blocked
   = finish (CreateActor ''chat'' [] JUndef) (Failed (EActor (ActorAlreadyExists ''chat''
       (cd_json_text (fe_codec chat_env) (JsArr []))))) chat_blocked"
proof -
  have boot: "fs_nextCall (fs_boot [] []) = 0" "length (fs_loads (fs_boot [] [])) = 0"
    "jm_get (fs_actors (fs_boot [] [])) ''id'' = None" "jm_get (fs_disk (fs_boot [] [])) ''id'' = None"
    "fs_nextCall (fs_boot [] []) \<notin> fst ` set (fs_calls (fs_boot [] []))" and p: "fe_persist chat_env"
    by (simp_all add: fs_boot_def chat_env_def)
  have "chat_blocked = fs_step chat_env (Resume 5 (fs_nextCall (fs_boot [] [])))
      (fs_step chat_env (ReadFile None (length (fs_loads (fs_boot [] [])))) (fs_step chat_env (Call 5 (GetForId ''id'')) (fs_boot [] [])))"
    unfolding boot chat_blocked_def chat_lookup_def ..
  then show ?thesis
    using lookup_blocks_create [of "fs_boot [] []" "''id''" chat_env "''chat''" "[]" chat_blocked 5 JUndef,
        OF boot(3) chat_id [symmetric] p _ boot(4,5)]
    by (simp only: list.map)
qed

text \<open>
  \<open>createActor\<close> looks for the actor in memory only: an actor that is on disk and not loaded is
  overwritten by a fresh one, with the time of the new creation and empty persisted data.
\<close>

theorem create_overwrites_stored:
  assumes "jm_get (fs_actors s) i = None" and "i = generateActorId fe n k" and "fe_persist fe"
    and "jm_get (fs_disk s) i = Some old" and "new_state fe i n k inp now = Inr st"
    and "serializeWithEmbeddedVersion (fe_stateCoder fe) st = Inr b" and "fs_nextCall s \<notin> fst ` set (fs_calls s)"
    and "s' = fs_step fe (Answer None (fs_nextCall s)) (fs_step fe (Call now (CreateActor n k inp)) s)"
  shows "fs_out s' = fs_out s @ [(CreateActor n k inp, ActorOutput i n k)]
    \<and> jm_get (fs_disk s') i = Some b \<and> fs_directory fe s' i = Some (n, k, now)"
proof -
  let ?c = "CreateActor n k inp" and ?r = "length (fs_heap s)"
  have c: "jm_get (fs_calls s) (fs_nextCall s) = None" using assms(7) by (simp add: map_of_eq_None_iff)
  let ?s1 = "fs_step fe (Call now ?c) s"
  have s1: "jm_get (fs_calls ?s1) (fs_nextCall s) = Some (?c, AwaitWrite i b ?r)" "fs_out ?s1 = fs_out s"
    "jm_get (fs_actors ?s1) i = Some ?r" "en_state (entry ?s1 ?r) = Some st"
    using assms(1,2,3,5,6) c by (simp_all add: fs_ops map_add_def)
  have st: "af_name st = n" "af_key st = k" "af_createdAt st = now"
    using assms(5) by (auto simp: new_state_def andThen_Inr)
  show ?thesis
    using s1 st assms(2)
    by (simp add: assms(8) answer_def answer_call_def awaits_answer_def written_def finish_def fs_directory_def meta_def
        del: fs_step.simps(1))
qed

theorem create_overwrites_stored_witness:
  "fs_directory chat_env (fs_step chat_env (Answer None 0)
     (fs_step chat_env (Call 5 (CreateActor ''chat'' [] JUndef)) (fs_boot [(''id'', [1, 0, 0, 0, 8])] []))) ''id''
   = Some (''chat'', [], 5)"
proof -
  let ?s = "fs_boot [(''id'', [1, 0, 0, 0, 8])] []"
  have boot: "jm_get (fs_actors ?s) ''id'' = None" "jm_get (fs_disk ?s) ''id'' = Some [1, 0, 0, 0, 8]"
    "fs_nextCall ?s \<notin> fst ` set (fs_calls ?s)" "fs_nextCall ?s = 0" and p: "fe_persist chat_env"
    by (simp_all add: fs_boot_def chat_env_def)
  have "serializeWithEmbeddedVersion (fe_stateCoder chat_env) chat_file = Inr [1, 0, 0, 0, 9]"
    by (simp add: chat_env_def serializeWithEmbeddedVersion_def embedVersion_def u32_le_def)
  then show ?thesis
    using create_overwrites_stored [OF boot(1) chat_id [symmetric] p boot(2) chat_new _ boot(3) refl]
    by (simp only: boot(4))
qed

section \<open>Reads and writes that do not meet\<close>

text \<open>After a read error other than a missing file, \<open>loadPromise\<close> stays rejected: no later load of the
  entry reads the file again.\<close>

lemma read_error_sticks:
  assumes "jm_get (fs_actors s) i = Some r" and "en_state (entry s r) = None" and "fe_persist fe"
    and "en_load (entry s r) = Some l" and "snd (fs_loads s ! l) = Rejected e"
    and "call \<in> {GetForId i, LoadActorState i, ReadPersistedData i, StartActor i}"
    and "fs_nextCall s \<notin> fst ` set (fs_calls s)"
  shows "fs_loads (fs_step fe (Call now call) s) = fs_loads s
    \<and> (call, Failed e) \<in> set (fs_out (fs_step fe (Resume now (fs_nextCall s)) (fs_step fe (Call now call) s)))"
proof -
  have "jm_get (fs_calls s) (fs_nextCall s) = None" using assms(7) by (simp add: map_of_eq_None_iff)
  then show ?thesis using assms by (auto simp: fs_ops map_add_def)
qed

text \<open>\<open>writePersistedData\<close> writes the file and leaves the state in memory as it was, and
  \<open>readPersistedData\<close> answers from memory.\<close>

lemma write_not_read_back:
  assumes "jm_get (fs_actors s) i = Some r" and "r < length (fs_heap s)" and "en_state (entry s r) = Some st"
    and "fs_calls s = []" and "serializeWithEmbeddedVersion (fe_stateCoder fe) (st\<lparr>af_persistedData := data\<rparr>) = Inr b"
    and "s1 = fs_step fe (Answer None (Suc (fs_nextCall s))) (fs_step fe (Resume now (fs_nextCall s))
           (fs_step fe (Call now (WritePersistedData i data)) s))" and "fe_persist fe"
    and "s2 = fs_step fe (Resume now (fs_nextCall s1)) (fs_step fe (Call now (ReadPersistedData i)) s1)"
  shows "jm_get (fs_disk s1) i = Some b
    \<and> fs_out s2 = fs_out s1 @ [(ReadPersistedData i, Data (af_persistedData st))]"
  using assms by (simp add: fs_ops answer_def answer_call_def awaits_answer_def)

text \<open>Two writes of the same actor are not ordered: the one of the creation may land after a later one
  and leave the empty data in the file.\<close>

lemma late_creation_write:
  assumes "fs_calls s = [(a, (CreateActor n k inp, AwaitWrite i created r)), (c, (WritePersistedData i data, AwaitWrite i later r))]"
    and "a \<noteq> c" and "fe_persist fe"
  shows "jm_get (fs_disk (fs_step fe (Answer None a) (fs_step fe (Answer None c) s))) i = Some created"
  using assms by (simp add: answer_def answer_call_def awaits_answer_def written_def finish_def)

text \<open>An instance whose start failed stays in the entry: the next start returns it as if it ran.\<close>

lemma failed_start_returned:
  assumes "r < length (fs_heap s)" and "en_state (entry s r) = Some st" and "en_start (entry s r) = None"
    and "en_actor (entry s r) = Some a"
  shows "startActor fe (StartActor i) r (start_failed fe call r p e s)
     = finish (StartActor i) (Instance a) (start_failed fe call r p e s)"
  using assms by (simp add: start_failed_def startActor_def started_def Let_def finish_def upd_entry_def settle_start_def)

text \<open>The removal of the file of an alarm that fires may hit the file of an alarm set meanwhile, which
  is then gone at the next start of the process.\<close>

lemma alarm_file_lost:
  assumes "fs_calls s = [(a, (AlarmTimer i, AwaitUnlink)), (c, (SetAlarm i t, AwaitAlarmWrite b))]" and "a \<noteq> c"
  shows "jm_get (fs_alarmFiles (fs_step fe (Answer None a) (fs_step fe (Answer None c) s))) i = None"
proof -
  have "fs_alarmFiles (loadActor fe i call s') = fs_alarmFiles s'" for call s'
    by (simp add: loadActor_def upsertEntry_def await_def Let_def split: option.split)
  moreover have "fs_calls (scheduleAlarmTimeout i t s') = fs_calls s'" for s'
    by (simp add: scheduleAlarmTimeout_def upsertEntry_def split: option.split)
  ultimately show ?thesis
    using assms by (simp add: answer_def answer_call_def awaits_answer_def finish_def)
qed

end
