(* ===== verification/FsListing.thy ===== *)
theory FsListing
  imports FsState "HOL-Library.List_Lexorder" "HOL-Library.Char_ord"
begin

text \<open>
  Listing actors: \<open>getActorsIterator\<close> of \<open>drivers/file-system/global-state.ts\<close> and the page of the
  inspector's \<open>getAllActors\<close> in \<open>manager.ts\<close>; and the removal of stale temporary files at start.
\<close>

section \<open>The iterator\<close>

text \<open>The ids in the order they are visited; \<open>stateDir\<close> tells whether the directory exists.\<close>

definition listed_ids :: "bool \<Rightarrow> fs \<Rightarrow> string list" where
  "listed_ids stateDir s =
     (if stateDir then sort (filter (\<lambda>i. \<not> sublist ''.tmp'' i) (map fst (fs_disk s)))
      else sort (map fst (fs_actors s)))"

definition start_index :: "string option \<Rightarrow> string list \<Rightarrow> nat" where
  "start_index cursor actorIds =
     (case cursor of
        None \<Rightarrow> 0
      | Some [] \<Rightarrow> 0
      | Some c \<Rightarrow> (case find_index ((=) c) actorIds of None \<Rightarrow> 0 | Some i \<Rightarrow> Suc i))"

text \<open>What the iterator yields; \<open>load\<close> is the answer of \<open>loadActorStateOrError\<close>.\<close>

definition getActorsIterator :: "(string \<Rightarrow> js_err + actor_file) \<Rightarrow> string option \<Rightarrow> string list \<Rightarrow> actor_file list" where
  "getActorsIterator load cursor actorIds =
     concat (map (\<lambda>i. if i = [] then [] else case load i of Inl e \<Rightarrow> [] | Inr st \<Rightarrow> [st])
       (drop (start_index cursor actorIds) actorIds))"

text \<open>\<open>getAllActors\<close>: without a limit, or with limit 0, everything.\<close>

definition getAllActors ::
    "(string \<Rightarrow> js_err + actor_file) \<Rightarrow> string option \<Rightarrow> nat option \<Rightarrow> string list \<Rightarrow> actor_file list" where
  "getAllActors load cursor limit actorIds =
     (case limit of
        Some (Suc n) \<Rightarrow> take (Suc n) (getActorsIterator load cursor actorIds)
      | _ \<Rightarrow> getActorsIterator load cursor actorIds)"

text \<open>A client that asks for page after page, with the id of the last actor as the cursor.\<close>

fun all_pages :: "nat \<Rightarrow> (string \<Rightarrow> js_err + actor_file) \<Rightarrow> nat \<Rightarrow> string option \<Rightarrow> string list \<Rightarrow> actor_file list" where
  "all_pages 0 load limit cursor actorIds = []"
| "all_pages (Suc fuel) load limit cursor actorIds =
     (case getAllActors load cursor (Some limit) actorIds of
        [] \<Rightarrow> []
      | page \<Rightarrow> page @ all_pages fuel load limit (Some (af_actorId (last page))) actorIds)"

section \<open>Temporary files\<close>

text \<open>\<open>cleanupTempFilesSync\<close> on the names and modification times of the state directory.\<close>

definition cleanupTempFiles :: "rat \<Rightarrow> (string \<times> rat) list \<Rightarrow> (string \<times> rat) list" where
  "cleanupTempFiles now files = filter (\<lambda>(f, mtime). \<not> (is_temp f \<and> mtime < now - 3600000)) files"

section \<open>Pages\<close>

lemma start_index_at:
  assumes "distinct ids" "j < length ids" "ids ! j \<noteq> []"
  shows "start_index (Some (ids ! j)) ids = Suc j"
proof -
  have "find_index ((=) (ids ! j)) ids = Some j"
    using assms
  proof (induction ids arbitrary: j)
    case (Cons x xs)
    then show ?case by (cases j) auto
  qed simp
  then show ?thesis using assms(3) by (auto simp: start_index_def neq_Nil_conv)
qed

text \<open>
  C40.  Paging through the inspector's list reaches every actor once: with a limit of at least one,
  as many requests as there are actors, and one more, give all of them in order.
\<close>

theorem pages_cover:
  assumes "distinct ids" and "[] \<notin> set ids" and "\<And>i. i \<in> set ids \<Longrightarrow> load i = Inr (st i) \<and> af_actorId (st i) = i"
    and "0 < limit" and "length ids < fuel"
  shows "all_pages fuel load limit None ids = map st ids"
proof -
  have it: "getActorsIterator load cursor ids = map st (drop (start_index cursor ids) ids)" for cursor
  proof -
    have "concat (map (\<lambda>i. if i = [] then [] else case load i of Inl e \<Rightarrow> [] | Inr st \<Rightarrow> [st]) xs) = map st xs"
      if "set xs \<subseteq> set ids" for xs
      using that assms(2,3) by (induction xs) auto
    then show ?thesis by (simp add: getActorsIterator_def set_drop_subset)
  qed
  obtain n where n: "limit = Suc n" using assms(4) by (cases limit) auto
  have "all_pages fuel load limit cursor ids = map st (drop (start_index cursor ids) ids)"
    if "length ids - start_index cursor ids < fuel" for fuel cursor
    using that
  proof (induction fuel arbitrary: cursor)
    case (Suc fuel)
    let ?j = "start_index cursor ids"
    let ?page = "take limit (map st (drop ?j ids))"
    have page: "getAllActors load cursor (Some limit) ids = ?page" by (simp add: getAllActors_def n it)
    show ?case
    proof (cases "?j < length ids")
      case False
      then show ?thesis using page by simp
    next
      case True
      define m where "m = min limit (length ids - ?j)"
      have m: "0 < m" "?j + m \<le> length ids" using True n by (auto simp: m_def)
      have p: "?page = map st (take m (drop ?j ids))"
        by (cases "limit \<le> length ids - ?j") (simp_all add: m_def take_map)
      have "last (take m (drop ?j ids)) = ids ! (?j + m - 1)"
      proof -
        have "length (take m (drop ?j ids)) = m" "take m (drop ?j ids) \<noteq> []" using m by auto
        then show ?thesis using m by (simp add: last_conv_nth)
      qed
      moreover have "take m (drop ?j ids) \<noteq> []" using m True by auto
      ultimately have l: "?page \<noteq> []" "last ?page = st (ids ! (?j + m - 1))"
        by (simp_all add: p last_map)
      have mem: "ids ! (?j + m - 1) \<in> set ids" using m by (intro nth_mem) linarith
      then have "af_actorId (last ?page) = ids ! (?j + m - 1)" using assms(3) l by simp
      moreover have "start_index (Some (ids ! (?j + m - 1))) ids = ?j + m"
      proof -
        have "ids ! (?j + m - 1) \<noteq> []" using mem assms(2) by metis
        then show ?thesis using start_index_at [OF assms(1), of "?j + m - 1"] m by simp
      qed
      ultimately have "all_pages fuel load limit (Some (af_actorId (last ?page))) ids = map st (drop (?j + m) ids)"
        using Suc m by simp
      then have "all_pages (Suc fuel) load limit cursor ids = ?page @ map st (drop (?j + m) ids)"
      proof -
        obtain x xs where x: "?page = x # xs" using l(1) by (cases ?page) auto
        have "all_pages fuel load limit (Some (af_actorId (last (x # xs)))) ids = map st (drop (?j + m) ids)"
          using \<open>all_pages fuel load limit (Some (af_actorId (last ?page))) ids = map st (drop (?j + m) ids)\<close>
          unfolding x .
        then show ?thesis unfolding all_pages.simps page x by simp
      qed
      also have "\<dots> = map st (drop ?j ids)"
        by (simp add: p add.commute [of ?j] flip: drop_drop map_append)
      finally show ?thesis .
    qed
  qed simp
  from this [of None fuel] show ?thesis using assms(5) by (simp add: start_index_def)
qed

theorem pages_cover_witness:
  "all_pages 3 (\<lambda>i. Inr (chat_file\<lparr>af_actorId := i\<rparr>)) 1 None [''a'', ''b'']
   = [chat_file\<lparr>af_actorId := ''a''\<rparr>, chat_file\<lparr>af_actorId := ''b''\<rparr>]"
  using pages_cover [of "[''a'', ''b'']" "\<lambda>i. Inr (chat_file\<lparr>af_actorId := i\<rparr>)" "\<lambda>i. chat_file\<lparr>af_actorId := i\<rparr>" 1 3]
  by simp

end
