(* ===== verification/ManagerRouter.thy ===== *)
theory ManagerRouter
  imports ActorHandlers ActorKeys
begin

text \<open>
  The manager's HTTP interface: queries (\<open>manager/protocol/query.ts\<close>), authentication
  (\<open>manager/auth.ts\<close>), \<open>queryActor\<close> and the request handlers of \<open>manager/router.ts\<close>, with the helpers of
  \<open>actor/router-endpoints.ts\<close> that read headers.

  The manager driver is a record of its operations on a state of its own type; a handler passes this
  state along.  What a handler sends on to an actor is its result.
\<close>

section \<open>Requests\<close>

text \<open>Header names are compared in lower case; a header that is missing reads as undefined.\<close>

type_synonym headers = "(string \<times> string) list"

definition lower :: "string \<Rightarrow> string" where
  "lower s = map (\<lambda>c. let n = of_char c in if 65 \<le> n \<and> n \<le> (90::nat) then char_of (n + 32) else c) s"

definition get_header :: "headers \<Rightarrow> string \<Rightarrow> string option" where
  "get_header h name = jm_get h (lower name)"

definition set_header :: "string \<Rightarrow> string \<Rightarrow> headers \<Rightarrow> headers" where
  "set_header name v h = jm_set (lower name) v h"

definition HEADER_ACTOR_QUERY :: string where "HEADER_ACTOR_QUERY = ''X-RivetKit-Query''"
definition HEADER_ENCODING :: string where "HEADER_ENCODING = ''X-RivetKit-Encoding''"
definition HEADER_EXPOSE_INTERNAL_ERROR :: string where
  "HEADER_EXPOSE_INTERNAL_ERROR = ''X-RivetKit-Expose-Internal-Error''"
definition HEADER_CONN_PARAMS :: string where "HEADER_CONN_PARAMS = ''X-RivetKit-Conn-Params''"
definition HEADER_AUTH_DATA :: string where "HEADER_AUTH_DATA = ''X-RivetKit-Auth-Data''"
definition HEADER_ACTOR_ID :: string where "HEADER_ACTOR_ID = ''X-RivetKit-Actor''"
definition HEADER_CONN_ID :: string where "HEADER_CONN_ID = ''X-RivetKit-Conn''"
definition HEADER_CONN_TOKEN :: string where "HEADER_CONN_TOKEN = ''X-RivetKit-Conn-Token''"

record http_request =
  rq_method :: string
  rq_path :: string
  rq_search :: string
  rq_headers :: headers
  rq_action :: string
  rq_body :: bytes

text \<open>A header that is present and not empty.\<close>

definition given_header :: "http_request \<Rightarrow> string \<Rightarrow> string option" where
  "given_header c name = (case get_header (rq_headers c) name of Some (x # xs) \<Rightarrow> Some (x # xs) | _ \<Rightarrow> None)"

section \<open>Queries\<close>

definition MAX_ACTOR_KEY_SIZE :: nat where
  "MAX_ACTOR_KEY_SIZE = 128"

definition is_str :: "jsval \<Rightarrow> bool" where
  "is_str v = (case v of JStr s \<Rightarrow> True | _ \<Rightarrow> False)"

definition ActorKeySchema :: "jsval \<Rightarrow> bool" where
  "ActorKeySchema v =
     (case v of
        JArr xs \<Rightarrow> list_all (\<lambda>x. case x of JStr s \<Rightarrow> length s \<le> MAX_ACTOR_KEY_SIZE | _ \<Rightarrow> False) xs
      | _ \<Rightarrow> False)"

definition is_object :: "jsval \<Rightarrow> bool" where
  "is_object v = (case v of JObj kvs \<Rightarrow> True | _ \<Rightarrow> False)"

text \<open>An optional property stays away when it is not there.\<close>

definition optional_prop :: "jsval \<Rightarrow> string \<Rightarrow> (string \<times> jsval) list" where
  "optional_prop v k = (case v of JObj kvs \<Rightarrow> (case map_of kvs k of Some x \<Rightarrow> [(k, x)] | None \<Rightarrow> []) | _ \<Rightarrow> [])"

definition GetForKeyRequestSchema :: "jsval \<Rightarrow> jsval option" where
  "GetForKeyRequestSchema v =
     (if is_object v \<and> is_str (obj_get v ''name'') \<and> ActorKeySchema (obj_get v ''key'')
      then Some (JObj [(''name'', obj_get v ''name''), (''key'', obj_get v ''key'')]) else None)"

definition CreateRequestSchema :: "jsval \<Rightarrow> jsval option" where
  "CreateRequestSchema v =
     (if is_object v \<and> is_str (obj_get v ''name'') \<and> ActorKeySchema (obj_get v ''key'')
         \<and> (obj_get v ''region'' = JUndef \<or> is_str (obj_get v ''region''))
      then Some (JObj ([(''name'', obj_get v ''name''), (''key'', obj_get v ''key'')]
                   @ optional_prop v ''input'' @ optional_prop v ''region'')) else None)"

definition GetForIdSchema :: "jsval \<Rightarrow> jsval option" where
  "GetForIdSchema v =
     (if is_object v \<and> is_str (obj_get v ''name'') \<and> is_str (obj_get v ''actorId'')
      then Some (JObj [(''name'', obj_get v ''name''), (''actorId'', obj_get v ''actorId'')]) else None)"

text \<open>\<open>z.union\<close>: the first alternative that matches, with the properties it names.\<close>

fun first_match :: "(string \<times> (jsval \<Rightarrow> jsval option)) list \<Rightarrow> jsval \<Rightarrow> jsval option" where
  "first_match [] v = None"
| "first_match ((k, schema) # alts) v =
     (case (if is_object v then schema (obj_get v k) else None) of
        Some q \<Rightarrow> Some (JObj [(k, q)])
      | None \<Rightarrow> first_match alts v)"

definition ActorQuerySchema :: "jsval \<Rightarrow> jsval option" where
  "ActorQuerySchema v =
     first_match [(''getForId'', GetForIdSchema), (''getForKey'', GetForKeyRequestSchema),
       (''getOrCreateForKey'', CreateRequestSchema), (''create'', CreateRequestSchema)] v"

definition EncodingSchema :: "string \<Rightarrow> encoding option" where
  "EncodingSchema s =
     (if s = ''json'' then Some Json else if s = ''cbor'' then Some Cbor
      else if s = ''bare'' then Some Bare else None)"

section \<open>The environment and the driver\<close>

datatype intent = Get | Create | Connect_intent | Action_intent

record actor_output =
  ao_actorId :: jsval
  ao_name :: jsval

record 's manager_driver =
  md_getForId :: "jsval \<Rightarrow> jsval \<Rightarrow> 's \<Rightarrow> (js_err + actor_output option) \<times> 's"
  md_getWithKey :: "jsval \<Rightarrow> jsval \<Rightarrow> 's \<Rightarrow> (js_err + actor_output option) \<times> 's"
  md_getOrCreateWithKey :: "jsval \<Rightarrow> jsval \<Rightarrow> jsval \<Rightarrow> jsval \<Rightarrow> 's \<Rightarrow> (js_err + actor_output) \<times> 's"
  md_createActor :: "jsval \<Rightarrow> jsval \<Rightarrow> jsval \<Rightarrow> jsval \<Rightarrow> 's \<Rightarrow> (js_err + actor_output) \<times> 's"

text \<open>\<open>me_use\<close> is the registry: per name the \<open>onAuth\<close> of the actor's configuration, if it has one.
  \<open>me_json\<close> is \<open>JSON.stringify\<close>, \<open>me_text\<close> the text of a value or error.\<close>

record manager_env =
  me_codec :: codec
  me_use :: "(string \<times> (http_request \<Rightarrow> intent list \<Rightarrow> jsval \<Rightarrow> js_err + jsval) option) list"
  me_json :: "jsval \<Rightarrow> js_err + string"
  me_text :: "jsval \<Rightarrow> string"
  me_errText :: "js_err \<Rightarrow> string"
  me_websockets :: bool
  me_uri :: "string \<Rightarrow> js_err + string"
  me_toClient :: "jsval version_handler"
  me_resolve :: "jsval version_handler"
  me_error :: "jsval version_handler"

definition json_parse :: "manager_env \<Rightarrow> string \<Rightarrow> js_err + jsval" where
  "json_parse me s = andThen (cd_json_parse (me_codec me) s) (\<lambda>j. Inr (of_json j))"

text \<open>\<open>k in v\<close>\<close>

definition js_in :: "string \<Rightarrow> jsval \<Rightarrow> js_err + bool" where
  "js_in k v =
     (case v of
        JObj kvs \<Rightarrow> Inr (map_of kvs k \<noteq> None)
      | JArr xs \<Rightarrow> Inr False
      | _ \<Rightarrow> Inl (EError ''TypeError'' (''Cannot use 'in' operator to search for '' @ k)))"

section \<open>Authentication\<close>

text \<open>Which of the four queries it is; \<open>None\<close> for none of them.\<close>

datatype query_kind = ByGetForId | ByGetForKey | ByGetOrCreate | ByCreate

definition query_kind :: "jsval \<Rightarrow> js_err + query_kind option" where
  "query_kind q =
     andThen (js_in ''getForId'' q) (\<lambda>a. if a then Inr (Some ByGetForId) else
     andThen (js_in ''getForKey'' q) (\<lambda>b. if b then Inr (Some ByGetForKey) else
     andThen (js_in ''getOrCreateForKey'' q) (\<lambda>g. if g then Inr (Some ByGetOrCreate) else
     andThen (js_in ''create'' q) (\<lambda>e. if e then Inr (Some ByCreate) else Inr None))))"

definition getIntentsFromQuery :: "jsval \<Rightarrow> js_err + intent list" where
  "getIntentsFromQuery q =
     andThen (query_kind q) (\<lambda>k.
       Inr (case k of
              Some ByGetForId \<Rightarrow> [Get]
            | Some ByGetForKey \<Rightarrow> [Get]
            | Some ByGetOrCreate \<Rightarrow> [Get, Create]
            | Some ByCreate \<Rightarrow> [Create]
            | None \<Rightarrow> []))"

definition invalid_query :: js_err where
  "invalid_query = EActor (InvalidRequest ''Invalid query format'')"

text \<open>\<open>driver.getForId\<close> for a query, \<open>ActorNotFound\<close> when there is none.\<close>

definition find_by_id :: "manager_env \<Rightarrow> 's manager_driver \<Rightarrow> jsval \<Rightarrow> 's \<Rightarrow> (js_err + actor_output) \<times> 's" where
  "find_by_id me d q s =
     (let g = obj_get q ''getForId''
      in case andThen (read_prop g ''name'') (\<lambda>n. andThen (read_prop g ''actorId'') (\<lambda>i. Inr (n, i))) of
           Inl e \<Rightarrow> (Inl e, s)
         | Inr (n, i) \<Rightarrow>
             (case md_getForId d n i s of
                (Inl e, s1) \<Rightarrow> (Inl e, s1)
              | (Inr None, s1) \<Rightarrow> (Inl (EActor (ActorNotFound (if truthy i then Some (me_text me i) else None))), s1)
              | (Inr (Some out), s1) \<Rightarrow> (Inr out, s1)))"

definition getActorNameFromQuery ::
    "manager_env \<Rightarrow> 's manager_driver \<Rightarrow> jsval \<Rightarrow> 's \<Rightarrow> (js_err + jsval) \<times> 's" where
  "getActorNameFromQuery me d q s =
     (case query_kind q of
        Inl e \<Rightarrow> (Inl e, s)
      | Inr None \<Rightarrow> (Inl invalid_query, s)
      | Inr (Some ByGetForId) \<Rightarrow>
          (case find_by_id me d q s of (Inl e, s1) \<Rightarrow> (Inl e, s1) | (Inr out, s1) \<Rightarrow> (Inr (ao_name out), s1))
      | Inr (Some ByGetForKey) \<Rightarrow> (read_prop (obj_get q ''getForKey'') ''name'', s)
      | Inr (Some ByGetOrCreate) \<Rightarrow> (read_prop (obj_get q ''getOrCreateForKey'') ''name'', s)
      | Inr (Some ByCreate) \<Rightarrow> (read_prop (obj_get q ''create'') ''name'', s))"

definition no_onAuth :: js_err where
  "no_onAuth = EActor (Forbidden (Some (''Actor requires authentication but no onAuth handler is defined''
     @ '' (https://rivet.gg/docs/actors/authentication/). Provide an empty handler to disable auth: `onAuth: () => {}`'')) JUndef)"

definition authenticateRequest ::
    "http_request \<Rightarrow> (http_request \<Rightarrow> intent list \<Rightarrow> jsval \<Rightarrow> js_err + jsval) option \<Rightarrow> intent list \<Rightarrow> jsval \<Rightarrow> js_err + jsval" where
  "authenticateRequest c onAuth intents params =
     (case onAuth of None \<Rightarrow> Inl no_onAuth | Some f \<Rightarrow> f c intents params)"

text \<open>The key a value is looked up by; an inherited name finds a function, which has no \<open>config\<close>.\<close>

definition registry_key :: "manager_env \<Rightarrow> jsval \<Rightarrow> string" where
  "registry_key me v = (case v of JStr s \<Rightarrow> s | _ \<Rightarrow> me_text me v)"

definition authenticateEndpoint ::
    "manager_env \<Rightarrow> 's manager_driver \<Rightarrow> http_request \<Rightarrow> jsval \<Rightarrow> intent list \<Rightarrow> jsval \<Rightarrow> 's \<Rightarrow> (js_err + jsval) \<times> 's" where
  "authenticateEndpoint me d c q additionalIntents params s =
     (case getIntentsFromQuery q of
        Inl e \<Rightarrow> (Inl e, s)
      | Inr base \<Rightarrow>
          (let intents = fold js_add additionalIntents base
           in case getActorNameFromQuery me d q s of
                (Inl e, s1) \<Rightarrow> (Inl e, s1)
              | (Inr name, s1) \<Rightarrow>
                  (case jm_get (me_use me) (registry_key me name) of
                     Some onAuth \<Rightarrow> (authenticateRequest c onAuth intents params, s1)
                   | None \<Rightarrow>
                       if registry_key me name \<in> set object_prototype_functions then (Inl TypeError, s1)
                       else (Inl (EActor (ActorNotFound (if truthy name then Some (me_text me name) else None))), s1))))"

section \<open>\<open>queryActor\<close>\<close>

definition queryActor :: "manager_env \<Rightarrow> 's manager_driver \<Rightarrow> jsval \<Rightarrow> 's \<Rightarrow> (js_err + jsval) \<times> 's" where
  "queryActor me d q s =
     (case query_kind q of
        Inl e \<Rightarrow> (Inl e, s)
      | Inr None \<Rightarrow> (Inl invalid_query, s)
      | Inr (Some ByGetForId) \<Rightarrow>
          (case find_by_id me d q s of (Inl e, s1) \<Rightarrow> (Inl e, s1) | (Inr out, s1) \<Rightarrow> (Inr (ao_actorId out), s1))
      | Inr (Some ByGetForKey) \<Rightarrow>
          (let g = obj_get q ''getForKey''
           in case read_prop g ''name'' of
                Inl e \<Rightarrow> (Inl e, s)
              | Inr n \<Rightarrow>
                  (case md_getWithKey d n (obj_get g ''key'') s of
                     (Inl e, s1) \<Rightarrow> (Inl e, s1)
                   | (Inr None, s1) \<Rightarrow>
                       (andThen (me_json me (obj_get g ''key'')) (\<lambda>k.
                          Inl (EActor (ActorNotFound (Some (me_text me n @ '':'' @ k))))), s1)
                   | (Inr (Some out), s1) \<Rightarrow> (Inr (ao_actorId out), s1)))
      | Inr (Some ByGetOrCreate) \<Rightarrow>
          (let g = obj_get q ''getOrCreateForKey''
           in case read_prop g ''name'' of
                Inl e \<Rightarrow> (Inl e, s)
              | Inr n \<Rightarrow>
                  (case md_getOrCreateWithKey d n (obj_get g ''key'') (obj_get g ''input'') (obj_get g ''region'') s of
                     (Inl e, s1) \<Rightarrow> (Inl e, s1)
                   | (Inr out, s1) \<Rightarrow> (Inr (ao_actorId out), s1)))
      | Inr (Some ByCreate) \<Rightarrow>
          (let g = obj_get q ''create''
           in case read_prop g ''name'' of
                Inl e \<Rightarrow> (Inl e, s)
              | Inr n \<Rightarrow>
                  (case md_createActor d n (obj_get g ''key'') (obj_get g ''input'') (obj_get g ''region'') s of
                     (Inl e, s1) \<Rightarrow> (Inl e, s1)
                   | (Inr out, s1) \<Rightarrow> (Inr (ao_actorId out), s1))))"

section \<open>What the handlers share\<close>

datatype router_result =
    Proxied jsval http_request
  | ProxiedWebSocket jsval string encoding jsval jsval
  | Body "output_data option"
  | TextReply string nat
  | SseReply "(string option \<times> string) list"
  | WsReply "output_data option" nat string
  | Threw js_err

definition getRequestEncoding :: "http_request \<Rightarrow> js_err + encoding" where
  "getRequestEncoding c =
     (case given_header c HEADER_ENCODING of
        None \<Rightarrow> Inl (EActor (InvalidEncoding ''undefined''))
      | Some s \<Rightarrow> (case EncodingSchema s of None \<Rightarrow> Inl (EActor (InvalidEncoding s)) | Some e \<Rightarrow> Inr e))"

definition getRequestExposeInternalError :: "http_request \<Rightarrow> bool" where
  "getRequestExposeInternalError c = (given_header c HEADER_EXPOSE_INTERNAL_ERROR = Some ''true'')"

definition getRequestQuery :: "manager_env \<Rightarrow> http_request \<Rightarrow> js_err + jsval" where
  "getRequestQuery me c =
     (case given_header c HEADER_ACTOR_QUERY of
        None \<Rightarrow> Inl (EActor (InvalidRequest ''missing query''))
      | Some s \<Rightarrow> (case json_parse me s of Inl e \<Rightarrow> Inl (EActor (InvalidQueryJSON (me_errText me e))) | Inr v \<Rightarrow> Inr v))"

definition getRequestConnParams :: "manager_env \<Rightarrow> http_request \<Rightarrow> js_err + jsval" where
  "getRequestConnParams me c =
     (case given_header c HEADER_CONN_PARAMS of
        None \<Rightarrow> Inr JNull
      | Some s \<Rightarrow>
          (case json_parse me s of
             Inl e \<Rightarrow> Inl (EActor (InvalidParams (''Invalid params JSON: '' @ me_errText me e)))
           | Inr v \<Rightarrow> Inr v))"

definition schema_error :: js_err where
  "schema_error = EActor (InvalidRequest ''ZodError'')"

text \<open>The connection parameters handed to \<open>onAuth\<close>.\<close>

definition auth_params :: "manager_env \<Rightarrow> string option \<Rightarrow> js_err + jsval" where
  "auth_params me connParams = (case connParams of None \<Rightarrow> Inr JUndef | Some s \<Rightarrow> json_parse me s)"

text \<open>\<open>ConnectRequestSchema\<close> on the headers: the query, the encoding and the raw parameters.\<close>

definition connect_request :: "manager_env \<Rightarrow> http_request \<Rightarrow> js_err + (jsval \<times> encoding \<times> string option)" where
  "connect_request me c =
     andThen (getRequestQuery me c) (\<lambda>q.
       case (ActorQuerySchema q, Option.bind (get_header (rq_headers c) HEADER_ENCODING) EncodingSchema) of
         (Some q', Some enc) \<Rightarrow> Inr (q', enc, given_header c HEADER_CONN_PARAMS)
       | _ \<Rightarrow> Inl schema_error)"

text \<open>Authentication, then the query: in this order in every handler.\<close>

definition authorize ::
    "manager_env \<Rightarrow> 's manager_driver \<Rightarrow> http_request \<Rightarrow> jsval \<Rightarrow> intent list \<Rightarrow> jsval \<Rightarrow> 's \<Rightarrow> (js_err + (jsval \<times> jsval)) \<times> 's" where
  "authorize me d c q intents params s =
     (case authenticateEndpoint me d c q intents params s of
        (Inl e, s1) \<Rightarrow> (Inl e, s1)
      | (Inr authData, s1) \<Rightarrow>
          (case queryActor me d q s1 of
             (Inl e, s2) \<Rightarrow> (Inl e, s2)
           | (Inr actorId, s2) \<Rightarrow>
               if \<not> truthy actorId then (Inl (invariant_error ''Missing actor ID''), s2)
               else (Inr (authData, actorId), s2)))"

text \<open>\<open>if (authData) headers.set(HEADER_AUTH_DATA, JSON.stringify(authData))\<close>\<close>

definition add_auth :: "manager_env \<Rightarrow> jsval \<Rightarrow> headers \<Rightarrow> js_err + headers" where
  "add_auth me authData h =
     (if truthy authData then andThen (me_json me authData) (\<lambda>t. Inr (set_header HEADER_AUTH_DATA t h)) else Inr h)"

definition encoding_name :: "encoding \<Rightarrow> string" where
  "encoding_name e = (case e of Json \<Rightarrow> ''json'' | Cbor \<Rightarrow> ''cbor'' | Bare \<Rightarrow> ''bare'')"

text \<open>The headers of a request that is built afresh.\<close>

definition fresh_headers :: "manager_env \<Rightarrow> encoding \<Rightarrow> string option \<Rightarrow> jsval \<Rightarrow> js_err + headers" where
  "fresh_headers me enc connParams authData =
     add_auth me authData
       (case connParams of
          None \<Rightarrow> set_header HEADER_ENCODING (encoding_name enc) []
        | Some p \<Rightarrow> set_header HEADER_CONN_PARAMS p (set_header HEADER_ENCODING (encoding_name enc) []))"

text \<open>The \<open>catch\<close> of the proxying handlers, around the driver's \<open>proxyRequest\<close> too.\<close>

definition wrap_error :: "manager_env \<Rightarrow> string \<Rightarrow> js_err \<Rightarrow> js_err" where
  "wrap_error me operation e =
     (case isActorError e of
        Inl t \<Rightarrow> t
      | Inr True \<Rightarrow> e
      | Inr False \<Rightarrow> EActor (ProxyError operation (me_errText me e)))"

definition proxy_answer :: "manager_env \<Rightarrow> string \<Rightarrow> js_err + 'r \<Rightarrow> js_err + 'r" where
  "proxy_answer me operation res = (case res of Inl e \<Rightarrow> Inl (wrap_error me operation e) | Inr r \<Rightarrow> Inr r)"

section \<open>Connections\<close>

text \<open>An error of the SSE handler is written to the stream.\<close>

definition sse_error :: "manager_env \<Rightarrow> encoding option \<Rightarrow> js_err \<Rightarrow> router_result" where
  "sse_error me encoding e =
     (case deconstructError (me_text me) e False of
        Inl t \<Rightarrow> Threw t
      | Inr dd \<Rightarrow>
          SseReply
            (case encoding of
               None \<Rightarrow> [(Some ''error'', de_code dd)]
             | Some enc \<Rightarrow>
                 (case andThen (error_message (me_codec me) dd JNull)
                         (\<lambda>m. serializeWithEncoding (me_codec me) enc m (me_toClient me)) of
                    Inr (Some out) \<Rightarrow> [(None, encodeDataToString out)]
                  | _ \<Rightarrow> [(Some ''error'', ''internal error during error handling'')])))"

definition handleSseConnectRequest ::
    "manager_env \<Rightarrow> 's manager_driver \<Rightarrow> http_request \<Rightarrow> 's \<Rightarrow> router_result \<times> 's" where
  "handleSseConnectRequest me d c s =
     (case getRequestEncoding c of
        Inl e \<Rightarrow> (sse_error me None e, s)
      | Inr encoding \<Rightarrow>
          (case andThen (connect_request me c) (\<lambda>(q, enc, p). andThen (auth_params me p) (\<lambda>v. Inr (q, enc, p, v))) of
             Inl e \<Rightarrow> (sse_error me (Some encoding) e, s)
           | Inr (q, enc, p, v) \<Rightarrow>
               (case authorize me d c q [Connect_intent] v s of
                  (Inl e, s1) \<Rightarrow> (sse_error me (Some encoding) e, s1)
                | (Inr (authData, actorId), s1) \<Rightarrow>
                    (case fresh_headers me enc p authData of
                       Inl e \<Rightarrow> (sse_error me (Some encoding) e, s1)
                     | Inr h \<Rightarrow>
                         (Proxied actorId \<lparr>rq_method = ''GET'', rq_path = ''/connect/sse'', rq_search = [],
                            rq_headers = h, rq_action = [], rq_body = []\<rparr>, s1)))))"

definition js_space :: "char \<Rightarrow> bool" where
  "js_space ch = (of_char ch \<in> {9, 10, 11, 12, 13, 32, 160 :: nat})"

definition js_trim :: "string \<Rightarrow> string" where
  "js_trim s = rev (dropWhile js_space (rev (dropWhile js_space s)))"

text \<open>\<open>s.split(sep)\<close> for a separator that is not empty.\<close>

function js_split :: "string \<Rightarrow> string \<Rightarrow> string list" where
  "js_split sep s =
     (case find_index (\<lambda>i. prefix sep (drop i s)) [0 ..< length s] of
        None \<Rightarrow> [s]
      | Some i \<Rightarrow> if sep = [] then [s] else take i s # js_split sep (drop (i + length sep) s))"
  by pat_completeness auto

termination
proof (relation "measure (\<lambda>(sep, s). length s)")
  fix sep s :: string and i
  assume "find_index (\<lambda>i. prefix sep (drop i s)) [0 ..< length s] = Some i" and "sep \<noteq> []"
  then have "i < length s" and "0 < length sep" by (auto dest!: find_index_SomeD)
  then have "length s - (i + length sep) < length s" by linarith
  then show "((sep, drop (i + length sep) s), (sep, s)) \<in> measure (\<lambda>(sep, s). length s)" by simp
qed simp

declare js_split.simps [simp del]

record ws_protocols =
  wp_queryRaw :: "string option"
  wp_encodingRaw :: "string option"
  wp_connParamsRaw :: "string option"

fun read_protocols :: "manager_env \<Rightarrow> string list \<Rightarrow> ws_protocols \<Rightarrow> js_err + ws_protocols" where
  "read_protocols me [] w = Inr w"
| "read_protocols me (p # ps) w =
     (if prefix ''query.'' p then
        andThen (me_uri me (drop 6 p)) (\<lambda>q. read_protocols me ps (w\<lparr>wp_queryRaw := Some q\<rparr>))
      else if prefix ''encoding.'' p then read_protocols me ps (w\<lparr>wp_encodingRaw := Some (drop 9 p)\<rparr>)
      else if prefix ''conn_params.'' p then
        andThen (me_uri me (drop 12 p)) (\<lambda>q. read_protocols me ps (w\<lparr>wp_connParamsRaw := Some q\<rparr>))
      else read_protocols me ps w)"

definition parseWebSocketProtocols :: "manager_env \<Rightarrow> string option \<Rightarrow> js_err + ws_protocols" where
  "parseWebSocketProtocols me protocols =
     read_protocols me (case protocols of None \<Rightarrow> [] | Some [] \<Rightarrow> [] | Some p \<Rightarrow> map js_trim (js_split '','' p))
       \<lparr>wp_queryRaw = None, wp_encodingRaw = None, wp_connParamsRaw = None\<rparr>"

text \<open>An error of the WebSocket handlers is sent over the socket, which is then closed.\<close>

definition ws_error :: "manager_env \<Rightarrow> encoding option \<Rightarrow> js_err \<Rightarrow> router_result" where
  "ws_error me encoding e =
     (case deconstructError (me_text me) e False of
        Inl t \<Rightarrow> Threw t
      | Inr dd \<Rightarrow>
          (case encoding of
             None \<Rightarrow> WsReply None 1011 (de_code dd)
           | Some enc \<Rightarrow>
               (case andThen (error_message (me_codec me) dd JNull)
                       (\<lambda>m. serializeWithEncoding (me_codec me) enc m (me_toClient me)) of
                  Inl e' \<Rightarrow> WsReply None 1011 ''internal error during error handling''
                | Inr out \<Rightarrow> WsReply out 1011 (de_code dd))))"

text \<open>The request of a WebSocket: query, encoding, parsed and raw parameters.\<close>

definition connect_ws_request ::
    "manager_env \<Rightarrow> http_request \<Rightarrow> js_err + (jsval \<times> encoding \<times> jsval \<times> jsval)" where
  "connect_ws_request me c =
     andThen (parseWebSocketProtocols me (get_header (rq_headers c) ''sec-websocket-protocol'')) (\<lambda>w.
     andThen (case wp_queryRaw w of
                None \<Rightarrow> Inl (EActor (InvalidQueryJSON ''SyntaxError''))
              | Some t \<Rightarrow>
                  (case json_parse me t of Inl e \<Rightarrow> Inl (EActor (InvalidQueryJSON (me_errText me e))) | Inr v \<Rightarrow> Inr v)) (\<lambda>q.
     andThen (case wp_connParamsRaw w of
                Some (x # xs) \<Rightarrow>
                  (case json_parse me (x # xs) of
                     Inl e \<Rightarrow> Inl (EActor (InvalidParams (''Invalid params JSON: '' @ me_errText me e)))
                   | Inr v \<Rightarrow> Inr v)
              | _ \<Rightarrow> Inr JNull) (\<lambda>p.
       case (ActorQuerySchema q, Option.bind (wp_encodingRaw w) EncodingSchema) of
         (Some q', Some enc) \<Rightarrow>
           Inr (q', enc, p, case wp_connParamsRaw w of None \<Rightarrow> JUndef | Some t \<Rightarrow> JStr t)
       | _ \<Rightarrow> Inl schema_error)))"

definition handleWebSocketConnectRequest ::
    "manager_env \<Rightarrow> 's manager_driver \<Rightarrow> http_request \<Rightarrow> 's \<Rightarrow> router_result \<times> 's" where
  "handleWebSocketConnectRequest me d c s =
     (if \<not> me_websockets me then
        (TextReply ''WebSockets are not enabled for this driver. Use SSE instead.'' 400, s)
      else case connect_ws_request me c of
          Inl e \<Rightarrow> (ws_error me None e, s)
        | Inr (q, enc, p, raw) \<Rightarrow>
            (case authorize me d c q [Connect_intent] raw s of
               (Inl e, s1) \<Rightarrow> (ws_error me (Some enc) e, s1)
             | (Inr (authData, actorId), s1) \<Rightarrow>
                 (ProxiedWebSocket actorId ''/connect/websocket'' enc p authData, s1)))"

section \<open>Messages, actions and lookups\<close>

definition handleMessageRequest :: "manager_env \<Rightarrow> http_request \<Rightarrow> 's \<Rightarrow> router_result \<times> 's" where
  "handleMessageRequest me c s =
     (case (get_header (rq_headers c) HEADER_ACTOR_ID, get_header (rq_headers c) HEADER_CONN_ID,
            Option.bind (get_header (rq_headers c) HEADER_ENCODING) EncodingSchema,
            get_header (rq_headers c) HEADER_CONN_TOKEN) of
        (Some actorId, Some connId, Some enc, Some connToken) \<Rightarrow>
          (Proxied (JStr actorId) \<lparr>rq_method = ''POST'', rq_path = ''/connections/message'', rq_search = [],
             rq_headers = set_header HEADER_CONN_TOKEN connToken (set_header HEADER_CONN_ID connId
               (set_header HEADER_ENCODING (encoding_name enc) [])),
             rq_action = [], rq_body = rq_body c\<rparr>, s)
      | _ \<Rightarrow> (Threw schema_error, s))"

definition handleActionRequest ::
    "manager_env \<Rightarrow> 's manager_driver \<Rightarrow> http_request \<Rightarrow> 's \<Rightarrow> router_result \<times> 's" where
  "handleActionRequest me d c s =
     (case andThen (connect_request me c) (\<lambda>(q, enc, p). andThen (auth_params me p) (\<lambda>v. Inr (q, enc, p, v))) of
        Inl e \<Rightarrow> (Threw (wrap_error me ''Action call'' e), s)
      | Inr (q, enc, p, v) \<Rightarrow>
          (case authorize me d c q [Action_intent] v s of
             (Inl e, s1) \<Rightarrow> (Threw (wrap_error me ''Action call'' e), s1)
           | (Inr (authData, actorId), s1) \<Rightarrow>
               (case fresh_headers me enc p authData of
                  Inl e \<Rightarrow> (Threw (wrap_error me ''Action call'' e), s1)
                | Inr h \<Rightarrow>
                    (Proxied actorId \<lparr>rq_method = ''POST'', rq_path = ''/action/'', rq_search = [],
                       rq_headers = h, rq_action = rq_action c, rq_body = rq_body c\<rparr>, s1))))"

definition handleResolveRequest ::
    "manager_env \<Rightarrow> 's manager_driver \<Rightarrow> http_request \<Rightarrow> 's \<Rightarrow> router_result \<times> 's" where
  "handleResolveRequest me d c s =
     (case andThen (getRequestEncoding c) (\<lambda>enc. andThen (getRequestQuery me c) (\<lambda>q.
             case ActorQuerySchema q of
               None \<Rightarrow> Inl schema_error
             | Some q' \<Rightarrow> andThen (auth_params me (given_header c HEADER_CONN_PARAMS)) (\<lambda>v. Inr (enc, q', v)))) of
        Inl e \<Rightarrow> (Threw e, s)
      | Inr (enc, q, v) \<Rightarrow>
          (case authorize me d c q [] v s of
             (Inl e, s1) \<Rightarrow> (Threw e, s1)
           | (Inr (authData, actorId), s1) \<Rightarrow>
               (case serializeWithEncoding (me_codec me) enc (JObj [(''actorId'', actorId)]) (me_resolve me) of
                  Inl e \<Rightarrow> (Threw e, s1)
                | Inr out \<Rightarrow> (Body out, s1))))"

section \<open>Raw requests\<close>

definition after_prefix :: "string \<Rightarrow> string \<Rightarrow> string" where
  "after_prefix sep path = (case js_split sep path of a # b # rest \<Rightarrow> b | _ \<Rightarrow> [])"

text \<open>Here the query is not validated, and the client's headers are passed on.\<close>

definition handleRawHttpRequest ::
    "manager_env \<Rightarrow> 's manager_driver \<Rightarrow> http_request \<Rightarrow> 's \<Rightarrow> router_result \<times> 's" where
  "handleRawHttpRequest me d c s =
     (case (case given_header c HEADER_ACTOR_QUERY of
              None \<Rightarrow> Inl (EActor (InvalidRequest ''Missing actor query header''))
            | Some t \<Rightarrow> andThen (json_parse me t) (\<lambda>q.
                andThen (auth_params me (given_header c HEADER_CONN_PARAMS)) (\<lambda>v. Inr (q, v)))) of
        Inl e \<Rightarrow> (Threw (wrap_error me ''Raw HTTP request'' e), s)
      | Inr (q, v) \<Rightarrow>
          (case authorize me d c q [Action_intent] v s of
             (Inl e, s1) \<Rightarrow> (Threw (wrap_error me ''Raw HTTP request'' e), s1)
           | (Inr (authData, actorId), s1) \<Rightarrow>
               (case andThen (if truthy v then andThen (me_json me v) (\<lambda>t. Inr (set_header HEADER_CONN_PARAMS t (rq_headers c)))
                              else Inr (rq_headers c)) (add_auth me authData) of
                  Inl e \<Rightarrow> (Threw (wrap_error me ''Raw HTTP request'' e), s1)
                | Inr h \<Rightarrow>
                    (Proxied actorId \<lparr>rq_method = rq_method c,
                       rq_path = ''/raw/http/'' @ after_prefix ''/raw/http/'' (rq_path c), rq_search = rq_search c,
                       rq_headers = h, rq_action = [], rq_body = rq_body c\<rparr>, s1))))"

definition handleRawWebSocketRequest ::
    "manager_env \<Rightarrow> 's manager_driver \<Rightarrow> http_request \<Rightarrow> 's \<Rightarrow> router_result \<times> 's" where
  "handleRawWebSocketRequest me d c s =
     (if \<not> me_websockets me then (TextReply ''WebSockets are not enabled for this driver.'' 400, s)
      else case andThen (parseWebSocketProtocols me (get_header (rq_headers c) ''sec-websocket-protocol'')) (\<lambda>w.
             case wp_queryRaw w of
               Some (x # xs) \<Rightarrow>
                 andThen (json_parse me (x # xs)) (\<lambda>q.
                 andThen (case wp_connParamsRaw w of Some (y # ys) \<Rightarrow> json_parse me (y # ys) | _ \<Rightarrow> Inr JUndef) (\<lambda>v. Inr (q, v)))
             | _ \<Rightarrow> Inl (EActor (InvalidRequest ''Missing query in WebSocket protocol''))) of
          Inl e \<Rightarrow> (ws_error me None e, s)
        | Inr (q, v) \<Rightarrow>
            (case authorize me d c q [Action_intent] v s of
               (Inl e, s1) \<Rightarrow> (ws_error me None e, s1)
             | (Inr (authData, actorId), s1) \<Rightarrow>
                 (ProxiedWebSocket actorId
                    (''/raw/websocket/'' @ after_prefix ''/raw/websocket/'' (rq_path c) @ rq_search c) Json v authData, s1)))"

section \<open>The inspector\<close>

definition compareSecrets :: "string \<Rightarrow> string \<Rightarrow> bool" where
  "compareSecrets providedSecret validSecret =
     (if length providedSecret \<noteq> length validSecret then False else providedSecret = validSecret)"

text \<open>\<open>s.replace(from, '')\<close> removes the first occurrence.\<close>

definition remove_first :: "string \<Rightarrow> string \<Rightarrow> string" where
  "remove_first what s =
     (case find_index (\<lambda>i. prefix what (drop i s)) [0 ..< length s] of
        None \<Rightarrow> s
      | Some i \<Rightarrow> take i s @ drop (i + length what) s)"

text \<open>\<open>secureInspector\<close>: the reply that refuses the request, if it is refused.\<close>

definition secureInspector :: "bool \<Rightarrow> string option \<Rightarrow> http_request \<Rightarrow> router_result option" where
  "secureInspector enabled token c =
     (if \<not> enabled then Some (TextReply ''Inspector is not enabled'' 503)
      else case map_option (remove_first ''Bearer '') (get_header (rq_headers c) ''Authorization'') of
          Some (u # us) \<Rightarrow>
            (case token of
               Some (t # ts) \<Rightarrow> if compareSecrets (u # us) (t # ts) then None else Some (TextReply ''Unauthorized'' 401)
             | _ \<Rightarrow> Some (TextReply ''Unauthorized'' 401))
        | _ \<Rightarrow> Some (TextReply ''Unauthorized'' 401))"

text \<open>\<open>universalActorProxy\<close>, which the router mounts behind \<open>secureInspector\<close> only.  The rewritten
  path is left out.\<close>

definition universalActorProxy ::
    "manager_env \<Rightarrow> 's manager_driver \<Rightarrow> http_request \<Rightarrow> 's \<Rightarrow> router_result \<times> 's" where
  "universalActorProxy me d c s =
     (if get_header (rq_headers c) ''upgrade'' = Some ''websocket'' then handleRawWebSocketRequest me d c s
      else case (case given_header c HEADER_ACTOR_QUERY of
                   None \<Rightarrow> Inl (EActor (InvalidRequest ''Missing actor query header''))
                 | Some t \<Rightarrow> andThen (json_parse me t) (\<lambda>q.
                     case ActorQuerySchema q of None \<Rightarrow> Inl (EError ''ZodError'' []) | Some q' \<Rightarrow> Inr q')) of
          Inl e \<Rightarrow> (Threw e, s)
        | Inr q \<Rightarrow>
            (case queryActor me d q s of
               (Inl e, s1) \<Rightarrow> (Threw e, s1)
             | (Inr actorId, s1) \<Rightarrow> (Proxied actorId c, s1)))"

section \<open>Errors\<close>

text \<open>\<open>handleRouteError\<close> of \<open>common/router.ts\<close>: status and body.\<close>

definition handleRouteError :: "manager_env \<Rightarrow> bool \<Rightarrow> js_err \<Rightarrow> http_request \<Rightarrow> js_err + (nat \<times> output_data option)" where
  "handleRouteError me enableExposeInternalError e c =
     andThen (deconstructError (me_text me) e (enableExposeInternalError \<and> getRequestExposeInternalError c)) (\<lambda>dd.
     andThen (cd_cbor_encode (me_codec me) (de_metadata dd)) (\<lambda>metadata.
     andThen (serializeWithEncoding (me_codec me)
                (case getRequestEncoding c of Inl _ \<Rightarrow> Json | Inr enc \<Rightarrow> enc)
                (JObj [(''code'', JStr (de_code dd)), (''message'', JStr (de_message dd)), (''metadata'', JBuffer metadata)])
                (me_error me)) (\<lambda>out. Inr (de_statusCode dd, out))))"

section \<open>Cross-origin requests\<close>

text \<open>The paths the CORS middleware leaves alone, and its answer to an origin: \<open>None\<close> for null or
  undefined.  A list for the inspector decides alone.\<close>

definition cors_skipped :: "string \<Rightarrow> bool" where
  "cors_skipped path \<longleftrightarrow> suffix ''/actors/connect/websocket'' path \<or> sublist ''/actors/raw/websocket/'' path
     \<or> suffix ''/inspect'' path \<or> suffix ''/actors/inspect'' path"

datatype origin_rule = OriginFunction "string \<Rightarrow> string option" | OriginList "string list" | OriginText string

text \<open>An array is returned as if it were a text, and becomes one.\<close>

definition run_origin :: "origin_rule option \<Rightarrow> string \<Rightarrow> string option" where
  "run_origin rule origin =
     (case rule of
        None \<Rightarrow> None
      | Some (OriginFunction f) \<Rightarrow> (case f origin of Some (x # xs) \<Rightarrow> Some (x # xs) | _ \<Rightarrow> None)
      | Some (OriginText t) \<Rightarrow> Some t
      | Some (OriginList ts) \<Rightarrow> Some (join_with (CHR '','') ts))"

definition cors_origin :: "origin_rule option \<Rightarrow> origin_rule option \<Rightarrow> string \<Rightarrow> string option" where
  "cors_origin inspectorOrigin runOrigin origin =
     (case inspectorOrigin of
        None \<Rightarrow> run_origin runOrigin origin
      | Some (OriginFunction f) \<Rightarrow>
          (case f origin of Some (x # xs) \<Rightarrow> Some (x # xs) | _ \<Rightarrow> run_origin runOrigin origin)
      | Some (OriginList ts) \<Rightarrow> if origin \<in> set ts then Some origin else None
      | Some (OriginText t) \<Rightarrow> Some t)"

text \<open>With the inspector's origins given as a list, the origins the registry itself allows are refused.\<close>

lemma inspector_list_decides:
  "origin \<notin> set ts \<Longrightarrow> cors_origin (Some (OriginList ts)) runOrigin origin = None"
  by (simp add: cors_origin_def)

section \<open>The routes\<close>

datatype route =
    Resolve_route | ConnectWebSocket_route | ConnectSse_route | Action_route | Message_route
  | RawHttp_route | RawWebSocket_route

definition handle_request ::
    "manager_env \<Rightarrow> 's manager_driver \<Rightarrow> route \<Rightarrow> http_request \<Rightarrow> 's \<Rightarrow> router_result \<times> 's" where
  "handle_request me d r c s =
     (case r of
        Resolve_route \<Rightarrow> handleResolveRequest me d c s
      | ConnectWebSocket_route \<Rightarrow> handleWebSocketConnectRequest me d c s
      | ConnectSse_route \<Rightarrow> handleSseConnectRequest me d c s
      | Action_route \<Rightarrow> handleActionRequest me d c s
      | Message_route \<Rightarrow> handleMessageRequest me c s
      | RawHttp_route \<Rightarrow> handleRawHttpRequest me d c s
      | RawWebSocket_route \<Rightarrow> handleRawWebSocketRequest me d c s)"

end
