(* ===== verification/ManagerProps.thy ===== *)
theory ManagerProps
  imports ManagerRouter FsProps
begin

text \<open>
  What the manager's routes promise: the queries they let through, that nobody whom \<open>onAuth\<close> refuses
  reaches an actor or changes which actors there are, and what an actor is told of the caller.  The
  interface to the driver is a locale, interpreted on the file-system driver.
\<close>

section \<open>Queries\<close>

definition opt_prop :: "string \<Rightarrow> jsval option \<Rightarrow> (string \<times> jsval) list" where
  "opt_prop k v = (case v of None \<Rightarrow> [] | Some x \<Rightarrow> [(k, x)])"

text \<open>The type \<open>ActorQuery\<close>.\<close>

inductive actor_query :: "jsval \<Rightarrow> bool" where
  by_id: "actor_query (JObj [(''getForId'', JObj [(''name'', JStr n), (''actorId'', JStr i)])])"
| by_key: "list_all (\<lambda>p. length p \<le> MAX_ACTOR_KEY_SIZE) key \<Longrightarrow>
    actor_query (JObj [(''getForKey'', JObj [(''name'', JStr n), (''key'', JArr (map JStr key))])])"
| creating: "list_all (\<lambda>p. length p \<le> MAX_ACTOR_KEY_SIZE) key \<Longrightarrow> k \<in> {''getOrCreateForKey'', ''create''} \<Longrightarrow>
    region \<in> {None, Some JUndef} \<union> range (Some \<circ> JStr) \<Longrightarrow>
    actor_query (JObj [(k, JObj ([(''name'', JStr n), (''key'', JArr (map JStr key))]
      @ opt_prop ''input'' input @ opt_prop ''region'' region))])"

lemma is_str_JStr: "is_str v \<longleftrightarrow> (\<exists>s. v = JStr s)"
  by (cases v) (auto simp: is_str_def)

lemma is_str_simp [simp]: "is_str (JStr s)" and is_object_simp [simp]: "is_object (JObj kvs)"
  by (simp_all add: is_str_def is_object_def)

lemma key_strings: "list_all (\<lambda>x. case x of JStr s \<Rightarrow> length s \<le> m | _ \<Rightarrow> False) xs
    \<longleftrightarrow> (\<exists>ks. xs = map JStr ks \<and> list_all (\<lambda>p. length p \<le> m) ks)"
proof (induction xs)
  case (Cons x xs)
  then show ?case by (cases x) (auto simp: Cons_eq_map_conv)
qed simp

lemma ActorKeySchema_iff:
  "ActorKeySchema v \<longleftrightarrow> (\<exists>ks. v = JArr (map JStr ks) \<and> list_all (\<lambda>p. length p \<le> MAX_ACTOR_KEY_SIZE) ks)"
  by (cases v) (auto simp: ActorKeySchema_def key_strings)

lemma key_schema [simp]:
  "list_all (\<lambda>p. length p \<le> MAX_ACTOR_KEY_SIZE) ks \<Longrightarrow> ActorKeySchema (JArr (map JStr ks))"
  by (auto simp: ActorKeySchema_iff)

lemma GetForIdSchema_Some:
  "GetForIdSchema v = Some q \<longleftrightarrow>
     (\<exists>n i. is_object v \<and> obj_get v ''name'' = JStr n \<and> obj_get v ''actorId'' = JStr i
        \<and> q = JObj [(''name'', JStr n), (''actorId'', JStr i)])"
  by (auto simp: GetForIdSchema_def is_str_JStr split: if_splits)

lemma GetForKeyRequestSchema_Some:
  "GetForKeyRequestSchema v = Some q \<longleftrightarrow>
     (\<exists>n ks. is_object v \<and> obj_get v ''name'' = JStr n \<and> obj_get v ''key'' = JArr (map JStr ks)
        \<and> list_all (\<lambda>p. length p \<le> MAX_ACTOR_KEY_SIZE) ks
        \<and> q = JObj [(''name'', JStr n), (''key'', JArr (map JStr ks))])"
  by (auto simp: GetForKeyRequestSchema_def is_str_JStr ActorKeySchema_iff split: if_splits)

lemma GetForKeyRequestSchema_again:
  "list_all (\<lambda>p. length p \<le> MAX_ACTOR_KEY_SIZE) ks \<Longrightarrow> q = JObj [(''name'', JStr n), (''key'', JArr (map JStr ks))] \<Longrightarrow>
     GetForKeyRequestSchema q = Some q"
  by (simp add: GetForKeyRequestSchema_def)

text \<open>An optional property of a validated object.\<close>

lemma optional_obj: "optional_prop (JObj kvs) k = opt_prop k (map_of kvs k)"
  by (simp add: optional_prop_def opt_prop_def split: option.split)

lemma obj_get_map: "obj_get (JObj kvs) k = (case map_of kvs k of Some v \<Rightarrow> v | None \<Rightarrow> JUndef)"
  by simp

lemma CreateRequestSchema_Some:
  "CreateRequestSchema v = Some q \<Longrightarrow>
     \<exists>n ks input region. q = JObj ([(''name'', JStr n), (''key'', JArr (map JStr ks))]
          @ opt_prop ''input'' input @ opt_prop ''region'' region)
        \<and> list_all (\<lambda>p. length p \<le> MAX_ACTOR_KEY_SIZE) ks \<and> region \<in> {None, Some JUndef} \<union> range (Some \<circ> JStr)"
proof -
  assume q: "CreateRequestSchema v = Some q"
  then obtain kvs where v: "v = JObj kvs"
    by (cases v) (auto simp: CreateRequestSchema_def is_object_def)
  obtain n ks where nk: "obj_get v ''name'' = JStr n" "obj_get v ''key'' = JArr (map JStr ks)"
    "list_all (\<lambda>p. length p \<le> MAX_ACTOR_KEY_SIZE) ks"
    using q by (auto simp: CreateRequestSchema_def is_str_JStr ActorKeySchema_iff split: if_splits)
  have "map_of kvs ''region'' \<in> {None, Some JUndef} \<union> range (Some \<circ> JStr)"
    using q by (auto simp: CreateRequestSchema_def v is_str_JStr split: if_splits option.splits)
  moreover have "q = JObj ([(''name'', JStr n), (''key'', JArr (map JStr ks))]
      @ opt_prop ''input'' (map_of kvs ''input'') @ opt_prop ''region'' (map_of kvs ''region''))"
    using q nk unfolding v by (simp add: CreateRequestSchema_def optional_obj del: obj_get.simps split: if_splits)
  ultimately show ?thesis using nk(3) by blast
qed

lemma CreateRequestSchema_again:
  assumes "list_all (\<lambda>p. length p \<le> MAX_ACTOR_KEY_SIZE) ks" and "region \<in> {None, Some JUndef} \<union> range (Some \<circ> JStr)"
    and "q = JObj ([(''name'', JStr n), (''key'', JArr (map JStr ks))] @ opt_prop ''input'' input @ opt_prop ''region'' region)"
  shows "CreateRequestSchema q = Some q"
  using assms by (auto simp: CreateRequestSchema_def optional_obj opt_prop_def split: option.split)

text \<open>
  C13.  The query a validated request goes on with is an \<open>ActorQuery\<close>: one of the four forms, with texts
  for the name, the id, every part of the key (at most 128 long) and the region if there is one.
  Validating it again gives the same query.
\<close>

theorem ActorQuerySchema_typed:
  assumes "ActorQuerySchema v = Some q"
  shows "actor_query q \<and> ActorQuerySchema q = Some q"
proof -
  have "is_object v" using assms by (auto simp: ActorQuerySchema_def split: if_splits)
  then consider
      (i) x where "GetForIdSchema (obj_get v ''getForId'') = Some x" "q = JObj [(''getForId'', x)]"
    | (k) x where "GetForKeyRequestSchema (obj_get v ''getForKey'') = Some x" "q = JObj [(''getForKey'', x)]"
    | (c) k x where "k \<in> {''getOrCreateForKey'', ''create''}" "CreateRequestSchema (obj_get v k) = Some x" "q = JObj [(k, x)]"
    using assms by (auto simp: ActorQuerySchema_def split: option.splits)
  then show ?thesis
  proof cases
    case i
    then show ?thesis
      by (auto simp: GetForIdSchema_def is_str_JStr ActorQuerySchema_def split: if_splits intro: actor_query.by_id)
  next
    case k
    then show ?thesis
      by (auto simp: GetForKeyRequestSchema_Some GetForKeyRequestSchema_again ActorQuerySchema_def
          GetForIdSchema_def is_object_def intro!: actor_query.by_key)
  next
    case c
    then obtain n ks input region where x: "x = JObj ([(''name'', JStr n), (''key'', JArr (map JStr ks))]
          @ opt_prop ''input'' input @ opt_prop ''region'' region)"
        "list_all (\<lambda>p. length p \<le> MAX_ACTOR_KEY_SIZE) ks" "region \<in> {None, Some JUndef} \<union> range (Some \<circ> JStr)"
      using CreateRequestSchema_Some by metis
    have no: "GetForIdSchema JUndef = None" "GetForKeyRequestSchema JUndef = None" "CreateRequestSchema JUndef = None"
      by (simp_all add: GetForIdSchema_def GetForKeyRequestSchema_def CreateRequestSchema_def is_object_def)
    have "ActorQuerySchema q = Some q"
      using c(1) CreateRequestSchema_again [OF x(2,3,1)] no by (auto simp: c(3) ActorQuerySchema_def)
    moreover have "actor_query q" unfolding c(3) x(1) by (rule actor_query.creating [OF x(2) c(1) x(3)])
    ultimately show ?thesis by simp
  qed
qed

theorem ActorQuerySchema_typed_witness:
  "actor_query (JObj [(''create'', JObj [(''name'', JStr ''chat''), (''key'', JArr [JStr ''a''])])])"
proof -
  have "ActorQuerySchema (JObj [(''create'', JObj [(''key'', JArr [JStr ''a'']), (''extra'', JNull), (''name'', JStr ''chat'')])])
      = Some (JObj [(''create'', JObj [(''name'', JStr ''chat''), (''key'', JArr [JStr ''a''])])])"
    by (simp add: ActorQuerySchema_def GetForIdSchema_def GetForKeyRequestSchema_def CreateRequestSchema_def is_object_def
      ActorKeySchema_def is_str_def optional_prop_def MAX_ACTOR_KEY_SIZE_def)
  then show ?thesis using ActorQuerySchema_typed by blast
qed

section \<open>The driver's contract\<close>

text \<open>What the router relies on: a lookup leaves the directory of actors as it is, and
  \<open>getOrCreateWithKey\<close> only adds to it.\<close>

definition creates :: "jsval \<Rightarrow> bool" where
  "creates q = (query_kind q = Inr (Some ByGetOrCreate) \<or> query_kind q = Inr (Some ByCreate))"

locale actor_directory =
  fixes d :: "'s manager_driver" and dir :: "'s \<Rightarrow> 'i \<Rightarrow> 'm option" and ok :: "'s \<Rightarrow> bool"
  assumes getForId_keeps: "ok s \<Longrightarrow> md_getForId d n i s = (res, s') \<Longrightarrow> ok s' \<and> dir s' = dir s"
    and getWithKey_keeps: "ok s \<Longrightarrow> md_getWithKey d n k s = (res', s') \<Longrightarrow> ok s' \<and> dir s' = dir s"
    and getOrCreate_grows: "ok s \<Longrightarrow> md_getOrCreateWithKey d n k inp reg s = (res'', s') \<Longrightarrow> map_le (dir s) (dir s')"
begin

lemma find_by_id_keeps: "ok s \<Longrightarrow> find_by_id me d q s = (res, s') \<Longrightarrow> ok s' \<and> dir s' = dir s"
  by (auto simp: find_by_id_def Let_def split: sum.splits prod.splits option.splits dest: getForId_keeps)

lemma name_keeps: "ok s \<Longrightarrow> getActorNameFromQuery me d q s = (res, s') \<Longrightarrow> ok s' \<and> dir s' = dir s"
  by (auto simp: getActorNameFromQuery_def split: sum.splits prod.splits option.splits query_kind.splits
      dest: find_by_id_keeps)

lemma endpoint_keeps: "ok s \<Longrightarrow> authenticateEndpoint me d c q is p s = (res, s') \<Longrightarrow> ok s' \<and> dir s' = dir s"
  by (auto simp: authenticateEndpoint_def Let_def split: sum.splits prod.splits option.splits if_splits dest: name_keeps)

lemma query_keeps: "ok s \<Longrightarrow> queryActor me d q s = (res, s') \<Longrightarrow> \<not> creates q \<Longrightarrow> dir s' = dir s"
  by (auto simp: queryActor_def creates_def Let_def
      split: sum.splits prod.splits option.splits query_kind.splits dest: find_by_id_keeps getWithKey_keeps)

lemma query_grows:
  assumes "ok s" and "queryActor me d q s = (res, s')" and "query_kind q \<noteq> Inr (Some ByCreate)"
  shows "map_le (dir s) (dir s')"
proof (cases "query_kind q = Inr (Some ByGetOrCreate)")
  case True
  then show ?thesis
    using assms(2) by (auto simp: queryActor_def Let_def split: sum.splits prod.splits dest: getOrCreate_grows [OF assms(1)])
next
  case False
  then show ?thesis using query_keeps [OF assms(1,2)] assms(3) by (simp add: creates_def)
qed

text \<open>Only a request that \<open>onAuth\<close> accepted gets to the query.\<close>

lemma authorize_refused:
  assumes "ok s" and "authorize me d c q is p s = (res, s')" and "fst (authenticateEndpoint me d c q is p s) = Inl e"
  shows "res = Inl e \<and> dir s' = dir s"
  using assms endpoint_keeps [OF assms(1)] by (auto simp: authorize_def split: sum.splits prod.splits)

text \<open>An accepted request adds to the directory, whatever its query, as long as that is not \<open>create\<close>.\<close>

lemma authorize_grows:
  assumes "ok s" and "authorize me d c q its p s = (res, s')" and "query_kind q \<noteq> Inr (Some ByCreate)"
  shows "map_le (dir s) (dir s')"
proof -
  obtain x s1 where x: "authenticateEndpoint me d c q its p s = (x, s1)" by fastforce
  then have s1: "ok s1" "dir s1 = dir s" using endpoint_keeps [OF assms(1)] by auto
  show ?thesis
  proof (cases x)
    case (Inl e)
    then show ?thesis using assms(2) x s1 by (simp add: authorize_def)
  next
    case (Inr a)
    then have "\<exists>y. queryActor me d q s1 = (y, s')"
      using assms(2) x by (auto simp: authorize_def split: sum.splits prod.splits if_splits)
    then show ?thesis using query_grows [OF s1(1) _ assms(3)] s1(2) by auto
  qed
qed

end

section \<open>The file-system driver\<close>

text \<open>A call that has the driver for itself and whose reads and writes succeed.\<close>

definition fs_run :: "fs_env \<Rightarrow> int \<Rightarrow> fs_call \<Rightarrow> fs \<Rightarrow> fs" where
  "fs_run fe now call s =
     (let c = fs_nextCall s;
          s1 = fs_step fe (Call now call) s;
          s2 = (case jm_get (fs_calls s1) c of
                  Some (call', AwaitLoad (Some l) r) \<Rightarrow> fs_step fe (ReadFile None l) s1
                | _ \<Rightarrow> s1);
          s3 = fs_step fe (Resume now c) s2
      in fs_step fe (Answer None (Suc c)) (fs_step fe (Answer None c) s3))"

definition fs_answered :: "fs \<Rightarrow> fs \<Rightarrow> js_err + actor_output option" where
  "fs_answered s s' =
     (case drop (length (fs_out s)) (fs_out s') of
        (call, ActorOutput i n k) # rest \<Rightarrow> Inr (Some \<lparr>ao_actorId = JStr i, ao_name = JStr n\<rparr>)
      | (call, Failed e) # rest \<Rightarrow> Inl e
      | _ \<Rightarrow> Inr None)"

text \<open>The driver's types ask for texts.  Other values, which only the raw routes let through, are taken
  to be refused.\<close>

definition text_of :: "jsval \<Rightarrow> string option" where
  "text_of v = (case v of JStr t \<Rightarrow> Some t | _ \<Rightarrow> None)"

definition texts_of :: "jsval \<Rightarrow> string list option" where
  "texts_of v = (case v of JArr xs \<Rightarrow> those (map text_of xs) | _ \<Rightarrow> None)"

definition fs_ask :: "fs_env \<Rightarrow> int \<Rightarrow> fs_call option \<Rightarrow> fs \<Rightarrow> (js_err + actor_output option) \<times> fs" where
  "fs_ask fe now call s =
     (case call of None \<Rightarrow> (Inl TypeError, s) | Some cl \<Rightarrow> (fs_answered s (fs_run fe now cl s), fs_run fe now cl s))"

definition must_answer :: "(js_err + 'a option) \<times> 's \<Rightarrow> (js_err + 'a) \<times> 's" where
  "must_answer = apfst (\<lambda>r. andThen r (\<lambda>x. case x of None \<Rightarrow> Inl TypeError | Some y \<Rightarrow> Inr y))"

definition with_key :: "(string \<Rightarrow> string list \<Rightarrow> fs_call) \<Rightarrow> jsval \<Rightarrow> jsval \<Rightarrow> fs_call option" where
  "with_key f n k = Option.bind (text_of n) (\<lambda>n'. map_option (f n') (texts_of k))"

definition fs_manager :: "fs_env \<Rightarrow> int \<Rightarrow> fs manager_driver" where
  "fs_manager fe now =
     \<lparr>md_getForId = (\<lambda>n i. fs_ask fe now (map_option GetForId (text_of i))),
      md_getWithKey = (\<lambda>n k. fs_ask fe now (with_key GetWithKey n k)),
      md_getOrCreateWithKey = (\<lambda>n k inp reg s. must_answer (fs_ask fe now (with_key (\<lambda>n k. GetOrCreateWithKey n k inp) n k) s)),
      md_createActor = (\<lambda>n k inp reg s. must_answer (fs_ask fe now (with_key (\<lambda>n k. CreateActor n k inp) n k) s))\<rparr>"

text \<open>Between requests no call is under way.\<close>

definition fs_idle :: "fs_env \<Rightarrow> fs \<Rightarrow> bool" where
  "fs_idle fe s \<longleftrightarrow> fs_reachable fe s \<and> bare_faithful (fe_stateCoder fe) \<and> fs_calls s = []"

lemma calls_load: "fs_calls s = [] \<Longrightarrow> \<exists>l r. fs_calls (loadActor fe i call s) = [(fs_nextCall s, (call, AwaitLoad l r))]
    \<and> fs_nextCall (loadActor fe i call s) = Suc (fs_nextCall s)"
  by (auto simp: loadActor_def upsertEntry_def await_def upd_entry_def split: option.split)

lemma calls_read [simp]: "fs_calls (read_file fe err l s) = fs_calls s" "fs_nextCall (read_file fe err l s) = fs_nextCall s"
  by (simp_all add: read_file_def loadActorState_def settle_load_def upd_entry_def Let_def split: option.split sum.split)

lemma read_settles: "l < length (fs_loads s) \<Longrightarrow> snd (fs_loads (read_file fe err l s) ! l) \<noteq> Pending"
  by (auto simp: read_file_def loadActorState_def settle_load_def upd_entry_def Let_def split: option.split sum.split)

text \<open>A lookup, run to its end.\<close>

definition is_lookup :: "fs_call \<Rightarrow> bool" where
  "is_lookup call = (case call of GetForId i \<Rightarrow> True | GetWithKey n k \<Rightarrow> True | _ \<Rightarrow> False)"

lemma lookup_run:
  assumes "fs_idle fe s" and call: "is_lookup call"
  shows "fs_idle fe (fs_run fe now call s) \<and> fs_directory fe (fs_run fe now call s) = fs_directory fe s"
proof -
  let ?d = "fs_directory fe s" and ?c = "fs_nextCall s"
  have f: "bare_faithful (fe_stateCoder fe)" and reach: "fs_reachable fe s" and idle: "fs_calls s = []"
    using assms(1) by (simp_all add: fs_idle_def)
  have h: "holds fe ?d s" by (rule holds_reachable [OF reach f])
  define s1 where "s1 = fs_step fe (Call now call) s"
  have s1: "s1 = loadActor fe (call_id fe call) call s"
    using call by (cases call) (simp_all add: s1_def is_lookup_def begin_call_def)
  obtain l r where c1: "fs_calls s1 = [(?c, (call, AwaitLoad l r))]" using calls_load [OF idle] s1 by metis
  have h1: "holds fe ?d s1" using answers_load [OF h refl] s1 by (auto simp: answers_def)
  have r1: "fs_reachable fe s1"
    using call unfolding s1_def by (intro fs_reachable.step reach) (auto simp: fs_allowed_def is_lookup_def split: fs_call.splits)
  define s2 where "s2 = (case l of Some l' \<Rightarrow> fs_step fe (ReadFile None l') s1 | None \<Rightarrow> s1)"
  have h2: "holds fe ?d s2"
    using h1 answers_read [OF h1] by (auto simp: s2_def answers_def split: option.split)
  have "fs_reachable fe (fs_step fe (ReadFile None l') s1)" for l'
    by (rule fs_reachable.step [OF r1]) (simp add: fs_allowed_def)
  then have r2: "fs_reachable fe s2" using r1 by (simp add: s2_def del: fs_step.simps split: option.split)
  have c2: "fs_calls s2 = [(?c, (call, AwaitLoad l r))]" using c1 by (simp add: s2_def split: option.split)
  have v: "(case l of None \<Rightarrow> Fulfilled | Some l' \<Rightarrow> snd (fs_loads s2 ! l')) \<noteq> Pending"
    using holds_wait [OF h1, of ?c call "AwaitLoad l r"] c1 read_settles
    by (auto simp: s2_def split: option.split)
  define s3 where "s3 = fs_step fe (Resume now ?c) s2"
  obtain res where s3: "s3 = finish call res (s2\<lparr>fs_calls := []\<rparr>)"
    using v c2 call
    by (cases "case l of None \<Rightarrow> Fulfilled | Some l' \<Rightarrow> snd (fs_loads s2 ! l')"; cases call)
      (auto simp: s3_def resume_def go_on_def loaded_call_def is_lookup_def)
  have "holds fe ?d (s2\<lparr>fs_calls := []\<rparr>)" using holds_drop_call [OF h2, of ?c] c2 by simp
  then have h3: "holds fe ?d s3" by (simp add: s3 finish_def)
  have r3: "fs_reachable fe s3" unfolding s3_def by (rule fs_reachable.step [OF r2]) (simp add: fs_allowed_def)
  have idle3: "fs_step fe (Answer None k) s3 = s3" for k by (simp add: s3 finish_def answer_def)
  have "fs_run fe now call s = s3"
    using c1 by (simp add: fs_run_def Let_def s1_def [symmetric] s2_def [symmetric] s3_def [symmetric] idle3
        del: fs_step.simps)
  then show ?thesis using r3 f holds_directory [OF h3] by (simp add: fs_idle_def s3 finish_def)
qed

text \<open>While only \<open>getOrCreateWithKey\<close> runs, the directory grows step by step.\<close>

definition only_call :: "fs_call \<Rightarrow> fs \<Rightarrow> bool" where
  "only_call call s = (\<forall>(k, call', w) \<in> set (fs_calls s). call' = call)"

definition is_progress :: "fs_event \<Rightarrow> bool" where
  "is_progress e = (case e of Resume now c \<Rightarrow> True | ReadFile err l \<Rightarrow> True | Answer err c \<Rightarrow> True | _ \<Rightarrow> False)"

definition grows_to :: "fs_env \<Rightarrow> fs_call \<Rightarrow> fs \<Rightarrow> fs \<Rightarrow> bool" where
  "grows_to fe call s s' =
     (fs_reachable fe s' \<and> only_call call s' \<and> map_le (fs_directory fe s) (fs_directory fe s'))"

lemma only_call_fields [simp]:
  "only_call call (finish cl res s) = only_call call s" "only_call call (upd_entry r f s) = only_call call s"
  "only_call call (s\<lparr>fs_disk := x\<rparr>) = only_call call s" "only_call call (s\<lparr>fs_starts := y\<rparr>) = only_call call s"
  "only_call call (s\<lparr>fs_unhandled := z\<rparr>) = only_call call s"
  by (simp_all add: only_call_def finish_def upd_entry_def)

lemma only_write: "only_call call s \<Longrightarrow> only_call call (writeActor fe i st call r s)"
  by (auto simp: writeActor_def performWrite_def written_def finish_def await_def only_call_def
      split: option.split sum.split)

lemma only_step:
  assumes "only_call call s" and "call = GetOrCreateWithKey n k inp"
  shows "only_call call (fs_step fe (Resume now c) s)" and "only_call call (fs_step fe (ReadFile err l) s)"
    and "only_call call (fs_step fe (Answer err' c) s)"
proof -
  have drop: "only_call call (s\<lparr>fs_calls := jm_del c (fs_calls s)\<rparr>)"
    using assms(1) by (auto simp: only_call_def AList.delete_eq)
  show "only_call call (fs_step fe (Resume now c) s)"
  proof (cases "jm_get (fs_calls s) c")
    case (Some cw)
    then obtain w where cw: "cw = (call, w)" using assms(1) by (auto simp: only_call_def dest!: map_of_SomeD)
    have "only_call call (loaded_call fe now call r (s\<lparr>fs_calls := jm_del c (fs_calls s)\<rparr>))" for r
      using drop assms(2)
      by (auto simp: loaded_call_def loadOrCreateActor_def written_def Let_def
          intro!: only_write split: option.split sum.split)
    moreover have "only_call call (started call r (s\<lparr>fs_calls := jm_del c (fs_calls s)\<rparr>))" for r
      using drop by (simp add: started_def)
    ultimately show ?thesis
      using Some assms drop
      by (cases w) (auto simp: cw resume_def go_on_def split: settled.split)
  qed (simp add: resume_def assms(1))
  show "only_call call (fs_step fe (ReadFile err l) s)" using assms(1) by (simp add: only_call_def)
  show "only_call call (fs_step fe (Answer err' c) s)"
  proof (cases "jm_get (fs_calls s) c")
    case (Some cw)
    then obtain w where cw: "cw = (call, w)" using assms(1) by (auto simp: only_call_def dest!: map_of_SomeD)
    then show ?thesis
      using Some assms drop
      by (cases w) (auto simp: answer_def answer_call_def awaits_answer_def written_def start_succeeded_def
          start_failed_def started_def settle_start_def Let_def split: option.split)
  qed (simp add: answer_def assms(1))
qed

lemma grows_step:
  assumes "bare_faithful (fe_stateCoder fe)" and "grows_to fe call s s'" and "call = GetOrCreateWithKey n k inp"
    and "is_progress e"
  shows "grows_to fe call s (fs_step fe e s')"
proof -
  have s': "fs_reachable fe s'" "only_call call s'" "map_le (fs_directory fe s) (fs_directory fe s')"
    using assms(2) by (simp_all add: grows_to_def)
  have allowed: "fs_allowed fe e s'"
    using s'(2) assms(3,4)
    by (cases e) (auto simp: is_progress_def fs_allowed_def only_call_def split: option.split fs_call.split fs_wait.split
        dest!: map_of_SomeD)
  then have "map_le (fs_directory fe s') (fs_directory fe (fs_step fe e s'))"
    using directory_grows [OF assms(1) s'(1) allowed] by (auto simp: map_le_def)
  then show ?thesis
    using s' allowed only_step [OF s'(2) assms(3)] assms(4)
    by (cases e) (auto simp: is_progress_def grows_to_def simp del: fs_step.simps intro: map_le_trans fs_reachable.step)
qed

lemma getOrCreate_run:
  assumes "fs_idle fe s" and call: "call = GetOrCreateWithKey n k inp"
  shows "map_le (fs_directory fe s) (fs_directory fe (fs_run fe now call s))"
proof -
  have f: "bare_faithful (fe_stateCoder fe)" and reach: "fs_reachable fe s" and idle: "fs_calls s = []"
    using assms(1) by (simp_all add: fs_idle_def)
  have allowed: "fs_allowed fe (Call now call) s" by (simp add: call fs_allowed_def)
  obtain l r where c1: "fs_calls (fs_step fe (Call now call) s) = [(fs_nextCall s, (call, AwaitLoad l r))]"
    using calls_load [OF idle] by (simp add: call begin_call_def) metis
  have g1: "grows_to fe call s (fs_step fe (Call now call) s)"
    using directory_grows [OF f reach allowed] fs_reachable.step [OF reach allowed] c1
    by (auto simp: grows_to_def only_call_def map_le_def)
  note step = grows_step [OF f _ call]
  let ?s2 = "case l of Some l' \<Rightarrow> fs_step fe (ReadFile None l') (fs_step fe (Call now call) s) | None \<Rightarrow> fs_step fe (Call now call) s"
  have "grows_to fe call s ?s2"
    using g1 step [OF g1] by (simp add: is_progress_def del: fs_step.simps split: option.split)
  then have "grows_to fe call s (fs_step fe (Answer None (Suc (fs_nextCall s))) (fs_step fe (Answer None (fs_nextCall s))
      (fs_step fe (Resume now (fs_nextCall s)) ?s2)))"
    by (intro step) (simp_all add: is_progress_def)
  then have "grows_to fe call s (fs_run fe now call s)"
    using c1 by (simp add: fs_run_def Let_def del: fs_step.simps)
  then show ?thesis by (simp add: grows_to_def)
qed

interpretation fs_gate: actor_directory "fs_manager fe now" "fs_directory fe" "fs_idle fe" for fe now
proof unfold_locales
  fix s :: fs and n i res s'
  assume "fs_idle fe s" and "md_getForId (fs_manager fe now) n i s = (res, s')"
  then show "fs_idle fe s' \<and> fs_directory fe s' = fs_directory fe s"
    using lookup_run [of fe s] by (auto simp: fs_manager_def fs_ask_def is_lookup_def split: option.splits)
next
  fix s :: fs and n k res' s'
  assume "fs_idle fe s" and "md_getWithKey (fs_manager fe now) n k s = (res', s')"
  then show "fs_idle fe s' \<and> fs_directory fe s' = fs_directory fe s"
    using lookup_run [of fe s]
    by (auto simp: fs_manager_def fs_ask_def with_key_def is_lookup_def bind_eq_Some_conv split: option.splits)
next
  fix s :: fs and n k inp reg res'' s'
  assume "fs_idle fe s" and "md_getOrCreateWithKey (fs_manager fe now) n k inp reg s = (res'', s')"
  then show "map_le (fs_directory fe s) (fs_directory fe s')"
    using getOrCreate_run [of fe s]
    by (auto simp: fs_manager_def fs_ask_def with_key_def must_answer_def bind_eq_Some_conv map_option_eq_Some
        split: option.splits)
qed

section \<open>The gate\<close>

text \<open>What a caller gets of an actor: the request goes to it, or its id is told.\<close>

definition reaches_actor :: "router_result \<Rightarrow> bool" where
  "reaches_actor res = (case res of Proxied i rq \<Rightarrow> True | ProxiedWebSocket i path enc p a \<Rightarrow> True | Body out \<Rightarrow> True | _ \<Rightarrow> False)"

lemma error_replies [simp]:
  "\<not> reaches_actor (sse_error me enc e)" "\<not> reaches_actor (ws_error me enc e)" "\<not> reaches_actor (Threw e)"
  "\<not> reaches_actor (TextReply t n)"
  by (simp_all add: reaches_actor_def sse_error_def ws_error_def split: sum.split option.split)

lemma handled:
  assumes "r \<noteq> Message_route" and "handle_request me d r c s = (res, s')"
  obtains "s' = s" "\<not> reaches_actor res"
  | q its p res' where "authorize me d c q its p s = (res', s')" "reaches_actor res \<Longrightarrow> \<exists>x. res' = Inr x"
  using assms
  by (cases r) (auto simp: handle_request_def handleResolveRequest_def handleWebSocketConnectRequest_def
      handleSseConnectRequest_def handleActionRequest_def handleRawHttpRequest_def handleRawWebSocketRequest_def
      split: if_splits sum.splits prod.splits)

text \<open>\<open>onAuth\<close> of the actor that the query names has accepted the request, with the intents of the route.\<close>

lemma authenticated:
  assumes "authenticateEndpoint me d c q extra p s = (Inr a, s')"
  obtains name f its where "getActorNameFromQuery me d q s = (Inr name, s')" "(registry_key me name, Some f) \<in> set (me_use me)"
    "f c its p = Inr a" "set extra \<subseteq> set its"
proof -
  have "set extra \<subseteq> set (fold js_add extra xs)" for xs :: "intent list"
    by (induction extra arbitrary: xs rule: rev_induct) (auto simp: js_add_def)
  then show ?thesis
    using assms that
    by (auto simp: authenticateEndpoint_def authenticateRequest_def Let_def
        split: sum.splits prod.splits option.splits if_splits dest!: map_of_SomeD)
qed

lemma authorized:
  assumes "authorize me d c q its p s = (Inr (a, i), s')"
  obtains s1 where "authenticateEndpoint me d c q its p s = (Inr a, s1)"
  using assms by (auto simp: authorize_def split: sum.splits prod.splits if_splits)

lemma get_set_header [simp]:
  "get_header (set_header n v h) m = (if lower m = lower n then Some v else get_header h m)"
  "get_header [] m = None"
  by (simp_all add: get_header_def set_header_def)

lemma header_names [simp]:
  "lower HEADER_AUTH_DATA \<noteq> lower HEADER_ENCODING" "lower HEADER_AUTH_DATA \<noteq> lower HEADER_CONN_PARAMS"
  by (simp_all add: lower_def HEADER_AUTH_DATA_def HEADER_ENCODING_def HEADER_CONN_PARAMS_def)

lemma add_auth_data:
  assumes "add_auth me a h = Inr h'"
  shows "if truthy a then \<exists>t. me_json me a = Inr t \<and> get_header h' HEADER_AUTH_DATA = Some t else h' = h"
  using assms by (auto simp: add_auth_def andThen_Inr)

text \<open>
  A request that no \<open>onAuth\<close> of the registry accepts gets nowhere on any route but the one for
  messages (where the connection's token decides): nothing is sent to an actor, no id is told, and no
  actor is created, although finding the name of the actor may ask the driver.
\<close>

theorem refused_request_has_no_effect:
  assumes "fs_idle fe s" and "r \<noteq> Message_route"
    and "handle_request me (fs_manager fe now) r c s = (res, s')"
    and "\<And>name f its p. (name, Some f) \<in> set (me_use me) \<Longrightarrow> isl (f c its p)"
  shows "\<not> reaches_actor res \<and> fs_directory fe s' = fs_directory fe s"
  using assms(2,3)
proof (cases rule: handled)
  case (2 q its p res')
  obtain x s1 where x: "authenticateEndpoint me (fs_manager fe now) c q its p s = (x, s1)" by fastforce
  have "isl x"
  proof (cases x)
    case (Inr a)
    then show ?thesis using authenticated [OF x [unfolded Inr]] assms(4) by metis
  qed simp
  then obtain e where "fst (authenticateEndpoint me (fs_manager fe now) c q its p s) = Inl e" using x by (cases x) auto
  from fs_gate.authorize_refused [OF assms(1) 2(1) this] show ?thesis using 2(2) by auto
qed simp


text \<open>
  C35.  On the raw HTTP route the client's headers go along: when \<open>onAuth\<close> accepts with nothing to say
  of the caller, the actor is given the authentication data the client wrote into the header itself.
\<close>

theorem raw_http_auth_data:
  assumes "handle_request me d RawHttp_route c s = (Proxied i rq, s')"
  shows "\<exists>q its p a s1. authenticateEndpoint me d c q its p s = (Inr a, s1)
    \<and> (if truthy a then \<exists>t. me_json me a = Inr t \<and> get_header (rq_headers rq) HEADER_AUTH_DATA = Some t
       else get_header (rq_headers rq) HEADER_AUTH_DATA = get_header (rq_headers c) HEADER_AUTH_DATA)"
proof -
  obtain q v a its where "authorize me d c q its v s = (Inr (a, i), s')"
    and h: "andThen (if truthy v then andThen (me_json me v) (\<lambda>t. Inr (set_header HEADER_CONN_PARAMS t (rq_headers c)))
               else Inr (rq_headers c)) (add_auth me a) = Inr (rq_headers rq)"
    using assms
    by (auto simp: handle_request_def handleRawHttpRequest_def split: sum.splits prod.splits)
  moreover have "if truthy a then \<exists>t. me_json me a = Inr t \<and> get_header (rq_headers rq) HEADER_AUTH_DATA = Some t
       else get_header (rq_headers rq) HEADER_AUTH_DATA = get_header (rq_headers c) HEADER_AUTH_DATA"
    using h by (auto simp: andThen_Inr split: if_splits dest!: add_auth_data)
  ultimately show ?thesis by (meson authorized)
qed

section \<open>Examples of requests\<close>

text \<open>The text \<open>q\<close> is the query for the actor \<open>chat\<close>; \<open>onAuth\<close> is given.\<close>

definition chat_manager :: "(http_request \<Rightarrow> intent list \<Rightarrow> jsval \<Rightarrow> js_err + jsval) \<Rightarrow> manager_env" where
  "chat_manager onAuth =
     \<lparr>me_codec = tiny_codec\<lparr>cd_json_parse := (\<lambda>t. if t = ''q'' then
        Inr (JsObj [(''getOrCreateForKey'', JsObj [(''name'', JsStr ''chat''), (''key'', JsArr [])])])
        else Inl (EError ''SyntaxError'' t))\<rparr>,
      me_use = [(''chat'', Some onAuth)], me_json = (\<lambda>_. Inr ''json''), me_text = (\<lambda>_. ''text''),
      me_errText = (\<lambda>_. ''error''), me_websockets = False, me_uri = Inr,
      me_toClient = \<lparr>vd_currentVersion = 1, vd_migrations = [], vd_serializeVersion = (\<lambda>_. Inr []), vd_deserializeVersion = (\<lambda>_. Inr JUndef)\<rparr>,
      me_resolve = \<lparr>vd_currentVersion = 1, vd_migrations = [], vd_serializeVersion = (\<lambda>_. Inr []), vd_deserializeVersion = (\<lambda>_. Inr JUndef)\<rparr>,
      me_error = \<lparr>vd_currentVersion = 1, vd_migrations = [], vd_serializeVersion = (\<lambda>_. Inr []), vd_deserializeVersion = (\<lambda>_. Inr JUndef)\<rparr>\<rparr>"

definition chat_request :: http_request where
  "chat_request = \<lparr>rq_method = ''POST'', rq_path = ''/raw/http/x'', rq_search = [],
     rq_headers = [(''x-rivetkit-query'', ''q''), (''x-rivetkit-encoding'', ''json''), (''x-rivetkit-auth-data'', ''admin'')],
     rq_action = ''send'', rq_body = []\<rparr>"

definition one_actor :: "unit manager_driver" where
  "one_actor = \<lparr>md_getForId = (\<lambda>n i s. (Inr None, s)), md_getWithKey = (\<lambda>n k s. (Inr None, s)),
     md_getOrCreateWithKey = (\<lambda>n k inp reg s. (Inr \<lparr>ao_actorId = JStr ''id'', ao_name = n\<rparr>, s)),
     md_createActor = (\<lambda>n k inp reg s. (Inl TypeError, s))\<rparr>"

definition chat_query :: jsval where
  "chat_query = JObj [(''getOrCreateForKey'', JObj [(''name'', JStr ''chat''), (''key'', JArr [])])]"

lemma chat_headers:
  "given_header chat_request HEADER_ACTOR_QUERY = Some ''q''" "given_header chat_request HEADER_CONN_PARAMS = None"
  "get_header (rq_headers chat_request) HEADER_ENCODING = Some ''json''"
  "get_header (rq_headers chat_request) HEADER_AUTH_DATA = Some ''admin''"
  by code_simp+

lemma chat_query_read: "json_parse (chat_manager f) ''q'' = Inr chat_query"
  by (simp add: json_parse_def chat_manager_def chat_query_def of_json.simps)

lemma chat_json: "me_json (chat_manager f) v = Inr ''json''"
  by (simp add: chat_manager_def)

lemma chat_query_valid: "ActorQuerySchema chat_query = Some chat_query"
  by (simp add: chat_query_def ActorQuerySchema_def GetForIdSchema_def GetForKeyRequestSchema_def CreateRequestSchema_def
      is_object_def ActorKeySchema_def is_str_def optional_prop_def)

lemma chat_authorized: "authorize (chat_manager (\<lambda>c its p. Inr v)) one_actor c chat_query its p () = (Inr (v, JStr ''id''), ())"
  by (simp add: authorize_def authenticateEndpoint_def authenticateRequest_def getIntentsFromQuery_def
      getActorNameFromQuery_def queryActor_def query_kind_def js_in_def registry_key_def read_prop_def nullish_def
      chat_manager_def one_actor_def chat_query_def Let_def)

lemma chat_proxied:
  assumes "r = Action_route \<or> r = RawHttp_route"
  shows "\<exists>i rq. handle_request (chat_manager (\<lambda>c its p. Inr v)) one_actor r chat_request () = (Proxied i rq, ())"
  using assms
  by (auto simp: handle_request_def handleRawHttpRequest_def handleActionRequest_def connect_request_def
      getRequestQuery_def auth_params_def chat_headers chat_query_read chat_query_valid chat_authorized
      chat_json
      EncodingSchema_def fresh_headers_def add_auth_def split: option.split)

theorem refused_request_has_no_effect_witness:
  "fs_directory chat_env (snd (handle_request (chat_manager (\<lambda>c its p. Inl (EActor (Forbidden None JUndef))))
     (fs_manager chat_env 5) Action_route chat_request (fs_boot [] []))) = fs_directory chat_env (fs_boot [] [])"
proof -
  have "fs_reachable chat_env (fs_boot [] [])" by (rule fs_reachable.boot) (simp add: valid_files_def)
  then have "fs_idle chat_env (fs_boot [] [])" by (simp add: fs_idle_def chat_faithful) (simp add: fs_boot_def)
  moreover have "isl (f c its p)" if "(name, Some f) \<in> set (me_use (chat_manager (\<lambda>c its p. Inl (EActor (Forbidden None JUndef)))))"
    for name f c its p using that by (auto simp: chat_manager_def)
  ultimately show ?thesis
    by (intro refused_request_has_no_effect [of chat_env _ Action_route, OF _ _ prod.collapse [symmetric], THEN conjunct2]) auto
qed


theorem raw_http_auth_data_witness:
  "\<exists>i rq. handle_request (chat_manager (\<lambda>c its p. Inr JUndef)) one_actor RawHttp_route chat_request () = (Proxied i rq, ())
     \<and> get_header (rq_headers rq) HEADER_AUTH_DATA = Some ''admin''"
proof -
  obtain i rq where rq: "handle_request (chat_manager (\<lambda>c its p. Inr JUndef)) one_actor RawHttp_route chat_request () = (Proxied i rq, ())"
    using chat_proxied by blast
  from raw_http_auth_data [OF this] obtain q its p a s1
    where "authenticateEndpoint (chat_manager (\<lambda>c its p. Inr JUndef)) one_actor chat_request q its p () = (Inr a, s1)"
      and t: "\<not> truthy a \<longrightarrow> get_header (rq_headers rq) HEADER_AUTH_DATA = get_header (rq_headers chat_request) HEADER_AUTH_DATA"
    by (auto split: if_splits)
  then have "a = JUndef" by (auto simp: chat_manager_def elim: authenticated)
  then have "get_header (rq_headers rq) HEADER_AUTH_DATA = Some ''admin''"
    using t by (simp add: chat_headers)
  then show ?thesis using rq by blast
qed

end
