(* ===== verification/ActorEndpoints.thy ===== *)
theory ActorEndpoints
  imports ManagerRouter ActorConns
begin

text \<open>
  How a request reaches an actor instance: the routes of \<open>actor/router.ts\<close> and the handlers of
  \<open>actor/router-endpoints.ts\<close> (HTTP actions, messages over HTTP, SSE and WebSocket connections, raw
  requests and sockets).

  A handler is split where it waits for something the instance can run beside: the user's
  \<open>onBeforeConnect\<close>, an action, the end of a connection.  \<open>load\<close> is how \<open>actorDriver.loadActor\<close> ended.
\<close>

section \<open>What the handlers share\<close>

record endpoint_env =
  ep_env :: env
  ep_cfg :: cfg
  ep_http :: manager_env
  ep_toServer :: "jsval version_handler"
  ep_actionRequest :: "jsval version_handler"
  ep_actionResponse :: "jsval version_handler"
  ep_maxIncomingMessageSize :: nat

abbreviation ep_codec :: "endpoint_env \<Rightarrow> codec" where
  "ep_codec ep \<equiv> en_codec (ep_env ep)"

text \<open>A running action is named by its number in the instance.  \<open>EpMessage\<close>: the answer is \<open>{}\<close> once
  \<open>processMessage\<close> has ended, or the error with which it rejects.\<close>

datatype endpoint_result =
    EpBody "output_data option" string
  | EpMessage
  | EpRunning nat nat
  | EpStream
  | EpText string nat
  | EpThrew js_err

text \<open>\<open>authDataRaw ? JSON.parse(authDataRaw) : undefined\<close>\<close>

definition request_auth :: "endpoint_env \<Rightarrow> http_request \<Rightarrow> js_err + jsval" where
  "request_auth ep c =
     (case given_header c HEADER_AUTH_DATA of None \<Rightarrow> Inr JUndef | Some t \<Rightarrow> json_parse (ep_http ep) t)"

section \<open>Actions over HTTP\<close>

definition action_arguments :: "endpoint_env \<Rightarrow> http_request \<Rightarrow> js_err + (encoding \<times> jsval \<times> jsval)" where
  "action_arguments ep c =
     andThen (getRequestEncoding c) (\<lambda>encoding.
     andThen (getRequestConnParams (ep_http ep) c) (\<lambda>parameters.
     andThen (deserializeWithEncoding (ep_codec ep) encoding (OBytes (rq_body c)) (ep_actionRequest ep)) (\<lambda>request.
     andThen (read_prop request ''args'') (\<lambda>raw.
     andThen (to_Uint8Array (en_u8 (ep_env ep)) raw) (\<lambda>bytes.
     andThen (cd_cbor_decode (ep_codec ep) bytes) (\<lambda>args. Inr (encoding, parameters, args)))))))"

text \<open>\<open>handleAction\<close> up to the end of \<open>prepareConn\<close>.\<close>

definition handleAction_prepare ::
    "endpoint_env \<Rightarrow> rat \<Rightarrow> js_err option \<Rightarrow> http_request \<Rightarrow> actor \<Rightarrow> (js_err + (encoding \<times> jsval \<times> jsval \<times> jsval)) \<times> actor" where
  "handleAction_prepare ep now load c a =
     (case action_arguments ep c of
        Inl e \<Rightarrow> (Inl e, a)
      | Inr (encoding, parameters, args) \<Rightarrow>
          (case load of
             Some e \<Rightarrow> (Inl e, a)
           | None \<Rightarrow>
               (case prepareConn (ep_env ep) (ep_cfg ep) now parameters a of
                  (Inl e, a1) \<Rightarrow> (Inl e, a1)
                | (Inr connState, a1) \<Rightarrow> (Inr (encoding, parameters, args, connState), a1))))"

text \<open>The \<open>finally\<close> and the response.\<close>

definition handleAction_finish :: "endpoint_env \<Rightarrow> rat \<Rightarrow> encoding \<Rightarrow> nat \<Rightarrow> js_err + jsval \<Rightarrow> actor \<Rightarrow> endpoint_result \<times> actor" where
  "handleAction_finish ep now encoding r res a =
     (let a1 = remove_conn (ep_env ep) (ep_cfg ep) now r a
      in case res of
           Inl e \<Rightarrow> (EpThrew e, a1)
         | Inr output \<Rightarrow>
             (case andThen (cd_cbor_encode (ep_codec ep) output) (\<lambda>b.
                     serializeWithEncoding (ep_codec ep) encoding (JObj [(''output'', JBuffer b)]) (ep_actionResponse ep)) of
                Inl e \<Rightarrow> (EpThrew e, a1)
              | Inr serialized \<Rightarrow> (EpBody serialized (contentTypeForEncoding encoding), a1)))"

text \<open>From \<open>createConn\<close> to the promise of the action; \<open>connId\<close> and \<open>connToken\<close> are generated.\<close>

definition handleAction_connect ::
    "endpoint_env \<Rightarrow> rat \<Rightarrow> string \<Rightarrow> string \<Rightarrow> string \<Rightarrow> jsval \<Rightarrow> encoding \<times> jsval \<times> jsval \<times> jsval \<Rightarrow> actor \<Rightarrow> endpoint_result \<times> actor" where
  "handleAction_connect ep now connId connToken actionName authData = (\<lambda>(encoding, parameters, args, connState) a.
     case createConn (ep_env ep) (ep_cfg ep) now connId connToken parameters connState ''http'' (JObj []) authData a of
       (Inl e, a1) \<Rightarrow> (EpThrew e, a1)
     | (Inr r, a1) \<Rightarrow>
         (case executeAction (ep_env ep) (ep_cfg ep) now r actionName args a1 of
            (Pending, a2) \<Rightarrow> (EpRunning r (a_nextAction a2), park_action r ReplyHttp actionName args a2)
          | (Ret output, a2) \<Rightarrow> handleAction_finish ep now encoding r (Inr output) a2
          | (Throw e, a2) \<Rightarrow> handleAction_finish ep now encoding r (Inl e) a2))"

section \<open>Messages over HTTP\<close>

definition handleConnectionMessage ::
    "endpoint_env \<Rightarrow> rat \<Rightarrow> js_err option \<Rightarrow> string \<Rightarrow> string \<Rightarrow> http_request \<Rightarrow> actor \<Rightarrow> endpoint_result \<times> actor" where
  "handleConnectionMessage ep now load connId connToken c a =
     (case andThen (getRequestEncoding c) (\<lambda>encoding.
             deserializeWithEncoding (ep_codec ep) encoding (OBytes (rq_body c)) (ep_toServer ep)) of
        Inl e \<Rightarrow> (EpThrew e, a)
      | Inr message \<Rightarrow>
          (case load of
             Some e \<Rightarrow> (EpThrew e, a)
           | None \<Rightarrow>
               (case jm_get (a_connections a) connId of
                  None \<Rightarrow> (EpThrew (EActor (ConnNotFound connId)), a)
                | Some r \<Rightarrow>
                    if pc_token (c_persist (conn_at a r)) \<noteq> connToken then (EpThrew (EActor IncorrectConnToken), a)
                    else (EpMessage, processMessage (ep_env ep) (ep_cfg ep) now message r a))))"

text \<open>The route \<open>/connections/message\<close>.\<close>

definition route_message ::
    "endpoint_env \<Rightarrow> rat \<Rightarrow> js_err option \<Rightarrow> http_request \<Rightarrow> actor \<Rightarrow> endpoint_result \<times> actor" where
  "route_message ep now load c a =
     (case (given_header c HEADER_CONN_ID, given_header c HEADER_CONN_TOKEN) of
        (Some connId, Some connToken) \<Rightarrow> handleConnectionMessage ep now load connId connToken c a
      | _ \<Rightarrow> (EpThrew (EError ''Error'' ''Missing required parameters''), a))"

section \<open>SSE connections\<close>

text \<open>\<open>handleSseConnect\<close> up to the end of \<open>prepareConn\<close>; what fails inside the stream closes it.\<close>

datatype sse_progress =
    SsePreparing encoding jsval jsval
  | SseConnected nat
  | SseEnded
  | SseThrew js_err

definition handleSseConnect_prepare ::
    "endpoint_env \<Rightarrow> rat \<Rightarrow> js_err option \<Rightarrow> http_request \<Rightarrow> actor \<Rightarrow> sse_progress \<times> actor" where
  "handleSseConnect_prepare ep now load c a =
     (case andThen (getRequestEncoding c) (\<lambda>encoding.
             andThen (getRequestConnParams (ep_http ep) c) (\<lambda>parameters. Inr (encoding, parameters))) of
        Inl e \<Rightarrow> (SseThrew e, a)
      | Inr (encoding, parameters) \<Rightarrow>
          if load \<noteq> None then (SseEnded, a)
          else (case prepareConn (ep_env ep) (ep_cfg ep) now parameters a of
                  (Inl e, a1) \<Rightarrow> (SseEnded, a1)
                | (Inr connState, a1) \<Rightarrow> (SsePreparing encoding parameters connState, a1)))"

definition set_stream :: "string \<Rightarrow> sse_stream option \<Rightarrow> actor \<Rightarrow> actor" where
  "set_stream connId v a =
     a\<lparr>a_generic := (a_generic a)\<lparr>g_sseStreams :=
       (case v of Some st \<Rightarrow> jm_set connId st (g_sseStreams (a_generic a)) | None \<Rightarrow> jm_del connId (g_sseStreams (a_generic a)))\<rparr>\<rparr>"

text \<open>\<open>state.encoding\<close> as the client names it.\<close>

definition encoding_state :: "encoding \<Rightarrow> jsval" where
  "encoding_state e = JObj [(''encoding'', JStr (encoding_name e))]"

text \<open>The \<open>catch\<close> finds no \<open>conn\<close> to remove when \<open>createConn\<close> threw.\<close>

definition handleSseConnect_connect ::
    "endpoint_env \<Rightarrow> rat \<Rightarrow> string \<Rightarrow> string \<Rightarrow> sse_stream \<Rightarrow> jsval \<Rightarrow> encoding \<Rightarrow> jsval \<Rightarrow> jsval \<Rightarrow> actor \<Rightarrow> sse_progress \<times> actor" where
  "handleSseConnect_connect ep now connId connToken stream authData encoding parameters connState a =
     (case createConn (ep_env ep) (ep_cfg ep) now connId connToken parameters connState ''sse'' (encoding_state encoding)
             authData (set_stream connId (Some stream) a) of
        (Inl e, a1) \<Rightarrow> (SseEnded, set_stream connId None a1)
      | (Inr r, a1) \<Rightarrow> (SseConnected r, a1))"

definition sse_aborted_handler :: "endpoint_env \<Rightarrow> rat \<Rightarrow> string \<Rightarrow> nat \<Rightarrow> actor \<Rightarrow> actor" where
  "sse_aborted_handler ep now connId r a =
     remove_conn (ep_env ep) (ep_cfg ep) now r (set_stream connId None a)"

section \<open>WebSocket connections\<close>

text \<open>
  \<open>handlersPromise\<close>, what has been attached to it while it is unsettled, what the handlers did to their
  socket, and the rejections nobody handles.  \<open>wss_opening\<close> is the connection state \<open>prepareConn\<close> gave,
  until \<open>createConn\<close> is called.
\<close>

datatype handlers_promise = HandlersPending | HandlersResolved nat string | HandlersRejected js_err

datatype ws_callback = OnMessage input_data | OnClose

record ws_session =
  wss_encoding :: encoding
  wss_parameters :: jsval
  wss_authData :: jsval
  wss_expose :: bool
  wss_opening :: "jsval option"
  wss_handlers :: handlers_promise
  wss_waiting :: "ws_callback list"
  wss_closes :: "(nat \<times> string) list"
  wss_unhandled :: "js_err list"

definition handleWebSocketConnect :: "http_request option \<Rightarrow> encoding \<Rightarrow> jsval \<Rightarrow> jsval \<Rightarrow> ws_session" where
  "handleWebSocketConnect req encoding parameters authData =
     \<lparr>wss_encoding = encoding, wss_parameters = parameters, wss_authData = authData,
      wss_expose = (case req of Some c \<Rightarrow> getRequestExposeInternalError c | None \<Rightarrow> False),
      wss_opening = None, wss_handlers = HandlersPending, wss_waiting = [], wss_closes = [], wss_unhandled = []\<rparr>"

definition ws_unhandled :: "js_err \<Rightarrow> ws_session \<Rightarrow> ws_session" where
  "ws_unhandled e w = w\<lparr>wss_unhandled := wss_unhandled w @ [e]\<rparr>"

definition ws_close :: "nat \<Rightarrow> string \<Rightarrow> ws_session \<Rightarrow> ws_session" where
  "ws_close code reason w = w\<lparr>wss_closes := wss_closes w @ [(code, reason)]\<rparr>"

text \<open>An error closes the socket with its code; nobody catches what \<open>deconstructError\<close> throws.\<close>

definition close_with :: "endpoint_env \<Rightarrow> js_err \<Rightarrow> ws_session \<Rightarrow> ws_session" where
  "close_with ep e w =
     (case deconstructError (en_str (ep_env ep)) e (wss_expose w) of
        Inl t \<Rightarrow> ws_unhandled t w
      | Inr d \<Rightarrow> ws_close 1011 (de_code d) w)"

text \<open>The rejections of \<open>processMessage\<close> are found in what the instance did.\<close>

definition message_failures :: "actor \<Rightarrow> actor \<Rightarrow> js_err list" where
  "message_failures a a' =
     concat (map (\<lambda>x. case x of MessageFailed e \<Rightarrow> [e] | _ \<Rightarrow> []) (drop (length (a_out a)) (a_out a')))"

definition ws_message :: "endpoint_env \<Rightarrow> rat \<Rightarrow> nat \<Rightarrow> input_data \<Rightarrow> ws_session \<times> actor \<Rightarrow> ws_session \<times> actor" where
  "ws_message ep now r data = (\<lambda>(w, a).
     case parseMessage (ep_codec ep) (ep_toServer ep) (wss_encoding w) (ep_maxIncomingMessageSize ep) data of
       Inl e \<Rightarrow> (close_with ep e w, a)
     | Inr message \<Rightarrow>
         (let a1 = processMessage (ep_env ep) (ep_cfg ep) now message r a
          in (fold (close_with ep) (message_failures a a1) w, a1)))"

definition ws_closed_cleanup :: "endpoint_env \<Rightarrow> rat \<Rightarrow> nat \<Rightarrow> string \<Rightarrow> actor \<Rightarrow> actor" where
  "ws_closed_cleanup ep now r connId a =
     remove_conn (ep_env ep) (ep_cfg ep) now r
       (a\<lparr>a_generic := (a_generic a)\<lparr>g_websockets := jm_del connId (g_websockets (a_generic a))\<rparr>\<rparr>)"

text \<open>A callback runs once \<open>handlersPromise\<close> is settled.\<close>

definition run_callback :: "endpoint_env \<Rightarrow> rat \<Rightarrow> ws_callback \<Rightarrow> ws_session \<times> actor \<Rightarrow> ws_session \<times> actor" where
  "run_callback ep now cb = (\<lambda>(w, a).
     case wss_handlers w of
       HandlersPending \<Rightarrow> (w\<lparr>wss_waiting := wss_waiting w @ [cb]\<rparr>, a)
     | HandlersResolved r connId \<Rightarrow>
         (case cb of
            OnMessage data \<Rightarrow> ws_message ep now r data (w, a)
          | OnClose \<Rightarrow> (w, ws_closed_cleanup ep now r connId a))
     | HandlersRejected e \<Rightarrow>
         (case cb of
            OnMessage data \<Rightarrow> (close_with ep e w, a)
          | OnClose \<Rightarrow>
              ((case deconstructError (en_str (ep_env ep)) e (wss_expose w) of Inl t \<Rightarrow> ws_unhandled t w | Inr d \<Rightarrow> w), a)))"

text \<open>Settling runs what has been attached, in order.  A rejection to which nothing has been attached
  is unhandled.\<close>

definition settle_handlers :: "endpoint_env \<Rightarrow> rat \<Rightarrow> handlers_promise \<Rightarrow> ws_session \<times> actor \<Rightarrow> ws_session \<times> actor" where
  "settle_handlers ep now v = (\<lambda>(w, a).
     fold (run_callback ep now) (wss_waiting w) (w\<lparr>wss_handlers := v, wss_waiting := []\<rparr>, a))"

definition open_failed :: "endpoint_env \<Rightarrow> rat \<Rightarrow> js_err \<Rightarrow> ws_session \<times> actor \<Rightarrow> ws_session \<times> actor" where
  "open_failed ep now e = (\<lambda>(w, a).
     settle_handlers ep now (HandlersRejected e)
       (close_with ep e (if wss_waiting w = [] then ws_unhandled e w else w), a))"

text \<open>\<open>onOpen\<close> up to the end of \<open>prepareConn\<close>.\<close>

definition ws_onOpen :: "endpoint_env \<Rightarrow> rat \<Rightarrow> ws_session \<times> actor \<Rightarrow> ws_session \<times> actor" where
  "ws_onOpen ep now = (\<lambda>(w, a).
     case prepareConn (ep_env ep) (ep_cfg ep) now (wss_parameters w) a of
       (Inl e, a1) \<Rightarrow> open_failed ep now e (w, a1)
     | (Inr connState, a1) \<Rightarrow> (w\<lparr>wss_opening := Some connState\<rparr>, a1))"

text \<open>The socket is registered, then the connection created; a registered socket stays when that fails.\<close>

definition ws_connect ::
    "endpoint_env \<Rightarrow> rat \<Rightarrow> string \<Rightarrow> string \<Rightarrow> ws_context \<Rightarrow> ws_session \<times> actor \<Rightarrow> ws_session \<times> actor" where
  "ws_connect ep now connId connToken ws = (\<lambda>(w, a).
     case wss_opening w of
       None \<Rightarrow> (w, a)
     | Some connState \<Rightarrow>
         (let w1 = w\<lparr>wss_opening := None\<rparr>;
              a1 = a\<lparr>a_generic := (a_generic a)\<lparr>g_websockets := jm_set connId ws (g_websockets (a_generic a))\<rparr>\<rparr>
          in case createConn (ep_env ep) (ep_cfg ep) now connId connToken (wss_parameters w) connState ''webSocket''
                    (encoding_state (wss_encoding w)) (wss_authData w) a1 of
               (Inl e, a2) \<Rightarrow> open_failed ep now e (w1, a2)
             | (Inr r, a2) \<Rightarrow> settle_handlers ep now (HandlersResolved r connId) (w1, a2)))"

definition ws_onMessage :: "endpoint_env \<Rightarrow> rat \<Rightarrow> input_data \<Rightarrow> ws_session \<times> actor \<Rightarrow> ws_session \<times> actor" where
  "ws_onMessage ep now data = run_callback ep now (OnMessage data)"

definition ws_onClose :: "endpoint_env \<Rightarrow> rat \<Rightarrow> ws_session \<times> actor \<Rightarrow> ws_session \<times> actor" where
  "ws_onClose ep now = (\<lambda>(w, a). run_callback ep now OnClose (ws_close 1000 ''hack_force_close'' w, a))"

text \<open>The handlers when the actor could not be loaded.\<close>

definition ws_unloaded_open :: "endpoint_env \<Rightarrow> js_err \<Rightarrow> ws_session \<Rightarrow> ws_session" where
  "ws_unloaded_open ep e = close_with ep e"

definition ws_unloaded_message :: "ws_session \<Rightarrow> ws_session" where
  "ws_unloaded_message = ws_close 1011 ''Actor not loaded''"

section \<open>Raw requests\<close>

definition strip_prefix :: "string \<Rightarrow> string \<Rightarrow> string" where
  "strip_prefix p path = (case (if prefix p path then drop (length p) path else path) of [] \<Rightarrow> ''/'' | q \<Rightarrow> q)"

text \<open>The route \<open>/raw/http/*\<close>; \<open>mk\<close> makes the \<open>Request\<close> and the options \<open>onFetch\<close> is called with.\<close>

definition route_raw_http ::
    "endpoint_env \<Rightarrow> rat \<Rightarrow> js_err option \<Rightarrow> (http_request \<Rightarrow> jsval) \<Rightarrow> http_request \<Rightarrow> actor \<Rightarrow> endpoint_result \<times> actor" where
  "route_raw_http ep now load mk c a =
     (case request_auth ep c of
        Inl e \<Rightarrow> (EpThrew e, a)
      | Inr authData \<Rightarrow>
          (case load of
             Some e \<Rightarrow> (EpThrew e, a)
           | None \<Rightarrow>
               (EpStream, handleFetch (ep_env ep) (ep_cfg ep) now
                  [mk (c\<lparr>rq_path := strip_prefix ''/raw/http'' (rq_path c)\<rparr>), JObj [(''auth'', authData)]] a)))"

text \<open>\<open>onOpen\<close> of \<open>handleRawWebSocketHandler\<close>: the promise of \<open>handleWebSocket\<close> is dropped, so its
  error is an unhandled rejection (the option).\<close>

definition raw_ws_onOpen ::
    "endpoint_env \<Rightarrow> rat \<Rightarrow> nat \<Rightarrow> (string \<Rightarrow> http_request option \<Rightarrow> jsval) \<Rightarrow> http_request option \<Rightarrow> string \<Rightarrow> jsval \<Rightarrow> actor
      \<Rightarrow> js_err option \<times> actor" where
  "raw_ws_onOpen ep now ws mk req path authData a =
     handleWebSocket (ep_env ep) (ep_cfg ep) now ws
       [mk (strip_prefix ''/raw/websocket'' path) req, JObj [(''auth'', authData)]] a"

section \<open>The routes of the instance\<close>

definition route_action ::
    "endpoint_env \<Rightarrow> rat \<Rightarrow> js_err option \<Rightarrow> http_request \<Rightarrow> actor
      \<Rightarrow> (js_err + (jsval \<times> (encoding \<times> jsval \<times> jsval \<times> jsval))) \<times> actor" where
  "route_action ep now load c a =
     (case request_auth ep c of
        Inl e \<Rightarrow> (Inl e, a)
      | Inr authData \<Rightarrow>
          (case handleAction_prepare ep now load c a of
             (Inl e, a1) \<Rightarrow> (Inl e, a1)
           | (Inr x, a1) \<Rightarrow> (Inr (authData, x), a1)))"

definition route_sse ::
    "endpoint_env \<Rightarrow> rat \<Rightarrow> js_err option \<Rightarrow> http_request \<Rightarrow> actor \<Rightarrow> (jsval \<times> sse_progress) \<times> actor" where
  "route_sse ep now load c a =
     (case request_auth ep c of
        Inl e \<Rightarrow> ((JUndef, SseThrew e), a)
      | Inr authData \<Rightarrow>
          (case handleSseConnect_prepare ep now load c a of (p, a1) \<Rightarrow> ((authData, p), a1)))"

definition route_websocket :: "endpoint_env \<Rightarrow> http_request \<Rightarrow> js_err + ws_session" where
  "route_websocket ep c =
     (case Option.bind (get_header (rq_headers c) HEADER_ENCODING) EncodingSchema of
        None \<Rightarrow> Inl (EError ''ZodError'' [])
      | Some encoding \<Rightarrow>
          andThen (case given_header c HEADER_CONN_PARAMS of None \<Rightarrow> Inr JUndef | Some t \<Rightarrow> json_parse (ep_http ep) t) (\<lambda>connParams.
          andThen (request_auth ep c) (\<lambda>authData.
            Inr (handleWebSocketConnect (Some c) encoding connParams authData))))"

end
