(* ===== verification/EndpointProps.thy ===== *)
theory EndpointProps
  imports ActorEndpoints ManagerProps
begin

text \<open>
  What the endpoints promise: a message over HTTP needs the token of its connection, an action over HTTP
  leaves no connection behind, and messages that arrive before a WebSocket connection is there are as
  good as those that arrive after.
\<close>

section \<open>Messages\<close>

lemma given_header_Some: "given_header c n = Some t \<Longrightarrow> get_header (rq_headers c) n = Some t"
  by (auto simp: given_header_def split: option.splits list.splits)

lemma route_message_token:
  assumes "route_message ep now load rq a = (res, a')" and "a' \<noteq> a \<or> res = EpMessage"
  obtains connId r where "get_header (rq_headers rq) HEADER_CONN_ID = Some connId"
    and "jm_get (a_connections a) connId = Some r"
    and "get_header (rq_headers rq) HEADER_CONN_TOKEN = Some (pc_token (c_persist (conn_at a r)))"
  using assms
  by (auto simp: route_message_def handleConnectionMessage_def dest!: given_header_Some
      split: option.splits sum.splits if_splits)

lemma message_header_names:
  "lower HEADER_CONN_ID \<noteq> lower HEADER_CONN_TOKEN"
  by (simp add: lower_def HEADER_CONN_ID_def HEADER_CONN_TOKEN_def)

text \<open>
  C6.  A message that comes over HTTP through the manager reaches its instance only with the token of
  the connection it names: otherwise the instance stays as it is, and the request is refused.
\<close>

theorem message_needs_token:
  assumes "handle_request me d Message_route c s = (Proxied i rq, s')"
    and "route_message ep now load rq a = (res, a')" and "a' \<noteq> a \<or> res = EpMessage"
  shows "\<exists>connId r. get_header (rq_headers c) HEADER_CONN_ID = Some connId
    \<and> jm_get (a_connections a) connId = Some r
    \<and> get_header (rq_headers c) HEADER_CONN_TOKEN = Some (pc_token (c_persist (conn_at a r)))"
proof -
  have "get_header (rq_headers rq) HEADER_CONN_ID = get_header (rq_headers c) HEADER_CONN_ID"
    and "get_header (rq_headers rq) HEADER_CONN_TOKEN = get_header (rq_headers c) HEADER_CONN_TOKEN"
    using assms(1) message_header_names
    by (auto simp: handle_request_def handleMessageRequest_def split: option.splits)
  then show ?thesis using route_message_token [OF assms(2,3)] by metis
qed

section \<open>Actions over HTTP\<close>

text \<open>A connection object keeps its id and its driver whatever happens to the instance.\<close>

definition identity :: "conn \<Rightarrow> string \<times> conn_driver" where
  "identity c = (conn_id c, c_driver c)"

abbreviation idents :: "actor \<Rightarrow> (string \<times> conn_driver) list" where
  "idents a \<equiv> map identity (a_heap a)"

lemma idents_set_conn: "identity c = identity (conn_at a r) \<Longrightarrow> idents (set_conn r c a) = idents a"
  by (cases "r < length (a_heap a)") (simp_all add: set_conn_def conn_at_def map_update list_update_same_conv list_update_beyond)

lemma idents_persist [simp]:
  "identity (c\<lparr>c_persist := (c_persist c)\<lparr>pc_subscriptions := s\<rparr>\<rparr>) = identity c"
  "identity (c\<lparr>c_subscriptions := s'\<rparr>) = identity c"
  "identity (c\<lparr>c_subscriptions := s', c_persist := (c_persist c)\<lparr>pc_subscriptions := s\<rparr>\<rparr>) = identity c"
  by (simp_all add: identity_def conn_id_def)

lemma idents_subscriptions [simp]:
  "idents (addSubscription en now e r p a) = idents a" "idents (removeSubscription en now e r p a) = idents a"
  by (simp_all add: addSubscription_def removeSubscription_def Let_def idents_set_conn conn_at_def)

lemma idents_unregister [simp]: "idents (unregister_conn en now r a) = idents a"
proof -
  have "idents (fold (\<lambda>ev. removeSubscription en now ev r True) evs b) = idents b" for evs b
    by (induction evs arbitrary: b) simp_all
  then show ?thesis by (simp add: unregister_conn_def Let_def drop_persisted_def split: option.split)
qed

lemma idents_register [simp]: "idents (register_conn en now c a) = idents a @ [identity c]"
  by (simp add: register_conn_def Let_def)

definition http_object :: "nat \<Rightarrow> string \<Rightarrow> actor \<Rightarrow> bool" where
  "http_object r i a = (r < length (idents a) \<and> idents a ! r = (i, HttpDriver))"

lemma http_object_id: "http_object r i a \<Longrightarrow> conn_id (conn_at a r) = i \<and> c_driver (conn_at a r) = HttpDriver \<and> r < length (a_heap a)"
  by (auto simp: http_object_def identity_def conn_at_def)

interpretation http_conn: actor_invariant en "http_object r i" for en r i
proof (unfold_locales, goal_cases)
  case (10 a r' c)
  then show ?case by (simp add: http_object_def idents_set_conn identity_def del: list.map)
qed (simp_all add: http_object_def nth_append fetch_begin_def fetch_end_def ws_track_def ws_closed_def
    del: list.map length_map)

text \<open>User code neither adds nor removes connections.\<close>

interpretation user_conns: user_code_invariant en "\<lambda>a. a_connections a = m" for en m
  by unfold_locales (simp_all add: set_conn_def)

lemma connections_register [simp]:
  "a_connections (register_conn en now c a) = jm_set (conn_id c) (length (a_heap a)) (a_connections a)"
  by (simp add: register_conn_def Let_def)

lemma connections_remove [simp]:
  "a_connections (remove_conn en cf now r a) = jm_del (conn_id (conn_at a r)) (a_connections a)"
proof -
  let ?m = "jm_del (conn_id (conn_at a r)) (a_connections a)"
  let ?b = "emit [Inspect ConnectionUpdated] (unregister_conn en now r a)"
  have "a_connections ?b = ?m" by simp
  then have "a_connections (snd (call_user en cf now f r [] ?b)) = ?m" for f by (rule user_conns.call_user_I)
  then show ?thesis by (simp add: remove_conn_def Let_def split: option.split)
qed

text \<open>A connection of the HTTP driver is created, with its entry in the connection map, or nothing is.\<close>

lemma createConn_http:
  assumes "createConn en cf now i t params st ''http'' ds au a = (res, a1)"
  shows "(isl res \<and> a_connections a1 = a_connections a)
    \<or> (i \<notin> fst ` set (a_connections a) \<and> res = Inr (length (a_heap a)) \<and> http_object (length (a_heap a)) i a1
       \<and> a_connections a1 = a_connections a @ [(i, length (a_heap a))])"
proof -
  let ?r = "length (a_heap a)"
  let ?c = "new_Conn (new_persisted_conn now i t params st ''http'' ds au) HttpDriver (connStateEnabled cf)"
  let ?b = "admit_conn en cf now ?c a"
  have c: "conn_id ?c = i" "c_driver ?c = HttpDriver" by (simp_all add: new_Conn_def new_persisted_conn_def conn_id_def)
  have obj: "http_object ?r i ?b"
    unfolding admit_conn_def
    by (intro http_conn.emit_I http_conn.call_onConnect_I) (simp add: http_object_def nth_append identity_def c)
  have conns: "a_connections ?b = jm_set i ?r (a_connections a)"
    unfolding admit_conn_def by (intro user_conns.emit_I user_conns.call_onConnect_I) (simp add: c)
  have "send_message en ?r m ?b = (None, emit [] ?b)" for m
    using http_object_id [OF obj] by (simp add: send_message_def driver_sendMessage_def)
  moreover have "\<not> jm_has (a_connections a) i \<Longrightarrow> i \<notin> fst ` set (a_connections a)"
    by (auto simp: jm_has_def map_of_eq_None_iff)
  moreover have "http_object ?r i (emit [] ?b)" by (rule http_conn.emit_I [OF obj])
  ultimately show ?thesis
    using assms obj conns
    by (auto simp: createConn_def getConnDriver_def Let_def jm_set_new split: option.splits if_splits)
qed

lemma jm_del_new: "i \<notin> fst ` set m \<Longrightarrow> jm_del i (m @ [(i, r)]) = m"
  by (induction m) auto

lemma connections_finish [simp]:
  "a_connections (snd (handleAction_finish ep now enc r out a)) = jm_del (conn_id (conn_at a r)) (a_connections a)"
  by (simp add: handleAction_finish_def Let_def split: sum.split)

lemma refs_started: "start en cf now i g disk = Inr a \<Longrightarrow> refs_ok a"
  by (elim startE) (metis refs.make_ready_I refs_ok_prepared snd_conv)

text \<open>
  C11.  An action over HTTP leaves no connection behind.  When it ends at once, whether it returns or throws
  and whatever the user's code does, the connection map is the one before the request; when it ends
  later, after anything else has happened to the instance, its connection is gone.
\<close>

theorem http_action_leaves_no_connection:
  assumes "start (ep_env ep) (ep_cfg ep) now0 i0 g disk = Inr a0" and "a = fold (actor_step (ep_env ep) (ep_cfg ep)) es0 a0"
    and "handleAction_connect ep now connId token name au x a = (res, a1)"
  shows "case res of
      EpRunning r k \<Rightarrow> \<forall>es now' out.
        connId \<notin> fst ` set (a_connections (snd (handleAction_finish ep now' (fst x) r out
          (fold (actor_step (ep_env ep) (ep_cfg ep)) es a1))))
    | _ \<Rightarrow> a_connections a1 = a_connections a"
proof -
  obtain enc params args st where x: "x = (enc, params, args, st)" by (cases x)
  have refs: "refs_ok a" using refs.run_I refs_started [OF assms(1)] assms(2) by blast
  obtain cr b where cr: "createConn (ep_env ep) (ep_cfg ep) now connId token params st ''http'' (JObj []) au a = (cr, b)"
    by fastforce
  let ?r = "length (a_heap a)"
  show ?thesis
  proof (cases cr)
    case (Inl e)
    then show ?thesis using createConn_http [OF cr] assms(3) by (auto simp: handleAction_connect_def x cr)
  next
    case (Inr r)
    then have new: "connId \<notin> fst ` set (a_connections a)" and r: "r = ?r"
      and obj: "http_object r connId b" and conns: "a_connections b = a_connections a @ [(connId, r)]"
      using createConn_http [OF cr] by auto
    obtain out c where out: "executeAction (ep_env ep) (ep_cfg ep) now r name args b = (out, c)" by fastforce
    have c: "http_object r connId c" "a_connections c = a_connections a @ [(connId, r)]" "refs_ok c"
      using http_conn.executeAction_I [OF obj, of "ep_env ep" "ep_cfg ep" now r name args]
        user_conns.executeAction_I [OF conns, of "ep_env ep" "ep_cfg ep" now r name args]
        refs.executeAction_I [OF refs.createConn_I [OF refs]] out cr
      by (metis snd_conv)+
    have ended: "a_connections (snd (handleAction_finish ep now enc r o' c)) = a_connections a" for o'
      using http_object_id [OF c(1)] c(2) jm_del_new [OF new] by simp
    show ?thesis
    proof (cases "out = outcome.Pending")
      case True
      then have res: "res = EpRunning r (a_nextAction c)" and a1: "a1 = park_action r ReplyHttp name args c"
        using assms(3) by (simp_all add: handleAction_connect_def x cr Inr out)
      have "http_object r connId a1" "refs_ok a1"
        unfolding a1 park_action_def using c by (auto intro: http_conn.actions_I refs.actions_I)
      then have "http_object r connId (fold (actor_step (ep_env ep) (ep_cfg ep)) es a1)" for es
        by (rule http_conn.run_I)
      then show ?thesis using http_object_id by (fastforce simp: res)
    next
      case False
      then have "a1 = snd (handleAction_finish ep now enc r (case out of Ret v \<Rightarrow> Inr v | Throw e \<Rightarrow> Inl e) c) \<and> (\<forall>r' k. res \<noteq> EpRunning r' k)"
        using assms(3)
        by (cases out) (auto simp: handleAction_connect_def x cr Inr out handleAction_finish_def Let_def split: sum.splits)
      then show ?thesis using ended by (cases res) auto
    qed
  qed
qed

section \<open>WebSocket connections\<close>

lemma onMessage_pending:
  "wss_handlers w = HandlersPending \<Longrightarrow>
     fold (ws_onMessage ep now) ms (w, a) = (w\<lparr>wss_waiting := wss_waiting w @ map OnMessage ms\<rparr>, a)"
  by (induction ms arbitrary: w) (simp_all add: ws_onMessage_def run_callback_def)

lemma fold_callbacks: "fold (run_callback ep now) (map OnMessage ms) = fold (ws_onMessage ep now) ms"
  by (simp add: fold_map comp_def ws_onMessage_def [abs_def])

text \<open>The closes an error leads to.\<close>

definition closes_of :: "endpoint_env \<Rightarrow> js_err \<Rightarrow> bool \<Rightarrow> (nat \<times> string) list" where
  "closes_of ep e expose =
     (case deconstructError (en_str (ep_env ep)) e expose of Inl t \<Rightarrow> [] | Inr d \<Rightarrow> [(1011, de_code d)])"

lemma close_with_fields [simp]:
  "wss_closes (close_with ep e w) = wss_closes w @ closes_of ep e (wss_expose w)"
  "wss_expose (close_with ep e w) = wss_expose w" "wss_handlers (close_with ep e w) = wss_handlers w"
  "wss_waiting (close_with ep e w) = wss_waiting w" "wss_encoding (close_with ep e w) = wss_encoding w"
  by (simp_all add: close_with_def closes_of_def ws_unhandled_def ws_close_def split: sum.split)

lemma unhandled_fields [simp]:
  "wss_closes (ws_unhandled e w) = wss_closes w" "wss_expose (ws_unhandled e w) = wss_expose w"
  "wss_waiting (ws_unhandled e w) = wss_waiting w" "wss_unhandled (ws_unhandled e w) = wss_unhandled w @ [e]"
  by (simp_all add: ws_unhandled_def)

lemma onMessage_rejected:
  "wss_handlers w = HandlersRejected e \<Longrightarrow>
     fold (ws_onMessage ep now) ms (w, a) = ((close_with ep e ^^ length ms) w, a)"
proof (induction ms arbitrary: w)
  case (Cons m ms)
  then show ?case by (simp add: ws_onMessage_def run_callback_def funpow_swap1)
qed simp

lemma closes_repeated:
  "wss_closes ((close_with ep e ^^ n) w) = wss_closes w @ concat (replicate n (closes_of ep e (wss_expose w)))
   \<and> wss_expose ((close_with ep e ^^ n) w) = wss_expose w \<and> wss_handlers ((close_with ep e ^^ n) w) = wss_handlers w"
proof (induction n)
  case (Suc n)
  have "replicate n x @ [x] = x # replicate n x" for x :: "(nat \<times> string) list" by (induction n) auto
  then have "concat (replicate n x) @ x = x @ concat (replicate n x)" for x :: "(nat \<times> string) list"
    by (metis append_Nil2 concat.simps(1,2) concat_append)
  then show ?case using Suc by simp
qed simp

text \<open>
  C12.  Messages that arrive while \<open>createConn\<close> is still to come are as good as messages that arrive after
  it: they leave the instance alone until then, and afterwards the instance, the closes of the socket
  and the promise are what they are when the connection comes first.  This holds whether the
  connection is created or refused.
\<close>

theorem early_messages_wait:
  "let w = (handleWebSocketConnect req enc p au)\<lparr>wss_opening := Some st\<rparr>;
       early = ws_connect ep now i t ws (fold (ws_onMessage ep now) ms (w, a));
       late = fold (ws_onMessage ep now) ms (ws_connect ep now i t ws (w, a))
   in snd (fold (ws_onMessage ep now) ms (w, a)) = a \<and> snd early = snd late
     \<and> wss_closes (fst early) = wss_closes (fst late) \<and> wss_handlers (fst early) = wss_handlers (fst late)"
proof -
  let ?w = "(handleWebSocketConnect req enc p au)\<lparr>wss_opening := Some st\<rparr>"
  let ?a = "a\<lparr>a_generic := (a_generic a)\<lparr>g_websockets := jm_set i ws (g_websockets (a_generic a))\<rparr>\<rparr>"
  have w: "wss_handlers ?w = HandlersPending" "wss_waiting ?w = []" "wss_opening ?w = Some st"
    by (simp_all add: handleWebSocketConnect_def)
  note pending = onMessage_pending [OF w(1), of ep now ms a, unfolded w(2) append_Nil]
  obtain cr b where cr: "createConn (ep_env ep) (ep_cfg ep) now i t (wss_parameters ?w) st ''webSocket''
      (encoding_state (wss_encoding ?w)) (wss_authData ?w) ?a = (cr, b)" by fastforce
  note connect = ws_connect_def settle_handlers_def open_failed_def Let_def
  show ?thesis
  proof (cases cr)
    case (Inr r)
    have "ws_connect ep now i t ws (?w, a) = (?w\<lparr>wss_opening := None, wss_handlers := HandlersResolved r i\<rparr>, b)"
      using cr w by (simp add: connect Inr handleWebSocketConnect_def)
    moreover have "ws_connect ep now i t ws (?w\<lparr>wss_waiting := map OnMessage ms\<rparr>, a)
        = fold (ws_onMessage ep now) ms (?w\<lparr>wss_opening := None, wss_handlers := HandlersResolved r i\<rparr>, b)"
      using cr w by (simp add: connect Inr fold_callbacks handleWebSocketConnect_def)
    ultimately show ?thesis unfolding Let_def pending by simp
  next
    case (Inl e)
    define x where "x = (close_with ep e (ws_unhandled e (?w\<lparr>wss_opening := None\<rparr>)))\<lparr>wss_handlers := HandlersRejected e, wss_waiting := []\<rparr>"
    define y where "y = (close_with ep e (if ms = [] then ws_unhandled e (?w\<lparr>wss_waiting := [], wss_opening := None\<rparr>)
      else ?w\<lparr>wss_waiting := map OnMessage ms, wss_opening := None\<rparr>))\<lparr>wss_handlers := HandlersRejected e, wss_waiting := []\<rparr>"
    have fields: "wss_closes x = wss_closes y" "wss_expose x = wss_expose y" "wss_handlers x = HandlersRejected e"
      "wss_handlers y = HandlersRejected e"
      by (simp_all add: x_def y_def)
    have "ws_connect ep now i t ws (?w, a) = (x, b)"
      using cr w by (simp add: connect Inl x_def handleWebSocketConnect_def)
    moreover have "ws_connect ep now i t ws (?w\<lparr>wss_waiting := map OnMessage ms\<rparr>, a) = fold (ws_onMessage ep now) ms (y, b)"
      using cr w by (auto simp: connect Inl y_def fold_callbacks handleWebSocketConnect_def)
    ultimately show ?thesis
      unfolding Let_def pending by (simp add: onMessage_rejected fields closes_repeated)
  qed
qed

text \<open>A connection that \<open>onBeforeConnect\<close> refuses leaves \<open>handlersPromise\<close> rejected before anything is
  attached to it: an unhandled rejection, which ends a Node process by default.\<close>

lemma refused_connection_unhandled:
  assumes "prepareConn (ep_env ep) (ep_cfg ep) now p a = (Inl e, a1)"
  shows "e \<in> set (wss_unhandled (fst (ws_onOpen ep now (handleWebSocketConnect req enc p au, a))))"
proof -
  have "e \<in> set (wss_unhandled w) \<Longrightarrow> e \<in> set (wss_unhandled (close_with ep e w))" for w
    by (simp add: close_with_def ws_close_def split: sum.split)
  then show ?thesis
    using assms by (simp add: ws_onOpen_def open_failed_def settle_handlers_def handleWebSocketConnect_def)
qed

text \<open>When \<open>createConn\<close> refuses, the socket stays registered under the id of a connection that never was.\<close>

lemma refused_socket_stays:
  assumes "assertReady False a = Some e" and "wss_opening w = Some st" and "wss_waiting w = []"
  shows "jm_get (g_websockets (a_generic (snd (ws_connect ep now i t ws (w, a))))) i = Some ws"
  using assms by (simp add: ws_connect_def createConn_def assertReady_def Let_def open_failed_def settle_handlers_def
      split: if_splits)

section \<open>Examples\<close>

definition example_http :: manager_env where
  "example_http = (chat_manager (\<lambda>c its p. Inr JUndef))"

definition example_endpoint :: endpoint_env where
  "example_endpoint = \<lparr>ep_env = example_env, ep_cfg = example_cfg, ep_http = example_http,
     ep_toServer = en_toClient example_env, ep_actionRequest = en_toClient example_env,
     ep_actionResponse = en_toClient example_env, ep_maxIncomingMessageSize = 100\<rparr>"

theorem http_action_leaves_no_connection_witness:
  "a_connections (snd (handleAction_connect example_endpoint 1 ''c'' ''t'' ''missing'' JUndef (Json, JNull, JArr [], JUndef) example_actor))
     = a_connections example_actor"
proof -
  obtain res a1 where r: "handleAction_connect example_endpoint 1 ''c'' ''t'' ''missing'' JUndef (Json, JNull, JArr [], JUndef) example_actor
      = (res, a1)" by fastforce
  have res: "\<forall>r k. res \<noteq> EpRunning r k"
    using r by (auto simp: handleAction_connect_def executeAction_def lookup_action_def example_endpoint_def
        example_cfg_def object_prototype_functions_def handleAction_finish_def Let_def split: prod.splits sum.splits if_splits)
  have started: "start (ep_env example_endpoint) (ep_cfg example_endpoint) 0 ''a'' no_sockets (example_file 0) = Inr example_actor"
    by (simp add: example_endpoint_def example_actor_started)
  have none: "example_actor = fold (actor_step (ep_env example_endpoint) (ep_cfg example_endpoint)) [] example_actor" by simp
  show ?thesis using http_action_leaves_no_connection [OF started none r] res by (cases res) (simp_all add: r)
qed

text \<open>A connection \<open>c\<close> with the token \<open>t\<close>, and a message for it.\<close>

definition one_conn :: actor where
  "one_conn = example_actor\<lparr>a_heap := [new_Conn (new_persisted_conn 0 ''c'' ''t'' JNull JUndef ''http'' (JObj []) JUndef) HttpDriver False],
     a_connections := [(''c'', 0)]\<rparr>"

definition message_request :: http_request where
  "message_request = \<lparr>rq_method = ''POST'', rq_path = ''/x'', rq_search = [],
     rq_headers = [(''x-rivetkit-actor'', ''a''), (''x-rivetkit-conn'', ''c''), (''x-rivetkit-encoding'', ''bare''),
       (''x-rivetkit-conn-token'', ''t'')],
     rq_action = [], rq_body = embedVersion 1 []\<rparr>"

lemma lower_headers:
  "lower HEADER_ACTOR_ID = ''x-rivetkit-actor''" "lower HEADER_CONN_ID = ''x-rivetkit-conn''"
  "lower HEADER_ENCODING = ''x-rivetkit-encoding''" "lower HEADER_CONN_TOKEN = ''x-rivetkit-conn-token''"
  by code_simp+

lemma message_headers:
  "get_header (rq_headers message_request) HEADER_ACTOR_ID = Some ''a''" "get_header (rq_headers message_request) HEADER_CONN_ID = Some ''c''"
  "get_header (rq_headers message_request) HEADER_ENCODING = Some ''bare''"
  "get_header (rq_headers message_request) HEADER_CONN_TOKEN = Some ''t''"
  by (simp_all add: message_request_def get_header_def lower_headers)

theorem message_needs_token_witness:
  "\<exists>connId r. get_header (rq_headers message_request) HEADER_CONN_ID = Some connId
    \<and> jm_get (a_connections one_conn) connId = Some r
    \<and> get_header (rq_headers message_request) HEADER_CONN_TOKEN = Some (pc_token (c_persist (conn_at one_conn r)))"
proof -
  obtain i rq where rq: "handle_request example_http one_actor Message_route message_request () = (Proxied i rq, ())"
    and h: "rq_body rq = embedVersion 1 []"
      "rq_headers rq = set_header HEADER_CONN_TOKEN ''t'' (set_header HEADER_CONN_ID ''c'' (set_header HEADER_ENCODING ''bare'' []))"
    by (simp add: handle_request_def handleMessageRequest_def message_headers EncodingSchema_def encoding_name_def)
      (simp add: message_request_def)
  have "given_header rq HEADER_CONN_ID = Some ''c''" "given_header rq HEADER_CONN_TOKEN = Some ''t''"
    "given_header rq HEADER_ENCODING = Some ''bare''"
    by (simp_all add: given_header_def h lower_headers)
  moreover have "deserializeWithEmbeddedVersion (en_toClient example_env) (embedVersion 1 []) = Inr JUndef"
    by (simp add: deserialize_embedded deserializeVersioned_def example_env_def)
  ultimately have "fst (route_message example_endpoint 1 None rq one_conn) = EpMessage"
    by (simp add: route_message_def handleConnectionMessage_def getRequestEncoding_def EncodingSchema_def
        deserializeWithEncoding_def h example_endpoint_def one_conn_def conn_at_def new_Conn_def new_persisted_conn_def)
  then show ?thesis
    by (intro message_needs_token [OF rq, of example_endpoint 1 None one_conn, OF prod.collapse [symmetric]]) simp
qed

end
