(* ===== verification/SocketAdapters.thy ===== *)
theory SocketAdapters
  imports Conn
begin

text \<open>
  The two objects that look like a WebSocket and are none: \<open>InlineWebSocketAdapter2\<close> of
  \<open>common/inline-websocket-adapter2.ts\<close>, which a client in the same process gets instead of a
  connection, and \<open>HonoWebSocketAdapter\<close> of \<open>manager/hono-websocket-adapter.ts\<close>, which \<open>onWebSocket\<close> gets.

  Listeners are named by numbers, and what they are called with is recorded.  What a listener does to
  the socket is a later operation; what a handler does to its context while it runs is part of the
  operation that calls it.
\<close>

section \<open>Events and listeners\<close>

datatype sock_event =
    EvOpen
  | EvMessage input_data
  | EvClose nat string bool
  | EvError js_err

datatype event_type = TOpen | TMessage | TClose | TError

fun type_of :: "sock_event \<Rightarrow> event_type" where
  "type_of EvOpen = TOpen"
| "type_of (EvMessage d) = TMessage"
| "type_of (EvClose c r w) = TClose"
| "type_of (EvError e) = TError"

definition listeners_of :: "(event_type \<times> nat list) list \<Rightarrow> event_type \<Rightarrow> nat list" where
  "listeners_of m t = (case jm_get m t of None \<Rightarrow> [] | Some ls \<Rightarrow> ls)"

text \<open>The calls for an event: the listeners, then the \<open>on\<close> property if it is set.\<close>

definition calls_for :: "(event_type \<times> nat list) list \<Rightarrow> (event_type \<times> nat) list \<Rightarrow> sock_event \<Rightarrow> (nat \<times> sock_event) list" where
  "calls_for listeners on ev =
     map (\<lambda>l. (l, ev)) (listeners_of listeners (type_of ev))
     @ (case jm_get on (type_of ev) of None \<Rightarrow> [] | Some l \<Rightarrow> [(l, ev)])"

section \<open>The inline WebSocket\<close>

record inline_ws =
  iw_readyState :: ready_state
  iw_queuedMessages :: "input_data list"
  iw_bufferedEvents :: "sock_event list"
  iw_eventListeners :: "(event_type \<times> nat list) list"
  iw_on :: "(event_type \<times> nat) list"
  iw_called :: "(nat \<times> sock_event) list"

definition inline_new :: inline_ws where
  "inline_new = \<lparr>iw_readyState = RsConnecting, iw_queuedMessages = [], iw_bufferedEvents = [],
     iw_eventListeners = [], iw_on = [], iw_called = []\<rparr>"

text \<open>What a handler does through its \<open>WSContext\<close>, and what it throws at the end.\<close>

datatype context_action = CtxSend input_data | CtxClose nat string

type_synonym reaction = "context_action list \<times> js_err option"

definition iw_dispatchEvent :: "sock_event \<Rightarrow> inline_ws \<Rightarrow> inline_ws" where
  "iw_dispatchEvent ev s =
     (let s1 = (if listeners_of (iw_eventListeners s) (type_of ev) = []
                then s\<lparr>iw_bufferedEvents := iw_bufferedEvents s @ [ev]\<rparr> else s)
      in s1\<lparr>iw_called := iw_called s1 @ calls_for (iw_eventListeners s) (iw_on s) ev\<rparr>)"

definition iw_handleMessage :: "input_data \<Rightarrow> inline_ws \<Rightarrow> inline_ws" where
  "iw_handleMessage data s =
     (if iw_readyState s \<noteq> RsOpen then s\<lparr>iw_queuedMessages := iw_queuedMessages s @ [data]\<rparr>
      else iw_dispatchEvent (EvMessage data) s)"

definition iw_handleClose :: "nat \<Rightarrow> string \<Rightarrow> inline_ws \<Rightarrow> inline_ws" where
  "iw_handleClose code reason s =
     (if iw_readyState s = RsClosed then s
      else iw_dispatchEvent (EvClose code reason (code = 1000)) (s\<lparr>iw_readyState := RsClosed\<rparr>))"

definition context_act :: "context_action \<Rightarrow> inline_ws \<Rightarrow> inline_ws" where
  "context_act act s =
     (case act of
        CtxSend data \<Rightarrow> iw_handleMessage data s
      | CtxClose code reason \<Rightarrow> iw_handleClose (if code = 0 then 1000 else code) reason s)"

definition react :: "reaction \<Rightarrow> inline_ws \<Rightarrow> js_err option \<times> inline_ws" where
  "react rx s = (snd rx, fold context_act (fst rx) s)"

definition iw_fireError :: "js_err \<Rightarrow> inline_ws \<Rightarrow> inline_ws" where
  "iw_fireError e s = iw_dispatchEvent (EvError e) s"

text \<open>\<open>close\<close>; \<open>rx\<close> is what the handler's \<open>onClose\<close> does, whose errors are logged.\<close>

definition iw_close :: "reaction \<Rightarrow> nat \<Rightarrow> string \<Rightarrow> inline_ws \<Rightarrow> inline_ws" where
  "iw_close rx code reason s =
     (if iw_readyState s = RsClosed \<or> iw_readyState s = RsClosing then s
      else let s1 = snd (react rx (s\<lparr>iw_readyState := RsClosing\<rparr>))
           in iw_dispatchEvent (EvClose code reason (code = 1000)) (s1\<lparr>iw_readyState := RsClosed\<rparr>))"

text \<open>\<open>send\<close>; \<open>rx\<close> is what the handler's \<open>onMessage\<close> does, the option what \<open>send\<close> throws.\<close>

definition iw_send :: "reaction \<Rightarrow> inline_ws \<Rightarrow> js_err option \<times> inline_ws" where
  "iw_send rx s =
     (if iw_readyState s \<noteq> RsOpen then (None, iw_fireError (EError ''Error'' ''WebSocket is not open'') s)
      else react rx s)"

text \<open>The messages queued so far are handed on once the socket is open.\<close>

definition process_queued :: "inline_ws \<Rightarrow> inline_ws" where
  "process_queued s =
     (if iw_queuedMessages s = [] \<or> iw_readyState s \<noteq> RsOpen then s
      else fold iw_handleMessage (iw_queuedMessages s) (s\<lparr>iw_queuedMessages := []\<rparr>))"

text \<open>\<open>#initialize\<close>, with what \<open>onOpen\<close> does and, should it throw, \<open>onClose\<close>.\<close>

definition iw_initialize :: "reaction \<Rightarrow> reaction \<Rightarrow> inline_ws \<Rightarrow> inline_ws" where
  "iw_initialize rx closing s =
     (case react rx s of
        (Some e, s1) \<Rightarrow> iw_close closing 1011 ''Internal error during initialization'' (iw_fireError e s1)
      | (None, s1) \<Rightarrow> process_queued (iw_dispatchEvent EvOpen (s1\<lparr>iw_readyState := RsOpen\<rparr>)))"

definition iw_flushBufferedEvents :: "event_type \<Rightarrow> inline_ws \<Rightarrow> inline_ws" where
  "iw_flushBufferedEvents t s =
     fold iw_dispatchEvent (filter (\<lambda>ev. type_of ev = t) (iw_bufferedEvents s))
       (s\<lparr>iw_bufferedEvents := filter (\<lambda>ev. type_of ev \<noteq> t) (iw_bufferedEvents s)\<rparr>)"

definition iw_addEventListener :: "event_type \<Rightarrow> nat \<Rightarrow> inline_ws \<Rightarrow> inline_ws" where
  "iw_addEventListener t l s =
     iw_flushBufferedEvents t
       (s\<lparr>iw_eventListeners := jm_set t (listeners_of (iw_eventListeners s) t @ [l]) (iw_eventListeners s)\<rparr>)"

definition iw_removeEventListener :: "event_type \<Rightarrow> nat \<Rightarrow> inline_ws \<Rightarrow> inline_ws" where
  "iw_removeEventListener t l s =
     (case jm_get (iw_eventListeners s) t of
        None \<Rightarrow> s
      | Some ls \<Rightarrow> s\<lparr>iw_eventListeners := jm_set t (remove1 l ls) (iw_eventListeners s)\<rparr>)"

definition iw_set_on :: "event_type \<Rightarrow> nat option \<Rightarrow> inline_ws \<Rightarrow> inline_ws" where
  "iw_set_on t l s = s\<lparr>iw_on := (case l of None \<Rightarrow> jm_del t (iw_on s) | Some x \<Rightarrow> jm_set t x (iw_on s))\<rparr>"

text \<open>What can happen to an inline WebSocket once its constructor has started \<open>#initialize\<close>.\<close>

datatype inline_op =
    OpContext context_action
  | OpSend reaction
  | OpClose reaction nat string
  | OpAdd event_type nat
  | OpRemove event_type nat
  | OpOn event_type "nat option"

fun inline_step :: "inline_op \<Rightarrow> inline_ws \<Rightarrow> inline_ws" where
  "inline_step (OpContext act) s = context_act act s"
| "inline_step (OpSend rx) s = snd (iw_send rx s)"
| "inline_step (OpClose rx code reason) s = iw_close rx code reason s"
| "inline_step (OpAdd t l) s = iw_addEventListener t l s"
| "inline_step (OpRemove t l) s = iw_removeEventListener t l s"
| "inline_step (OpOn t l) s = iw_set_on t l s"

section \<open>The WebSocket of a raw handler\<close>

text \<open>What the adapter did to the \<open>WSContext\<close>, and what listeners have been called with.  A set keeps
  each listener once.\<close>

datatype hono_effect = HonoSend input_data | HonoClose nat string

record hono_ws =
  hw_readyState :: ready_state
  hw_eventListeners :: "(event_type \<times> nat list) list"
  hw_on :: "(event_type \<times> nat) list"
  hw_called :: "(nat \<times> sock_event) list"
  hw_effects :: "hono_effect list"

definition hono_new :: hono_ws where
  "hono_new = \<lparr>hw_readyState = RsOpen, hw_eventListeners = [], hw_on = [], hw_called = [], hw_effects = []\<rparr>"

definition hw_fireEvent :: "sock_event \<Rightarrow> hono_ws \<Rightarrow> hono_ws" where
  "hw_fireEvent ev s = s\<lparr>hw_called := hw_called s @ calls_for (hw_eventListeners s) (hw_on s) ev\<rparr>"

text \<open>The timeout of the constructor fires the open event, whatever has become of the socket.\<close>

definition hw_opened :: "hono_ws \<Rightarrow> hono_ws" where
  "hw_opened s = hw_fireEvent EvOpen s"

text \<open>\<open>send\<close>: a view is sent as the buffer it covers, a blob in a later turn (\<open>hw_blob_read\<close>); any other
  value as its text.  \<open>err\<close> is what the context throws.\<close>

definition hw_send :: "js_err option \<Rightarrow> input_data \<Rightarrow> hono_ws \<Rightarrow> js_err option \<times> hono_ws" where
  "hw_send err data s =
     (if hw_readyState s \<noteq> RsOpen then (Some (EError ''Error'' ''WebSocket is not open''), s)
      else case data of
          IBlob b \<Rightarrow> (None, s)
        | _ \<Rightarrow>
            (case err of
               Some e \<Rightarrow> (Some e, hw_fireEvent (EvError e) s)
             | None \<Rightarrow>
                 (None, s\<lparr>hw_effects := hw_effects s @ [HonoSend
                    (case data of ITyped b \<Rightarrow> IBuffer b | IOther t \<Rightarrow> IStr t | d \<Rightarrow> d)]\<rparr>)))"

definition hw_blob_read :: "js_err + bytes \<Rightarrow> hono_ws \<Rightarrow> hono_ws" where
  "hw_blob_read res s =
     (case res of
        Inl e \<Rightarrow> hw_fireEvent (EvError e) s
      | Inr b \<Rightarrow> s\<lparr>hw_effects := hw_effects s @ [HonoSend (IBuffer b)]\<rparr>)"

text \<open>\<open>close\<close>; \<open>failed\<close> tells whether the context's \<open>close\<close> throws.\<close>

definition hw_close :: "bool \<Rightarrow> nat \<Rightarrow> string \<Rightarrow> hono_ws \<Rightarrow> hono_ws" where
  "hw_close failed code reason s =
     (if hw_readyState s = RsClosing \<or> hw_readyState s = RsClosed then s
      else if failed then hw_fireEvent (EvClose 1006 ''Abnormal closure'' False) (s\<lparr>hw_readyState := RsClosed\<rparr>)
      else hw_fireEvent (EvClose code reason (code = 1000))
             (s\<lparr>hw_readyState := RsClosed, hw_effects := hw_effects s @ [HonoClose code reason]\<rparr>))"

definition hw_addEventListener :: "event_type \<Rightarrow> nat \<Rightarrow> hono_ws \<Rightarrow> hono_ws" where
  "hw_addEventListener t l s =
     s\<lparr>hw_eventListeners := jm_set t (js_add l (listeners_of (hw_eventListeners s) t)) (hw_eventListeners s)\<rparr>"

definition hw_removeEventListener :: "event_type \<Rightarrow> nat \<Rightarrow> hono_ws \<Rightarrow> hono_ws" where
  "hw_removeEventListener t l s =
     (case jm_get (hw_eventListeners s) t of
        None \<Rightarrow> s
      | Some ls \<Rightarrow> s\<lparr>hw_eventListeners := jm_set t (js_remove l ls) (hw_eventListeners s)\<rparr>)"

text \<open>Raw data or an object with a \<open>data\<close> property: the caller says which.\<close>

definition hw_handleMessage :: "input_data \<Rightarrow> hono_ws \<Rightarrow> hono_ws" where
  "hw_handleMessage messageData s = hw_fireEvent (EvMessage messageData) s"

definition hw_handleClose :: "nat \<Rightarrow> string \<Rightarrow> hono_ws \<Rightarrow> hono_ws" where
  "hw_handleClose code reason s =
     (let s1 = s\<lparr>hw_effects := hw_effects s @ [HonoClose 1000 ''hack_force_close'']\<rparr>
      in if hw_readyState s1 = RsClosed then s1
         else hw_fireEvent (EvClose code reason (code = 1000)) (s1\<lparr>hw_readyState := RsClosed\<rparr>))"

definition hw_handleError :: "js_err \<Rightarrow> hono_ws \<Rightarrow> hono_ws" where
  "hw_handleError e s = hw_fireEvent (EvError e) s"

datatype hono_op =
    HoOpened
  | HoSend "js_err option" input_data
  | HoBlobRead "js_err + bytes"
  | HoClose bool nat string
  | HoAdd event_type nat
  | HoRemove event_type nat
  | HoMessage input_data
  | HoClosed nat string
  | HoError js_err

fun hono_step :: "hono_op \<Rightarrow> hono_ws \<Rightarrow> hono_ws" where
  "hono_step HoOpened s = hw_opened s"
| "hono_step (HoSend err data) s = snd (hw_send err data s)"
| "hono_step (HoBlobRead res) s = hw_blob_read res s"
| "hono_step (HoClose failed code reason) s = hw_close failed code reason s"
| "hono_step (HoAdd t l) s = hw_addEventListener t l s"
| "hono_step (HoRemove t l) s = hw_removeEventListener t l s"
| "hono_step (HoMessage data) s = hw_handleMessage data s"
| "hono_step (HoClosed code reason) s = hw_handleClose code reason s"
| "hono_step (HoError e) s = hw_handleError e s"

section \<open>Messages of the inline WebSocket\<close>

definition messages :: "sock_event list \<Rightarrow> input_data list" where
  "messages evs = concat (map (\<lambda>ev. case ev of EvMessage d \<Rightarrow> [d] | _ \<Rightarrow> []) evs)"

lemma messages_simps [simp]:
  "messages [] = []" "messages (EvMessage d # evs) = d # messages evs" "messages (evs @ evs') = messages evs @ messages evs'"
  "type_of ev \<noteq> TMessage \<Longrightarrow> messages (ev # evs) = messages evs"
  by (cases ev; simp add: messages_def)+

definition sends :: "context_action list \<Rightarrow> input_data list" where
  "sends acts = concat (map (\<lambda>act. case act of CtxSend d \<Rightarrow> [d] | _ \<Rightarrow> []) acts)"

lemma sends_simps [simp]:
  "sends [] = []" "sends (CtxSend d # acts) = d # sends acts" "sends (CtxClose c r # acts) = sends acts"
  by (simp_all add: sends_def)

text \<open>What the handler does to its context in an operation.\<close>

fun performed :: "inline_op \<Rightarrow> inline_ws \<Rightarrow> context_action list" where
  "performed (OpContext act) s = [act]"
| "performed (OpSend rx) s = (if iw_readyState s = RsOpen then fst rx else [])"
| "performed (OpClose rx code reason) s =
     (if iw_readyState s = RsClosed \<or> iw_readyState s = RsClosing then [] else fst rx)"
| "performed _ s = []"

fun all_sends :: "inline_op list \<Rightarrow> inline_ws \<Rightarrow> input_data list" where
  "all_sends [] s = []"
| "all_sends (op # ops) s = sends (performed op s) @ all_sends ops (inline_step op s)"

text \<open>Messages, as far as the calls of the listener \<open>l\<close> tell.\<close>

definition received :: "nat \<Rightarrow> inline_ws \<Rightarrow> input_data list" where
  "received l s = messages (map snd (filter (\<lambda>(l', ev). l' = l) (iw_called s)))"

text \<open>The messages \<open>ms\<close> sent so far have been received, or wait in the buffer or the queue, in this order;
  \<open>on\<close> tells whether the listener has been added.\<close>

definition kept :: "nat \<Rightarrow> bool \<Rightarrow> input_data list \<Rightarrow> inline_ws \<Rightarrow> bool" where
  "kept l on ms s \<longleftrightarrow>
     ms = received l s @ messages (iw_bufferedEvents s) @ iw_queuedMessages s
     \<and> listeners_of (iw_eventListeners s) TMessage = (if on then [l] else [])
     \<and> jm_get (iw_on s) TMessage = None
     \<and> (on \<longrightarrow> messages (iw_bufferedEvents s) = [])"

definition quiet_when_open :: "inline_ws \<Rightarrow> bool" where
  "quiet_when_open s \<longleftrightarrow> (iw_readyState s = RsOpen \<longrightarrow> iw_queuedMessages s = [])"

lemma iw_dispatch_fields [simp]:
  "iw_readyState (iw_dispatchEvent ev s) = iw_readyState s" "iw_queuedMessages (iw_dispatchEvent ev s) = iw_queuedMessages s"
  "iw_eventListeners (iw_dispatchEvent ev s) = iw_eventListeners s" "iw_on (iw_dispatchEvent ev s) = iw_on s"
  by (simp_all add: iw_dispatchEvent_def Let_def)

lemma received_other:
  assumes "type_of ev \<noteq> TMessage"
  shows "received l (iw_dispatchEvent ev s) = received l s"
    and "messages (iw_bufferedEvents (iw_dispatchEvent ev s)) = messages (iw_bufferedEvents s)"
proof -
  have "messages (map snd (filter (\<lambda>(l', ev'). l' = l) (calls_for ls on ev))) = []" for ls on
  proof -
    have "messages (map snd (filter (\<lambda>(l', ev'). l' = l) (map (\<lambda>x. (x, ev)) xs))) = []" for xs
      using assms by (induction xs) auto
    then show ?thesis using assms by (simp add: calls_for_def split: option.split)
  qed
  then show "received l (iw_dispatchEvent ev s) = received l s" by (simp add: received_def iw_dispatchEvent_def Let_def)
  show "messages (iw_bufferedEvents (iw_dispatchEvent ev s)) = messages (iw_bufferedEvents s)"
    using assms by (simp add: iw_dispatchEvent_def Let_def)
qed

lemma kept_other: "type_of ev \<noteq> TMessage \<Longrightarrow> kept l on ms (iw_dispatchEvent ev s) = kept l on ms s"
  by (simp add: kept_def received_other)

lemma kept_message:
  assumes "kept l on ms s" and "iw_queuedMessages s = []"
  shows "kept l on (ms @ [d]) (iw_dispatchEvent (EvMessage d) s)"
  using assms by (simp add: kept_def received_def iw_dispatchEvent_def Let_def calls_for_def)

lemma kept_fields [simp]:
  "kept l on ms (s\<lparr>iw_readyState := v\<rparr>) = kept l on ms s"
  by (simp add: kept_def received_def)

lemma kept_act:
  assumes "kept l on ms s" and "quiet_when_open s"
  shows "kept l on (ms @ sends [act]) (context_act act s) \<and> quiet_when_open (context_act act s)"
proof (cases act)
  case (CtxSend d)
  show ?thesis
  proof (cases "iw_readyState s = RsOpen")
    case True
    then show ?thesis
      using assms kept_message by (simp add: CtxSend context_act_def iw_handleMessage_def quiet_when_open_def)
  next
    case False
    then show ?thesis
      using assms by (simp add: CtxSend context_act_def iw_handleMessage_def quiet_when_open_def kept_def received_def)
  qed
next
  case (CtxClose c r)
  then show ?thesis
    using assms by (simp add: context_act_def iw_handleClose_def kept_other quiet_when_open_def)
qed

lemma kept_acts:
  "kept l on ms s \<Longrightarrow> quiet_when_open s \<Longrightarrow>
     kept l on (ms @ sends acts) (fold context_act acts s) \<and> quiet_when_open (fold context_act acts s)"
proof (induction acts arbitrary: ms s)
  case (Cons act acts)
  have "sends (act # acts) = sends [act] @ sends acts" by (simp add: sends_def)
  then show ?case using Cons.IH kept_act [OF Cons.prems] by fastforce
qed simp

text \<open>Operations that leave the listeners of messages alone.\<close>

fun other_listeners :: "inline_op \<Rightarrow> bool" where
  "other_listeners (OpAdd t l) = (t \<noteq> TMessage)"
| "other_listeners (OpRemove t l) = (t \<noteq> TMessage)"
| "other_listeners (OpOn t l) = (t \<noteq> TMessage)"
| "other_listeners _ = True"

lemma kept_listeners:
  assumes "kept l on ms s" and "quiet_when_open s" and "t \<noteq> TMessage"
  shows "kept l on ms (s\<lparr>iw_eventListeners := jm_set t ls (iw_eventListeners s)\<rparr>)"
    and "kept l on ms (s\<lparr>iw_on := jm_set t x (iw_on s)\<rparr>)" and "kept l on ms (s\<lparr>iw_on := jm_del t (iw_on s)\<rparr>)"
  using assms by (simp_all add: kept_def received_def listeners_of_def)

lemma quiet_fields [simp]:
  "quiet_when_open (s\<lparr>iw_eventListeners := ls\<rparr>) = quiet_when_open s" "quiet_when_open (s\<lparr>iw_on := x\<rparr>) = quiet_when_open s"
  "quiet_when_open (iw_dispatchEvent ev s) = quiet_when_open s"
  by (simp_all add: quiet_when_open_def)

lemma kept_fold_other:
  assumes "list_all (\<lambda>ev. type_of ev \<noteq> TMessage) evs"
  shows "kept l on ms (fold iw_dispatchEvent evs s) = kept l on ms s
    \<and> quiet_when_open (fold iw_dispatchEvent evs s) = quiet_when_open s"
  using assms by (induction evs arbitrary: s) (simp_all add: kept_other)

lemma messages_filter [simp]: "t \<noteq> TMessage \<Longrightarrow> messages (filter (\<lambda>ev. type_of ev \<noteq> t) evs) = messages evs"
proof (induction evs)
  case (Cons ev evs)
  then show ?case by (cases ev) auto
qed simp

lemma kept_flush_other:
  assumes "kept l on ms s" and "quiet_when_open s" and "t \<noteq> TMessage"
  shows "kept l on ms (iw_flushBufferedEvents t s) \<and> quiet_when_open (iw_flushBufferedEvents t s)"
proof -
  let ?s = "s\<lparr>iw_bufferedEvents := filter (\<lambda>ev. type_of ev \<noteq> t) (iw_bufferedEvents s)\<rparr>"
  have "kept l on ms ?s" "quiet_when_open ?s"
    using assms by (simp_all add: kept_def received_def quiet_when_open_def)
  moreover have "list_all (\<lambda>ev. type_of ev \<noteq> TMessage) (filter (\<lambda>ev. type_of ev = t) (iw_bufferedEvents s))"
    using assms(3) by (simp add: list_all_iff)
  ultimately show ?thesis unfolding iw_flushBufferedEvents_def by (simp add: kept_fold_other)
qed

lemma kept_step:
  assumes "kept l on ms s" and "quiet_when_open s" and "other_listeners op"
  shows "kept l on (ms @ sends (performed op s)) (inline_step op s) \<and> quiet_when_open (inline_step op s)"
proof (cases op)
  case (OpContext act)
  then show ?thesis using kept_act [OF assms(1,2)] by simp
next
  case (OpSend rx)
  then show ?thesis
    using assms kept_acts [OF assms(1,2)] by (simp add: iw_send_def iw_fireError_def kept_other react_def)
next
  case (OpClose rx code reason)
  let ?s = "s\<lparr>iw_readyState := RsClosing\<rparr>"
  have "kept l on (ms @ sends (fst rx)) (fold context_act (fst rx) ?s)"
    using kept_acts [of l on ms ?s "fst rx"] assms by (simp add: quiet_when_open_def)
  then show ?thesis
    using OpClose assms by (auto simp: iw_close_def react_def Let_def kept_other quiet_when_open_def)
next
  case (OpAdd t l')
  then show ?thesis
    using assms kept_flush_other [OF kept_listeners(1) [OF assms(1,2)]] by (simp add: iw_addEventListener_def)
next
  case (OpRemove t l')
  then show ?thesis
    using assms kept_listeners(1) by (auto simp: iw_removeEventListener_def split: option.split)
next
  case (OpOn t l')
  then show ?thesis
    using assms kept_listeners(2,3) by (auto simp: iw_set_on_def split: option.split)
qed

lemma kept_run:
  "kept l on ms s \<Longrightarrow> quiet_when_open s \<Longrightarrow> list_all other_listeners ops \<Longrightarrow>
     kept l on (ms @ all_sends ops s) (fold inline_step ops s) \<and> quiet_when_open (fold inline_step ops s)"
proof (induction ops arbitrary: ms s)
  case (Cons op ops)
  then show ?case using kept_step [OF Cons.prems(1,2)] by fastforce
qed simp

text \<open>Adding the listener hands it what is in the buffer.\<close>

lemma fold_delivers:
  assumes "listeners_of (iw_eventListeners s) TMessage = [l]" and "jm_get (iw_on s) TMessage = None"
    and "list_all (\<lambda>ev. type_of ev = TMessage) evs"
  shows "received l (fold iw_dispatchEvent evs s) = received l s @ messages evs
    \<and> iw_bufferedEvents (fold iw_dispatchEvent evs s) = iw_bufferedEvents s
    \<and> iw_queuedMessages (fold iw_dispatchEvent evs s) = iw_queuedMessages s
    \<and> iw_eventListeners (fold iw_dispatchEvent evs s) = iw_eventListeners s
    \<and> iw_on (fold iw_dispatchEvent evs s) = iw_on s \<and> iw_readyState (fold iw_dispatchEvent evs s) = iw_readyState s"
  using assms
proof (induction evs arbitrary: s)
  case (Cons ev evs)
  obtain d where ev: "ev = EvMessage d" using Cons.prems(3) by (cases ev) auto
  have "received l (iw_dispatchEvent ev s) = received l s @ [d]" "iw_bufferedEvents (iw_dispatchEvent ev s) = iw_bufferedEvents s"
    using Cons.prems(1,2) by (simp_all add: ev received_def iw_dispatchEvent_def Let_def calls_for_def)
  then show ?case using Cons.IH [of "iw_dispatchEvent ev s"] Cons.prems by (simp add: ev)
qed simp

lemma messages_only [simp]: "messages (filter (\<lambda>ev. type_of ev = TMessage) evs) = messages evs"
proof (induction evs)
  case (Cons ev evs)
  then show ?case by (cases ev) auto
qed simp

lemma messages_without [simp]: "messages (filter (\<lambda>ev. type_of ev \<noteq> TMessage) evs) = []"
  by (induction evs) auto

lemma kept_added:
  assumes "kept l False ms s" and "quiet_when_open s"
  shows "kept l True ms (iw_addEventListener TMessage l s) \<and> quiet_when_open (iw_addEventListener TMessage l s)"
proof -
  let ?s1 = "s\<lparr>iw_eventListeners := jm_set TMessage (listeners_of (iw_eventListeners s) TMessage @ [l]) (iw_eventListeners s)\<rparr>"
  let ?s = "?s1\<lparr>iw_bufferedEvents := filter (\<lambda>ev. type_of ev \<noteq> TMessage) (iw_bufferedEvents s)\<rparr>"
  have l: "listeners_of (iw_eventListeners ?s) TMessage = [l]" "jm_get (iw_on ?s) TMessage = None"
    using assms(1) by (simp_all add: kept_def listeners_of_def)
  have eq: "iw_addEventListener TMessage l s = fold iw_dispatchEvent (filter (\<lambda>ev. type_of ev = TMessage) (iw_bufferedEvents s)) ?s"
    by (simp add: iw_addEventListener_def iw_flushBufferedEvents_def)
  have r: "received l ?s = received l s" by (simp add: received_def)
  have f: "iw_queuedMessages ?s = iw_queuedMessages s" "iw_readyState ?s = iw_readyState s"
    "messages (iw_bufferedEvents ?s) = []" by simp_all
  show ?thesis
    using fold_delivers [OF l, of "filter (\<lambda>ev. type_of ev = TMessage) (iw_bufferedEvents s)"] assms l r f
    unfolding eq kept_def quiet_when_open_def by (simp add: list_all_iff)
qed

lemma kept_initialize:
  assumes "snd rx = None"
  shows "kept l False (sends (fst rx)) (iw_initialize rx closing inline_new) \<and> quiet_when_open (iw_initialize rx closing inline_new)"
proof -
  have "kept l False [] inline_new" "quiet_when_open inline_new"
    by (simp_all add: kept_def inline_new_def received_def listeners_of_def quiet_when_open_def)
  from kept_acts [OF this, of "fst rx"]
  have k: "kept l False (sends (fst rx)) (fold context_act (fst rx) inline_new)" by simp
  define s where "s = iw_dispatchEvent EvOpen ((fold context_act (fst rx) inline_new)\<lparr>iw_readyState := RsOpen\<rparr>)"
  have ks: "kept l False (sends (fst rx)) s" and open_s: "iw_readyState s = RsOpen"
    using k by (simp_all add: s_def kept_other)
  have run: "kept l False (ms @ ds) (fold iw_handleMessage ds u) \<and> quiet_when_open (fold iw_handleMessage ds u)"
    if "kept l False ms u" "iw_readyState u = RsOpen" "iw_queuedMessages u = []" for ms ds u
    using that
  proof (induction ds arbitrary: ms u)
    case (Cons d ds)
    have "iw_handleMessage d u = iw_dispatchEvent (EvMessage d) u" using Cons.prems(2) by (simp add: iw_handleMessage_def)
    then show ?case
      using Cons.IH [OF kept_message [OF Cons.prems(1,3), of d]] Cons.prems by simp
  qed (simp add: quiet_when_open_def)
  let ?u = "s\<lparr>iw_queuedMessages := []\<rparr>"
  have "kept l False (received l s @ messages (iw_bufferedEvents s)) ?u" and "sends (fst rx) = (received l s @ messages (iw_bufferedEvents s)) @ iw_queuedMessages s"
    using ks by (simp_all add: kept_def received_def)
  with run [of "received l s @ messages (iw_bufferedEvents s)" ?u "iw_queuedMessages s"]
  have "kept l False (sends (fst rx)) (process_queued s) \<and> quiet_when_open (process_queued s)"
    using open_s ks by (auto simp: process_queued_def quiet_when_open_def)
  then show ?thesis using assms by (simp add: iw_initialize_def react_def s_def)
qed



section \<open>Where the adapters differ from a WebSocket\<close>

text \<open>The handler of a connection closes its socket from \<open>onClose\<close> (\<open>hack_force_close\<close>): a client that
  closes an inline WebSocket gets two close events, the first with that reason.\<close>

lemma close_event_twice:
  assumes "iw_readyState s = RsOpen" and "listeners_of (iw_eventListeners s) TClose = [l]" and "jm_get (iw_on s) TClose = None"
  shows "iw_called (iw_close ([CtxClose 1000 ''hack_force_close''], None) code reason s)
    = iw_called s @ [(l, EvClose 1000 ''hack_force_close'' True), (l, EvClose code reason (code = 1000))]"
  using assms by (simp add: iw_close_def react_def context_act_def iw_handleClose_def iw_dispatchEvent_def calls_for_def Let_def)

text \<open>A handler that closes the socket from \<open>onOpen\<close>, as it does when the actor could not be loaded, leaves
  it open: the close event comes first, then the open event, and the state is \<open>OPEN\<close>.\<close>

lemma closed_in_onOpen_is_open:
  "iw_readyState (iw_initialize ([CtxClose 1011 code], None) closing inline_new) = RsOpen
   \<and> iw_bufferedEvents (iw_initialize ([CtxClose 1011 code], None) closing inline_new) = [EvClose 1011 code False, EvOpen]"
  by (simp add: iw_initialize_def react_def context_act_def iw_handleClose_def iw_dispatchEvent_def inline_new_def
      process_queued_def Let_def listeners_of_def)

text \<open>With \<open>onmessage\<close> set and no listener a message is handed over and buffered: a listener added later
  makes \<open>onmessage\<close> get it again.\<close>

lemma message_twice:
  assumes "listeners_of (iw_eventListeners s) TMessage = []" and "jm_get (iw_on s) TMessage = Some h"
    and "iw_readyState s = RsOpen" and "iw_bufferedEvents s = []"
  shows "iw_called (iw_addEventListener TMessage l (iw_handleMessage d s))
    = iw_called s @ [(h, EvMessage d), (l, EvMessage d), (h, EvMessage d)]"
  using assms by (simp add: iw_handleMessage_def iw_addEventListener_def iw_flushBufferedEvents_def iw_dispatchEvent_def
      calls_for_def Let_def listeners_of_def)

section \<open>The raw WebSocket\<close>

text \<open>A closed adapter stays closed, and listeners hear of at most one close.\<close>

definition closes :: "hono_ws \<Rightarrow> nat \<Rightarrow> nat" where
  "closes s l = length (filter (\<lambda>(l', ev). l' = l \<and> type_of ev = TClose) (hw_called s))"

definition hono_inv :: "nat \<Rightarrow> hono_ws \<Rightarrow> bool" where
  "hono_inv l s \<longleftrightarrow> distinct (listeners_of (hw_eventListeners s) TClose) \<and> hw_on s = []
     \<and> hw_readyState s \<in> {RsOpen, RsClosed} \<and> (hw_readyState s = RsOpen \<longrightarrow> closes s l = 0) \<and> closes s l \<le> 1"

lemma closes_fire:
  assumes "distinct (listeners_of (hw_eventListeners s) TClose)" and "hw_on s = []"
  shows "closes (hw_fireEvent ev s) l \<le> closes s l + (if type_of ev = TClose then 1 else 0)"
proof -
  have "length (filter (\<lambda>x. x = l) xs) \<le> 1" if "distinct xs" for xs :: "nat list"
    using that by (simp add: distinct_length_filter card_le_Suc0_iff_eq)
  moreover have "length (filter (\<lambda>(l', ev'). l' = l \<and> type_of ev' = TClose) (map (\<lambda>x. (x, ev)) xs))
      = (if type_of ev = TClose then length (filter (\<lambda>x. x = l) xs) else 0)" for xs
    by (induction xs) auto
  ultimately show ?thesis
    using assms by (auto simp: closes_def hw_fireEvent_def calls_for_def)
qed

lemma hono_fields [simp]:
  "hw_eventListeners (hw_fireEvent ev s) = hw_eventListeners s" "hw_on (hw_fireEvent ev s) = hw_on s"
  "hw_readyState (hw_fireEvent ev s) = hw_readyState s"
  by (simp_all add: hw_fireEvent_def)

lemma hono_fire: "hono_inv l s \<Longrightarrow> type_of ev \<noteq> TClose \<Longrightarrow> hono_inv l (hw_fireEvent ev s)"
  using closes_fire [of s ev l] by (auto simp: hono_inv_def)

lemma hono_fire_close:
  assumes "hono_inv l s" and "hw_readyState s = RsOpen"
  shows "hono_inv l (hw_fireEvent (EvClose c r w) (s\<lparr>hw_readyState := RsClosed\<rparr>))"
    and "hono_inv l (hw_fireEvent (EvClose c r w) (s\<lparr>hw_readyState := RsClosed, hw_effects := es\<rparr>))"
    and "hono_inv l (hw_fireEvent (EvClose c r w) (s\<lparr>hw_effects := es, hw_readyState := RsClosed\<rparr>))"
proof -
  have "hono_inv l (hw_fireEvent (EvClose c r w) u)"
    if "hw_eventListeners u = hw_eventListeners s" "hw_on u = hw_on s" "hw_readyState u = RsClosed" "hw_called u = hw_called s" for u
    using assms that closes_fire [of u "EvClose c r w" l] by (auto simp: hono_inv_def closes_def)
  then show "hono_inv l (hw_fireEvent (EvClose c r w) (s\<lparr>hw_readyState := RsClosed\<rparr>))"
    and "hono_inv l (hw_fireEvent (EvClose c r w) (s\<lparr>hw_readyState := RsClosed, hw_effects := es\<rparr>))"
    and "hono_inv l (hw_fireEvent (EvClose c r w) (s\<lparr>hw_effects := es, hw_readyState := RsClosed\<rparr>))" by simp_all
qed

lemma hono_effects [simp]: "hono_inv l (s\<lparr>hw_effects := es\<rparr>) = hono_inv l s"
  by (simp add: hono_inv_def closes_def)

interpretation hono: machine hono_step "hono_inv l" for l
proof unfold_locales
  fix s op
  assume s: "hono_inv l s"
  have st: "hw_readyState s = RsOpen \<or> hw_readyState s = RsClosed" using s by (auto simp: hono_inv_def)
  show "hono_inv l (hono_step op s)"
  proof (cases op)
    case (HoAdd t l')
    show ?thesis
      unfolding HoAdd hono_step.simps hw_addEventListener_def
      using s by (cases "t = TClose") (auto simp: hono_inv_def closes_def listeners_of_def js_add_def)
  next
    case (HoRemove t l')
    show ?thesis
      unfolding HoRemove hono_step.simps hw_removeEventListener_def
      using s by (cases "t = TClose") (auto simp: hono_inv_def closes_def listeners_of_def js_remove_def split: option.split)
  next
    case (HoClose failed code reason)
    then show ?thesis using s hono_fire_close [OF s] st by (auto simp: hw_close_def)
  next
    case (HoClosed code reason)
    then show ?thesis using s hono_fire_close [OF s] st by (auto simp: hw_handleClose_def Let_def)
  qed (use s hono_fire in \<open>auto simp: hw_opened_def hw_send_def hw_blob_read_def hw_handleMessage_def hw_handleError_def
      split: sum.split option.split input_data.split\<close>)
qed

text \<open>Whatever happens to the socket of a raw handler, a listener is called for a close at most once.\<close>

lemma hono_one_close: "closes (fold hono_step ops hono_new) l \<le> 1"
proof -
  have "hono_inv l hono_new" by (simp add: hono_inv_def hono_new_def closes_def listeners_of_def)
  then show ?thesis using hono.run_inv [of l hono_new ops] by (simp add: hono_inv_def)
qed

text \<open>The open event comes even when the socket has been closed before.\<close>

lemma open_after_close:
  "hw_called (hono_step HoOpened (hono_step (HoClose False 1000 []) (hono_step (HoAdd TOpen 1) (hono_step (HoAdd TClose 1) hono_new))))
   = [(1, EvClose 1000 [] True), (1, EvOpen)]"
  by (simp add: hono_new_def hw_addEventListener_def hw_close_def hw_opened_def hw_fireEvent_def calls_for_def listeners_of_def js_add_def)

end
