(* ===== verification/ClientHandles.thy ===== *)
theory ClientHandles
  imports ClientConn ManagerRouter
begin

text \<open>
  The client: \<open>ClientRaw\<close> and its proxies (\<open>client/client.ts\<close>), handles (\<open>client/actor-handle.ts\<close>,
  \<open>client/raw-utils.ts\<close>), the HTTP driver (\<open>client/http-client-driver.ts\<close>) and its
  \<open>sendHttpRequest\<close> (\<open>client/utils.ts\<close>).

  A method that sends a request is cut at the request: the first function makes the request, or the
  error the method throws before it; the second takes what \<open>fetch\<close> answered.
\<close>

section \<open>Texts\<close>

lemma size_jsval_members:
  "x \<in> set xs \<Longrightarrow> size x < size (JArr xs)"
  using size_list_member [of x xs size] by (simp add: less_Suc_eq_le)

text \<open>\<open>JSON.stringify\<close> without a replacer throws at a \<open>bigint\<close> it comes to.\<close>

function has_bigint :: "jsval \<Rightarrow> bool" where
  "has_bigint v =
     (case v of
        JBig i \<Rightarrow> True
      | JArr xs \<Rightarrow> list_ex has_bigint xs
      | JObj kvs \<Rightarrow> list_ex (\<lambda>(k, x). has_bigint x) kvs
      | _ \<Rightarrow> False)"
  by pat_completeness auto

termination
  by (relation "measure size") (auto dest: size_jsval_children size_jsval_members)

declare has_bigint.simps [simp del]

definition JSON_stringify :: "codec \<Rightarrow> jsval \<Rightarrow> js_err + string option" where
  "JSON_stringify cd v =
     (if has_bigint v then Inl (EError ''TypeError'' ''Do not know how to serialize a BigInt'')
      else Inr (map_option (cd_json_text cd) (json_view (cd_iso cd) v)))"

text \<open>A header or a piece of a template text that is undefined is written out.\<close>

definition undefined_text :: "string option \<Rightarrow> string" where
  "undefined_text t = (case t of None \<Rightarrow> ''undefined'' | Some s \<Rightarrow> s)"

definition json_text :: "codec \<Rightarrow> jsval \<Rightarrow> js_err + string" where
  "json_text cd v = andThen (JSON_stringify cd v) (\<lambda>t. Inr (undefined_text t))"

text \<open>\<open>encodeURIComponent\<close>, on the characters up to 255: UTF-8, then percent signs.\<close>

definition uri_unreserved :: "char \<Rightarrow> bool" where
  "uri_unreserved c = (c \<in> set ''ABCDEFGHIJKLMNOPQRSTUVWXYZabcdefghijklmnopqrstuvwxyz0123456789-_.!~*()'' \<or> c = CHR 0x27)"

definition hex_digit :: "nat \<Rightarrow> char" where
  "hex_digit n = ''0123456789ABCDEF'' ! (n mod 16)"

definition percent :: "nat \<Rightarrow> string" where
  "percent b = [CHR ''%'', hex_digit (b div 16), hex_digit b]"

definition encode_uri_char :: "char \<Rightarrow> string" where
  "encode_uri_char c =
     (if uri_unreserved c then [c]
      else let n = of_char c in
           if n < 128 then percent n else percent (192 + n div 64) @ percent (128 + n mod 64))"

definition encodeURIComponent :: "string \<Rightarrow> string" where
  "encodeURIComponent s = concat (map encode_uri_char s)"

text \<open>\<open>s.replace(/^from/, to)\<close>\<close>

definition replace_start :: "string \<Rightarrow> string \<Rightarrow> string \<Rightarrow> string" where
  "replace_start from to s = (if prefix from s then to @ drop (length from) s else s)"

section \<open>\<open>sendHttpRequest\<close>\<close>

text \<open>What surrounds the driver.  \<open>he_userAgent\<close> is \<open>httpUserAgent()\<close>, \<open>he_errText\<close> and \<open>he_text\<close> the text
  of an error and of a value.\<close>

record http_env =
  he_codec :: codec
  he_endpoint :: string
  he_userAgent :: string
  he_u8 :: "jsval \<Rightarrow> js_err + bytes"
  he_errText :: "js_err \<Rightarrow> string"
  he_actionRequest :: "jsval version_handler"
  he_actionResponse :: "jsval version_handler"
  he_resolveRequest :: "jsval version_handler"
  he_resolveResponse :: "jsval version_handler"
  he_errorResponse :: "jsval version_handler"
  he_toServer :: "jsval version_handler"

record fetch_request =
  fr_url :: string
  fr_method :: string
  fr_headers :: headers
  fr_body :: "output_data option"

datatype fetch_answer =
    Unreachable_server js_err
  | Answered nat string bytes

definition ok_status :: "nat \<Rightarrow> bool" where
  "ok_status n \<longleftrightarrow> 200 \<le> n \<and> n \<le> 299"

text \<open>\<open>HttpRequestError\<close> and \<open>InternalError\<close> of \<open>client/errors.ts\<close> have the name \<open>Error\<close>.\<close>

definition HttpRequestError :: "string \<Rightarrow> rejection" where
  "HttpRequestError m = RejError (EError ''Error'' (''HTTP request error: '' @ m))"

definition ClientInternalError :: "string \<Rightarrow> rejection" where
  "ClientInternalError m = RejError (EError ''Error'' m)"

text \<open>An object literal of headers, later entries last.\<close>

definition header_list :: "(string \<times> string) list \<Rightarrow> headers" where
  "header_list hs = fold (\<lambda>(n, v). set_header n v) hs []"

definition sendHttpRequest ::
    "http_env \<Rightarrow> string \<Rightarrow> string \<Rightarrow> (string \<times> string) list \<Rightarrow> jsval \<Rightarrow> encoding \<Rightarrow> jsval version_handler \<Rightarrow> js_err + fetch_request" where
  "sendHttpRequest he url verb hs body enc h =
     (if verb = ''POST'' \<or> verb = ''PUT'' then
        (if body = JUndef then Inl (invariant_error ''missing body'')
         else andThen (serializeWithEncoding (he_codec he) enc body h) (\<lambda>out.
           Inr \<lparr>fr_url = url, fr_method = verb,
                fr_headers = header_list (hs @ [(''Content-Type'', contentTypeForEncoding enc), (''User-Agent'', he_userAgent he)]),
                fr_body = out\<rparr>))
      else Inr \<lparr>fr_url = url, fr_method = verb, fr_headers = header_list (hs @ [(''User-Agent'', he_userAgent he)]),
                fr_body = None\<rparr>)"

text \<open>A structured error becomes an \<open>ActorError\<close>; its metadata is decoded when there is any.\<close>

definition structured_error :: "http_env \<Rightarrow> jsval \<Rightarrow> rejection" where
  "structured_error he d =
     (case andThen (read_prop d ''metadata'') (\<lambda>m.
             if truthy m then andThen (to_Uint8Array (he_u8 he) m) (cd_cbor_decode (he_codec he)) else Inr JUndef) of
        Inl e \<Rightarrow> RejError e
      | Inr metadata \<Rightarrow> RejActor (obj_get d ''code'') (obj_get d ''message'') metadata)"

definition http_response ::
    "http_env \<Rightarrow> encoding \<Rightarrow> bool \<Rightarrow> jsval version_handler \<Rightarrow> fetch_answer \<Rightarrow> rejection + jsval" where
  "http_response he enc skipParseResponse h res =
     (case res of
        Unreachable_server e \<Rightarrow> Inl (HttpRequestError (''Request failed: '' @ he_errText he e))
      | Answered status statusText body \<Rightarrow>
          if \<not> ok_status status then
            (case deserializeWithEncoding (he_codec he) enc (OBytes body) (he_errorResponse he) of
               Inl e \<Rightarrow> Inl (HttpRequestError (statusText @ '' ('' @ nat_str status @ ''):'' @ [CHR 0x0A] @ cd_utf8 (he_codec he) body))
             | Inr d \<Rightarrow> Inl (structured_error he d))
          else if skipParseResponse then Inr JUndef
          else (case deserializeWithEncoding (he_codec he) enc (OBytes body) h of
                  Inl e \<Rightarrow> Inl (HttpRequestError (''Failed to parse response: '' @ he_errText he e))
                | Inr v \<Rightarrow> Inr v))"

section \<open>The HTTP driver\<close>

text \<open>The headers that say which actor, with which encoding and parameters.\<close>

definition target_headers :: "http_env \<Rightarrow> jsval \<Rightarrow> encoding \<Rightarrow> jsval \<Rightarrow> js_err + (string \<times> string) list" where
  "target_headers he q enc params =
     andThen (json_text (he_codec he) q) (\<lambda>query.
     andThen (if params \<noteq> JUndef then andThen (json_text (he_codec he) params) (\<lambda>p. Inr [(HEADER_CONN_PARAMS, p)])
              else Inr []) (\<lambda>p.
       Inr ([(HEADER_ENCODING, encoding_name enc), (HEADER_ACTOR_QUERY, query)] @ p)))"

definition driver_action :: "http_env \<Rightarrow> jsval \<Rightarrow> encoding \<Rightarrow> jsval \<Rightarrow> string \<Rightarrow> jsval list \<Rightarrow> js_err + fetch_request" where
  "driver_action he q enc params name args =
     andThen (target_headers he q enc params) (\<lambda>hs.
     andThen (cd_cbor_encode (he_codec he) (JArr args)) (\<lambda>b.
       sendHttpRequest he (he_endpoint he @ ''/registry/actors/actions/'' @ encodeURIComponent name) ''POST'' hs
         (JObj [(''args'', JBuffer b)]) enc (he_actionRequest he)))"

definition driver_action_result :: "http_env \<Rightarrow> encoding \<Rightarrow> fetch_answer \<Rightarrow> rejection + jsval" where
  "driver_action_result he enc res =
     (case http_response he enc False (he_actionResponse he) res of
        Inl r \<Rightarrow> Inl r
      | Inr v \<Rightarrow>
          (case andThen (read_prop v ''output'') (\<lambda>out.
                  andThen (to_Uint8Array (he_u8 he) out) (cd_cbor_decode (he_codec he))) of
             Inl e \<Rightarrow> Inl (RejError e)
           | Inr x \<Rightarrow> Inr x))"

definition resolve_failed :: "http_env \<Rightarrow> js_err \<Rightarrow> js_err" where
  "resolve_failed he e = EError ''Error'' (''Failed to resolve actor ID: '' @ he_errText he e)"

text \<open>Its \<open>catch\<close> is also around the making of the request.\<close>

definition driver_resolveActorId :: "http_env \<Rightarrow> jsval \<Rightarrow> encoding \<Rightarrow> jsval \<Rightarrow> js_err + fetch_request" where
  "driver_resolveActorId he q enc params =
     (case andThen (target_headers he q enc params) (\<lambda>hs.
             sendHttpRequest he (he_endpoint he @ ''/registry/actors/resolve'') ''POST'' hs JNull enc (he_resolveRequest he)) of
        Inl e \<Rightarrow> Inl (resolve_failed he e)
      | Inr f \<Rightarrow> Inr f)"

definition resolve_error :: "http_env \<Rightarrow> rejection \<Rightarrow> rejection" where
  "resolve_error he r = (case r of RejActor c m d \<Rightarrow> r | RejError e \<Rightarrow> RejError (resolve_failed he e))"

definition driver_resolved :: "http_env \<Rightarrow> encoding \<Rightarrow> fetch_answer \<Rightarrow> rejection + jsval" where
  "driver_resolved he enc res =
     (case http_response he enc False (he_resolveResponse he) res of
        Inl r \<Rightarrow> Inl (resolve_error he r)
      | Inr v \<Rightarrow>
          (case read_prop v ''actorId'' of Inl e \<Rightarrow> Inl (resolve_error he (RejError e)) | Inr i \<Rightarrow> Inr i))"

definition ws_endpoint :: "string \<Rightarrow> string" where
  "ws_endpoint managerEndpoint = replace_start ''https:'' ''wss:'' (replace_start ''http:'' ''ws:'' managerEndpoint)"

record socket_request =
  sr_url :: string
  sr_protocols :: "string list"
  sr_binaryType :: "string option"

text \<open>The sub-protocols that carry the query; parameters only when they are truthy.\<close>

definition target_protocols :: "http_env \<Rightarrow> jsval \<Rightarrow> encoding \<Rightarrow> jsval \<Rightarrow> js_err + string list" where
  "target_protocols he q enc params =
     andThen (json_text (he_codec he) q) (\<lambda>query.
     andThen (if truthy params then andThen (json_text (he_codec he) params) (\<lambda>p. Inr [''conn_params.'' @ encodeURIComponent p])
              else Inr []) (\<lambda>p.
       Inr ([''query.'' @ encodeURIComponent query, ''encoding.'' @ encoding_name enc] @ p @ [''rivetkit''])))"

definition driver_connectWebSocket :: "http_env \<Rightarrow> jsval \<Rightarrow> encoding \<Rightarrow> jsval \<Rightarrow> js_err + socket_request" where
  "driver_connectWebSocket he q enc params =
     andThen (target_protocols he q enc params) (\<lambda>ps.
       Inr \<lparr>sr_url = ws_endpoint (he_endpoint he) @ ''/registry/actors/connect/websocket'', sr_protocols = ps,
            sr_binaryType = Some (wsBinaryTypeForEncoding enc)\<rparr>)"

text \<open>The request an \<open>EventSource\<close> makes, each time it connects; \<open>init\<close> are its own headers.\<close>

definition driver_connectSse :: "http_env \<Rightarrow> jsval \<Rightarrow> encoding \<Rightarrow> jsval \<Rightarrow> (string \<times> string) list \<Rightarrow> js_err + fetch_request" where
  "driver_connectSse he q enc params init =
     andThen (target_headers he q enc params) (\<lambda>hs.
       Inr \<lparr>fr_url = he_endpoint he @ ''/registry/actors/connect/sse'', fr_method = ''GET'',
            fr_headers = header_list (init @ [(''User-Agent'', he_userAgent he)] @ hs), fr_body = None\<rparr>)"

definition driver_sendHttpMessage :: "http_env \<Rightarrow> string \<Rightarrow> encoding \<Rightarrow> string \<Rightarrow> string \<Rightarrow> jsval \<Rightarrow> js_err + fetch_request" where
  "driver_sendHttpMessage he actorId enc connectionId connectionToken message =
     andThen (serializeWithEncoding (he_codec he) enc message (he_toServer he)) (\<lambda>out.
       Inr \<lparr>fr_url = he_endpoint he @ ''/registry/actors/message'', fr_method = ''POST'',
            fr_headers = header_list [(''User-Agent'', he_userAgent he), (HEADER_ENCODING, encoding_name enc),
              (HEADER_ACTOR_ID, actorId), (HEADER_CONN_ID, connectionId), (HEADER_CONN_TOKEN, connectionToken)],
            fr_body = out\<rparr>)"

definition driver_message_sent :: "http_env \<Rightarrow> fetch_answer \<Rightarrow> rejection option" where
  "driver_message_sent he res =
     (case res of
        Unreachable_server e \<Rightarrow> Some (RejError e)
      | Answered status statusText body \<Rightarrow>
          if ok_status status then None
          else Some (ClientInternalError (''Publish message over HTTP error ('' @ statusText @ ''):'' @ [CHR 0x0A]
                 @ cd_utf8 (he_codec he) body)))"

text \<open>\<open>RequestInit\<close>, as far as it matters here.\<close>

record request_init =
  ri_method :: "string option"
  ri_headers :: "headers option"
  ri_body :: "output_data option"

definition no_leading_slash :: "string \<Rightarrow> string" where
  "no_leading_slash path = (if prefix ''/'' path then drop 1 path else path)"

definition driver_rawHttpRequest :: "http_env \<Rightarrow> jsval \<Rightarrow> encoding \<Rightarrow> jsval \<Rightarrow> string \<Rightarrow> request_init \<Rightarrow> js_err + fetch_request" where
  "driver_rawHttpRequest he q enc params path init =
     andThen (json_text (he_codec he) q) (\<lambda>query.
     andThen (if params \<noteq> JUndef then andThen (json_text (he_codec he) params) (\<lambda>p. Inr [(HEADER_CONN_PARAMS, p)])
              else Inr []) (\<lambda>p.
       Inr \<lparr>fr_url = he_endpoint he @ ''/registry/actors/raw/http/'' @ no_leading_slash path,
            fr_method = (case ri_method init of None \<Rightarrow> ''GET'' | Some m \<Rightarrow> m),
            fr_headers = header_list ((case ri_headers init of None \<Rightarrow> [] | Some h \<Rightarrow> h)
              @ [(''User-Agent'', he_userAgent he), (HEADER_ACTOR_QUERY, query), (HEADER_ENCODING, encoding_name enc)] @ p),
            fr_body = ri_body init\<rparr>))"

datatype user_protocols = NoProtocols | OneProtocol string | Protocols "string list"

definition protocol_list :: "user_protocols \<Rightarrow> string list" where
  "protocol_list ps =
     (case ps of NoProtocols \<Rightarrow> [] | OneProtocol p \<Rightarrow> (if p \<noteq> [] then [p] else []) | Protocols qs \<Rightarrow> qs)"

definition driver_rawWebSocket :: "http_env \<Rightarrow> jsval \<Rightarrow> encoding \<Rightarrow> jsval \<Rightarrow> string \<Rightarrow> user_protocols \<Rightarrow> js_err + socket_request" where
  "driver_rawWebSocket he q enc params path protocols =
     andThen (target_protocols he q enc params) (\<lambda>ps.
       Inr \<lparr>sr_url = ws_endpoint (he_endpoint he) @ ''/registry/actors/raw/websocket/'' @ no_leading_slash path,
            sr_protocols = ps @ protocol_list protocols, sr_binaryType = None\<rparr>)"

section \<open>Handles\<close>

record actor_handle =
  ah_query :: jsval
  ah_params :: jsval
  ah_encoding :: encoding

definition handle_action :: "http_env \<Rightarrow> actor_handle \<Rightarrow> string \<Rightarrow> jsval list \<Rightarrow> js_err + fetch_request" where
  "handle_action he h name args = driver_action he (ah_query h) (ah_encoding h) (ah_params h) name args"

text \<open>What \<open>fetch\<close> of a handle is given: the path of a \<open>URL\<close> or a \<open>Request\<close> is its path and search.\<close>

datatype fetch_input =
    FetchText string
  | FetchURL string string
  | FetchRequest string string string headers "output_data option"
  | FetchOther

text \<open>\<open>fetch\<close> and \<open>websocket\<close> always use JSON.\<close>

definition rawHttpFetch :: "http_env \<Rightarrow> jsval \<Rightarrow> jsval \<Rightarrow> fetch_input \<Rightarrow> request_init option \<Rightarrow> js_err + fetch_request" where
  "rawHttpFetch he q params input init =
     (let init' = (case init of None \<Rightarrow> \<lparr>ri_method = None, ri_headers = None, ri_body = None\<rparr> | Some i \<Rightarrow> i)
      in case input of
           FetchText path \<Rightarrow> driver_rawHttpRequest he q Json params path init'
         | FetchURL pathname search \<Rightarrow> driver_rawHttpRequest he q Json params (pathname @ search) init'
         | FetchRequest pathname search verb hs body \<Rightarrow>
             driver_rawHttpRequest he q Json params (pathname @ search)
               \<lparr>ri_method = Some (case ri_method init' of None \<Rightarrow> verb | Some m \<Rightarrow> m),
                ri_headers = Some (header_list (hs @ (case ri_headers init' of None \<Rightarrow> [] | Some h \<Rightarrow> h))),
                ri_body = (case ri_body init' of None \<Rightarrow> body | Some b \<Rightarrow> Some b)\<rparr>
         | FetchOther \<Rightarrow> Inl (EError ''TypeError'' ''Invalid input type for fetch''))"

definition rawWebSocket :: "http_env \<Rightarrow> jsval \<Rightarrow> jsval \<Rightarrow> string \<Rightarrow> user_protocols \<Rightarrow> js_err + socket_request" where
  "rawWebSocket he q params path protocols = driver_rawWebSocket he q Json params path protocols"

definition handle_fetch :: "http_env \<Rightarrow> actor_handle \<Rightarrow> fetch_input \<Rightarrow> request_init option \<Rightarrow> js_err + fetch_request" where
  "handle_fetch he h input init = rawHttpFetch he (ah_query h) (ah_params h) input init"

definition handle_websocket :: "http_env \<Rightarrow> actor_handle \<Rightarrow> string \<Rightarrow> user_protocols \<Rightarrow> js_err + socket_request" where
  "handle_websocket he h path protocols = rawWebSocket he (ah_query h) (ah_params h) path protocols"

text \<open>\<open>resolve\<close>: the id it already has, or the driver is asked and the handle then points at the id it
  answered.  The name is read before.\<close>

datatype resolve_start = Resolved jsval | Request_sent jsval fetch_request | Resolve_threw js_err

definition handle_resolve_start :: "http_env \<Rightarrow> actor_handle \<Rightarrow> resolve_start" where
  "handle_resolve_start he h =
     (let q = ah_query h;
          ask = (\<lambda>g. case read_prop g ''name'' of
                   Inl e \<Rightarrow> Resolve_threw e
                 | Inr name \<Rightarrow>
                     (case driver_resolveActorId he q (ah_encoding h) (ah_params h) of
                        Inl e \<Rightarrow> Resolve_threw e
                      | Inr f \<Rightarrow> Request_sent name f))
      in case query_kind q of
           Inl e \<Rightarrow> Resolve_threw e
         | Inr (Some ByGetForKey) \<Rightarrow> ask (obj_get q ''getForKey'')
         | Inr (Some ByGetOrCreate) \<Rightarrow> ask (obj_get q ''getOrCreateForKey'')
         | Inr (Some ByGetForId) \<Rightarrow>
             (case read_prop (obj_get q ''getForId'') ''actorId'' of Inl e \<Rightarrow> Resolve_threw e | Inr i \<Rightarrow> Resolved i)
         | Inr (Some ByCreate) \<Rightarrow> Resolve_threw (invariant_error ''actorQuery cannot be create'')
         | Inr None \<Rightarrow> Resolve_threw (EError ''Error'' ''Unreachable case''))"

definition for_id_query :: "jsval \<Rightarrow> jsval \<Rightarrow> jsval" where
  "for_id_query actorId name = JObj [(''getForId'', JObj [(''actorId'', actorId), (''name'', name)])]"

definition handle_resolve_finish :: "http_env \<Rightarrow> jsval \<Rightarrow> fetch_answer \<Rightarrow> actor_handle \<Rightarrow> (rejection + jsval) \<times> actor_handle" where
  "handle_resolve_finish he name res h =
     (case driver_resolved he (ah_encoding h) res of
        Inl r \<Rightarrow> (Inl r, h)
      | Inr i \<Rightarrow> (Inr i, h\<lparr>ah_query := for_id_query i name\<rparr>))"

section \<open>The client\<close>

text \<open>The connections are numbered.\<close>

record client =
  cl_disposed :: bool
  cl_conns :: "nat list"
  cl_encoding :: encoding
  cl_transport :: transport_kind

definition ClientRaw :: "encoding option \<Rightarrow> transport_kind option \<Rightarrow> client" where
  "ClientRaw enc transport =
     \<lparr>cl_disposed = False, cl_conns = [],
      cl_encoding = (case enc of None \<Rightarrow> Bare | Some e \<Rightarrow> e),
      cl_transport = (case transport of None \<Rightarrow> WsTransport | Some t \<Rightarrow> t)\<rparr>"

text \<open>\<open>typeof key === "string" ? [key] : key || []\<close> and \<open>opts?.k\<close>\<close>

definition key_array :: "jsval \<Rightarrow> jsval" where
  "key_array key = (case key of JStr s \<Rightarrow> JArr [key] | _ \<Rightarrow> js_or key (JArr []))"

definition opt_get :: "jsval \<Rightarrow> string \<Rightarrow> jsval" where
  "opt_get opts k = (if nullish opts then JUndef else obj_get opts k)"

definition createHandle :: "client \<Rightarrow> jsval \<Rightarrow> jsval \<Rightarrow> actor_handle" where
  "createHandle cl params q = \<lparr>ah_query = q, ah_params = params, ah_encoding = cl_encoding cl\<rparr>"

definition client_getForId :: "client \<Rightarrow> string \<Rightarrow> jsval \<Rightarrow> jsval \<Rightarrow> actor_handle" where
  "client_getForId cl name actorId opts =
     createHandle cl (opt_get opts ''params'')
       (JObj [(''getForId'', JObj [(''name'', JStr name), (''actorId'', actorId)])])"

definition client_get :: "client \<Rightarrow> string \<Rightarrow> jsval \<Rightarrow> jsval \<Rightarrow> actor_handle" where
  "client_get cl name key opts =
     createHandle cl (opt_get opts ''params'')
       (JObj [(''getForKey'', JObj [(''name'', JStr name), (''key'', key_array key)])])"

definition client_getOrCreate :: "client \<Rightarrow> string \<Rightarrow> jsval \<Rightarrow> jsval \<Rightarrow> actor_handle" where
  "client_getOrCreate cl name key opts =
     createHandle cl (opt_get opts ''params'')
       (JObj [(''getOrCreateForKey'', JObj [(''name'', JStr name), (''key'', key_array key),
          (''input'', opt_get opts ''createWithInput''), (''region'', opt_get opts ''createInRegion'')])])"

text \<open>\<open>{...opts, name, key}\<close>: all options become part of the query.\<close>

definition create_query :: "string \<Rightarrow> jsval \<Rightarrow> jsval \<Rightarrow> jsval" where
  "create_query name key opts =
     JObj [(''create'', JObj (jm_set ''key'' (key_array key) (jm_set ''name'' (JStr name)
        (case opts of JObj kvs \<Rightarrow> kvs | _ \<Rightarrow> []))))]"

definition client_create_start :: "http_env \<Rightarrow> client \<Rightarrow> string \<Rightarrow> jsval \<Rightarrow> jsval \<Rightarrow> js_err + fetch_request" where
  "client_create_start he cl name key opts =
     driver_resolveActorId he (create_query name key opts) (cl_encoding cl) (opt_get opts ''params'')"

definition client_create_finish :: "http_env \<Rightarrow> client \<Rightarrow> string \<Rightarrow> jsval \<Rightarrow> fetch_answer \<Rightarrow> rejection + actor_handle" where
  "client_create_finish he cl name opts res =
     (case driver_resolved he (cl_encoding cl) res of
        Inl r \<Rightarrow> Inl r
      | Inr i \<Rightarrow> Inr (createHandle cl (opt_get opts ''params'')
          (JObj [(''getForId'', JObj [(''name'', JStr name), (''actorId'', i)])])))"

text \<open>\<open>connect\<close> of a handle: the connection \<open>k\<close> is kept in the set and started.\<close>

definition createActorConnProxy :: "nat \<Rightarrow> client_conn \<Rightarrow> client \<Rightarrow> client_conn \<times> client" where
  "createActorConnProxy k c cl = (connectWithRetry c, cl\<lparr>cl_conns := js_add k (cl_conns cl)\<rparr>)"

text \<open>\<open>dispose\<close> of the client: the connections to be disposed of.\<close>

definition client_dispose_all :: "client \<Rightarrow> nat list \<times> client" where
  "client_dispose_all cl = (if cl_disposed cl then ([], cl) else (cl_conns cl, cl\<lparr>cl_disposed := True\<rparr>))"

section \<open>Proxies\<close>

text \<open>\<open>prop in target\<close> for a text: the methods of the class and what every object inherits.\<close>

definition inherited_properties :: "string list" where
  "inherited_properties = object_prototype_functions @ [''__proto__'']"

definition client_methods :: "string list" where
  "client_methods = [''getForId'', ''get'', ''getOrCreate'', ''create'', ''dispose'']"

definition handle_methods :: "string list" where
  "handle_methods = [''action'', ''connect'', ''fetch'', ''websocket'', ''resolve'']"

definition conn_methods :: "string list" where
  "conn_methods = [''action'', ''on'', ''once'', ''onError'', ''dispose'']"

datatype client_property = ClientOwn string | ActorAccessor string

definition client_proxy_get :: "string \<Rightarrow> client_property" where
  "client_proxy_get prop =
     (if prop \<in> set client_methods \<union> set inherited_properties then ClientOwn prop else ActorAccessor prop)"

text \<open>The accessor's \<open>create\<close> has \<open>{}\<close> for missing options.\<close>

definition accessor_create :: "http_env \<Rightarrow> client \<Rightarrow> string \<Rightarrow> jsval \<Rightarrow> jsval \<Rightarrow> js_err + fetch_request" where
  "accessor_create he cl prop key opts = client_create_start he cl prop key (if opts = JUndef then JObj [] else opts)"

text \<open>What a proxy of a handle or connection answers; the functions it makes are kept.\<close>

datatype proxy_value = TargetProperty string | NoProperty | ActionFunction string

definition actor_proxy_get :: "string list \<Rightarrow> string \<Rightarrow> string list \<Rightarrow> proxy_value \<times> string list" where
  "actor_proxy_get methods prop methodCache =
     (if prop = ''constructor'' \<or> prop \<in> set methods \<union> set inherited_properties then (TargetProperty prop, methodCache)
      else if prop = ''then'' then (NoProperty, methodCache)
      else (ActionFunction prop, js_add prop methodCache))"

definition actor_proxy_has :: "string \<Rightarrow> bool" where
  "actor_proxy_has prop = True"

text \<open>\<open>getOwnPropertyDescriptor\<close>: the objects have no properties of their own with a text for a name.\<close>

definition actor_proxy_descriptor :: "string \<Rightarrow> proxy_value" where
  "actor_proxy_descriptor prop = ActionFunction prop"

end
