(* ===== verification/InlineClient.thy ===== *)
theory InlineClient
  imports ClientHandles
begin

text \<open>
  \<open>inline-client-driver/mod.ts\<close>: the client driver inside the server.  It asks the manager driver for
  the actor and sends the request to it, without the manager's routes and without \<open>onAuth\<close>.

  A method is cut where the request leaves for the actor (\<open>sendRequest\<close> or \<open>openWebSocket\<close> of the
  manager driver, which are outside): before it, the answer is what goes out with the actor's id, or
  the error thrown; the state is the manager driver's.
\<close>

section \<open>The actor\<close>

text \<open>This file has a \<open>queryActor\<close> of its own.\<close>

definition inline_getForId :: "manager_env \<Rightarrow> 's manager_driver \<Rightarrow> jsval \<Rightarrow> 's \<Rightarrow> (js_err + actor_output) \<times> 's" where
  "inline_getForId me d g s =
     (case andThen (read_prop g ''name'') (\<lambda>n. andThen (read_prop g ''actorId'') (\<lambda>i. Inr (n, i))) of
        Inl e \<Rightarrow> (Inl e, s)
      | Inr (n, i) \<Rightarrow>
          apfst (\<lambda>res. andThen res (\<lambda>out. case out of
                   None \<Rightarrow> Inl (EActor (ActorNotFound (if truthy i then Some (me_text me i) else None)))
                 | Some a \<Rightarrow> Inr a)) (md_getForId d n i s))"

definition inline_getWithKey :: "manager_env \<Rightarrow> 's manager_driver \<Rightarrow> jsval \<Rightarrow> 's \<Rightarrow> (js_err + actor_output) \<times> 's" where
  "inline_getWithKey me d g s =
     (case read_prop g ''name'' of
        Inl e \<Rightarrow> (Inl e, s)
      | Inr n \<Rightarrow>
          apfst (\<lambda>res. andThen res (\<lambda>out. case out of
                   None \<Rightarrow> andThen (me_json me (obj_get g ''key'')) (\<lambda>k.
                     Inl (EActor (ActorNotFound (Some (me_text me n @ '':'' @ k)))))
                 | Some a \<Rightarrow> Inr a)) (md_getWithKey d n (obj_get g ''key'') s))"

definition inline_make ::
    "(jsval \<Rightarrow> jsval \<Rightarrow> jsval \<Rightarrow> jsval \<Rightarrow> 's \<Rightarrow> (js_err + actor_output) \<times> 's) \<Rightarrow> jsval \<Rightarrow> 's \<Rightarrow> (js_err + actor_output) \<times> 's" where
  "inline_make f g s =
     (case read_prop g ''name'' of
        Inl e \<Rightarrow> (Inl e, s)
      | Inr n \<Rightarrow> f n (obj_get g ''key'') (obj_get g ''input'') (obj_get g ''region'') s)"

definition inline_queryActor :: "manager_env \<Rightarrow> 's manager_driver \<Rightarrow> jsval \<Rightarrow> 's \<Rightarrow> (js_err + jsval) \<times> 's" where
  "inline_queryActor me d q s =
     (case query_kind q of
        Inl e \<Rightarrow> (Inl e, s)
      | Inr None \<Rightarrow> (Inl (EActor (InvalidRequest ''Invalid query format'')), s)
      | Inr (Some k) \<Rightarrow>
          apfst (\<lambda>res. andThen res (\<lambda>a. Inr (ao_actorId a)))
            (case k of
               ByGetForId \<Rightarrow> inline_getForId me d (obj_get q ''getForId'') s
             | ByGetForKey \<Rightarrow> inline_getWithKey me d (obj_get q ''getForKey'') s
             | ByGetOrCreate \<Rightarrow> inline_make (md_getOrCreateWithKey d) (obj_get q ''getOrCreateForKey'') s
             | ByCreate \<Rightarrow> inline_make (md_createActor d) (obj_get q ''create'') s))"

text \<open>The query, then \<open>invariant(actorId, ...)\<close>.\<close>

definition inline_actor :: "manager_env \<Rightarrow> 's manager_driver \<Rightarrow> string \<Rightarrow> jsval \<Rightarrow> 's \<Rightarrow> (js_err + jsval) \<times> 's" where
  "inline_actor me d missing q s =
     apfst (\<lambda>res. andThen res (\<lambda>i. if truthy i then Inr i else Inl (invariant_error missing))) (inline_queryActor me d q s)"

section \<open>The driver\<close>

text \<open>\<open>action\<close> and \<open>rawHttpRequest\<close> throw only \<open>ActorError\<close>s of the client, made from any error with its
  code and message exposed.  An \<open>ActorError\<close> of the client is taken apart the same way and comes back
  as it was.\<close>

definition standardize :: "manager_env \<Rightarrow> rejection \<Rightarrow> rejection" where
  "standardize me r =
     (case r of
        RejActor c m d \<Rightarrow> RejActor c m d
      | RejError e \<Rightarrow>
          (case deconstructError (me_text me) e True of
             Inl t \<Rightarrow> RejError t
           | Inr dd \<Rightarrow> RejActor (JStr (de_code dd)) (JStr (de_message dd)) (de_metadata dd)))"

definition param_header :: "http_env \<Rightarrow> jsval \<Rightarrow> js_err + (string \<times> string) list" where
  "param_header he params =
     (if params \<noteq> JUndef then andThen (json_text (he_codec he) params) (\<lambda>p. Inr [(HEADER_CONN_PARAMS, p)]) else Inr [])"

definition expose :: "string \<times> string" where
  "expose = (HEADER_EXPOSE_INTERNAL_ERROR, ''true'')"

definition inline_action ::
    "manager_env \<Rightarrow> http_env \<Rightarrow> 's manager_driver \<Rightarrow> jsval \<Rightarrow> encoding \<Rightarrow> jsval \<Rightarrow> string \<Rightarrow> jsval list \<Rightarrow> 's
      \<Rightarrow> (rejection + (jsval \<times> fetch_request)) \<times> 's" where
  "inline_action me he d q enc params actionName args s =
     (case inline_actor me d ''Missing actor ID'' q s of
        (Inl e, s1) \<Rightarrow> (Inl (standardize me (RejError e)), s1)
      | (Inr actorId, s1) \<Rightarrow>
          (case andThen (param_header he params) (\<lambda>p.
                andThen (cd_cbor_encode (he_codec he) (JArr args)) (\<lambda>b.
                  sendHttpRequest he (''http://actor/action/'' @ encodeURIComponent actionName) ''POST''
                    ([(HEADER_ENCODING, encoding_name enc)] @ p @ [expose])
                    (JObj [(''args'', JBuffer b)]) enc (he_actionRequest he))) of
             Inl e \<Rightarrow> (Inl (standardize me (RejError e)), s1)
           | Inr f \<Rightarrow> (Inr (actorId, f), s1)))"

definition inline_action_result :: "manager_env \<Rightarrow> http_env \<Rightarrow> encoding \<Rightarrow> fetch_answer \<Rightarrow> rejection + jsval" where
  "inline_action_result me he enc res =
     (case driver_action_result he enc res of Inl r \<Rightarrow> Inl (standardize me r) | Inr v \<Rightarrow> Inr v)"

definition inline_resolveActorId :: "manager_env \<Rightarrow> 's manager_driver \<Rightarrow> jsval \<Rightarrow> 's \<Rightarrow> (js_err + jsval) \<times> 's" where
  "inline_resolveActorId me d q s = inline_actor me d ''missing actor ID'' q s"

text \<open>What \<open>openWebSocket\<close> is called with: path, actor, encoding, parameters.\<close>

definition inline_connectWebSocket ::
    "manager_env \<Rightarrow> 's manager_driver \<Rightarrow> jsval \<Rightarrow> encoding \<Rightarrow> jsval \<Rightarrow> 's \<Rightarrow> (js_err + (string \<times> jsval \<times> encoding \<times> jsval)) \<times> 's" where
  "inline_connectWebSocket me d q enc params s =
     apfst (\<lambda>res. andThen res (\<lambda>i. Inr (''/connect/websocket'', i, enc, params))) (inline_actor me d ''Missing actor ID'' q s)"

text \<open>The stream's requests go to the global \<open>fetch\<close>, which knows neither the manager driver nor the
  actor's id.\<close>

definition inline_connectSse ::
    "manager_env \<Rightarrow> http_env \<Rightarrow> 's manager_driver \<Rightarrow> jsval \<Rightarrow> encoding \<Rightarrow> jsval \<Rightarrow> (string \<times> string) list \<Rightarrow> 's
      \<Rightarrow> (js_err + fetch_request) \<times> 's" where
  "inline_connectSse me he d q enc params init s =
     apfst (\<lambda>res. andThen res (\<lambda>i. andThen (param_header he params) (\<lambda>p.
         Inr \<lparr>fr_url = ''http://actor/connect/sse'', fr_method = ''GET'',
              fr_headers = header_list (init @ [(''User-Agent'', he_userAgent he), (HEADER_ENCODING, encoding_name enc)] @ p @ [expose]),
              fr_body = None\<rparr>)))
       (inline_actor me d ''Missing actor ID'' q s)"

definition inline_sendHttpMessage ::
    "http_env \<Rightarrow> string \<Rightarrow> encoding \<Rightarrow> string \<Rightarrow> string \<Rightarrow> jsval \<Rightarrow> js_err + (string \<times> fetch_request)" where
  "inline_sendHttpMessage he actorId enc connectionId connectionToken message =
     andThen (sendHttpRequest he ''http://actor/connections/message'' ''POST''
         [(HEADER_ENCODING, encoding_name enc), (HEADER_CONN_ID, connectionId), (HEADER_CONN_TOKEN, connectionToken), expose]
         message enc (he_toServer he)) (\<lambda>f. Inr (actorId, f))"

definition inline_message_sent :: "http_env \<Rightarrow> encoding \<Rightarrow> fetch_answer \<Rightarrow> rejection option" where
  "inline_message_sent he enc res =
     (case http_response he enc True (he_toServer he) res of Inl r \<Rightarrow> Some r | Inr v \<Rightarrow> None)"

text \<open>Here falsy parameters are left out.\<close>

definition inline_rawHttpRequest ::
    "manager_env \<Rightarrow> http_env \<Rightarrow> 's manager_driver \<Rightarrow> jsval \<Rightarrow> jsval \<Rightarrow> string \<Rightarrow> request_init \<Rightarrow> 's
      \<Rightarrow> (rejection + (jsval \<times> fetch_request)) \<times> 's" where
  "inline_rawHttpRequest me he d q params path init s =
     (case inline_actor me d ''Missing actor ID'' q s of
        (Inl e, s1) \<Rightarrow> (Inl (standardize me (RejError e)), s1)
      | (Inr actorId, s1) \<Rightarrow>
          (case (if truthy params then andThen (json_text (he_codec he) params) (\<lambda>p. Inr [(HEADER_CONN_PARAMS, p)]) else Inr []) of
             Inl e \<Rightarrow> (Inl (standardize me (RejError e)), s1)
           | Inr p \<Rightarrow>
               (Inr (actorId, \<lparr>fr_url = ''http://actor/raw/http/'' @ no_leading_slash path,
                  fr_method = (case ri_method init of None \<Rightarrow> ''GET'' | Some m \<Rightarrow> m),
                  fr_headers = header_list ((case ri_headers init of None \<Rightarrow> [] | Some h \<Rightarrow> h) @ p),
                  fr_body = ri_body init\<rparr>), s1)))"

definition inline_rawWebSocket ::
    "manager_env \<Rightarrow> 's manager_driver \<Rightarrow> jsval \<Rightarrow> encoding \<Rightarrow> jsval \<Rightarrow> string \<Rightarrow> 's \<Rightarrow> (js_err + (string \<times> jsval \<times> encoding \<times> jsval)) \<times> 's" where
  "inline_rawWebSocket me d q enc params path s =
     apfst (\<lambda>res. andThen res (\<lambda>i. Inr (''/raw/websocket/'' @ no_leading_slash path, i, enc, params)))
       (inline_actor me d ''Missing actor ID'' q s)"

end
