(* ===== verification/HandleProps.thy ===== *)
theory HandleProps
  imports InlineClient ManagerProps ClientProps
begin

text \<open>
  The client meets the manager: what a handle sends arrives as the query and the parameters it was
  made with, over HTTP and in the sub-protocols of a WebSocket; an error of the server comes back
  as it was; the client inside the server reaches the actors the routes reach.
\<close>

section \<open>The list of sub-protocols\<close>

lemma prefix_char: "i < length s \<Longrightarrow> prefix [c] (drop i s) \<longleftrightarrow> s ! i = c"
  by (auto simp: Cons_nth_drop_Suc [symmetric])

lemma find_index_append:
  "find_index p (xs @ x # ys) = Some (length xs)" if "\<forall>y \<in> set xs. \<not> p y" and "p x"
  using that by (induction xs) auto

lemma find_index_upt:
  assumes "\<And>i. i < n \<Longrightarrow> \<not> p i" and "n < m" and "p n"
  shows "find_index p [0 ..< m] = Some n"
proof -
  have "[0 ..< m] = [0 ..< n] @ n # [Suc n ..< m]"
    using assms(2) upt_add_eq_append [of 0 n "m - n"] by (simp add: upt_conv_Cons)
  then show ?thesis using find_index_append [of "[0 ..< n]" p n] assms by simp
qed

lemma js_split_done: "c \<notin> set a \<Longrightarrow> js_split [c] a = [a]"
proof -
  assume c: "c \<notin> set a"
  have "find_index (\<lambda>i. prefix [c] (drop i a)) [0 ..< length a] = None"
    using c by (auto simp: find_index_None prefix_char)
  then show ?thesis by (simp add: js_split.simps [of "[c]" a])
qed

lemma js_split_cons: "c \<notin> set a \<Longrightarrow> js_split [c] (a @ c # b) = a # js_split [c] b"
proof -
  assume c: "c \<notin> set a"
  have n: "\<not> prefix [c] (drop i (a @ c # b))" if "i < length a" for i
    using that c prefix_char [of i "a @ c # b" c] by (auto simp: nth_append)
  have "find_index (\<lambda>i. prefix [c] (drop i (a @ c # b))) [0 ..< length (a @ c # b)] = Some (length a)"
    by (rule find_index_upt [OF n]) (simp_all add: prefix_def)
  then show ?thesis by (simp add: js_split.simps [of "[c]" "a @ c # b"])
qed

text \<open>A client sends its list with commas, some with a space after each.\<close>

fun protocol_header :: "string \<Rightarrow> string list \<Rightarrow> string" where
  "protocol_header sep [] = []"
| "protocol_header sep [p] = p"
| "protocol_header sep (p # q # ps) = p @ sep @ protocol_header sep (q # ps)"

definition token_text :: "string \<Rightarrow> bool" where
  "token_text p \<longleftrightarrow> p \<noteq> [] \<and> (\<forall>c \<in> set p. c \<noteq> CHR '','' \<and> \<not> js_space c)"

lemma js_trim_token: "token_text p \<Longrightarrow> js_trim p = p"
proof -
  assume p: "token_text p"
  then have "p \<noteq> []" "\<not> js_space (hd p)" "\<not> js_space (last p)" by (simp_all add: token_text_def)
  then have "dropWhile js_space p = p" "dropWhile js_space (rev p) = rev p"
    by (simp_all add: dropWhile_eq_self_iff hd_rev)
  then show ?thesis by (simp add: js_trim_def)
qed

lemma js_trim_space: "js_trim (CHR '' '' # p) = js_trim p"
  by (simp add: js_trim_def js_space_def)

lemma js_split_space: "map js_trim (js_split '','' (CHR '' '' # r)) = map js_trim (js_split '','' r)"
proof (cases "CHR '','' \<in> set r")
  case True
  then obtain a b where r: "r = a @ CHR '','' # b" "CHR '','' \<notin> set a" by (metis split_list_first)
  then have "js_split '','' (CHR '' '' # r) = (CHR '' '' # a) # js_split '','' b"
    using js_split_cons [of "CHR '',''" "CHR '' '' # a" b] by simp
  then show ?thesis using r js_split_cons [of "CHR '',''" a b] by (simp add: js_trim_space)
next
  case False
  then show ?thesis
    using js_split_done [of "CHR '',''" r] js_split_done [of "CHR '',''" "CHR '' '' # r"] by (simp add: js_trim_space)
qed

lemma split_protocols:
  assumes "\<forall>p \<in> set ps. token_text p" and "ps \<noteq> []" and "sep \<in> {'','', '', ''}"
  shows "map js_trim (js_split '','' (protocol_header sep ps)) = ps"
  using assms
proof (induction sep ps rule: protocol_header.induct)
  case (2 sep p)
  then have "CHR '','' \<notin> set p" by (auto simp: token_text_def)
  then show ?case using 2 by (simp add: js_split_done js_trim_token)
next
  case (3 sep p q ps)
  then have p: "CHR '','' \<notin> set p" "js_trim p = p" by (auto simp: token_text_def js_trim_token)
  have IH: "map js_trim (js_split '','' (protocol_header sep (q # ps))) = q # ps" using 3 by simp
  show ?case
    using "3.prems"(3) p IH js_split_cons [OF p(1), of "protocol_header sep (q # ps)"]
      js_split_cons [OF p(1), of "CHR '' '' # protocol_header sep (q # ps)"]
    by (auto simp: js_split_space)
qed simp

text \<open>The characters of an encoded text.\<close>

lemma unreserved_token: "uri_unreserved c \<Longrightarrow> c \<noteq> CHR '','' \<and> \<not> js_space c"
proof -
  have "list_all (\<lambda>c. c \<noteq> CHR '','' \<and> \<not> js_space c)
      (CHR 0x27 # ''ABCDEFGHIJKLMNOPQRSTUVWXYZabcdefghijklmnopqrstuvwxyz0123456789-_.!~*()'')"
    by code_simp
  then show "uri_unreserved c \<Longrightarrow> ?thesis" unfolding uri_unreserved_def list_all_iff by simp blast
qed

lemma hex_digit_unreserved: "uri_unreserved (hex_digit n)"
proof -
  have "hex_digit n \<in> set ''0123456789ABCDEF''" unfolding hex_digit_def by (rule nth_mem) simp
  then show ?thesis by (auto simp: uri_unreserved_def)
qed

lemma percent_token: "c \<in> set (percent b) \<Longrightarrow> c \<noteq> CHR '','' \<and> \<not> js_space c"
  using unreserved_token [OF hex_digit_unreserved]
  by (auto simp: percent_def) (auto simp: js_space_def)

lemma encodeURIComponent_token: "c \<in> set (encodeURIComponent s) \<Longrightarrow> c \<noteq> CHR '','' \<and> \<not> js_space c"
proof -
  have "c \<noteq> CHR '','' \<and> \<not> js_space c" if "c \<in> set (encode_uri_char x)" for x
  proof (cases "uri_unreserved x")
    case True
    then show ?thesis using that unreserved_token [of x] by (simp add: encode_uri_char_def)
  next
    case False
    then show ?thesis using that by (auto simp: encode_uri_char_def Let_def simp del: of_char_of split: if_splits dest: percent_token)
  qed
  then show "c \<in> set (encodeURIComponent s) \<Longrightarrow> ?thesis" by (auto simp: encodeURIComponent_def)
qed

section \<open>Queries and parameters as JSON\<close>

text \<open>What a value is after \<open>JSON.stringify\<close> and \<open>JSON.parse\<close>, and that these two texts of the client and
  the manager belong together: \<open>JSON.parse\<close> reads what \<open>JSON.stringify\<close> wrote, which is never empty.\<close>

definition wire :: "codec \<Rightarrow> jsval \<Rightarrow> jsval" where
  "wire cd v = (case json_view (cd_iso cd) v of None \<Rightarrow> JUndef | Some j \<Rightarrow> of_json j)"

definition json_carries :: "codec \<Rightarrow> codec \<Rightarrow> jsval \<Rightarrow> bool" where
  "json_carries cd cd' v \<longleftrightarrow> v = JUndef \<or>
     (\<exists>j. json_view (cd_iso cd) v = Some j \<and> cd_json_text cd j \<noteq> [] \<and> cd_json_parse cd' (cd_json_text cd j) = Inr j)"

lemma view_undef [simp]: "json_view dt JUndef = None" and view_str [simp]: "json_view dt (JStr s) = Some (JsStr s)"
  by (simp_all add: json_view.simps)

lemma view_strings [simp]: "json_view dt (JArr (map JStr ks)) = Some (JsArr (map JsStr ks))"
proof -
  have "map (\<lambda>(i, x). case json_view dt x of None \<Rightarrow> JsNull | Some j \<Rightarrow> j) (enumerate n (map JStr ks)) = map JsStr ks" for n
    by (induction ks arbitrary: n) simp_all
  then show ?thesis by (simp add: json_view.simps [of dt "JArr _"])
qed

lemma of_json_strings [simp]: "of_json (JsArr (map JsStr ks)) = JArr (map JStr ks)"
  by (simp add: comp_def)

lemma carried_text:
  assumes "json_carries cd cd' v" and "v \<noteq> JUndef" and "json_text cd v = Inr t"
  shows "t \<noteq> [] \<and> andThen (cd_json_parse cd' t) (\<lambda>j. Inr (of_json j)) = Inr (wire cd v)"
  using assms by (auto simp: json_carries_def json_text_def JSON_stringify_def undefined_text_def wire_def split: if_splits)

text \<open>Which actor a query is about: its kind, the name, the key or id, and the region.\<close>

definition query_target :: "jsval \<Rightarrow> (string \<times> jsval \<times> jsval \<times> jsval) option" where
  "query_target q =
     (case q of
        JObj [(k, g)] \<Rightarrow> Some (k, obj_get g ''name'', obj_get g (if k = ''getForId'' then ''actorId'' else ''key''), obj_get g ''region'')
      | _ \<Rightarrow> None)"

lemma view_opt:
  "concat (map (\<lambda>(k, x). case json_view dt x of None \<Rightarrow> [] | Some j \<Rightarrow> [(k, j)]) (opt_prop k v))
    = (case Option.bind v (json_view dt) of None \<Rightarrow> [] | Some j \<Rightarrow> [(k, j)])"
  by (cases v) (simp_all add: opt_prop_def split: option.split)

lemma of_json_opt:
  "map (\<lambda>(k, x). (k, of_json x)) (case v of None \<Rightarrow> [] | Some j \<Rightarrow> [(k, j)]) = opt_prop k (map_option of_json v)"
  by (cases v) (simp_all add: opt_prop_def)

lemma opt_prop_get:
  "map_of (opt_prop k v) k' = (if k' = k then v else None)"
  by (simp add: opt_prop_def split: option.split)

lemma target_creating:
  "query_target (JObj [(k, JObj ([(''name'', n), (''key'', ks)] @ opt_prop ''input'' i @ opt_prop ''region'' r))])
    = (if k = ''getForId'' then Some (k, n, JUndef, case r of None \<Rightarrow> JUndef | Some x \<Rightarrow> x)
       else Some (k, n, ks, case r of None \<Rightarrow> JUndef | Some x \<Rightarrow> x))"
  by (simp add: query_target_def map_add_def opt_prop_get split: option.split)

lemma wire_actor_query:
  assumes "actor_query q"
  shows "actor_query (wire cd q) \<and> query_target (wire cd q) = query_target q \<and> query_kind (wire cd q) = query_kind q"
  using assms
proof cases
  case (by_id n i)
  then show ?thesis by (simp add: wire_def json_view_obj actor_query.by_id)
next
  case (by_key key n)
  then show ?thesis by (simp add: wire_def json_view_obj actor_query.by_key query_target_def comp_def)
next
  case (creating key k region n input)
  let ?i = "map_option of_json (Option.bind input (json_view (cd_iso cd)))"
  let ?r = "map_option of_json (Option.bind region (json_view (cd_iso cd)))"
  let ?kvs = "[(''name'', JStr n), (''key'', JArr (map JStr key))] @ opt_prop ''input'' input @ opt_prop ''region'' region"
  have "wire cd (JObj ?kvs) = JObj ([(''name'', JStr n), (''key'', JArr (map JStr key))] @ opt_prop ''input'' ?i @ opt_prop ''region'' ?r)"
    by (simp add: wire_def json_view_obj view_opt of_json_opt comp_def)
  then have w: "wire cd q = JObj [(k, JObj ([(''name'', JStr n), (''key'', JArr (map JStr key))] @ opt_prop ''input'' ?i @ opt_prop ''region'' ?r))]"
    unfolding creating(1) by (simp add: wire_def json_view_obj)
  have r: "?r \<in> {None, Some JUndef} \<union> range (Some \<circ> JStr)"
    and rv: "(case ?r of None \<Rightarrow> JUndef | Some x \<Rightarrow> x) = (case region of None \<Rightarrow> JUndef | Some x \<Rightarrow> x)"
    using creating(4) by auto
  have "k \<noteq> ''getForId''" using creating(3) by auto
  then have t: "query_target q = query_target (wire cd q)"
    unfolding w unfolding creating(1) target_creating rv by simp
  have kd: "query_kind q = query_kind (wire cd q)"
    unfolding w unfolding creating(1) by (simp add: query_kind_def js_in_def)
  show ?thesis using t kd actor_query.creating [OF creating(2,3) r] w by simp
qed

lemma actor_query_valid:
  assumes "actor_query q" shows "ActorQuerySchema q = Some q"
  using assms
proof cases
  case (by_id n i)
  then show ?thesis by (simp add: ActorQuerySchema_def GetForIdSchema_def)
next
  case (by_key key n)
  then show ?thesis
    by (simp add: ActorQuerySchema_def GetForIdSchema_def is_object_def GetForKeyRequestSchema_again)
next
  case (creating key k region n input)
  have "GetForIdSchema JUndef = None" "GetForKeyRequestSchema JUndef = None" "CreateRequestSchema JUndef = None"
    by (simp_all add: GetForIdSchema_def GetForKeyRequestSchema_def CreateRequestSchema_def is_object_def)
  then show ?thesis
    using creating(3) CreateRequestSchema_again [OF creating(2,4) refl] by (auto simp: creating(1) ActorQuerySchema_def)
qed

section \<open>What the client asks for\<close>

text \<open>A key is nothing, a text or an array of texts.\<close>

definition key_of :: "jsval \<Rightarrow> string list option" where
  "key_of key =
     (case key of
        JUndef \<Rightarrow> Some []
      | JStr s \<Rightarrow> Some [s]
      | JArr xs \<Rightarrow> texts_of key
      | _ \<Rightarrow> None)"

lemma those_texts: "those (map text_of xs) = Some ks \<Longrightarrow> xs = map JStr ks"
proof (induction xs arbitrary: ks)
  case (Cons x xs)
  then show ?case by (cases x) (auto simp: text_of_def)
qed simp

lemma key_array_of: "key_of key = Some ks \<Longrightarrow> key_array key = JArr (map JStr ks)"
  by (cases key) (auto simp: key_of_def key_array_def texts_of_def dest: those_texts)

lemma client_queries:
  assumes "key_of key = Some ks" and "list_all (\<lambda>p. length p \<le> MAX_ACTOR_KEY_SIZE) ks"
  shows "actor_query (ah_query (client_get cl n key opts))"
    and "opt_get opts ''createInRegion'' \<in> {JUndef} \<union> range JStr \<Longrightarrow> actor_query (ah_query (client_getOrCreate cl n key opts))"
    and "actor_query (ah_query (client_getForId cl n (JStr i) opts))"
proof -
  show "actor_query (ah_query (client_get cl n key opts))"
    using assms by (simp add: client_get_def createHandle_def key_array_of actor_query.by_key)
  show "actor_query (ah_query (client_getForId cl n (JStr i) opts))"
    by (simp add: client_getForId_def createHandle_def actor_query.by_id)
  assume r: "opt_get opts ''createInRegion'' \<in> {JUndef} \<union> range JStr"
  show "actor_query (ah_query (client_getOrCreate cl n key opts))"
    using actor_query.creating [OF assms(2), of "''getOrCreateForKey''" "Some (opt_get opts ''createInRegion'')" n
        "Some (opt_get opts ''createWithInput'')"] r assms(1)
    by (auto simp: client_getOrCreate_def createHandle_def key_array_of opt_prop_def)
qed

section \<open>Requests over HTTP\<close>

lemma lower_neq [simp]:
  "lower HEADER_ACTOR_QUERY \<noteq> lower HEADER_ENCODING" "lower HEADER_ACTOR_QUERY \<noteq> lower HEADER_CONN_PARAMS"
  "lower HEADER_ENCODING \<noteq> lower HEADER_CONN_PARAMS"
  "lower ''User-Agent'' \<notin> {lower HEADER_ACTOR_QUERY, lower HEADER_ENCODING, lower HEADER_CONN_PARAMS}"
  "lower ''Content-Type'' \<notin> {lower HEADER_ACTOR_QUERY, lower HEADER_ENCODING, lower HEADER_CONN_PARAMS}"
  by (simp_all add: lower_def HEADER_ACTOR_QUERY_def HEADER_ENCODING_def HEADER_CONN_PARAMS_def)

lemmas lower_neq' [simp] = lower_neq(1-3) [symmetric] header_names [symmetric]

lemma other_headers [simp]:
  "lower HEADER_ENCODING \<noteq> lower ''User-Agent''" "lower HEADER_CONN_PARAMS \<noteq> lower ''User-Agent''"
  "lower HEADER_ENCODING \<noteq> lower ''Content-Type''" "lower HEADER_CONN_PARAMS \<noteq> lower ''Content-Type''"
  "lower HEADER_ENCODING \<noteq> lower HEADER_EXPOSE_INTERNAL_ERROR" "lower HEADER_CONN_PARAMS \<noteq> lower HEADER_EXPOSE_INTERNAL_ERROR"
  by (simp_all add: lower_def HEADER_ENCODING_def HEADER_CONN_PARAMS_def HEADER_EXPOSE_INTERNAL_ERROR_def)

lemma get_header_fold:
  "lower m \<notin> (lower \<circ> fst) ` set hs \<Longrightarrow> get_header (fold (\<lambda>(n, v). set_header n v) hs h) m = get_header h m"
  by (induction hs arbitrary: h) auto

lemma get_header_list:
  "lower m \<notin> (lower \<circ> fst) ` set hs \<Longrightarrow> get_header (header_list hs) m = None"
  by (simp add: header_list_def get_header_fold)

text \<open>The headers of a request as the manager reads them; other headers around them do not matter.\<close>

lemma target_headers_read:
  assumes q: "actor_query q" "json_carries (he_codec he) (me_codec me) q"
    and p: "json_carries (he_codec he) (me_codec me) params"
    and hs: "target_headers he q enc params = Inr hs"
    and c: "rq_headers c = header_list (pre @ hs @ post)"
    and pre: "lower HEADER_CONN_PARAMS \<notin> (lower \<circ> fst) ` set pre"
    and post: "set post \<subseteq> {''Content-Type'', ''User-Agent''} \<times> UNIV"
  shows "getRequestQuery me c = Inr (wire (he_codec he) q)
    \<and> get_header (rq_headers c) HEADER_ENCODING = Some (encoding_name enc)
    \<and> (if params = JUndef then given_header c HEADER_CONN_PARAMS = None
       else \<exists>x xs. given_header c HEADER_CONN_PARAMS = Some (x # xs) \<and> json_text (he_codec he) params = Inr (x # xs)
          \<and> json_parse me (x # xs) = Inr (wire (he_codec he) params))"
proof -
  obtain t where t: "json_text (he_codec he) q = Inr t"
    using hs by (cases "json_text (he_codec he) q") (auto simp: target_headers_def)
  have "q \<noteq> JUndef" using q(1) by cases auto
  then have tq: "t \<noteq> []" "json_parse me t = Inr (wire (he_codec he) q)"
    using carried_text [OF q(2) _ t] by (simp_all add: json_parse_def)
  have post': "lower m \<notin> (lower \<circ> fst) ` set post" if "lower m \<in> {lower HEADER_ACTOR_QUERY, lower HEADER_ENCODING, lower HEADER_CONN_PARAMS}" for m
    using post that lower_neq(4,5) by force
  have g: "get_header (rq_headers c) m = get_header (fold (\<lambda>(n, v). set_header n v) hs (header_list pre)) m"
    if "m \<in> {HEADER_ACTOR_QUERY, HEADER_ENCODING, HEADER_CONN_PARAMS}" for m
  proof -
    have "get_header (rq_headers c) m
        = get_header (fold (\<lambda>(n, v). set_header n v) post (fold (\<lambda>(n, v). set_header n v) hs (header_list pre))) m"
      by (simp add: c header_list_def)
    also have "\<dots> = get_header (fold (\<lambda>(n, v). set_header n v) hs (header_list pre)) m"
      by (rule get_header_fold [OF post']) (use that in auto)
    finally show ?thesis .
  qed
  show ?thesis
  proof (cases "params = JUndef")
    case True
    then have "hs = [(HEADER_ENCODING, encoding_name enc), (HEADER_ACTOR_QUERY, t)]"
      using hs t by (simp add: target_headers_def)
    then show ?thesis
      using True tq get_header_list [OF pre] by (auto simp: g getRequestQuery_def given_header_def neq_Nil_conv)
  next
    case False
    then obtain u where u: "json_text (he_codec he) params = Inr u"
      using hs t by (cases "json_text (he_codec he) params") (auto simp: target_headers_def)
    then have "hs = [(HEADER_ENCODING, encoding_name enc), (HEADER_ACTOR_QUERY, t), (HEADER_CONN_PARAMS, u)]"
      using hs t False by (simp add: target_headers_def)
    then show ?thesis
      using False tq carried_text [OF p False u] u
      by (auto simp: g getRequestQuery_def given_header_def json_parse_def neq_Nil_conv)
  qed
qed

text \<open>The three requests of the driver that name an actor by a query.\<close>

definition http_target ::
    "http_env \<Rightarrow> jsval \<Rightarrow> encoding \<Rightarrow> jsval \<Rightarrow> fetch_request \<Rightarrow> bool" where
  "http_target he q enc params f \<longleftrightarrow>
     (\<exists>name args. driver_action he q enc params name args = Inr f)
   \<or> driver_resolveActorId he q enc params = Inr f
   \<or> (\<exists>init. lower HEADER_CONN_PARAMS \<notin> (lower \<circ> fst) ` set init \<and> driver_connectSse he q enc params init = Inr f)"

lemma http_target_headers:
  assumes "http_target he q enc params f"
  obtains pre hs post where "target_headers he q enc params = Inr hs" "fr_headers f = header_list (pre @ hs @ post)"
    "lower HEADER_CONN_PARAMS \<notin> (lower \<circ> fst) ` set pre" "set post \<subseteq> {''Content-Type'', ''User-Agent''} \<times> UNIV"
proof -
  let ?post = "[(''Content-Type'', contentTypeForEncoding enc), (''User-Agent'', he_userAgent he)]"
  consider (a) name args where "driver_action he q enc params name args = Inr f"
    | (r) "driver_resolveActorId he q enc params = Inr f"
    | (s) init where "lower HEADER_CONN_PARAMS \<notin> (lower \<circ> fst) ` set init" "driver_connectSse he q enc params init = Inr f"
    using assms by (auto simp: http_target_def)
  then show ?thesis
  proof cases
    case a
    then obtain hs where "target_headers he q enc params = Inr hs" "fr_headers f = header_list ([] @ hs @ ?post)"
      by (auto simp: driver_action_def sendHttpRequest_def andThen_Inr)
    then show ?thesis by (rule that) auto
  next
    case r
    then obtain hs where "target_headers he q enc params = Inr hs" "fr_headers f = header_list ([] @ hs @ ?post)"
      by (auto simp: driver_resolveActorId_def sendHttpRequest_def andThen_Inr split: sum.splits)
    then show ?thesis by (rule that) auto
  next
    case s
    then obtain hs where "target_headers he q enc params = Inr hs"
      "fr_headers f = header_list ((init @ [(''User-Agent'', he_userAgent he)]) @ hs @ [])"
      by (auto simp: driver_connectSse_def andThen_Inr)
    then show ?thesis by (rule that) (use s(1) in \<open>auto simp: lower_def HEADER_CONN_PARAMS_def\<close>)
  qed
qed

lemma encoding_name_read [simp]: "EncodingSchema (encoding_name e) = Some e"
  by (cases e) (simp_all add: EncodingSchema_def encoding_name_def)

lemma http_request_read:
  assumes "http_target he (ah_query h) (ah_encoding h) (ah_params h) f" and "rq_headers c = fr_headers f"
    and "actor_query (ah_query h)"
    and "json_carries (he_codec he) (me_codec me) (ah_query h)"
    and "json_carries (he_codec he) (me_codec me) (ah_params h)"
  shows "\<exists>p. connect_request me c = Inr (wire (he_codec he) (ah_query h), ah_encoding h, p)
    \<and> auth_params me p = Inr (wire (he_codec he) (ah_params h))
    \<and> (case p of None \<Rightarrow> ah_params h = JUndef | Some t \<Rightarrow> ah_params h \<noteq> JUndef \<and> json_text (he_codec he) (ah_params h) = Inr t)"
proof -
  obtain pre hs post where h: "target_headers he (ah_query h) (ah_encoding h) (ah_params h) = Inr hs"
      "rq_headers c = header_list (pre @ hs @ post)"
      "lower HEADER_CONN_PARAMS \<notin> (lower \<circ> fst) ` set pre" "set post \<subseteq> {''Content-Type'', ''User-Agent''} \<times> UNIV"
    using http_target_headers [OF assms(1)] assms(2) by metis
  note read = target_headers_read [OF assms(3,4,5) h]
  let ?q = "wire (he_codec he) (ah_query h)" and ?p = "given_header c HEADER_CONN_PARAMS"
  have "ActorQuerySchema ?q = Some ?q"
    using wire_actor_query [OF assms(3), of "he_codec he"] by (simp add: actor_query_valid)
  then have "connect_request me c = Inr (?q, ah_encoding h, ?p)" using read by (simp add: connect_request_def)
  moreover have "auth_params me ?p = Inr (wire (he_codec he) (ah_params h))
      \<and> (case ?p of None \<Rightarrow> ah_params h = JUndef | Some t \<Rightarrow> ah_params h \<noteq> JUndef \<and> json_text (he_codec he) (ah_params h) = Inr t)"
    using read by (auto simp: auth_params_def wire_def split: if_splits)
  ultimately show ?thesis by blast
qed

text \<open>
  C19.  What the HTTP client sends arrives: for an action, a lookup or an SSE connection through a handle,
  the manager reads the encoding of the handle and a valid query for the same kind of lookup, name,
  key or id and region, and the parameters are those of the handle as JSON carries them.
\<close>

theorem http_request_arrives:
  assumes "http_target he (ah_query h) (ah_encoding h) (ah_params h) f" and "rq_headers c = fr_headers f"
    and "actor_query (ah_query h)"
    and "json_carries (he_codec he) (me_codec me) (ah_query h)"
    and "json_carries (he_codec he) (me_codec me) (ah_params h)"
  shows "\<exists>q p. connect_request me c = Inr (q, ah_encoding h, p)
    \<and> query_target q = query_target (ah_query h) \<and> query_kind q = query_kind (ah_query h)
    \<and> auth_params me p = Inr (wire (he_codec he) (ah_params h)) \<and> (p = None \<longleftrightarrow> ah_params h = JUndef)"
proof -
  obtain p where p: "connect_request me c = Inr (wire (he_codec he) (ah_query h), ah_encoding h, p)"
      "auth_params me p = Inr (wire (he_codec he) (ah_params h))" "p = None \<longleftrightarrow> ah_params h = JUndef"
    using http_request_read [OF assms] by (auto split: option.splits)
  then show ?thesis
    using wire_actor_query [OF assms(3), of "he_codec he"]
    by (intro exI [of _ "wire (he_codec he) (ah_query h)"] exI [of _ p]) simp
qed

section \<open>WebSockets\<close>

text \<open>\<open>decodeURIComponent\<close> of the server undoes \<open>encodeURIComponent\<close> of the client.\<close>

definition uri_carries :: "codec \<Rightarrow> manager_env \<Rightarrow> jsval \<Rightarrow> bool" where
  "uri_carries cd me v \<longleftrightarrow> (\<forall>t. json_text cd v = Inr t \<longrightarrow> me_uri me (encodeURIComponent t) = Inr t)"

lemma protocols_are_tokens:
  assumes "target_protocols he q enc params = Inr ps"
  shows "\<forall>p \<in> set ps. token_text p" and "ps \<noteq> []"
proof -
  have n: "token_text (n @ encodeURIComponent t)" if "token_text n" for n t
    using that encodeURIComponent_token [of _ t] by (auto simp: token_text_def)
  have names: "token_text ''query.''" "token_text ''conn_params.''" "token_text ''rivetkit''" "token_text (''encoding.'' @ encoding_name enc)"
    by (cases enc; simp add: token_text_def js_space_def encoding_name_def)+
  show "\<forall>p \<in> set ps. token_text p" "ps \<noteq> []"
    using assms n [OF names(1)] n [OF names(2)] names(3,4)
    by (auto simp: target_protocols_def andThen_Inr split: if_splits)
qed

text \<open>
  C20.  What a WebSocket carries in its sub-protocols arrives: from the list the client opens the socket
  with, joined with commas, the manager reads the encoding of the handle and a valid query for the same
  kind of lookup, name, key or id and region.  The parameters arrive too, unless they are falsy: these
  are not sent, and the manager has null for them.
\<close>

theorem websocket_request_arrives:
  assumes "driver_connectWebSocket he (ah_query h) (ah_encoding h) (ah_params h) = Inr r"
    and "get_header (rq_headers c) ''sec-websocket-protocol'' = Some (protocol_header sep (sr_protocols r))" and "sep \<in> {'','', '', ''}"
    and "actor_query (ah_query h)"
    and "json_carries (he_codec he) (me_codec me) (ah_query h)"
    and "json_carries (he_codec he) (me_codec me) (ah_params h)"
    and "uri_carries (he_codec he) me (ah_query h)" and "uri_carries (he_codec he) me (ah_params h)"
  shows "\<exists>q raw. connect_ws_request me c
      = Inr (q, ah_encoding h, if truthy (ah_params h) then wire (he_codec he) (ah_params h) else JNull, raw)
    \<and> q = wire (he_codec he) (ah_query h) \<and> query_target q = query_target (ah_query h) \<and> query_kind q = query_kind (ah_query h)"
proof -
  let ?q = "wire (he_codec he) (ah_query h)"
  obtain ps where ps: "target_protocols he (ah_query h) (ah_encoding h) (ah_params h) = Inr ps" "sr_protocols r = ps"
    using assms(1) by (auto simp: driver_connectWebSocket_def andThen_Inr)
  obtain t where t: "json_text (he_codec he) (ah_query h) = Inr t"
    using ps by (auto simp: target_protocols_def andThen_Inr)
  have "ah_query h \<noteq> JUndef" using assms(4) by cases auto
  then have tq: "json_parse me t = Inr ?q"
    using carried_text [OF assms(5) _ t] by (simp add: json_parse_def)
  have q: "ActorQuerySchema ?q = Some ?q" "query_target ?q = query_target (ah_query h)" "query_kind ?q = query_kind (ah_query h)"
    using wire_actor_query [OF assms(4), of "he_codec he"] by (simp_all add: actor_query_valid)
  have toks: "\<forall>p \<in> set ps. token_text p" "ps \<noteq> []" using protocols_are_tokens [OF ps(1)] by blast+
  have split: "map js_trim (js_split '','' (protocol_header sep ps)) = ps"
    by (rule split_protocols [OF toks assms(3)])
  have "protocol_header sep ps \<noteq> []"
  proof
    assume "protocol_header sep ps = []"
    then have "ps = [[]]" using split by (simp add: js_split_done js_trim_def)
    then show False using toks by (simp add: token_text_def)
  qed
  then obtain y ys where y: "protocol_header sep ps = y # ys" by (cases "protocol_header sep ps") auto
  have parse: "parseWebSocketProtocols me (get_header (rq_headers c) ''sec-websocket-protocol'')
      = read_protocols me ps \<lparr>wp_queryRaw = None, wp_encodingRaw = None, wp_connParamsRaw = None\<rparr>"
    using split unfolding assms(2) ps(2) y by (simp add: parseWebSocketProtocols_def)
  have uq: "me_uri me (encodeURIComponent t) = Inr t" using assms(7) t by (simp add: uri_carries_def)
  show ?thesis
  proof (cases "truthy (ah_params h)")
    case True
    then obtain u where u: "json_text (he_codec he) (ah_params h) = Inr u"
      using ps(1) t by (auto simp: target_protocols_def andThen_Inr)
    have "ah_params h \<noteq> JUndef" using True by auto
    then obtain x xs where x: "u = x # xs" "json_parse me u = Inr (wire (he_codec he) (ah_params h))"
      using carried_text [OF assms(6) _ u] by (auto simp: json_parse_def neq_Nil_conv)
    have "ps = [''query.'' @ encodeURIComponent t, ''encoding.'' @ encoding_name (ah_encoding h),
        ''conn_params.'' @ encodeURIComponent u, ''rivetkit'']"
      using ps t u True by (simp add: target_protocols_def)
    moreover have "me_uri me (encodeURIComponent u) = Inr u" using assms(8) u by (simp add: uri_carries_def)
    ultimately have "connect_ws_request me c = Inr (?q, ah_encoding h, wire (he_codec he) (ah_params h), JStr u)"
      using uq tq q(1) x by (simp add: connect_ws_request_def parse)
    then show ?thesis using True q(2,3) by (intro exI [of _ ?q] exI [of _ "JStr u"]) simp
  next
    case False
    then have "ps = [''query.'' @ encodeURIComponent t, ''encoding.'' @ encoding_name (ah_encoding h), ''rivetkit'']"
      using ps t by (simp add: target_protocols_def)
    then have "connect_ws_request me c = Inr (?q, ah_encoding h, JNull, JUndef)"
      using uq tq q(1) by (simp add: connect_ws_request_def parse)
    then show ?thesis using False q(2,3) by (intro exI [of _ ?q] exI [of _ JUndef]) simp
  qed
qed

section \<open>Errors\<close>

definition error_body :: "deconstructed \<Rightarrow> bytes \<Rightarrow> jsval" where
  "error_body dd metadata = JObj [(''code'', JStr (de_code dd)), (''message'', JStr (de_message dd)), (''metadata'', JBuffer metadata)]"

lemma handleRouteError_parts:
  assumes "handleRouteError me x e c = Inr (status, out)" and "getRequestEncoding c = Inr enc"
  obtains dd m where "deconstructError (me_text me) e (x \<and> getRequestExposeInternalError c) = Inr dd"
    "cd_cbor_encode (me_codec me) (de_metadata dd) = Inr m" "status = de_statusCode dd"
    "serializeWithEncoding (me_codec me) enc (error_body dd m) (me_error me) = Inr out"
  using assms by (auto simp: handleRouteError_def andThen_Inr error_body_def)

text \<open>The structure of an error survives the encodings on both sides.\<close>

definition body_keeps :: "codec \<Rightarrow> encoding \<Rightarrow> jsval version_handler \<Rightarrow> jsval version_handler \<Rightarrow> jsval \<Rightarrow> bool" where
  "body_keeps cd enc h h' v \<longleftrightarrow>
     (\<forall>bs. serializeWithEncoding cd enc v h = Inr (Some (OBytes bs)) \<longrightarrow> deserializeWithEncoding cd enc (OBytes bs) h' = Inr v)"

text \<open>
  C28.  With the encodings CBOR and BARE an error of the server comes back as it is: the client throws an
  \<open>ActorError\<close> with the code, the message and the metadata that the server's \<open>deconstructError\<close> let out.
\<close>

theorem http_error_returns:
  assumes "handleRouteError me x e c = Inr (status, Some (OBytes bs))" and "getRequestEncoding c = Inr enc"
    and "deconstructError (me_text me) e (x \<and> getRequestExposeInternalError c) = Inr dd"
    and "me_codec me = he_codec he" and "cbor_keeps (he_codec he) (de_metadata dd)"
    and "\<And>m. cd_cbor_encode (he_codec he) (de_metadata dd) = Inr m \<Longrightarrow>
      body_keeps (he_codec he) enc (me_error me) (he_errorResponse he) (error_body dd m)"
    and "\<not> ok_status status"
  shows "http_response he enc skip h (Answered status st bs)
    = Inl (RejActor (JStr (de_code dd)) (JStr (de_message dd)) (de_metadata dd))"
proof -
  obtain m where m: "cd_cbor_encode (he_codec he) (de_metadata dd) = Inr m"
    "serializeWithEncoding (he_codec he) enc (error_body dd m) (me_error me) = Inr (Some (OBytes bs))"
    using handleRouteError_parts [OF assms(1,2)] assms(3,4) by (metis Inr_inject)
  then have "deserializeWithEncoding (he_codec he) enc (OBytes bs) (he_errorResponse he) = Inr (error_body dd m)"
    using assms(6) [of m] m(1) by (simp add: body_keeps_def)
  moreover have "cd_cbor_decode (he_codec he) m = Inr (de_metadata dd)" using assms(5) m(1) by (auto simp: cbor_keeps_def)
  ultimately show ?thesis
    using assms(7) by (simp add: http_response_def structured_error_def error_body_def read_prop_def nullish_def to_Uint8Array_def)
qed

text \<open>
  With the JSON encoding no error of the server comes back: \<open>JSON.stringify\<close> writes the metadata, an
  \<open>ArrayBuffer\<close>, as \<open>{}\<close>, the client decodes no bytes as CBOR, and what that throws is thrown in place of the
  \<open>ActorError\<close>.
\<close>

theorem json_errors_lost:
  assumes "handleRouteError me x e c = Inr (status, Some (OStr t))" and "getRequestEncoding c = Inr Json"
    and "me_codec me = he_codec he" and "cd_utf8 (he_codec he) bs = t"
    and "\<And>j. cd_json_text (he_codec he) j = t \<Longrightarrow> cd_json_parse (he_codec he) t = Inr j"
    and "cd_cbor_decode (he_codec he) [] = Inl err"
    and "\<not> ok_status status"
  shows "http_response he Json skip h (Answered status st bs) = Inl (RejError err)"
proof -
  obtain dd m where m: "serializeWithEncoding (he_codec he) Json (error_body dd m) (me_error me) = Inr (Some (OStr t))"
    using handleRouteError_parts [OF assms(1,2)] assms(3) by metis
  let ?j = "JsObj [(''code'', JsStr (de_code dd)), (''message'', JsStr (de_message dd)), (''metadata'', JsObj [])]"
  have "cd_json_text (he_codec he) ?j = t"
    using m by (simp add: serializeWithEncoding_def jsonStringifyCompat_def error_body_def json_view_obj)
  then have "deserializeWithEncoding (he_codec he) Json (OBytes bs) (he_errorResponse he) = Inr (of_json ?j)"
    using assms(4,5) by (simp add: deserializeWithEncoding_def)
  then show ?thesis
    using assms(6,7) by (simp add: http_response_def structured_error_def read_prop_def nullish_def to_Uint8Array_def)
qed

section \<open>The client inside the server\<close>

text \<open>The two copies of \<open>queryActor\<close> do the same.\<close>

lemma inline_queryActor_eq: "inline_queryActor me d q s = queryActor me d q s"
proof (cases "\<exists>k. query_kind q = Inr (Some k)")
  case False
  then show ?thesis
    by (auto simp: inline_queryActor_def queryActor_def invalid_query_def split: sum.split option.split)
next
  case True
  then obtain k where k: "query_kind q = Inr (Some k)" by blast
  show ?thesis
  proof (cases k)
    case ByGetForId
    let ?g = "obj_get q ''getForId''"
    show ?thesis
      by (cases "md_getForId d (obj_get ?g ''name'') (obj_get ?g ''actorId'') s")
        (auto simp: k ByGetForId inline_queryActor_def queryActor_def inline_getForId_def find_by_id_def read_prop_def Let_def
          simp del: obj_get.simps split: sum.split option.split)
  next
    case ByGetForKey
    let ?g = "obj_get q ''getForKey''"
    show ?thesis
      by (cases "md_getWithKey d (obj_get ?g ''name'') (obj_get ?g ''key'') s"; cases "me_json me (obj_get ?g ''key'')")
        (auto simp: k ByGetForKey inline_queryActor_def queryActor_def inline_getWithKey_def read_prop_def Let_def
          simp del: obj_get.simps split: sum.split option.split)
  next
    case ByGetOrCreate
    let ?g = "obj_get q ''getOrCreateForKey''"
    show ?thesis
      by (cases "md_getOrCreateWithKey d (obj_get ?g ''name'') (obj_get ?g ''key'') (obj_get ?g ''input'') (obj_get ?g ''region'') s")
        (auto simp: k ByGetOrCreate inline_queryActor_def queryActor_def inline_make_def read_prop_def Let_def
          simp del: obj_get.simps split: sum.split)
  next
    case ByCreate
    let ?g = "obj_get q ''create''"
    show ?thesis
      by (cases "md_createActor d (obj_get ?g ''name'') (obj_get ?g ''key'') (obj_get ?g ''input'') (obj_get ?g ''region'') s")
        (auto simp: k ByCreate inline_queryActor_def queryActor_def inline_make_def read_prop_def Let_def
          simp del: obj_get.simps split: sum.split)
  qed
qed

text \<open>A request the manager lets through has asked the driver the same; the name of the actor was in the
  query, unless it asked by id.\<close>

lemma authorized_inline:
  assumes "authorize me d c q its p s = (Inr (a, i), s')" and "query_kind q \<noteq> Inr (Some ByGetForId)"
  shows "inline_actor me d m q s = (Inr i, s')"
proof -
  obtain s1 where e: "authenticateEndpoint me d c q its p s = (Inr a, s1)" using assms(1) authorized by metis
  then have "s1 = s"
    using assms(2) by (auto simp: authenticateEndpoint_def getActorNameFromQuery_def Let_def
        split: sum.splits option.splits query_kind.splits if_splits)
  then show ?thesis
    using assms(1) e by (auto simp: authorize_def inline_actor_def inline_queryActor_eq split: sum.splits prod.splits if_splits)
qed


section \<open>Handles\<close>

text \<open>A handle that has resolved keeps its actor: asked again it answers with the same id and sends nothing.\<close>

lemma resolve_pins:
  assumes "handle_resolve_finish he name res h = (Inr i, h')"
  shows "handle_resolve_start he h' = Resolved i" and "ah_params h' = ah_params h"
proof -
  have h': "h' = h\<lparr>ah_query := for_id_query i name\<rparr>"
    using assms by (auto simp: handle_resolve_finish_def split: sum.splits)
  have "query_kind (for_id_query i name) = Inr (Some ByGetForId)"
    by (simp add: query_kind_def js_in_def for_id_query_def)
  then show "handle_resolve_start he h' = Resolved i"
    by (simp add: h' handle_resolve_start_def) (simp add: for_id_query_def read_prop_def nullish_def)
  show "ah_params h' = ah_params h" by (simp add: h')
qed

text \<open>The stream of the client inside the server goes to the same address whatever the actor is.\<close>

lemma inline_sse_ignores_actor:
  assumes "inline_actor me d ''Missing actor ID'' q s = (Inr i, s1)" and "inline_actor me' d' ''Missing actor ID'' q' s' = (Inr i', s1')"
  shows "fst (inline_connectSse me he d q enc params init s) = fst (inline_connectSse me' he d' q' enc params init s')"
  using assms by (simp add: inline_connectSse_def)

text \<open>Actors with the name of a method of the client, and actions with the name of a method of the handle,
  cannot be reached by their name.\<close>

lemma shadowed_names:
  "client_proxy_get ''create'' = ClientOwn ''create''" "client_proxy_get ''get'' = ClientOwn ''get''"
  "fst (actor_proxy_get handle_methods ''fetch'' cache) = TargetProperty ''fetch''"
  "fst (actor_proxy_get handle_methods ''then'' cache) = NoProperty" "actor_proxy_has ''then''"
  by code_simp+

text \<open>With the JSON encoding the arguments of an action do not arrive: they are written as \<open>{}\<close>.\<close>

lemma json_arguments_lost:
  assumes "handle_action he h name args = Inr f" and "handle_action he h name args' = Inr f'" and "ah_encoding h = Json"
  shows "f = f'"
  using assms by (auto simp: handle_action_def driver_action_def sendHttpRequest_def andThen_Inr serializeWithEncoding_def
      jsonStringifyCompat_def json_view_obj)

section \<open>Examples\<close>

definition wire_codec :: codec where
  "wire_codec = (me_codec (chat_manager (\<lambda>c its p. Inr JUndef)))\<lparr>cd_json_text := (\<lambda>_. ''q''), cd_cbor_encode := (\<lambda>_. Inr [1])\<rparr>"

definition chat_http :: http_env where
  "chat_http = (let h = \<lparr>vd_currentVersion = 1, vd_migrations = [], vd_serializeVersion = (\<lambda>_. Inr []), vd_deserializeVersion = (\<lambda>_. Inr JUndef)\<rparr>
     in \<lparr>he_codec = wire_codec, he_endpoint = ''http://m'', he_userAgent = ''RivetKit'', he_u8 = (\<lambda>_. Inr []), he_errText = (\<lambda>_. ''error''),
         he_actionRequest = h, he_actionResponse = h, he_resolveRequest = h, he_resolveResponse = h, he_errorResponse = h, he_toServer = h\<rparr>)"

definition chat_handle :: actor_handle where
  "chat_handle = client_getOrCreate (ClientRaw (Some Json) None) ''chat'' JUndef JUndef"

lemma chat_handle_parts [simp]:
  "ah_query chat_handle = JObj [(''getOrCreateForKey'', JObj [(''name'', JStr ''chat''), (''key'', JArr []),
     (''input'', JUndef), (''region'', JUndef)])]"
  "ah_params chat_handle = JUndef" "ah_encoding chat_handle = Json"
  by (simp_all add: chat_handle_def client_getOrCreate_def createHandle_def ClientRaw_def key_array_def opt_get_def nullish_def)

lemma chat_handle_query: "actor_query (ah_query chat_handle)"
  unfolding chat_handle_def by (rule client_queries(2) [of _ "[]"]) (simp_all add: key_of_def opt_get_def nullish_def)

lemma view_empty [simp]: "json_view dt (JArr []) = Some (JsArr [])"
  using view_strings [of dt "[]"] by simp

lemma chat_carries:
  "json_carries (he_codec chat_http) (me_codec (chat_manager f)) (ah_query chat_handle)"
  "json_carries (he_codec chat_http) (me_codec (chat_manager f)) (ah_params chat_handle)"
  by (simp_all add: json_carries_def chat_http_def wire_codec_def chat_manager_def json_view_obj Let_def)

lemma chat_text: "json_text (he_codec chat_http) (ah_query chat_handle) = Inr ''q''"
  by (simp add: json_text_def JSON_stringify_def has_bigint.simps json_view_obj undefined_text_def chat_http_def wire_codec_def Let_def)

theorem http_request_arrives_witness:
  "\<exists>f. driver_resolveActorId chat_http (ah_query chat_handle) Json JUndef = Inr f
    \<and> (\<exists>q. connect_request (chat_manager (\<lambda>c its p. Inr JUndef)) (chat_request\<lparr>rq_headers := fr_headers f\<rparr>) = Inr (q, Json, None)
        \<and> query_target q = Some (''getOrCreateForKey'', JStr ''chat'', JArr [], JUndef))"
proof -
  obtain f where f: "driver_resolveActorId chat_http (ah_query chat_handle) Json JUndef = Inr f"
    using chat_text
    by (simp add: driver_resolveActorId_def target_headers_def sendHttpRequest_def serializeWithEncoding_def
        jsonStringifyCompat_def json_view.simps [of _ JNull] chat_http_def Let_def del: chat_handle_parts)
  then have "http_target chat_http (ah_query chat_handle) (ah_encoding chat_handle) (ah_params chat_handle) f"
    by (simp add: http_target_def)
  from http_request_arrives [OF this, of "chat_request\<lparr>rq_headers := fr_headers f\<rparr>", OF _ chat_handle_query chat_carries]
  show ?thesis using f by (auto simp: query_target_def)
qed

theorem websocket_request_arrives_witness:
  "\<exists>r q raw. driver_connectWebSocket chat_http (ah_query chat_handle) Json JUndef = Inr r
    \<and> connect_ws_request (chat_manager (\<lambda>c its p. Inr JUndef))
        (chat_request\<lparr>rq_headers := [(''sec-websocket-protocol'', protocol_header '', '' (sr_protocols r))]\<rparr>)
      = Inr (q, Json, JNull, raw)"
proof -
  obtain r where r: "driver_connectWebSocket chat_http (ah_query chat_handle) Json JUndef = Inr r"
    using chat_text by (simp add: driver_connectWebSocket_def target_protocols_def del: chat_handle_parts)
  let ?c = "chat_request\<lparr>rq_headers := [(''sec-websocket-protocol'', protocol_header '', '' (sr_protocols r))]\<rparr>"
  have c: "get_header (rq_headers ?c) ''sec-websocket-protocol'' = Some (protocol_header '', '' (sr_protocols r))"
    by (simp add: get_header_def lower_def)
  have u: "uri_carries (he_codec chat_http) (chat_manager f) (ah_query chat_handle)"
    "uri_carries (he_codec chat_http) (chat_manager f) (ah_params chat_handle)" for f
    using chat_text
    by (simp_all add: uri_carries_def chat_manager_def json_text_def JSON_stringify_def has_bigint.simps undefined_text_def
        encodeURIComponent_def encode_uri_char_def uri_unreserved_def del: chat_handle_parts(1))
  have r': "driver_connectWebSocket chat_http (ah_query chat_handle) (ah_encoding chat_handle) (ah_params chat_handle) = Inr r"
    using r by simp
  obtain q raw where "connect_ws_request (chat_manager (\<lambda>c its p. Inr JUndef)) ?c = Inr (q, ah_encoding chat_handle,
      if truthy (ah_params chat_handle) then wire (he_codec chat_http) (ah_params chat_handle) else JNull, raw)"
    using websocket_request_arrives [OF r' c _ chat_handle_query chat_carries u] by blast
  then show ?thesis using r by simp
qed

text \<open>A server and a client whose CBOR knows one error, \<open>ActorNotFound\<close>, and undefined.\<close>

definition not_found :: js_err where
  "not_found = EActor (ActorNotFound None)"

definition not_found_parts :: deconstructed where
  "not_found_parts = \<lparr>de_statusCode = 400, de_public = True, de_code = ae_code (ActorNotFound None),
     de_message = ae_message (ActorNotFound None), de_metadata = JUndef\<rparr>"

definition error_codec :: codec where
  "error_codec = tiny_codec\<lparr>cd_cbor_encode := (\<lambda>v. Inr (if v = JUndef then [247] else [1])),
     cd_cbor_decode := (\<lambda>b. if b = [247] then Inr JUndef else if b = [1] then Inr (error_body not_found_parts [247]) else Inl TypeError),
     cd_json_text := (\<lambda>j. if j = JsObj [(''code'', JsStr (de_code not_found_parts)), (''message'', JsStr (de_message not_found_parts)),
         (''metadata'', JsObj [])] then ''e'' else ''''),
     cd_json_parse := (\<lambda>t. if t = ''e'' then Inr (JsObj [(''code'', JsStr (de_code not_found_parts)),
         (''message'', JsStr (de_message not_found_parts)), (''metadata'', JsObj [])]) else Inl TypeError),
     cd_utf8 := (\<lambda>_. ''e'')\<rparr>"

definition error_manager :: manager_env where
  "error_manager = (chat_manager (\<lambda>c its p. Inr JUndef))\<lparr>me_codec := error_codec\<rparr>"

definition error_client :: http_env where
  "error_client = chat_http\<lparr>he_codec := error_codec\<rparr>"

lemma not_found_deconstructed: "deconstructError str not_found False = Inr not_found_parts"
  by (simp add: deconstructError_def isActorError_def not_found_def not_found_parts_def ActorNotFound_def ActorError_def public_opts_def)

lemma cbor_request: "getRequestEncoding (chat_request\<lparr>rq_headers := [(''x-rivetkit-encoding'', encoding_name e)]\<rparr>) = Inr e"
proof -
  have "lower HEADER_ENCODING = ''x-rivetkit-encoding''" by code_simp
  then show ?thesis
    by (cases e) (simp_all add: getRequestEncoding_def given_header_def get_header_def encoding_name_def EncodingSchema_def)
qed

lemma error_fields [simp]: "me_codec error_manager = error_codec" "he_codec error_client = error_codec"
  by (simp_all add: error_manager_def error_client_def)

theorem http_error_returns_witness:
  "http_response error_client Cbor False (he_actionResponse chat_http) (Answered 400 ''Bad Request'' [1])
    = Inl (RejActor (JStr (ae_code (ActorNotFound None))) (JStr (ae_message (ActorNotFound None))) JUndef)"
proof -
  let ?c = "chat_request\<lparr>rq_headers := [(''x-rivetkit-encoding'', encoding_name Cbor)]\<rparr>"
  have r: "handleRouteError error_manager False not_found ?c = Inr (400, Some (OBytes [1]))"
    unfolding handleRouteError_def cbor_request
    by (simp add: not_found_deconstructed serializeWithEncoding_def error_codec_def) (simp add: not_found_parts_def)
  have k: "cbor_keeps (he_codec error_client) (de_metadata not_found_parts)"
    by (simp add: cbor_keeps_def error_codec_def not_found_parts_def)
  have b: "cd_cbor_encode (he_codec error_client) (de_metadata not_found_parts) = Inr m \<Longrightarrow>
      body_keeps (he_codec error_client) Cbor (me_error error_manager) (he_errorResponse error_client) (error_body not_found_parts m)" for m
    by (auto simp: body_keeps_def serializeWithEncoding_def deserializeWithEncoding_def error_codec_def not_found_parts_def error_body_def)
  show ?thesis
    using http_error_returns [OF r cbor_request _ _ k b, of False "he_actionResponse chat_http" "''Bad Request''"]
    by (simp add: not_found_deconstructed ok_status_def) (simp add: not_found_parts_def)
qed

theorem json_errors_lost_witness:
  "http_response error_client Json False (he_actionResponse chat_http) (Answered 400 ''Bad Request'' [101]) = Inl (RejError TypeError)"
proof -
  let ?c = "chat_request\<lparr>rq_headers := [(''x-rivetkit-encoding'', encoding_name Json)]\<rparr>"
  have r: "handleRouteError error_manager False not_found ?c = Inr (400, Some (OStr ''e''))"
    unfolding handleRouteError_def cbor_request
    by (simp add: not_found_deconstructed serializeWithEncoding_def jsonStringifyCompat_def json_view_obj error_codec_def)
      (simp add: not_found_parts_def)
  show ?thesis
    by (rule json_errors_lost [OF r cbor_request])
      (auto simp: error_codec_def ok_status_def split: if_splits)
qed


end
