(* ===== verification/EngineManager.thy ===== *)
theory EngineManager
  imports ClientHandles
begin

text \<open>
  The manager driver of the Rivet Engine (\<open>drivers/engine\<close>): the calls to the engine's API
  (\<open>api-utils.ts\<close>, \<open>api-endpoints.ts\<close>), \<open>EngineManagerDriver\<close> (\<open>manager-driver.ts\<close>) and the WebSocket proxy
  (\<open>ws-proxy.ts\<close>).

  The engine is outside: an API is a function of its own state from a request to the answer.
\<close>

section \<open>The engine's API\<close>

record engine_config =
  eg_endpoint :: string
  eg_namespace :: string
  eg_runnerName :: string

record engine_env =
  eg_config :: engine_config
  eg_codec :: codec
  eg_text :: "jsval \<Rightarrow> string"

record api_request =
  aq_method :: string
  aq_url :: string
  aq_body :: "string option"

datatype api_answer = ApiUnreachable js_err | ApiAnswer nat string string

type_synonym 's api = "api_request \<Rightarrow> 's \<Rightarrow> api_answer \<times> 's"

text \<open>What an operation throws: \<open>EngineApiError\<close> with group, code and message, or another error.\<close>

datatype engine_error = EngineApiError jsval jsval jsval | OtherError js_err

text \<open>The body of the \<open>try\<close> around the text of an error: what it throws, if it throws.\<close>

definition parse_api_error :: "codec \<Rightarrow> string \<Rightarrow> engine_error option" where
  "parse_api_error cd errorText =
     (case cd_json_parse cd errorText of
        Inl e \<Rightarrow> Some (OtherError e)
      | Inr j \<Rightarrow>
          (let errorData = of_json j in
           case read_prop errorData ''kind'' of
             Inl e \<Rightarrow> Some (OtherError e)
           | Inr kind \<Rightarrow>
               if kind = JStr ''error'' \<and> truthy (obj_get errorData ''group'') \<and> truthy (obj_get errorData ''code'')
               then Some (EngineApiError (obj_get errorData ''group'') (obj_get errorData ''code'') (obj_get errorData ''message''))
               else None))"

text \<open>The \<open>catch\<close> after it takes whatever was thrown.\<close>

definition catch_parse_error :: "engine_error option \<Rightarrow> unit" where
  "catch_parse_error thrown = (case thrown of None \<Rightarrow> () | Some parseError \<Rightarrow> ())"

definition api_result :: "engine_env \<Rightarrow> api_answer \<Rightarrow> engine_error + jsval" where
  "api_result eg res =
     (case res of
        ApiUnreachable e \<Rightarrow> Inl (OtherError e)
      | ApiAnswer status statusText body \<Rightarrow>
          if \<not> ok_status status then
            (case catch_parse_error (parse_api_error (eg_codec eg) body) of
               () \<Rightarrow> Inl (OtherError (EError ''Error'' (''API call failed: '' @ nat_str status @ '' '' @ statusText))))
          else (case cd_json_parse (eg_codec eg) body of Inl e \<Rightarrow> Inl (OtherError e) | Inr j \<Rightarrow> Inr (of_json j)))"

definition api_url :: "engine_config \<Rightarrow> string \<Rightarrow> string" where
  "api_url cfg path =
     eg_endpoint cfg @ path @ (if CHR ''?'' \<in> set path then ''&'' else ''?'') @ ''namespace='' @ encodeURIComponent (eg_namespace cfg)"

definition apiCall :: "engine_env \<Rightarrow> 's api \<Rightarrow> string \<Rightarrow> string \<Rightarrow> jsval \<Rightarrow> 's \<Rightarrow> (engine_error + jsval) \<times> 's" where
  "apiCall eg api verb path body s =
     (case (if body \<noteq> JUndef \<and> verb \<noteq> ''GET'' then JSON_stringify (eg_codec eg) body else Inr None) of
        Inl e \<Rightarrow> (Inl (OtherError e), s)
      | Inr b \<Rightarrow>
          apfst (api_result eg) (api \<lparr>aq_method = verb, aq_url = api_url (eg_config eg) path, aq_body = b\<rparr> s))"

definition getActor :: "engine_env \<Rightarrow> 's api \<Rightarrow> string \<Rightarrow> 's \<Rightarrow> (engine_error + jsval) \<times> 's" where
  "getActor eg api actorId = apiCall eg api ''GET'' (''/actors/'' @ encodeURIComponent actorId) JUndef"

text \<open>\<open>serializeActorKey\<close> of a value: only an array of texts, or an empty text, has one.\<close>

definition engine_key :: "jsval \<Rightarrow> js_err + string" where
  "engine_key key =
     (case key of
        JStr [] \<Rightarrow> Inr (serializeActorKey [])
      | JArr xs \<Rightarrow>
          (case those (map (\<lambda>x. case x of JStr t \<Rightarrow> Some t | _ \<Rightarrow> None) xs) of
             None \<Rightarrow> Inl TypeError
           | Some ks \<Rightarrow> Inr (serializeActorKey ks))
      | _ \<Rightarrow> Inl TypeError)"

definition getActorById :: "engine_env \<Rightarrow> 's api \<Rightarrow> jsval \<Rightarrow> jsval \<Rightarrow> 's \<Rightarrow> (engine_error + jsval) \<times> 's" where
  "getActorById eg api name key s =
     (case engine_key key of
        Inl e \<Rightarrow> (Inl (OtherError e), s)
      | Inr k \<Rightarrow> apiCall eg api ''GET''
          (''/actors/by-id?name='' @ encodeURIComponent (eg_text eg name) @ ''&key='' @ encodeURIComponent k) JUndef s)"

definition getOrCreateActorById :: "engine_env \<Rightarrow> 's api \<Rightarrow> jsval \<Rightarrow> 's \<Rightarrow> (engine_error + jsval) \<times> 's" where
  "getOrCreateActorById eg api request = apiCall eg api ''PUT'' ''/actors/by-id'' request"

definition engine_api_createActor :: "engine_env \<Rightarrow> 's api \<Rightarrow> jsval \<Rightarrow> 's \<Rightarrow> (engine_error + jsval) \<times> 's" where
  "engine_api_createActor eg api request = apiCall eg api ''POST'' ''/actors'' request"

definition engine_api_destroyActor :: "engine_env \<Rightarrow> 's api \<Rightarrow> string \<Rightarrow> 's \<Rightarrow> (engine_error + jsval) \<times> 's" where
  "engine_api_destroyActor eg api actorId = apiCall eg api ''DELETE'' (''/actors/'' @ encodeURIComponent actorId) JUndef"

section \<open>\<open>EngineManagerDriver\<close>\<close>

text \<open>An error as it leaves the driver.\<close>

definition thrown_error :: "engine_env \<Rightarrow> engine_error \<Rightarrow> js_err" where
  "thrown_error eg e =
     (case e of
        EngineApiError g c m \<Rightarrow>
          EError ''EngineApiError'' (if truthy m then eg_text eg m else ''Engine API error: '' @ eg_text eg g @ ''/'' @ eg_text eg c)
      | OtherError x \<Rightarrow> x)"

definition is_not_found :: "engine_error \<Rightarrow> bool" where
  "is_not_found e = (case e of EngineApiError g c m \<Rightarrow> g = JStr ''actor'' \<and> c = JStr ''not_found'' | OtherError x \<Rightarrow> False)"

text \<open>The \<open>catch\<close> of the lookups.\<close>

definition lookup_result :: "engine_env \<Rightarrow> engine_error + 'a option \<Rightarrow> js_err + 'a option" where
  "lookup_result eg res =
     (case res of Inl e \<Rightarrow> (if is_not_found e then Inr None else Inl (thrown_error eg e)) | Inr x \<Rightarrow> Inr x)"

definition other :: "js_err + 'a \<Rightarrow> engine_error + 'a" where
  "other r = (case r of Inl e \<Rightarrow> Inl (OtherError e) | Inr x \<Rightarrow> Inr x)"

text \<open>The key of the answer, which the caller does not use, is decoded as a text; this cannot fail.\<close>

definition actor_of_response :: "jsval \<Rightarrow> jsval \<Rightarrow> jsval \<Rightarrow> js_err + actor_output option" where
  "actor_of_response name actorId response =
     andThen (read_prop response ''actor'') (\<lambda>a.
     andThen (read_prop a ''name'') (\<lambda>n.
       if n \<noteq> name then Inr None
       else if \<not> truthy (obj_get a ''key'') then Inl (invariant_error ''actor should have key'')
       else (case obj_get a ''key'' of
               JStr k \<Rightarrow> Inr (Some \<lparr>ao_actorId = actorId, ao_name = name\<rparr>)
             | _ \<Rightarrow> Inl TypeError)))"

definition engine_getForId :: "engine_env \<Rightarrow> 's api \<Rightarrow> jsval \<Rightarrow> jsval \<Rightarrow> 's \<Rightarrow> (js_err + actor_output option) \<times> 's" where
  "engine_getForId eg api name actorId s =
     apfst (\<lambda>res. lookup_result eg (andThen res (\<lambda>r. other (actor_of_response name actorId r))))
       (getActor eg api (eg_text eg actorId) s)"

definition engine_getWithKey :: "engine_env \<Rightarrow> 's api \<Rightarrow> jsval \<Rightarrow> jsval \<Rightarrow> 's \<Rightarrow> (js_err + actor_output option) \<times> 's" where
  "engine_getWithKey eg api name key s =
     apfst (\<lambda>res. lookup_result eg (andThen res (\<lambda>r. other (andThen (read_prop r ''actor_id'') (\<lambda>i.
         Inr (if \<not> truthy i then None else Some \<lparr>ao_actorId = i, ao_name = name\<rparr>))))))
       (getActorById eg api name key s)"

text \<open>\<open>cbor.encode(v).toString("base64")\<close>\<close>

definition base64_cbor :: "codec \<Rightarrow> jsval \<Rightarrow> js_err + jsval" where
  "base64_cbor cd v = andThen (cd_cbor_encode cd v) (\<lambda>b. Inr (JStr (base64EncodeUint8Array b)))"

text \<open>\<open>input ? ... : undefined\<close> looks at the whole argument, which is an object; the region is not used.\<close>

definition engine_getOrCreateWithKey ::
    "engine_env \<Rightarrow> 's api \<Rightarrow> jsval \<Rightarrow> jsval \<Rightarrow> jsval \<Rightarrow> jsval \<Rightarrow> 's \<Rightarrow> (js_err + actor_output) \<times> 's" where
  "engine_getOrCreateWithKey eg api name key actorInput region s =
     (case andThen (engine_key key) (\<lambda>k. andThen (base64_cbor (eg_codec eg) actorInput) (\<lambda>i. Inr (k, i))) of
        Inl e \<Rightarrow> (Inl e, s)
      | Inr (k, i) \<Rightarrow>
          apfst (\<lambda>res. case res of
               Inl e \<Rightarrow> Inl (thrown_error eg e)
             | Inr r \<Rightarrow> andThen (read_prop r ''actor_id'') (\<lambda>actorId. Inr \<lparr>ao_actorId = actorId, ao_name = name\<rparr>))
            (getOrCreateActorById eg api
               (JObj [(''name'', name), (''key'', JStr k), (''runner_name_selector'', JStr (eg_runnerName (eg_config eg))),
                  (''input'', i), (''crash_policy'', JStr ''sleep'')]) s))"

definition engine_createActor ::
    "engine_env \<Rightarrow> 's api \<Rightarrow> jsval \<Rightarrow> jsval \<Rightarrow> jsval \<Rightarrow> jsval \<Rightarrow> 's \<Rightarrow> (js_err + actor_output) \<times> 's" where
  "engine_createActor eg api name key actorInput region s =
     (case engine_getWithKey eg api name key s of
        (Inl e, s1) \<Rightarrow> (Inl e, s1)
      | (Inr (Some existingActor), s1) \<Rightarrow>
          (andThen (json_text (eg_codec eg) key) (\<lambda>k. Inl (EActor (ActorAlreadyExists (eg_text eg name) k))), s1)
      | (Inr None, s1) \<Rightarrow>
          (case andThen (engine_key key) (\<lambda>k.
                 andThen (if truthy actorInput then base64_cbor (eg_codec eg) actorInput else Inr JNull) (\<lambda>i. Inr (k, i))) of
             Inl e \<Rightarrow> (Inl e, s1)
           | Inr (k, i) \<Rightarrow>
               apfst (\<lambda>res. case res of
                    Inl e \<Rightarrow> Inl (thrown_error eg e)
                  | Inr r \<Rightarrow> andThen (read_prop r ''actor'') (\<lambda>a. andThen (read_prop a ''actor_id'') (\<lambda>actorId.
                      Inr \<lparr>ao_actorId = actorId, ao_name = name\<rparr>)))
                 (engine_api_createActor eg api
                    (JObj [(''name'', name), (''runner_name_selector'', JStr (eg_runnerName (eg_config eg))),
                       (''key'', JStr k), (''input'', i), (''crash_policy'', JStr ''sleep'')]) s1)))"

definition engine_destroyActor :: "engine_env \<Rightarrow> 's api \<Rightarrow> string \<Rightarrow> 's \<Rightarrow> (js_err + unit) \<times> 's" where
  "engine_destroyActor eg api actorId s =
     apfst (\<lambda>res. case res of Inl e \<Rightarrow> Inl (thrown_error eg e) | Inr r \<Rightarrow> Inr ()) (engine_api_destroyActor eg api actorId s)"

definition engine_manager :: "engine_env \<Rightarrow> 's api \<Rightarrow> 's manager_driver" where
  "engine_manager eg api =
     \<lparr>md_getForId = engine_getForId eg api, md_getWithKey = engine_getWithKey eg api,
      md_getOrCreateWithKey = engine_getOrCreateWithKey eg api, md_createActor = engine_createActor eg api\<rparr>"

section \<open>Requests to an actor\<close>

text \<open>All requests to actors go to the engine's guard, which routes by these headers.\<close>

definition guard_target :: "string \<Rightarrow> (string \<times> string) list" where
  "guard_target actorId = [(''x-rivet-target'', ''actor''), (''x-rivet-actor'', actorId), (''x-rivet-port'', ''main'')]"

definition buildGuardHeadersForHttp :: "headers \<Rightarrow> string \<Rightarrow> headers" where
  "buildGuardHeadersForHttp request_headers actorId =
     fold (\<lambda>(n, v). set_header n v) (guard_target actorId) (header_list request_headers)"

text \<open>\<open>#forwardHttpRequest\<close> of a request with the given path and search; a used body throws.\<close>

definition forwardHttpRequest ::
    "engine_env \<Rightarrow> string \<Rightarrow> string \<Rightarrow> string \<Rightarrow> headers \<Rightarrow> bytes option \<Rightarrow> bool \<Rightarrow> string \<Rightarrow> js_err + fetch_request" where
  "forwardHttpRequest eg verb pathname search hs body bodyUsed actorId =
     (let guardUrl = eg_endpoint (eg_config eg) @ pathname @ search;
          guardHeaders = buildGuardHeadersForHttp hs actorId
      in if body \<noteq> None \<and> verb \<noteq> ''GET'' \<and> verb \<noteq> ''HEAD'' then
           (if bodyUsed then Inl (EError ''Error'' ''Request body has already been consumed'')
            else Inr \<lparr>fr_url = guardUrl, fr_method = verb,
                   fr_headers = set_header ''content-length'' (nat_str (length (the body)))
                     (jm_del (lower ''transfer-encoding'') guardHeaders),
                   fr_body = map_option OBytes body\<rparr>)
         else Inr \<lparr>fr_url = guardUrl, fr_method = verb, fr_headers = guardHeaders, fr_body = None\<rparr>)"

text \<open>The headers of a WebSocket are the properties of an object: upper and lower case are kept apart.\<close>

definition buildGuardHeadersForWebSocket ::
    "engine_env \<Rightarrow> string \<Rightarrow> encoding \<Rightarrow> jsval \<Rightarrow> jsval \<Rightarrow> js_err + (string \<times> string) list" where
  "buildGuardHeadersForWebSocket eg actorId enc params authData =
     andThen (if truthy params then andThen (json_text (eg_codec eg) params) (\<lambda>p. Inr [(HEADER_CONN_PARAMS, p)]) else Inr []) (\<lambda>p.
     andThen (if truthy authData then andThen (json_text (eg_codec eg) authData) (\<lambda>a. Inr [(HEADER_AUTH_DATA, a)]) else Inr []) (\<lambda>a.
       Inr (guard_target actorId @ [(HEADER_EXPOSE_INTERNAL_ERROR, ''true''), (HEADER_ENCODING, encoding_name enc)] @ p @ a)))"

definition engine_openWebSocket :: "engine_env \<Rightarrow> string \<Rightarrow> string \<Rightarrow> encoding \<Rightarrow> jsval \<Rightarrow> js_err + (string \<times> (string \<times> string) list)" where
  "engine_openWebSocket eg path actorId enc params =
     andThen (buildGuardHeadersForWebSocket eg actorId enc params JUndef) (\<lambda>hs.
       Inr (eg_endpoint (eg_config eg) @ path, hs))"

text \<open>\<open>s.replace(from, to)\<close> replaces the first occurrence.\<close>

definition replace_first :: "string \<Rightarrow> string \<Rightarrow> string \<Rightarrow> string" where
  "replace_first from to s =
     (case find_index (\<lambda>i. prefix from (drop i s)) [0 ..< length s] of
        None \<Rightarrow> s
      | Some i \<Rightarrow> take i s @ to @ drop (i + length from) s)"

text \<open>What \<open>createWebSocketProxy\<close> does first: the client's headers, whose names are in lower case, are put
  into the object, over what is there.\<close>

definition forwarded_header :: "string \<Rightarrow> bool" where
  "forwarded_header k \<longleftrightarrow> \<not> prefix ''sec-'' k \<and> k \<noteq> ''connection'' \<and> k \<noteq> ''upgrade''"

definition proxy_headers :: "headers \<Rightarrow> (string \<times> string) list \<Rightarrow> (string \<times> string) list" where
  "proxy_headers request_headers hs =
     fold (\<lambda>(k, v). if forwarded_header k then jm_set k v else id) request_headers hs"

definition engine_proxyWebSocket ::
    "engine_env \<Rightarrow> headers \<Rightarrow> string \<Rightarrow> string \<Rightarrow> encoding \<Rightarrow> jsval \<Rightarrow> jsval \<Rightarrow> js_err + (string \<times> (string \<times> string) list)" where
  "engine_proxyWebSocket eg client_headers path actorId enc params authData =
     andThen (buildGuardHeadersForWebSocket eg actorId enc params authData) (\<lambda>hs.
       Inr (replace_first ''http://'' ''ws://'' (eg_endpoint (eg_config eg) @ path), proxy_headers client_headers hs))"

section \<open>The WebSocket proxy\<close>

text \<open>The ready states of the two sockets are outside and come with the events.  What arrives from the
  target is text, binary data of a kind the proxy knows, a \<open>Blob\<close>, whose bytes are awaited, or
  something else.\<close>

datatype proxy_data = PText string | PBytes bytes | PBlob bytes | PUnknown

datatype proxy_connect = NotConnecting | Connecting_target | Connected_target | Connect_failed

record proxy =
  px_connect :: proxy_connect
  px_waiting :: "proxy_data list"
  px_reading :: "(nat \<times> bytes) list"
  px_nextRead :: nat
  px_toTarget :: "proxy_data list"
  px_toClient :: "proxy_data list"
  px_closes :: "(bool \<times> nat \<times> string) list"

definition createWebSocketProxy :: proxy where
  "createWebSocketProxy = \<lparr>px_connect = NotConnecting, px_waiting = [], px_reading = [], px_nextRead = 0,
     px_toTarget = [], px_toClient = [], px_closes = []\<rparr>"

text \<open>A close of the client's (\<open>True\<close>) or the target's socket.\<close>

definition px_close :: "bool \<Rightarrow> nat \<Rightarrow> string \<Rightarrow> proxy \<Rightarrow> proxy" where
  "px_close client code reason x = x\<lparr>px_closes := px_closes x @ [(client, code, reason)]\<rparr>"

definition closeWebSocketIfOpen :: "bool \<Rightarrow> nat \<Rightarrow> string \<Rightarrow> proxy \<Rightarrow> proxy" where
  "closeWebSocketIfOpen isOpen code reason x = (if isOpen then px_close True code reason x else x)"

datatype proxy_event =
    ClientOpened bool
  | TargetOpened bool
  | TargetFailed bool
  | TargetMessage proxy_data
  | BlobRead nat
  | TargetClosed bool nat string
  | ClientMessage proxy_data
  | MessagesResume bool bool
  | ClientClosed bool string
  | ClientError bool bool

text \<open>\<open>onMessage\<close> awaits the connection; the messages that wait go on together, in order, once it is settled.
  The first of them that finds it failed closes the client's socket, which is then no longer open.\<close>

definition send_waiting :: "bool \<Rightarrow> bool \<Rightarrow> proxy \<Rightarrow> proxy" where
  "send_waiting targetOpen clientOpen x =
     (let ms = px_waiting x; x1 = x\<lparr>px_waiting := []\<rparr>
      in if ms = [] then x
         else if px_connect x = Connected_target then (if targetOpen then x1\<lparr>px_toTarget := px_toTarget x @ ms\<rparr> else x1)
         else closeWebSocketIfOpen clientOpen 1011 ''Failed to connect to target'' x1)"

fun proxy_step :: "proxy_event \<Rightarrow> proxy \<Rightarrow> proxy" where
  "proxy_step (ClientOpened clientOpen) x =
     (if \<not> clientOpen \<or> px_connect x \<noteq> NotConnecting then x else x\<lparr>px_connect := Connecting_target\<rparr>)"
| "proxy_step (TargetOpened clientOpen) x =
     (if px_connect x \<noteq> Connecting_target then x
      else if \<not> clientOpen then px_close False 1001 ''Client disconnected'' (x\<lparr>px_connect := Connect_failed\<rparr>)
      else x\<lparr>px_connect := Connected_target\<rparr>)"
| "proxy_step (TargetFailed clientOpen) x =
     (if px_connect x = NotConnecting then x
      else closeWebSocketIfOpen clientOpen 1011 ''Target WebSocket error''
        (if px_connect x = Connecting_target then x\<lparr>px_connect := Connect_failed\<rparr> else x))"
| "proxy_step (TargetMessage d) x =
     (if px_connect x = NotConnecting then x
      else case d of
             PText t \<Rightarrow> x\<lparr>px_toClient := px_toClient x @ [d]\<rparr>
           | PBytes b \<Rightarrow> x\<lparr>px_toClient := px_toClient x @ [d]\<rparr>
           | PBlob b \<Rightarrow> x\<lparr>px_reading := px_reading x @ [(px_nextRead x, b)], px_nextRead := Suc (px_nextRead x)\<rparr>
           | PUnknown \<Rightarrow> x)"
| "proxy_step (BlobRead k) x =
     (case jm_get (px_reading x) k of
        None \<Rightarrow> x
      | Some b \<Rightarrow> x\<lparr>px_reading := jm_del k (px_reading x), px_toClient := px_toClient x @ [PBytes b]\<rparr>)"
| "proxy_step (TargetClosed clientOpen code reason) x =
     (if px_connect x = NotConnecting then x else closeWebSocketIfOpen clientOpen code reason x)"
| "proxy_step (ClientMessage m) x =
     (if px_connect x = NotConnecting then x else x\<lparr>px_waiting := px_waiting x @ [m]\<rparr>)"
| "proxy_step (MessagesResume targetOpen clientOpen) x =
     (if px_connect x \<in> {NotConnecting, Connecting_target} then x
      else send_waiting targetOpen clientOpen x)"
| "proxy_step (ClientClosed targetLive reason) x =
     (if px_connect x \<noteq> NotConnecting \<and> targetLive
      then px_close False 1000 (if reason \<noteq> [] then reason else ''Client disconnected'') x else x)"
| "proxy_step (ClientError targetOpen targetConnecting) x =
     (if px_connect x = NotConnecting then x
      else if targetOpen then px_close False 1011 ''Client WebSocket error'' x
      else if targetConnecting then px_close False 0 [] x else x)"

end
