(* ===== verification/EngineRunner.thy ===== *)
theory EngineRunner
  imports FsState
begin

text \<open>
  \<open>EngineActorDriver\<close> of \<open>drivers/engine/actor-driver.ts\<close>: the actors a runner of the Rivet Engine holds
  and the data it keeps for them.

  The runner and the actor instances are outside: starting and stopping an instance, and the requests
  to the engine's key-value store, are answered by events.  The WebSocket glue is left out.
\<close>

section \<open>State\<close>

text \<open>\<open>ActorHandler\<close>: the instance by number, whether there is a start promise (and nobody has resolved it),
  and the data.\<close>

record actor_handler =
  ha_actor :: "nat option"
  ha_starting :: bool
  ha_persistedData :: "bytes option"

record engine_runner =
  er_actors :: "(string \<times> actor_handler) list"
  er_nextActor :: nat
  er_kv :: "(string \<times> bytes) list"
  er_puts :: "(string \<times> bytes) list"
  er_gets :: "string list"

definition new_runner :: "(string \<times> bytes) list \<Rightarrow> engine_runner" where
  "new_runner kv = \<lparr>er_actors = [], er_nextActor = 0, er_kv = kv, er_puts = [], er_gets = []\<rparr>"

record runner_actor_config =
  rc_name :: string
  rc_key :: "string option"
  rc_input :: "bytes option"

section \<open>Loading\<close>

text \<open>\<open>#loadActorHandler\<close>: it throws, waits for the start, or has the instance.\<close>

datatype load_result = Load_throws js_err | Load_waits | Loaded nat

definition engine_loadActor :: "string \<Rightarrow> engine_runner \<Rightarrow> load_result" where
  "engine_loadActor actorId r =
     (case jm_get (er_actors r) actorId of
        None \<Rightarrow> Load_throws (EError ''Error'' (''Actor handler does not exist '' @ actorId))
      | Some h \<Rightarrow>
          if ha_starting h then Load_waits
          else (case ha_actor h of None \<Rightarrow> Load_throws (EError ''Error'' ''Actor should be loaded'') | Some a \<Rightarrow> Loaded a))"

definition not_loaded :: "string \<Rightarrow> js_err" where
  "not_loaded actorId = EError ''Error'' (''Actor '' @ actorId @ '' not loaded'')"

section \<open>Data\<close>

datatype read_result = Read_throws js_err | Read_memory bytes | Asked_engine

definition upd_handler :: "string \<Rightarrow> (actor_handler \<Rightarrow> actor_handler) \<Rightarrow> engine_runner \<Rightarrow> engine_runner" where
  "upd_handler actorId f r =
     (case jm_get (er_actors r) actorId of
        None \<Rightarrow> r
      | Some h \<Rightarrow> r\<lparr>er_actors := jm_set actorId (f h) (er_actors r)\<rparr>)"

definition engine_readPersistedData :: "string \<Rightarrow> engine_runner \<Rightarrow> read_result \<times> engine_runner" where
  "engine_readPersistedData actorId r =
     (case jm_get (er_actors r) actorId of
        None \<Rightarrow> (Read_throws (not_loaded actorId), r)
      | Some h \<Rightarrow>
          (case ha_persistedData h of
             Some d \<Rightarrow> (Read_memory d, r)
           | None \<Rightarrow> (Asked_engine, r\<lparr>er_gets := er_gets r @ [actorId]\<rparr>)))"

text \<open>What the engine answered is kept; null is not.\<close>

definition kv_answered :: "string \<Rightarrow> engine_runner \<Rightarrow> bytes option \<times> engine_runner" where
  "kv_answered actorId r =
     (case jm_get (er_kv r) actorId of
        None \<Rightarrow> (None, r)
      | Some v \<Rightarrow> (Some v, upd_handler actorId (\<lambda>h. h\<lparr>ha_persistedData := Some v\<rparr>) r))"

definition engine_writePersistedData :: "string \<Rightarrow> bytes \<Rightarrow> engine_runner \<Rightarrow> js_err option \<times> engine_runner" where
  "engine_writePersistedData actorId data r =
     (case jm_get (er_actors r) actorId of
        None \<Rightarrow> (Some (not_loaded actorId), r)
      | Some h \<Rightarrow> (None, (upd_handler actorId (\<lambda>h. h\<lparr>ha_persistedData := Some data\<rparr>) r)\<lparr>er_puts := er_puts r @ [(actorId, data)]\<rparr>))"

text \<open>\<open>setAlarm\<close> does nothing.\<close>

definition engine_setAlarm :: "nat \<Rightarrow> int \<Rightarrow> engine_runner \<Rightarrow> engine_runner" where
  "engine_setAlarm actor timestamp r = r"

section \<open>Starting and stopping\<close>

text \<open>\<open>#runnerOnActorStart\<close> up to \<open>actor.start\<close>: the error it throws, if any.  A handler that is already
  there is used again.\<close>

definition start_handler :: "fs_env \<Rightarrow> string \<Rightarrow> jsval \<Rightarrow> engine_runner \<Rightarrow> js_err + engine_runner" where
  "start_handler fe actorId input r =
     (case jm_get (er_actors r) actorId of
        Some h \<Rightarrow> Inr r
      | None \<Rightarrow>
          andThen (serializeEmptyPersistData fe input) (\<lambda>bytes.
            Inr (r\<lparr>er_actors := jm_set actorId \<lparr>ha_actor = None, ha_starting = True, ha_persistedData = Some bytes\<rparr> (er_actors r)\<rparr>)))"

definition runnerOnActorStart :: "fs_env \<Rightarrow> string \<Rightarrow> runner_actor_config \<Rightarrow> engine_runner \<Rightarrow> js_err option \<times> engine_runner" where
  "runnerOnActorStart fe actorId config r =
     (case (case rc_input config of None \<Rightarrow> Inr JUndef | Some b \<Rightarrow> cd_cbor_decode (fe_codec fe) b) of
        Inl e \<Rightarrow> (Some e, r)
      | Inr input \<Rightarrow>
          (case start_handler fe actorId input r of
             Inl e \<Rightarrow> (Some e, r)
           | Inr r1 \<Rightarrow>
               if rc_key config = None \<or> rc_key config = Some [] then (Some (invariant_error ''actor should have a key''), r1)
               else if rc_name config \<notin> set (fe_use fe) then
                 (Some (EError ''Error'' (''no actor in registry for name '' @ rc_name config)), r1)
               else (None, (upd_handler actorId (\<lambda>h. h\<lparr>ha_actor := Some (er_nextActor r1)\<rparr>) r1)\<lparr>er_nextActor := Suc (er_nextActor r1)\<rparr>)))"

definition start_settled :: "string \<Rightarrow> js_err option \<Rightarrow> engine_runner \<Rightarrow> engine_runner" where
  "start_settled actorId err r =
     (case err of
        Some e \<Rightarrow> r
      | None \<Rightarrow> upd_handler actorId (\<lambda>h. h\<lparr>ha_starting := False\<rparr>) r)"

text \<open>\<open>#runnerOnActorStop\<close>: whether an instance is stopped; then the handler goes.\<close>

definition runnerOnActorStop :: "string \<Rightarrow> engine_runner \<Rightarrow> nat option" where
  "runnerOnActorStop actorId r = Option.bind (jm_get (er_actors r) actorId) ha_actor"

definition stop_settled :: "string \<Rightarrow> js_err option \<Rightarrow> engine_runner \<Rightarrow> engine_runner" where
  "stop_settled actorId err r = (case err of Some e \<Rightarrow> r | None \<Rightarrow> r\<lparr>er_actors := jm_del actorId (er_actors r)\<rparr>)"

section \<open>Steps\<close>

datatype runner_event =
    ActorStart string runner_actor_config
  | StartSettled string "js_err option"
  | StopSettled string "js_err option"
  | ReadData string
  | KvGetAnswered string
  | WriteData string bytes
  | KvPutDone nat

fun runner_step :: "fs_env \<Rightarrow> runner_event \<Rightarrow> engine_runner \<Rightarrow> engine_runner" where
  "runner_step fe (ActorStart i cfg) r = snd (runnerOnActorStart fe i cfg r)"
| "runner_step fe (StartSettled i e) r = start_settled i e r"
| "runner_step fe (StopSettled i e) r = (if runnerOnActorStop i r = None then r else stop_settled i e r)"
| "runner_step fe (ReadData i) r = snd (engine_readPersistedData i r)"
| "runner_step fe (KvGetAnswered i) r = (if i \<in> set (er_gets r) then snd (kv_answered i r) else r)"
| "runner_step fe (WriteData i d) r = snd (engine_writePersistedData i d r)"
| "runner_step fe (KvPutDone k) r =
     (if k < length (er_puts r) then r\<lparr>er_kv := jm_set (fst (er_puts r ! k)) (snd (er_puts r ! k)) (er_kv r)\<rparr> else r)"

definition runner_run :: "fs_env \<Rightarrow> runner_event list \<Rightarrow> engine_runner \<Rightarrow> engine_runner" where
  "runner_run fe evs r = fold (runner_step fe) evs r"

section \<open>Stored data is never read\<close>

definition data_inv :: "engine_runner \<Rightarrow> bool" where
  "data_inv r \<longleftrightarrow> er_gets r = [] \<and> (\<forall>i h. jm_get (er_actors r) i = Some h \<longrightarrow> ha_persistedData h \<noteq> None)"

lemma data_inv_upd:
  assumes "data_inv r" and "\<And>h. ha_persistedData h \<noteq> None \<Longrightarrow> ha_persistedData (f h) \<noteq> None"
  shows "data_inv (upd_handler i f r)"
  using assms by (auto simp: data_inv_def upd_handler_def split: option.splits)

lemma data_inv_more [simp]:
  "data_inv (r\<lparr>er_puts := p\<rparr>) = data_inv r" "data_inv (r\<lparr>er_kv := kv\<rparr>) = data_inv r" "data_inv (r\<lparr>er_nextActor := n\<rparr>) = data_inv r"
  by (simp_all add: data_inv_def)

lemma data_inv_handler: "data_inv r \<Longrightarrow> start_handler fe i input r = Inr r1 \<Longrightarrow> data_inv r1"
  by (auto simp: start_handler_def data_inv_def andThen_Inr split: option.splits if_splits)

lemma data_inv_start: "data_inv r \<Longrightarrow> data_inv (snd (runnerOnActorStart fe i cfg r))"
  by (auto simp: runnerOnActorStart_def split: sum.split dest: data_inv_handler intro!: data_inv_upd)

lemma data_inv_step: "data_inv r \<Longrightarrow> data_inv (runner_step fe ev r)"
proof (cases ev)
  case (ReadData i)
  assume "data_inv r"
  then show ?thesis
    by (auto simp: ReadData engine_readPersistedData_def data_inv_def split: option.split)
qed (auto simp: data_inv_start start_settled_def stop_settled_def kv_answered_def engine_writePersistedData_def
    split: option.split intro!: data_inv_upd, auto simp: data_inv_def)

text \<open>
  C9.  The engine driver never reads what it stored.  Whatever has happened, its key-value store has not
  been asked, and it is not asked; an actor that is started where the runner has no handler for it, as
  after every stop, reads empty data made from its input, whatever was stored for it.
\<close>

theorem engine_restart_forgets:
  assumes "runner_run fe evs (new_runner kv) = r" and "jm_get (er_actors r) i = None"
    and "runnerOnActorStart fe i cfg r = (None, r')"
  shows "er_gets r' = []
    \<and> (\<exists>input bytes. serializeEmptyPersistData fe input = Inr bytes
        \<and> (case rc_input cfg of None \<Rightarrow> Inr JUndef | Some b \<Rightarrow> cd_cbor_decode (fe_codec fe) b) = Inr input
        \<and> engine_readPersistedData i r' = (Read_memory bytes, r'))"
proof -
  have "data_inv (runner_run fe evs r0)" if "data_inv r0" for r0
    using that by (induction evs arbitrary: r0) (simp_all add: runner_run_def data_inv_step)
  moreover have "data_inv (new_runner kv)" by (simp add: new_runner_def data_inv_def)
  ultimately have "data_inv r" using assms(1) by blast
  then have "er_gets r' = []" using data_inv_start [of r fe i cfg] assms(3) by (simp add: data_inv_def)
  then show ?thesis
    using assms(2,3)
    by (auto simp: runnerOnActorStart_def start_handler_def upd_handler_def engine_readPersistedData_def andThen_Inr
        split: sum.splits if_splits)
qed

definition chat_start :: runner_actor_config where
  "chat_start = \<lparr>rc_name = ''chat'', rc_key = Some ''/'', rc_input = None\<rparr>"

theorem engine_restart_forgets_witness:
  "jm_get (er_kv (runner_run chat_env [ActorStart ''a'' chat_start, StartSettled ''a'' None, WriteData ''a'' [7], KvPutDone 0,
       StopSettled ''a'' None] (new_runner []))) ''a'' = Some [7]
    \<and> (\<exists>bytes r'. serializeEmptyPersistData chat_env JUndef = Inr bytes \<and> bytes \<noteq> [7]
        \<and> engine_readPersistedData ''a'' r' = (Read_memory bytes, r'))"
proof -
  let ?r = "runner_run chat_env [ActorStart ''a'' chat_start, StartSettled ''a'' None, WriteData ''a'' [7], KvPutDone 0,
       StopSettled ''a'' None] (new_runner [])"
  obtain b where b: "serializeEmptyPersistData chat_env JUndef = Inr b" "b \<noteq> [7]"
    by (simp add: serializeEmptyPersistData_def encode_defined_def chat_env_def tiny_codec_def serializeWithEmbeddedVersion_def embedVersion_def u32_le_def)
  have use: "''chat'' \<in> set (fe_use chat_env)" by (simp add: chat_env_def)
  have st: "runnerOnActorStart chat_env i chat_start r = (None, r\<lparr>er_actors := jm_set i
      \<lparr>ha_actor = Some (er_nextActor r), ha_starting = True, ha_persistedData = Some b\<rparr> (er_actors r),
      er_nextActor := Suc (er_nextActor r)\<rparr>)" if "jm_get (er_actors r) i = None" for i r
    using that by (simp add: runnerOnActorStart_def start_handler_def chat_start_def b(1) use upd_handler_def)
  have r: "jm_get (er_kv ?r) ''a'' = Some [7]" "jm_get (er_actors ?r) ''a'' = None"
    by (simp_all add: runner_run_def st new_runner_def upd_handler_def start_settled_def engine_writePersistedData_def
        runnerOnActorStop_def stop_settled_def)
  show ?thesis
    using engine_restart_forgets [OF refl r(2) st [OF r(2)]] r(1) b by (auto simp: chat_start_def)
qed

end
