(* ===== verification/EngineProps.thy ===== *)
theory EngineProps
  imports EngineManager EngineRunner HandleProps
begin

text \<open>
  What the engine driver does: how it reports errors of the engine, where it sends requests to, and what
  its WebSocket proxy keeps of the order of messages.
\<close>

section \<open>Errors of the engine\<close>

lemma api_result_generic: "api_result eg a \<noteq> Inl (EngineApiError g c m)"
  by (simp add: api_result_def split: api_answer.split sum.split unit.split)

lemma never_not_found: "fst (apiCall eg api verb path body s) = Inl e \<Longrightarrow> \<not> is_not_found e"
  using api_result_generic
  by (cases e) (auto simp: apiCall_def is_not_found_def split: sum.splits)

text \<open>
  An error the engine reports is never recognised: \<open>apiCall\<close> throws \<open>EngineApiError\<close> inside its own \<open>try\<close>
  and the \<open>catch\<close> drops it.  Whatever the engine answers with a failing status, also that there is no
  such actor, the lookups throw instead of answering that there is none, and nothing can be created.
\<close>

theorem engine_errors_unrecognised:
  assumes "\<And>q t. aq_method q = ''GET'' \<Longrightarrow> fst (api q t) = ApiAnswer status statusText body" and "\<not> ok_status status"
    and "engine_key key = Inr k"
  shows "fst (md_getForId (engine_manager eg api) name actorId s) = Inl (EError ''Error'' (''API call failed: '' @ nat_str status @ '' '' @ statusText))
    \<and> fst (md_getWithKey (engine_manager eg api) name key s) = Inl (EError ''Error'' (''API call failed: '' @ nat_str status @ '' '' @ statusText))
    \<and> fst (md_createActor (engine_manager eg api) name key input region s)
        = Inl (EError ''Error'' (''API call failed: '' @ nat_str status @ '' '' @ statusText))"
proof -
  let ?e = "EError ''Error'' (''API call failed: '' @ nat_str status @ '' '' @ statusText)"
  have a: "fst (apiCall eg api ''GET'' path JUndef t) = Inl (OtherError ?e)" for path t
    using assms(1,2) by (simp add: apiCall_def api_result_def split: unit.split)
  have g: "fst (engine_getWithKey eg api name key s) = Inl ?e"
    using a assms(3) by (simp add: engine_getWithKey_def getActorById_def lookup_result_def is_not_found_def thrown_error_def)
  then have "fst (engine_createActor eg api name key input region s) = Inl ?e"
    by (cases "engine_getWithKey eg api name key s") (simp add: engine_createActor_def)
  moreover have "fst (engine_getForId eg api name actorId s) = Inl ?e"
    using a by (simp add: engine_getForId_def getActor_def lookup_result_def is_not_found_def thrown_error_def)
  ultimately show ?thesis using g by (simp add: engine_manager_def)
qed

section \<open>Where requests go\<close>

lemma jm_get_forwarded:
  "k \<notin> fst ` set hs \<Longrightarrow> jm_get (fold (\<lambda>(k, v). if forwarded_header k then jm_set k v else id) hs h) k = jm_get h k"
  by (induction hs arbitrary: h) auto

lemma proxy_header_wins:
  assumes "jm_wf ch" and "jm_get ch k = Some v" and "forwarded_header k"
  shows "jm_get (proxy_headers ch hs) k = Some v"
  using assms(1,2)
proof (induction ch arbitrary: hs)
  case (Cons p ch)
  obtain k' v' where p: "p = (k', v')" by fastforce
  show ?case
  proof (cases "k' = k")
    case True
    then have "k \<notin> fst ` set ch" "v' = v" using Cons.prems p by (auto simp: image_iff jm_wf_def)
    then show ?thesis using True assms(3) by (simp add: p proxy_headers_def jm_get_forwarded)
  next
    case False
    then show ?thesis using Cons p by (simp add: proxy_headers_def jm_wf_def)
  qed
qed simp

lemma lower_actor [simp]:
  "lower ''x-rivet-actor'' \<noteq> lower ''x-rivet-port''" "lower ''x-rivet-actor'' \<noteq> lower ''content-length''"
  "lower ''x-rivet-actor'' \<noteq> lower ''transfer-encoding''"
  by (code_simp)+

text \<open>
  C22.  An HTTP request that is sent on goes to the actor the manager found, whatever headers the client
  sent.  A WebSocket does not: the client's own \<open>x-rivet-actor\<close>, if it sent one, replaces the one of the
  actor it was let in to.
\<close>

theorem guard_target_of_requests:
  assumes "forwardHttpRequest eg verb pathname search hs body bodyUsed actorId = Inr f"
    and "engine_proxyWebSocket eg ch path actorId enc params authData = Inr (url, hs')"
    and "jm_wf ch" and "jm_get ch ''x-rivet-actor'' = Some other_actor"
  shows "get_header (fr_headers f) ''x-rivet-actor'' = Some actorId \<and> jm_get hs' ''x-rivet-actor'' = Some other_actor"
proof
  have g: "get_header (buildGuardHeadersForHttp hs actorId) ''x-rivet-actor'' = Some actorId"
    by (simp add: buildGuardHeadersForHttp_def guard_target_def)
  have d: "get_header (jm_del (lower ''transfer-encoding'') h) ''x-rivet-actor'' = get_header h ''x-rivet-actor''" for h
    by (simp add: get_header_def)
  show "get_header (fr_headers f) ''x-rivet-actor'' = Some actorId"
    using assms(1) by (auto simp: forwardHttpRequest_def Let_def g d split: if_splits)
  show "jm_get hs' ''x-rivet-actor'' = Some other_actor"
    using assms(2) proxy_header_wins [OF assms(3,4)]
    by (auto simp: engine_proxyWebSocket_def andThen_Inr forwarded_header_def)
qed

text \<open>The engine of the example answers everything with its error for an actor that is not there.\<close>

definition chat_engine :: engine_env where
  "chat_engine = \<lparr>eg_config = \<lparr>eg_endpoint = ''http://e'', eg_namespace = ''default'', eg_runnerName = ''rivetkit''\<rparr>,
     eg_codec = tiny_codec\<lparr>cd_json_parse := (\<lambda>_. Inr (JsObj [(''kind'', JsStr ''error''), (''group'', JsStr ''actor''), (''code'', JsStr ''not_found'')]))\<rparr>,
     eg_text = (\<lambda>_. ''text'')\<rparr>"

theorem guard_target_of_requests_witness:
  "\<exists>hs'. engine_proxyWebSocket chat_engine [(''x-rivet-actor'', ''mine'')] ''/connect/websocket'' ''allowed'' Json JNull JNull
      = Inr (''ws://e/connect/websocket'', hs') \<and> jm_get hs' ''x-rivet-actor'' = Some ''mine''"
proof -
  obtain hs' where h: "engine_proxyWebSocket chat_engine [(''x-rivet-actor'', ''mine'')] ''/connect/websocket'' ''allowed'' Json JNull JNull
      = Inr (''ws://e/connect/websocket'', hs')"
    by (simp add: engine_proxyWebSocket_def buildGuardHeadersForWebSocket_def chat_engine_def replace_first_def upt_rec)
  have f: "forwardHttpRequest chat_engine ''GET'' ''/x'' [] [] None False ''allowed'' =
      Inr \<lparr>fr_url = ''http://e/x'', fr_method = ''GET'', fr_headers = buildGuardHeadersForHttp [] ''allowed'', fr_body = None\<rparr>"
    by (simp add: forwardHttpRequest_def chat_engine_def)
  show ?thesis using guard_target_of_requests [OF f h, of "''mine''"] h by (simp add: jm_wf_def)
qed

theorem engine_errors_unrecognised_witness:
  "fst (md_getWithKey (engine_manager chat_engine (\<lambda>q t. (ApiAnswer 404 ''Not Found'' ''{}'', t))) (JStr ''chat'') (JArr []) ())
    = Inl (EError ''Error'' ''API call failed: 404 Not Found'')"
proof -
  have k: "engine_key (JArr []) = Inr (serializeActorKey [])" by (simp add: engine_key_def)
  have n: "nat_str 404 = ''404''" by code_simp
  show ?thesis
    using engine_errors_unrecognised [of "\<lambda>q t. (ApiAnswer 404 ''Not Found'' ''{}'', t)" 404 "''Not Found''" "''{}''", OF _ _ k,
        of chat_engine "JStr ''chat''" JNull "()"]
    by (simp add: ok_status_def n)
qed

section \<open>The WebSocket proxy\<close>

definition client_messages :: "proxy_event list \<Rightarrow> proxy_data list" where
  "client_messages evs = concat (map (\<lambda>e. case e of ClientMessage m \<Rightarrow> [m] | _ \<Rightarrow> []) evs)"

lemma proxy_step_order:
  assumes "subseq (px_toTarget x @ px_waiting x) ms"
  shows "subseq (px_toTarget (proxy_step e x) @ px_waiting (proxy_step e x)) (ms @ (case e of ClientMessage m \<Rightarrow> [m] | _ \<Rightarrow> []))"
proof (cases e)
  case (ClientMessage m)
  have "subseq (px_toTarget x @ px_waiting x @ [m]) (ms @ [m])"
    using list_emb_append_mono [OF assms, of "[m]" "[m]"] by simp
  moreover have "subseq (px_toTarget x @ px_waiting x) (ms @ [m])" using assms by (rule list_emb_prefix)
  ultimately show ?thesis by (simp add: ClientMessage)
next
  case (MessagesResume t c)
  have "subseq (px_toTarget x) ms" 
    using list_emb_prefix [OF subseq_order.order_refl] assms by (rule subseq_order.order_trans)
  then show ?thesis
    using assms by (auto simp: MessagesResume send_waiting_def Let_def closeWebSocketIfOpen_def px_close_def)
next
  case (TargetMessage d)
  then show ?thesis using assms by (cases d) auto
qed (use assms in \<open>auto simp: closeWebSocketIfOpen_def px_close_def split: option.split\<close>)

text \<open>What reaches the target is what the client sent, in order, with nothing twice; messages may be missing.\<close>

lemma proxy_keeps_client_order:
  "subseq (px_toTarget (fold proxy_step evs createWebSocketProxy)) (client_messages evs)"
proof -
  have "subseq (px_toTarget (fold proxy_step evs x) @ px_waiting (fold proxy_step evs x)) (ms @ client_messages evs)"
    if "subseq (px_toTarget x @ px_waiting x) ms" for x ms
    using that
  proof (induction evs arbitrary: x ms)
    case (Cons e evs)
    show ?case using Cons.IH [OF proxy_step_order [OF Cons.prems]] by (simp add: client_messages_def)
  qed (simp add: client_messages_def)
  from this [of createWebSocketProxy "[]"]
  have "subseq (px_toTarget (fold proxy_step evs createWebSocketProxy) @ px_waiting (fold proxy_step evs createWebSocketProxy)) (client_messages evs)"
    by (simp add: createWebSocketProxy_def)
  then show ?thesis by (rule subseq_order.order_trans [OF list_emb_prefix [OF subseq_order.order_refl]])
qed

text \<open>In the other direction a text overtakes binary data that came as a \<open>Blob\<close>, and data of another
  kind, like the buffers of the package \<open>ws\<close>, is lost.\<close>

lemma blob_overtaken:
  "px_toClient (fold proxy_step [ClientOpened True, TargetOpened True, TargetMessage (PBlob b), TargetMessage (PText t), BlobRead 0]
     createWebSocketProxy) = [PText t, PBytes b]"
  "px_toClient (fold proxy_step [ClientOpened True, TargetOpened True, TargetMessage PUnknown] createWebSocketProxy) = []"
  by (simp_all add: createWebSocketProxy_def)

text \<open>A message of a client whose socket is open before the proxy has begun to connect is dropped.\<close>

lemma early_proxy_message_dropped:
  "px_toTarget (fold proxy_step [ClientMessage m, ClientOpened True, TargetOpened True, MessagesResume True True]
     createWebSocketProxy) = []"
  by (simp add: createWebSocketProxy_def send_waiting_def)

end
