(* ===== verification/CloudflareObject.thy ===== *)
theory CloudflareObject
  imports FsState
begin

text \<open>
  The durable object of the Cloudflare driver: \<open>actor-handler-do.ts\<close> and the actor driver it builds,
  \<open>actor-driver.ts\<close> (package \<open>cloudflare-workers\<close>).

  The platform delivers calls (\<open>initialize\<close>, \<open>fetch\<close>, \<open>alarm\<close>), keeps the storage and answers its
  operations; actor instances are outside, and whether one starts is told by an event.  Every
  \<open>await\<close> is a task that an event continues, in any order.
\<close>

section \<open>State\<close>

text \<open>Who waits for \<open>#loadActor\<close>, and what an instance is loaded for.\<close>

datatype do_caller = By_initialize | By_fetch nat | By_alarm

datatype do_purpose = To_boot do_caller | To_serve nat | To_alarm

definition caller_of :: "do_purpose \<Rightarrow> do_caller" where
  "caller_of p = (case p of To_boot c \<Rightarrow> c | To_serve r \<Rightarrow> By_fetch r | To_alarm \<Rightarrow> By_alarm)"

text \<open>\<open>ActorHandler\<close> of the actor driver: the instance by number, and whether \<open>actorPromise\<close> is there,
  unresolved.  A driver's map has one entry at most, as an object asks it for its own id alone.\<close>

record do_handler =
  dh_actor :: "nat option"
  dh_starting :: bool

datatype do_task =
    Stored string "string list"
  | Got_data do_caller "string option" "string list option" "bytes option"
  | Init_awaited do_caller
  | Got_name do_purpose nat "string option" "string list option"
  | Starting do_purpose nat nat
  | Load_awaited do_purpose nat

datatype init_promise = No_promise | Init_pending | Init_resolved

text \<open>The storage; the fields of the object; the drivers built so far; the instances, with what they were
  started with; the awaits; then what was done: requests handed to an instance, instances whose
  \<open>_onAlarm\<close> was called, calls that were rejected.\<close>

record durable_object =
  do_name :: "string option"
  do_key :: "string list option"
  do_data :: "bytes option"
  do_alarm :: "int option"
  do_initialized :: "(string \<times> string list) option"
  do_initPromise :: init_promise
  do_router :: "nat option"
  do_registered :: bool
  do_drivers :: "do_handler option list"
  do_instances :: "(string \<times> string list) list"
  do_tasks :: "do_task list"
  do_served :: "(nat \<times> nat) list"
  do_alarmed :: "nat list"
  do_failed :: "(do_caller \<times> js_err) list"

text \<open>An object with the given storage in a new isolate.\<close>

definition boot_object ::
    "string option \<Rightarrow> string list option \<Rightarrow> bytes option \<Rightarrow> int option \<Rightarrow> durable_object" where
  "boot_object n k d t = \<lparr>do_name = n, do_key = k, do_data = d, do_alarm = t, do_initialized = None,
     do_initPromise = No_promise, do_router = None, do_registered = False, do_drivers = [], do_instances = [],
     do_tasks = [], do_served = [], do_alarmed = [], do_failed = []\<rparr>"

definition new_object :: durable_object where
  "new_object = boot_object None None None None"

definition add_task :: "do_task \<Rightarrow> durable_object \<Rightarrow> durable_object" where
  "add_task t s = s\<lparr>do_tasks := do_tasks s @ [t]\<rparr>"

definition reject :: "do_caller \<Rightarrow> js_err \<Rightarrow> durable_object \<Rightarrow> durable_object" where
  "reject c e s = s\<lparr>do_failed := do_failed s @ [(c, e)]\<rparr>"

section \<open>The actor driver\<close>

definition handler_at :: "durable_object \<Rightarrow> nat \<Rightarrow> do_handler option" where
  "handler_at s d = (if d < length (do_drivers s) then do_drivers s ! d else None)"

definition set_handler :: "nat \<Rightarrow> do_handler \<Rightarrow> durable_object \<Rightarrow> durable_object" where
  "set_handler d h s = s\<lparr>do_drivers := (do_drivers s)[d := Some h]\<rparr>"

definition new_driver :: "durable_object \<Rightarrow> nat \<times> durable_object" where
  "new_driver s = (length (do_drivers s), s\<lparr>do_drivers := do_drivers s @ [None]\<rparr>)"

definition missing_state :: js_err where
  "missing_state = invariant_error ''durable object state not in global state''"

text \<open>The end of waiting for a handler, \<open>go\<close> being what is done with the instance.\<close>

definition handler_loaded ::
    "(do_purpose \<Rightarrow> nat \<Rightarrow> nat \<Rightarrow> durable_object \<Rightarrow> durable_object) \<Rightarrow> nat \<Rightarrow> do_purpose \<Rightarrow> do_handler
     \<Rightarrow> durable_object \<Rightarrow> durable_object" where
  "handler_loaded go d p h s =
     (case dh_actor h of
        None \<Rightarrow> reject (caller_of p) (EError ''Error'' ''Actor should be loaded'') s
      | Some a \<Rightarrow> go p d a s)"

text \<open>\<open>loadActor\<close> up to its first \<open>await\<close>.\<close>

definition driver_loadActor ::
    "(do_purpose \<Rightarrow> nat \<Rightarrow> nat \<Rightarrow> durable_object \<Rightarrow> durable_object) \<Rightarrow> nat \<Rightarrow> do_purpose
     \<Rightarrow> durable_object \<Rightarrow> durable_object" where
  "driver_loadActor go d p s =
     (case handler_at s d of
        Some h \<Rightarrow>
          if dh_starting h then add_task (Load_awaited p d) s
          else handler_loaded go d p h s
      | None \<Rightarrow>
          (let s1 = set_handler d \<lparr>dh_actor = None, dh_starting = True\<rparr> s
           in if \<not> do_registered s1 then reject (caller_of p) missing_state s1
              else add_task (Got_name p d (do_name s1) (do_key s1)) s1))"

text \<open>\<open>loadActor\<close> from the name and the key to \<open>actor.start\<close>.\<close>

definition start_instance :: "fs_env \<Rightarrow> string \<Rightarrow> do_purpose \<Rightarrow> nat \<Rightarrow> string option \<Rightarrow> string list option
     \<Rightarrow> durable_object \<Rightarrow> durable_object" where
  "start_instance fe actorId p d name key s =
     (case (name, key) of
        (Some (c # cs), Some k) \<Rightarrow>
          if c # cs \<notin> set (fe_use fe) then
            reject (caller_of p) (EError ''Error'' (''no actor in registry for name '' @ c # cs)) s
          else (case handler_at s d of
                  None \<Rightarrow> s
                | Some h \<Rightarrow>
                    (let i = length (do_instances s)
                     in add_task (Starting p d i)
                          (set_handler d (h\<lparr>dh_actor := Some i\<rparr>)
                             (s\<lparr>do_instances := do_instances s @ [(c # cs, k)]\<rparr>))))
      | (Some (c # cs), None) \<Rightarrow>
          reject (caller_of p) (EError ''Error'' (''Actor '' @ actorId @ '' is not initialized - missing key'')) s
      | _ \<Rightarrow> reject (caller_of p) (EError ''Error'' (''Actor '' @ actorId @ '' is not initialized - missing name'')) s)"

text \<open>The rest of \<open>loadActor\<close>.  When the start throws, the promise stays as it is.\<close>

definition instance_started ::
    "(do_purpose \<Rightarrow> nat \<Rightarrow> nat \<Rightarrow> durable_object \<Rightarrow> durable_object) \<Rightarrow> do_purpose \<Rightarrow> nat \<Rightarrow> nat \<Rightarrow> js_err option
     \<Rightarrow> durable_object \<Rightarrow> durable_object" where
  "instance_started go p d i err s =
     (case err of
        Some e \<Rightarrow> reject (caller_of p) e s
      | None \<Rightarrow>
          (case handler_at s d of
             None \<Rightarrow> s
           | Some h \<Rightarrow> go p d i (set_handler d (h\<lparr>dh_starting := False\<rparr>) s)))"

text \<open>\<open>readPersistedData\<close>, \<open>writePersistedData\<close> and \<open>setAlarm\<close> of any driver go to the storage of the object.\<close>

definition do_readPersistedData :: "durable_object \<Rightarrow> js_err + bytes option" where
  "do_readPersistedData s = (if do_registered s then Inr (do_data s) else Inl missing_state)"

definition do_writePersistedData :: "bytes \<Rightarrow> durable_object \<Rightarrow> js_err + durable_object" where
  "do_writePersistedData b s = (if do_registered s then Inr (s\<lparr>do_data := Some b\<rparr>) else Inl missing_state)"

definition do_setAlarm :: "int \<Rightarrow> durable_object \<Rightarrow> js_err + durable_object" where
  "do_setAlarm t s = (if do_registered s then Inr (s\<lparr>do_alarm := Some t\<rparr>) else Inl missing_state)"

section \<open>The object\<close>

text \<open>What the instance was loaded for.  A request is handed by the actor's router to the instance its
  driver has.\<close>

definition answered :: "do_purpose \<Rightarrow> nat \<Rightarrow> nat \<Rightarrow> durable_object \<Rightarrow> durable_object" where
  "answered p d a s =
     (case p of
        To_boot c \<Rightarrow> s
      | To_serve r \<Rightarrow> s\<lparr>do_served := do_served s @ [(r, a)]\<rparr>
      | To_alarm \<Rightarrow> s\<lparr>do_alarmed := do_alarmed s @ [a]\<rparr>)"

text \<open>What the three calls do after \<open>#loadActor\<close>, which gave the router of driver \<open>d\<close>.  \<open>alarm\<close> builds a
  driver of its own.\<close>

definition after_load :: "do_caller \<Rightarrow> nat \<Rightarrow> durable_object \<Rightarrow> durable_object" where
  "after_load c d s =
     (case c of
        By_initialize \<Rightarrow> s
      | By_fetch r \<Rightarrow> driver_loadActor answered d (To_serve r) s
      | By_alarm \<Rightarrow> (let (d', s1) = new_driver s in driver_loadActor answered d' To_alarm s1))"

definition instance_loaded :: "do_purpose \<Rightarrow> nat \<Rightarrow> nat \<Rightarrow> durable_object \<Rightarrow> durable_object" where
  "instance_loaded p d a s = (case p of To_boot c \<Rightarrow> after_load c d s | _ \<Rightarrow> answered p d a s)"

text \<open>\<open>#loadActor\<close> after the wait for initialization.\<close>

definition load_rest :: "do_caller \<Rightarrow> durable_object \<Rightarrow> durable_object" where
  "load_rest c s =
     (case do_router s of
        Some d \<Rightarrow> after_load c d s
      | None \<Rightarrow>
          if do_initialized s = None then reject c (EError ''Error'' ''Not initialized'') s
          else (let (d, s1) = new_driver (s\<lparr>do_registered := True\<rparr>)
                in driver_loadActor instance_loaded d (To_boot c) (s1\<lparr>do_router := Some d\<rparr>)))"

definition object_loadActor :: "do_caller \<Rightarrow> durable_object \<Rightarrow> durable_object" where
  "object_loadActor c s =
     (if do_initialized s \<noteq> None then load_rest c s
      else if do_initPromise s \<noteq> No_promise then add_task (Init_awaited c) s
      else add_task (Got_data c (do_name s) (do_key s) (do_data s)) (s\<lparr>do_initPromise := Init_pending\<rparr>))"

text \<open>\<open>#loadActor\<close> when the storage has answered.\<close>

definition data_read :: "do_caller \<Rightarrow> string option \<Rightarrow> string list option \<Rightarrow> bytes option \<Rightarrow> durable_object \<Rightarrow> durable_object" where
  "data_read c name key data s =
     (if data = None then load_rest c s
      else if name = None \<or> name = Some [] then reject c (EError ''Error'' ''missing actor name'') s
      else if key = None then reject c (EError ''Error'' ''missing actor key'') s
      else load_rest c (s\<lparr>do_initialized := Some (the name, the key), do_initPromise := Init_resolved\<rparr>))"

text \<open>\<open>initialize\<close> up to the end of \<open>storage.put\<close>, and after it.\<close>

definition do_initialize :: "fs_env \<Rightarrow> string \<Rightarrow> string list \<Rightarrow> jsval \<Rightarrow> durable_object \<Rightarrow> durable_object" where
  "do_initialize fe name key input s =
     (case serializeEmptyPersistData fe input of
        Inl e \<Rightarrow> reject By_initialize e s
      | Inr b \<Rightarrow> add_task (Stored name key) (s\<lparr>do_name := Some name, do_key := Some key, do_data := Some b\<rparr>))"

definition initialize_stored :: "string \<Rightarrow> string list \<Rightarrow> durable_object \<Rightarrow> durable_object" where
  "initialize_stored name key s = object_loadActor By_initialize (s\<lparr>do_initialized := Some (name, key)\<rparr>)"

section \<open>Steps\<close>

definition task_ready :: "do_task \<Rightarrow> durable_object \<Rightarrow> bool" where
  "task_ready t s =
     (case t of
        Init_awaited c \<Rightarrow> do_initPromise s = Init_resolved
      | Load_awaited p d \<Rightarrow> (case handler_at s d of None \<Rightarrow> False | Some h \<Rightarrow> \<not> dh_starting h)
      | Starting p d i \<Rightarrow> False
      | _ \<Rightarrow> True)"

definition continue_task :: "fs_env \<Rightarrow> string \<Rightarrow> do_task \<Rightarrow> durable_object \<Rightarrow> durable_object" where
  "continue_task fe actorId t s =
     (case t of
        Stored n k \<Rightarrow> initialize_stored n k s
      | Got_data c n k b \<Rightarrow> data_read c n k b s
      | Init_awaited c \<Rightarrow> load_rest c s
      | Got_name p d n k \<Rightarrow> start_instance fe actorId p d n k s
      | Starting p d i \<Rightarrow> s
      | Load_awaited p d \<Rightarrow> (case handler_at s d of None \<Rightarrow> s | Some h \<Rightarrow> handler_loaded instance_loaded d p h s))"

datatype do_event =
    Initialize_call string "string list" jsval
  | Fetch_call nat
  | Alarm_call
  | Continue nat
  | Start_done nat "js_err option"
  | Write_data bytes
  | Set_alarm int
  | Evict

definition drop_task :: "nat \<Rightarrow> durable_object \<Rightarrow> durable_object" where
  "drop_task k s = s\<lparr>do_tasks := splice_out k (do_tasks s)\<rparr>"

definition or_same :: "js_err + 's \<Rightarrow> 's \<Rightarrow> 's" where
  "or_same r s = (case r of Inl e \<Rightarrow> s | Inr s' \<Rightarrow> s')"

fun do_step :: "fs_env \<Rightarrow> string \<Rightarrow> do_event \<Rightarrow> durable_object \<Rightarrow> durable_object" where
  "do_step fe i (Initialize_call n k inp) s = do_initialize fe n k inp s"
| "do_step fe i (Fetch_call r) s = object_loadActor (By_fetch r) s"
| "do_step fe i Alarm_call s = object_loadActor By_alarm (s\<lparr>do_alarm := None\<rparr>)"
| "do_step fe i (Continue k) s =
     (if k < length (do_tasks s) \<and> task_ready (do_tasks s ! k) s
      then continue_task fe i (do_tasks s ! k) (drop_task k s) else s)"
| "do_step fe i (Start_done k err) s =
     (if k < length (do_tasks s) then
        (case do_tasks s ! k of Starting p d a \<Rightarrow> instance_started instance_loaded p d a err (drop_task k s) | _ \<Rightarrow> s)
      else s)"
| "do_step fe i (Write_data b) s = or_same (do_writePersistedData b s) s"
| "do_step fe i (Set_alarm t) s = or_same (do_setAlarm t s) s"
| "do_step fe i Evict s = boot_object (do_name s) (do_key s) (do_data s) (do_alarm s)"

definition do_run :: "fs_env \<Rightarrow> string \<Rightarrow> do_event list \<Rightarrow> durable_object \<Rightarrow> durable_object" where
  "do_run fe i evs s = fold (do_step fe i) evs s"

end
