(* ===== verification/CloudflareInv.thy ===== *)
theory CloudflareInv
  imports CloudflareObject
begin

text \<open>
  Which instance a durable object gives its calls to: an invariant of \<open>do_step\<close>.
\<close>

section \<open>The invariant\<close>

definition actor_at :: "durable_object \<Rightarrow> nat \<Rightarrow> nat option" where
  "actor_at s d = Option.bind (handler_at s d) dh_actor"

text \<open>Only the alarm is loaded by another driver than the router's.\<close>

definition purpose_ok :: "durable_object \<Rightarrow> do_purpose \<Rightarrow> nat \<Rightarrow> bool" where
  "purpose_ok s p d \<longleftrightarrow> d < length (do_drivers s) \<and> (p = To_alarm \<longleftrightarrow> do_router s \<noteq> Some d)"

definition task_ok :: "durable_object \<Rightarrow> do_task \<Rightarrow> bool" where
  "task_ok s t =
     (case t of
        Got_name p d n k \<Rightarrow> purpose_ok s p d \<and> actor_at s d = None \<and> handler_at s d \<noteq> None
      | Starting p d i \<Rightarrow> purpose_ok s p d \<and> actor_at s d = Some i
      | Load_awaited p d \<Rightarrow> purpose_ok s p d
      | _ \<Rightarrow> True)"

definition got_driver :: "do_task \<Rightarrow> nat list" where
  "got_driver t = (case t of Got_name p d n k \<Rightarrow> [d] | _ \<Rightarrow> [])"

definition do_inv :: "durable_object \<Rightarrow> bool" where
  "do_inv s \<longleftrightarrow>
     (\<forall>d. do_router s = Some d \<longrightarrow> d < length (do_drivers s))
     \<and> (\<forall>t\<in>set (do_tasks s). task_ok s t) \<and> distinct (concat (map got_driver (do_tasks s)))
     \<and> (\<forall>d a. actor_at s d = Some a \<longrightarrow> a < length (do_instances s))
     \<and> (\<forall>d d' a. actor_at s d = Some a \<longrightarrow> actor_at s d' = Some a \<longrightarrow> d = d')
     \<and> (\<forall>(r, a)\<in>set (do_served s). \<exists>d. do_router s = Some d \<and> actor_at s d = Some a)
     \<and> (\<forall>a\<in>set (do_alarmed s). \<exists>d. do_router s \<noteq> Some d \<and> actor_at s d = Some a)"

lemma do_invI:
  assumes "\<And>d. do_router s = Some d \<Longrightarrow> d < length (do_drivers s)"
    and "\<And>t. t \<in> set (do_tasks s) \<Longrightarrow> task_ok s t" and "distinct (concat (map got_driver (do_tasks s)))"
    and "\<And>d a. actor_at s d = Some a \<Longrightarrow> a < length (do_instances s)"
    and "\<And>d d' a. actor_at s d = Some a \<Longrightarrow> actor_at s d' = Some a \<Longrightarrow> d = d'"
    and "\<And>r a. (r, a) \<in> set (do_served s) \<Longrightarrow> \<exists>d. do_router s = Some d \<and> actor_at s d = Some a"
    and "\<And>a. a \<in> set (do_alarmed s) \<Longrightarrow> \<exists>d. do_router s \<noteq> Some d \<and> actor_at s d = Some a"
  shows "do_inv s"
  unfolding do_inv_def using assms by (intro conjI; blast)

lemma do_invD:
  assumes "do_inv s"
  shows "do_router s = Some d \<Longrightarrow> d < length (do_drivers s)"
    and "t \<in> set (do_tasks s) \<Longrightarrow> task_ok s t" and "distinct (concat (map got_driver (do_tasks s)))"
    and "actor_at s d = Some a \<Longrightarrow> a < length (do_instances s)"
    and "actor_at s d = Some a \<Longrightarrow> actor_at s d' = Some a \<Longrightarrow> d = d'"
    and "(r, a) \<in> set (do_served s) \<Longrightarrow> \<exists>d. do_router s = Some d \<and> actor_at s d = Some a"
    and "a \<in> set (do_alarmed s) \<Longrightarrow> \<exists>d. do_router s \<noteq> Some d \<and> actor_at s d = Some a"
  using assms unfolding do_inv_def by blast+

named_theorems do_simps \<open>how the parts of an object change\<close>

lemma object_view [do_simps]:
  "handler_at (s\<lparr>do_name := x1\<rparr>) = handler_at s" "handler_at (s\<lparr>do_key := x2\<rparr>) = handler_at s"
  "handler_at (s\<lparr>do_data := x3\<rparr>) = handler_at s" "handler_at (s\<lparr>do_alarm := x4\<rparr>) = handler_at s"
  "handler_at (s\<lparr>do_initialized := x5\<rparr>) = handler_at s" "handler_at (s\<lparr>do_initPromise := x6\<rparr>) = handler_at s"
  "handler_at (s\<lparr>do_router := x7\<rparr>) = handler_at s" "handler_at (s\<lparr>do_registered := x8\<rparr>) = handler_at s"
  "handler_at (s\<lparr>do_instances := x9\<rparr>) = handler_at s" "handler_at (s\<lparr>do_tasks := x10\<rparr>) = handler_at s"
  "handler_at (s\<lparr>do_served := x11\<rparr>) = handler_at s" "handler_at (s\<lparr>do_alarmed := x12\<rparr>) = handler_at s"
  "handler_at (s\<lparr>do_failed := x13\<rparr>) = handler_at s"
  by (simp_all add: fun_eq_iff handler_at_def)

lemma handler_at_set: "handler_at (set_handler d h s) e = (if e = d \<and> d < length (do_drivers s) then Some h else handler_at s e)"
  by (simp add: handler_at_def set_handler_def)

lemma handler_at_new: "handler_at (s\<lparr>do_drivers := do_drivers s @ [None]\<rparr>) = handler_at s"
  by (auto simp: fun_eq_iff handler_at_def nth_append)

lemma handler_bound: "handler_at s d = Some h \<Longrightarrow> d < length (do_drivers s)"
  by (simp add: handler_at_def split: if_splits)

lemma actor_bound: "actor_at s d = Some a \<Longrightarrow> d < length (do_drivers s)"
  by (auto simp: actor_at_def bind_eq_Some_conv dest: handler_bound)

lemma task_ok_cong:
  "handler_at s = handler_at s' \<Longrightarrow> do_router s = do_router s' \<Longrightarrow> length (do_drivers s) = length (do_drivers s') \<Longrightarrow>
     task_ok s t = task_ok s' t"
  by (simp add: task_ok_def purpose_ok_def actor_at_def split: do_task.split)

lemma purpose_ok_cong:
  "do_router s = do_router s' \<Longrightarrow> length (do_drivers s) = length (do_drivers s') \<Longrightarrow> purpose_ok s p d = purpose_ok s' p d"
  by (simp add: purpose_ok_def)

text \<open>What does not touch the drivers, the router and the tasks.\<close>

lemma do_inv_cong:
  assumes "do_drivers s' = do_drivers s" "do_router s' = do_router s" "do_tasks s' = do_tasks s"
    "do_instances s' = do_instances s" "do_served s' = do_served s" "do_alarmed s' = do_alarmed s"
  shows "do_inv s' = do_inv s"
proof -
  have h: "handler_at s' = handler_at s" by (simp add: fun_eq_iff handler_at_def assms)
  have "task_ok s' t = task_ok s t" for t by (rule task_ok_cong) (simp_all add: h assms)
  then show ?thesis by (simp add: do_inv_def actor_at_def h assms)
qed

lemma do_inv_fields [do_simps]:
  "do_inv (s\<lparr>do_name := x1\<rparr>) = do_inv s" "do_inv (s\<lparr>do_key := x2\<rparr>) = do_inv s"
  "do_inv (s\<lparr>do_data := x3\<rparr>) = do_inv s" "do_inv (s\<lparr>do_alarm := x4\<rparr>) = do_inv s"
  "do_inv (s\<lparr>do_initialized := x5\<rparr>) = do_inv s" "do_inv (s\<lparr>do_initPromise := x6\<rparr>) = do_inv s"
  "do_inv (s\<lparr>do_registered := x8\<rparr>) = do_inv s" "do_inv (s\<lparr>do_failed := x13\<rparr>) = do_inv s"
  by (rule do_inv_cong; simp)+

lemma do_inv_boot: "do_inv (boot_object n k d t)"
  by (simp add: do_inv_def boot_object_def actor_at_def handler_at_def)

lemma task_ok_add [simp]: "task_ok (s\<lparr>do_tasks := ts\<rparr>) = task_ok s"
  unfolding fun_eq_iff by (intro allI task_ok_cong) (simp_all add: do_simps)

lemma actor_at_tasks [simp]: "actor_at (s\<lparr>do_tasks := ts\<rparr>) = actor_at s"
  by (simp add: fun_eq_iff actor_at_def do_simps)

lemma do_inv_add_task:
  "do_inv s \<Longrightarrow> task_ok s t \<Longrightarrow> distinct (concat (map got_driver (do_tasks s)) @ got_driver t) \<Longrightarrow> do_inv (add_task t s)"
  by (auto simp: do_inv_def add_task_def)

lemma do_inv_add_other: "do_inv s \<Longrightarrow> task_ok s t \<Longrightarrow> got_driver t = [] \<Longrightarrow> do_inv (add_task t s)"
  by (rule do_inv_add_task) (simp_all add: do_inv_def)

lemma do_inv_reject [simp]: "do_inv (reject c e s) = do_inv s"
  by (simp add: reject_def do_simps)

lemma splice_out_set: "set (splice_out k xs) \<subseteq> set xs"
  by (auto simp: splice_out_def dest: in_set_takeD in_set_dropD)

lemma splice_out_split: "k < length xs \<Longrightarrow> \<exists>us vs. xs = us @ xs ! k # vs \<and> splice_out k xs = us @ vs"
  using id_take_nth_drop [of k xs] by (auto simp: splice_out_def)

lemma do_inv_drop:
  assumes "do_inv s" and k: "k < length (do_tasks s)"
  shows "do_inv (drop_task k s)"
    and "set (got_driver (do_tasks s ! k)) \<inter> set (concat (map got_driver (do_tasks (drop_task k s)))) = {}"
proof -
  obtain us vs where sp: "do_tasks s = us @ do_tasks s ! k # vs" "splice_out k (do_tasks s) = us @ vs"
    using splice_out_split [OF k] by blast
  have d: "distinct (concat (map got_driver (us @ do_tasks s ! k # vs)))"
    using assms(1) sp(1) by (simp add: do_inv_def)
  show "do_inv (drop_task k s)"
    using assms(1) splice_out_set [of k "do_tasks s"] d sp(2)
    by (auto simp: do_inv_def drop_task_def)
  show "set (got_driver (do_tasks s ! k)) \<inter> set (concat (map got_driver (do_tasks (drop_task k s)))) = {}"
    using d sp(2) by (auto simp: drop_task_def)
qed

section \<open>Every operation keeps it\<close>

text \<open>What may be done with an instance.\<close>

definition goes_on :: "(do_purpose \<Rightarrow> nat \<Rightarrow> nat \<Rightarrow> durable_object \<Rightarrow> durable_object) \<Rightarrow> bool" where
  "goes_on go \<longleftrightarrow> (\<forall>p d a s. do_inv s \<longrightarrow> purpose_ok s p d \<longrightarrow> actor_at s d = Some a \<longrightarrow> do_inv (go p d a s))"

lemma goes_onD: "goes_on go \<Longrightarrow> do_inv s \<Longrightarrow> purpose_ok s p d \<Longrightarrow> actor_at s d = Some a \<Longrightarrow> do_inv (go p d a s)"
  by (simp add: goes_on_def)

lemma handler_loaded_inv:
  assumes "goes_on go" "do_inv s" "purpose_ok s p d" "handler_at s d = Some h"
  shows "do_inv (handler_loaded go d p h s)"
  using assms(2,4) goes_onD [OF assms(1-3)]
  by (auto simp: handler_loaded_def actor_at_def split: option.split)

lemma new_handler_inv:
  assumes "do_inv s" and "handler_at s d = None"
  shows "do_inv (set_handler d \<lparr>dh_actor = None, dh_starting = b\<rparr> s)"
    and "d \<notin> set (concat (map got_driver (do_tasks s)))"
proof -
  let ?s = "set_handler d \<lparr>dh_actor = None, dh_starting = b\<rparr> s"
  have a: "actor_at ?s = actor_at s"
    using assms(2) by (auto simp: fun_eq_iff actor_at_def handler_at_set)
  have f: "do_router ?s = do_router s" "length (do_drivers ?s) = length (do_drivers s)" "do_tasks ?s = do_tasks s"
    "do_instances ?s = do_instances s" "do_served ?s = do_served s" "do_alarmed ?s = do_alarmed s"
    by (simp_all add: set_handler_def)
  have t: "task_ok s t \<Longrightarrow> task_ok ?s t" for t
    using a f by (auto simp: task_ok_def purpose_ok_def handler_at_set split: do_task.splits)
  show "do_inv ?s" using assms(1) t by (simp add: do_inv_def a f)
  show "d \<notin> set (concat (map got_driver (do_tasks s)))"
    using assms by (auto simp: do_inv_def got_driver_def task_ok_def split: do_task.splits)
qed

lemma driver_loadActor_inv:
  assumes "goes_on go" "do_inv s" "purpose_ok s p d"
  shows "do_inv (driver_loadActor go d p s)"
proof (cases "handler_at s d")
  case None
  let ?s = "set_handler d \<lparr>dh_actor = None, dh_starting = True\<rparr> s"
  have i: "do_inv ?s" and n: "d \<notin> set (concat (map got_driver (do_tasks s)))"
    using new_handler_inv [OF assms(2) None] by auto
  have t: "task_ok ?s (Got_name p d n' k)" for n' k
    using assms(3) by (simp add: task_ok_def purpose_ok_def actor_at_def handler_at_set) (simp add: set_handler_def)
  have ts: "do_tasks ?s = do_tasks s" by (simp add: set_handler_def)
  have "do_inv (add_task (Got_name p d (do_name ?s) (do_key ?s)) ?s)"
    using i t n assms(2) unfolding ts by (intro do_inv_add_task) (auto simp: ts got_driver_def do_inv_def)
  then show ?thesis using i by (simp add: driver_loadActor_def None Let_def)
next
  case (Some h)
  have "do_inv (add_task (Load_awaited p d) s)"
    using assms(2,3) by (intro do_inv_add_other) (simp_all add: task_ok_def got_driver_def)
  then show ?thesis using handler_loaded_inv [OF assms Some] by (simp add: driver_loadActor_def Some)
qed

lemma goes_on_answered: "goes_on answered"
proof -
  have "do_inv (answered p d a s)" if "do_inv s" "purpose_ok s p d" "actor_at s d = Some a" for p d a s
  proof -
    have h: "handler_at (answered p d a s) = handler_at s" by (simp add: answered_def do_simps split: do_purpose.split)
    then have t: "task_ok (answered p d a s) t = task_ok s t" for t
      by (intro task_ok_cong) (simp_all add: answered_def split: do_purpose.split)
    have a: "actor_at (answered p d a s) = actor_at s" by (simp add: fun_eq_iff actor_at_def h)
    note D = do_invD [OF that(1)]
    show ?thesis
    proof (rule do_invI)
      fix r b
      assume "(r, b) \<in> set (do_served (answered p d a s))"
      then show "\<exists>d'. do_router (answered p d a s) = Some d' \<and> actor_at (answered p d a s) d' = Some b"
        unfolding a using that(2,3) D(6) by (auto simp: answered_def purpose_ok_def split: do_purpose.splits)
    next
      fix b
      assume "b \<in> set (do_alarmed (answered p d a s))"
      then show "\<exists>d'. do_router (answered p d a s) \<noteq> Some d' \<and> actor_at (answered p d a s) d' = Some b"
        unfolding a using that(2,3) D(7) by (auto simp: answered_def purpose_ok_def split: do_purpose.splits)
    qed (use D(1-5) a t in \<open>simp_all add: answered_def split: do_purpose.splits\<close>)
  qed
  then show ?thesis by (simp add: goes_on_def)
qed

lemma new_driver_inv:
  assumes "do_inv s"
  shows "do_inv (s\<lparr>do_drivers := do_drivers s @ [None]\<rparr>)"
proof -
  have "task_ok s t \<Longrightarrow> task_ok (s\<lparr>do_drivers := do_drivers s @ [None]\<rparr>) t" for t
    by (auto simp: task_ok_def purpose_ok_def actor_at_def handler_at_new split: do_task.splits)
  then show ?thesis using assms by (auto simp: do_inv_def actor_at_def handler_at_new)
qed

lemma after_load_inv:
  assumes "do_inv s" and "do_router s = Some d"
  shows "do_inv (after_load c d s)"
proof -
  have "d < length (do_drivers s)" using assms by (simp add: do_inv_def)
  then have "do_inv (driver_loadActor answered d (To_serve r) s)" for r
    using assms by (intro driver_loadActor_inv [OF goes_on_answered]) (simp_all add: purpose_ok_def)
  moreover have "do_inv (driver_loadActor answered (length (do_drivers s)) To_alarm (s\<lparr>do_drivers := do_drivers s @ [None]\<rparr>))"
    using assms \<open>d < length (do_drivers s)\<close>
    by (intro driver_loadActor_inv [OF goes_on_answered] new_driver_inv) (auto simp: purpose_ok_def)
  ultimately show ?thesis using assms(1) by (simp add: after_load_def new_driver_def split: do_caller.split)
qed

lemma goes_on_loaded: "goes_on instance_loaded"
  using goes_onD [OF goes_on_answered] after_load_inv
  by (auto simp: goes_on_def instance_loaded_def purpose_ok_def split: do_purpose.split)

text \<open>The first load makes the router's driver.\<close>

lemma boot_router_inv:
  assumes "do_inv s" and "do_router s = None"
  shows "do_inv (s\<lparr>do_drivers := do_drivers s @ [None], do_router := Some (length (do_drivers s))\<rparr>)" (is "do_inv ?s")
proof -
  have h: "handler_at ?s = handler_at s" by (simp add: do_simps handler_at_new)
  then have a: "actor_at ?s = actor_at s" by (simp add: fun_eq_iff actor_at_def)
  have t: "task_ok s t \<Longrightarrow> task_ok ?s t" for t
    using assms(2) a h by (auto simp: task_ok_def purpose_ok_def split: do_task.splits)
  note D = do_invD [OF assms(1)]
  show ?thesis
  proof (rule do_invI)
    fix r b
    assume "(r, b) \<in> set (do_served ?s)"
    then show "\<exists>d'. do_router ?s = Some d' \<and> actor_at ?s d' = Some b" using D(6) assms(2) by auto
  next
    fix b
    assume "b \<in> set (do_alarmed ?s)"
    then obtain e where "actor_at s e = Some b" using D(7) by auto
    then show "\<exists>d'. do_router ?s \<noteq> Some d' \<and> actor_at ?s d' = Some b"
      unfolding a using actor_bound [of s e b] by (intro exI [of _ e]) simp
  qed (use D(2-5) a t in simp_all)
qed

lemma load_rest_inv: "do_inv s \<Longrightarrow> do_inv (load_rest c s)"
proof (cases "do_router s")
  case None
  assume i: "do_inv s"
  let ?s = "s\<lparr>do_registered := True, do_drivers := do_drivers s @ [None], do_router := Some (length (do_drivers s))\<rparr>"
  have "do_inv ?s"
    using boot_router_inv [of "s\<lparr>do_registered := True\<rparr>"] i None by (simp add: do_simps)
  then have "do_inv (driver_loadActor instance_loaded (length (do_drivers s)) (To_boot c) ?s)"
    by (intro driver_loadActor_inv goes_on_loaded) (simp_all add: purpose_ok_def)
  then show ?thesis using i by (simp add: load_rest_def None new_driver_def)
qed (simp add: load_rest_def after_load_inv)

lemma object_loadActor_inv: "do_inv s \<Longrightarrow> do_inv (object_loadActor c s)"
  by (auto simp: object_loadActor_def load_rest_inv do_simps task_ok_def got_driver_def intro!: do_inv_add_other)

text \<open>Setting a handler whose instance stays the same.\<close>

lemma same_actor_inv:
  assumes "do_inv s" and "handler_at s d = Some h" and "dh_actor h' = dh_actor h"
  shows "do_inv (set_handler d h' s)"
proof -
  let ?s = "set_handler d h' s"
  have a: "actor_at ?s = actor_at s"
    using assms(2,3) by (auto simp: fun_eq_iff actor_at_def handler_at_set)
  have f: "do_router ?s = do_router s" "length (do_drivers ?s) = length (do_drivers s)" "do_tasks ?s = do_tasks s"
    "do_instances ?s = do_instances s" "do_served ?s = do_served s" "do_alarmed ?s = do_alarmed s"
    by (simp_all add: set_handler_def)
  have t: "task_ok s t \<Longrightarrow> task_ok ?s t" for t
    using a f by (auto simp: task_ok_def purpose_ok_def handler_at_set split: do_task.splits)
  show "do_inv ?s" using assms(1) t by (simp add: do_inv_def a f)
qed

lemma instance_started_inv:
  assumes "do_inv s" "purpose_ok s p d" "actor_at s d = Some a"
  shows "do_inv (instance_started instance_loaded p d a err s)"
proof (cases "err = None \<and> handler_at s d \<noteq> None")
  case True
  then obtain h where h: "handler_at s d = Some h" by auto
  let ?s = "set_handler d (h\<lparr>dh_starting := False\<rparr>) s"
  have "do_inv ?s" using assms(1) h by (rule same_actor_inv) simp
  moreover have "purpose_ok ?s p d" using assms(2) by (simp add: purpose_ok_def set_handler_def)
  moreover have "actor_at ?s d = Some a" using assms(3) h handler_bound [OF h] by (simp add: actor_at_def handler_at_set)
  ultimately have "do_inv (instance_loaded p d a ?s)" by (rule goes_onD [OF goes_on_loaded])
  then show ?thesis using True h by (simp add: instance_started_def)
qed (auto simp: instance_started_def assms(1) split: option.split)

lemma start_instance_inv:
  assumes i: "do_inv s" and p: "purpose_ok s p d" and n: "actor_at s d = None"
    and g: "d \<notin> set (concat (map got_driver (do_tasks s)))"
  shows "do_inv (start_instance fe i p d name key s)"
proof -
  let ?a = "length (do_instances s)"
  have "do_inv (add_task (Starting p d ?a) (set_handler d (h\<lparr>dh_actor := Some ?a\<rparr>) (s\<lparr>do_instances := do_instances s @ [x]\<rparr>)))"
    if h: "handler_at s d = Some h" for h x
  proof -
    let ?s = "set_handler d (h\<lparr>dh_actor := Some ?a\<rparr>) (s\<lparr>do_instances := do_instances s @ [x]\<rparr>)"
    have l: "d < length (do_drivers s)" using p by (simp add: purpose_ok_def)
    have a: "actor_at ?s e = (if e = d then Some ?a else actor_at s e)" for e
      using l by (simp add: actor_at_def handler_at_set do_simps)
    have f: "do_router ?s = do_router s" "length (do_drivers ?s) = length (do_drivers s)" "do_tasks ?s = do_tasks s"
      "do_instances ?s = do_instances s @ [x]" "do_served ?s = do_served s" "do_alarmed ?s = do_alarmed s"
      by (simp_all add: set_handler_def)
    have t: "task_ok ?s t" if "t \<in> set (do_tasks s)" for t
    proof -
      have "task_ok s t" "d \<notin> set (got_driver t)" using that do_invD(2) [OF i] g by auto
      then show ?thesis
        using n by (cases t) (auto simp: task_ok_def purpose_ok_def f a handler_at_set do_simps got_driver_def)
    qed
    note D = do_invD [OF i]
    have keep: "actor_at s e = Some b \<Longrightarrow> e \<noteq> d \<and> b < ?a" for e b using D(4) n by auto
    have "do_inv ?s"
    proof (rule do_invI)
      fix e e' b
      assume "actor_at ?s e = Some b" "actor_at ?s e' = Some b"
      then show "e = e'" using keep D(5) unfolding a by (metis less_irrefl option.inject)
    next
      fix r b
      assume "(r, b) \<in> set (do_served ?s)"
      then show "\<exists>d'. do_router ?s = Some d' \<and> actor_at ?s d' = Some b" using D(6) keep unfolding f a by metis
    next
      fix b
      assume "b \<in> set (do_alarmed ?s)"
      then show "\<exists>d'. do_router ?s \<noteq> Some d' \<and> actor_at ?s d' = Some b" using D(7) keep unfolding f a by metis
    next
      fix e b
      assume "actor_at ?s e = Some b"
      then show "b < length (do_instances ?s)" using keep unfolding f a by (auto split: if_splits dest: less_SucI)
    qed (use D(1,3) t f in simp_all)
    moreover have "task_ok ?s (Starting p d ?a)" using p f a by (simp add: task_ok_def purpose_ok_def)
    ultimately show ?thesis by (rule do_inv_add_other) (simp add: got_driver_def)
  qed
  then show ?thesis
    using i by (auto simp: start_instance_def Let_def split: option.split list.split)
qed

lemma continue_task_inv:
  assumes "do_inv s" and k: "k < length (do_tasks s)"
  shows "do_inv (continue_task fe i (do_tasks s ! k) (drop_task k s))"
proof -
  note d = do_inv_drop [OF assms]
  have t: "task_ok (drop_task k s) (do_tasks s ! k)"
    using assms by (simp add: do_inv_def drop_task_def)
  show ?thesis
  proof (cases "do_tasks s ! k")
    case (Got_name p e n ky)
    then show ?thesis
      using t d by (auto simp: continue_task_def task_ok_def got_driver_def intro!: start_instance_inv)
  next
    case (Load_awaited p e)
    then show ?thesis
      using t d(1) by (auto simp: continue_task_def task_ok_def split: option.split intro!: handler_loaded_inv goes_on_loaded)
  qed (use d(1) in \<open>auto simp: continue_task_def initialize_stored_def data_read_def do_simps
      intro!: object_loadActor_inv load_rest_inv\<close>)
qed

lemma do_step_inv: "do_inv s \<Longrightarrow> do_inv (do_step fe i e s)"
proof (cases e)
  case (Start_done k err)
  assume s: "do_inv s"
  have "do_inv (instance_started instance_loaded p d a err (drop_task k s))"
    if k: "k < length (do_tasks s)" and "do_tasks s ! k = Starting p d a" for p d a
  proof -
    have "task_ok (drop_task k s) (do_tasks s ! k)" using s k by (simp add: do_inv_def drop_task_def)
    then show ?thesis using that do_inv_drop(1) [OF s k] by (auto simp: task_ok_def intro!: instance_started_inv)
  qed
  then show ?thesis using s by (auto simp: Start_done split: do_task.split)
next
  case (Initialize_call n k inp)
  assume "do_inv s"
  then show ?thesis
    by (auto simp: Initialize_call do_initialize_def do_simps task_ok_def got_driver_def split: sum.split intro!: do_inv_add_other)
qed (simp_all add: object_loadActor_inv continue_task_inv do_simps do_inv_boot or_same_def do_writePersistedData_def
    do_setAlarm_def)

interpretation durable: machine "do_step fe i" do_inv for fe i
  by unfold_locales (rule do_step_inv)

lemma do_run_inv: "do_inv (do_run fe i evs (boot_object n k d t))"
  unfolding do_run_def by (rule durable.run_inv [OF do_inv_boot])

text \<open>
  C15.  Since its isolate was started, a durable object has given all its requests to one instance, however
  the calls and their waits interleaved, and no alarm: every alarm goes to some other instance, which
  was loaded from the same stored data.
\<close>

theorem alarms_miss_the_serving_instance:
  "\<exists>a. snd ` set (do_served (do_run fe i evs (boot_object n k d t))) \<subseteq> {a}
      \<and> a \<notin> set (do_alarmed (do_run fe i evs (boot_object n k d t)))"
proof -
  define s where "s = do_run fe i evs (boot_object n k d t)"
  have i: "do_inv s" unfolding s_def by (rule do_run_inv)
  have "\<exists>a. a \<notin> set (do_alarmed s)" using ex_new_if_finite [OF infinite_UNIV_nat finite_set] by blast
  moreover have "snd ` set (do_served s) \<subseteq> {a} \<and> a \<notin> set (do_alarmed s)" if m: "(r, a) \<in> set (do_served s)" for r a
  proof -
    obtain d where d: "do_router s = Some d" "actor_at s d = Some a" using do_invD(6) [OF i m] by blast
    have "b = a" if "(r', b) \<in> set (do_served s)" for r' b using do_invD(6) [OF i that] d by auto
    moreover have "a \<notin> set (do_alarmed s)" using do_invD(5) [OF i d(2)] do_invD(7) [OF i] d(1) by metis
    ultimately show ?thesis by auto
  qed
  ultimately have "\<exists>a. snd ` set (do_served s) \<subseteq> {a} \<and> a \<notin> set (do_alarmed s)"
    by (metis empty_iff image_is_empty last_in_set set_empty subrelI subset_eq surj_pair)
  then show ?thesis by (simp add: s_def)
qed

end
