(* ===== verification/CloudflareManager.thy ===== *)
theory CloudflareManager
  imports CloudflareInv ActorKeys ManagerProps ClientHandles
begin

text \<open>
  The manager driver of the Cloudflare package, \<open>manager-driver.ts\<close>: actors are durable objects whose ids
  come from name and key, and a key-value namespace tells which of them exist.

  The platform's ids are parameters.  A call of the manager runs alone here, and a value that was put is
  read back at once.
\<close>

section \<open>The platform\<close>

text \<open>\<open>cf_started\<close> tells whether an instance of an object starts.\<close>

record cf_env =
  cf_fs :: fs_env
  cf_idFromName :: "string \<Rightarrow> string"
  cf_validId :: "string \<Rightarrow> bool"
  cf_started :: "string \<Rightarrow> durable_object \<Rightarrow> js_err option"

record cf_world =
  cw_kv :: "(string \<times> string) list"
  cw_objects :: "(string \<times> durable_object) list"

definition metadata_key :: "string \<Rightarrow> string" where
  "metadata_key actorId = ''actor:'' @ actorId @ '':metadata''"

definition index_key :: "string \<Rightarrow> string list \<Rightarrow> string" where
  "index_key name key = ''actor_key:'' @ serializeKey key"

definition object_of :: "string \<Rightarrow> cf_world \<Rightarrow> durable_object" where
  "object_of i w = (case jm_get (cw_objects w) i of None \<Rightarrow> new_object | Some s \<Rightarrow> s)"

definition kv_put :: "string \<Rightarrow> string \<Rightarrow> cf_world \<Rightarrow> cf_world" where
  "kv_put k v w = w\<lparr>cw_kv := jm_set k v (cw_kv w)\<rparr>"

text \<open>\<open>ACTOR_KV.get(k, { type: "json" })\<close>: null when there is nothing.\<close>

definition kv_get :: "cf_env \<Rightarrow> string \<Rightarrow> cf_world \<Rightarrow> js_err + jsval" where
  "kv_get ce k w =
     (case jm_get (cw_kv w) k of
        None \<Rightarrow> Inr JNull
      | Some t \<Rightarrow> andThen (cd_json_parse (fe_codec (cf_fs ce)) t) (\<lambda>j. Inr (of_json j)))"

text \<open>The call \<open>actor.initialize\<close>: the object runs alone, its four tasks in the order they come up.\<close>

definition run_initialize :: "cf_env \<Rightarrow> string \<Rightarrow> string \<Rightarrow> string list \<Rightarrow> jsval \<Rightarrow> durable_object \<Rightarrow> durable_object" where
  "run_initialize ce i name key input s =
     do_run (cf_fs ce) i
       [Initialize_call name key input, Continue (length (do_tasks s)), Continue (length (do_tasks s)),
        Start_done (length (do_tasks s)) (cf_started ce i s)] s"

definition initialize_result :: "durable_object \<Rightarrow> durable_object \<Rightarrow> js_err option" where
  "initialize_result s s' =
     (case drop (length (do_failed s)) (do_failed s') of (By_initialize, e) # rest \<Rightarrow> Some e | _ \<Rightarrow> None)"

definition rpc_initialize :: "cf_env \<Rightarrow> string \<Rightarrow> string \<Rightarrow> string list \<Rightarrow> jsval \<Rightarrow> cf_world \<Rightarrow> js_err option \<times> cf_world" where
  "rpc_initialize ce i name key input w =
     (let s' = run_initialize ce i name key input (object_of i w)
      in (initialize_result (object_of i w) s', w\<lparr>cw_objects := jm_set i s' (cw_objects w)\<rparr>))"

section \<open>The operations\<close>

text \<open>The outputs of the lookups and of \<open>#buildActorOutput\<close>; the key of the output is not used by the
  callers.\<close>

definition actor_output_of :: "cf_env \<Rightarrow> string \<Rightarrow> cf_world \<Rightarrow> js_err + actor_output option" where
  "actor_output_of ce i w =
     andThen (kv_get ce (metadata_key i) w) (\<lambda>actorData.
       if \<not> truthy actorData then Inr None
       else andThen (read_prop actorData ''name'') (\<lambda>n. Inr (Some \<lparr>ao_actorId = JStr i, ao_name = n\<rparr>)))"

definition cf_getForId :: "cf_env \<Rightarrow> string \<Rightarrow> cf_world \<Rightarrow> (js_err + actor_output option) \<times> cf_world" where
  "cf_getForId ce i w = (actor_output_of ce i w, w)"

definition cf_actorId :: "cf_env \<Rightarrow> string \<Rightarrow> string list \<Rightarrow> string" where
  "cf_actorId ce name key = cf_idFromName ce (serializeNameAndKey name key)"

definition cf_getWithKey :: "cf_env \<Rightarrow> string \<Rightarrow> string list \<Rightarrow> cf_world \<Rightarrow> (js_err + actor_output option) \<times> cf_world" where
  "cf_getWithKey ce name key w =
     (let i = cf_actorId ce name key
      in (andThen (kv_get ce (metadata_key i) w) (\<lambda>actorData.
            if \<not> truthy actorData then Inr None else actor_output_of ce i w), w))"

text \<open>The text of the key in the error is \<open>JSON.stringify(key)\<close>.\<close>

definition cf_createActor ::
    "cf_env \<Rightarrow> string \<Rightarrow> string list \<Rightarrow> jsval \<Rightarrow> cf_world \<Rightarrow> (js_err + actor_output) \<times> cf_world" where
  "cf_createActor ce name key input w =
     (case cf_getWithKey ce name key w of
        (Inl e, w0) \<Rightarrow> (Inl e, w0)
      | (Inr (Some existingActor), w0) \<Rightarrow>
          (Inl (EActor (ActorAlreadyExists name (cd_json_text (fe_codec (cf_fs ce)) (JsArr (map JsStr key))))), w0)
      | (Inr None, w0) \<Rightarrow>
          (let i = cf_actorId ce name key
           in case rpc_initialize ce i name key input w0 of
                (Some e, w1) \<Rightarrow> (Inl e, w1)
              | (None, w1) \<Rightarrow>
                  (case json_text (fe_codec (cf_fs ce)) (JObj [(''name'', JStr name), (''key'', JArr (map JStr key))]) of
                     Inl e \<Rightarrow> (Inl e, w1)
                   | Inr t \<Rightarrow>
                       (Inr \<lparr>ao_actorId = JStr i, ao_name = JStr name\<rparr>,
                        kv_put (index_key name key) i (kv_put (metadata_key i) t w1)))))"

definition cf_getOrCreateWithKey ::
    "cf_env \<Rightarrow> string \<Rightarrow> string list \<Rightarrow> jsval \<Rightarrow> cf_world \<Rightarrow> (js_err + actor_output) \<times> cf_world" where
  "cf_getOrCreateWithKey ce name key input w =
     (case cf_getWithKey ce name key w of
        (Inl e, w0) \<Rightarrow> (Inl e, w0)
      | (Inr (Some out), w0) \<Rightarrow> (Inr out, w0)
      | (Inr None, w0) \<Rightarrow> cf_createActor ce name key input w0)"

definition texts_only ::
    "(string \<Rightarrow> string list \<Rightarrow> 's \<Rightarrow> (js_err + 'a) \<times> 's) \<Rightarrow> jsval \<Rightarrow> jsval \<Rightarrow> 's \<Rightarrow> (js_err + 'a) \<times> 's" where
  "texts_only f n k s =
     (case (text_of n, texts_of k) of (Some n', Some k') \<Rightarrow> f n' k' s | _ \<Rightarrow> (Inl TypeError, s))"

text \<open>The region is not used.\<close>

definition cf_manager :: "cf_env \<Rightarrow> cf_world manager_driver" where
  "cf_manager ce =
     \<lparr>md_getForId = (\<lambda>n i w. case text_of i of None \<Rightarrow> (Inl TypeError, w) | Some i' \<Rightarrow> cf_getForId ce i' w),
      md_getWithKey = texts_only (cf_getWithKey ce),
      md_getOrCreateWithKey = (\<lambda>n k inp reg. texts_only (\<lambda>n k. cf_getOrCreateWithKey ce n k inp) n k),
      md_createActor = (\<lambda>n k inp reg. texts_only (\<lambda>n k. cf_createActor ce n k inp) n k)\<rparr>"

section \<open>Requests to an actor\<close>

text \<open>\<open>idFromString\<close> throws for a text that is no id; then the request goes to the object.\<close>

definition stub_fetch :: "cf_env \<Rightarrow> string \<Rightarrow> fetch_request \<Rightarrow> js_err + (string \<times> fetch_request)" where
  "stub_fetch ce actorId req = (if cf_validId ce actorId then Inr (actorId, req) else Inl TypeError)"

definition cf_sendRequest :: "cf_env \<Rightarrow> string \<Rightarrow> fetch_request \<Rightarrow> js_err + (string \<times> fetch_request)" where
  "cf_sendRequest ce actorId actorRequest = stub_fetch ce actorId actorRequest"

definition cf_proxyRequest :: "cf_env \<Rightarrow> fetch_request \<Rightarrow> string \<Rightarrow> js_err + (string \<times> fetch_request)" where
  "cf_proxyRequest ce actorRequest actorId = stub_fetch ce actorId actorRequest"

definition if_truthy :: "cf_env \<Rightarrow> string \<Rightarrow> jsval \<Rightarrow> headers \<Rightarrow> js_err + headers" where
  "if_truthy ce name v hs =
     (if truthy v then andThen (json_text (fe_codec (cf_fs ce)) v) (\<lambda>t. Inr (set_header name t hs)) else Inr hs)"

definition cf_openWebSocket ::
    "cf_env \<Rightarrow> string \<Rightarrow> string \<Rightarrow> encoding \<Rightarrow> jsval \<Rightarrow> js_err + (string \<times> fetch_request)" where
  "cf_openWebSocket ce path actorId enc params =
     (if \<not> cf_validId ce actorId then Inl TypeError
      else andThen (if_truthy ce HEADER_CONN_PARAMS params (header_list [(''Upgrade'', ''websocket''),
               (''Connection'', ''Upgrade''), (HEADER_EXPOSE_INTERNAL_ERROR, ''true''), (HEADER_ENCODING, encoding_name enc)])) (\<lambda>hs.
             stub_fetch ce actorId \<lparr>fr_url = ''http://actor'' @ path, fr_method = ''GET'',
               fr_headers = set_header ''sec-websocket-protocol'' ''rivetkit'' hs, fr_body = None\<rparr>))"

text \<open>The socket of the answer, if it has one.\<close>

definition cf_socket :: "'a option \<Rightarrow> js_err + 'a" where
  "cf_socket webSocket =
     (case webSocket of
        None \<Rightarrow> Inl (EActor (InternalError ''missing websocket connection in response from DO''))
      | Some ws \<Rightarrow> Inr ws)"

definition STANDARD_WEBSOCKET_HEADERS :: "string list" where
  "STANDARD_WEBSOCKET_HEADERS = [''connection'', ''upgrade'', ''sec-websocket-key'', ''sec-websocket-version'',
     ''sec-websocket-protocol'', ''sec-websocket-extensions'']"

definition standard_headers :: "headers \<Rightarrow> headers" where
  "standard_headers hs =
     fold (\<lambda>k. if k \<in> set STANDARD_WEBSOCKET_HEADERS then id else jm_del k) (map fst hs) hs"

datatype cf_websocket = Expected_upgrade | To_object string fetch_request

definition cf_proxyWebSocket ::
    "cf_env \<Rightarrow> http_request \<Rightarrow> string \<Rightarrow> string \<Rightarrow> encoding \<Rightarrow> jsval \<Rightarrow> jsval \<Rightarrow> js_err + cf_websocket" where
  "cf_proxyWebSocket ce c path actorId enc params authData =
     (if get_header (rq_headers c) ''Upgrade'' \<noteq> Some ''websocket'' then Inr Expected_upgrade
      else andThen (if_truthy ce HEADER_CONN_PARAMS params
               (set_header HEADER_ENCODING (encoding_name enc)
                 (set_header HEADER_EXPOSE_INTERNAL_ERROR ''true'' (standard_headers (rq_headers c))))) (\<lambda>hs.
           andThen (if_truthy ce HEADER_AUTH_DATA authData hs) (\<lambda>hs'.
           andThen (stub_fetch ce actorId \<lparr>fr_url = ''http://actor'' @ path, fr_method = rq_method c, fr_headers = hs',
               fr_body = (if rq_method c \<in> {''GET'', ''HEAD''} then None else Some (OBytes (rq_body c)))\<rparr>)
             (\<lambda>(i, f). Inr (To_object i f)))))"

end
