(* ===== verification/CloudflareProps.thy ===== *)
theory CloudflareProps
  imports CloudflareManager
begin

text \<open>
  What the Cloudflare driver promises: the directory of actors behind the manager's routes, what a created
  actor is found as, which headers reach an object, and what a failed start leaves behind.
\<close>

section \<open>The directory\<close>

definition cf_directory :: "cf_env \<Rightarrow> cf_world \<Rightarrow> string \<Rightarrow> jsval option" where
  "cf_directory ce w i =
     (case kv_get ce (metadata_key i) w of Inl e \<Rightarrow> None | Inr v \<Rightarrow> if truthy v then Some v else None)"

lemma metadata_key_inject [simp]: "metadata_key i = metadata_key j \<longleftrightarrow> i = j"
  by (simp add: metadata_key_def)

lemma metadata_not_index [simp]: "metadata_key i \<noteq> index_key n k" "index_key n k \<noteq> metadata_key i"
  by (simp_all add: metadata_key_def index_key_def)

lemma kv_get_put [simp]:
  "kv_get ce k (kv_put k' t w) =
     (if k' = k then andThen (cd_json_parse (fe_codec (cf_fs ce)) t) (\<lambda>j. Inr (of_json j)) else kv_get ce k w)"
  "kv_get ce k (w\<lparr>cw_objects := os\<rparr>) = kv_get ce k w"
  by (auto simp: kv_get_def kv_put_def)

lemma directory_put:
  "j \<noteq> i \<Longrightarrow> cf_directory ce (kv_put (metadata_key i) t w) j = cf_directory ce w j"
  "cf_directory ce (kv_put (index_key n k) t w) j = cf_directory ce w j"
  by (simp_all add: cf_directory_def)

lemma rpc_keeps:
  "rpc_initialize ce i n k inp w = (r, w') \<Longrightarrow> cf_directory ce w' = cf_directory ce w \<and> kv_get ce x w' = kv_get ce x w"
  by (auto simp: rpc_initialize_def Let_def cf_directory_def fun_eq_iff)

text \<open>The lookup by key is the lookup of the id.\<close>

lemma with_key_eq: "cf_getWithKey ce n k w = (actor_output_of ce (cf_actorId ce n k) w, w)"
  by (cases "kv_get ce (metadata_key (cf_actorId ce n k)) w") (simp_all add: cf_getWithKey_def actor_output_of_def Let_def)

lemma nobody: "actor_output_of ce i w = Inr None \<Longrightarrow> cf_directory ce w i = None"
  by (auto simp: actor_output_of_def cf_directory_def andThen_Inr split: if_splits)

lemma create_grows: "cf_createActor ce n k inp w = (r, w') \<Longrightarrow> map_le (cf_directory ce w) (cf_directory ce w')"
proof -
  assume c: "cf_createActor ce n k inp w = (r, w')"
  show ?thesis
  proof (cases "actor_output_of ce (cf_actorId ce n k) w = Inr None")
    case True
    then have "cf_directory ce w' j = cf_directory ce w j" if "j \<noteq> cf_actorId ce n k" for j
      using that c rpc_keeps
      by (auto simp: cf_createActor_def with_key_eq Let_def directory_put split: option.splits sum.splits prod.splits)
    then show ?thesis using nobody [OF True] unfolding map_le_def by (metis domIff)
  next
    case False
    then show ?thesis using c by (auto simp: cf_createActor_def with_key_eq map_le_def split: sum.splits option.splits)
  qed
qed

interpretation cf_gate: actor_directory "cf_manager ce" "cf_directory ce" "\<lambda>_. True" for ce
proof unfold_locales
  fix w n i res w'
  assume "md_getForId (cf_manager ce) n i w = (res, w')"
  then show "True \<and> cf_directory ce w' = cf_directory ce w"
    by (auto simp: cf_manager_def cf_getForId_def split: option.splits)
next
  fix w n k res w'
  assume "md_getWithKey (cf_manager ce) n k w = (res, w')"
  then show "True \<and> cf_directory ce w' = cf_directory ce w"
    by (auto simp: cf_manager_def texts_only_def with_key_eq split: option.splits)
next
  fix w n k inp reg res w'
  assume "md_getOrCreateWithKey (cf_manager ce) n k inp reg w = (res, w')"
  then show "map_le (cf_directory ce w) (cf_directory ce w')"
    by (auto simp: cf_manager_def texts_only_def cf_getOrCreateWithKey_def with_key_eq
        split: option.splits sum.splits dest: create_grows)
qed

text \<open>So the manager's gate holds for this driver as well: what \<open>onAuth\<close> refuses changes no directory.\<close>

lemma cf_refused: "authorize me (cf_manager ce) c q its p w = (res, w')
    \<Longrightarrow> fst (authenticateEndpoint me (cf_manager ce) c q its p w) = Inl e \<Longrightarrow> res = Inl e \<and> cf_directory ce w' = cf_directory ce w"
  using cf_gate.authorize_refused by blast

section \<open>Created actors are found\<close>

definition metadata_of :: "string \<Rightarrow> string list \<Rightarrow> jsval" where
  "metadata_of name key = JObj [(''name'', JStr name), (''key'', JArr (map JStr key))]"

lemma metadata_text: "\<exists>t. json_text cd (metadata_of name key) = Inr t"
proof -
  have "\<not> has_bigint (JStr x)" for x by (subst has_bigint.simps) simp
  then have "\<not> has_bigint (JArr (map JStr key))" by (subst has_bigint.simps) (simp add: list_ex_iff)
  then have "\<not> has_bigint (metadata_of name key)"
    unfolding metadata_of_def by (subst has_bigint.simps) (simp add: \<open>\<And>x. \<not> has_bigint (JStr x)\<close>)
  then show ?thesis by (simp add: json_text_def JSON_stringify_def)
qed

lemma created_metadata:
  assumes "cf_createActor ce name key input w = (Inr out, w')"
  obtains t where "json_text (fe_codec (cf_fs ce)) (metadata_of name key) = Inr t"
    and "out = \<lparr>ao_actorId = JStr (cf_actorId ce name key), ao_name = JStr name\<rparr>"
    and "jm_get (cw_kv w') (metadata_key (cf_actorId ce name key)) = Some t"
  using assms
  by (auto simp: cf_createActor_def with_key_eq Let_def metadata_of_def kv_put_def split: option.splits sum.splits prod.splits)

lemma existing_actor:
  assumes "actor_output_of ce (cf_actorId ce n k) w = Inr (Some out)"
  shows "cf_getWithKey ce n k w = (Inr (Some out), w)" and "cf_getOrCreateWithKey ce n k inp w = (Inr out, w)"
    and "cf_createActor ce n k inp w
      = (Inl (EActor (ActorAlreadyExists n (cd_json_text (fe_codec (cf_fs ce)) (JsArr (map JsStr k))))), w)"
  using assms by (simp_all add: with_key_eq cf_getOrCreateWithKey_def cf_createActor_def)


section \<open>Headers of a WebSocket\<close>

lemma jm_get_standard: "jm_get (standard_headers hs) k = (if k \<in> set STANDARD_WEBSOCKET_HEADERS then jm_get hs k else None)"
proof -
  have f: "jm_get (fold (\<lambda>k. if k \<in> set STANDARD_WEBSOCKET_HEADERS then id else jm_del k) ks h) k
      = (if k \<in> set STANDARD_WEBSOCKET_HEADERS \<or> k \<notin> set ks then jm_get h k else None)" for ks h
    by (induction ks arbitrary: h) auto
  have "k \<notin> set (map fst hs) \<Longrightarrow> jm_get hs k = None" by (induction hs) auto
  then show ?thesis unfolding standard_headers_def f by auto
qed

lemma if_truthy_get:
  assumes "if_truthy ce name v hs = Inr hs'"
  shows "get_header hs' m = (if truthy v \<and> lower m = lower name
      then (case json_text (fe_codec (cf_fs ce)) v of Inr t \<Rightarrow> Some t | Inl e \<Rightarrow> None) else get_header hs m)"
  using assms by (auto simp: if_truthy_def andThen_Inr split: if_splits)

lemma lower_names [simp]:
  "lower HEADER_CONN_PARAMS = ''x-rivetkit-conn-params''" "lower HEADER_AUTH_DATA = ''x-rivetkit-auth-data''"
  "lower HEADER_ENCODING = ''x-rivetkit-encoding''" "lower HEADER_EXPOSE_INTERNAL_ERROR = ''x-rivetkit-expose-internal-error''"
  by code_simp+

lemma own_headers [simp]:
  "''x-rivetkit-conn-params'' \<notin> set STANDARD_WEBSOCKET_HEADERS" "''x-rivetkit-auth-data'' \<notin> set STANDARD_WEBSOCKET_HEADERS"
  "''x-rivetkit-encoding'' \<notin> set STANDARD_WEBSOCKET_HEADERS" "''x-rivetkit-expose-internal-error'' \<notin> set STANDARD_WEBSOCKET_HEADERS"
  by (simp_all add: STANDARD_WEBSOCKET_HEADERS_def)

lemma to_object:
  assumes "cf_proxyWebSocket ce c path actorId enc params authData = Inr (To_object i f)"
  shows to_object_headers: "get_header (fr_headers f) m =
      (if truthy authData \<and> lower m = lower HEADER_AUTH_DATA then Some (projr (json_text (fe_codec (cf_fs ce)) authData))
       else if truthy params \<and> lower m = lower HEADER_CONN_PARAMS then Some (projr (json_text (fe_codec (cf_fs ce)) params))
       else if lower m = lower HEADER_ENCODING then Some (encoding_name enc)
       else if lower m = lower HEADER_EXPOSE_INTERNAL_ERROR then Some ''true''
       else if lower m \<in> set STANDARD_WEBSOCKET_HEADERS then get_header (rq_headers c) m else None)"
    and to_object_request: "i = actorId" "fr_url f = ''http://actor'' @ path" "fr_method f = rq_method c"
    and to_object_texts: "truthy authData \<Longrightarrow> \<exists>t. json_text (fe_codec (cf_fs ce)) authData = Inr t"
      "truthy params \<Longrightarrow> \<exists>t. json_text (fe_codec (cf_fs ce)) params = Inr t"
proof -
  obtain h1 h2 where h: "if_truthy ce HEADER_CONN_PARAMS params
       (set_header HEADER_ENCODING (encoding_name enc)
         (set_header HEADER_EXPOSE_INTERNAL_ERROR ''true'' (standard_headers (rq_headers c)))) = Inr h1"
    "if_truthy ce HEADER_AUTH_DATA authData h1 = Inr h2" "fr_headers f = h2" "i = actorId"
    and r: "fr_url f = ''http://actor'' @ path" "fr_method f = rq_method c"
    using assms by (auto simp: cf_proxyWebSocket_def andThen_Inr stub_fetch_def split: if_splits)
  have s: "get_header (standard_headers hs) x
      = (if lower x \<in> set STANDARD_WEBSOCKET_HEADERS then get_header hs x else None)" for hs x
    by (simp add: get_header_def jm_get_standard)
  show t: "truthy authData \<Longrightarrow> \<exists>t. json_text (fe_codec (cf_fs ce)) authData = Inr t"
    "truthy params \<Longrightarrow> \<exists>t. json_text (fe_codec (cf_fs ce)) params = Inr t"
    using h(1,2) by (auto simp: if_truthy_def andThen_Inr)
  show "get_header (fr_headers f) m =
      (if truthy authData \<and> lower m = lower HEADER_AUTH_DATA then Some (projr (json_text (fe_codec (cf_fs ce)) authData))
       else if truthy params \<and> lower m = lower HEADER_CONN_PARAMS then Some (projr (json_text (fe_codec (cf_fs ce)) params))
       else if lower m = lower HEADER_ENCODING then Some (encoding_name enc)
       else if lower m = lower HEADER_EXPOSE_INTERNAL_ERROR then Some ''true''
       else if lower m \<in> set STANDARD_WEBSOCKET_HEADERS then get_header (rq_headers c) m else None)"
    using t unfolding h(3) by (auto simp: if_truthy_get [OF h(2)] if_truthy_get [OF h(1)] s)
  show "i = actorId" "fr_url f = ''http://actor'' @ path" "fr_method f = rq_method c"
    using h(4) r by simp_all
qed

text \<open>
  C23.  A WebSocket that the Cloudflare manager passes on goes to the object of the actor that was found,
  and of what the client sent only the standard WebSocket headers go with it.  The connection parameters
  and the authentication data the object sees are the manager's, or none: a client cannot forge them.
\<close>

theorem cf_websocket_headers:
  assumes "cf_proxyWebSocket ce c path actorId enc params authData = Inr (To_object i f)"
  shows "i = actorId
    \<and> get_header (fr_headers f) HEADER_AUTH_DATA
        = (if truthy authData then Some (projr (json_text (fe_codec (cf_fs ce)) authData)) else None)
    \<and> get_header (fr_headers f) HEADER_CONN_PARAMS
        = (if truthy params then Some (projr (json_text (fe_codec (cf_fs ce)) params)) else None)
    \<and> get_header (fr_headers f) HEADER_ENCODING = Some (encoding_name enc)
    \<and> (lower m \<in> set STANDARD_WEBSOCKET_HEADERS \<longrightarrow> get_header (fr_headers f) m = get_header (rq_headers c) m)
    \<and> (lower m \<notin> set STANDARD_WEBSOCKET_HEADERS \<longrightarrow> get_header (fr_headers f) m \<noteq> None \<longrightarrow>
         lower m \<in> lower ` {HEADER_AUTH_DATA, HEADER_CONN_PARAMS, HEADER_ENCODING, HEADER_EXPOSE_INTERNAL_ERROR})"
  by (auto simp: to_object_headers [OF assms] to_object_request [OF assms])

section \<open>A failed start\<close>

text \<open>The router's driver waits for an instance that will not come.\<close>

definition starts_with :: "nat \<Rightarrow> do_task \<Rightarrow> bool" where
  "starts_with d t = (case t of Got_name p e n k \<Rightarrow> e = d | Starting p e i \<Rightarrow> e = d | _ \<Rightarrow> False)"

definition never_starts :: "nat \<Rightarrow> durable_object \<Rightarrow> bool" where
  "never_starts d s \<longleftrightarrow> do_router s = Some d \<and> (\<exists>h. handler_at s d = Some h \<and> dh_starting h)
     \<and> (\<forall>t\<in>set (do_tasks s). \<not> starts_with d t) \<and> do_served s = []"

lemma never_starts_fields [simp]:
  "never_starts d (s\<lparr>do_name := x1\<rparr>) = never_starts d s" "never_starts d (s\<lparr>do_key := x2\<rparr>) = never_starts d s"
  "never_starts d (s\<lparr>do_data := x3\<rparr>) = never_starts d s" "never_starts d (s\<lparr>do_alarm := x4\<rparr>) = never_starts d s"
  "never_starts d (s\<lparr>do_initialized := x5\<rparr>) = never_starts d s" "never_starts d (s\<lparr>do_initPromise := x6\<rparr>) = never_starts d s"
  "never_starts d (s\<lparr>do_instances := x9\<rparr>) = never_starts d s" "never_starts d (s\<lparr>do_alarmed := x12\<rparr>) = never_starts d s"
  "never_starts d (reject c e s) = never_starts d s"
  "never_starts d (s\<lparr>do_drivers := do_drivers s @ [None]\<rparr>) = never_starts d s"
  by (simp_all add: never_starts_def do_simps reject_def handler_at_new)

lemma never_starts_add [simp]: "never_starts d (add_task t s) \<longleftrightarrow> never_starts d s \<and> \<not> starts_with d t"
  by (auto simp: never_starts_def add_task_def do_simps)

lemma never_starts_set [simp]: "e \<noteq> d \<Longrightarrow> never_starts d (set_handler e h s) = never_starts d s"
  by (simp add: never_starts_def handler_at_set) (simp add: set_handler_def)

lemma never_starts_drop: "never_starts d s \<Longrightarrow> never_starts d (drop_task k s)"
  using splice_out_set [of k "do_tasks s"] by (auto simp: never_starts_def drop_task_def do_simps)

lemma never_starts_after: "never_starts d s \<Longrightarrow> never_starts d (after_load c d s)"
proof -
  assume n: "never_starts d s"
  then obtain h where h: "handler_at s d = Some h" "dh_starting h" by (auto simp: never_starts_def)
  have "length (do_drivers s) \<noteq> d" using handler_bound [OF h(1)] by simp
  then show ?thesis
    using n h by (auto simp: after_load_def driver_loadActor_def new_driver_def starts_with_def Let_def handler_at_new
        handler_at_def nth_append split: do_caller.split)
qed

lemma never_starts_rest: "never_starts d s \<Longrightarrow> never_starts d (load_rest c s)"
  using never_starts_after by (auto simp: never_starts_def load_rest_def)

lemma never_starts_load: "never_starts d s \<Longrightarrow> never_starts d (object_loadActor c s)"
  by (auto simp: object_loadActor_def never_starts_rest starts_with_def)

lemma never_starts_alarm: "never_starts d s \<Longrightarrow> never_starts d (instance_loaded To_alarm e a s)"
  by (simp add: instance_loaded_def answered_def)

lemma never_starts_task:
  assumes "never_starts d s" and "\<not> starts_with d t" and "task_ok s t" and "task_ready t s"
  shows "never_starts d (continue_task fe i t s)"
proof (cases t)
  case (Got_name p e n k)
  then have "e \<noteq> d" using assms(2) by (simp add: starts_with_def)
  then show ?thesis
    using assms(1) by (auto simp: Got_name continue_task_def start_instance_def Let_def starts_with_def
        split: option.split list.split)
next
  case (Load_awaited p e)
  then have e: "e \<noteq> d" using assms(1,4) by (auto simp: task_ready_def never_starts_def split: option.splits)
  then have "p = To_alarm" using assms(1,3) by (auto simp: Load_awaited task_ok_def purpose_ok_def never_starts_def)
  then show ?thesis
    using assms(1) by (auto simp: Load_awaited continue_task_def handler_loaded_def never_starts_alarm split: option.split)
qed (use assms(1) in \<open>auto simp: continue_task_def initialize_stored_def data_read_def never_starts_load never_starts_rest\<close>)

lemma task_before_drop: "do_inv s \<Longrightarrow> k < length (do_tasks s) \<Longrightarrow> task_ok (drop_task k s) (do_tasks s ! k)"
  by (simp add: do_inv_def drop_task_def)

lemma never_starts_step:
  assumes "do_inv s" and n: "never_starts d s" and "e \<noteq> Evict"
  shows "never_starts d (do_step fe i e s)"
proof (cases e)
  case (Continue k)
  have "never_starts d (continue_task fe i (do_tasks s ! k) (drop_task k s))"
    if k: "k < length (do_tasks s)" "task_ready (do_tasks s ! k) s"
  proof (rule never_starts_task [OF never_starts_drop [OF n] _ task_before_drop [OF assms(1) k(1)]])
    show "\<not> starts_with d (do_tasks s ! k)" using n k(1) by (simp add: never_starts_def)
    show "task_ready (do_tasks s ! k) (drop_task k s)"
      using k(2) by (simp add: task_ready_def drop_task_def do_simps split: do_task.splits)
  qed
  then show ?thesis using n by (simp add: Continue)
next
  case (Start_done k err)
  have "never_starts d (instance_started instance_loaded p f a err (drop_task k s))"
    if k: "k < length (do_tasks s)" and t: "do_tasks s ! k = Starting p f a" for p f a
  proof -
    have "\<not> starts_with d (do_tasks s ! k)" using n k by (simp add: never_starts_def)
    then have f: "f \<noteq> d" by (simp add: t starts_with_def)
    then have "p = To_alarm"
      using task_before_drop [OF assms(1) k] n by (auto simp: t task_ok_def purpose_ok_def never_starts_def drop_task_def)
    then show ?thesis
      using f never_starts_drop [OF n] by (simp add: instance_started_def never_starts_alarm split: option.split)
  qed
  then show ?thesis using n by (auto simp: Start_done split: do_task.split)
qed (use n assms(3) in \<open>auto simp: do_initialize_def starts_with_def never_starts_load or_same_def do_writePersistedData_def
    do_setAlarm_def split: sum.split\<close>)

lemma never_starts_run:
  "do_inv s \<Longrightarrow> never_starts d s \<Longrightarrow> Evict \<notin> set evs \<Longrightarrow> do_served (do_run fe i evs s) = []"
proof (induction evs arbitrary: s)
  case Nil
  then show ?case by (simp add: do_run_def never_starts_def)
next
  case (Cons e evs)
  have "do_served (do_run fe i evs (do_step fe i e s)) = []"
    using Cons.prems by (intro Cons.IH do_step_inv never_starts_step) auto
  then show ?case by (simp add: do_run_def)
qed


text \<open>The object after a start that threw.\<close>

definition failed_object :: "string \<Rightarrow> string list \<Rightarrow> bytes \<Rightarrow> js_err \<Rightarrow> durable_object" where
  "failed_object n k b e = (boot_object (Some n) (Some k) (Some b) None)
     \<lparr>do_initialized := Some (n, k), do_router := Some 0, do_registered := True,
      do_drivers := [Some \<lparr>dh_actor = Some 0, dh_starting = True\<rparr>], do_instances := [(n, k)],
      do_failed := [(By_initialize, e)]\<rparr>"

lemma run_initialize_fails:
  assumes "serializeEmptyPersistData (cf_fs ce) inp = Inr b" and "n \<noteq> []" and "n \<in> set (fe_use (cf_fs ce))"
    and "cf_started ce i new_object = Some e"
  shows "run_initialize ce i n k inp new_object = failed_object n k b e"
proof -
  obtain c cs where n: "n = c # cs" using assms(2) by (cases n) auto
  show ?thesis
    using assms
    by (simp add: run_initialize_def do_run_def do_initialize_def add_task_def drop_task_def splice_out_def task_ready_def
        continue_task_def initialize_stored_def object_loadActor_def load_rest_def new_driver_def driver_loadActor_def
        handler_at_def set_handler_def start_instance_def n instance_started_def reject_def caller_of_def
        new_object_def boot_object_def failed_object_def Let_def)
qed

lemma run_initialize_again:
  assumes "serializeEmptyPersistData (cf_fs ce) inp = Inr b'"
  shows "run_initialize ce i n k inp (failed_object n k b e) = failed_object n k b' e"
  using assms
  by (simp add: run_initialize_def do_run_def do_initialize_def add_task_def drop_task_def splice_out_def task_ready_def
      continue_task_def initialize_stored_def object_loadActor_def load_rest_def after_load_def
      boot_object_def failed_object_def)

lemma failed_object_never_starts: "do_inv (failed_object n k b e)" "never_starts 0 (failed_object n k b e)"
proof -
  have a: "actor_at (failed_object n k b e) d = (if d = 0 then Some 0 else None)" for d
    by (simp add: actor_at_def handler_at_def failed_object_def)
  show "do_inv (failed_object n k b e)"
    by (rule do_invI) (simp_all add: a split: if_splits, simp_all add: failed_object_def boot_object_def)
  show "never_starts 0 (failed_object n k b e)"
    by (simp add: never_starts_def handler_at_def failed_object_def boot_object_def)
qed

text \<open>
  When the start of a new actor throws, \<open>createActor\<close> fails with that error; creating it again
  succeeds without starting anything, and from then on every request to the actor waits for ever, until
  the platform evicts the object: whatever happens before, none is handed to an instance.
\<close>

theorem failed_start_looks_created:
  assumes "jm_get (cw_objects w) (cf_actorId ce n k) = None" and "actor_output_of ce (cf_actorId ce n k) w = Inr None"
    and "serializeEmptyPersistData (cf_fs ce) inp = Inr b" and "serializeEmptyPersistData (cf_fs ce) inp' = Inr b'"
    and "n \<noteq> []" and "n \<in> set (fe_use (cf_fs ce))" and "cf_started ce (cf_actorId ce n k) new_object = Some e"
  shows "\<exists>w1 w2. cf_createActor ce n k inp w = (Inl e, w1)
    \<and> cf_createActor ce n k inp' w1 = (Inr \<lparr>ao_actorId = JStr (cf_actorId ce n k), ao_name = JStr n\<rparr>, w2)
    \<and> (\<forall>evs. Evict \<notin> set evs \<longrightarrow>
         do_served (do_run (cf_fs ce) (cf_actorId ce n k) evs (object_of (cf_actorId ce n k) w2)) = [])"
proof -
  let ?i = "cf_actorId ce n k"
  let ?w1 = "w\<lparr>cw_objects := jm_set ?i (failed_object n k b e) (cw_objects w)\<rparr>"
  have r1: "rpc_initialize ce ?i n k inp w = (Some e, ?w1)"
    using run_initialize_fails [OF assms(3,5,6,7)] assms(1)
    by (simp add: rpc_initialize_def object_of_def Let_def) (simp add: initialize_result_def failed_object_def new_object_def boot_object_def)
  have c1: "cf_createActor ce n k inp w = (Inl e, ?w1)"
    using assms(2) by (simp add: cf_createActor_def with_key_eq r1)
  have "actor_output_of ce ?i ?w1 = Inr None" using assms(2) by (simp add: actor_output_of_def)
  moreover obtain w2 where r2: "rpc_initialize ce ?i n k inp' ?w1 = (None, w2)" and o2: "object_of ?i w2 = failed_object n k b' e"
    using run_initialize_again [OF assms(4), of ?i n k b e]
    by (simp add: rpc_initialize_def object_of_def Let_def) (simp add: initialize_result_def failed_object_def)
  moreover obtain t where t: "json_text (fe_codec (cf_fs ce)) (metadata_of n k) = Inr t" using metadata_text by blast
  ultimately have "cf_createActor ce n k inp' ?w1 = (Inr \<lparr>ao_actorId = JStr ?i, ao_name = JStr n\<rparr>,
      kv_put (index_key n k) ?i (kv_put (metadata_key ?i) t w2))"
    using t by (simp add: cf_createActor_def with_key_eq r2 metadata_of_def Let_def)
  moreover have "object_of ?i (kv_put (index_key n k) ?i (kv_put (metadata_key ?i) t w2)) = failed_object n k b' e"
    using o2 by (simp add: object_of_def kv_put_def)
  ultimately show ?thesis
    using c1 never_starts_run [OF failed_object_never_starts] by metis
qed

section \<open>Examples\<close>

definition cf_chat :: cf_env where
  "cf_chat = \<lparr>cf_fs = chat_env, cf_idFromName = id, cf_validId = (\<lambda>_. True), cf_started = (\<lambda>i s. Some TypeError)\<rparr>"

text \<open>A life with a request and an alarm: two instances, and both write the same stored data.\<close>

definition chat_life :: "bytes \<Rightarrow> do_event list" where
  "chat_life b = [Fetch_call 7, Continue 0, Continue 0, Start_done 0 None, Alarm_call, Continue 0, Start_done 0 None, Write_data b]"

lemma alarm_example:
  "let s = do_run chat_env ''a'' (chat_life b) (boot_object (Some ''chat'') (Some []) (Some [1]) (Some 5))
   in do_served s = [(7, 0)] \<and> do_alarmed s = [1] \<and> do_data s = Some b"
proof -
  have use: "''chat'' \<in> set (fe_use chat_env)" by (simp add: chat_env_def)
  show ?thesis
    by (simp add: chat_life_def do_run_def add_task_def drop_task_def splice_out_def task_ready_def
        continue_task_def data_read_def object_loadActor_def load_rest_def new_driver_def driver_loadActor_def
        handler_at_def set_handler_def start_instance_def instance_started_def after_load_def instance_loaded_def answered_def
        handler_loaded_def or_same_def do_writePersistedData_def boot_object_def Let_def use)
qed


definition cf_empty :: cf_world where
  "cf_empty = \<lparr>cw_kv = [], cw_objects = []\<rparr>"

lemma nobody_yet [simp]: "actor_output_of ce i cf_empty = Inr None" "object_of i cf_empty = new_object"
  by (simp_all add: actor_output_of_def kv_get_def cf_empty_def object_of_def)

lemma cw_empty [simp]: "cw_objects cf_empty = []"
  by (simp add: cf_empty_def)

lemma chat_data: "\<exists>b. serializeEmptyPersistData chat_env JUndef = Inr b"
  by (simp add: serializeEmptyPersistData_def encode_defined_def chat_env_def tiny_codec_def serializeWithEmbeddedVersion_def)

theorem failed_start_looks_created_witness:
  "\<exists>w1 w2. fst (cf_createActor cf_chat ''chat'' [] JUndef w1) = Inr \<lparr>ao_actorId = JStr ''chat:(none)'', ao_name = JStr ''chat''\<rparr>
    \<and> do_served (do_run chat_env ''chat:(none)'' [Fetch_call 1, Continue 0] (object_of ''chat:(none)'' w2)) = []
    \<and> w2 = snd (cf_createActor cf_chat ''chat'' [] JUndef w1)"
proof -
  obtain b where b: "serializeEmptyPersistData chat_env JUndef = Inr b" using chat_data by blast
  have i: "cf_actorId cf_chat ''chat'' [] = ''chat:(none)''"
    by (simp add: cf_actorId_def cf_chat_def serializeNameAndKey_def cf_EMPTY_KEY_def)
  have f: "cf_fs cf_chat = chat_env" "cf_started cf_chat j s = Some TypeError" for j s by (simp_all add: cf_chat_def)
  have use: "''chat'' \<in> set (fe_use chat_env)" by (simp add: chat_env_def)
  obtain w1 w2 where w: "cf_createActor cf_chat ''chat'' [] JUndef w1 = (Inr \<lparr>ao_actorId = JStr ''chat:(none)'', ao_name = JStr ''chat''\<rparr>, w2)"
    "\<And>evs. Evict \<notin> set evs \<Longrightarrow> do_served (do_run chat_env ''chat:(none)'' evs (object_of ''chat:(none)'' w2)) = []"
    using failed_start_looks_created [of cf_empty cf_chat "''chat''" "[]" JUndef b JUndef b TypeError] b use
    unfolding f i by auto
  show ?thesis using w(1) w(2) [of "[Fetch_call 1, Continue 0]"] by (intro exI [of _ w1] exI [of _ w2]) simp
qed

text \<open>A client forges authentication data.\<close>

theorem cf_websocket_headers_witness:
  "\<exists>f. cf_proxyWebSocket cf_chat (chat_request\<lparr>rq_headers := [(''upgrade'', ''websocket''), (''x-rivetkit-auth-data'', ''forged'')]\<rparr>)
      ''/connect/websocket'' ''a'' Json JUndef JNull = Inr (To_object ''a'' f)
    \<and> get_header (fr_headers f) HEADER_AUTH_DATA = None"
proof -
  have u: "lower ''Upgrade'' = ''upgrade''" by code_simp
  obtain f where f: "cf_proxyWebSocket cf_chat (chat_request\<lparr>rq_headers := [(''upgrade'', ''websocket''), (''x-rivetkit-auth-data'', ''forged'')]\<rparr>)
      ''/connect/websocket'' ''a'' Json JUndef JNull = Inr (To_object ''a'' f)"
    by (simp add: cf_proxyWebSocket_def get_header_def u if_truthy_def stub_fetch_def cf_chat_def)
  show ?thesis using cf_websocket_headers [OF f] f by simp
qed

text \<open>Two actors with one durable-object name.\<close>

definition cf_names :: cf_env where
  "cf_names = cf_chat\<lparr>cf_fs := chat_env\<lparr>fe_use := [''a'' @ [backslash]],
      fe_codec := tiny_codec\<lparr>cd_json_parse := (\<lambda>_. Inr (JsObj [(''name'', JsStr (''a'' @ [backslash])), (''key'', JsArr [JsStr ''b:(none)''])]))\<rparr>\<rparr>,
    cf_started := (\<lambda>i s. None)\<rparr>"



end
