(* ===== verification/SocketRoutes.thy ===== *)
theory SocketRoutes
  imports EndpointProps CloudflareProps EngineManager
begin

text \<open>
  Where a WebSocket to an actor gets its handlers: the two WebSocket routes of \<open>actor/router.ts\<close>, the manager
  driver of \<open>drivers/file-system/manager.ts\<close>, which calls the handlers itself, and the engine's runner
  (\<open>#runnerWebSocket\<close> of \<open>drivers/engine/actor-driver.ts\<close>).
\<close>

section \<open>Paths\<close>

definition PATH_CONNECT_WEBSOCKET :: string where
  "PATH_CONNECT_WEBSOCKET = ''/connect/websocket''"

definition PATH_RAW_WEBSOCKET_PREFIX :: string where
  "PATH_RAW_WEBSOCKET_PREFIX = ''/raw/websocket/''"

text \<open>What \<open>handleWebSocketConnect\<close> or \<open>handleRawWebSocketHandler\<close> is called with.\<close>

datatype socket_handlers =
    Connection_handlers ws_session
  | Raw_handlers "http_request option" string jsval

definition socket_for_path :: "http_request option \<Rightarrow> string \<Rightarrow> encoding \<Rightarrow> jsval \<Rightarrow> jsval \<Rightarrow> js_err + socket_handlers" where
  "socket_for_path req path enc params authData =
     (if path = PATH_CONNECT_WEBSOCKET then Inr (Connection_handlers (handleWebSocketConnect req enc params authData))
      else if prefix PATH_RAW_WEBSOCKET_PREFIX path then Inr (Raw_handlers req path authData)
      else Inl (EError ''Error'' (''Unreachable path: '' @ path)))"

section \<open>The file-system driver\<close>

definition fs_openWebSocket :: "string \<Rightarrow> encoding \<Rightarrow> jsval \<Rightarrow> js_err + socket_handlers" where
  "fs_openWebSocket path enc params = socket_for_path None path enc params JUndef"

definition fs_proxyWebSocket ::
    "bool \<Rightarrow> http_request \<Rightarrow> string \<Rightarrow> encoding \<Rightarrow> jsval \<Rightarrow> jsval \<Rightarrow> js_err + socket_handlers" where
  "fs_proxyWebSocket upgradeWebSocket c path enc connParams authData =
     (if \<not> upgradeWebSocket then Inl (invariant_error ''missing getUpgradeWebSocket'')
      else socket_for_path (Some c) path enc connParams authData)"

section \<open>The actor's router\<close>

definition route_raw_websocket :: "endpoint_env \<Rightarrow> http_request \<Rightarrow> js_err + socket_handlers" where
  "route_raw_websocket ep c =
     (case Option.bind (get_header (rq_headers c) HEADER_ENCODING) EncodingSchema of
        None \<Rightarrow> Inl (EError ''ZodError'' [])
      | Some encoding \<Rightarrow>
          andThen (case given_header c HEADER_CONN_PARAMS of None \<Rightarrow> Inr JUndef | Some t \<Rightarrow> json_parse (ep_http ep) t) (\<lambda>connParams.
          andThen (request_auth ep c) (\<lambda>authData. Inr (Raw_handlers (Some c) (rq_path c @ rq_search c) authData))))"

datatype socket_route = No_websockets string nat | Handlers "js_err + socket_handlers" | Other_route

text \<open>A route \<open>/a/*\<close> is there for the path \<open>/a\<close> as well.\<close>

definition raw_websocket_route :: "string \<Rightarrow> bool" where
  "raw_websocket_route p \<longleftrightarrow> prefix PATH_RAW_WEBSOCKET_PREFIX p \<or> p @ ''/'' = PATH_RAW_WEBSOCKET_PREFIX"

definition router_socket :: "endpoint_env \<Rightarrow> bool \<Rightarrow> http_request \<Rightarrow> socket_route" where
  "router_socket ep upgradeWebSocket c =
     (if rq_method c \<in> {''GET'', ''HEAD''} \<and> (rq_path c = PATH_CONNECT_WEBSOCKET \<or> raw_websocket_route (rq_path c)) then
        (if \<not> upgradeWebSocket then No_websockets ''WebSockets are not enabled for this driver. Use SSE instead.'' 400
         else if rq_path c = PATH_CONNECT_WEBSOCKET then Handlers (andThen (route_websocket ep c) (\<lambda>w. Inr (Connection_handlers w)))
         else Handlers (route_raw_websocket ep c))
      else Other_route)"

section \<open>The engine's runner\<close>

text \<open>Which handlers are asked for; a failure before that is thrown.\<close>

definition runnerWebSocket :: "endpoint_env \<Rightarrow> http_request \<Rightarrow> js_err + socket_handlers" where
  "runnerWebSocket ep request =
     (case Option.bind (get_header (rq_headers request) HEADER_ENCODING) EncodingSchema of
        None \<Rightarrow> Inl (EError ''ZodError'' [])
      | Some encoding \<Rightarrow>
          andThen (case given_header request HEADER_CONN_PARAMS of None \<Rightarrow> Inr JUndef | Some t \<Rightarrow> json_parse (ep_http ep) t) (\<lambda>connParams.
          andThen (request_auth ep request) (\<lambda>authData.
            if rq_path request = PATH_CONNECT_WEBSOCKET
            then Inr (Connection_handlers (handleWebSocketConnect (Some request) encoding connParams authData))
            else if prefix PATH_RAW_WEBSOCKET_PREFIX (rq_path request)
            then Inr (Raw_handlers (Some request) (rq_path request @ rq_search request) authData)
            else Inl (EError ''Error'' (''Unreachable path: '' @ rq_path request)))))"

text \<open>The listeners on the socket wait for the handlers: each call goes on when they are there.  The
  first to wait is the one that closes the socket if they do not come; the others then reject.\<close>

datatype socket_call = Call_open | Call_message input_data | Call_close | Call_error

record runner_socket =
  rs_handlers :: "(js_err + unit) option"
  rs_waiting :: "socket_call list"
  rs_calls :: "socket_call list"
  rs_closed :: "(nat \<times> js_err) list"
  rs_rejections :: nat

definition runner_socket_new :: "bool \<Rightarrow> runner_socket" where
  "runner_socket_new isOpen =
     \<lparr>rs_handlers = None, rs_waiting = (if isOpen then [Call_open] else []), rs_calls = [], rs_closed = [], rs_rejections = 0\<rparr>"

datatype runner_socket_event = Socket_event socket_call | Handlers_settled "js_err option"

fun runner_socket_step :: "runner_socket_event \<Rightarrow> runner_socket \<Rightarrow> runner_socket" where
  "runner_socket_step (Socket_event c) s =
     (case rs_handlers s of
        None \<Rightarrow> s\<lparr>rs_waiting := rs_waiting s @ [c]\<rparr>
      | Some (Inr u) \<Rightarrow> s\<lparr>rs_calls := rs_calls s @ [c]\<rparr>
      | Some (Inl e) \<Rightarrow> s\<lparr>rs_rejections := Suc (rs_rejections s)\<rparr>)"
| "runner_socket_step (Handlers_settled err) s =
     (if rs_handlers s \<noteq> None then s
      else case err of
          None \<Rightarrow> s\<lparr>rs_handlers := Some (Inr ()), rs_calls := rs_calls s @ rs_waiting s, rs_waiting := []\<rparr>
        | Some e \<Rightarrow> s\<lparr>rs_handlers := Some (Inl e), rs_closed := rs_closed s @ [(1011, e)],
                     rs_rejections := rs_rejections s + length (rs_waiting s), rs_waiting := []\<rparr>)"

definition socket_events :: "runner_socket_event list \<Rightarrow> socket_call list" where
  "socket_events evs = concat (map (\<lambda>e. case e of Socket_event c \<Rightarrow> [c] | _ \<Rightarrow> []) evs)"

text \<open>Nothing is lost or overtaken on the way to the handlers: what they have been called with and what waits is
  what happened on the socket.\<close>

lemma runner_step_calls:
  "Handlers_settled err \<noteq> e \<or> err = None \<Longrightarrow> rs_handlers s = None \<or> rs_waiting s = [] \<and> rs_handlers s = Some (Inr ()) \<Longrightarrow>
     (\<And>x. e \<noteq> Handlers_settled (Some x)) \<Longrightarrow>
     rs_calls (runner_socket_step e s) @ rs_waiting (runner_socket_step e s) = rs_calls s @ rs_waiting s @ socket_events [e]
     \<and> (rs_handlers (runner_socket_step e s) = None
        \<or> rs_waiting (runner_socket_step e s) = [] \<and> rs_handlers (runner_socket_step e s) = Some (Inr ()))"
  by (cases e) (auto simp: socket_events_def split: option.splits)

lemma runner_calls_in_order:
  assumes "\<And>x. Handlers_settled (Some x) \<notin> set evs"
  shows "rs_calls (fold runner_socket_step evs (runner_socket_new isOpen)) @ rs_waiting (fold runner_socket_step evs (runner_socket_new isOpen))
    = (if isOpen then [Call_open] else []) @ socket_events evs"
proof -
  have "rs_calls (fold runner_socket_step evs s) @ rs_waiting (fold runner_socket_step evs s) = rs_calls s @ rs_waiting s @ socket_events evs"
    if "rs_handlers s = None \<or> rs_waiting s = [] \<and> rs_handlers s = Some (Inr ())" for s
    using assms that
  proof (induction evs arbitrary: s)
    case (Cons e evs)
    have "\<And>x. e \<noteq> Handlers_settled (Some x)" using Cons.prems(1) by auto
    from runner_step_calls [of None, OF _ Cons.prems(2) this]
    have "rs_calls (runner_socket_step e s) @ rs_waiting (runner_socket_step e s) = rs_calls s @ rs_waiting s @ socket_events [e]"
      and w: "rs_handlers (runner_socket_step e s) = None
        \<or> rs_waiting (runner_socket_step e s) = [] \<and> rs_handlers (runner_socket_step e s) = Some (Inr ())" by auto
    moreover have "\<And>x. Handlers_settled (Some x) \<notin> set evs" using Cons.prems(1) by auto
    ultimately show ?case using Cons.IH [OF _ w] by (simp add: socket_events_def)
  qed (simp add: socket_events_def)
  then show ?thesis by (simp add: runner_socket_new_def)
qed

section \<open>The drivers agree\<close>

lemma encoding_read: "EncodingSchema (encoding_name enc) = Some enc"
  by (cases enc) (simp_all add: EncodingSchema_def encoding_name_def)

text \<open>On its two kinds of paths the engine's runner asks for the handlers the router asks for.\<close>

lemma runner_as_router:
  "rq_method r \<in> {''GET'', ''HEAD''} \<Longrightarrow> rq_path r = PATH_CONNECT_WEBSOCKET \<or> prefix PATH_RAW_WEBSOCKET_PREFIX (rq_path r) \<Longrightarrow>
     router_socket ep True r = Handlers (runnerWebSocket ep r)"
  by (auto simp: router_socket_def runnerWebSocket_def route_websocket_def route_raw_websocket_def raw_websocket_route_def
      andThen_def split: option.split sum.split)

text \<open>What is not truthy gets no header.\<close>

definition received :: "jsval \<Rightarrow> jsval" where
  "received v = (if truthy v then v else JUndef)"

fun through_object :: "http_request \<Rightarrow> socket_handlers \<Rightarrow> socket_handlers" where
  "through_object r (Connection_handlers w) = Connection_handlers
     (w\<lparr>wss_parameters := received (wss_parameters w), wss_authData := received (wss_authData w), wss_expose := True\<rparr>)"
| "through_object r (Raw_handlers req path authData) = Raw_handlers (Some r) path (received authData)"

definition same_url :: "http_request \<Rightarrow> fetch_request \<Rightarrow> bool" where
  "same_url r f \<longleftrightarrow> fr_url f = ''http://actor'' @ rq_path r @ rq_search r \<and> CHR ''?'' \<notin> set (rq_path r)
     \<and> (rq_search r = [] \<or> hd (rq_search r) = CHR ''?'')"

text \<open>A path that is one of the two kinds is so without its search part.\<close>

lemma connect_path:
  "p @ q = PATH_CONNECT_WEBSOCKET \<Longrightarrow> q = [] \<or> hd q = CHR ''?'' \<Longrightarrow> q = [] \<and> p = PATH_CONNECT_WEBSOCKET"
proof -
  assume e: "p @ q = PATH_CONNECT_WEBSOCKET" and q: "q = [] \<or> hd q = CHR ''?''"
  have "CHR ''?'' \<notin> set (p @ q)" unfolding e by (simp add: PATH_CONNECT_WEBSOCKET_def)
  then have "q = []" using q by (cases q) auto
  then show ?thesis using e by simp
qed

lemma raw_path:
  assumes "prefix PATH_RAW_WEBSOCKET_PREFIX (p @ q)" and "q = [] \<or> hd q = CHR ''?''"
  shows "prefix PATH_RAW_WEBSOCKET_PREFIX p \<and> p \<noteq> PATH_CONNECT_WEBSOCKET \<and> p @ q \<noteq> PATH_CONNECT_WEBSOCKET"
proof -
  have "CHR ''?'' \<notin> set PATH_RAW_WEBSOCKET_PREFIX" by (simp add: PATH_RAW_WEBSOCKET_PREFIX_def)
  moreover have "CHR ''?'' \<in> set PATH_RAW_WEBSOCKET_PREFIX" if "PATH_RAW_WEBSOCKET_PREFIX = p @ CHR ''?'' # zs" for zs
    unfolding that by simp
  ultimately have "prefix PATH_RAW_WEBSOCKET_PREFIX p"
    using assms by (cases q) (auto simp: prefix_append prefix_Cons)
  then show ?thesis
    by (auto simp: prefix_def PATH_RAW_WEBSOCKET_PREFIX_def PATH_CONNECT_WEBSOCKET_def)
qed

text \<open>The text of a truthy value is not empty and is read back as that value.\<close>

definition text_kept :: "cf_env \<Rightarrow> endpoint_env \<Rightarrow> jsval \<Rightarrow> bool" where
  "text_kept ce ep v \<longleftrightarrow>
     (case json_text (fe_codec (cf_fs ce)) v of
        Inl e \<Rightarrow> True
      | Inr t \<Rightarrow> truthy v \<longrightarrow> t \<noteq> [] \<and> json_parse (ep_http ep) t = Inr v)"

text \<open>What the object reads from the headers.\<close>

lemma object_reads:
  assumes "cf_proxyWebSocket ce c path actorId enc params authData = Inr (To_object i f)" and "rq_headers r = fr_headers f"
    and "text_kept ce ep params" "text_kept ce ep authData"
  shows "Option.bind (get_header (rq_headers r) HEADER_ENCODING) EncodingSchema = Some enc"
    and "(case given_header r HEADER_CONN_PARAMS of None \<Rightarrow> Inr JUndef | Some t \<Rightarrow> json_parse (ep_http ep) t) = Inr (received params)"
    and "request_auth ep r = Inr (received authData)"
    and "getRequestExposeInternalError r"
proof -
  note h = to_object_headers [OF assms(1), folded assms(2)]
  have w: "\<exists>x xs. json_text (fe_codec (cf_fs ce)) v = Inr (x # xs) \<and> json_parse (ep_http ep) (x # xs) = Inr v"
    if "v \<in> {params, authData}" "truthy v" for v
    using to_object_texts [OF assms(1)] assms(3,4) that by (auto simp: text_kept_def neq_Nil_conv)
  show "Option.bind (get_header (rq_headers r) HEADER_ENCODING) EncodingSchema = Some enc"
    by (simp add: h encoding_read)
  show "getRequestExposeInternalError r"
    by (simp add: getRequestExposeInternalError_def given_header_def h)
  show "(case given_header r HEADER_CONN_PARAMS of None \<Rightarrow> Inr JUndef | Some t \<Rightarrow> json_parse (ep_http ep) t) = Inr (received params)"
    using w [of params] by (auto simp: given_header_def h received_def)
  show "request_auth ep r = Inr (received authData)"
    using w [of authData] by (auto simp: request_auth_def given_header_def h received_def)
qed


definition cf_text :: cf_env where
  "cf_text = cf_chat\<lparr>cf_fs := chat_env\<lparr>fe_codec := tiny_codec\<lparr>cd_json_text := (\<lambda>_. ''q'')\<rparr>\<rparr>\<rparr>"

definition text_endpoint :: endpoint_env where
  "text_endpoint = example_endpoint\<lparr>ep_http := example_http\<lparr>me_codec := tiny_codec\<lparr>cd_json_parse := (\<lambda>_. Inr (JsStr ''u''))\<rparr>\<rparr>\<rparr>"

lemma text_example: "json_text (fe_codec (cf_fs cf_text)) (JStr ''u'') = Inr ''q''"
proof -
  have "\<not> has_bigint (JStr ''u'')" by (subst has_bigint.simps) simp
  moreover have "json_view iso (JStr ''u'') = Some (JsStr ''u'')" for iso by (subst json_view.simps) simp
  ultimately show ?thesis by (simp add: json_text_def JSON_stringify_def undefined_text_def cf_text_def cf_chat_def)
qed


end
