(* ===== verification/TestInline.thy ===== *)
theory TestInline
  imports HandleProps
begin

text \<open>
  The inline client over HTTP, for tests: \<open>driver-test-suite/test-inline-client-driver.ts\<close>, the
  \<open>.test/inline-driver\<close> routes of \<open>manager/router.ts\<close> it calls, and \<open>createTestWebSocketProxy\<close>.

  The driver puts a method of the inline client and its arguments into one request; the route calls the
  method and answers what it returned or the parts of what it threw.
\<close>

section \<open>The driver\<close>

definition call_url :: "http_env \<Rightarrow> string" where
  "call_url he = he_endpoint he @ ''/registry/.test/inline-driver/call''"

definition call_request :: "encoding \<Rightarrow> string \<Rightarrow> string \<Rightarrow> jsval list \<Rightarrow> jsval" where
  "call_request enc transport name args =
     JObj [(''encoding'', JStr (encoding_name enc)), (''transport'', JStr transport), (''method'', JStr name), (''args'', JArr args)]"

definition makeInlineRequest :: "http_env \<Rightarrow> encoding \<Rightarrow> string \<Rightarrow> string \<Rightarrow> jsval list \<Rightarrow> js_err + fetch_request" where
  "makeInlineRequest he enc transport name args =
     andThen (cd_cbor_encode (he_codec he) (call_request enc transport name args)) (\<lambda>b.
       Inr \<lparr>fr_url = call_url he, fr_method = ''POST'', fr_headers = header_list [(''Content-Type'', ''application/json'')],
            fr_body = Some (OBytes b)\<rparr>)"

definition read_error :: "jsval \<Rightarrow> js_err + rejection" where
  "read_error e =
     andThen (read_prop e ''code'') (\<lambda>c. andThen (read_prop e ''message'') (\<lambda>m. andThen (read_prop e ''metadata'') (\<lambda>d.
       Inr (RejActor c m d))))"

definition inline_response :: "http_env \<Rightarrow> string \<Rightarrow> fetch_answer \<Rightarrow> rejection + jsval" where
  "inline_response he name res =
     (case res of
        Unreachable_server e \<Rightarrow> Inl (RejError e)
      | Answered status statusText body \<Rightarrow>
          if \<not> ok_status status then Inl (RejError (EError ''Error'' (''Failed to call inline '' @ name @ '': '' @ statusText)))
          else (case andThen (cd_cbor_decode (he_codec he) body) (\<lambda>v.
                    andThen (js_in ''ok'' v) (\<lambda>ok. if ok then Inr (Inr (obj_get v ''ok''))
                    else andThen (js_in ''err'' v) (\<lambda>err. if err then andThen (read_error (obj_get v ''err'')) (\<lambda>r. Inr (Inl r))
                    else Inl (EError ''Error'' ''Unreachable case'')))) of
                  Inl e \<Rightarrow> Inl (RejError e)
                | Inr out \<Rightarrow> out))"

definition test_action :: "http_env \<Rightarrow> string \<Rightarrow> jsval \<Rightarrow> encoding \<Rightarrow> jsval \<Rightarrow> string \<Rightarrow> jsval list \<Rightarrow> js_err + fetch_request" where
  "test_action he transport q enc params name args =
     makeInlineRequest he enc transport ''action'' [JUndef, q, JStr (encoding_name enc), params, JStr name, JArr args]"

definition test_resolveActorId :: "http_env \<Rightarrow> string \<Rightarrow> jsval \<Rightarrow> encoding \<Rightarrow> jsval \<Rightarrow> js_err + fetch_request" where
  "test_resolveActorId he transport q enc params =
     makeInlineRequest he enc transport ''resolveActorId'' [JUndef, q, JStr (encoding_name enc), params]"

text \<open>Messages are sent as JSON.\<close>

definition test_sendHttpMessage ::
    "http_env \<Rightarrow> string \<Rightarrow> string \<Rightarrow> encoding \<Rightarrow> string \<Rightarrow> string \<Rightarrow> jsval \<Rightarrow> js_err + fetch_request" where
  "test_sendHttpMessage he transport actorId enc connectionId connectionToken message =
     andThen (json_text (he_codec he) (call_request enc transport ''sendHttpMessage''
         [JUndef, JStr actorId, JStr (encoding_name enc), JStr connectionId, JStr connectionToken, message])) (\<lambda>t.
       Inr \<lparr>fr_url = call_url he, fr_method = ''POST'', fr_headers = header_list [(''Content-Type'', ''application/json'')],
            fr_body = Some (OStr t)\<rparr>)"

definition test_message_sent :: "fetch_answer \<Rightarrow> rejection option" where
  "test_message_sent res =
     (case res of
        Unreachable_server e \<Rightarrow> Some (RejError e)
      | Answered status statusText body \<Rightarrow>
          if \<not> ok_status status then Some (RejError (EError ''Error'' (''Failed to send HTTP message: '' @ statusText))) else None)"

text \<open>A WebSocket or an event source is made with query parameters, which the URL encodes.\<close>

record test_url =
  tu_secure :: bool
  tu_base :: string
  tu_query :: "(string \<times> string) list"

definition param_query :: "http_env \<Rightarrow> jsval \<Rightarrow> js_err + (string \<times> string) list" where
  "param_query he params =
     (if params \<noteq> JUndef then andThen (json_text (he_codec he) params) (\<lambda>p. Inr [(''params'', p)]) else Inr [])"

definition test_connectWebSocket :: "http_env \<Rightarrow> jsval \<Rightarrow> encoding \<Rightarrow> jsval \<Rightarrow> js_err + test_url" where
  "test_connectWebSocket he q enc params =
     andThen (json_text (he_codec he) q) (\<lambda>query.
     andThen (param_query he params) (\<lambda>p.
       Inr \<lparr>tu_secure = prefix ''https:'' (he_endpoint he),
            tu_base = he_endpoint he @ ''/registry/.test/inline-driver/connect-websocket'',
            tu_query = [(''actorQuery'', query)] @ p @ [(''encodingKind'', encoding_name enc)]\<rparr>))"

definition protocols_query :: "http_env \<Rightarrow> jsval \<Rightarrow> js_err + (string \<times> string) list" where
  "protocols_query he protocols =
     (if protocols \<noteq> JUndef then andThen (json_text (he_codec he) protocols) (\<lambda>t. Inr [(''protocols'', t)]) else Inr [])"

definition test_rawWebSocket :: "http_env \<Rightarrow> jsval \<Rightarrow> encoding \<Rightarrow> jsval \<Rightarrow> string \<Rightarrow> jsval \<Rightarrow> js_err + test_url" where
  "test_rawWebSocket he q enc params path protocols =
     andThen (json_text (he_codec he) q) (\<lambda>query.
     andThen (param_query he params) (\<lambda>p.
     andThen (protocols_query he protocols) (\<lambda>ps.
       Inr \<lparr>tu_secure = prefix ''https:'' (he_endpoint he),
            tu_base = he_endpoint he @ ''/registry/.test/inline-driver/raw-websocket'',
            tu_query = [(''actorQuery'', query)] @ p @ [(''encodingKind'', encoding_name enc), (''path'', no_leading_slash path)] @ ps\<rparr>)))"

text \<open>The values for the event source are encoded before the URL encodes them again.\<close>

definition test_connectSse :: "http_env \<Rightarrow> jsval \<Rightarrow> encoding \<Rightarrow> jsval \<Rightarrow> js_err + test_url" where
  "test_connectSse he q enc params =
     andThen (json_text (he_codec he) q) (\<lambda>query.
     andThen (if truthy params then andThen (json_text (he_codec he) params) (\<lambda>p. Inr (encodeURIComponent p)) else Inr []) (\<lambda>p.
       Inr \<lparr>tu_secure = prefix ''https:'' (he_endpoint he),
            tu_base = he_endpoint he @ ''/registry/.test/inline-driver/connect-sse'',
            tu_query = [(''actorQueryRaw'', encodeURIComponent query), (''encodingKind'', encodeURIComponent (encoding_name enc))]
              @ (if p \<noteq> [] then [(''params'', p)] else [])\<rparr>))"

text \<open>The promise for an open event source is settled by what comes first; the timer comes with whether it is open.\<close>

datatype sse_event = Sse_open | Sse_error | Sse_timer bool

fun sse_established :: "sse_event list \<Rightarrow> js_err option option" where
  "sse_established [] = None"
| "sse_established (Sse_open # evs) = Some None"
| "sse_established (Sse_error # evs) = Some (Some (EError ''Error'' ''Failed to establish SSE connection''))"
| "sse_established (Sse_timer isOpen # evs) =
     (if isOpen then sse_established evs else Some (Some (EError ''Error'' ''SSE connection timed out'')))"

definition test_rawHttpRequest ::
    "http_env \<Rightarrow> jsval \<Rightarrow> encoding \<Rightarrow> jsval \<Rightarrow> string \<Rightarrow> request_init \<Rightarrow> js_err + fetch_request" where
  "test_rawHttpRequest he q enc params path init =
     andThen (json_text (he_codec he) q) (\<lambda>query.
     andThen (param_header he params) (\<lambda>p.
       Inr \<lparr>fr_url = he_endpoint he @ ''/registry/.test/inline-driver/raw-http/'' @ no_leading_slash path,
            fr_method = (case ri_method init of None \<Rightarrow> ''GET'' | Some m \<Rightarrow> m),
            fr_headers = header_list ((case ri_headers init of None \<Rightarrow> [] | Some h \<Rightarrow> h)
              @ [(HEADER_ACTOR_QUERY, query), (HEADER_ENCODING, encoding_name enc)] @ p),
            fr_body = ri_body init\<rparr>))"

text \<open>What it throws; otherwise the answer is returned as it is.\<close>

definition test_raw_error :: "http_env \<Rightarrow> nat \<Rightarrow> string option \<Rightarrow> bytes \<Rightarrow> rejection option" where
  "test_raw_error he status contentType body =
     (if ok_status status \<or> \<not> (case contentType of None \<Rightarrow> False | Some t \<Rightarrow> sublist ''application/json'' t) then None
      else case andThen (cd_json_parse (he_codec he) (cd_utf8 (he_codec he) body)) (\<lambda>j. read_prop (of_json j) ''error'') of
          Inr (JObj kvs) \<Rightarrow> Some (RejActor (obj_get (JObj kvs) ''code'') (obj_get (JObj kvs) ''message'') (obj_get (JObj kvs) ''metadata''))
        | Inr (JArr xs) \<Rightarrow> Some (RejActor JUndef JUndef JUndef)
        | _ \<Rightarrow> None)"

section \<open>The routes\<close>

text \<open>The parts \<open>deconstructError\<close> makes of what the inline client threw; \<open>null\<close> makes it throw itself.\<close>

definition error_parts :: "manager_env \<Rightarrow> rejection \<Rightarrow> js_err + (nat \<times> bool \<times> jsval \<times> jsval \<times> jsval)" where
  "error_parts me r =
     (case r of
        RejActor c m d \<Rightarrow> Inr (500, False, c, m, d)
      | RejError e \<Rightarrow>
          andThen (deconstructError (me_text me) e True) (\<lambda>dd.
            Inr (de_statusCode dd, de_public dd, JStr (de_code dd), JStr (de_message dd), de_metadata dd)))"

definition error_object :: "nat \<times> bool \<times> jsval \<times> jsval \<times> jsval \<Rightarrow> jsval" where
  "error_object parts =
     (case parts of (status, public, c, m, d) \<Rightarrow>
        JObj [(''__type'', JStr ''ActorError''), (''statusCode'', JNum (Fin (of_nat status))), (''public'', JBool public),
              (''code'', c), (''message'', m), (''metadata'', d)])"

text \<open>\<open>call\<close> is a method of the inline client by its name, on its arguments; an error here is left to the
  router's error handler.\<close>

definition route_inline_call ::
    "manager_env \<Rightarrow> (jsval \<Rightarrow> jsval \<Rightarrow> 's \<Rightarrow> (rejection + jsval) \<times> 's) \<Rightarrow> bytes \<Rightarrow> 's \<Rightarrow> (js_err + bytes) \<times> 's" where
  "route_inline_call me call body s =
     (case andThen (cd_cbor_decode (me_codec me) body) (\<lambda>v.
             andThen (read_prop v ''method'') (\<lambda>m. andThen (read_prop v ''args'') (\<lambda>args. Inr (m, args)))) of
        Inl e \<Rightarrow> (Inl e, s)
      | Inr (m, args) \<Rightarrow>
          apfst (\<lambda>out.
            andThen (case out of
                       Inr x \<Rightarrow> Inr (JObj [(''ok'', x)])
                     | Inl r \<Rightarrow> andThen (error_parts me r) (\<lambda>parts. Inr (JObj [(''err'', error_object parts)])))
              (cd_cbor_encode (me_codec me))) (call m args s))"

text \<open>The inline client from the call to the return: \<open>send\<close> is \<open>sendRequest\<close> of the manager driver.\<close>

definition inline_action_call ::
    "manager_env \<Rightarrow> http_env \<Rightarrow> 's manager_driver \<Rightarrow> (jsval \<Rightarrow> fetch_request \<Rightarrow> 's \<Rightarrow> fetch_answer \<times> 's)
      \<Rightarrow> jsval \<Rightarrow> encoding \<Rightarrow> jsval \<Rightarrow> string \<Rightarrow> jsval list \<Rightarrow> 's \<Rightarrow> (rejection + jsval) \<times> 's" where
  "inline_action_call me he d send q enc params name args s =
     (case inline_action me he d q enc params name args s of
        (Inl r, s1) \<Rightarrow> (Inl r, s1)
      | (Inr (actorId, f), s1) \<Rightarrow> apfst (inline_action_result me he enc) (send actorId f s1))"

definition inline_message_call ::
    "http_env \<Rightarrow> (jsval \<Rightarrow> fetch_request \<Rightarrow> 's \<Rightarrow> fetch_answer \<times> 's)
      \<Rightarrow> string \<Rightarrow> encoding \<Rightarrow> string \<Rightarrow> string \<Rightarrow> jsval \<Rightarrow> 's \<Rightarrow> (rejection + jsval) \<times> 's" where
  "inline_message_call he send actorId enc connectionId connectionToken message s =
     (case inline_sendHttpMessage he actorId enc connectionId connectionToken message of
        Inl e \<Rightarrow> (Inl (RejError e), s)
      | Inr (i, f) \<Rightarrow>
          apfst (\<lambda>res. case inline_message_sent he enc res of None \<Rightarrow> Inr JUndef | Some r \<Rightarrow> Inl r) (send (JStr i) f s))"

text \<open>Calls the driver does not make, with other methods or arguments of other types, are \<open>rest\<close>.\<close>

definition inline_call ::
    "manager_env \<Rightarrow> http_env \<Rightarrow> 's manager_driver \<Rightarrow> (jsval \<Rightarrow> fetch_request \<Rightarrow> 's \<Rightarrow> fetch_answer \<times> 's)
      \<Rightarrow> (jsval \<Rightarrow> jsval \<Rightarrow> 's \<Rightarrow> (rejection + jsval) \<times> 's) \<Rightarrow> jsval \<Rightarrow> jsval \<Rightarrow> 's \<Rightarrow> (rejection + jsval) \<times> 's" where
  "inline_call me he d send rest m args s =
     (if m = JStr ''action'' then
        (case args of
           JArr [c, q, JStr e, params, JStr actionName, JArr actionArgs] \<Rightarrow>
             (case EncodingSchema e of
                Some enc \<Rightarrow> inline_action_call me he d send q enc params actionName actionArgs s
              | None \<Rightarrow> rest m args s)
         | _ \<Rightarrow> rest m args s)
      else if m = JStr ''resolveActorId'' then
        (case args of
           JArr [c, q, e, params] \<Rightarrow>
             apfst (\<lambda>res. case res of Inl e \<Rightarrow> Inl (RejError e) | Inr i \<Rightarrow> Inr i) (inline_resolveActorId me d q s)
         | _ \<Rightarrow> rest m args s)
      else if m = JStr ''sendHttpMessage'' then
        (case args of
           JArr [c, JStr actorId, JStr e, JStr connectionId, JStr connectionToken, message] \<Rightarrow>
             (case EncodingSchema e of
                Some enc \<Rightarrow> inline_message_call he send actorId enc connectionId connectionToken message s
              | None \<Rightarrow> rest m args s)
         | _ \<Rightarrow> rest m args s)
      else rest m args s)"

text \<open>The WebSocket routes.  A text that is missing is parsed as \<open>undefined\<close>.  What fails before the inline client is
  called is thrown; the promise of its socket (what it opens) is what \<open>createTestWebSocketProxy\<close> gets.
  The encoding is passed on as it is.\<close>

definition query_json :: "manager_env \<Rightarrow> (string \<times> string) list \<Rightarrow> string \<Rightarrow> js_err + jsval" where
  "query_json me query name = (case map_of query name of None \<Rightarrow> Inr JUndef | Some t \<Rightarrow> json_parse me t)"

definition query_actor_json :: "manager_env \<Rightarrow> (string \<times> string) list \<Rightarrow> js_err + jsval" where
  "query_actor_json me query = json_parse me (case map_of query ''actorQuery'' of None \<Rightarrow> ''undefined'' | Some t \<Rightarrow> t)"

type_synonym opened = "js_err + (string \<times> jsval \<times> string option \<times> jsval)"

definition route_connect_websocket ::
    "manager_env \<Rightarrow> 's manager_driver \<Rightarrow> (string \<times> string) list \<Rightarrow> 's \<Rightarrow> (js_err + opened) \<times> 's" where
  "route_connect_websocket me d query s =
     (if \<not> me_websockets me then (Inl (invariant_error ''websockets not supported on this platform''), s)
      else case andThen (query_actor_json me query) (\<lambda>q. andThen (query_json me query ''params'') (\<lambda>p. Inr (q, p))) of
          Inl e \<Rightarrow> (Inl e, s)
        | Inr (q, params) \<Rightarrow>
            apfst (\<lambda>res. Inr (andThen res (\<lambda>i. Inr (''/connect/websocket'', i, map_of query ''encodingKind'', params))))
              (inline_actor me d ''Missing actor ID'' q s))"

definition route_inline_raw_websocket ::
    "manager_env \<Rightarrow> 's manager_driver \<Rightarrow> (string \<times> string) list \<Rightarrow> 's \<Rightarrow> (js_err + opened) \<times> 's" where
  "route_inline_raw_websocket me d query s =
     (if \<not> me_websockets me then (Inl (invariant_error ''websockets not supported on this platform''), s)
      else case andThen (query_actor_json me query) (\<lambda>q. andThen (query_json me query ''params'') (\<lambda>p.
                andThen (query_json me query ''protocols'') (\<lambda>protocols. Inr (q, p)))) of
          Inl e \<Rightarrow> (Inl e, s)
        | Inr (q, params) \<Rightarrow>
            apfst (\<lambda>res. Inr (andThen res (\<lambda>i. case map_of query ''path'' of
                     None \<Rightarrow> Inl TypeError
                   | Some path \<Rightarrow> Inr (''/raw/websocket/'' @ no_leading_slash path, i, map_of query ''encodingKind'', params))))
              (inline_actor me d ''Missing actor ID'' q s))"

text \<open>\<open>split(marker)[1] || ""\<close>: what is between the first marker and the next, or the end.\<close>

fun up_to :: "string \<Rightarrow> string \<Rightarrow> string" where
  "up_to marker [] = []"
| "up_to marker (c # cs) = (if prefix marker (c # cs) then [] else c # up_to marker cs)"

fun after_marker :: "string \<Rightarrow> string \<Rightarrow> string" where
  "after_marker marker [] = []"
| "after_marker marker (c # cs) =
     (if prefix marker (c # cs) then up_to marker (drop (length marker) (c # cs)) else after_marker marker cs)"

datatype raw_http_reply = Missing_headers string nat | To_actor jsval fetch_request | Error_reply nat jsval

definition route_inline_raw_http ::
    "manager_env \<Rightarrow> http_env \<Rightarrow> 's manager_driver \<Rightarrow> http_request \<Rightarrow> 's \<Rightarrow> (js_err + raw_http_reply) \<times> 's" where
  "route_inline_raw_http me he d c s =
     (case (given_header c HEADER_ACTOR_QUERY, given_header c HEADER_ENCODING) of
        (Some actorQueryHeader, Some encodingHeader) \<Rightarrow>
          (case andThen (json_parse me actorQueryHeader) (\<lambda>q.
                andThen (case given_header c HEADER_CONN_PARAMS of None \<Rightarrow> Inr JUndef | Some t \<Rightarrow> json_parse me t) (\<lambda>p. Inr (q, p))) of
             Inl e \<Rightarrow> (Inl e, s)
           | Inr (q, params) \<Rightarrow>
               (case inline_rawHttpRequest me he d q params
                       (after_marker ''/.test/inline-driver/raw-http/'' (rq_path c) @ rq_search c)
                       \<lparr>ri_method = Some (rq_method c), ri_headers = Some (rq_headers c),
                        ri_body = (if rq_method c \<in> {''GET'', ''HEAD''} then None else Some (OBytes (rq_body c)))\<rparr> s of
                  (Inr (actorId, f), s1) \<Rightarrow> (Inr (To_actor actorId f), s1)
                | (Inl r, s1) \<Rightarrow> (andThen (error_parts me r) (\<lambda>(status, public, code, message, metadata).
                      Inr (Error_reply status (JObj [(''error'', JObj [(''code'', code), (''message'', message), (''metadata'', metadata)])]))), s1)))
      | _ \<Rightarrow> (Inr (Missing_headers ''Missing required headers'' 400), s))"

section \<open>The WebSocket proxy\<close>

text \<open>The client's socket is the one of the inline client, the server's the one of the test.  The ready states
  come with the events.  The bytes of a \<open>Blob\<close> are awaited, then sent without looking at the state again.\<close>

datatype proxy_phase = Awaiting_socket | Awaiting_open | Not_established | Handlers_ready | Relaying

record test_proxy =
  tp_phase :: proxy_phase
  tp_reading :: "(nat \<times> bool \<times> bytes) list"
  tp_nextRead :: nat
  tp_toServer :: "input_data list"
  tp_toClient :: "input_data list"
  tp_closes :: "(bool \<times> nat \<times> string) list"

definition createTestWebSocketProxy :: test_proxy where
  "createTestWebSocketProxy = \<lparr>tp_phase = Awaiting_socket, tp_reading = [], tp_nextRead = 0, tp_toServer = [], tp_toClient = [],
     tp_closes = []\<rparr>"

text \<open>To the client (\<open>True\<close>) or the server.\<close>

definition tp_send :: "bool \<Rightarrow> input_data \<Rightarrow> test_proxy \<Rightarrow> test_proxy" where
  "tp_send toClient m x =
     (if toClient then x\<lparr>tp_toClient := tp_toClient x @ [m]\<rparr> else x\<lparr>tp_toServer := tp_toServer x @ [m]\<rparr>)"

definition tp_close :: "bool \<Rightarrow> nat \<Rightarrow> string \<Rightarrow> test_proxy \<Rightarrow> test_proxy" where
  "tp_close client code reason x = x\<lparr>tp_closes := tp_closes x @ [(client, code, reason)]\<rparr>"

definition tp_forward :: "bool \<Rightarrow> input_data \<Rightarrow> test_proxy \<Rightarrow> test_proxy" where
  "tp_forward toClient m x =
     (case m of
        IBlob b \<Rightarrow> x\<lparr>tp_reading := tp_reading x @ [(tp_nextRead x, toClient, b)], tp_nextRead := Suc (tp_nextRead x)\<rparr>
      | _ \<Rightarrow> tp_send toClient m x)"

datatype test_proxy_event =
    Socket_given bool
  | Socket_opened
  | Socket_error ready_state
  | Server_opened
  | From_client input_data ready_state
  | Socket_closed nat string ready_state
  | From_server input_data ready_state
  | Server_closed string ready_state
  | Server_error ready_state
  | Blob_bytes nat

definition live :: "ready_state \<Rightarrow> bool" where
  "live r \<longleftrightarrow> r \<noteq> RsClosed \<and> r \<noteq> RsClosing"

definition handlers_there :: "test_proxy \<Rightarrow> bool" where
  "handlers_there x \<longleftrightarrow> tp_phase x \<in> {Handlers_ready, Relaying}"

fun test_proxy_step :: "test_proxy_event \<Rightarrow> test_proxy \<Rightarrow> test_proxy" where
  "test_proxy_step (Socket_given ok) x =
     (if tp_phase x \<noteq> Awaiting_socket then x else x\<lparr>tp_phase := (if ok then Awaiting_open else Not_established)\<rparr>)"
| "test_proxy_step Socket_opened x =
     (if tp_phase x = Awaiting_open then x\<lparr>tp_phase := Handlers_ready\<rparr> else x)"
| "test_proxy_step (Socket_error server) x =
     (case tp_phase x of
        Awaiting_open \<Rightarrow> x\<lparr>tp_phase := Not_established\<rparr>
      | Relaying \<Rightarrow> if server \<noteq> RsClosed then tp_close False 1011 ''Error in client websocket'' x else x
      | _ \<Rightarrow> x)"
| "test_proxy_step Server_opened x =
     (case tp_phase x of
        Not_established \<Rightarrow> tp_close False 1011 ''Failed to establish connection'' x
      | Handlers_ready \<Rightarrow> x\<lparr>tp_phase := Relaying\<rparr>
      | _ \<Rightarrow> x)"
| "test_proxy_step (From_client m server) x =
     (if tp_phase x = Relaying \<and> server = RsOpen then tp_forward False m x else x)"
| "test_proxy_step (Socket_closed code reason server) x =
     (if tp_phase x = Relaying \<and> server \<noteq> RsClosed then tp_close False code reason x else x)"
| "test_proxy_step (From_server m client) x =
     (if handlers_there x \<and> client = RsOpen then tp_forward True m x else x)"
| "test_proxy_step (Server_closed reason client) x =
     (if \<not> handlers_there x then x
      else let x1 = tp_close False 1000 ''hack_force_close'' x
           in if live client then tp_close True 1000 reason x1 else x1)"
| "test_proxy_step (Server_error client) x =
     (if handlers_there x \<and> live client then tp_close True 1011 ''Error in server websocket'' x else x)"
| "test_proxy_step (Blob_bytes k) x =
     (case jm_get (tp_reading x) k of
        None \<Rightarrow> x
      | Some (toClient, b) \<Rightarrow> tp_send toClient (IBuffer b) (x\<lparr>tp_reading := jm_del k (tp_reading x)\<rparr>))"

section \<open>The test driver is the inline client\<close>

definition cbor_carries :: "codec \<Rightarrow> codec \<Rightarrow> bool" where
  "cbor_carries c c' \<longleftrightarrow> (\<forall>v b. cd_cbor_encode c v = Inr b \<longrightarrow> cd_cbor_decode c' b = Inr v)"

lemma read_error_parts:
  "error_parts me r = Inr p \<Longrightarrow> read_error (error_object p) = Inr (standardize me r)"
  by (cases r) (auto simp: error_parts_def error_object_def read_error_def read_prop_def nullish_def standardize_def andThen_Inr)

text \<open>A caller gets what the method of the inline client returned or threw, errors as the \<open>ActorError\<close> of the client.\<close>

lemma call_as_inline:
  assumes "makeInlineRequest he enc transport name args = Inr f" and "fr_body f = Some (OBytes body)"
    and "route_inline_call me call body s = (Inr out, s1)" and "ok_status n"
    and "cbor_carries (he_codec he) (me_codec me)" and "cbor_carries (me_codec me) (he_codec he)"
  shows "inline_response he name (Answered n statusText out)
      = map_sum (standardize me) id (fst (call (JStr name) (JArr args) s)) \<and> s1 = snd (call (JStr name) (JArr args) s)"
proof -
  have d: "cd_cbor_decode (me_codec me) body = Inr (call_request enc transport name args)"
    using assms(1,2,5) by (auto simp: makeInlineRequest_def andThen_Inr cbor_carries_def)
  obtain res where c: "call (JStr name) (JArr args) s = (res, s1)"
    and o: "andThen (case res of Inr x \<Rightarrow> Inr (JObj [(''ok'', x)])
              | Inl r \<Rightarrow> andThen (error_parts me r) (\<lambda>p. Inr (JObj [(''err'', error_object p)]))) (cd_cbor_encode (me_codec me)) = Inr out"
    using assms(3) by (cases "call (JStr name) (JArr args) s") (auto simp: route_inline_call_def d call_request_def read_prop_def nullish_def)
  have e: "cd_cbor_encode (me_codec me) v = Inr out \<Longrightarrow> cd_cbor_decode (he_codec he) out = Inr v" for v
    using assms(6) by (simp add: cbor_carries_def)
  show ?thesis
  proof (cases res)
    case (Inr x)
    then show ?thesis using o assms(4) by (simp add: c inline_response_def e js_in_def)
  next
    case (Inl r)
    then obtain p where p: "error_parts me r = Inr p" and "cd_cbor_encode (me_codec me) (JObj [(''err'', error_object p)]) = Inr out"
      using o by (auto simp: andThen_Inr)
    then show ?thesis using assms(4) by (simp add: c Inl inline_response_def e js_in_def read_error_parts [OF p])
  qed
qed

lemma action_as_inline:
  assumes "test_action he transport q enc params name args = Inr f" and "fr_body f = Some (OBytes body)"
    and "route_inline_call me (inline_call me he' d send rest) body s = (Inr out, s1)" and "ok_status n"
    and "cbor_carries (he_codec he) (me_codec me)" and "cbor_carries (me_codec me) (he_codec he)"
  shows "(inline_response he ''action'' (Answered n statusText out), s1)
      = apfst (map_sum (standardize me) id) (inline_action_call me he' d send q enc params name args s)"
  using call_as_inline [OF assms(1) [unfolded test_action_def] assms(2-6)]
  by (simp add: inline_call_def prod_eq_iff)

text \<open>But a message, sent as JSON, is never read: the text starts as CBOR does for a text of more than \<open>2 ^ 61\<close> bytes.\<close>

definition cbor_checks_length :: "codec \<Rightarrow> bool" where
  "cbor_checks_length c \<longleftrightarrow>
     (\<forall>ls rest. length ls = 8 \<and> length rest < horner_sum unat 256 (rev ls) \<longrightarrow>
        (\<exists>e. cd_cbor_decode c (0x7B # ls @ rest) = Inl e))"

lemma message_never_read:
  assumes "cbor_checks_length (me_codec me)" and "length rest < 2 ^ 61"
  shows "\<exists>e. route_inline_call me call (map (\<lambda>c. of_nat (of_char c)) ''{\"encodin'' @ rest) s = (Inl e, s)"
proof -
  let ?ls = "map (\<lambda>c. of_nat (of_char c)) [CHR 0x22, CHR ''e'', CHR ''n'', CHR ''c'', CHR ''o'', CHR ''d'', CHR ''i'', CHR ''n''] :: bytes"
  have "length ?ls = 8" by simp
  moreover have "length rest < horner_sum unat 256 (rev ?ls)" using assms(2) by (simp add: horner_sum_simps)
  ultimately obtain e where "cd_cbor_decode (me_codec me) (0x7B # ?ls @ rest) = Inl e"
    using assms(1) unfolding cbor_checks_length_def by blast
  then show ?thesis by (simp add: route_inline_call_def)
qed

text \<open>The socket route asks the inline client for the socket the driver was asked for.\<close>

lemma json_read:
  "json_text c v = Inr t \<Longrightarrow> v \<noteq> JUndef \<Longrightarrow> json_carries c (me_codec me) v \<Longrightarrow> json_parse me t = Inr (wire c v)"
  by (auto simp: json_carries_def json_text_def JSON_stringify_def undefined_text_def wire_def json_parse_def split: if_splits)

lemma socket_as_inline:
  assumes "test_connectWebSocket he q enc params = Inr u" and "me_websockets me" and "q \<noteq> JUndef"
    and "json_carries (he_codec he) (me_codec me) q" and "json_carries (he_codec he) (me_codec me) params"
  shows "route_connect_websocket me d (tu_query u) s
    = apfst (\<lambda>res. Inr (andThen res (\<lambda>(path, i, e, ps). Inr (path, i, Some (encoding_name e), ps))))
        (inline_connectWebSocket me d (wire (he_codec he) q) enc (wire (he_codec he) params) s)"
proof -
  obtain tq p where t: "json_text (he_codec he) q = Inr tq" "param_query he params = Inr p"
      "tu_query u = [(''actorQuery'', tq)] @ p @ [(''encodingKind'', encoding_name enc)]"
    using assms(1) by (auto simp: test_connectWebSocket_def andThen_Inr)
  have p: "query_json me (tu_query u) ''params'' = Inr (wire (he_codec he) params)"
    and e: "map_of (tu_query u) ''encodingKind'' = Some (encoding_name enc)"
    using t(2,3) json_read [OF _ _ assms(5)]
    by (auto simp: param_query_def query_json_def wire_def andThen_Inr split: if_splits)
  have "query_actor_json me (tu_query u) = Inr (wire (he_codec he) q)"
    using json_read [OF t(1) assms(3,4)] by (simp add: query_actor_json_def t(3))
  then show ?thesis
    using assms(2) p e
    by (cases "inline_actor me d ''Missing actor ID'' (wire (he_codec he) q) s")
      (simp add: route_connect_websocket_def inline_connectWebSocket_def andThen_def split: sum.split)
qed

section \<open>The order of messages\<close>

definition from_server :: "test_proxy_event list \<Rightarrow> input_data list" where
  "from_server evs = concat (map (\<lambda>e. case e of From_server m r \<Rightarrow> [m] | _ \<Rightarrow> []) evs)"

definition no_blob :: "input_data \<Rightarrow> bool" where
  "no_blob m = (case m of IBlob b \<Rightarrow> False | _ \<Rightarrow> True)"

lemma forward_plain: "no_blob m \<Longrightarrow> tp_forward to m x = tp_send to m x"
  by (cases m) (simp_all add: no_blob_def tp_forward_def)

text \<open>Without a \<open>Blob\<close> messages keep their order; one that comes when the socket is not open is lost.\<close>

lemma test_proxy_order:
  assumes "\<And>m. m \<in> set (from_server evs) \<Longrightarrow> no_blob m" and "\<And>m r. From_client m r \<in> set evs \<Longrightarrow> no_blob m"
  shows "subseq (tp_toClient (fold test_proxy_step evs createTestWebSocketProxy)) (from_server evs)"
proof -
  have "subseq (tp_toClient (fold test_proxy_step evs x)) (ms @ from_server evs)"
    if "subseq (tp_toClient x) ms" and "tp_reading x = []" for x ms
    using assms that
  proof (induction evs arbitrary: x ms)
    case (Cons e evs)
    have "subseq (tp_toClient (test_proxy_step e x)) (ms @ from_server [e]) \<and> tp_reading (test_proxy_step e x) = []"
    proof (cases e)
      case (From_server m r)
      then have "no_blob m" using Cons.prems(1) by (simp add: from_server_def)
      then show ?thesis
        using Cons.prems(3,4) list_emb_append_mono [OF Cons.prems(3), of "[m]" "[m]"] list_emb_prefix [OF Cons.prems(3), of "[m]"]
        by (auto simp: From_server from_server_def forward_plain tp_send_def)
    next
      case (From_client m r)
      then have "no_blob m" using Cons.prems(2) by auto
      then show ?thesis using Cons.prems(3,4) by (simp add: From_client from_server_def forward_plain tp_send_def)
    qed (use Cons.prems(3,4) in \<open>auto simp: from_server_def tp_close_def Let_def split: proxy_phase.split\<close>)
    moreover have "from_server (e # evs) = from_server [e] @ from_server evs" by (simp add: from_server_def)
    ultimately show ?case using Cons.IH [of "test_proxy_step e x" "ms @ from_server [e]"] Cons.prems(1,2) by auto
  qed (simp add: from_server_def)
  from this [of createTestWebSocketProxy "[]"] show ?thesis by (simp add: createTestWebSocketProxy_def)
qed

text \<open>A \<open>Blob\<close> is overtaken, and goes out even when the socket has been closed since; a message of the client's
  socket before the server's is open is dropped, unless that socket keeps it for its first listener, as the
  inline one does.\<close>

lemma test_proxy_examples:
  "tp_toClient (fold test_proxy_step [Socket_given True, Socket_opened, Server_opened, From_server (IBlob b) RsOpen,
     From_server (IStr t) RsOpen, Server_closed [] RsOpen, Blob_bytes 0] createTestWebSocketProxy) = [IStr t, IBuffer b]"
  "tp_toServer (fold test_proxy_step [Socket_given True, Socket_opened, From_client m RsOpen, Server_opened]
     createTestWebSocketProxy) = []"
  by (simp_all add: createTestWebSocketProxy_def tp_forward_def tp_send_def tp_close_def handlers_there_def live_def Let_def)

end
