(* ===== verification/Inspector.thy ===== *)
theory Inspector
  imports ActorHandlers ManagerRouter FsListing
begin

text \<open>
  The inspector: its configuration (\<open>inspector/config.ts\<close>), the routes on the manager (\<open>inspector/manager.ts\<close>,
  with the accessors of the file-system driver) and on an actor (\<open>inspector/actor.ts\<close>, with the accessors of
  \<open>actor/instance.ts\<close>), and the log of realtime events.

  Validated bodies, JSON patches and the database are parameters.  Of a stream the messages are modelled.
\<close>

section \<open>Configuration\<close>

text \<open>Environment variables; an empty one counts as unset.\<close>

type_synonym environment = "string \<Rightarrow> string option"

definition env_set :: "environment \<Rightarrow> string \<Rightarrow> bool" where
  "env_set ev k = (case ev k of Some (c # cs) \<Rightarrow> True | _ \<Rightarrow> False)"

definition defaultTokenFn :: "environment \<Rightarrow> string" where
  "defaultTokenFn ev = (case ev ''RIVETKIT_INSPECTOR_TOKEN'' of Some (c # cs) \<Rightarrow> c # cs | _ \<Rightarrow> [])"

definition defaultEnabled :: "environment \<Rightarrow> bool" where
  "defaultEnabled ev = (ev ''NODE_ENV'' \<noteq> Some ''production'' \<or> \<not> env_set ev ''RIVETKIT_INSPECTOR_DISABLE'')"

definition defaultInspectorOrigins :: "string list" where
  "defaultInspectorOrigins = [''http://localhost:43708'', ''https://studio.rivet.gg'']"

definition default_cors_origin :: "string \<Rightarrow> string option" where
  "default_cors_origin origin =
     (if origin \<in> set defaultInspectorOrigins \<or> (prefix ''https://'' origin \<and> suffix ''rivet-gg.vercel.app'' origin)
      then Some origin else None)"

text \<open>The URL that \<open>getInspectorUrl\<close> tells: what it is made of, or that there is none.\<close>

definition getInspectorUrl :: "bool \<Rightarrow> string option \<Rightarrow> string option \<Rightarrow> (string \<times> string) list option" where
  "getInspectorUrl enabled token defaultEndpoint =
     (if \<not> enabled then None
      else case token of
          Some (t # ts) \<Rightarrow>
            Some ((''t'', t # ts) # (case defaultEndpoint of Some (e # es) \<Rightarrow> [(''u'', e # es)] | _ \<Rightarrow> []))
        | _ \<Rightarrow> None)"

section \<open>The manager's inspector\<close>

text \<open>What a route answers: status and JSON, an open stream, or the error it throws.\<close>

datatype inspector_reply = InspectorJson nat jsval | InspectorStream | InspectorThrows js_err

text \<open>\<open>Number.parseInt(s)\<close>: white space, a sign, an optional \<open>0x\<close>, then digits as far as they go; None is NaN.\<close>

definition digit_value :: "char \<Rightarrow> nat option" where
  "digit_value c =
     (if CHR ''0'' \<le> c \<and> c \<le> CHR ''9'' then Some (of_char c - 48)
      else if CHR ''a'' \<le> c \<and> c \<le> CHR ''f'' then Some (of_char c - 87)
      else if CHR ''A'' \<le> c \<and> c \<le> CHR ''F'' then Some (of_char c - 55)
      else None)"

definition is_digit_of :: "nat \<Rightarrow> char \<Rightarrow> bool" where
  "is_digit_of radix c = (case digit_value c of None \<Rightarrow> False | Some v \<Rightarrow> v < radix)"

definition unsigned_value :: "string \<Rightarrow> nat option" where
  "unsigned_value s =
     (let hex = prefix ''0x'' s \<or> prefix ''0X'' s;
          radix = (if hex then 16 else 10);
          ds = takeWhile (is_digit_of radix) (if hex then drop 2 s else s)
      in if ds = [] then None else Some (fold (\<lambda>c n. n * radix + the (digit_value c)) ds 0))"

definition parseInt :: "string \<Rightarrow> int option" where
  "parseInt s =
     (case dropWhile js_space s of
        [] \<Rightarrow> None
      | c # cs \<Rightarrow>
          if c = CHR ''-'' then map_option (\<lambda>n. - int n) (unsigned_value cs)
          else if c = CHR ''+'' then map_option int (unsigned_value cs)
          else map_option int (unsigned_value (c # cs)))"

text \<open>\<open>GET /actors\<close> with the query's limit and cursor: NaN and 0 count as no limit.\<close>

definition query_limit :: "string option \<Rightarrow> int option" where
  "query_limit limit = (case parseInt (case limit of None \<Rightarrow> [] | Some t \<Rightarrow> t) of Some n \<Rightarrow> if n = 0 then None else Some n | None \<Rightarrow> None)"

definition given :: "string option \<Rightarrow> string option" where
  "given t = (case t of Some (c # cs) \<Rightarrow> Some (c # cs) | _ \<Rightarrow> None)"

definition inspector_actors ::
    "(string option \<Rightarrow> nat \<Rightarrow> js_err + jsval) \<Rightarrow> string option \<Rightarrow> string option \<Rightarrow> inspector_reply" where
  "inspector_actors getAll limit cursor =
     (case query_limit limit of
        None \<Rightarrow> InspectorJson 400 (JStr ''Invalid limit'')
      | Some n \<Rightarrow>
          if n \<le> 0 then InspectorJson 400 (JStr ''Invalid limit'')
          else (case getAll (given cursor) (nat n) of
                  Inl e \<Rightarrow> InspectorJson 500 (JStr ''Failed to fetch actors'')
                | Inr actors \<Rightarrow> InspectorJson 200 actors))"

definition inspector_bootstrap :: "(string option \<Rightarrow> nat \<Rightarrow> js_err + jsval) \<Rightarrow> inspector_reply" where
  "inspector_bootstrap getAll =
     (case getAll None 10 of
        Inl e \<Rightarrow> InspectorThrows e
      | Inr actors \<Rightarrow> InspectorJson 200 (JObj [(''actors'', actors)]))"

definition inspector_actor :: "(string \<Rightarrow> jsval) \<Rightarrow> string \<Rightarrow> inspector_reply" where
  "inspector_actor getById i =
     (let actor = getById i
      in if \<not> truthy actor then InspectorJson 404 (JObj [(''error'', JStr ''Actor not found'')]) else InspectorJson 200 actor)"

text \<open>The accessors of the file-system driver.  \<open>isoText\<close> is the text of a time.\<close>

definition transformActor :: "(int \<Rightarrow> string) \<Rightarrow> string \<Rightarrow> actor_file \<Rightarrow> jsval" where
  "transformActor isoText startedAt st =
     JObj [(''id'', JStr (af_actorId st)), (''name'', JStr (af_name st)), (''key'', JArr (map JStr (af_key st))),
       (''startedAt'', JStr startedAt), (''createdAt'', JStr (isoText (af_createdAt st))),
       (''features'', JArr (map JStr [''state'', ''connections'', ''console'', ''events-monitoring'', ''database'']))]"

definition fs_getAllActors ::
    "(int \<Rightarrow> string) \<Rightarrow> string \<Rightarrow> (string \<Rightarrow> js_err + actor_file) \<Rightarrow> string list \<Rightarrow> string option \<Rightarrow> nat \<Rightarrow> js_err + jsval" where
  "fs_getAllActors isoText startedAt load actorIds cursor limit =
     Inr (JArr (map (transformActor isoText startedAt) (getAllActors load cursor (Some limit) actorIds)))"

definition fs_getActorById :: "(int \<Rightarrow> string) \<Rightarrow> string \<Rightarrow> (string \<Rightarrow> js_err + actor_file) \<Rightarrow> string \<Rightarrow> jsval" where
  "fs_getActorById isoText startedAt load i = (case load i of Inl e \<Rightarrow> JNull | Inr st \<Rightarrow> transformActor isoText startedAt st)"

definition fs_getBuilds :: "string list \<Rightarrow> jsval" where
  "fs_getBuilds names = JArr (map (\<lambda>n. JObj [(''name'', JStr n)]) names)"

definition inspector_builds :: "jsval \<Rightarrow> inspector_reply" where
  "inspector_builds builds = InspectorJson 200 builds"

text \<open>\<open>POST /actors\<close>, when the driver has created the actor or thrown.\<close>

definition fs_inspector_created :: "(string \<Rightarrow> jsval) \<Rightarrow> js_err + string \<Rightarrow> inspector_reply" where
  "fs_inspector_created getById created =
     (case created of Inl e \<Rightarrow> InspectorThrows e | Inr i \<Rightarrow> InspectorJson 201 (getById i))"

section \<open>The log of realtime events\<close>

record recorded_event =
  re_id :: string
  re_timestamp :: rat
  re_event :: inspector_event

text \<open>The listener the constructor registers.\<close>

definition event_fired :: "recorded_event \<Rightarrow> recorded_event list \<Rightarrow> recorded_event list" where
  "event_fired e es =
     (let l = es @ [e] in if 100 < length l then drop (length l - 100) l else l)"

definition events_clear :: "recorded_event list \<Rightarrow> inspector_reply \<times> recorded_event list" where
  "events_clear es = (InspectorJson 200 (JObj [(''message'', JStr ''Events cleared'')]), [])"

lemma log_is_tail: "fold event_fired es (drop (length xs - 100) xs) = drop (length (xs @ es) - 100) (xs @ es)"
proof (induction es arbitrary: xs)
  case (Cons e es)
  have "event_fired e (drop (length xs - 100) xs) = drop (length (xs @ [e]) - 100) (xs @ [e])"
  proof (cases "99 < length xs")
    case True
    then have "Suc (length xs - 100) = length xs - 99" by simp
    then show ?thesis using True by (simp add: event_fired_def Let_def)
  qed (simp add: event_fired_def Let_def)
  then show ?case using Cons.IH [of "xs @ [e]"] by simp
qed simp

text \<open>The log holds the last hundred events since it was cleared, in order.\<close>

lemma log_after_clear: "fold event_fired es (snd (events_clear old)) = drop (length es - 100) es"
  using log_is_tail [of es "[]"] by (simp add: events_clear_def)

section \<open>The inspector of an actor\<close>

text \<open>\<open>{ ...v }\<close> of a value that came as JSON.\<close>

definition spread :: "jsval \<Rightarrow> jsval" where
  "spread v =
     (case v of
        JObj kvs \<Rightarrow> JObj kvs
      | JArr xs \<Rightarrow> JObj (map (\<lambda>(i, x). (nat_str i, x)) (enumerate 0 xs))
      | JStr s \<Rightarrow> JObj (map (\<lambda>(i, c). (nat_str i, JStr [c])) (enumerate 0 s))
      | _ \<Rightarrow> JObj [])"

text \<open>The accessors.\<close>

definition inspector_getState :: "cfg \<Rightarrow> actor \<Rightarrow> js_err + jsval" where
  "inspector_getState cf a = (if stateEnabled cf then Inr (a_state a) else Inl (EActor StateNotEnabled))"

definition inspector_setState :: "env \<Rightarrow> cfg \<Rightarrow> rat \<Rightarrow> jsval \<Rightarrow> actor \<Rightarrow> js_err option \<times> actor" where
  "inspector_setState en cf now v a = exec en cf now [AssignState (spread v), SaveState True False] a"

definition inspector_getRpcs :: "cfg \<Rightarrow> string list" where
  "inspector_getRpcs cf = map fst (cf_actions cf)"

definition inspected_conn :: "string \<times> conn \<Rightarrow> js_err + jsval" where
  "inspected_conn ic =
     (case ic of (i, c) \<Rightarrow>
        andThen (if c_stateEnabled c then conn_get_state c else Inr JUndef) (\<lambda>st.
          Inr (JObj [(''id'', JStr i), (''stateEnabled'', JBool (c_stateEnabled c)), (''params'', pc_params (c_persist c)),
            (''state'', st), (''auth'', pc_authData (c_persist c))])))"

definition inspector_getConnections :: "actor \<Rightarrow> js_err + jsval list" where
  "inspector_getConnections a = map_throw inspected_conn (map (\<lambda>(i, r). (i, conn_at a r)) (a_connections a))"

text \<open>The routes.  \<open>PATCH /state\<close> is cut where it waits for the state to be saved; then the state is read again.\<close>

definition inspector_state :: "cfg \<Rightarrow> actor \<Rightarrow> inspector_reply" where
  "inspector_state cf a =
     (if stateEnabled cf then
        (case inspector_getState cf a of
           Inl e \<Rightarrow> InspectorThrows e
         | Inr s \<Rightarrow> InspectorJson 200 (JObj [(''enabled'', JBool True), (''state'', s)]))
      else InspectorJson 200 (JObj [(''enabled'', JBool False), (''state'', JNull)]))"

text \<open>\<open>jsonPatch.applyPatch\<close> works on the document it is given: \<open>patch\<close> tells what becomes of that and what is
  returned or thrown.  The document is the state of the actor, not watched by the proxy.\<close>

definition inspector_patch ::
    "(jsval \<Rightarrow> jsval \<Rightarrow> jsval \<times> (js_err + jsval)) \<Rightarrow> env \<Rightarrow> cfg \<Rightarrow> rat \<Rightarrow> jsval \<Rightarrow> actor \<Rightarrow> inspector_reply option \<times> actor" where
  "inspector_patch patch en cf now body a =
     (if \<not> stateEnabled cf then (Some (InspectorJson 200 (JObj [(''enabled'', JBool False)])), a)
      else case js_in ''replace'' body of
          Inl e \<Rightarrow> (Some (InspectorThrows e), a)
        | Inr True \<Rightarrow> apfst (map_option InspectorThrows) (inspector_setState en cf now (obj_get body ''replace'') a)
        | Inr False \<Rightarrow>
            (case patch (a_state a) (obj_get body ''patch'') of
               (doc, Inl e) \<Rightarrow> (Some (InspectorThrows e), a\<lparr>a_state := doc\<rparr>)
             | (doc, Inr newState) \<Rightarrow>
                 apfst (map_option InspectorThrows) (inspector_setState en cf now newState (a\<lparr>a_state := doc\<rparr>))))"

definition inspector_connections :: "actor \<Rightarrow> inspector_reply" where
  "inspector_connections a =
     (case inspector_getConnections a of
        Inl e \<Rightarrow> InspectorThrows e
      | Inr cs \<Rightarrow> InspectorJson 200 (JObj [(''connections'', JArr cs)]))"

definition inspector_rpcs :: "cfg \<Rightarrow> inspector_reply" where
  "inspector_rpcs cf = InspectorJson 200 (JObj [(''rpcs'', JArr (map JStr (inspector_getRpcs cf)))])"

definition inspector_state_stream :: "cfg \<Rightarrow> inspector_reply" where
  "inspector_state_stream cf =
     (if stateEnabled cf then InspectorStream else InspectorJson 200 (JObj [(''enabled'', JBool False)]))"

text \<open>A query of the database.\<close>

definition inspector_query :: "(string \<Rightarrow> jsval list \<Rightarrow> string + jsval) option \<Rightarrow> string \<Rightarrow> jsval list option \<Rightarrow> inspector_reply" where
  "inspector_query db query params =
     (case db of
        None \<Rightarrow> InspectorJson 200 (JObj [(''enabled'', JBool False)])
      | Some execute \<Rightarrow>
          (case execute query (case params of None \<Rightarrow> [] | Some ps \<Rightarrow> ps) of
             Inl message \<Rightarrow> InspectorJson 500 (JObj [(''error'', JStr message)])
           | Inr result \<Rightarrow> InspectorJson 200 (JObj [(''result'', result)])))"

text \<open>The number of messages of a kind on a stream; each has the number before it as its id.\<close>

definition stream_message :: "string \<Rightarrow> string \<Rightarrow> nat \<Rightarrow> (string \<times> string \<times> string) \<times> nat" where
  "stream_message event data n = ((data, event, nat_str n), Suc n)"

section \<open>What can go wrong\<close>

text \<open>Only an object is stored as it was given; an array or a text becomes an object of its elements, and
  everything else the empty object.\<close>

lemma spread_keeps: "spread v = v \<longleftrightarrow> is_object v"
  by (cases v) (auto simp: spread_def is_object_def)

text \<open>A patch that throws half-way has changed the state, with no mark for a save.\<close>

lemma failed_patch_is_not_saved:
  assumes "stateEnabled cf" and "js_in ''replace'' body = Inr False" and "patch (a_state a) (obj_get body ''patch'') = (doc, Inl e)"
  shows "inspector_patch patch en cf now body a = (Some (InspectorThrows e), a\<lparr>a_state := doc\<rparr>)"
  using assms by (simp add: inspector_patch_def)

text \<open>One connection whose state is falsy hides all of them.\<close>

lemma falsy_state_hides_connections:
  assumes "(i, r) \<in> set (a_connections a)" and "c_stateEnabled (conn_at a r)" and "\<not> truthy (pc_state (c_persist (conn_at a r)))"
  shows "\<exists>e. inspector_connections a = InspectorThrows e"
proof -
  have "inspected_conn (i, conn_at a r) = Inl (EError ''Error'' ''state should exists'')"
    using assms(2,3) by (simp add: inspected_conn_def conn_get_state_def)
  then have "map_throw inspected_conn (map (\<lambda>(i, r). (i, conn_at a r)) (a_connections a)) \<noteq> Inr cs" for cs
    using map_throw_InrD [of inspected_conn _ cs "(i, conn_at a r)"] assms(1) by force
  then obtain e where "inspector_getConnections a = Inl e"
    unfolding inspector_getConnections_def by (meson sum.exhaust)
  then show ?thesis by (simp add: inspector_connections_def)
qed

text \<open>Any origin whose host ends in the name of the preview deployments is let in, whoever owns it.\<close>

lemma preview_origins_allowed:
  "cors_origin (Some (OriginFunction default_cors_origin)) runOrigin (''https://'' @ host @ ''rivet-gg.vercel.app'')
     = Some (''https://'' @ host @ ''rivet-gg.vercel.app'')"
  by (simp add: cors_origin_def default_cors_origin_def suffix_def)

text \<open>The variable that disables the inspector does so in production only.\<close>

lemma disable_ignored: "ev ''NODE_ENV'' \<noteq> Some ''production'' \<Longrightarrow> defaultEnabled ev"
  by (simp add: defaultEnabled_def)

end
