(* ===== verification/Logfmt.thy ===== *)
theory Logfmt
  imports ClientHandles
begin

text \<open>
  Log lines (\<open>common/logfmt.ts\<close>), levels (\<open>common/log-levels.ts\<close>) and loggers (\<open>common/log.ts\<close>).  A value that
  is not null comes with its text (\<open>toString()\<close>).
\<close>

section \<open>Levels\<close>

datatype log_level = TRACE | DEBUG | INFO | WARN | ERROR | CRITICAL

fun level_index :: "log_level \<Rightarrow> nat" where
  "level_index TRACE = 0"
| "level_index DEBUG = 1"
| "level_index INFO = 2"
| "level_index WARN = 3"
| "level_index ERROR = 4"
| "level_index CRITICAL = 5"

lemma level_index_inject: "level_index l = level_index m \<longleftrightarrow> l = m"
  by (cases l; cases m) simp_all

text \<open>Levels are compared by their index.\<close>

instantiation log_level :: linorder
begin

definition less_eq_log_level :: "log_level \<Rightarrow> log_level \<Rightarrow> bool" where
  "less_eq_log_level l m = (level_index l \<le> level_index m)"

definition less_log_level :: "log_level \<Rightarrow> log_level \<Rightarrow> bool" where
  "less_log_level l m = (level_index l < level_index m)"

instance
  by standard (auto simp: less_eq_log_level_def less_log_level_def level_index_inject)

end

definition level_names :: "(log_level \<times> string) list" where
  "level_names = [(TRACE, ''TRACE''), (DEBUG, ''DEBUG''), (INFO, ''INFO''), (WARN, ''WARN''), (ERROR, ''ERROR''), (CRITICAL, ''CRITICAL'')]"

definition level_name :: "log_level \<Rightarrow> string" where
  "level_name l = the (map_of level_names l)"

definition level_named :: "string \<Rightarrow> log_level option" where
  "level_named t = map_of (map (\<lambda>(l, n). (n, l)) level_names) t"

section \<open>A line\<close>

definition newline :: char where
  "newline = CHR 0x0A"

definition quote :: char where
  "quote = CHR 0x22"

definition esc :: "string \<Rightarrow> string" where
  "esc code = CHR 0x1B # code"

text \<open>\<open>None\<close> for null and undefined.\<close>

type_synonym log_entry = "string \<times> string option"

definition clip :: "string \<Rightarrow> string \<Rightarrow> string" where
  "clip key value =
     (if 512 < length value \<and> key \<noteq> ''msg'' \<and> key \<noteq> ''error'' then take 512 value @ ''...'' else value)"

definition needs_quoting :: "string \<Rightarrow> bool" where
  "needs_quoting s = (CHR '' '' \<in> set s \<or> CHR ''='' \<in> set s)"

definition needs_escaping :: "string \<Rightarrow> bool" where
  "needs_escaping s = (quote \<in> set s \<or> backslash \<in> set s)"

text \<open>\<open>s.replace(/["\\]/g, "\\$&")\<close>\<close>

definition escape_quotes :: "string \<Rightarrow> string" where
  "escape_quotes s = concat (map (\<lambda>c. if c = quote \<or> c = backslash then [backslash, c] else [c]) s)"

definition log_value_text :: "string \<Rightarrow> string option \<Rightarrow> string" where
  "log_value_text key value =
     (let s = clip key (case value of None \<Rightarrow> [] | Some t \<Rightarrow> t);
          quoting = needs_quoting s;
          escaping = needs_escaping s;
          s1 = replace_char newline [backslash, CHR ''n''] s;
          s2 = (if escaping then escape_quotes s1 else s1);
          s3 = (if quoting \<or> escaping then [quote] @ s2 @ [quote] else s2)
      in if s3 = [] \<and> value \<noteq> None then [quote, quote] else s3)"

definition level_color :: "log_level \<Rightarrow> string" where
  "level_color l =
     (case l of
        CRITICAL \<Rightarrow> esc ''[31m''
      | ERROR \<Rightarrow> esc ''[31m''
      | WARN \<Rightarrow> esc ''[33m''
      | INFO \<Rightarrow> esc ''[32m''
      | DEBUG \<Rightarrow> esc ''[36m''
      | TRACE \<Rightarrow> esc ''[36m'')"

definition entry_color :: "string \<Rightarrow> string \<Rightarrow> string" where
  "entry_color key text =
     (if key = ''level'' then (case level_named text of Some l \<Rightarrow> level_color l | None \<Rightarrow> esc ''[2m'')
      else if key = ''msg'' then esc ''[32m''
      else if key = ''trace'' then esc ''[34m''
      else esc ''[2m'')"

definition log_entry_text :: "bool \<Rightarrow> log_entry \<Rightarrow> string" where
  "log_entry_text enableColor entry =
     (case entry of (key, value) \<Rightarrow>
        (let t = log_value_text key value
         in if enableColor
            then esc ''[0m'' @ esc ''[1m'' @ key @ esc ''[0m'' @ esc ''[2m'' @ ''='' @ esc ''[0m'' @ entry_color key t @ t @ esc ''[0m''
            else key @ ''='' @ t))"

text \<open>\<open>stringify\<close>: the entries with a blank between two.\<close>

fun stringify :: "bool \<Rightarrow> log_entry list \<Rightarrow> string" where
  "stringify enableColor [] = []"
| "stringify enableColor [e] = log_entry_text enableColor e"
| "stringify enableColor (e # es) = log_entry_text enableColor e @ '' '' @ stringify enableColor es"

section \<open>Values\<close>

text \<open>\<open>formatTimestamp\<close> of the parts of a date in UTC, with the month from 0.\<close>

definition padStart :: "nat \<Rightarrow> string \<Rightarrow> string" where
  "padStart n s = replicate (n - length s) (CHR ''0'') @ s"

definition formatTimestamp :: "nat \<Rightarrow> nat \<Rightarrow> nat \<Rightarrow> nat \<Rightarrow> nat \<Rightarrow> nat \<Rightarrow> nat \<Rightarrow> string" where
  "formatTimestamp year month day hours minutes seconds milliseconds =
     nat_str year @ ''-'' @ padStart 2 (nat_str (month + 1)) @ ''-'' @ padStart 2 (nat_str day) @ ''T''
       @ padStart 2 (nat_str hours) @ '':'' @ padStart 2 (nat_str minutes) @ '':'' @ padStart 2 (nat_str seconds)
       @ ''.'' @ padStart 3 (nat_str milliseconds) @ ''Z''"

text \<open>\<open>castToLogValue\<close>: \<open>text\<close> is \<open>toString\<close> or \<open>String\<close>.\<close>

definition castToLogValue :: "codec \<Rightarrow> (jsval \<Rightarrow> string) \<Rightarrow> jsval \<Rightarrow> string option" where
  "castToLogValue cd txt v =
     (case v of
        JUndef \<Rightarrow> None
      | JNull \<Rightarrow> None
      | JBool b \<Rightarrow> Some (txt v)
      | JNum x \<Rightarrow> Some (txt v)
      | JBig i \<Rightarrow> Some (txt v)
      | JStr s \<Rightarrow> Some s
      | JError n m \<Rightarrow> Some (txt v)
      | _ \<Rightarrow> (case JSON_stringify cd v of Inl e \<Rightarrow> Some ''[cannot stringify]'' | Inr t \<Rightarrow> t))"

text \<open>\<open>spreadObjectToLogEntries\<close> of plain data: an object of 1 to 15 properties is spread.\<close>

definition spreads :: "bool \<Rightarrow> (string \<times> jsval) list \<Rightarrow> bool" where
  "spreads enableSpreadObject kvs = (enableSpreadObject \<and> kvs \<noteq> [] \<and> length kvs < 16)"

lemma map_throw_cong [fundef_cong]:
  "xs = ys \<Longrightarrow> (\<And>x. x \<in> set ys \<Longrightarrow> f x = g x) \<Longrightarrow> map_throw f xs = map_throw g ys"
  by (induction ys arbitrary: xs) (auto intro: andThen_cong)

function spreadObjectToLogEntries :: "codec \<Rightarrow> bool \<Rightarrow> string \<Rightarrow> jsval \<Rightarrow> js_err + log_entry list" where
  "spreadObjectToLogEntries cd enable base (JObj kvs) =
     (if spreads enable kvs then
        andThen (map_throw (\<lambda>(k, x). spreadObjectToLogEntries cd enable (base @ ''.'' @ k) x) kvs) (\<lambda>es. Inr (concat es))
      else andThen (JSON_stringify cd (JObj kvs)) (\<lambda>t. Inr [(base, t)]))"
| "\<not> is_object v \<Longrightarrow> spreadObjectToLogEntries cd enable base v = andThen (JSON_stringify cd v) (\<lambda>t. Inr [(base, t)])"
  by (atomize_elim, auto simp: is_object_def split: jsval.splits)

termination
  by (relation "measure (\<lambda>(cd, enable, base, v). size v)") (auto dest: size_jsval_children)

text \<open>Errors with a message, a stack and a cause.\<close>

datatype log_error = LogError string "string option" "log_error option" | NoError string

text \<open>\<open>formatStackTrace\<close>: of each line what follows the first \<open>at\<close> and a blank, last line first.\<close>

definition line_end :: "char \<Rightarrow> bool" where
  "line_end c = (c = newline \<or> c = CHR 0x0D)"

fun split_lines :: "string \<Rightarrow> string list" where
  "split_lines [] = [[]]"
| "split_lines (c # s) =
     (if line_end c then [] # split_lines s
      else (case split_lines s of [] \<Rightarrow> [[c]] | l # ls \<Rightarrow> (c # l) # ls))"

fun stack_match :: "string \<Rightarrow> string option" where
  "stack_match [] = None"
| "stack_match (c # s) = (if prefix ''at '' (c # s) \<and> 3 < length (c # s) then Some (drop 3 (c # s)) else stack_match s)"

fun join_text :: "string \<Rightarrow> string list \<Rightarrow> string" where
  "join_text sep [] = []"
| "join_text sep [x] = x"
| "join_text sep (x # xs) = x @ sep @ join_text sep xs"

definition formatStackTrace :: "string \<Rightarrow> string" where
  "formatStackTrace stackTrace = join_text '' > '' (map js_trim (rev (List.map_filter stack_match (split_lines stackTrace))))"

fun errorToLogEntries :: "bool \<Rightarrow> string \<Rightarrow> log_error \<Rightarrow> log_entry list" where
  "errorToLogEntries enableErrorStack base (LogError message stack cause) =
     [(base @ ''.message'', Some message)]
       @ (case stack of
            Some (c # cs) \<Rightarrow> if enableErrorStack then [(base @ ''.stack'', Some (formatStackTrace (c # cs)))] else []
          | _ \<Rightarrow> [])
       @ (case cause of None \<Rightarrow> [] | Some e \<Rightarrow> errorToLogEntries enableErrorStack (base @ ''.cause'') e)"
| "errorToLogEntries enableErrorStack base (NoError text) = [(base, Some text)]"

section \<open>Loggers\<close>

text \<open>A logger's level is the text of \<open>_LOG_LEVEL\<close>, which may name no level.\<close>

record logger =
  lg_name :: string
  lg_level :: string

definition should_log :: "logger \<Rightarrow> log_level \<Rightarrow> bool" where
  "should_log l level = (case level_named (lg_level l) of None \<Rightarrow> False | Some m \<Rightarrow> m \<le> level)"

definition getLogger :: "string option \<Rightarrow> string \<Rightarrow> (string \<times> logger) list \<Rightarrow> logger \<times> (string \<times> logger) list" where
  "getLogger logLevelEnv name loggers =
     (case jm_get loggers name of
        Some l \<Rightarrow> (l, loggers)
      | None \<Rightarrow>
          (let l = \<lparr>lg_name = name, lg_level = (case logLevelEnv of None \<Rightarrow> ''INFO'' | Some t \<Rightarrow> t)\<rparr>
           in (l, jm_set name l loggers)))"

text \<open>\<open>for (const k in v)\<close>: the properties of an object that are listed; \<open>None\<close> for what is no object.\<close>

definition listed_properties :: "jsval \<Rightarrow> (string \<times> jsval) list option" where
  "listed_properties v =
     (case v of
        JObj kvs \<Rightarrow> Some kvs
      | JArr xs \<Rightarrow> Some (map (\<lambda>(i, x). (nat_str i, x)) (enumerate 0 xs))
      | JTyped bs \<Rightarrow> Some (map (\<lambda>(i, b). (nat_str i, JNum (Fin (of_nat (unat b))))) (enumerate 0 bs))
      | JDate t \<Rightarrow> Some []
      | JBuffer bs \<Rightarrow> Some []
      | JRegExp r \<Rightarrow> Some []
      | JError n m \<Rightarrow> Some []
      | JMap es \<Rightarrow> Some []
      | JSet xs \<Rightarrow> Some []
      | _ \<Rightarrow> None)"

definition arg_entries :: "codec \<Rightarrow> (jsval \<Rightarrow> string) \<Rightarrow> nat \<times> jsval \<Rightarrow> log_entry list" where
  "arg_entries cd txt ia =
     (case listed_properties (snd ia) of
        Some kvs \<Rightarrow> map (\<lambda>(k, v). (k, castToLogValue cd txt v)) kvs
      | None \<Rightarrow> [(''arg'' @ nat_str (fst ia), castToLogValue cd txt (snd ia))])"

text \<open>\<open>formatter\<close>: the time stamp and the logger's name are there if the environment asks for them.\<close>

definition formatter ::
    "codec \<Rightarrow> (jsval \<Rightarrow> string) \<Rightarrow> bool \<Rightarrow> string option \<Rightarrow> bool \<Rightarrow> logger \<Rightarrow> log_level \<Rightarrow> string \<Rightarrow> jsval list \<Rightarrow> string" where
  "formatter cd txt color timestamp target l level message args =
     stringify color
       ((case timestamp of None \<Rightarrow> [] | Some t \<Rightarrow> [(''ts'', Some t)])
        @ [(''level'', Some (level_name level))]
        @ (if target then [(''target'', Some (lg_name l))] else [])
        @ [(''msg'', Some message)]
        @ concat (map (arg_entries cd txt) (enumerate 0 args)))"

text \<open>\<open>log\<close>: the line printed, if any.\<close>

definition logger_log ::
    "codec \<Rightarrow> (jsval \<Rightarrow> string) \<Rightarrow> bool \<Rightarrow> string option \<Rightarrow> bool \<Rightarrow> logger \<Rightarrow> log_level \<Rightarrow> string \<Rightarrow> jsval list \<Rightarrow> string option" where
  "logger_log cd txt color timestamp target l level message args =
     (if should_log l level then Some (formatter cd txt color timestamp target l level message args) else None)"

text \<open>What is logged at a level is logged at every higher one.\<close>

lemma should_log_mono: "should_log l level \<Longrightarrow> level \<le> level' \<Longrightarrow> should_log l level'"
  by (auto simp: should_log_def split: option.splits)

text \<open>A level the library does not know, like one in lower case, silences the logger.\<close>

lemma unknown_level_silent: "level_named (lg_level l) = None \<Longrightarrow> logger_log cd txt color timestamp target l level message args = None"
  by (simp add: logger_log_def should_log_def)

lemma lower_case_unknown: "level_named ''debug'' = None"
  by (simp add: level_named_def level_names_def)

text \<open>An error given as an argument lists no property: nothing of it is printed.\<close>

lemma error_argument_dropped:
  "formatter cd txt color timestamp target l level message [JError n m] = formatter cd txt color timestamp target l level message []"
  by (simp add: formatter_def arg_entries_def listed_properties_def)

section \<open>One line for each call\<close>

lemma replaced_newline: "newline \<notin> set (replace_char newline [backslash, CHR ''n''] s)"
  by (induction s) (auto simp: newline_def)

lemma escaped_newline: "newline \<notin> set s \<Longrightarrow> newline \<notin> set (escape_quotes s)"
  by (auto simp: escape_quotes_def newline_def split: if_splits)

lemma value_one_line: "newline \<notin> set (log_value_text key value)"
  using replaced_newline escaped_newline
  by (auto simp: log_value_text_def Let_def quote_def newline_def)

lemma color_one_line [simp]: "newline \<notin> set (entry_color key text)"
  by (auto simp: entry_color_def level_color_def esc_def newline_def split: option.split log_level.split)

lemma entry_one_line: "newline \<notin> set key \<Longrightarrow> newline \<notin> set (log_entry_text enableColor (key, value))"
  using value_one_line color_one_line by (auto simp: log_entry_text_def Let_def esc_def newline_def)

text \<open>Whatever values are logged, the line stays one line.\<close>

lemma stringify_one_line: "(\<And>k v. (k, v) \<in> set es \<Longrightarrow> newline \<notin> set k) \<Longrightarrow> newline \<notin> set (stringify enableColor es)"
proof (induction enableColor es rule: stringify.induct)
  case (2 c e)
  then show ?case using entry_one_line by (cases e) auto
next
  case (3 c e e' es)
  have "newline \<notin> set (stringify c (e' # es))" using 3 by auto
  moreover have "newline \<notin> set (log_entry_text c e)" using 3(2) [of "fst e" "snd e"] entry_one_line [of "fst e" c "snd e"] by simp
  ultimately show ?case by (simp add: newline_def)
qed simp

text \<open>But a value is not always read back: a newline is escaped before the backslashes are, so next to a
  backslash or a quote it looks like a backslash and an n.\<close>

lemma newline_ambiguous:
  "log_value_text key (Some [newline, quote]) = log_value_text key (Some [backslash, CHR ''n'', quote])"
  by (simp add: log_value_text_def clip_def needs_quoting_def needs_escaping_def escape_quotes_def newline_def quote_def)

end
