(* ===== verification/FrameworkStore.thy ===== *)
theory FrameworkStore
  imports ClientHandles
begin

text \<open>
  The store of actor connections that the framework packages share: \<open>createRivetKit\<close> of
  \<open>framework-base/lib/mod.ts\<close>, and how \<open>useActor\<close> of \<open>react/src/mod.ts\<close> feeds it.

  The entries of the store are objects that are also changed in place, so they live in a heap and the store
  maps keys to addresses.  \<open>store.setState\<close> is the library's: it keeps the old state as \<open>prevState\<close> and
  takes what the updater returns.  When its effects run is left to the events.
\<close>

section \<open>The store\<close>

record actor_ref =
  ar_hash :: string
  ar_isConnected :: bool
  ar_isConnecting :: bool
  ar_isError :: bool
  ar_error :: "js_err option"
  ar_connection :: "nat option"
  ar_opts :: jsval

text \<open>\<open>fw_attempts\<close> are the connection attempts that wait for \<open>resolve\<close>, each with the connection it has opened
  and its key; \<open>fw_opened\<close> are all connections opened.\<close>

record framework =
  fw_heap :: "actor_ref list"
  fw_state :: "(string \<times> nat) list"
  fw_prev :: "(string \<times> nat) list"
  fw_cache :: "string list"
  fw_attempts :: "(nat \<times> string) list"
  fw_opened :: "(nat \<times> string) list"

definition createRivetKit :: framework where
  "createRivetKit = \<lparr>fw_heap = [], fw_state = [], fw_prev = [], fw_cache = [], fw_attempts = [], fw_opened = []\<rparr>"

definition setStore :: "(string \<times> nat) list \<Rightarrow> framework \<Rightarrow> framework" where
  "setStore new s = s\<lparr>fw_prev := fw_state s, fw_state := new\<rparr>"

text \<open>A new object for a key, and a change of the object a key has.\<close>

definition put_ref :: "string \<Rightarrow> actor_ref \<Rightarrow> framework \<Rightarrow> framework" where
  "put_ref key x s =
     setStore (jm_set key (length (fw_heap s)) (fw_state s)) (s\<lparr>fw_heap := fw_heap s @ [x]\<rparr>)"

definition mutate_ref :: "nat \<Rightarrow> (actor_ref \<Rightarrow> actor_ref) \<Rightarrow> framework \<Rightarrow> framework" where
  "mutate_ref r f s = s\<lparr>fw_heap := (fw_heap s)[r := f (fw_heap s ! r)]\<rparr>"

definition ref_at :: "framework \<Rightarrow> string \<Rightarrow> actor_ref option" where
  "ref_at s key = map_option ((!) (fw_heap s)) (jm_get (fw_state s) key)"

section \<open>Getting an actor\<close>

definition defaultHashFunction :: "codec \<Rightarrow> jsval \<Rightarrow> js_err + string option" where
  "defaultHashFunction cd opts =
     JSON_stringify cd (JObj [(''name'', obj_get opts ''name''), (''key'', obj_get opts ''key''), (''params'', obj_get opts ''params'')])"

definition new_ref :: "string \<Rightarrow> jsval \<Rightarrow> actor_ref" where
  "new_ref key opts = \<lparr>ar_hash = key, ar_isConnected = False, ar_isConnecting = False, ar_isError = False,
     ar_error = None, ar_connection = None, ar_opts = opts\<rparr>"

definition getOrCreateActor :: "string \<Rightarrow> jsval \<Rightarrow> framework \<Rightarrow> framework" where
  "getOrCreateActor key opts s =
     (if key \<in> set (fw_cache s) then s
      else let s1 = (if jm_has (fw_state s) key then setStore (fw_state s) s else put_ref key (new_ref key opts) s)
           in s1\<lparr>fw_cache := fw_cache s1 @ [key]\<rparr>)"

section \<open>Connecting\<close>

text \<open>How the attempt begins: \<open>getOrCreate\<close> or \<open>connect\<close> throws, or a connection is open and \<open>resolve\<close> awaited.\<close>

datatype attempt_start = Attempt_throws js_err | Attempt_waits

definition failed_ref :: "js_err \<Rightarrow> actor_ref \<Rightarrow> actor_ref" where
  "failed_ref e x = x\<lparr>ar_isError := True, ar_isConnecting := False, ar_error := Some e\<rparr>"

definition connected_ref :: "nat \<Rightarrow> actor_ref \<Rightarrow> actor_ref" where
  "connected_ref n x = x\<lparr>ar_isConnected := True, ar_isConnecting := False, ar_connection := Some n,
     ar_isError := False, ar_error := None\<rparr>"

text \<open>\<open>createActorConnection\<close> up to its \<open>await\<close>.  An error is put into the store at once.\<close>

definition createActorConnection :: "string \<Rightarrow> attempt_start \<Rightarrow> framework \<Rightarrow> framework" where
  "createActorConnection key began s =
     (case began of
        Attempt_throws e \<Rightarrow> (case ref_at s key of None \<Rightarrow> s | Some x \<Rightarrow> put_ref key (failed_ref e x) s)
      | Attempt_waits \<Rightarrow>
          s\<lparr>fw_attempts := fw_attempts s @ [(length (fw_opened s), key)],
            fw_opened := fw_opened s @ [(length (fw_opened s), key)]\<rparr>)"

text \<open>\<open>create\<close>: inside the updater, which returns the state it was given.\<close>

definition fw_create :: "string \<Rightarrow> attempt_start \<Rightarrow> framework \<Rightarrow> framework" where
  "fw_create key began s =
     (case jm_get (fw_state s) key of
        None \<Rightarrow> s\<lparr>fw_prev := fw_state s\<rparr>
      | Some r \<Rightarrow>
          (let before = fw_state s;
               s1 = mutate_ref r (\<lambda>x. x\<lparr>ar_isConnecting := True, ar_isError := False, ar_error := None\<rparr>)
                      (s\<lparr>fw_prev := before\<rparr>);
               s2 = createActorConnection key began s1
           in s2\<lparr>fw_state := before\<rparr>))"

text \<open>The effect.  It compares the options in \<open>prevState\<close> and \<open>state\<close>; a missing entry throws.\<close>

definition same_opts :: "codec \<Rightarrow> string \<Rightarrow> framework \<Rightarrow> bool" where
  "same_opts cd key s =
     (case (jm_get (fw_prev s) key, jm_get (fw_state s) key) of
        (Some p, Some r) \<Rightarrow>
          (case (JSON_stringify cd (ar_opts (fw_heap s ! p)), JSON_stringify cd (ar_opts (fw_heap s ! r))) of
             (Inr t, Inr u) \<Rightarrow> t = u
           | _ \<Rightarrow> False)
      | _ \<Rightarrow> False)"

definition may_connect :: "actor_ref \<Rightarrow> bool" where
  "may_connect x = (\<not> ar_isConnected x \<and> \<not> ar_isConnecting x \<and> \<not> ar_isError x \<and> truthy (obj_get (ar_opts x) ''enabled''))"

definition connect_effect :: "codec \<Rightarrow> string \<Rightarrow> attempt_start \<Rightarrow> framework \<Rightarrow> framework" where
  "connect_effect cd key began s =
     (case ref_at s key of
        None \<Rightarrow> s
      | Some x \<Rightarrow> if same_opts cd key s \<and> may_connect x then fw_create key began s else s)"

text \<open>The rest of \<open>createActorConnection\<close>: the first attempt waiting for this connection.\<close>

definition fw_attempt_settled :: "nat \<Rightarrow> js_err option \<Rightarrow> framework \<Rightarrow> framework" where
  "fw_attempt_settled n err s =
     (case map_of (fw_attempts s) n of
        None \<Rightarrow> s
      | Some key \<Rightarrow>
          (let s1 = s\<lparr>fw_attempts := filter (\<lambda>p. fst p \<noteq> n) (fw_attempts s)\<rparr>
           in case ref_at s1 key of
                None \<Rightarrow> s1
              | Some x \<Rightarrow> put_ref key (case err of None \<Rightarrow> connected_ref n x | Some e \<Rightarrow> failed_ref e x) s1))"

section \<open>Options from a component\<close>

text \<open>\<open>setState\<close>: the updater changes the object it is given and returns it, or a new entry is put in its place.\<close>

datatype updater = Changes "actor_ref \<Rightarrow> actor_ref" | Replaces "actor_ref \<Rightarrow> actor_ref"

definition fw_setState :: "string \<Rightarrow> updater \<Rightarrow> framework \<Rightarrow> js_err option \<times> framework" where
  "fw_setState key up s =
     (case jm_get (fw_state s) key of
        None \<Rightarrow> (Some (EError ''Error'' (''Actor with key '' @ [CHR 0x22] @ key @ [CHR 0x22] @ '' does not exist.'')), s\<lparr>fw_prev := fw_state s\<rparr>)
      | Some r \<Rightarrow>
          (None, case up of
             Changes f \<Rightarrow> setStore (jm_set key r (fw_state s)) (mutate_ref r f s)
           | Replaces f \<Rightarrow> put_ref key (f (fw_heap s ! r)) s))"

text \<open>\<open>opts.enabled ?? true\<close>, and the call of \<open>useActor\<close>: the options change in place.\<close>

definition with_enabled :: "jsval \<Rightarrow> jsval" where
  "with_enabled opts =
     (case opts of
        JObj kvs \<Rightarrow> JObj (jm_set ''enabled'' (if nullish (obj_get opts ''enabled'') then JBool True else obj_get opts ''enabled'') kvs)
      | _ \<Rightarrow> JObj [(''enabled'', JBool True)])"

definition useActor_opts :: "string \<Rightarrow> jsval \<Rightarrow> framework \<Rightarrow> js_err option \<times> framework" where
  "useActor_opts key opts s = fw_setState key (Changes (\<lambda>x. x\<lparr>ar_opts := with_enabled opts\<rparr>)) s"

section \<open>Steps\<close>

text \<open>\<open>create\<close> and \<open>setState\<close> are handed out as well and may be called at any time.\<close>

datatype fw_event =
    Get_actor string jsval
  | Use_opts string jsval
  | Effect_runs string attempt_start
  | Create_called string attempt_start
  | Set_state string updater
  | Attempt_settled nat "js_err option"

fun fw_step :: "codec \<Rightarrow> fw_event \<Rightarrow> framework \<Rightarrow> framework" where
  "fw_step cd (Get_actor key opts) s = getOrCreateActor key opts s"
| "fw_step cd (Use_opts key opts) s = snd (useActor_opts key opts s)"
| "fw_step cd (Effect_runs key began) s = connect_effect cd key began s"
| "fw_step cd (Create_called key began) s = fw_create key began s"
| "fw_step cd (Set_state key up) s = snd (fw_setState key up s)"
| "fw_step cd (Attempt_settled n err) s = fw_attempt_settled n err s"

text \<open>Events in which only effects create connections, and updaters leave alone what the store itself keeps.\<close>

definition keeps_flags :: "(actor_ref \<Rightarrow> actor_ref) \<Rightarrow> bool" where
  "keeps_flags f \<longleftrightarrow> (\<forall>x. ar_isConnecting (f x) = ar_isConnecting x \<and> ar_isConnected (f x) = ar_isConnected x)"

fun by_effects :: "fw_event \<Rightarrow> bool" where
  "by_effects (Create_called k st) = False"
| "by_effects (Set_state k (Changes f)) = keeps_flags f"
| "by_effects (Set_state k (Replaces f)) = keeps_flags f"
| "by_effects _ = True"

section \<open>One attempt at a time\<close>

definition attempts_of :: "string \<Rightarrow> framework \<Rightarrow> nat" where
  "attempts_of key s = length (filter (\<lambda>p. snd p = key) (fw_attempts s))"

definition fw_inv :: "framework \<Rightarrow> bool" where
  "fw_inv s \<longleftrightarrow>
     jm_wf (fw_state s) \<and> distinct (map fst (fw_attempts s)) \<and> (\<forall>p\<in>set (fw_attempts s). fst p < length (fw_opened s))
     \<and> (\<forall>k r. jm_get (fw_state s) k = Some r \<longrightarrow> r < length (fw_heap s))
     \<and> (\<forall>k k' r. jm_get (fw_state s) k = Some r \<longrightarrow> jm_get (fw_state s) k' = Some r \<longrightarrow> k = k')
     \<and> (\<forall>k. attempts_of k s \<le> (case ref_at s k of None \<Rightarrow> 0 | Some x \<Rightarrow> if ar_isConnecting x \<and> \<not> ar_isConnected x then 1 else 0))"

lemma attempts_simps [simp]:
  "attempts_of k (s\<lparr>fw_prev := p\<rparr>) = attempts_of k s" "attempts_of k (s\<lparr>fw_state := st\<rparr>) = attempts_of k s"
  "attempts_of k (s\<lparr>fw_cache := c\<rparr>) = attempts_of k s" "attempts_of k (put_ref key x s) = attempts_of k s"
  "attempts_of k (mutate_ref r f s) = attempts_of k s" "attempts_of k (setStore st s) = attempts_of k s"
  by (simp_all add: attempts_of_def put_ref_def setStore_def mutate_ref_def)

lemma ref_simps [simp]:
  "ref_at (s\<lparr>fw_prev := p\<rparr>) = ref_at s" "ref_at (s\<lparr>fw_cache := c\<rparr>) = ref_at s" "ref_at (s\<lparr>fw_attempts := a\<rparr>) = ref_at s"
  "ref_at (s\<lparr>fw_opened := o'\<rparr>) = ref_at s" "ref_at (setStore (fw_state s) s) = ref_at s"
  by (simp_all add: fun_eq_iff ref_at_def setStore_def)

lemma fw_invD:
  assumes "fw_inv s"
  shows "jm_get (fw_state s) k = Some r \<Longrightarrow> r < length (fw_heap s)"
    and "jm_get (fw_state s) k = Some r \<Longrightarrow> jm_get (fw_state s) k' = Some r \<Longrightarrow> k = k'"
    and "attempts_of k s \<le> (case ref_at s k of None \<Rightarrow> 0 | Some x \<Rightarrow> if ar_isConnecting x \<and> \<not> ar_isConnected x then 1 else 0)"
  using assms by (simp_all add: fw_inv_def)

lemma ref_put: "fw_inv s \<Longrightarrow> ref_at (put_ref key x s) k = (if k = key then Some x else ref_at s k)"
  using fw_invD(1) [of s k]
  by (cases "jm_get (fw_state s) k") (auto simp: ref_at_def put_ref_def setStore_def nth_append)

lemma ref_mutate:
  "fw_inv s \<Longrightarrow> jm_get (fw_state s) key = Some r \<Longrightarrow>
     ref_at (mutate_ref r f s) k = (if k = key then map_option f (ref_at s k) else ref_at s k)"
  using fw_invD(1) [of s key r] fw_invD(2) [of s k _ key]
  by (cases "jm_get (fw_state s) k") (auto simp: ref_at_def mutate_ref_def nth_list_update)

text \<open>Storing and changing entries keep it if the attempts still fit the entry.\<close>

definition fits :: "nat \<Rightarrow> actor_ref \<Rightarrow> bool" where
  "fits n x = (n \<le> (if ar_isConnecting x \<and> \<not> ar_isConnected x then 1 else 0))"

lemma fw_inv_put: "fw_inv s \<Longrightarrow> fits (attempts_of key s) x \<Longrightarrow> fw_inv (put_ref key x s)"
proof -
  assume i: "fw_inv s" and f: "fits (attempts_of key s) x"
  have "attempts_of k (put_ref key x s) \<le> (case ref_at (put_ref key x s) k of None \<Rightarrow> 0
      | Some x \<Rightarrow> if ar_isConnecting x \<and> \<not> ar_isConnected x then 1 else 0)" for k
    using fw_invD(3) [OF i, of k] f by (simp add: ref_put [OF i] fits_def)
  then show ?thesis
    using i by (fastforce simp: fw_inv_def put_ref_def setStore_def split: if_splits)
qed

lemma fw_inv_mutate:
  assumes i: "fw_inv s" and r: "jm_get (fw_state s) key = Some r" and f: "fits (attempts_of key s) (f (fw_heap s ! r))"
  shows "fw_inv (mutate_ref r f s)"
proof -
  have x: "ref_at s key = Some (fw_heap s ! r)" using r by (simp add: ref_at_def)
  have "attempts_of k (mutate_ref r f s) \<le> (case ref_at (mutate_ref r f s) k of None \<Rightarrow> 0
      | Some x \<Rightarrow> if ar_isConnecting x \<and> \<not> ar_isConnected x then 1 else 0)" for k
    using fw_invD(3) [OF i, of k] f by (simp add: ref_mutate [OF i r] fits_def x)
  then show ?thesis using i by (simp add: fw_inv_def mutate_ref_def)
qed

lemma fw_inv_more [simp]:
  "fw_inv (s\<lparr>fw_prev := p\<rparr>) = fw_inv s" "fw_inv (s\<lparr>fw_cache := c\<rparr>) = fw_inv s" "fw_inv (setStore (fw_state s) s) = fw_inv s"
  by (simp_all add: fw_inv_def) (simp add: setStore_def)

lemma fw_inv_create:
  assumes i: "fw_inv s" and x: "ref_at s key = Some x" and may: "may_connect x"
  shows "fw_inv (fw_create key began s)"
proof -
  obtain r where r: "jm_get (fw_state s) key = Some r" "x = fw_heap s ! r" using x by (auto simp: ref_at_def)
  have z: "attempts_of key s = 0" using fw_invD(3) [OF i, of key] x may by (simp add: may_connect_def)
  let ?f = "\<lambda>x. x\<lparr>ar_isConnecting := True, ar_isError := False, ar_error := None\<rparr>"
  let ?s = "mutate_ref r ?f (s\<lparr>fw_prev := fw_state s\<rparr>)"
  have j: "fw_inv ?s" using i r z by (intro fw_inv_mutate [where key = key]) (simp_all add: fits_def)
  have st: "fw_state ?s = fw_state s" by (simp add: mutate_ref_def)
  have y: "ref_at ?s key = Some (?f x)" using ref_mutate [of "s\<lparr>fw_prev := fw_state s\<rparr>" key r ?f key] i r x by simp
  show ?thesis
  proof (cases began)
    case (Attempt_throws e)
    have p: "ref_at ((put_ref key v ?s)\<lparr>fw_state := fw_state s\<rparr>) k = ref_at ?s k" for v k
      using fw_invD(1) [OF j, of k]
      by (cases "jm_get (fw_state s) k") (auto simp: ref_at_def put_ref_def setStore_def nth_append st)
    have "fw_inv ((put_ref key v ?s)\<lparr>fw_state := fw_state s\<rparr>)" for v
      using j unfolding fw_inv_def p attempts_simps by (auto simp: put_ref_def setStore_def st less_SucI)
    then show ?thesis by (simp add: fw_create_def r(1) Attempt_throws createActorConnection_def y Let_def)
  next
    case Attempt_waits
    let ?n = "(length (fw_opened s), key)"
    let ?t = "?s\<lparr>fw_attempts := fw_attempts ?s @ [?n], fw_opened := fw_opened ?s @ [?n]\<rparr>"
    have o: "fw_opened ?s = fw_opened s" by (simp add: mutate_ref_def)
    have a: "attempts_of k ?t = attempts_of k ?s + (if k = key then 1 else 0)" for k by (simp add: attempts_of_def)
    have "attempts_of k ?t \<le> (case ref_at ?t k of None \<Rightarrow> 0 | Some x \<Rightarrow> if ar_isConnecting x \<and> \<not> ar_isConnected x then 1 else 0)" for k
      using fw_invD(3) [OF j, of k] z y may unfolding a by (simp add: may_connect_def)
    then have "fw_inv ?t" using j by (auto simp: fw_inv_def o)
    moreover have "fw_create key began s = ?t"
      by (simp add: fw_create_def r(1) Attempt_waits createActorConnection_def Let_def o) (simp add: mutate_ref_def)
    ultimately show ?thesis by simp
  qed
qed

lemma filter_fewer: "length (filter P (filter Q xs)) \<le> length (filter P xs)"
  by (induction xs) auto

lemma filter_less: "x \<in> set xs \<Longrightarrow> P x \<Longrightarrow> \<not> Q x \<Longrightarrow> length (filter P (filter Q xs)) < length (filter P xs)"
  using filter_fewer [of P Q] by (induction xs) (auto simp: less_Suc_eq_le simp del: filter_filter)

lemma fw_inv_settled: "fw_inv s \<Longrightarrow> fw_inv (fw_attempt_settled n err s)"
proof (cases "map_of (fw_attempts s) n")
  case (Some key)
  assume i: "fw_inv s"
  let ?s = "s\<lparr>fw_attempts := filter (\<lambda>p. fst p \<noteq> n) (fw_attempts s)\<rparr>"
  have le: "attempts_of k ?s \<le> attempts_of k s" for k
    by (simp add: attempts_of_def filter_fewer del: filter_filter)
  have j: "fw_inv ?s"
    using i le order_trans [OF le fw_invD(3) [OF i]] by (auto simp: fw_inv_def distinct_map_filter)
  have m: "(n, key) \<in> set (fw_attempts s)" using Some by (rule map_of_SomeD)
  have "attempts_of key s \<le> 1" using fw_invD(3) [OF i, of key] by (auto split: option.splits if_splits)
  moreover have "attempts_of key ?s < attempts_of key s"
    using filter_less [OF m, of "\<lambda>p. snd p = key" "\<lambda>p. fst p \<noteq> n"] by (simp add: attempts_of_def del: filter_filter)
  ultimately have z: "attempts_of key ?s = 0" by simp
  have "fw_inv (put_ref key v ?s)" for v using j z by (intro fw_inv_put) (simp_all add: fits_def)
  then show ?thesis using j by (auto simp: fw_attempt_settled_def Some Let_def split: option.split)
qed (simp add: fw_attempt_settled_def)

lemma jm_get_absent: "k \<notin> fst ` set m \<Longrightarrow> jm_get m k = None"
  by (induction m) auto

lemma jm_set_same: "jm_wf m \<Longrightarrow> jm_get m k = Some v \<Longrightarrow> jm_set k v m = m"
proof (induction m)
  case (Cons p m)
  then show ?case by (cases p) (auto simp: jm_wf_def split: if_splits)
qed simp

lemma fw_inv_get: "fw_inv s \<Longrightarrow> fw_inv (getOrCreateActor key opts s)"
proof -
  assume i: "fw_inv s"
  have "fw_inv (put_ref key (new_ref key opts) s)" if "\<not> jm_has (fw_state s) key"
  proof -
    have "ref_at s key = None"
      using that by (simp add: ref_at_def jm_has_iff jm_get_absent)
    then show ?thesis using fw_invD(3) [OF i, of key] i by (intro fw_inv_put) (simp_all add: fits_def new_ref_def)
  qed
  then show ?thesis using i by (simp add: getOrCreateActor_def Let_def)
qed

lemma fw_inv_setState:
  assumes i: "fw_inv s" and k: "case up of Changes f \<Rightarrow> keeps_flags f | Replaces f \<Rightarrow> keeps_flags f"
  shows "fw_inv (snd (fw_setState key up s))"
proof (cases "jm_get (fw_state s) key")
  case (Some r)
  have f: "fits (attempts_of key s) (f (fw_heap s ! r))" if "keeps_flags f" for f
    using fw_invD(3) [OF i, of key] Some that by (simp add: fits_def ref_at_def keeps_flags_def)
  show ?thesis
  proof (cases up)
    case (Changes g)
    then have "fw_inv (mutate_ref r g s)" using f k by (intro fw_inv_mutate [OF i Some]) simp
    moreover have "jm_set key r (fw_state s) = fw_state (mutate_ref r g s)"
      using jm_set_same [OF _ Some] i by (simp add: mutate_ref_def fw_inv_def)
    ultimately show ?thesis by (simp add: fw_setState_def Some Changes)
  next
    case (Replaces g)
    then show ?thesis using f k i by (simp add: fw_setState_def Some fw_inv_put)
  qed
qed (simp add: fw_setState_def i)

lemma fw_step_inv: "fw_inv s \<Longrightarrow> by_effects e \<Longrightarrow> fw_inv (fw_step cd e s)"
proof (cases e)
  case (Set_state k up)
  then show "fw_inv s \<Longrightarrow> by_effects e \<Longrightarrow> fw_inv (fw_step cd e s)" by (cases up) (simp_all add: fw_inv_setState)
qed (auto simp: fw_inv_get fw_inv_setState useActor_opts_def keeps_flags_def fw_inv_settled fw_inv_create connect_effect_def split: option.split)

interpretation framework: machine "\<lambda>e s. if by_effects e then fw_step cd e s else s" fw_inv for cd
  by unfold_locales (simp add: fw_step_inv)

lemma by_effects_run: "list_all by_effects evs \<Longrightarrow> fold (\<lambda>e s. if by_effects e then fw_step cd e s else s) evs s = fold (fw_step cd) evs s"
  by (induction evs arbitrary: s) auto

text \<open>
  C38.  As long as only the effects of components create connections, and updaters leave the two flags alone, there is at most one attempt for a
  key under way at any time, whatever the options, renderings and answers, and none once the actor is
  connected or its attempt has failed.
\<close>

theorem one_attempt_at_a_time:
  assumes "list_all by_effects evs" and "fold (fw_step cd) evs createRivetKit = s"
  shows "attempts_of key s \<le> 1
    \<and> (0 < attempts_of key s \<longrightarrow> (\<exists>x. ref_at s key = Some x \<and> ar_isConnecting x \<and> \<not> ar_isConnected x))"
proof -
  have "fw_inv createRivetKit" by (simp add: fw_inv_def createRivetKit_def attempts_of_def)
  then have "fw_inv s"
    using framework.run_inv [of createRivetKit cd evs] by_effects_run [OF assms(1)] assms(2) by simp
  then show ?thesis using fw_invD(3) [of s key] by (auto split: option.splits if_splits)
qed

definition framework_run :: "fw_event list" where
  "framework_run = [Get_actor ''k'' (JObj []), Use_opts ''k'' (JObj []), Effect_runs ''k'' Attempt_waits, Effect_runs ''k'' Attempt_waits]"

theorem one_attempt_at_a_time_witness:
  "attempts_of ''k'' (fold (fw_step tiny_codec) framework_run createRivetKit) = 1
    \<and> (\<exists>x. ref_at (fold (fw_step tiny_codec) framework_run createRivetKit) ''k'' = Some x \<and> ar_isConnecting x)"
proof -
  let ?s = "fold (fw_step tiny_codec) framework_run createRivetKit"
  have b: "\<not> has_bigint (JObj [(''enabled'', JBool True)])"
    by (subst has_bigint.simps) (simp, subst has_bigint.simps, simp)
  have n: "attempts_of ''k'' ?s = 1"
    by (simp add: framework_run_def createRivetKit_def getOrCreateActor_def put_ref_def setStore_def new_ref_def jm_has_def
        useActor_opts_def fw_setState_def mutate_ref_def with_enabled_def nullish_def connect_effect_def ref_at_def same_opts_def
        JSON_stringify_def b may_connect_def fw_create_def createActorConnection_def attempts_of_def Let_def)
  have "list_all by_effects framework_run" by (simp add: framework_run_def)
  from one_attempt_at_a_time [OF this refl, where cd = tiny_codec and key = "''k''"] n show ?thesis by auto
qed

section \<open>What goes wrong\<close>

text \<open>An error thrown before the first \<open>await\<close> is lost: the updater returns the old table over the one with
  the error.  The actor stays connecting, without an attempt, and no effect will try again.\<close>

lemma thrown_error_lost:
  assumes "fw_inv s" and "ref_at s key = Some x" and "may_connect x" and "same_opts cd key s"
  shows "\<exists>y. ref_at (connect_effect cd key (Attempt_throws e) s) key = Some y \<and> ar_isConnecting y \<and> \<not> ar_isError y
    \<and> attempts_of key (connect_effect cd key (Attempt_throws e) s) = 0 \<and> \<not> may_connect y"
proof -
  obtain r where r: "jm_get (fw_state s) key = Some r" "x = fw_heap s ! r" using assms(2) by (auto simp: ref_at_def)
  have l: "r < length (fw_heap s)" using fw_invD(1) [OF assms(1) r(1)] .
  have "attempts_of key s = 0" using fw_invD(3) [OF assms(1), of key] assms(2,3) by (simp add: may_connect_def)
  then show ?thesis
    using assms(2-4) r l
    by (simp add: connect_effect_def fw_create_def createActorConnection_def ref_at_def mutate_ref_def put_ref_def
        setStore_def Let_def nth_append may_connect_def attempts_of_def)
qed

text \<open>The options of an actor that was only got have no default for \<open>enabled\<close>, so its effect does nothing.\<close>

lemma enabled_has_no_default:
  assumes "obj_get opts ''enabled'' = JUndef"
  shows "connect_effect cd key began (getOrCreateActor key opts createRivetKit) = getOrCreateActor key opts createRivetKit"
  using assms by (simp add: connect_effect_def may_connect_def getOrCreateActor_def createRivetKit_def ref_at_def put_ref_def
      setStore_def new_ref_def jm_has_def Let_def)

text \<open>A failed attempt leaves its connection open: nothing holds it any more, and the error ends all attempts.\<close>

lemma failed_attempt_leaks:
  assumes "map_of (fw_attempts s) n = Some key" and "ref_at s key = Some x" and "fw_inv s"
  shows "fw_opened (fw_attempt_settled n (Some e) s) = fw_opened s
    \<and> (\<exists>y. ref_at (fw_attempt_settled n (Some e) s) key = Some y \<and> \<not> may_connect y \<and> ar_connection y = ar_connection x)"
proof -
  let ?s = "s\<lparr>fw_attempts := filter (\<lambda>p. fst p \<noteq> n) (fw_attempts s)\<rparr>"
  have "ref_at (put_ref key v ?s) key = Some v" for v by (simp add: ref_at_def put_ref_def setStore_def)
  then show ?thesis
    using assms by (simp add: fw_attempt_settled_def Let_def may_connect_def failed_ref_def) (simp add: put_ref_def setStore_def)
qed

section \<open>Events in a component\<close>

text \<open>\<open>useEvent\<close>: the effect runs again when the connection, its being connected, the hash or the event name changes.
  Its cleanup is what \<open>on\<close> returned.  \<open>eh_calls\<close> are the calls made, \<open>on\<close> as True.\<close>

record event_deps =
  ed_connection :: "nat option"
  ed_isConnected :: bool
  ed_hash :: "string option"
  ed_eventName :: string

record event_hook =
  eh_handler :: nat
  eh_deps :: "event_deps option"
  eh_listening :: "(nat \<times> string) option"
  eh_calls :: "(bool \<times> nat \<times> string) list"

definition newEventHook :: "nat \<Rightarrow> event_hook" where
  "newEventHook handler = \<lparr>eh_handler = handler, eh_deps = None, eh_listening = None, eh_calls = []\<rparr>"

definition eh_cleanup :: "event_hook \<Rightarrow> event_hook" where
  "eh_cleanup h =
     (case eh_listening h of
        None \<Rightarrow> h
      | Some (c, n) \<Rightarrow> h\<lparr>eh_listening := None, eh_calls := eh_calls h @ [(False, c, n)]\<rparr>)"

definition eh_listen :: "event_deps \<Rightarrow> event_hook \<Rightarrow> event_hook" where
  "eh_listen d h =
     (case ed_connection d of
        None \<Rightarrow> h
      | Some c \<Rightarrow> h\<lparr>eh_listening := Some (c, ed_eventName d), eh_calls := eh_calls h @ [(True, c, ed_eventName d)]\<rparr>)"

definition useEvent :: "nat \<Rightarrow> event_deps \<Rightarrow> event_hook \<Rightarrow> event_hook" where
  "useEvent handler d h =
     (let h1 = h\<lparr>eh_handler := handler\<rparr>
      in if eh_deps h1 = Some d then h1 else eh_listen d ((eh_cleanup h1)\<lparr>eh_deps := Some d\<rparr>))"

definition eh_unmount :: "event_hook \<Rightarrow> event_hook" where
  "eh_unmount h = (eh_cleanup h)\<lparr>eh_deps := None\<rparr>"

text \<open>A rendering with what the component sees then, or the end of the component.\<close>

datatype hook_event = Rendered nat event_deps | Unmounted

fun hook_step :: "hook_event \<Rightarrow> event_hook \<Rightarrow> event_hook" where
  "hook_step (Rendered handler d) h = useEvent handler d h"
| "hook_step Unmounted h = eh_unmount h"

text \<open>How many more times \<open>on\<close> was called for an event of a connection than its cleanup: a listening component has one
  listener, for the connection and event it last saw, and any other none.\<close>

definition balance :: "(bool \<times> nat \<times> string) list \<Rightarrow> nat \<times> string \<Rightarrow> int" where
  "balance cs l = int (count_list cs (True, l)) - int (count_list cs (False, l))"

definition heard :: "event_deps \<Rightarrow> (nat \<times> string) option" where
  "heard d = map_option (\<lambda>c. (c, ed_eventName d)) (ed_connection d)"

definition hook_inv :: "event_hook \<Rightarrow> bool" where
  "hook_inv h \<longleftrightarrow>
     (\<forall>l. balance (eh_calls h) l = (if eh_listening h = Some l then 1 else 0)) \<and> eh_listening h = Option.bind (eh_deps h) heard"

lemma balance_append: "balance (cs @ cs') l = balance cs l + balance cs' l"
  by (simp add: balance_def)

lemma balance_one: "balance [(b, c, n)] l = (if l = (c, n) then (if b then 1 else -1) else 0)"
  by (auto simp: balance_def)

lemma cleanup_quiet:
  assumes "hook_inv h"
  shows "balance (eh_calls (eh_cleanup h)) l = 0" "eh_listening (eh_cleanup h) = None"
  using assms by (cases l; auto simp: hook_inv_def eh_cleanup_def balance_append balance_one split: option.split)+

lemma hook_step_inv: "hook_inv h \<Longrightarrow> hook_inv (hook_step e h)"
proof (cases e)
  case (Rendered handler d)
  assume "hook_inv h"
  then have i: "hook_inv (h\<lparr>eh_handler := handler\<rparr>)" by (simp add: hook_inv_def)
  have "hook_inv (eh_listen d ((eh_cleanup (h\<lparr>eh_handler := handler\<rparr>))\<lparr>eh_deps := Some d\<rparr>))"
    using cleanup_quiet [OF i]
    by (cases "ed_connection d") (auto simp: hook_inv_def eh_listen_def heard_def balance_append balance_one)
  then show ?thesis using i by (simp add: Rendered useEvent_def Let_def)
next
  case Unmounted
  assume "hook_inv h"
  from cleanup_quiet [OF this] show ?thesis by (simp add: Unmounted eh_unmount_def hook_inv_def)
qed

interpretation event_hook: machine hook_step hook_inv
  by unfold_locales (rule hook_step_inv)

lemma handler_followed: "eh_handler (useEvent handler d h) = handler"
  by (cases "ed_connection d") (simp_all add: useEvent_def eh_listen_def eh_cleanup_def Let_def split: option.split)

text \<open>After a rendering events are heard on the connection seen then, and they reach the handler given then; after the end
  nothing is left.\<close>

lemma useEvent_listens:
  assumes "fold hook_step evs (newEventHook k) = h"
  shows "balance (eh_calls (useEvent handler d h)) l = (if heard d = Some l then 1 else 0)"
    and "eh_handler (useEvent handler d h) = handler"
    and "balance (eh_calls (eh_unmount h)) l = 0"
proof -
  have "hook_inv (newEventHook k)" by (simp add: hook_inv_def newEventHook_def balance_def)
  from event_hook.run_inv [OF this, of evs] have i: "hook_inv h" using assms by simp
  have "eh_deps (useEvent handler d h) = Some d"
    by (cases "ed_connection d") (simp_all add: useEvent_def eh_listen_def Let_def)
  then show "balance (eh_calls (useEvent handler d h)) l = (if heard d = Some l then 1 else 0)"
    using hook_step_inv [OF i, of "Rendered handler d"] by (cases l) (simp add: hook_inv_def)
  show "balance (eh_calls (eh_unmount h)) l = 0" using cleanup_quiet [OF i] by (simp add: eh_unmount_def)
qed (rule handler_followed)

end
