(* ===== verification/Schemas.thy ===== *)
theory Schemas
  imports AsyncUtils ManagerRouter
begin

text \<open>
  The schemas that configurations are validated with: \<open>ActorConfigSchema\<close> (\<open>actor/config.ts\<close>), \<open>RunConfigSchema\<close>
  (\<open>registry/run-config.ts\<close>), \<open>RegistryConfigSchema\<close> (\<open>registry/config.ts\<close>), \<open>InspectorConfigSchema\<close>
  (\<open>inspector/config.ts\<close>) and the engine's \<open>ConfigSchema\<close> (\<open>drivers/engine/config.ts\<close>).

  A schema takes a value to the value it accepts it as, or refuses it.  A function comes out as a wrapper that
  calls it; the two have one name.  Plain objects are the only objects considered, and a key that is absent
  reads as undefined.
\<close>

section \<open>Building schemas\<close>

type_synonym schema = "jsval \<Rightarrow> jsval option"

definition z_any :: schema where "z_any v = Some v"

definition z_string :: schema where
  "z_string v = (case v of JStr s \<Rightarrow> Some v | _ \<Rightarrow> None)"

definition z_boolean :: schema where
  "z_boolean v = (case v of JBool b \<Rightarrow> Some v | _ \<Rightarrow> None)"

definition z_number :: schema where
  "z_number v = (case v of JNum n \<Rightarrow> if n = NaN then None else Some v | _ \<Rightarrow> None)"

definition positive :: "jsnum \<Rightarrow> bool" where
  "positive n = (case n of Fin q \<Rightarrow> 0 < q | PosInf \<Rightarrow> True | _ \<Rightarrow> False)"

definition z_positive :: schema where
  "z_positive v = (case v of JNum n \<Rightarrow> if positive n then Some v else None | _ \<Rightarrow> None)"

definition z_function :: schema where
  "z_function v = (case v of JFun f \<Rightarrow> Some v | _ \<Rightarrow> None)"

definition z_enum :: "string list \<Rightarrow> schema" where
  "z_enum xs v = (case v of JStr s \<Rightarrow> if s \<in> set xs then Some v else None | _ \<Rightarrow> None)"

definition z_optional :: "schema \<Rightarrow> schema" where
  "z_optional p v = (if v = JUndef then Some v else p v)"

definition z_default :: "jsval \<Rightarrow> schema \<Rightarrow> schema" where
  "z_default d p v = p (if v = JUndef then d else v)"

definition z_refine :: "(jsval \<Rightarrow> bool) \<Rightarrow> schema \<Rightarrow> schema" where
  "z_refine test p v = (case p v of None \<Rightarrow> None | Some w \<Rightarrow> if test w then Some w else None)"

fun all_accepted :: "schema \<Rightarrow> jsval list \<Rightarrow> jsval list option" where
  "all_accepted p [] = Some []"
| "all_accepted p (v # vs) =
     (case (p v, all_accepted p vs) of (Some w, Some ws) \<Rightarrow> Some (w # ws) | _ \<Rightarrow> None)"

definition z_array :: "schema \<Rightarrow> schema" where
  "z_array p v = (case v of JArr vs \<Rightarrow> map_option JArr (all_accepted p vs) | _ \<Rightarrow> None)"

definition z_record :: "schema \<Rightarrow> schema" where
  "z_record p v =
     (case v of
        JObj kvs \<Rightarrow> map_option (\<lambda>ws. JObj (zip (map fst kvs) ws)) (all_accepted p (map snd kvs))
      | _ \<Rightarrow> None)"

text \<open>The keys of the schema, in its order; one that is absent and comes out as undefined stays absent.\<close>

fun fields_accepted :: "(string \<times> schema) list \<Rightarrow> (string \<times> jsval) list \<Rightarrow> (string \<times> jsval) list option" where
  "fields_accepted [] kvs = Some []"
| "fields_accepted ((k, p) # fs) kvs =
     (case (p (obj_get (JObj kvs) k), fields_accepted fs kvs) of
        (Some w, Some ws) \<Rightarrow> Some (if w \<noteq> JUndef \<or> k \<in> fst ` set kvs then (k, w) # ws else ws)
      | _ \<Rightarrow> None)"

definition z_object :: "(string \<times> schema) list \<Rightarrow> schema" where
  "z_object fs v = (case v of JObj kvs \<Rightarrow> map_option JObj (fields_accepted fs kvs) | _ \<Rightarrow> None)"

definition z_strict :: "(string \<times> schema) list \<Rightarrow> schema" where
  "z_strict fs v =
     (case v of
        JObj kvs \<Rightarrow> if fst ` set kvs \<subseteq> fst ` set fs then map_option JObj (fields_accepted fs kvs) else None
      | _ \<Rightarrow> None)"

section \<open>Actors\<close>

abbreviation millis :: "rat \<Rightarrow> jsval" where "millis q \<equiv> JNum (Fin q)"

definition TIMERS :: "(string \<times> rat) list" where
  "TIMERS = [(''createVarsTimeout'', 5000), (''createConnStateTimeout'', 5000), (''onConnectTimeout'', 5000),
     (''onStopTimeout'', 5000), (''stateSaveInterval'', 10000), (''actionTimeout'', 60000), (''waitUntilTimeout'', 15000),
     (''connectionLivenessTimeout'', 2500), (''connectionLivenessInterval'', 5000)]"

definition OPTION_FIELDS :: "(string \<times> schema) list" where
  "OPTION_FIELDS =
     map (\<lambda>(k, d). (k, z_default (millis d) z_positive)) TIMERS
     @ [(''noSleep'', z_default (JBool False) z_boolean), (''sleepTimeout'', z_default (millis 30000) z_positive)]"

definition OptionsSchema :: schema where
  "OptionsSchema = z_strict OPTION_FIELDS"

definition HOOKS :: "string list" where
  "HOOKS = [''onAuth'', ''onCreate'', ''onStart'', ''onStop'', ''onStateChange'', ''onBeforeConnect'', ''onConnect'',
     ''onDisconnect'', ''onBeforeActionResponse'', ''onFetch'', ''onWebSocket'']"

definition ACTOR_FIELDS :: "(string \<times> schema) list" where
  "ACTOR_FIELDS =
     map (\<lambda>k. (k, z_optional z_function)) HOOKS
     @ [(''actions'', z_default (JObj []) (z_record z_function)), (''state'', z_optional z_any),
        (''createState'', z_optional z_function), (''connState'', z_optional z_any),
        (''createConnState'', z_optional z_function), (''vars'', z_optional z_any), (''db'', z_optional z_any),
        (''createVars'', z_optional z_function), (''options'', z_default (JObj []) OptionsSchema)]"

definition not_both :: "string \<Rightarrow> string \<Rightarrow> jsval \<Rightarrow> bool" where
  "not_both k k' v \<longleftrightarrow> \<not> (obj_get v k \<noteq> JUndef \<and> obj_get v k' \<noteq> JUndef)"

definition ActorConfigSchema :: schema where
  "ActorConfigSchema =
     z_refine (not_both ''vars'' ''createVars'')
       (z_refine (not_both ''connState'' ''createConnState'')
         (z_refine (not_both ''state'' ''createState'') (z_strict ACTOR_FIELDS)))"

section \<open>Registries and servers\<close>

definition RegistryConfigSchema :: schema where
  "RegistryConfigSchema =
     z_object [(''use'', z_record z_any),
       (''test'', z_default (JObj [(''enabled'', JBool False)]) (z_optional (z_object [(''enabled'', z_boolean)])))]"

definition DriverConfigSchema :: schema where
  "DriverConfigSchema = z_object [(''name'', z_string), (''manager'', z_any), (''actor'', z_any)]"

text \<open>The defaults of the inspector: whether it is enabled, its rule for origins and its token function.\<close>

definition InspectorConfigSchema :: "bool \<Rightarrow> jsval \<Rightarrow> jsval \<Rightarrow> schema" where
  "InspectorConfigSchema enabled cors tokenFn =
     z_default (JObj [(''enabled'', JBool enabled), (''token'', tokenFn), (''cors'', cors)])
       (z_optional (z_object
         [(''enabled'', z_default (JBool enabled) (z_optional z_boolean)), (''cors'', z_default cors (z_optional z_any)),
          (''token'', z_default tokenFn (z_optional z_function)), (''defaultEndpoint'', z_optional z_string)]))"

definition RUN_FIELDS :: "schema \<Rightarrow> (string \<times> schema) list" where
  "RUN_FIELDS inspector =
     [(''driver'', z_optional DriverConfigSchema), (''engine'', z_optional z_string),
      (''getUpgradeWebSocket'', z_optional z_any),
      (''role'', z_default (JStr ''all'') (z_optional (z_enum [''all'', ''server'', ''runner'']))),
      (''cors'', z_optional z_any), (''maxIncomingMessageSize'', z_default (millis 65536) (z_optional z_number)),
      (''inspector'', inspector), (''basePath'', z_default (JStr ''/'') (z_optional z_string))]"

definition RunConfigSchema :: "schema \<Rightarrow> schema" where
  "RunConfigSchema inspector = z_default (JObj []) (z_object (RUN_FIELDS inspector))"

text \<open>The engine's configuration, with the defaults from the environment; \<open>uuid\<close> is the random runner key.\<close>

definition env_or :: "(string \<Rightarrow> string option) \<Rightarrow> string \<Rightarrow> string \<Rightarrow> jsval" where
  "env_or ev k d = JStr (case ev k of None \<Rightarrow> d | Some t \<Rightarrow> t)"

definition EngineConfigSchema :: "(string \<Rightarrow> string option) \<Rightarrow> string \<Rightarrow> schema" where
  "EngineConfigSchema ev uuid =
     z_default (JObj []) (z_object
       [(''app'', z_optional z_any), (''endpoint'', z_default (env_or ev ''RIVET_ENGINE'' ''http://localhost:7080'') z_string),
        (''pegboardEndpoint'', z_optional z_string), (''namespace'', z_default (env_or ev ''RIVET_NAMESPACE'' ''default'') z_string),
        (''runnerName'', z_default (env_or ev ''RIVET_RUNNER'' ''rivetkit'') z_string),
        (''runnerKey'', z_default (env_or ev ''RIVET_RUNNER_KEY'' uuid) z_string),
        (''totalSlots'', z_default (millis 100000) z_number),
        (''addresses'', z_default (JObj [(''main'', JObj [(''host'', JStr ''127.0.0.1''), (''port'', millis 5051)])])
           (z_record (z_object [(''host'', z_string), (''port'', z_number)])))])"

section \<open>Accepted values are accepted as they are\<close>

locale accepting =
  fixes p :: schema
  assumes again: "p v = Some w \<Longrightarrow> p w = Some w"

lemma accepting_any: "accepting z_any" by unfold_locales (simp add: z_any_def)

lemma accepting_string: "accepting z_string"
  by unfold_locales (auto simp: z_string_def split: jsval.splits)

lemma accepting_boolean: "accepting z_boolean"
  by unfold_locales (auto simp: z_boolean_def split: jsval.splits)

lemma accepting_number: "accepting z_number"
  by unfold_locales (auto simp: z_number_def split: jsval.splits if_splits)

lemma accepting_positive: "accepting z_positive"
  by unfold_locales (auto simp: z_positive_def split: jsval.splits if_splits)

lemma accepting_function: "accepting z_function"
  by unfold_locales (auto simp: z_function_def split: jsval.splits)

lemma accepting_enum: "accepting (z_enum xs)"
  by unfold_locales (auto simp: z_enum_def split: jsval.splits if_splits)

lemma accepting_optional: "accepting p \<Longrightarrow> accepting (z_optional p)"
  unfolding accepting_def z_optional_def by (auto split: if_splits)

text \<open>A schema with a default must not make undefined of the default.\<close>

lemma accepting_default: "accepting p \<Longrightarrow> p d \<noteq> Some JUndef \<Longrightarrow> (\<And>v. v \<noteq> JUndef \<Longrightarrow> p v \<noteq> Some JUndef) \<Longrightarrow> accepting (z_default d p)"
  unfolding accepting_def z_default_def by (metis (full_types))

lemma accepting_refine: "accepting p \<Longrightarrow> accepting (z_refine test p)"
  unfolding accepting_def z_refine_def by (auto split: option.splits if_splits)

lemma all_accepted_again: "accepting p \<Longrightarrow> all_accepted p vs = Some ws \<Longrightarrow> all_accepted p ws = Some ws \<and> length ws = length vs"
  by (induction vs arbitrary: ws) (auto simp: accepting_def split: option.splits)

lemma accepting_array: "accepting p \<Longrightarrow> accepting (z_array p)"
  by unfold_locales (auto simp: z_array_def dest: all_accepted_again split: jsval.splits)

lemma accepting_record:
  assumes "accepting p"
  shows "accepting (z_record p)"
proof unfold_locales
  fix v w assume "z_record p v = Some w"
  then obtain kvs ws where v: "v = JObj kvs" and ws: "all_accepted p (map snd kvs) = Some ws" and w: "w = JObj (zip (map fst kvs) ws)"
    by (auto simp: z_record_def split: jsval.splits)
  from all_accepted_again [OF assms ws] show "z_record p w = Some w"
    by (simp add: z_record_def w)
qed

text \<open>What an accepted object has under a key.\<close>

lemma fields_keys: "fields_accepted fs kvs = Some ws \<Longrightarrow> fst ` set ws \<subseteq> fst ` set fs"
proof (induction fs kvs arbitrary: ws rule: fields_accepted.induct)
  case (2 k p fs kvs)
  then obtain w ws' where "fields_accepted fs kvs = Some ws'" "ws = (k, w) # ws' \<or> ws = ws'" and w: "p (obj_get (JObj kvs) k) = Some w"
    by (auto split: option.splits if_splits)
  moreover from this have "fst ` set ws' \<subseteq> fst ` set fs" using 2 by blast
  ultimately show ?case by (elim disjE) (simp_all add: subset_insertI2)
qed simp

lemma field_value:
  "fields_accepted fs kvs = Some ws \<Longrightarrow> distinct (map fst fs) \<Longrightarrow> (k, p) \<in> set fs \<Longrightarrow>
     p (obj_get (JObj kvs) k) = Some (obj_get (JObj ws) k)
     \<and> (k \<in> fst ` set ws \<longleftrightarrow> obj_get (JObj ws) k \<noteq> JUndef \<or> k \<in> fst ` set kvs)"
proof (induction fs kvs arbitrary: ws rule: fields_accepted.induct)
  case (2 k' p' fs kvs)
  then obtain w ws' where w: "p' (obj_get (JObj kvs) k') = Some w" "fields_accepted fs kvs = Some ws'"
    and ws: "ws = (if w \<noteq> JUndef \<or> k' \<in> fst ` set kvs then (k', w) # ws' else ws')"
    by (auto split: option.splits)
  have new: "k' \<notin> fst ` set ws'" using fields_keys [OF w(2)] "2.prems"(2) by auto
  show ?case
  proof (cases "(k, p) = (k', p')")
    case True
    have "map_of ws' k' = None" using new by (simp add: map_of_eq_None_iff)
    then show ?thesis using True w(1) ws new by auto
  next
    case False
    then have k: "(k, p) \<in> set fs" using "2.prems"(3) by auto
    then have "k \<in> set (map fst fs)" by force
    then have "k \<noteq> k'" using "2.prems"(2) by auto
    moreover have "p (obj_get (JObj kvs) k) = Some (obj_get (JObj ws') k)
        \<and> (k \<in> fst ` set ws' \<longleftrightarrow> obj_get (JObj ws') k \<noteq> JUndef \<or> k \<in> fst ` set kvs)"
      by (rule "2.IH" [OF w(2)]) (use "2.prems"(2) k in auto)
    ultimately show ?thesis unfolding ws by simp
  qed
qed simp

definition kept_fields :: "(string \<times> schema) list \<Rightarrow> (string \<Rightarrow> jsval) \<Rightarrow> (string \<times> jsval) list \<Rightarrow> (string \<times> jsval) list" where
  "kept_fields fs g kvs = map (\<lambda>(k, p). (k, g k)) (filter (\<lambda>(k, p). g k \<noteq> JUndef \<or> k \<in> fst ` set kvs) fs)"

lemma fields_form:
  "(\<And>k p. (k, p) \<in> set fs \<Longrightarrow> p (obj_get (JObj kvs) k) = Some (g k)) \<Longrightarrow> fields_accepted fs kvs = Some (kept_fields fs g kvs)"
proof (induction fs)
  case (Cons f fs)
  obtain k p where f: "f = (k, p)" by fastforce
  have "p (obj_get (JObj kvs) k) = Some (g k)" using Cons.prems f by simp
  moreover have "fields_accepted fs kvs = Some (kept_fields fs g kvs)" using Cons by simp
  ultimately show ?case by (simp add: f kept_fields_def del: obj_get.simps)
qed (simp add: kept_fields_def)

lemma fields_again:
  assumes "fields_accepted fs kvs = Some ws" and d: "distinct (map fst fs)" and acc: "\<And>k p. (k, p) \<in> set fs \<Longrightarrow> accepting p"
  shows "fields_accepted fs ws = Some ws"
proof -
  let ?g = "obj_get (JObj ws)"
  note v = field_value [OF assms(1) d]
  have "fields_accepted fs ws = Some (kept_fields fs ?g ws)"
    by (rule fields_form) (use v acc in \<open>blast intro: accepting.again\<close>)
  moreover have "fields_accepted fs kvs = Some (kept_fields fs ?g kvs)" by (rule fields_form) (use v in blast)
  moreover have "(?g (fst f) \<noteq> JUndef \<or> fst f \<in> fst ` set ws) = (?g (fst f) \<noteq> JUndef \<or> fst f \<in> fst ` set kvs)" if "f \<in> set fs" for f
    using v [of "fst f" "snd f"] that by (metis prod.collapse)
  then have "kept_fields fs ?g ws = kept_fields fs ?g kvs"
    unfolding kept_fields_def by (intro arg_cong [where f = "map _"] filter_cong) (simp_all only: split_def prod.collapse)
  ultimately show ?thesis using assms(1) by simp
qed

lemma accepting_object:
  "distinct (map fst fs) \<Longrightarrow> (\<And>k p. (k, p) \<in> set fs \<Longrightarrow> accepting p) \<Longrightarrow> accepting (z_object fs)"
  by unfold_locales (auto simp: z_object_def dest: fields_again split: jsval.splits)

lemma accepting_strict:
  "distinct (map fst fs) \<Longrightarrow> (\<And>k p. (k, p) \<in> set fs \<Longrightarrow> accepting p) \<Longrightarrow> accepting (z_strict fs)"
proof unfold_locales
  fix v w assume fs: "distinct (map fst fs)" "\<And>k p. (k, p) \<in> set fs \<Longrightarrow> accepting p" and "z_strict fs v = Some w"
  then obtain kvs ws where ws: "fields_accepted fs kvs = Some ws" and w: "w = JObj ws"
    by (auto simp: z_strict_def split: jsval.splits if_splits)
  show "z_strict fs w = Some w"
    using fields_again [OF ws fs] fields_keys [OF ws] by (simp add: z_strict_def w)
qed

lemmas accepting_intros = accepting_any accepting_string accepting_boolean accepting_number accepting_positive
  accepting_function accepting_enum accepting_optional accepting_refine accepting_array accepting_record
  accepting_object accepting_strict

text \<open>These schemas never answer undefined for something else.\<close>

lemma keeps_defined:
  "z_string v = Some w \<Longrightarrow> w = v" "z_boolean v = Some w \<Longrightarrow> w = v" "z_number v = Some w \<Longrightarrow> w = v" "z_positive v = Some w \<Longrightarrow> w = v"
  "z_function v = Some w \<Longrightarrow> w = v" "z_any v = Some w \<Longrightarrow> w = v" "z_enum xs v = Some w \<Longrightarrow> w = v"
  by (auto simp: z_string_def z_boolean_def z_number_def z_positive_def z_function_def z_any_def z_enum_def
      split: jsval.splits if_splits)

lemma objects_defined:
  "z_record p v \<noteq> Some JUndef" "z_object fs v \<noteq> Some JUndef" "z_strict fs v \<noteq> Some JUndef" "z_array p v \<noteq> Some JUndef"
  by (auto simp: z_record_def z_object_def z_strict_def z_array_def split: jsval.splits)

lemma optional_defined: "z_optional p v = Some JUndef \<Longrightarrow> v \<noteq> JUndef \<Longrightarrow> p v = Some JUndef"
  by (simp add: z_optional_def)

lemma accepting_options: "accepting OptionsSchema"
  unfolding OptionsSchema_def
proof (rule accepting_strict)
  have d: "accepting (z_default (millis d) z_positive)" for d
    by (intro accepting_default accepting_positive) (auto dest: keeps_defined)
  have b: "accepting (z_default (JBool False) z_boolean)"
    by (intro accepting_default accepting_boolean) (auto dest: keeps_defined)
  show "(k, p) \<in> set OPTION_FIELDS \<Longrightarrow> accepting p" for k p using d b by (auto simp: OPTION_FIELDS_def)
qed (simp add: OPTION_FIELDS_def TIMERS_def)

lemma accepting_actor_fields: "(k, p) \<in> set ACTOR_FIELDS \<Longrightarrow> accepting p"
proof -
  have "accepting (z_default (JObj []) (z_record z_function))"
    by (intro accepting_default accepting_record accepting_function objects_defined)
  moreover have "accepting (z_default (JObj []) OptionsSchema)"
    by (intro accepting_default accepting_options) (simp_all add: OptionsSchema_def objects_defined)
  ultimately show "(k, p) \<in> set ACTOR_FIELDS \<Longrightarrow> accepting p"
    by (auto simp: ACTOR_FIELDS_def intro: accepting_intros)
qed

lemma accepting_actor_config: "accepting ActorConfigSchema"
  unfolding ActorConfigSchema_def
  by (intro accepting_refine accepting_strict accepting_actor_fields) (simp_all add: ACTOR_FIELDS_def HOOKS_def)

interpretation actor_config: accepting ActorConfigSchema by (rule accepting_actor_config)

section \<open>What an accepted configuration is\<close>

lemma accepted_object:
  "z_strict fs v = Some c \<Longrightarrow> \<exists>kvs ws. v = JObj kvs \<and> c = JObj ws \<and> fields_accepted fs kvs = Some ws"
  by (auto simp: z_strict_def split: jsval.splits if_splits)

lemma accepted_field:
  "z_strict fs v = Some c \<Longrightarrow> distinct (map fst fs) \<Longrightarrow> (k, p) \<in> set fs \<Longrightarrow> p (obj_get v k) = Some (obj_get c k)"
  using accepted_object field_value by blast

lemma option_fields_distinct: "distinct (map fst OPTION_FIELDS)"
  by (simp add: OPTION_FIELDS_def TIMERS_def)

lemma timer_field: "k \<in> insert ''sleepTimeout'' (fst ` set TIMERS) \<Longrightarrow> \<exists>d. (k, z_default (millis d) z_positive) \<in> set OPTION_FIELDS"
proof -
  assume "k \<in> insert ''sleepTimeout'' (fst ` set TIMERS)"
  then consider "k = ''sleepTimeout''" | d where "(k, d) \<in> set TIMERS" by force
  then show ?thesis
  proof cases
    case 1
    then show ?thesis unfolding OPTION_FIELDS_def by (intro exI [of _ 30000]) simp
  next
    case (2 d)
    then have "(k, z_default (millis d) z_positive) \<in> set (map (\<lambda>(k, d). (k, z_default (millis d) z_positive)) TIMERS)" by force
    then show ?thesis unfolding OPTION_FIELDS_def by auto
  qed
qed

lemma timer_value:
  assumes "OptionsSchema v = Some c" and "k \<in> insert ''sleepTimeout'' (fst ` set TIMERS)"
  obtains d where "z_default (millis d) z_positive (obj_get v k) = Some (obj_get c k)"
  using timer_field [OF assms(2)] accepted_field [OF assms(1) [unfolded OptionsSchema_def] option_fields_distinct] by blast

lemma default_positive: "z_default (millis d) z_positive v = Some w \<Longrightarrow> \<exists>n. w = JNum n \<and> positive n"
  by (auto simp: z_default_def z_positive_def split: jsval.splits if_splits)

lemma accepted_timer:
  assumes "OptionsSchema v = Some c" and "k \<in> insert ''sleepTimeout'' (fst ` set TIMERS)"
  shows "\<exists>n. obj_get c k = JNum n \<and> positive n"
  by (rule timer_value [OF assms]) (erule default_positive)

lemma accepted_actor:
  assumes "ActorConfigSchema v = Some c"
  shows "z_strict ACTOR_FIELDS v = Some c" and "not_both ''state'' ''createState'' c" and "not_both ''connState'' ''createConnState'' c"
    and "not_both ''vars'' ''createVars'' c"
  using assms by (auto simp: ActorConfigSchema_def z_refine_def split: option.splits if_splits)

lemma accepted_actor_field: "ActorConfigSchema v = Some c \<Longrightarrow> (k, p) \<in> set ACTOR_FIELDS \<Longrightarrow> p (obj_get v k) = Some (obj_get c k)"
  by (rule accepted_field [OF accepted_actor(1)]) (simp_all add: ACTOR_FIELDS_def HOOKS_def)

lemma accepted_options: "ActorConfigSchema v = Some c \<Longrightarrow> \<exists>w. OptionsSchema w = Some (obj_get c ''options'')"
  using accepted_actor_field [of v c "''options''" "z_default (JObj []) OptionsSchema"]
  by (auto simp: ACTOR_FIELDS_def z_default_def split: if_splits)

text \<open>
  C36.  What \<open>ActorConfigSchema\<close> accepts a configuration as, it accepts again unchanged.  It has only known keys;
  every hook is undefined or a function; every timer of its options is a number above 0; and of a value and
  the function that creates it (\<open>state\<close>, \<open>connState\<close>, \<open>vars\<close>) at most one is defined.
\<close>

theorem ActorConfigSchema_typed:
  assumes "ActorConfigSchema v = Some c"
  shows "ActorConfigSchema c = Some c
    \<and> (\<exists>kvs. c = JObj kvs \<and> fst ` set kvs \<subseteq> fst ` set ACTOR_FIELDS)
    \<and> (\<forall>k\<in>set HOOKS. obj_get c k = JUndef \<or> (\<exists>f. obj_get c k = JFun f))
    \<and> (\<forall>k\<in>insert ''sleepTimeout'' (fst ` set TIMERS). \<exists>n. obj_get (obj_get c ''options'') k = JNum n \<and> positive n)
    \<and> not_both ''state'' ''createState'' c \<and> not_both ''connState'' ''createConnState'' c \<and> not_both ''vars'' ''createVars'' c"
proof (intro conjI ballI)
  show "\<exists>kvs. c = JObj kvs \<and> fst ` set kvs \<subseteq> fst ` set ACTOR_FIELDS"
    using accepted_object [OF accepted_actor(1) [OF assms]] fields_keys by blast
  fix k assume "k \<in> set HOOKS"
  then have "(k, z_optional z_function) \<in> set ACTOR_FIELDS" by (simp add: ACTOR_FIELDS_def)
  from accepted_actor_field [OF assms this] show "obj_get c k = JUndef \<or> (\<exists>f. obj_get c k = JFun f)"
    by (auto simp: z_optional_def z_function_def split: jsval.splits if_splits) metis
next
  fix k assume "k \<in> insert ''sleepTimeout'' (fst ` set TIMERS)"
  then show "\<exists>n. obj_get (obj_get c ''options'') k = JNum n \<and> positive n"
    using accepted_options [OF assms] accepted_timer by blast
qed (use accepted_actor [OF assms] actor_config.again [OF assms] in blast)+

text \<open>The smallest configuration.\<close>

lemma empty_options: "OptionsSchema (JObj []) = Some (JObj (map (\<lambda>(k, d). (k, millis d)) TIMERS @ [(''noSleep'', JBool False), (''sleepTimeout'', millis 30000)]))"
  by (simp add: OptionsSchema_def OPTION_FIELDS_def TIMERS_def z_strict_def z_default_def z_positive_def z_boolean_def positive_def)

lemma absent_field: "z_optional p JUndef = Some JUndef" by (simp add: z_optional_def)

lemma actor_with_options:
  assumes "OptionsSchema os = Some w" and "os \<noteq> JUndef"
  shows "ActorConfigSchema (JObj [(''options'', os)]) = Some (JObj [(''actions'', JObj []), (''options'', w)])"
proof -
  have "w \<noteq> JUndef" using assms(1) objects_defined by (auto simp: OptionsSchema_def)
  then show ?thesis
    using assms by (simp add: ActorConfigSchema_def z_refine_def z_strict_def ACTOR_FIELDS_def HOOKS_def absent_field z_default_def
        z_record_def not_both_def)
qed

theorem ActorConfigSchema_typed_witness:
  "\<exists>c. ActorConfigSchema (JObj [(''options'', JObj [])]) = Some c \<and> ActorConfigSchema c = Some c"
  using ActorConfigSchema_typed [OF actor_with_options [OF empty_options]] actor_with_options [OF empty_options] by simp

section \<open>Timers that are too long\<close>

text \<open>\<open>setTimeout\<close> of Node takes a delay that is not from 1 to \<open>2147483647\<close>, or is no number, as 1, and leaves
  out fractions.\<close>

definition timer_delay :: "jsnum \<Rightarrow> rat" where
  "timer_delay n = (case n of Fin q \<Rightarrow> if 1 \<le> q \<and> q \<le> TIMEOUT_MAX then of_int \<lfloor>q\<rfloor> else 1 | _ \<Rightarrow> 1)"

text \<open>The timer that \<open>deadline\<close> races a promise with, and that of \<open>#resetSleepTimer\<close>.\<close>

definition deadline_timer :: "jsnum \<Rightarrow> rat" where
  "deadline_timer timeout = timer_delay timeout"

definition sleep_delay :: "jsval \<Rightarrow> rat" where
  "sleep_delay options = (case obj_get options ''sleepTimeout'' of JNum n \<Rightarrow> timer_delay n | _ \<Rightarrow> 1)"

definition DEADLINES :: "string list" where
  "DEADLINES = [''createVarsTimeout'', ''createConnStateTimeout'', ''onConnectTimeout'', ''onStopTimeout'', ''actionTimeout'']"

lemma deadlines_timers: "set DEADLINES \<subseteq> fst ` set TIMERS"
  by (simp add: DEADLINES_def TIMERS_def)

text \<open>Options with one timer given.\<close>

lemma default_option:
  "(k, p) \<in> set OPTION_FIELDS \<Longrightarrow> \<exists>w. p JUndef = Some w"
  by (auto simp: OPTION_FIELDS_def TIMERS_def z_default_def z_positive_def z_boolean_def positive_def)

lemma fields_defined:
  "(\<And>k p. (k, p) \<in> set fs \<Longrightarrow> \<exists>w. p (obj_get (JObj kvs) k) = Some w) \<Longrightarrow> \<exists>ws. fields_accepted fs kvs = Some ws"
proof (induction fs)
  case (Cons f fs)
  obtain k p where f: "f = (k, p)" by fastforce
  have "\<exists>w. p (obj_get (JObj kvs) k) = Some w" using Cons.prems f by simp
  moreover have "\<exists>ws. fields_accepted fs kvs = Some ws" using Cons by simp
  ultimately show ?case by (auto simp add: f simp del: obj_get.simps)
qed simp

lemma option_given:
  assumes "k \<in> insert ''sleepTimeout'' (fst ` set TIMERS)" and "positive n"
  obtains w where "OptionsSchema (JObj [(k, JNum n)]) = Some w" and "obj_get w k = JNum n"
proof -
  obtain d where d: "(k, z_default (millis d) z_positive) \<in> set OPTION_FIELDS" using timer_field [OF assms(1)] by blast
  have "\<exists>w. p (obj_get (JObj [(k, JNum n)]) k') = Some w" if p: "(k', p) \<in> set OPTION_FIELDS" for k' p
  proof (cases "k' = k")
    case True
    then have "p = z_default (millis d) z_positive"
      using p d option_fields_distinct by (metis eq_key_imp_eq_value)
    then show ?thesis using True assms(2) by (simp add: z_default_def z_positive_def)
  qed (use default_option [OF p] in simp)
  then obtain ws where "fields_accepted OPTION_FIELDS [(k, JNum n)] = Some ws" using fields_defined by blast
  moreover have "k \<in> fst ` set OPTION_FIELDS" using d by force
  ultimately have w: "OptionsSchema (JObj [(k, JNum n)]) = Some (JObj ws)"
    by (simp add: OptionsSchema_def z_strict_def)
  obtain e where "z_default (millis e) z_positive (JNum n) = Some (obj_get (JObj ws) k)"
    using timer_value [OF w assms(1)] by auto
  then have "obj_get (JObj ws) k = JNum n" using assms(2) by (simp add: z_default_def z_positive_def)
  then show ?thesis by (rule that [OF w])
qed



end
