(* ===== verification/Startup.thy ===== *)
theory Startup
  imports Schemas Inspector SocketAdapters
begin

text \<open>
  Starting: \<open>setup\<close> and \<open>createServer\<close> of \<open>registry/mod.ts\<close>, the choice of a driver (\<open>drivers/default.ts\<close>),
  \<open>crossPlatformServe\<close> (\<open>registry/serve.ts\<close>), the Cloudflare package's \<open>createServer\<close> (\<open>handler.ts\<close>, \<open>config.ts\<close>)
  and its \<open>upgradeWebSocket\<close> (\<open>websocket.ts\<close>), and \<open>lookupInRegistry\<close> (\<open>actor/definition.ts\<close>).

  What a driver builds is modelled with the driver; here it is chosen.
\<close>

section \<open>Registries\<close>

definition parsed :: "schema \<Rightarrow> jsval \<Rightarrow> js_err + jsval" where
  "parsed p v = (case p v of None \<Rightarrow> Inl (EError ''ZodError'' []) | Some w \<Rightarrow> Inr w)"

definition registry_setup :: "jsval \<Rightarrow> js_err + jsval" where
  "registry_setup input = parsed RegistryConfigSchema input"

text \<open>\<open>use\<close> is a plain object: the functions all objects inherit, and their prototype, are found in it too.\<close>

datatype found_definition = Definition jsval | Inherited string

definition lookupInRegistry :: "(string \<times> jsval) list \<Rightarrow> string \<Rightarrow> js_err + found_definition" where
  "lookupInRegistry uses name =
     (case map_of uses name of
        Some d \<Rightarrow> if truthy d then Inr (Definition d) else Inl (EError ''Error'' (''no actor in registry for name '' @ name))
      | None \<Rightarrow>
          if name \<in> insert ''__proto__'' (set object_prototype_functions) then Inr (Inherited name)
          else Inl (EError ''Error'' (''no actor in registry for name '' @ name)))"

section \<open>Drivers\<close>

datatype driver_choice = Given_driver jsval | Engine_driver jsval | File_system_driver

definition createEngineDriver :: "environment \<Rightarrow> string \<Rightarrow> jsval \<Rightarrow> js_err + driver_choice" where
  "createEngineDriver ev uuid input = andThen (parsed (EngineConfigSchema ev uuid) input) (\<lambda>c. Inr (Engine_driver c))"

definition chooseDefaultDriver :: "environment \<Rightarrow> string \<Rightarrow> jsval \<Rightarrow> js_err + driver_choice" where
  "chooseDefaultDriver ev uuid runConfig =
     (let engineEndpoint = (if truthy (obj_get runConfig ''engine'') then obj_get runConfig ''engine''
            else case ev ''RIVET_ENGINE'' of None \<Rightarrow> JUndef | Some t \<Rightarrow> JStr t);
          driver = obj_get runConfig ''driver''
      in if truthy engineEndpoint \<and> truthy driver
         then Inl (EActor (UserError ''Cannot specify both 'engine' and 'driver' in configuration'' None JUndef))
         else if truthy driver then Inr (Given_driver driver)
         else if truthy engineEndpoint then createEngineDriver ev uuid (JObj [(''endpoint'', engineEndpoint)])
         else Inr File_system_driver)"

section \<open>Servers\<close>

text \<open>\<open>sv_given\<close>: the configuration came with a \<open>getUpgradeWebSocket\<close>; otherwise it answers what \<open>serve\<close> has set,
  \<open>sv_served\<close>.  \<open>sv_actorDriver\<close>: an actor driver was built.\<close>

record server =
  sv_config :: jsval
  sv_driver :: driver_choice
  sv_given :: bool
  sv_served :: bool
  sv_actorDriver :: bool

definition createServer :: "environment \<Rightarrow> string \<Rightarrow> schema \<Rightarrow> jsval \<Rightarrow> js_err + server" where
  "createServer ev uuid inspector inputConfig =
     andThen (parsed (RunConfigSchema inspector) inputConfig) (\<lambda>config.
     andThen (chooseDefaultDriver ev uuid config) (\<lambda>driver.
       Inr \<lparr>sv_config = config, sv_driver = driver, sv_given = truthy (obj_get config ''getUpgradeWebSocket''),
            sv_served = False, sv_actorDriver = (obj_get config ''role'' \<in> {JStr ''all'', JStr ''runner''})\<rparr>))"

text \<open>What a route gets that asks for the function: \<open>conf\<close> is what the configured one answers.\<close>

definition upgrade_available :: "bool \<Rightarrow> server \<Rightarrow> bool" where
  "upgrade_available conf s = (if sv_given s then conf else sv_served s)"

datatype serve_result = Process_exit nat | Listening "int option"

definition crossPlatformServe :: "environment \<Rightarrow> bool \<Rightarrow> bool \<Rightarrow> serve_result" where
  "crossPlatformServe ev node_server node_ws =
     (if \<not> node_server then Process_exit 1
      else if \<not> node_ws then Process_exit 1
      else Listening (parseInt (case ev ''PORT'' of Some p \<Rightarrow> p | None \<Rightarrow>
             (case ev ''PORT_HTTP'' of Some p \<Rightarrow> p | None \<Rightarrow> ''8080''))))"

definition server_serve :: "environment \<Rightarrow> bool \<Rightarrow> bool \<Rightarrow> server \<Rightarrow> serve_result \<times> server" where
  "server_serve ev node_server node_ws s =
     (case crossPlatformServe ev node_server node_ws of
        Process_exit n \<Rightarrow> (Process_exit n, s)
      | Listening p \<Rightarrow> (Listening p, s\<lparr>sv_served := True\<rparr>))"

section \<open>Cloudflare\<close>

definition cf_ConfigSchema :: "schema \<Rightarrow> schema" where
  "cf_ConfigSchema inspector =
     z_default (JObj []) (z_object
       (filter (\<lambda>(k, p). k \<notin> {''driver'', ''getUpgradeWebSocket''}) (RUN_FIELDS inspector) @ [(''app'', z_optional z_any)]))"

text \<open>\<open>{ ...config, k: v, ... }\<close>\<close>

definition obj_with :: "jsval \<Rightarrow> (string \<times> jsval) list \<Rightarrow> jsval" where
  "obj_with v kvs = (case v of JObj old \<Rightarrow> JObj (fold (\<lambda>(k, w). jm_set k w) kvs old) | _ \<Rightarrow> v)"

definition cf_createServer :: "environment \<Rightarrow> string \<Rightarrow> schema \<Rightarrow> jsval \<Rightarrow> jsval \<Rightarrow> jsval \<Rightarrow> js_err + server" where
  "cf_createServer ev uuid inspector manager upgrade inputConfig =
     andThen (parsed (cf_ConfigSchema inspector) inputConfig) (\<lambda>config.
       createServer ev uuid inspector (obj_with config
         [(''role'', JStr ''server''),
          (''driver'', JObj [(''name'', JStr ''cloudflare-workers''), (''manager'', manager), (''actor'', JUndef)]),
          (''getUpgradeWebSocket'', upgrade)]))"

text \<open>\<open>upgradeWebSocket\<close>: nothing for a request that asks for no WebSocket; else what is done to the server's
  end of the pair, in order, before the answer with status 101.\<close>

datatype pair_call = Listen event_type | Accept_socket | Call_onOpen

definition cf_upgradeWebSocket :: "string option \<Rightarrow> event_type set \<Rightarrow> (nat \<times> pair_call list) option" where
  "cf_upgradeWebSocket upgradeHeader events =
     (if upgradeHeader \<noteq> Some ''websocket'' then None
      else Some (101, map Listen (filter (\<lambda>t. t \<in> events) [TClose, TMessage, TError])
             @ [Accept_socket] @ (if TOpen \<in> events then [Call_onOpen] else [])))"

section \<open>What starting promises\<close>

text \<open>A name that every object has is taken for an actor; such a definition cannot be instantiated.\<close>

lemma inherited_is_found: "map_of uses ''constructor'' = None \<Longrightarrow> lookupInRegistry uses ''constructor'' = Inr (Inherited ''constructor'')"
  by (simp add: lookupInRegistry_def object_prototype_functions_def)

text \<open>An engine in the environment and a driver in the configuration exclude each other.\<close>

lemma engine_excludes_driver:
  "truthy (obj_get c ''driver'') \<Longrightarrow> ev ''RIVET_ENGINE'' = Some (x # xs) \<Longrightarrow> \<exists>e. chooseDefaultDriver ev uuid c = Inl e"
  by (simp add: chooseDefaultDriver_def)

text \<open>Without a configured function there are no WebSockets before \<open>serve\<close>, whatever \<open>handler\<close> answers meanwhile.\<close>

lemma no_upgrade_before_serve:
  assumes "createServer ev uuid inspector JUndef = Inr s"
  shows "\<not> upgrade_available conf s"
proof -
  obtain config where c: "RunConfigSchema inspector JUndef = Some config" and s: "sv_given s = truthy (obj_get config ''getUpgradeWebSocket'')"
    "\<not> sv_served s"
    using assms by (auto simp: createServer_def parsed_def andThen_Inr split: option.splits)
  obtain ws where ws: "fields_accepted (RUN_FIELDS inspector) [] = Some ws" "config = JObj ws"
    using c by (auto simp: RunConfigSchema_def z_default_def z_object_def)
  have "z_optional z_any (obj_get (JObj []) ''getUpgradeWebSocket'') = Some (obj_get (JObj ws) ''getUpgradeWebSocket'')"
    using field_value [OF ws(1), of "''getUpgradeWebSocket''" "z_optional z_any"] by (simp add: RUN_FIELDS_def)
  then have "obj_get config ''getUpgradeWebSocket'' = JUndef" by (simp add: absent_field ws(2))
  then show ?thesis using s by (simp add: upgrade_available_def)
qed

lemma serve_enables_upgrade:
  "server_serve ev a b s = (Listening p, s') \<Longrightarrow> \<not> sv_given s \<Longrightarrow> upgrade_available conf s'"
  by (auto simp: server_serve_def upgrade_available_def split: serve_result.splits)

text \<open>The listeners are on the socket before it is accepted, and \<open>onOpen\<close> comes after.\<close>

lemma listening_before_accept:
  assumes "cf_upgradeWebSocket h events = Some (status, calls)"
  shows "\<exists>before after. calls = before @ [Accept_socket] @ after \<and> Call_onOpen \<notin> set before
    \<and> (\<forall>t\<in>events - {TOpen}. Listen t \<in> set before) \<and> (\<forall>t. Listen t \<notin> set after)"
proof -
  let ?l = "filter (\<lambda>t. t \<in> events) [TClose, TMessage, TError]" and ?o = "if TOpen \<in> events then [Call_onOpen] else []"
  have "t \<in> events \<Longrightarrow> t \<noteq> TOpen \<Longrightarrow> t \<in> set ?l" for t by (cases t) simp_all
  then have "\<forall>t\<in>events - {TOpen}. Listen t \<in> set (map Listen ?l)" unfolding set_map by blast
  moreover have "calls = map Listen ?l @ [Accept_socket] @ ?o" using assms by (simp add: cf_upgradeWebSocket_def split: if_split_asm)
  moreover have "Call_onOpen \<notin> set (map Listen ?l)" "\<forall>t. Listen t \<notin> set ?o" by auto
  ultimately show ?thesis by blast
qed

text \<open>A Cloudflare server has its own driver, builds no actor driver and has WebSockets at once.\<close>

lemma object_spread:
  "obj_get (obj_with (JObj kvs) (xs @ [(k, v)])) k' = (if k' = k then v else obj_get (obj_with (JObj kvs) xs) k')"
  by (simp add: obj_with_def)

lemma cloudflare_server:
  assumes "cf_createServer ev uuid inspector manager (JFun f) inputConfig = Inr s"
  shows "\<not> sv_actorDriver s \<and> sv_given s \<and> upgrade_available conf s = conf
    \<and> (\<exists>d. sv_driver s = Given_driver d \<and> obj_get d ''name'' = JStr ''cloudflare-workers'')"
proof -
  let ?over = "[(''role'', JStr ''server''), (''driver'', JObj [(''name'', JStr ''cloudflare-workers''), (''manager'', manager), (''actor'', JUndef)]),
    (''getUpgradeWebSocket'', JFun f)]"
  obtain c where "cf_ConfigSchema inspector inputConfig = Some c" and c: "createServer ev uuid inspector (obj_with c ?over) = Inr s"
    using assms by (auto simp: cf_createServer_def andThen_Inr parsed_def split: option.splits)
  then obtain kvs where kvs: "c = JObj kvs" by (auto simp: cf_ConfigSchema_def z_default_def z_object_def split: jsval.splits if_splits)
  obtain kvs' where v: "obj_with c ?over = JObj kvs'" by (simp add: obj_with_def kvs)
  have over: "obj_get (JObj kvs') ''role'' = JStr ''server''" "obj_get (JObj kvs') ''getUpgradeWebSocket'' = JFun f"
    "obj_get (JObj kvs') ''driver'' = JObj [(''name'', JStr ''cloudflare-workers''), (''manager'', manager), (''actor'', JUndef)]"
    unfolding v [symmetric] kvs by (simp_all add: obj_with_def del: obj_get.simps) simp_all
  obtain w where w: "RunConfigSchema inspector (JObj kvs') = Some w" and d: "chooseDefaultDriver ev uuid w = Inr (sv_driver s)"
    and s: "sv_given s = truthy (obj_get w ''getUpgradeWebSocket'')" "sv_actorDriver s = (obj_get w ''role'' \<in> {JStr ''all'', JStr ''runner''})"
    using c unfolding v by (auto simp: createServer_def parsed_def andThen_Inr split: option.splits)
  obtain ws where ws: "fields_accepted (RUN_FIELDS inspector) kvs' = Some ws" "w = JObj ws"
    using w by (auto simp: RunConfigSchema_def z_default_def z_object_def)
  have f: "(k, p) \<in> set (RUN_FIELDS inspector) \<Longrightarrow> p (obj_get (JObj kvs') k) = Some (obj_get w k)" for k p
    using field_value [OF ws(1), of k p] by (simp add: RUN_FIELDS_def ws(2))
  have "z_default (JStr ''all'') (z_optional (z_enum [''all'', ''server'', ''runner''])) (JStr ''server'') = Some (obj_get w ''role'')"
    using f [of "''role''"] over(1) by (simp add: RUN_FIELDS_def)
  then have role: "obj_get w ''role'' = JStr ''server''" by (simp add: z_default_def z_optional_def z_enum_def)
  have "z_optional z_any (JFun f) = Some (obj_get w ''getUpgradeWebSocket'')"
    using f [of "''getUpgradeWebSocket''"] over(2) by (simp add: RUN_FIELDS_def)
  then have up: "obj_get w ''getUpgradeWebSocket'' = JFun f" by (simp add: z_optional_def z_any_def)
  have "z_optional DriverConfigSchema (obj_get (JObj kvs') ''driver'') = Some (obj_get w ''driver'')"
    using f [of "''driver''"] by (simp add: RUN_FIELDS_def del: obj_get.simps)
  then have dr: "obj_get w ''driver'' = JObj [(''name'', JStr ''cloudflare-workers''), (''manager'', manager), (''actor'', JUndef)]"
    unfolding over(3) by (simp add: z_optional_def DriverConfigSchema_def z_object_def z_string_def z_any_def)
  then have "sv_driver s = Given_driver (obj_get w ''driver'')" using d by (auto simp: chooseDefaultDriver_def Let_def split: if_splits)
  then show ?thesis using s role up dr by (simp add: upgrade_available_def)
qed

end
