(* ===== verification/InspectorSchemas.thy ===== *)
theory InspectorSchemas
  imports Schemas Inspector
begin

text \<open>
  The schemas of \<open>inspector/protocol/common.ts\<close>, the routes of the inspector with the validation of their bodies, and
  \<open>GET /db\<close> of \<open>inspector/actor.ts\<close>, which lists the tables of an actor's database.
\<close>

section \<open>Schemas\<close>

definition z_literal :: "string \<Rightarrow> schema" where
  "z_literal s v = (if v = JStr s then Some v else None)"

definition z_or :: "schema \<Rightarrow> schema \<Rightarrow> schema" where
  "z_or p q v = (case p v of None \<Rightarrow> q v | Some w \<Rightarrow> Some w)"

definition z_nullable :: "schema \<Rightarrow> schema" where
  "z_nullable p v = (if v = JNull then Some v else p v)"

definition z_coerce_boolean :: schema where
  "z_coerce_boolean v = Some (JBool (truthy v))"

definition z_max :: "nat \<Rightarrow> schema" where
  "z_max n v = (case v of JStr s \<Rightarrow> if length s \<le> n then Some v else None | _ \<Rightarrow> None)"

text \<open>The schema is chosen by the text under a key.\<close>

definition z_discriminated :: "string \<Rightarrow> (string \<times> (string \<times> schema) list) list \<Rightarrow> schema" where
  "z_discriminated key options v =
     (case obj_get v key of
        JStr s \<Rightarrow> (case map_of options s of None \<Rightarrow> None | Some fs \<Rightarrow> z_object ((key, z_literal s) # fs) v)
      | _ \<Rightarrow> None)"

definition ActorFeature :: "string list" where
  "ActorFeature = [''logs'', ''config'', ''connections'', ''state'', ''console'', ''runtime'', ''metrics'', ''events-monitoring'', ''database'']"

definition ActorLogEntry :: schema where
  "ActorLogEntry = z_object
     [(''level'', z_string), (''message'', z_string), (''timestamp'', z_string), (''metadata'', z_optional (z_record z_any))]"

definition ActorSchema :: schema where
  "ActorSchema = z_object
     [(''id'', z_string), (''name'', z_string), (''key'', z_array z_string), (''tags'', z_optional (z_record z_string)),
      (''region'', z_optional z_string), (''createdAt'', z_optional z_string), (''startedAt'', z_optional z_string),
      (''destroyedAt'', z_optional z_string), (''features'', z_optional (z_array (z_enum ActorFeature)))]"

definition OperationSchema :: schema where
  "OperationSchema = z_discriminated ''op''
     [(''remove'', [(''path'', z_string)]), (''add'', [(''path'', z_string), (''value'', z_any)]),
      (''replace'', [(''path'', z_string), (''value'', z_any)]), (''move'', [(''path'', z_string), (''from'', z_string)]),
      (''copy'', [(''path'', z_string), (''from'', z_string)]), (''test'', [(''path'', z_string), (''value'', z_any)])]"

definition PatchSchema :: schema where "PatchSchema = z_array OperationSchema"

definition ConnectionSchema :: schema where
  "ConnectionSchema = z_object
     [(''params'', z_optional (z_record z_any)), (''id'', z_string), (''stateEnabled'', z_optional z_boolean),
      (''state'', z_optional z_any), (''auth'', z_optional (z_record z_any))]"

definition RealtimeEventSchema :: schema where
  "RealtimeEventSchema = z_discriminated ''type''
     [(''action'', [(''name'', z_string), (''args'', z_array z_any), (''connId'', z_string)]),
      (''broadcast'', [(''eventName'', z_string), (''args'', z_array z_any)]),
      (''subscribe'', [(''eventName'', z_string), (''connId'', z_string)]),
      (''unsubscribe'', [(''eventName'', z_string), (''connId'', z_string)]),
      (''event'', [(''eventName'', z_string), (''args'', z_array z_any), (''connId'', z_string)])]"

text \<open>Both schemas accept the value; their keys are different ones.\<close>

definition z_and :: "schema \<Rightarrow> schema \<Rightarrow> schema" where
  "z_and p q v = (case (p v, q v) of (Some (JObj xs), Some (JObj ys)) \<Rightarrow> Some (JObj (xs @ ys)) | _ \<Rightarrow> None)"

definition RecordedRealtimeEventSchema :: schema where
  "RecordedRealtimeEventSchema = z_and RealtimeEventSchema (z_object [(''id'', z_string), (''timestamp'', z_number)])"

definition DatabaseQuerySchema :: schema where
  "DatabaseQuerySchema = z_object [(''sql'', z_string), (''args'', z_array (z_or z_string z_number))]"

definition TableSchema :: schema where
  "TableSchema = z_object [(''schema'', z_string), (''name'', z_string), (''type'', z_enum [''table'', ''view''])]"

text \<open>The type in lower case must be one of six.\<close>

definition COLUMN_TYPES :: "string list" where
  "COLUMN_TYPES = [''integer'', ''text'', ''real'', ''blob'', ''numeric'', ''serial'']"

definition z_column_type :: schema where
  "z_column_type v = (case v of JStr s \<Rightarrow> z_enum COLUMN_TYPES (JStr (lower s)) | _ \<Rightarrow> None)"

definition ColumnSchema :: schema where
  "ColumnSchema = z_object
     [(''cid'', z_number), (''name'', z_string), (''type'', z_column_type), (''notnull'', z_coerce_boolean),
      (''dflt_value'', z_nullable z_string), (''pk'', z_nullable z_coerce_boolean)]"

definition ForeignKeySchema :: schema where
  "ForeignKeySchema = z_object [(''id'', z_number), (''table'', z_string), (''from'', z_string), (''to'', z_string)]"

definition BuildSchema :: schema where
  "BuildSchema = z_object [(''name'', z_string), (''createdAt'', z_optional z_string), (''tags'', z_optional (z_record z_string))]"

definition CreateActorSchema :: schema where
  "CreateActorSchema = z_object [(''name'', z_string), (''key'', z_array (z_max MAX_ACTOR_KEY_SIZE)), (''input'', z_any)]"

section \<open>Validated requests\<close>

text \<open>The answer to a body that is refused is the validator's.\<close>

definition validated :: "jsval \<Rightarrow> schema \<Rightarrow> (jsval \<Rightarrow> inspector_reply option \<times> 's) \<Rightarrow> jsval \<Rightarrow> 's \<Rightarrow> inspector_reply option \<times> 's" where
  "validated refusal p route body s = (case p body of None \<Rightarrow> (Some (InspectorJson 400 refusal), s) | Some v \<Rightarrow> route v)"

text \<open>\<open>z.object({ replace: z.any() })\<close> takes an object without the key; whether the key is there afterwards, as undefined,
  depends on the version of the library: \<open>added\<close>.\<close>

definition replace_body :: "bool \<Rightarrow> schema" where
  "replace_body added v =
     map_option (\<lambda>w. if added \<and> w = JObj [] then JObj [(''replace'', JUndef)] else w) (z_object [(''replace'', z_any)] v)"

definition StateBodySchema :: "bool \<Rightarrow> schema" where
  "StateBodySchema added = z_or (z_object [(''patch'', PatchSchema)]) (replace_body added)"

definition patch_state ::
    "bool \<Rightarrow> jsval \<Rightarrow> (jsval \<Rightarrow> jsval \<Rightarrow> jsval \<times> (js_err + jsval)) \<Rightarrow> env \<Rightarrow> cfg \<Rightarrow> rat \<Rightarrow> jsval \<Rightarrow> actor \<Rightarrow> inspector_reply option \<times> actor" where
  "patch_state added refusal patch en cf now body a =
     validated refusal (StateBodySchema added) (\<lambda>v. inspector_patch patch en cf now v a) body a"

definition QueryBodySchema :: schema where
  "QueryBodySchema = z_object [(''query'', z_string), (''params'', z_optional (z_array z_any))]"

definition post_db :: "jsval \<Rightarrow> (string \<Rightarrow> jsval list \<Rightarrow> string + jsval) option \<Rightarrow> jsval \<Rightarrow> inspector_reply" where
  "post_db refusal db body =
     (case QueryBodySchema body of
        None \<Rightarrow> InspectorJson 400 refusal
      | Some v \<Rightarrow>
          inspector_query db (case obj_get v ''query'' of JStr t \<Rightarrow> t | _ \<Rightarrow> [])
            (case obj_get v ''params'' of JArr ps \<Rightarrow> Some ps | _ \<Rightarrow> None))"

section \<open>The tables of a database\<close>

text \<open>\<open>Promise.all(xs.map(f))\<close>: every call is made, in order; the result is the first failure or all results.\<close>

fun run_all :: "('x \<Rightarrow> 's \<Rightarrow> (js_err + 'y) \<times> 's) \<Rightarrow> 'x list \<Rightarrow> 's \<Rightarrow> (js_err + 'y list) \<times> 's" where
  "run_all f [] s = (Inr [], s)"
| "run_all f (x # xs) s =
     (case f x s of (r, s1) \<Rightarrow>
        (case run_all f xs s1 of (rs, s2) \<Rightarrow> (andThen r (\<lambda>y. andThen rs (\<lambda>ys. Inr (y # ys))), s2)))"

definition parse_rows :: "schema \<Rightarrow> jsval \<Rightarrow> js_err + jsval" where
  "parse_rows p v = (case z_array p v of None \<Rightarrow> Inl (EError ''ZodError'' []) | Some w \<Rightarrow> Inr w)"

definition elements :: "jsval \<Rightarrow> jsval list" where
  "elements v = (case v of JArr vs \<Rightarrow> vs | _ \<Rightarrow> [])"

definition text_at :: "jsval \<Rightarrow> string \<Rightarrow> string" where
  "text_at v k = (case obj_get v k of JStr s \<Rightarrow> s | _ \<Rightarrow> [])"

definition listed_table :: "jsval \<Rightarrow> bool" where
  "listed_table table \<longleftrightarrow> text_at table ''schema'' \<noteq> ''temp'' \<and> \<not> prefix ''sqlite_'' (text_at table ''name'')"

text \<open>\<open>def[0].count || 0\<close>\<close>

definition row_count :: "jsval \<Rightarrow> js_err + jsval" where
  "row_count v =
     andThen (read_prop (case elements v of [] \<Rightarrow> JUndef | r # rs \<Rightarrow> r) ''count'') (\<lambda>n.
       Inr (if truthy n then n else JNum (Fin 0)))"

text \<open>The database is what executes a query: the rows, or what it throws.\<close>

type_synonym 's database = "string \<Rightarrow> 's \<Rightarrow> (js_err + jsval) \<times> 's"

definition for_tables :: "'s database \<Rightarrow> (string \<Rightarrow> string) \<Rightarrow> jsval list \<Rightarrow> 's \<Rightarrow> (js_err + jsval list) \<times> 's" where
  "for_tables execute query tables s = run_all (\<lambda>t. execute (query (text_at t ''name''))) tables s"

definition each :: "('x \<Rightarrow> js_err + 'y) \<Rightarrow> (js_err + 'x list) \<times> 's \<Rightarrow> (js_err + 'y list) \<times> 's" where
  "each f = apfst (\<lambda>res. andThen res (map_throw f))"

definition after :: "(js_err + 'a) \<times> 's \<Rightarrow> ('a \<Rightarrow> 's \<Rightarrow> (js_err + 'b) \<times> 's) \<Rightarrow> (js_err + 'b) \<times> 's" where
  "after r f = (case r of (Inl e, s) \<Rightarrow> (Inl e, s) | (Inr x, s) \<Rightarrow> f x s)"

definition table_info :: "jsval \<times> jsval \<times> jsval \<times> jsval \<Rightarrow> jsval" where
  "table_info info = (case info of (table, columns, foreignKeys, records) \<Rightarrow>
     JObj [(''table'', table), (''columns'', columns), (''foreignKeys'', foreignKeys), (''records'', records)])"

definition db_tables :: "'s database \<Rightarrow> 's \<Rightarrow> (js_err + jsval list) \<times> 's" where
  "db_tables execute s =
     after (execute ''PRAGMA table_list'' s) (\<lambda>rows s1.
     after (parse_rows TableSchema rows, s1) (\<lambda>parsed s2.
     let tables = filter listed_table (elements parsed) in
     after (each (parse_rows ColumnSchema) (for_tables execute (\<lambda>n. ''PRAGMA table_info('' @ n @ '')'') tables s2)) (\<lambda>columns s3.
     after (each (parse_rows ForeignKeySchema) (for_tables execute (\<lambda>n. ''PRAGMA foreign_key_list('' @ n @ '')'') tables s3)) (\<lambda>foreignKeys s4.
     after (each row_count (for_tables execute (\<lambda>n. ''SELECT COUNT(*) as count FROM '' @ n) tables s4)) (\<lambda>counts s5.
       (Inr (map table_info (zip tables (zip columns (zip foreignKeys counts)))), s5))))))"

definition get_db :: "'s database option \<Rightarrow> 's \<Rightarrow> inspector_reply \<times> 's" where
  "get_db db s =
     (case db of
        None \<Rightarrow> (InspectorJson 200 (JObj [(''enabled'', JBool False), (''db'', JNull)]), s)
      | Some execute \<Rightarrow>
          apfst (\<lambda>res. case res of
              Inl e \<Rightarrow> InspectorThrows e
            | Inr infos \<Rightarrow> InspectorJson 200 (JObj [(''enabled'', JBool True), (''db'', JArr infos)]))
            (db_tables execute s))"

section \<open>What the routes promise\<close>

text \<open>A body with a valid patch is a patch, whatever else it has.  One whose patch is not valid, or that is empty, is not
  refused: it is taken for a replacement by nothing.  Depending on \<open>added\<close> the state becomes an empty object, or an
  undefined patch is applied to it.\<close>

lemma patch_wins: "z_object [(''patch'', PatchSchema)] body = Some v \<Longrightarrow> StateBodySchema added body = Some v"
  by (simp add: StateBodySchema_def z_or_def)

lemma invalid_patch_accepted:
  assumes "z_object [(''patch'', PatchSchema)] (JObj kvs) = None" and "''replace'' \<notin> fst ` set kvs"
  shows "StateBodySchema added (JObj kvs) = Some (JObj (if added then [(''replace'', JUndef)] else []))"
proof -
  have "map_of kvs ''replace'' = None" using assms(2) by (simp add: map_of_eq_None_iff)
  then show ?thesis using assms by (simp add: StateBodySchema_def z_or_def replace_body_def z_object_def z_any_def)
qed

lemma invalid_patch_clears:
  assumes "z_object [(''patch'', PatchSchema)] (JObj kvs) = None" and "''replace'' \<notin> fst ` set kvs" and "stateEnabled cf"
  shows "patch_state True refusal patch en cf now (JObj kvs) a
    = apfst (map_option InspectorThrows) (exec en cf now [AssignState (JObj []), SaveState True False] a)"
  using invalid_patch_accepted [OF assms(1,2), of True] assms(3)
  by (simp add: patch_state_def validated_def inspector_patch_def js_in_def inspector_setState_def spread_def)

lemma invalid_patch_applied:
  assumes "z_object [(''patch'', PatchSchema)] (JObj kvs) = None" and "''replace'' \<notin> fst ` set kvs" and "stateEnabled cf"
    and "patch (a_state a) JUndef = (doc, Inl e)"
  shows "patch_state False refusal patch en cf now (JObj kvs) a = (Some (InspectorThrows e), a\<lparr>a_state := doc\<rparr>)"
  using invalid_patch_accepted [OF assms(1,2), of False] assms(3,4)
  by (simp add: patch_state_def validated_def inspector_patch_def js_in_def)

text \<open>The queries of a listing that succeeds, for a database that answers by the text of the query: three for
  every listed table, whose name is put into them as it is.\<close>

definition answering :: "(string \<Rightarrow> js_err + jsval) \<Rightarrow> string list database" where
  "answering ans q lg = (ans q, lg @ [q])"

lemma run_all_answering:
  "run_all (\<lambda>t. answering ans (f t)) ts lg = (rs, lg1) \<Longrightarrow> lg1 = lg @ map f ts \<and> (\<forall>ys. rs = Inr ys \<longrightarrow> map (\<lambda>t. ans (f t)) ts = map Inr ys)"
proof (induction ts arbitrary: lg rs lg1)
  case (Cons t ts)
  obtain rs' l where e: "run_all (\<lambda>t. answering ans (f t)) ts (lg @ [f t]) = (rs', l)" by fastforce
  have "answering ans (f t) lg = (ans (f t), lg @ [f t])" by (simp add: answering_def)
  then have r: "run_all (\<lambda>t. answering ans (f t)) ts (lg @ [f t]) = (rs', lg1)" "rs = andThen (ans (f t)) (\<lambda>y. andThen rs' (\<lambda>ys. Inr (y # ys)))"
    using Cons.prems e by simp_all
  from Cons.IH [OF r(1)] show ?case using r(2) by (auto simp: andThen_Inr)
qed simp

lemma after_Inr: "after r f = (Inr y, s') \<longleftrightarrow> (\<exists>x s1. r = (Inr x, s1) \<and> f x s1 = (Inr y, s'))"
  by (cases r) (auto simp: after_def split: sum.splits)

lemma each_Inr: "each g r = (Inr ys, s') \<longleftrightarrow> (\<exists>xs. r = (Inr xs, s') \<and> map_throw g xs = Inr ys)"
  by (cases r) (auto simp: each_def andThen_Inr)

definition listing_of where
  "listing_of ans ts ci fi ki columns fks counts infos lg \<longleftrightarrow>
     map (\<lambda>t. ans (''PRAGMA table_info('' @ text_at t ''name'' @ '')'')) ts = map Inr ci \<and> map_throw (parse_rows ColumnSchema) ci = Inr columns
     \<and> map (\<lambda>t. ans (''PRAGMA foreign_key_list('' @ text_at t ''name'' @ '')'')) ts = map Inr fi \<and> map_throw (parse_rows ForeignKeySchema) fi = Inr fks
     \<and> map (\<lambda>t. ans (''SELECT COUNT(*) as count FROM '' @ text_at t ''name'')) ts = map Inr ki \<and> map_throw row_count ki = Inr counts
     \<and> infos = map table_info (zip ts (zip columns (zip fks counts)))
     \<and> lg = ''PRAGMA table_list'' # map (\<lambda>t. ''PRAGMA table_info('' @ text_at t ''name'' @ '')'') ts
         @ map (\<lambda>t. ''PRAGMA foreign_key_list('' @ text_at t ''name'' @ '')'') ts
         @ map (\<lambda>t. ''SELECT COUNT(*) as count FROM '' @ text_at t ''name'') ts"

lemma listing:
  assumes "db_tables (answering ans) [] = (Inr infos, lg)" and "ans ''PRAGMA table_list'' = Inr rows" and "parse_rows TableSchema rows = Inr tables"
  obtains ci fi ki columns fks counts where "listing_of ans (filter listed_table (elements tables)) ci fi ki columns fks counts infos lg"
  using assms unfolding db_tables_def for_tables_def
  by (auto simp: listing_of_def after_Inr each_Inr Let_def answering_def [of _ "''PRAGMA table_list''"] dest!: run_all_answering)

lemma map_throw_length: "map_throw g xs = Inr ys \<Longrightarrow> length ys = length xs"
  by (induction xs arbitrary: ys) (auto simp: andThen_Inr)

text \<open>Every listed table is told of once, in order, and the columns of all of them have one of the six types.\<close>

lemma listing_complete:
  assumes "db_tables (answering ans) [] = (Inr infos, lg)" and "ans ''PRAGMA table_list'' = Inr rows" and "parse_rows TableSchema rows = Inr tables"
  shows "map (\<lambda>v. obj_get v ''table'') infos = filter listed_table (elements tables)"
    and "length lg = Suc (3 * length (filter listed_table (elements tables)))"
proof -
  let ?ts = "filter listed_table (elements tables)"
  obtain ci fi ki columns fks counts where l: "listing_of ans ?ts ci fi ki columns fks counts infos lg"
    using listing [OF assms] .
  have "length ci = length ?ts" "length fi = length ?ts" "length ki = length ?ts"
    using l unfolding listing_of_def by (metis length_map)+
  then have "length columns = length ?ts" "length fks = length ?ts" "length counts = length ?ts"
    using l map_throw_length unfolding listing_of_def by metis+
  then have "map (\<lambda>v. obj_get v ''table'') (map table_info (zip ?ts (zip columns (zip fks counts)))) = ?ts"
    by (intro nth_equalityI) (simp_all add: table_info_def)
  then show "map (\<lambda>v. obj_get v ''table'') infos = ?ts" using l by (simp add: listing_of_def)
  show "length lg = Suc (3 * length ?ts)" using l by (simp add: listing_of_def)
qed

lemma column_type:
  assumes "parse_rows ColumnSchema (JArr vs) = Inr w" and "v \<in> set vs"
  shows "\<exists>t. obj_get v ''type'' = JStr t \<and> lower t \<in> set COLUMN_TYPES"
proof -
  obtain ws where "all_accepted ColumnSchema vs = Some ws"
    using assms(1) by (auto simp: parse_rows_def z_array_def split: option.splits)
  then have "\<exists>u. ColumnSchema v = Some u" using assms(2)
    by (induction vs arbitrary: ws) (auto split: option.splits)
  then obtain kvs us where v: "v = JObj kvs" "fields_accepted
      [(''cid'', z_number), (''name'', z_string), (''type'', z_column_type), (''notnull'', z_coerce_boolean),
       (''dflt_value'', z_nullable z_string), (''pk'', z_nullable z_coerce_boolean)] kvs = Some us"
    by (auto simp: ColumnSchema_def z_object_def split: jsval.splits)
  then have "z_column_type (obj_get v ''type'') = Some (obj_get (JObj us) ''type'')"
    using field_value [OF v(2), of "''type''" z_column_type] by simp
  then show ?thesis by (auto simp: z_column_type_def z_enum_def split: jsval.splits if_splits)
qed

text \<open>One column declared with a length, such as \<open>VARCHAR(255)\<close>, and the whole listing fails.\<close>

lemma declared_length_fails:
  assumes "ans ''PRAGMA table_list'' = Inr rows" and "parse_rows TableSchema rows = Inr tables"
    and "t \<in> set (elements tables)" and "listed_table t"
    and "ans (''PRAGMA table_info('' @ text_at t ''name'' @ '')'') = Inr (JArr vs)"
    and "v \<in> set vs" and "obj_get v ''type'' = JStr ''VARCHAR(255)''"
  shows "\<exists>e lg. get_db (Some (answering ans)) [] = (InspectorThrows e, lg)"
proof (cases "db_tables (answering ans) []")
  case (Pair res lg)
  have "res \<noteq> Inr infos" for infos
  proof
    assume "res = Inr infos"
    then have i: "db_tables (answering ans) [] = (Inr infos, lg)" using Pair by simp
    obtain ci columns where c: "map (\<lambda>t. ans (''PRAGMA table_info('' @ text_at t ''name'' @ '')'')) (filter listed_table (elements tables)) = map Inr ci"
        "map_throw (parse_rows ColumnSchema) ci = Inr columns"
      by (rule listing [OF i assms(1,2)]) (simp add: listing_of_def)
    have "Inr (JArr vs) \<in> set (map (\<lambda>t. ans (''PRAGMA table_info('' @ text_at t ''name'' @ '')'')) (filter listed_table (elements tables)))"
      using assms(3-5) by (force simp: image_iff)
    then have "JArr vs \<in> set ci" unfolding c(1) by auto
    then obtain w where "parse_rows ColumnSchema (JArr vs) = Inr w" using map_throw_InrD [OF c(2)] by blast
    moreover have "lower ''VARCHAR(255)'' = ''varchar(255)''" by code_simp
    ultimately show False using column_type [OF _ assms(6)] assms(7) by (auto simp: COLUMN_TYPES_def)
  qed
  then show ?thesis using Pair by (cases res) (auto simp: get_db_def)
qed

text \<open>What the manager tells of an actor fits the schema.\<close>

lemma texts_accepted: "z_array z_string (JArr (map JStr ss)) = Some (JArr (map JStr ss))"
proof -
  have "all_accepted z_string (map JStr ss) = Some (map JStr ss)" by (induction ss) (simp_all add: z_string_def)
  then show ?thesis by (simp add: z_array_def)
qed

lemma text_accepted: "z_string (JStr s) = Some (JStr s)" by (simp add: z_string_def)

lemma transformed_fits: "\<exists>w. ActorSchema (transformActor isoText startedAt st) = Some w \<and> (\<forall>k. obj_get w k = obj_get (transformActor isoText startedAt st) k)"
proof -
  have "z_array (z_enum ActorFeature) (JArr [JStr ''state'', JStr ''connections'', JStr ''console'', JStr ''events-monitoring'', JStr ''database''])
      = Some (JArr [JStr ''state'', JStr ''connections'', JStr ''console'', JStr ''events-monitoring'', JStr ''database''])"
    by (simp add: z_array_def z_enum_def ActorFeature_def)
  then show ?thesis
    by (simp add: ActorSchema_def transformActor_def z_object_def z_optional_def text_accepted texts_accepted)
qed

end
