(* ===== verification/FakeEventSource.thy ===== *)
theory FakeEventSource
  imports ActorHandlers
begin

text \<open>
  \<open>common/fake-event-source.ts\<close>: an event source whose stream is written in the same process.

  Listeners are named by numbers; what is called with which event is recorded.  What a listener does to the source is
  a later operation, and what it throws is logged.
\<close>

section \<open>The source\<close>

datatype fake_event =
    Fake_message jsval
  | Fake_close jsval jsval jsval
  | Fake_error jsval
  | Fake_event string

datatype fake_callee = Listener nat | Handler string

record fake_source =
  fk_closed :: bool
  fk_handlers :: "string list"
  fk_listeners :: "(string \<times> nat list) list"
  fk_openTimer :: bool
  fk_closeCallbacks :: nat
  fk_called :: "(fake_callee \<times> fake_event) list"

definition newFakeEventSource :: fake_source where
  "newFakeEventSource =
     \<lparr>fk_closed = False, fk_handlers = [], fk_listeners = [(''open'', []), (''message'', []), (''error'', []), (''close'', [])],
      fk_openTimer = True, fk_closeCallbacks = 0, fk_called = []\<rparr>"

text \<open>The event made for a type from the details given.\<close>

definition or_else :: "jsval \<Rightarrow> jsval \<Rightarrow> jsval" where
  "or_else v d = (if truthy v then v else d)"

definition make_event :: "string \<Rightarrow> jsval \<Rightarrow> fake_event" where
  "make_event type detail =
     (if type = ''message'' then Fake_message (or_else (obj_get detail ''data'') (JStr []))
      else if type = ''close'' then
        Fake_close (or_else (obj_get detail ''code'') (JNum (Fin 1000))) (or_else (obj_get detail ''reason'') (JStr []))
          (if nullish (obj_get detail ''wasClean'') then JBool True else obj_get detail ''wasClean'')
      else if type = ''error'' then Fake_error (obj_get detail ''error'')
      else Fake_event type)"

text \<open>The listeners are kept in a plain object, in which the functions all objects inherit are found: such a
  \<open>type\<close> gives no set.\<close>

definition inherited_type :: "string \<Rightarrow> fake_source \<Rightarrow> bool" where
  "inherited_type type s \<longleftrightarrow> jm_get (fk_listeners s) type = None \<and> type \<in> insert ''__proto__'' (set object_prototype_functions)"

definition fake_dispatch :: "string \<Rightarrow> jsval \<Rightarrow> fake_source \<Rightarrow> js_err option \<times> fake_source" where
  "fake_dispatch type detail s =
     (if inherited_type type s then (Some TypeError, s)
      else let event = make_event type detail in
        (None, s\<lparr>fk_called := fk_called s
           @ map (\<lambda>l. (Listener l, event)) (case jm_get (fk_listeners s) type of None \<Rightarrow> [] | Some ls \<Rightarrow> ls)
           @ (if type \<in> {''open'', ''message'', ''error''} \<and> type \<in> set (fk_handlers s) then [(Handler type, event)] else [])\<rparr>))"

definition fake_addEventListener :: "string \<Rightarrow> nat \<Rightarrow> fake_source \<Rightarrow> js_err option \<times> fake_source" where
  "fake_addEventListener type l s =
     (if inherited_type type s then (Some TypeError, s)
      else (None, s\<lparr>fk_listeners := jm_set type
              (case jm_get (fk_listeners s) type of None \<Rightarrow> [l] | Some ls \<Rightarrow> if l \<in> set ls then ls else ls @ [l]) (fk_listeners s)\<rparr>))"

definition fake_removeEventListener :: "string \<Rightarrow> nat \<Rightarrow> fake_source \<Rightarrow> js_err option \<times> fake_source" where
  "fake_removeEventListener type l s =
     (if inherited_type type s then (Some TypeError, s)
      else case jm_get (fk_listeners s) type of
          None \<Rightarrow> (None, s)
        | Some ls \<Rightarrow> (None, s\<lparr>fk_listeners := jm_set type (removeAll l ls) (fk_listeners s)\<rparr>))"

definition fake_close :: "fake_source \<Rightarrow> js_err option \<times> fake_source" where
  "fake_close s =
     (if fk_closed s then (None, s)
      else fake_dispatch ''close'' JUndef (s\<lparr>fk_closed := True, fk_closeCallbacks := Suc (fk_closeCallbacks s)\<rparr>))"

section \<open>Its stream\<close>

definition stream_write :: "string \<Rightarrow> fake_source \<Rightarrow> js_err option \<times> fake_source" where
  "stream_write data s = fake_dispatch ''message'' (JObj [(''data'', JStr data)]) s"

definition stream_writeln :: "string \<Rightarrow> fake_source \<Rightarrow> js_err option \<times> fake_source" where
  "stream_writeln input s = stream_write (input @ [CHR 0x0A]) s"

definition stream_writeSSE :: "string \<Rightarrow> string option \<Rightarrow> fake_source \<Rightarrow> js_err option \<times> fake_source" where
  "stream_writeSSE data event s =
     fake_dispatch (case event of Some (c # cs) \<Rightarrow> c # cs | _ \<Rightarrow> ''message'') (JObj [(''data'', JStr data)]) s"

definition stream_onAbort :: "nat \<Rightarrow> fake_source \<Rightarrow> js_err option \<times> fake_source" where
  "stream_onAbort cb s = fake_addEventListener ''error'' cb s"

definition stream_abort :: "fake_source \<Rightarrow> js_err option \<times> fake_source" where
  "stream_abort s = fake_dispatch ''error'' JUndef s"

text \<open>What can happen to a source; \<open>Open_timer\<close> is the timer its constructor sets, \<open>Set_handler\<close> gives it or takes
  away \<open>onopen\<close>, \<open>onmessage\<close> or \<open>onerror\<close>.\<close>

datatype fake_op =
    Open_timer
  | Stream_write string
  | Stream_writeln string
  | Stream_writeSSE string "string option"
  | Stream_onAbort nat
  | Stream_abort
  | Source_close
  | Source_add string nat
  | Source_remove string nat
  | Source_dispatch string jsval
  | Set_handler string bool

fun fake_step :: "fake_op \<Rightarrow> fake_source \<Rightarrow> fake_source" where
  "fake_step Open_timer s =
     (if \<not> fk_openTimer s then s
      else let s1 = s\<lparr>fk_openTimer := False\<rparr> in if fk_closed s then s1 else snd (fake_dispatch ''open'' JUndef s1))"
| "fake_step (Stream_write d) s = snd (stream_write d s)"
| "fake_step (Stream_writeln d) s = snd (stream_writeln d s)"
| "fake_step (Stream_writeSSE d e) s = snd (stream_writeSSE d e s)"
| "fake_step (Stream_onAbort cb) s = snd (stream_onAbort cb s)"
| "fake_step Stream_abort s = snd (stream_abort s)"
| "fake_step Source_close s = snd (fake_close s)"
| "fake_step (Source_add t l) s = snd (fake_addEventListener t l s)"
| "fake_step (Source_remove t l) s = snd (fake_removeEventListener t l s)"
| "fake_step (Source_dispatch t e) s = snd (fake_dispatch t e s)"
| "fake_step (Set_handler k on) s = s\<lparr>fk_handlers := (if on then k # removeAll k (fk_handlers s) else removeAll k (fk_handlers s))\<rparr>"

definition fake_run :: "fake_op list \<Rightarrow> fake_source \<Rightarrow> fake_source" where
  "fake_run ops s = fold fake_step ops s"

section \<open>What it promises\<close>

text \<open>The callback for a close runs once, when the source is closed; a listener is registered once for a type.\<close>

definition fake_inv :: "fake_source \<Rightarrow> bool" where
  "fake_inv s \<longleftrightarrow> fk_closeCallbacks s = (if fk_closed s then 1 else 0) \<and> (\<forall>t ls. jm_get (fk_listeners s) t = Some ls \<longrightarrow> distinct ls)"

lemma dispatch_keeps:
  "fake_inv (snd (fake_dispatch t d s)) = fake_inv s" "fk_closed (snd (fake_dispatch t d s)) = fk_closed s"
  by (simp_all add: fake_dispatch_def fake_inv_def Let_def)

lemma add_keeps: "fake_inv s \<Longrightarrow> fake_inv (snd (fake_addEventListener t l s))"
  by (auto simp: fake_addEventListener_def fake_inv_def split: option.splits)

lemma remove_keeps: "fake_inv s \<Longrightarrow> fake_inv (snd (fake_removeEventListener t l s))"
  by (auto simp: fake_removeEventListener_def fake_inv_def distinct_removeAll split: option.splits)

lemma close_keeps: "fake_inv s \<Longrightarrow> fake_inv (snd (fake_close s))"
  by (simp add: fake_close_def dispatch_keeps) (simp add: fake_inv_def)

lemma fake_step_inv: "fake_inv s \<Longrightarrow> fake_inv (fake_step e s)"
proof (cases e)
  case Open_timer
  have "fake_inv s \<Longrightarrow> fake_inv (s\<lparr>fk_openTimer := False\<rparr>)" by (simp add: fake_inv_def)
  then show "fake_inv s \<Longrightarrow> fake_inv (fake_step e s)" by (simp add: Open_timer Let_def dispatch_keeps)
next
  case (Set_handler k on)
  then show "fake_inv s \<Longrightarrow> fake_inv (fake_step e s)" by (simp add: fake_inv_def)
qed (simp_all add: stream_write_def stream_writeln_def stream_writeSSE_def stream_onAbort_def stream_abort_def
    dispatch_keeps add_keeps remove_keeps close_keeps)

interpretation fake_source: machine fake_step fake_inv
  by unfold_locales (rule fake_step_inv)

lemma close_callback_once: "fk_closeCallbacks (fake_run ops newFakeEventSource) \<le> 1"
proof -
  have "fake_inv newFakeEventSource" by (simp add: fake_inv_def newFakeEventSource_def)
  from fake_source.run_inv [OF this] show ?thesis by (simp add: fake_run_def fake_inv_def)
qed

text \<open>Closing does not end the stream: what is written later is still handed to the listeners.\<close>

lemma written_after_close:
  assumes "jm_get (fk_listeners s) ''message'' = Some [l]" and "fk_handlers s = []"
  shows "fk_called (fake_run [Source_close, Stream_write d] s) = fk_called (fake_step Source_close s) @ [(Listener l, make_event ''message'' (JObj [(''data'', JStr d)]))]"
proof -
  have "jm_get (fk_listeners (fake_step Source_close s)) ''message'' = Some [l]" "fk_handlers (fake_step Source_close s) = []"
    using assms by (simp_all add: fake_close_def fake_dispatch_def Let_def)
  then show ?thesis
    by (simp add: fake_run_def stream_write_def fake_dispatch_def inherited_type_def Let_def del: fake_step.simps(7))
qed

text \<open>A data text that is empty arrives as it is, and an event named like a property of all objects is refused.\<close>

lemma empty_data: "make_event ''message'' (JObj [(''data'', JStr [])]) = Fake_message (JStr [])"
  by (simp add: make_event_def or_else_def)

lemma inherited_event_refused:
  "jm_get (fk_listeners s) ''constructor'' = None \<Longrightarrow> fst (stream_writeSSE d (Some ''constructor'') s) = Some TypeError"
  by (simp add: stream_writeSSE_def fake_dispatch_def inherited_type_def object_prototype_functions_def)

end
