(* ===== verification/Platform.thy ===== *)
theory Platform
  imports Startup FsState ActorKeys ClientHandles
begin

text \<open>
  What the packages use of the platform: the bytes of buffers and the environment (\<open>utils.ts\<close>), where the file-system
  driver stores what (\<open>drivers/file-system/utils.ts\<close>, \<open>global-state.ts\<close>), random texts (\<open>actor/utils.ts\<close>), modules that
  are loaded once (\<open>common/websocket.ts\<close>, \<open>common/eventsource.ts\<close>), database clients (package \<open>db\<close>), the loader of SQL
  files (package \<open>sql-loader\<close>) and the server for tests (\<open>test/mod.ts\<close>).
\<close>

section \<open>Buffers\<close>

text \<open>A view is a part of a buffer.\<close>

record view =
  vw_buffer :: bytes
  vw_byteOffset :: nat
  vw_byteLength :: nat

definition view_bytes :: "view \<Rightarrow> bytes" where
  "view_bytes v = take (vw_byteLength v) (drop (vw_byteOffset v) (vw_buffer v))"

datatype buffer_source = Is_Uint8Array view | Is_ArrayBuffer bytes | Is_other_view view | No_buffer

definition whole_buffer :: "bytes \<Rightarrow> view" where
  "whole_buffer b = \<lparr>vw_buffer = b, vw_byteOffset = 0, vw_byteLength = length b\<rparr>"

definition toUint8Array :: "buffer_source \<Rightarrow> js_err + view" where
  "toUint8Array data =
     (case data of
        Is_Uint8Array v \<Rightarrow> Inr v
      | Is_ArrayBuffer b \<Rightarrow> Inr (whole_buffer b)
      | Is_other_view v \<Rightarrow>
          Inr (whole_buffer (drop (vw_byteOffset v) (take (vw_byteOffset v + vw_byteLength v) (vw_buffer v))))
      | No_buffer \<Rightarrow> Inl TypeError)"

definition bufferToArrayBuffer :: "view \<Rightarrow> bytes" where
  "bufferToArrayBuffer buf = drop (vw_byteOffset buf) (take (vw_byteOffset buf + vw_byteLength buf) (vw_buffer buf))"

fun source_bytes :: "buffer_source \<Rightarrow> bytes" where
  "source_bytes (Is_Uint8Array v) = view_bytes v"
| "source_bytes (Is_ArrayBuffer b) = b"
| "source_bytes (Is_other_view v) = view_bytes v"
| "source_bytes No_buffer = []"

lemma slice_bytes: "drop i (take (i + n) xs) = take n (drop i xs)"
  by (simp add: drop_take)

lemma bufferToArrayBuffer_bytes: "bufferToArrayBuffer v = view_bytes v"
  by (simp add: bufferToArrayBuffer_def view_bytes_def slice_bytes)

lemma whole_bytes: "view_bytes (whole_buffer b) = b"
  by (simp add: view_bytes_def whole_buffer_def)

lemma toUint8Array_bytes: "toUint8Array x = Inr v \<Longrightarrow> view_bytes v = source_bytes x"
  by (cases x) (auto simp: toUint8Array_def whole_bytes slice_bytes view_bytes_def [of "_ :: view", symmetric])

section \<open>The environment\<close>

text \<open>\<open>Deno\<close> and \<open>process\<close>, each when it is defined.\<close>

definition getEnvUniversal :: "environment option \<Rightarrow> environment option \<Rightarrow> string \<Rightarrow> string option" where
  "getEnvUniversal deno process key =
     (case deno of Some ev \<Rightarrow> ev key | None \<Rightarrow> (case process of Some ev \<Rightarrow> ev key | None \<Rightarrow> None))"

text \<open>The text the module keeps, and the user agent of a \<open>navigator\<close>.\<close>

definition httpUserAgent :: "string \<Rightarrow> string option \<Rightarrow> string option \<Rightarrow> string \<times> string option" where
  "httpUserAgent version navigatorAgent memo =
     (case memo of
        Some t \<Rightarrow> (t, memo)
      | None \<Rightarrow>
          (let agent = ''RivetKit/'' @ version @ (case navigatorAgent of Some (c # cs) \<Rightarrow> CHR '' '' # c # cs | _ \<Rightarrow> [])
           in (agent, Some agent)))"

lemma user_agent_kept: "httpUserAgent v nav memo = (agent, memo') \<Longrightarrow> httpUserAgent v' nav' memo' = (agent, memo')"
  by (auto simp: httpUserAgent_def Let_def split: option.splits)

section \<open>Random texts\<close>

definition CHARACTERS :: string where
  "CHARACTERS = ''ABCDEFGHIJKLMNOPQRSTUVWXYZabcdefghijklmnopqrstuvwxyz0123456789''"

text \<open>One character for each number from 0 up to 1 that \<open>Math.random\<close> gives.\<close>

definition generateRandomString :: "rat list \<Rightarrow> string" where
  "generateRandomString randoms = map (\<lambda>r. CHARACTERS ! nat \<lfloor>r * of_nat (length CHARACTERS)\<rfloor>) randoms"

lemma random_index:
  assumes "0 \<le> (r :: rat)" and "r < 1" and "0 < n"
  shows "nat \<lfloor>r * of_nat n\<rfloor> < n"
proof -
  have "r * of_nat n < of_nat n" using assms by simp
  then have "\<lfloor>r * of_nat n\<rfloor> < int n" by (simp add: floor_less_iff)
  then show ?thesis using assms by (simp add: nat_less_iff)
qed

lemma random_text:
  assumes "\<forall>r\<in>set randoms. 0 \<le> r \<and> r < 1"
  shows "length (generateRandomString randoms) = length randoms \<and> set (generateRandomString randoms) \<subseteq> set CHARACTERS"
proof -
  have "0 < length CHARACTERS" by (simp add: CHARACTERS_def)
  from random_index [OF _ _ this] assms show ?thesis by (auto simp: generateRandomString_def intro!: nth_mem)
qed

section \<open>Paths\<close>

text \<open>\<open>path.normalize\<close>, \<open>path.join\<close> and \<open>path.basename\<close> of Node on systems with slashes.\<close>

fun path_split :: "string \<Rightarrow> string list" where
  "path_split [] = [[]]"
| "path_split (c # cs) =
     (if c = CHR ''/'' then [] # path_split cs
      else case path_split cs of [] \<Rightarrow> [[c]] | p # ps \<Rightarrow> (c # p) # ps)"

definition path_segment :: "bool \<Rightarrow> string list \<Rightarrow> string \<Rightarrow> string list" where
  "path_segment climb segs p =
     (if p = [] \<or> p = ''.'' then segs
      else if p = ''..'' then
        (if segs \<noteq> [] \<and> last segs \<noteq> ''..'' then butlast segs else if climb then segs @ [p] else segs)
      else segs @ [p])"

definition is_absolute :: "string \<Rightarrow> bool" where
  "is_absolute p \<longleftrightarrow> p \<noteq> [] \<and> hd p = CHR ''/''"

definition path_segments :: "string \<Rightarrow> string list" where
  "path_segments p = foldl (path_segment (\<not> is_absolute p)) [] (path_split p)"

definition path_normalize :: "string \<Rightarrow> string" where
  "path_normalize p =
     (let segs = path_segments p; trailing = (p \<noteq> [] \<and> last p = CHR ''/'') in
        if p = [] then ''.''
        else if segs = [] then (if is_absolute p then ''/'' else if trailing then ''./'' else ''.'')
        else (if is_absolute p then ''/'' else []) @ join_with (CHR ''/'') segs @ (if trailing then ''/'' else []))"

definition path_join :: "string list \<Rightarrow> string" where
  "path_join ps = (let qs = filter (\<lambda>p. p \<noteq> []) ps in if qs = [] then ''.'' else path_normalize (join_with (CHR ''/'') qs))"

definition path_basename :: "string \<Rightarrow> string" where
  "path_basename p = (let segs = filter (\<lambda>s. s \<noteq> []) (path_split p) in if segs = [] then [] else last segs)"

section \<open>Where the file-system driver stores\<close>

definition createHashForPath :: "(string \<Rightarrow> string) \<Rightarrow> string \<Rightarrow> string" where
  "createHashForPath sha256 dirPath =
     (let normalizedPath = path_normalize dirPath
      in path_basename normalizedPath @ ''-'' @ take 8 (sha256 normalizedPath))"

text \<open>\<open>join\<close> is that of the platform; the rest is for platforms with slashes.\<close>

definition getDataPath :: "(string list \<Rightarrow> string) \<Rightarrow> environment \<Rightarrow> string \<Rightarrow> string \<Rightarrow> string \<Rightarrow> string" where
  "getDataPath join ev platform homeDir appName =
     (if platform = ''win32'' then
        join [case ev ''APPDATA'' of Some (c # cs) \<Rightarrow> c # cs | _ \<Rightarrow> join [homeDir, ''AppData'', ''Roaming''], appName]
      else if platform = ''darwin'' then join [homeDir, ''Library'', ''Application Support'', appName]
      else join [case ev ''XDG_DATA_HOME'' of Some (c # cs) \<Rightarrow> c # cs | _ \<Rightarrow> join [homeDir, ''.local'', ''share''], appName])"

definition getStoragePath :: "(string \<Rightarrow> string) \<Rightarrow> string \<Rightarrow> environment \<Rightarrow> string \<Rightarrow> string \<Rightarrow> string option \<Rightarrow> string" where
  "getStoragePath sha256 platform ev homeDir cwd customPath =
     path_join [getDataPath path_join ev platform homeDir ''rivetkit'',
       createHashForPath sha256 (case customPath of Some (c # cs) \<Rightarrow> c # cs | _ \<Rightarrow> cwd)]"

definition storage_path :: "(string \<Rightarrow> string) \<Rightarrow> string \<Rightarrow> environment \<Rightarrow> string \<Rightarrow> string \<Rightarrow> bool \<Rightarrow> string option \<Rightarrow> string" where
  "storage_path sha256 platform ev homeDir cwd persist customPath =
     (if persist then getStoragePath sha256 platform ev homeDir cwd customPath else ''/tmp'')"

definition getActorStatePath :: "string \<Rightarrow> string \<Rightarrow> string" where
  "getActorStatePath storagePath actorId = path_join [path_join [storagePath, ''state''], actorId]"

definition getActorDbPath :: "string \<Rightarrow> string \<Rightarrow> string" where
  "getActorDbPath storagePath actorId = path_join [path_join [storagePath, ''databases''], actorId @ ''.db'']"

definition getActorAlarmPath :: "string \<Rightarrow> string \<Rightarrow> string" where
  "getActorAlarmPath storagePath actorId = path_join [path_join [storagePath, ''alarms''], actorId]"

text \<open>The token of the inspector: read from its file, or made and written.\<close>

definition getOrCreateInspectorAccessToken :: "string \<Rightarrow> string \<Rightarrow> (string \<rightharpoonup> string) \<Rightarrow> string \<times> (string \<rightharpoonup> string)" where
  "getOrCreateInspectorAccessToken storagePath newToken files =
     (let tokenPath = path_join [storagePath, ''inspector-token'']
      in case files tokenPath of Some t \<Rightarrow> (t, files) | None \<Rightarrow> (newToken, files(tokenPath \<mapsto> newToken)))"

section \<open>Modules loaded once\<close>

text \<open>The class found is kept; the mock throws when it is constructed.\<close>

datatype socket_class = Native_class | Npm_class | Mock_class

definition importWebSocket :: "bool \<Rightarrow> bool \<Rightarrow> socket_class option \<Rightarrow> socket_class \<times> socket_class option" where
  "importWebSocket native npm memo =
     (case memo of
        Some c \<Rightarrow> (c, memo)
      | None \<Rightarrow> (let c = (if native then Native_class else if npm then Npm_class else Mock_class) in (c, Some c)))"

definition importEventSource :: "bool \<Rightarrow> socket_class option \<Rightarrow> socket_class \<times> socket_class option" where
  "importEventSource npm memo =
     (case memo of Some c \<Rightarrow> (c, memo) | None \<Rightarrow> (let c = (if npm then Npm_class else Mock_class) in (c, Some c)))"

definition mock_error :: "string \<Rightarrow> string \<Rightarrow> js_err" where
  "mock_error what dep =
     EError ''Error'' (what @ '' support requires installing the '' @ [CHR 0x22] @ dep @ [CHR 0x22] @ '' peer dependency.'')"

section \<open>Database clients\<close>

definition isSQLiteShim :: "jsval \<Rightarrow> bool" where
  "isSQLiteShim conn = (case obj_get conn ''exec'' of JFun f \<Rightarrow> True | _ \<Rightarrow> False)"

datatype db_client = Shim_client jsval | File_client jsval

text \<open>\<open>createClient\<close> of \<open>db\<close>, for a context with or without \<open>getDatabase\<close> and what that answers.\<close>

definition db_createClient :: "(js_err + jsval) option \<Rightarrow> js_err + db_client" where
  "db_createClient getDatabase =
     (case getDatabase of
        None \<Rightarrow> Inl (EError ''Error'' ''createDatabase method is not available in context.'')
      | Some outcome \<Rightarrow>
          andThen outcome (\<lambda>conn.
            if \<not> truthy conn then
              Inl (EError ''Error'' ''Cannot create database connection, or database feature is not enabled.'')
            else if isSQLiteShim conn then Inr (Shim_client conn) else Inr (File_client conn)))"

text \<open>\<open>load\<close> of the loader: \<open>read\<close> is the file of a URL, \<open>next\<close> the next loader.\<close>

definition sql_load :: "codec \<Rightarrow> (string \<Rightarrow> js_err + string) \<Rightarrow> (string \<Rightarrow> js_err + string) \<Rightarrow> string \<Rightarrow> js_err + string" where
  "sql_load cd read next url =
     (if suffix ''.sql'' url then
        andThen (read url) (\<lambda>t. andThen (JSON_stringify cd (JStr t)) (\<lambda>j.
          Inr (''export default '' @ (case j of Some literal \<Rightarrow> literal | None \<Rightarrow> ''undefined'') @ '';'')))
      else next url)"

section \<open>The server for tests\<close>

definition TEST_FIELDS :: "environment \<Rightarrow> (string \<times> schema) list" where
  "TEST_FIELDS ev =
     [(''hostname'', z_default (JStr (case ev ''HOSTNAME'' of Some h \<Rightarrow> h | None \<Rightarrow> ''127.0.0.1'')) (z_optional z_string)),
      (''port'', z_default (JNum (case parseInt (case ev ''PORT'' of Some p \<Rightarrow> p | None \<Rightarrow> ''8080'') of
         Some i \<Rightarrow> Fin (of_int i) | None \<Rightarrow> NaN)) (z_optional z_number))]"

definition test_ConfigSchema :: "environment \<Rightarrow> schema \<Rightarrow> schema" where
  "test_ConfigSchema ev inspector = z_default (JObj []) (z_object (RUN_FIELDS inspector @ TEST_FIELDS ev))"

text \<open>The configuration the manager driver gets, and the one the router gets; \<open>upgrade\<close> is the function that answers
  the upgrade of \<open>createNodeWebSocket\<close>.\<close>

definition test_serve :: "environment \<Rightarrow> schema \<Rightarrow> jsval \<Rightarrow> jsval \<Rightarrow> js_err + (jsval \<times> jsval)" where
  "test_serve ev inspector upgrade input =
     (let inputConfig = (if nullish input then JObj [] else input) in
      andThen (parsed (test_ConfigSchema ev inspector) inputConfig) (\<lambda>config.
      andThen (parsed (RunConfigSchema inspector) inputConfig) (\<lambda>runConfig.
        Inr (if truthy (obj_get config ''getUpgradeWebSocket'') then config
             else obj_with config [(''getUpgradeWebSocket'', upgrade)], runConfig))))"

definition getRandomPort :: "rat \<Rightarrow> nat" where
  "getRandomPort r = nat \<lfloor>r * of_nat (65535 - 10000 + 1)\<rfloor> + 10000"

fun try_ports :: "(nat \<Rightarrow> bool) \<Rightarrow> nat list \<Rightarrow> js_err + nat" where
  "try_ports free [] = Inl (EError ''Error'' ''Could not find an available port after multiple attempts'')"
| "try_ports free (p # ps) = (if free p then Inr p else try_ports free ps)"

text \<open>Ten attempts, each with the next random number.\<close>

definition getPort :: "(nat \<Rightarrow> bool) \<Rightarrow> (nat \<Rightarrow> rat) \<Rightarrow> js_err + nat" where
  "getPort free random = try_ports free (map (\<lambda>i. getRandomPort (random i)) [0..<10])"

section \<open>What they promise\<close>

lemma loaded_once: "importWebSocket a b memo = (c, memo') \<Longrightarrow> importWebSocket a' b' memo' = (c, memo')"
  "importEventSource b memo = (c, memo') \<Longrightarrow> importEventSource b' memo' = (c, memo')"
  by (auto simp: importWebSocket_def importEventSource_def Let_def split: option.splits)

lemma try_ports_Inr: "try_ports free ps = Inr p \<Longrightarrow> p \<in> set ps \<and> free p"
  by (induction ps) (auto split: if_splits)

lemma try_ports_Inl: "try_ports free ps = Inl e \<Longrightarrow> \<forall>p\<in>set ps. \<not> free p"
  by (induction ps) (auto split: if_splits)

lemma port_found:
  assumes "\<forall>i. 0 \<le> random i \<and> random i < 1" and "getPort free random = Inr p"
  shows "free p \<and> 10000 \<le> p \<and> p \<le> 65535"
proof -
  obtain i where p: "p = getRandomPort (random i)" "free p" using try_ports_Inr assms(2) unfolding getPort_def by fastforce
  have "nat \<lfloor>random i * of_nat 55536\<rfloor> < 55536" using assms(1) by (intro random_index) simp_all
  then show ?thesis using p by (simp add: getRandomPort_def)
qed

text \<open>The router of the server for tests has no WebSockets: the function is set on the other configuration.\<close>

lemma run_field:
  assumes "z_object (RUN_FIELDS inspector @ extra) (JObj kvs) = Some c" and "distinct (map fst extra)"
    and "fst ` set extra \<inter> fst ` set (RUN_FIELDS inspector) = {}"
  shows "obj_get c ''getUpgradeWebSocket'' = obj_get (JObj kvs) ''getUpgradeWebSocket''"
proof -
  obtain ws where ws: "fields_accepted (RUN_FIELDS inspector @ extra) kvs = Some ws" "c = JObj ws"
    using assms(1) by (auto simp: z_object_def)
  have "distinct (map fst (RUN_FIELDS inspector @ extra))" using assms(2,3) by (auto simp: RUN_FIELDS_def)
  moreover have "(''getUpgradeWebSocket'', z_optional z_any) \<in> set (RUN_FIELDS inspector @ extra)" by (simp add: RUN_FIELDS_def)
  ultimately have "z_optional z_any (obj_get (JObj kvs) ''getUpgradeWebSocket'') = Some (obj_get (JObj ws) ''getUpgradeWebSocket'')"
    using field_value [OF ws(1)] by blast
  then show ?thesis by (auto simp: ws(2) z_optional_def z_any_def split: if_splits)
qed

lemma test_router_without_websockets:
  assumes "test_serve ev inspector (JFun f) (JObj kvs) = Inr (config, runConfig)" and "obj_get (JObj kvs) ''getUpgradeWebSocket'' = JUndef"
  shows "obj_get config ''getUpgradeWebSocket'' = JFun f \<and> obj_get runConfig ''getUpgradeWebSocket'' = JUndef"
proof -
  obtain c where c: "z_object (RUN_FIELDS inspector @ TEST_FIELDS ev) (JObj kvs) = Some c"
    and r: "z_object (RUN_FIELDS inspector @ []) (JObj kvs) = Some runConfig"
    and config: "config = (if truthy (obj_get c ''getUpgradeWebSocket'') then c else obj_with c [(''getUpgradeWebSocket'', JFun f)])"
    using assms(1) by (auto simp: test_serve_def parsed_def andThen_Inr nullish_def Let_def test_ConfigSchema_def RunConfigSchema_def z_default_def
        split: option.splits)
  have "obj_get c ''getUpgradeWebSocket'' = JUndef" using run_field [OF c] assms(2) by (simp add: RUN_FIELDS_def TEST_FIELDS_def)
  moreover obtain ws where "c = JObj ws" using c by (auto simp: z_object_def)
  ultimately show ?thesis using run_field [OF r] assms(2) config by (simp add: obj_with_def)
qed

section \<open>Files stay in their directory\<close>

definition plain_name :: "string \<Rightarrow> bool" where
  "plain_name s \<longleftrightarrow> CHR ''/'' \<notin> set s \<and> s \<notin> {[], ''.'', ''..''}"

lemma path_split_append: "path_split (a @ CHR ''/'' # b) = path_split a @ path_split b"
proof (induction a)
  case (Cons c a)
  have "path_split a \<noteq> []" by (cases a) (auto split: list.splits)
  then show ?case using Cons by (auto split: list.splits)
qed simp

lemma path_split_plain: "CHR ''/'' \<notin> set s \<Longrightarrow> path_split s = [s]"
  by (induction s) auto

lemma path_join_plain:
  assumes "is_absolute p" and "plain_name i"
  shows "path_join [p, i] = CHR ''/'' # join_with (CHR ''/'') (path_segments p @ [i])"
proof -
  have i: "i \<noteq> []" "last i \<noteq> CHR ''/''" "path_split i = [i]"
    using assms(2) path_split_plain [of i] last_in_set [of i] unfolding plain_name_def by (blast, metis insertI1, blast)
  have a: "is_absolute (p @ CHR ''/'' # i)" using assms(1) by (auto simp: is_absolute_def)
  then have "path_segments (p @ CHR ''/'' # i) = path_segments p @ [i]"
    using assms by (simp add: path_segments_def path_split_append i(3) path_segment_def plain_name_def)
  moreover have "p \<noteq> []" using assms(1) by (simp add: is_absolute_def)
  ultimately show ?thesis using i(1,2) a by (simp add: path_join_def path_normalize_def Let_def)
qed

lemma join_with_snoc: "join_with sep (xs @ [x]) = (if xs = [] then x else join_with sep xs @ sep # x)"
proof (induction xs)
  case (Cons y xs)
  then show ?case by (cases xs) auto
qed simp

text \<open>Two actors whose ids are plain names never share a file, and their files are in the directory.\<close>

lemma state_files_apart:
  assumes "is_absolute storagePath" and "plain_name i" and "plain_name j" and "getActorStatePath storagePath i = getActorStatePath storagePath j"
  shows "i = j"
proof -
  let ?d = "path_join [storagePath, ''state'']"
  have "is_absolute ?d" using assms(1) by (subst path_join_plain) (simp_all add: plain_name_def is_absolute_def)
  then show ?thesis
    using assms(2-4) by (auto simp: getActorStatePath_def path_join_plain join_with_snoc split: if_splits)
qed

lemma generated_plain:
  assumes "set (fe_sha256 fe t) \<subseteq> set ''0123456789abcdef''" and "fe_sha256 fe t \<noteq> []"
    and "t = cd_json_text (fe_codec fe) (JsArr [JsStr n, JsArr (map JsStr k)])"
  shows "plain_name (generateActorId fe n k)"
proof -
  let ?i = "generateActorId fe n k"
  have s: "set ?i \<subseteq> set ''0123456789abcdef''"
    using assms(1) set_take_subset [of 16 "fe_sha256 fe t"] unfolding generateActorId_def assms(3) by (rule order_trans [rotated])
  have "CHR ''/'' \<notin> set ''0123456789abcdef''" "CHR ''.'' \<notin> set ''0123456789abcdef''" by simp_all
  then have c: "CHR ''/'' \<notin> set ?i" "CHR ''.'' \<notin> set ?i" using s by blast+
  have "?i \<noteq> []" using assms(2) unfolding generateActorId_def assms(3) by simp
  moreover have "?i \<noteq> ''.''" "?i \<noteq> ''..''" using c(2) by (metis list.set_intros(1))+
  ultimately show ?thesis using c(1) by (simp add: plain_name_def)
qed

text \<open>An id that a client gives need not be one: it leads out of the directory.\<close>

lemma id_leads_out: "getActorStatePath ''/home/u/app'' ''../../secret'' = ''/home/u/secret''"
  by code_simp

text \<open>A slash at the end gives a directory another storage, and a relative path the same one everywhere.\<close>

lemma trailing_slash_kept: "path_normalize ''/home/u/app/'' = ''/home/u/app/''" "path_normalize ''/home/u//./app'' = ''/home/u/app''"
  by code_simp+

lemma relative_paths_shared: "getStoragePath sha platform ev home cwd (Some (c # cs)) = getStoragePath sha platform ev home cwd' (Some (c # cs))"
  by (simp add: getStoragePath_def)

text \<open>The memory driver keeps its token in a directory it shares with everyone.\<close>

lemma memory_token_shared:
  "files ''/tmp/inspector-token'' = Some t \<Longrightarrow>
     getOrCreateInspectorAccessToken (storage_path sha platform ev home cwd False customPath) new files = (t, files)"
proof -
  have "path_join [''/tmp'', ''inspector-token''] = ''/tmp/inspector-token''" by code_simp
  then show "files ''/tmp/inspector-token'' = Some t \<Longrightarrow>
     getOrCreateInspectorAccessToken (storage_path sha platform ev home cwd False customPath) new files = (t, files)"
    by (simp add: getOrCreateInspectorAccessToken_def storage_path_def)
qed

lemma token_kept:
  "getOrCreateInspectorAccessToken p new files = (t, files') \<Longrightarrow> getOrCreateInspectorAccessToken p new' files' = (t, files')"
  by (auto simp: getOrCreateInspectorAccessToken_def Let_def split: option.splits)


end
