(* ===== verification/Release.thy ===== *)
theory Release
  imports ManagerRouter "HOL-Library.Char_ord"
begin

text \<open>
  \<open>scripts/release.ts\<close>: what \<open>main\<close> does to release a version.  A step runs commands of the shell, whose outcome
  may depend on all that ran before, and is a result or the code the process exits with.  The functions for the
  Rust and Python clients, which \<open>main\<close> does not call, are left out.
\<close>

section \<open>Commands\<close>

datatype command =
    Cat_version
  | Git_clean
  | Pnpm_install
  | Npm_version string
  | Check_types
  | Pnpm_build
  | Git_add
  | Git_status
  | Git_commit string
  | Git_commit_release string
  | Git_push
  | Pnpm_list
  | Npm_view string string
  | Pnpm_publish string string
  | Git_tag string
  | Git_push_tag string
  | Git_describe
  | Gh_release_list
  | Gh_release_retag string string
  | Gh_release_create string string
  | Gh_release_prerelease string
  | Test_dist
  | Gh_release_upload string

type_synonym shell_log = "(command \<times> bool) list"

type_synonym shell = "shell_log \<Rightarrow> command \<Rightarrow> bool \<times> string"

type_synonym 'a step = "shell_log \<Rightarrow> (nat + 'a) \<times> shell_log"

text \<open>A command whose failure throws, which ends in exit code 1 wherever it is caught, and one run with
  \<open>nothrow\<close>.\<close>

definition sh_try :: "shell \<Rightarrow> command \<Rightarrow> (bool \<times> string) step" where
  "sh_try sh c lg = (case sh lg c of (ok, out) \<Rightarrow> (Inr (ok, out), lg @ [(c, ok)]))"

definition sh_run :: "shell \<Rightarrow> command \<Rightarrow> string step" where
  "sh_run sh c lg = (case sh lg c of (ok, out) \<Rightarrow> (if ok then Inr out else Inl 1, lg @ [(c, ok)]))"

definition seq :: "'a step \<Rightarrow> ('a \<Rightarrow> 'b step) \<Rightarrow> 'b step" where
  "seq m k lg = (case m lg of (Inl n, l) \<Rightarrow> (Inl n, l) | (Inr x, l) \<Rightarrow> k x l)"

definition done_with :: "'a \<Rightarrow> 'a step" where "done_with x lg = (Inr x, lg)"

definition process_exit :: "nat \<Rightarrow> 'a step" where "process_exit n lg = (Inl n, lg)"

section \<open>Versions\<close>

fun after_digits :: "string \<Rightarrow> string option" where
  "after_digits [] = None"
| "after_digits (c # cs) =
     (if CHR ''0'' \<le> c \<and> c \<le> CHR ''9'' then
        (case after_digits cs of None \<Rightarrow> Some cs | Some rest \<Rightarrow> Some rest)
      else None)"

definition after_text :: "string \<Rightarrow> string \<Rightarrow> string option" where
  "after_text t s = (if prefix t s then Some (drop (length t) s) else None)"

definition version_ok :: "string \<Rightarrow> bool" where
  "version_ok v =
     (case Option.bind (Option.bind (Option.bind (Option.bind (after_digits v) (after_text ''.'')) after_digits) (after_text ''.''))
             after_digits of
        None \<Rightarrow> False
      | Some rest \<Rightarrow> rest = [] \<or> Option.bind (after_text ''-rc.'' rest) after_digits = Some [])"

definition validateVersion :: "string \<Rightarrow> unit step" where
  "validateVersion version = (if version_ok version then done_with () else process_exit 1)"

definition getCurrentVersion :: "shell \<Rightarrow> string step" where
  "getCurrentVersion sh = seq (sh_run sh Cat_version) (\<lambda>out. done_with (js_trim out))"

datatype bump = Major | Minor | Patch

record release_options =
  ro_version :: "string option"
  ro_major :: bool
  ro_minor :: bool
  ro_patch :: bool

text \<open>\<open>inc\<close> is \<open>semver.inc\<close>.  \<open>program.help()\<close> ends the process.\<close>

definition getVersionFromArgs :: "shell \<Rightarrow> (string \<Rightarrow> bump \<Rightarrow> string option) \<Rightarrow> release_options \<Rightarrow> string list \<Rightarrow> string step" where
  "getVersionFromArgs sh inc options args =
     (case (ro_version options, args) of
        (Some (c # cs), _) \<Rightarrow> seq (validateVersion (c # cs)) (\<lambda>_. done_with (c # cs))
      | (_, (c # cs) # _) \<Rightarrow> seq (validateVersion (c # cs)) (\<lambda>_. done_with (c # cs))
      | _ \<Rightarrow>
          if \<not> ro_major options \<and> \<not> ro_minor options \<and> \<not> ro_patch options then process_exit 0
          else seq (getCurrentVersion sh) (\<lambda>currentVersion.
            case inc currentVersion (if ro_major options then Major else if ro_minor options then Minor else Patch) of
              Some (c # cs) \<Rightarrow> done_with (c # cs)
            | _ \<Rightarrow> process_exit 1))"

definition confirmRelease :: "string \<Rightarrow> bool" where
  "confirmRelease answer \<longleftrightarrow> lower answer = ''y'' \<or> lower answer = ''yes''"

section \<open>Building and committing\<close>

definition cleanWorkspace :: "shell \<Rightarrow> unit step" where
  "cleanWorkspace sh = seq (sh_run sh Git_clean) (\<lambda>_. seq (sh_run sh Pnpm_install) (\<lambda>_. done_with ()))"

definition bumpPackageVersions :: "shell \<Rightarrow> string \<Rightarrow> unit step" where
  "bumpPackageVersions sh version = seq (sh_run sh (Npm_version version)) (\<lambda>_. done_with ())"

definition runTypeCheck :: "shell \<Rightarrow> unit step" where
  "runTypeCheck sh = seq (sh_run sh Check_types) (\<lambda>_. done_with ())"

definition runBuild :: "shell \<Rightarrow> unit step" where
  "runBuild sh = seq (sh_run sh Pnpm_build) (\<lambda>_. done_with ())"

definition commitVersionChanges :: "shell \<Rightarrow> string \<Rightarrow> unit step" where
  "commitVersionChanges sh version =
     seq (sh_run sh Git_add) (\<lambda>_.
     seq (sh_run sh Git_status) (\<lambda>out.
     seq (if js_trim out \<noteq> [] then seq (sh_run sh (Git_commit version)) (\<lambda>_. done_with ()) else done_with ()) (\<lambda>_.
     seq (sh_run sh (Git_commit_release version)) (\<lambda>_.
     seq (sh_try sh Git_push) (\<lambda>_. done_with ())))))"

section \<open>Publishing\<close>

text \<open>\<open>names\<close> reads the names from the JSON that \<open>pnpm list\<close> prints.\<close>

definition getPublicPackages :: "shell \<Rightarrow> (string \<Rightarrow> string list option) \<Rightarrow> string list step" where
  "getPublicPackages sh names =
     seq (sh_run sh Pnpm_list) (\<lambda>out.
       case names (js_trim out) of
         None \<Rightarrow> process_exit 1
       | Some ns \<Rightarrow> done_with (filter (\<lambda>n. n = ''rivetkit'' \<or> prefix ''@rivetkit/'' n) ns))"

definition release_tag :: "string \<Rightarrow> string" where
  "release_tag version = (if sublist ''-rc.'' version then ''rc'' else ''latest'')"

definition publishPackage :: "shell \<Rightarrow> string \<Rightarrow> string \<Rightarrow> unit step" where
  "publishPackage sh version name =
     seq (sh_try sh (Npm_view name version)) (\<lambda>(known, _).
       if known then done_with () else seq (sh_run sh (Pnpm_publish name (release_tag version))) (\<lambda>_. done_with ()))"

fun publishPackages :: "shell \<Rightarrow> string \<Rightarrow> string list \<Rightarrow> unit step" where
  "publishPackages sh version [] = done_with ()"
| "publishPackages sh version (n # ns) = seq (publishPackage sh version n) (\<lambda>_. publishPackages sh version ns)"

definition createAndPushTag :: "shell \<Rightarrow> string \<Rightarrow> unit step" where
  "createAndPushTag sh version =
     seq (sh_run sh (Git_tag (CHR ''v'' # version))) (\<lambda>_. seq (sh_run sh (Git_push_tag (CHR ''v'' # version))) (\<lambda>_. done_with ()))"

text \<open>\<open>releases\<close> reads names and tags from what \<open>gh release list\<close> prints.  An error is caught and told.\<close>

definition githubRelease :: "shell \<Rightarrow> (string \<Rightarrow> (string \<times> string) list option) \<Rightarrow> string \<Rightarrow> unit step" where
  "githubRelease sh releases version =
     seq (sh_run sh Git_describe) (\<lambda>currentTag.
     seq (sh_run sh Gh_release_list) (\<lambda>out.
       case releases out of
         None \<Rightarrow> process_exit 1
       | Some rs \<Rightarrow>
           seq (case map_of rs version of
                  Some oldTag \<Rightarrow> seq (sh_run sh (Gh_release_retag oldTag (js_trim currentTag))) (\<lambda>_. done_with ())
                | None \<Rightarrow>
                    seq (sh_run sh (Gh_release_create (js_trim currentTag) version)) (\<lambda>_.
                      if CHR ''-'' \<in> set version then seq (sh_run sh (Gh_release_prerelease (js_trim currentTag))) (\<lambda>_. done_with ())
                      else done_with ())) (\<lambda>_.
           seq (sh_try sh Test_dist) (\<lambda>(dist, _).
             if dist then seq (sh_run sh (Gh_release_upload (js_trim currentTag))) (\<lambda>_. done_with ()) else done_with ()))))"

definition createGitHubRelease :: "shell \<Rightarrow> (string \<Rightarrow> (string \<times> string) list option) \<Rightarrow> string \<Rightarrow> unit step" where
  "createGitHubRelease sh releases version lg = (case githubRelease sh releases version lg of (_, l) \<Rightarrow> (Inr (), l))"

record release_env =
  re_sh :: shell
  re_inc :: "string \<Rightarrow> bump \<Rightarrow> string option"
  re_names :: "string \<Rightarrow> string list option"
  re_releases :: "string \<Rightarrow> (string \<times> string) list option"

definition release_version :: "release_env \<Rightarrow> string \<Rightarrow> unit step" where
  "release_version en version =
     seq (cleanWorkspace (re_sh en)) (\<lambda>_.
     seq (bumpPackageVersions (re_sh en) version) (\<lambda>_.
     seq (runTypeCheck (re_sh en)) (\<lambda>_.
     seq (runBuild (re_sh en)) (\<lambda>_.
     seq (commitVersionChanges (re_sh en) version) (\<lambda>_.
     seq (getPublicPackages (re_sh en) (re_names en)) (\<lambda>publicPackages.
     seq (publishPackages (re_sh en) version publicPackages) (\<lambda>_.
     seq (createAndPushTag (re_sh en) version) (\<lambda>_.
       createGitHubRelease (re_sh en) (re_releases en) version))))))))"

definition release_main :: "release_env \<Rightarrow> release_options \<Rightarrow> string list \<Rightarrow> string \<Rightarrow> unit step" where
  "release_main en options args answer =
     seq (getVersionFromArgs (re_sh en) (re_inc en) options args) (\<lambda>version.
       if \<not> confirmRelease answer then process_exit 0 else release_version en version)"

section \<open>Nothing unchecked is published\<close>

text \<open>A step only adds to the log, and every entry it adds satisfies \<open>Q\<close> with what it has added before.\<close>

definition guarded :: "(shell_log \<Rightarrow> command \<times> bool \<Rightarrow> bool) \<Rightarrow> 'a step \<Rightarrow> bool" where
  "guarded Q m \<longleftrightarrow> (\<forall>lg r lg'. m lg = (r, lg') \<longrightarrow> (\<exists>new. lg' = lg @ new \<and> (\<forall>pre e post. new = pre @ e # post \<longrightarrow> Q pre e)))"

lemma guarded_run: "(\<And>ok. Q [] (c, ok)) \<Longrightarrow> guarded Q (sh_run sh c)"
  by (auto simp: guarded_def sh_run_def Cons_eq_append_conv split: prod.splits)

lemma guarded_try: "(\<And>ok. Q [] (c, ok)) \<Longrightarrow> guarded Q (sh_try sh c)"
  by (auto simp: guarded_def sh_try_def Cons_eq_append_conv split: prod.splits)

lemma guarded_end: "guarded Q (done_with x)" "guarded Q (process_exit n)"
  by (simp_all add: guarded_def done_with_def process_exit_def)

lemma guarded_seq:
  assumes m: "guarded Q m" and k: "\<And>x lg new. m lg = (Inr x, lg @ new) \<Longrightarrow> guarded (\<lambda>pre. Q (new @ pre)) (k x)"
  shows "guarded Q (seq m k)"
  unfolding guarded_def
proof (intro allI impI)
  fix lg r lg' assume r: "seq m k lg = (r, lg')"
  obtain r1 l1 where m1: "m lg = (r1, l1)" by fastforce
  then obtain new where l1: "l1 = lg @ new" and n: "\<And>pre e post. new = pre @ e # post \<Longrightarrow> Q pre e"
    using m unfolding guarded_def by blast
  show "\<exists>new. lg' = lg @ new \<and> (\<forall>pre e post. new = pre @ e # post \<longrightarrow> Q pre e)"
  proof (cases r1)
    case (Inl c)
    then show ?thesis using r m1 l1 n by (auto simp: seq_def)
  next
    case (Inr x)
    then have "k x (lg @ new) = (r, lg')" using r m1 l1 by (simp add: seq_def)
    then obtain new' where l2: "lg' = (lg @ new) @ new'" and n': "\<And>pre e post. new' = pre @ e # post \<Longrightarrow> Q (new @ pre) e"
      using k m1 l1 Inr unfolding guarded_def by blast
    have "Q pre e" if "new @ new' = pre @ e # post" for pre e post
    proof -
      from that consider us where "new = pre @ us" "us @ new' = e # post" | us where "pre = new @ us" "new' = us @ e # post"
        by (auto simp: append_eq_append_conv2)
      then show ?thesis
      proof cases
        case (1 us)
        then show ?thesis using n [of pre e "tl us"] n' [of "[]" e post] by (cases us) auto
      qed (use n' in blast)
    qed
    then show ?thesis using l2 by auto
  qed
qed

lemma guarded_any: "guarded P m \<Longrightarrow> (\<And>pre e. P pre e \<Longrightarrow> Q pre e) \<Longrightarrow> guarded Q m"
  unfolding guarded_def by blast

text \<open>What a step that succeeds has added.\<close>

lemma run_adds: "sh_run sh c lg = (Inr x, lg @ new) \<Longrightarrow> (c, True) \<in> set new"
  by (auto simp: sh_run_def split: prod.splits if_splits)

lemma seq_Inr: "seq m k lg = (Inr y, l2) \<longleftrightarrow> (\<exists>x l1. m lg = (Inr x, l1) \<and> k x l1 = (Inr y, l2))"
  by (auto simp: seq_def split: prod.splits sum.splits)

lemma run_done_adds: "seq (sh_run sh c) (\<lambda>_. done_with ()) lg = (Inr x, lg @ new) \<Longrightarrow> (c, True) \<in> set new"
  by (auto simp: seq_Inr done_with_def sh_run_def split: prod.splits if_splits)

definition is_publish :: "command \<Rightarrow> bool" where
  "is_publish c = (case c of Pnpm_publish n t \<Rightarrow> True | _ \<Rightarrow> False)"

abbreviation (input) quiet :: "shell_log \<Rightarrow> command \<times> bool \<Rightarrow> bool" where
  "quiet pre e \<equiv> \<not> is_publish (fst e)"

lemmas guarded_steps = guarded_run guarded_try guarded_end guarded_seq

lemma quiet_steps:
  "guarded quiet (getVersionFromArgs sh inc options args)" "guarded quiet (cleanWorkspace sh)" "guarded quiet (bumpPackageVersions sh v)"
  "guarded quiet (runTypeCheck sh)" "guarded quiet (runBuild sh)" "guarded quiet (commitVersionChanges sh v)"
  "guarded quiet (getPublicPackages sh names)" "guarded quiet (createAndPushTag sh v)" "guarded quiet (githubRelease sh releases v)"
  by (auto simp: getVersionFromArgs_def validateVersion_def getCurrentVersion_def cleanWorkspace_def bumpPackageVersions_def
      runTypeCheck_def runBuild_def commitVersionChanges_def getPublicPackages_def createAndPushTag_def githubRelease_def is_publish_def
      intro!: guarded_steps split: option.split list.split)

text \<open>A package is published only after the registry did not know it in this version, with the tag of the version.\<close>

definition unknown_before :: "string \<Rightarrow> shell_log \<Rightarrow> command \<times> bool \<Rightarrow> bool" where
  "unknown_before v pre e \<longleftrightarrow> (\<forall>n t. fst e = Pnpm_publish n t \<longrightarrow> t = release_tag v \<and> (Npm_view n v, False) \<in> set pre)"

lemma publish_package_guarded: "guarded (unknown_before v) (publishPackage sh v n)"
  unfolding publishPackage_def
proof (rule guarded_seq)
  fix x lg new assume t: "sh_try sh (Npm_view n v) lg = (Inr x, lg @ new)"
  obtain known out where x: "x = (known, out)" by fastforce
  show "guarded (\<lambda>pre. unknown_before v (new @ pre)) (case x of (known, _) \<Rightarrow>
      if known then done_with () else seq (sh_run sh (Pnpm_publish n (release_tag v))) (\<lambda>_. done_with ()))"
  proof (cases known)
    case False
    then have "(Npm_view n v, False) \<in> set new" using t by (auto simp: sh_try_def x split: prod.splits)
    then show ?thesis using False by (auto simp: x unknown_before_def intro!: guarded_steps)
  qed (simp add: x guarded_end)
qed (auto simp: unknown_before_def intro!: guarded_try)

lemma unknown_before_mono: "unknown_before v pre e \<Longrightarrow> unknown_before v (new @ pre) e"
  by (auto simp: unknown_before_def)

lemma publish_packages_guarded: "guarded (unknown_before v) (publishPackages sh v ns)"
  by (induction ns) (auto intro!: guarded_end guarded_seq publish_package_guarded intro: guarded_any unknown_before_mono)

definition checked_before :: "string \<Rightarrow> shell_log \<Rightarrow> command \<times> bool \<Rightarrow> bool" where
  "checked_before v pre e \<longleftrightarrow>
     (\<forall>n t. fst e = Pnpm_publish n t \<longrightarrow>
        {(Npm_version v, True), (Check_types, True), (Pnpm_build, True), (Git_commit_release v, True)} \<subseteq> set pre)
     \<and> unknown_before v pre e"

lemma quiet_checked: "\<not> is_publish (fst e) \<Longrightarrow> checked_before v pre e"
  by (auto simp: checked_before_def unknown_before_def is_publish_def)

lemma run_Inr: "sh_run sh c lg = (Inr x, l) \<longleftrightarrow> sh lg c = (True, x) \<and> l = lg @ [(c, True)]"
  by (auto simp: sh_run_def split: prod.splits if_splits)

lemma try_Inr: "sh_try sh c lg = (Inr x, l) \<longleftrightarrow> x = sh lg c \<and> l = lg @ [(c, fst (sh lg c))]"
  by (auto simp: sh_try_def split: prod.splits)

lemma commit_adds:
  assumes c: "commitVersionChanges sh v lg = (Inr x, lg @ new)"
  shows "(Git_commit_release v, True) \<in> set new"
proof -
  obtain mid where "lg @ new = (lg @ mid) @ [(Git_commit_release v, True)] @ [(Git_push, fst (sh ((lg @ mid) @ [(Git_commit_release v, True)]) Git_push))]"
    using c unfolding commitVersionChanges_def seq_Inr run_Inr try_Inr done_with_def
    by (fastforce simp: seq_Inr run_Inr done_with_def split: if_splits)
  then show ?thesis by simp
qed

lemma checked_publish:
  assumes "(Npm_version v, True) \<in> set bumped" "(Check_types, True) \<in> set typed" "(Pnpm_build, True) \<in> set built"
    "(Git_commit_release v, True) \<in> set committed"
  shows "guarded (\<lambda>pre. checked_before v (cleaned @ bumped @ typed @ built @ committed @ listed @ pre)) (publishPackages sh v ns)"
proof (rule guarded_any [OF publish_packages_guarded])
  show "unknown_before v pre e \<Longrightarrow> checked_before v (cleaned @ bumped @ typed @ built @ committed @ listed @ pre) e" for pre e
    using assms by (auto simp: checked_before_def unknown_before_def)
qed

lemma release_version_guarded: "guarded (checked_before v) (release_version en v)"
proof -
  have still: "guarded (\<lambda>pre. checked_before v (f pre)) m" if "guarded quiet m" for f and m :: "'x step"
    by (rule guarded_any [OF that quiet_checked])
  have tell: "guarded quiet (createGitHubRelease (re_sh en) (re_releases en) v)"
    using quiet_steps(9) unfolding guarded_def createGitHubRelease_def by (fastforce split: prod.splits)
  show ?thesis
    unfolding release_version_def
    apply (intro guarded_seq)
    apply (rule still [of _ "\<lambda>pre. pre"], rule quiet_steps)
    apply (rule still, rule quiet_steps)+
    apply (rule checked_publish; simp add: bumpPackageVersions_def runTypeCheck_def runBuild_def commit_adds run_done_adds)
    apply (rule still, rule quiet_steps tell)+
    done
qed

text \<open>From an empty log: what is published was confirmed, typed, built and committed in the version of its tag, and
  was not known to the registry.\<close>

lemma published_is_checked:
  assumes r: "release_main en options args answer [] = (r, pre @ (Pnpm_publish n t, ok) # post)"
  shows "confirmRelease answer \<and>
    (\<exists>v. {(Npm_version v, True), (Check_types, True), (Pnpm_build, True), (Git_commit_release v, True), (Npm_view n v, False)} \<subseteq> set pre
       \<and> t = release_tag v)"
proof -
  let ?Q = "\<lambda>pre e. \<forall>n t. fst e = Pnpm_publish n t \<longrightarrow> confirmRelease answer \<and>
    (\<exists>v. {(Npm_version v, True), (Check_types, True), (Pnpm_build, True), (Git_commit_release v, True), (Npm_view n v, False)} \<subseteq> set pre
       \<and> t = release_tag v)"
  have "guarded ?Q (release_main en options args answer)"
    unfolding release_main_def
  proof (rule guarded_seq)
    show "guarded ?Q (getVersionFromArgs (re_sh en) (re_inc en) options args)"
      by (rule guarded_any [OF quiet_steps(1)]) (auto simp: is_publish_def)
    show "guarded (\<lambda>pre. ?Q (new @ pre)) (if \<not> confirmRelease answer then process_exit 0 else release_version en version)" for new version
    proof (cases "confirmRelease answer")
      case True
      have "guarded (\<lambda>pre. ?Q (new @ pre)) (release_version en version)"
        by (rule guarded_any [OF release_version_guarded]) (use True in \<open>fastforce simp: checked_before_def unknown_before_def\<close>)
      then show ?thesis using True by simp
    qed (simp add: guarded_end)
  qed
  then show ?thesis using r unfolding guarded_def by fastforce
qed

end
