(* ===== verification/ManagerDispatch.thy ===== *)
theory ManagerDispatch
  imports ManagerProps HandleProps
begin

text \<open>
  Which handler of \<open>createManagerRouter\<close> (\<open>manager/router.ts\<close>) a request gets to, and what the whole router answers.

  The routes are tried in the order they are registered, first as they are and then below \<open>/registry\<close>; those
  registered with \<open>use\<close> see every path below the base path.  Paths are taken as they were sent, with the segments of
  \<open>.\<close> and \<open>..\<close> already removed; a slash at the end makes another path.
\<close>

section \<open>Routes\<close>

datatype test_page = Test_call | Test_connect_websocket | Test_raw_websocket | Test_raw_http

datatype manager_target =
    Preflight
  | Root_page
  | At_route route string
  | Inspect_actor
  | Inspect_manager string
  | Test_page test_page
  | Driver_page
  | No_page

text \<open>What the router is made from: the base path, whether there is a configuration for CORS, the inspector, the flag
  for tests and the routes that \<open>modifyManagerRouter\<close> of a driver adds.\<close>

record router_config =
  rc_basePath :: string
  rc_cors :: bool
  rc_inspector :: bool
  rc_token :: "string option"
  rc_test :: bool
  rc_driverRoute :: "string \<Rightarrow> string \<Rightarrow> bool"

definition path_below :: "string \<Rightarrow> string \<Rightarrow> string option" where
  "path_below base path =
     (if base = [] \<or> path = base \<or> prefix (base @ ''/'') path then Some (drop (length base) path) else None)"

definition is_below :: "string \<Rightarrow> string \<Rightarrow> bool" where
  "is_below base path \<longleftrightarrow> path_below base path \<noteq> None"

text \<open>The parameter of \<open>/actors/actions/{action}\<close>: one segment.\<close>

definition action_param :: "string \<Rightarrow> string option" where
  "action_param p =
     (if prefix ''/actors/actions/'' p \<and> CHR ''/'' \<notin> set (drop 16 p) \<and> drop 16 p \<noteq> [] then Some (drop 16 p) else None)"

definition RAW_METHODS :: "string list" where
  "RAW_METHODS = [''GET'', ''POST'', ''PUT'', ''DELETE'', ''PATCH'', ''HEAD'', ''OPTIONS'']"

text \<open>A route for GET also answers HEAD.\<close>

definition gets :: "string \<Rightarrow> bool" where
  "gets method \<longleftrightarrow> method \<in> {''GET'', ''HEAD''}"

text \<open>The routes as they are registered, for the path \<open>p\<close> below the router and the whole \<open>path\<close>.\<close>

type_synonym rules = "(bool \<times> manager_target) list"

definition cors_rules :: "router_config \<Rightarrow> string \<Rightarrow> string \<Rightarrow> rules" where
  "cors_rules rc method path = [(rc_cors rc \<and> method = ''OPTIONS'' \<and> \<not> cors_skipped path, Preflight)]"

definition root_rules :: "string \<Rightarrow> string \<Rightarrow> string \<Rightarrow> rules" where
  "root_rules method path p = [(gets method \<and> p = (if p = path then ''/'' else []), Root_page)]"

definition resolve_rules :: "string \<Rightarrow> string \<Rightarrow> rules" where
  "resolve_rules method p = [(method = ''POST'' \<and> p = ''/actors/resolve'', At_route Resolve_route [])]"

definition websocket_rules :: "string \<Rightarrow> rules" where
  "websocket_rules path = [(suffix ''/actors/connect/websocket'' path, At_route ConnectWebSocket_route [])]"

definition sse_rules :: "string \<Rightarrow> string \<Rightarrow> rules" where
  "sse_rules method p = [(gets method \<and> p = ''/actors/connect/sse'', At_route ConnectSse_route [])]"

definition action_rules :: "string \<Rightarrow> string \<Rightarrow> rules" where
  "action_rules method p =
     [(method = ''POST'' \<and> action_param p \<noteq> None, At_route Action_route (the (action_param p)))]"

definition message_rules :: "string \<Rightarrow> string \<Rightarrow> rules" where
  "message_rules method p = [(method = ''POST'' \<and> p = ''/actors/message'', At_route Message_route [])]"

definition raw_http_rules :: "string \<Rightarrow> string \<Rightarrow> rules" where
  "raw_http_rules method p = [(method \<in> set RAW_METHODS \<and> is_below ''/actors/raw/http'' p, At_route RawHttp_route [])]"

definition raw_websocket_rules :: "string \<Rightarrow> rules" where
  "raw_websocket_rules path = [(sublist ''/raw/websocket/'' path, At_route RawWebSocket_route [])]"

definition inspector_rules :: "router_config \<Rightarrow> string \<Rightarrow> string \<Rightarrow> rules" where
  "inspector_rules rc method p =
     [(rc_inspector rc \<and> method = ''OPTIONS'' \<and> (is_below ''/actors/inspect'' p \<or> is_below ''/inspect'' p), Preflight),
      (rc_inspector rc \<and> is_below ''/actors/inspect'' p, Inspect_actor),
      (rc_inspector rc \<and> is_below ''/inspect'' p, Inspect_manager (drop 8 p))]"

definition test_rules :: "router_config \<Rightarrow> string \<Rightarrow> string \<Rightarrow> rules" where
  "test_rules rc method p =
     [(rc_test rc \<and> method = ''POST'' \<and> p = ''/.test/inline-driver/call'', Test_page Test_call),
      (rc_test rc \<and> gets method \<and> p = ''/.test/inline-driver/connect-websocket'', Test_page Test_connect_websocket),
      (rc_test rc \<and> gets method \<and> p = ''/.test/inline-driver/raw-websocket'', Test_page Test_raw_websocket),
      (rc_test rc \<and> is_below ''/.test/inline-driver/raw-http'' p, Test_page Test_raw_http)]"

definition router_rules :: "router_config \<Rightarrow> string \<Rightarrow> string \<Rightarrow> string \<Rightarrow> rules" where
  "router_rules rc method path p =
     cors_rules rc method path @ root_rules method path p @ resolve_rules method p @ websocket_rules path @ sse_rules method p
     @ action_rules method p @ message_rules method p @ raw_http_rules method p @ raw_websocket_rules path
     @ inspector_rules rc method p @ test_rules rc method p @ [(rc_driverRoute rc method p, Driver_page)]"

lemmas rules_defs = router_rules_def cors_rules_def root_rules_def resolve_rules_def websocket_rules_def sse_rules_def
  action_rules_def message_rules_def raw_http_rules_def raw_websocket_rules_def inspector_rules_def test_rules_def

text \<open>The router is mounted on \<open>/\<close> and on \<open>/registry\<close>.\<close>

definition mounted_rules :: "router_config \<Rightarrow> string \<Rightarrow> string \<Rightarrow> string \<Rightarrow> (bool \<times> manager_target) list" where
  "mounted_rules rc method path mount =
     (case path_below (mount @ (if rc_basePath rc = ''/'' then [] else rc_basePath rc)) path of
        None \<Rightarrow> []
      | Some p \<Rightarrow> router_rules rc method path p)"

definition manager_target :: "router_config \<Rightarrow> string \<Rightarrow> string \<Rightarrow> manager_target" where
  "manager_target rc method path =
     (case filter fst (mounted_rules rc method path [] @ mounted_rules rc method path ''/registry'') of
        [] \<Rightarrow> No_page
      | (b, t) # rest \<Rightarrow> t)"

section \<open>The whole router\<close>

text \<open>The headers without which a route's schema refuses the request.\<close>

definition required_headers :: "route \<Rightarrow> string list" where
  "required_headers r =
     (case r of
        Resolve_route \<Rightarrow> [HEADER_ACTOR_QUERY]
      | ConnectSse_route \<Rightarrow> [HEADER_ENCODING, HEADER_ACTOR_QUERY]
      | Action_route \<Rightarrow> [HEADER_ENCODING]
      | Message_route \<Rightarrow> [HEADER_ACTOR_ID, HEADER_CONN_ID, HEADER_ENCODING, HEADER_CONN_TOKEN]
      | _ \<Rightarrow> [])"

definition headers_given :: "route \<Rightarrow> http_request \<Rightarrow> bool" where
  "headers_given r c \<longleftrightarrow> (\<forall>h\<in>set (required_headers r). get_header (rq_headers c) h \<noteq> None)"

datatype manager_reply =
    Result router_result
  | Preflight_reply
  | Headers_refused
  | Inspector_page string
  | Test_reply test_page
  | Driver_reply

text \<open>The parameter of a path is decoded if it can be.\<close>

definition with_action :: "manager_env \<Rightarrow> string \<Rightarrow> http_request \<Rightarrow> http_request" where
  "with_action me action c = c\<lparr>rq_action := (case me_uri me action of Inr t \<Rightarrow> t | Inl _ \<Rightarrow> action)\<rparr>"

definition manager_fetch ::
    "manager_env \<Rightarrow> 's manager_driver \<Rightarrow> router_config \<Rightarrow> http_request \<Rightarrow> 's \<Rightarrow> manager_reply \<times> 's" where
  "manager_fetch me d rc c s =
     (case manager_target rc (rq_method c) (rq_path c) of
        Preflight \<Rightarrow> (Preflight_reply, s)
      | Root_page \<Rightarrow> (Result (TextReply (''This is an RivetKit registry.'' @ [CHR 0x0A, CHR 0x0A] @ ''Learn more at https://rivetkit.org'') 200), s)
      | At_route r action \<Rightarrow>
          if headers_given r c then apfst Result (handle_request me d r (with_action me action c) s) else (Headers_refused, s)
      | Inspect_actor \<Rightarrow>
          (case secureInspector (rc_inspector rc) (rc_token rc) c of
             Some refusal \<Rightarrow> (Result refusal, s)
           | None \<Rightarrow> apfst Result (universalActorProxy me d c s))
      | Inspect_manager page \<Rightarrow>
          (case secureInspector (rc_inspector rc) (rc_token rc) c of
             Some refusal \<Rightarrow> (Result refusal, s)
           | None \<Rightarrow> (Inspector_page page, s))
      | Test_page t \<Rightarrow> (Test_reply t, s)
      | Driver_page \<Rightarrow> (Driver_reply, s)
      | No_page \<Rightarrow> (Result (TextReply ''Not Found (RivetKit)'' 404), s))"

section \<open>Requests of clients\<close>

text \<open>Where an encoded name ends a path, the slashes are those before it.\<close>

lemma encoded_chars: "c \<in> set (encodeURIComponent s) \<Longrightarrow> uri_unreserved c \<or> c = CHR ''%''"
proof -
  have p: "c \<in> set (percent b) \<Longrightarrow> uri_unreserved c \<or> c = CHR ''%''" for b
    using hex_digit_unreserved by (auto simp: percent_def)
  have "c \<in> set (encode_uri_char x) \<Longrightarrow> uri_unreserved c \<or> c = CHR ''%''" for x
    using p by (auto simp: encode_uri_char_def Let_def simp del: of_char_of split: if_splits)
  then show "c \<in> set (encodeURIComponent s) \<Longrightarrow> ?thesis" by (auto simp: encodeURIComponent_def)
qed

lemma encoded_no_slash: "CHR ''/'' \<notin> set (encodeURIComponent s)"
proof
  assume "CHR ''/'' \<in> set (encodeURIComponent s)"
  from encoded_chars [OF this] show False by (simp add: uri_unreserved_def)
qed

lemma encoded_nonempty: "s \<noteq> [] \<Longrightarrow> encodeURIComponent s \<noteq> []"
  by (cases s) (simp_all add: encodeURIComponent_def encode_uri_char_def percent_def Let_def del: of_char_of)

lemma slash_before:
  assumes "x @ CHR ''/'' # t = a @ CHR ''/'' # e" and "CHR ''/'' \<notin> set e"
  shows "prefix x a"
proof -
  consider us where "x @ us = a" | us where "x = a @ us" "us @ CHR ''/'' # t = CHR ''/'' # e"
    using assms(1) by (auto simp: append_eq_append_conv2)
  then show ?thesis
  proof cases
    case (2 us)
    then show ?thesis using assms(2) by (cases us) auto
  qed auto
qed

lemma last_slash:
  assumes "x @ CHR ''/'' # t = a @ CHR ''/'' # e" and "CHR ''/'' \<notin> set t" and "CHR ''/'' \<notin> set e"
  shows "x = a"
  using slash_before [OF assms(1,3)] slash_before [OF assms(1) [symmetric] assms(2)] by (rule prefix_order.antisym)

lemma action_path_quiet:
  assumes "CHR ''/'' \<notin> set e"
  shows "\<not> suffix ''/actors/connect/websocket'' (''/registry/actors/actions/'' @ e)"
    and "\<not> sublist ''/raw/websocket/'' (''/registry/actors/actions/'' @ e)"
proof -
  show "\<not> suffix ''/actors/connect/websocket'' (''/registry/actors/actions/'' @ e)"
  proof
    assume "suffix ''/actors/connect/websocket'' (''/registry/actors/actions/'' @ e)"
    then obtain z where "(z @ ''/actors/connect'') @ CHR ''/'' # ''websocket'' = ''/registry/actors/actions'' @ CHR ''/'' # e"
      by (auto simp: suffix_def)
    from last_slash [OF this _ assms] have "z @ ''/actors/connect'' = ''/registry/actors/actions''" by simp
    then have "suffix ''/actors/connect'' ''/registry/actors/actions''" unfolding suffix_def by metis
    then show False by (simp add: suffix_Cons)
  qed
  show "\<not> sublist ''/raw/websocket/'' (''/registry/actors/actions/'' @ e)"
  proof
    assume "sublist ''/raw/websocket/'' (''/registry/actors/actions/'' @ e)"
    then obtain z t where "(z @ ''/raw/websocket'') @ CHR ''/'' # t = ''/registry/actors/actions'' @ CHR ''/'' # e"
      by (auto simp: sublist_def)
    from slash_before [OF this assms] have "sublist ''/raw/websocket'' ''/registry/actors/actions''"
      unfolding prefix_def sublist_def by (metis append.assoc)
    then show False by (simp add: sublist_Cons_right)
  qed
qed

text \<open>A path below \<open>/registry\<close> that no middleware takes is looked up below it.\<close>

definition plain_router :: "router_config \<Rightarrow> bool" where
  "plain_router rc \<longleftrightarrow> rc_basePath rc = ''/'' \<and> (\<forall>m p. \<not> rc_driverRoute rc m p)"

lemma registry_path:
  assumes "plain_router rc" and "method \<noteq> ''OPTIONS''" and "path = ''/registry/'' @ q"
    and "\<not> suffix ''/actors/connect/websocket'' path" and "\<not> sublist ''/raw/websocket/'' path"
  shows "manager_target rc method path =
    (case filter fst (router_rules rc method path (CHR ''/'' # q)) of [] \<Rightarrow> No_page | (b, t) # rest \<Rightarrow> t)"
proof -
  have "filter fst (mounted_rules rc method path []) = []"
    using assms by (simp add: mounted_rules_def plain_router_def path_below_def rules_defs is_below_def action_param_def)
  moreover have "mounted_rules rc method path ''/registry'' = router_rules rc method path (CHR ''/'' # q)"
    using assms(1,3) by (simp add: mounted_rules_def plain_router_def path_below_def)
  ultimately show ?thesis by (simp add: manager_target_def)
qed

lemma action_target:
  assumes "plain_router rc" and "name \<noteq> []"
  shows "manager_target rc ''POST'' (''/registry/actors/actions/'' @ encodeURIComponent name) = At_route Action_route (encodeURIComponent name)"
proof -
  note q = action_path_quiet [OF encoded_no_slash]
  have "action_param (''/actors/actions/'' @ encodeURIComponent name) = Some (encodeURIComponent name)"
    using encoded_no_slash encoded_nonempty [OF assms(2)] by (simp add: action_param_def)
  then show ?thesis
    using registry_path [OF assms(1), of "''POST''" "''/registry/actors/actions/'' @ encodeURIComponent name" "''actors/actions/'' @ encodeURIComponent name"]
      q [of name] by (simp add: rules_defs gets_def)
qed

lemma resolve_target: "plain_router rc \<Longrightarrow> manager_target rc ''POST'' ''/registry/actors/resolve'' = At_route Resolve_route []"
  using registry_path [of rc "''POST''" "''/registry/actors/resolve''" "''actors/resolve''"]
  by (simp add: rules_defs gets_def suffix_Cons sublist_Cons_right)

lemma sse_target: "plain_router rc \<Longrightarrow> manager_target rc ''GET'' ''/registry/actors/connect/sse'' = At_route ConnectSse_route []"
  using registry_path [of rc "''GET''" "''/registry/actors/connect/sse''" "''actors/connect/sse''"]
  by (simp add: rules_defs gets_def suffix_Cons sublist_Cons_right)

lemma message_target: "plain_router rc \<Longrightarrow> manager_target rc ''POST'' ''/registry/actors/message'' = At_route Message_route []"
  using registry_path [of rc "''POST''" "''/registry/actors/message''" "''actors/message''"]
  by (simp add: rules_defs gets_def suffix_Cons sublist_Cons_right action_param_def)

text \<open>The headers a route needs are sent with every request.\<close>

lemma header_sent: "m \<in> fst ` set hs \<Longrightarrow> get_header (header_list hs) m \<noteq> None"
proof (induction hs rule: rev_induct)
  case (snoc x hs)
  obtain n v where x: "x = (n, v)" by fastforce
  show ?case
  proof (cases "lower n = lower m")
    case True
    then show ?thesis by (simp add: header_list_def x set_header_def get_header_def)
  next
    case False
    then have "m \<in> fst ` set hs" using snoc.prems x by auto
    then show ?thesis using snoc.IH False by (simp add: header_list_def x)
  qed
qed simp

lemma target_headers_sent:
  assumes "target_headers he q enc params = Inr hs"
  shows "{HEADER_ENCODING, HEADER_ACTOR_QUERY} \<subseteq> fst ` set hs"
  using assms by (auto simp: target_headers_def andThen_Inr)

lemma sent_post:
  assumes "sendHttpRequest he url ''POST'' hs body enc h = Inr f"
  shows "fr_url f = url \<and> fr_method f = ''POST'' \<and> (\<forall>m\<in>fst ` set hs. get_header (fr_headers f) m \<noteq> None)"
proof -
  have "get_header (header_list (hs @ ys)) m \<noteq> None" if "m \<in> fst ` set hs" for m ys
    using that by (intro header_sent) auto
  moreover obtain ys where "fr_url f = url" "fr_method f = ''POST''" "fr_headers f = header_list (hs @ ys)"
    using assms by (auto simp: sendHttpRequest_def andThen_Inr split: if_splits)
  ultimately show ?thesis by simp
qed

definition client_request :: "http_env \<Rightarrow> manager_env \<Rightarrow> string \<Rightarrow> route \<Rightarrow> fetch_request \<Rightarrow> bool" where
  "client_request he me name r f \<longleftrightarrow>
     (\<exists>q enc params args. driver_action he q enc params name args = Inr f \<and> r = Action_route
        \<and> name \<notin> {[], ''.'', ''..''} \<and> me_uri me (encodeURIComponent name) = Inr name)
   \<or> (\<exists>q enc params. driver_resolveActorId he q enc params = Inr f \<and> r = Resolve_route)
   \<or> (\<exists>q enc params init. driver_connectSse he q enc params init = Inr f \<and> r = ConnectSse_route)
   \<or> (\<exists>i enc conn token message. driver_sendHttpMessage he i enc conn token message = Inr f \<and> r = Message_route)"

lemma client_request_sent:
  assumes "client_request he me name r f" and "plain_router rc"
  obtains path where "fr_url f = he_endpoint he @ path"
    "manager_target rc (fr_method f) path = At_route r (if r = Action_route then encodeURIComponent name else [])"
    "\<forall>h\<in>set (required_headers r). get_header (fr_headers f) h \<noteq> None"
    "r = Action_route \<Longrightarrow> me_uri me (encodeURIComponent name) = Inr name"
  using assms(1) unfolding client_request_def
proof (elim disjE exE conjE)
  fix q enc params args
  assume f: "driver_action he q enc params name args = Inr f" "r = Action_route" "name \<notin> {[], ''.'', ''..''}" "me_uri me (encodeURIComponent name) = Inr name"
  then obtain hs body where "target_headers he q enc params = Inr hs"
      "sendHttpRequest he (he_endpoint he @ ''/registry/actors/actions/'' @ encodeURIComponent name) ''POST'' hs body enc (he_actionRequest he) = Inr f"
    by (auto simp: driver_action_def andThen_Inr)
  from sent_post [OF this(2)] target_headers_sent [OF this(1)] show thesis
    using f action_target [OF assms(2)] by (intro that) (auto simp: required_headers_def)
next
  fix q enc params
  assume f: "driver_resolveActorId he q enc params = Inr f" "r = Resolve_route"
  then obtain hs where "target_headers he q enc params = Inr hs"
      "sendHttpRequest he (he_endpoint he @ ''/registry/actors/resolve'') ''POST'' hs JNull enc (he_resolveRequest he) = Inr f"
    by (auto simp: driver_resolveActorId_def andThen_Inr split: sum.splits)
  from sent_post [OF this(2)] target_headers_sent [OF this(1)] show thesis
    using f resolve_target [OF assms(2)] by (intro that) (auto simp: required_headers_def)
next
  fix q enc params init
  assume f: "driver_connectSse he q enc params init = Inr f" "r = ConnectSse_route"
  then obtain hs where hs: "target_headers he q enc params = Inr hs"
      "fr_url f = he_endpoint he @ ''/registry/actors/connect/sse''" "fr_method f = ''GET''"
      "fr_headers f = header_list (init @ [(''User-Agent'', he_userAgent he)] @ hs)"
    by (auto simp: driver_connectSse_def andThen_Inr)
  have "get_header (fr_headers f) m \<noteq> None" if "m \<in> {HEADER_ENCODING, HEADER_ACTOR_QUERY}" for m
    unfolding hs(4) using target_headers_sent [OF hs(1)] that by (intro header_sent) auto
  then show thesis using f hs(2,3) sse_target [OF assms(2)] by (intro that) (auto simp: required_headers_def)
next
  fix i enc conn token message
  assume f: "driver_sendHttpMessage he i enc conn token message = Inr f" "r = Message_route"
  then have hs: "fr_url f = he_endpoint he @ ''/registry/actors/message''" "fr_method f = ''POST''"
      "fr_headers f = header_list [(''User-Agent'', he_userAgent he), (HEADER_ENCODING, encoding_name enc),
         (HEADER_ACTOR_ID, i), (HEADER_CONN_ID, conn), (HEADER_CONN_TOKEN, token)]"
    by (auto simp: driver_sendHttpMessage_def andThen_Inr)
  have "get_header (fr_headers f) m \<noteq> None" if "m \<in> set (required_headers Message_route)" for m
    unfolding hs(3) using that by (intro header_sent) (auto simp: required_headers_def)
  then show thesis using f hs(1,2) message_target [OF assms(2)] by (intro that) auto
qed



definition plain_config :: router_config where
  "plain_config = \<lparr>rc_basePath = ''/'', rc_cors = True, rc_inspector = True, rc_token = Some ''t'', rc_test = False,
     rc_driverRoute = (\<lambda>_ _. False)\<rparr>"

lemma plain_config: "plain_router plain_config" "\<not> rc_test plain_config" "\<not> rc_driverRoute plain_config m p"
  by (simp_all add: plain_router_def plain_config_def)


section \<open>What needs no permission\<close>

definition reply_reaches :: "manager_reply \<Rightarrow> bool" where
  "reply_reaches reply = (case reply of Result res \<Rightarrow> reaches_actor res | Preflight_reply \<Rightarrow> False | Headers_refused \<Rightarrow> False | _ \<Rightarrow> True)"

lemma secured: "secureInspector en tok c = Some res \<Longrightarrow> \<not> reaches_actor res"
  by (auto simp: secureInspector_def split: if_splits option.splits list.splits)

lemma mounted_below: "x \<in> set (mounted_rules rc method path m) \<Longrightarrow> \<exists>p. x \<in> set (router_rules rc method path p)"
  by (cases "path_below (m @ (if rc_basePath rc = ''/'' then [] else rc_basePath rc)) path") (simp_all add: mounted_rules_def, blast)

lemma target_rule: "manager_target rc method path = No_page \<or> (\<exists>p. (True, manager_target rc method path) \<in> set (router_rules rc method path p))"
proof (cases "filter fst (mounted_rules rc method path [] @ mounted_rules rc method path ''/registry'')")
  case (Cons x rest)
  then have x: "x \<in> set (filter fst (mounted_rules rc method path [] @ mounted_rules rc method path ''/registry''))"
    using list.set_intros(1) by metis
  then have "x \<in> set (mounted_rules rc method path []) \<or> x \<in> set (mounted_rules rc method path ''/registry'')" by auto
  then obtain p where "x \<in> set (router_rules rc method path p)" using mounted_below by blast
  moreover have "x = (True, manager_target rc method path)"
  proof -
    have "fst x" using x by (simp only: set_filter mem_Collect_eq)
    then show ?thesis using Cons by (cases x) (simp add: manager_target_def)
  qed
  ultimately show ?thesis by blast
qed (simp add: manager_target_def)

lemma guarded_pages:
  "manager_target rc verb path = Test_page t \<Longrightarrow> rc_test rc"
  "manager_target rc verb path = Driver_page \<Longrightarrow> \<exists>m p. rc_driverRoute rc m p"
  using target_rule [of rc verb path] by (auto simp: rules_defs)




section \<open>Paths that are taken for others\<close>

text \<open>Below \<open>/registry\<close> a raw HTTP request whose path has \<open>/raw/websocket/\<close> in it gets to the route for WebSockets; at
  the root it gets to its own.  One that ends like the route for connections gets there in both.\<close>

lemma raw_http_taken:
  assumes "plain_router rc" and "method \<noteq> ''OPTIONS''" and "path = ''/registry/actors/raw/http/'' @ q"
  shows "sublist ''/raw/websocket/'' path \<Longrightarrow> \<not> suffix ''/actors/connect/websocket'' path \<Longrightarrow>
      manager_target rc method path = At_route RawWebSocket_route []"
    and "suffix ''/actors/connect/websocket'' path \<Longrightarrow> manager_target rc method path = At_route ConnectWebSocket_route []"
  using assms by (simp_all add: manager_target_def mounted_rules_def plain_router_def path_below_def rules_defs is_below_def action_param_def)

lemma raw_http_at_root:
  assumes "plain_router rc" and "method \<in> set RAW_METHODS" and "method \<noteq> ''OPTIONS''" and "path = ''/actors/raw/http/'' @ q"
    and "\<not> suffix ''/actors/connect/websocket'' path"
  shows "manager_target rc method path = At_route RawHttp_route []"
  using assms by (simp add: manager_target_def mounted_rules_def plain_router_def path_below_def rules_defs is_below_def action_param_def)

text \<open>With any configuration for CORS, and the inspector's has a default, no request for OPTIONS gets to an actor; and an
  actor's path that ends in \<open>/inspect\<close> gets no CORS headers.\<close>

lemma options_answered:
  "plain_router rc \<Longrightarrow> rc_cors rc \<Longrightarrow> \<not> cors_skipped path \<Longrightarrow> manager_target rc ''OPTIONS'' path = Preflight"
  by (simp add: manager_target_def mounted_rules_def plain_router_def path_below_def rules_defs)

lemma inspect_skips_cors: "cors_skipped (''/registry/actors/raw/http/'' @ q @ ''/inspect'')"
  unfolding cors_skipped_def by (metis append.assoc suffixI)

text \<open>A slash at the end is no page.\<close>

lemma trailing_slash_unknown: "plain_router rc \<Longrightarrow> manager_target rc ''POST'' ''/registry/actors/resolve/'' = No_page"
  using registry_path [of rc "''POST''" "''/registry/actors/resolve/''" "''actors/resolve/''"]
  by (simp add: rules_defs gets_def suffix_Cons sublist_Cons_right action_param_def is_below_def path_below_def plain_router_def)


end
