(* ===== verification/ActorDispatch.thy ===== *)
theory ActorDispatch
  imports ManagerDispatch
begin

text \<open>
  Which route of \<open>createActorRouter\<close> (\<open>actor/router.ts\<close>) a request gets to, and that the requests the manager makes get
  to the route they are made for.  The router takes a path with a slash at its end for the same path.
\<close>

section \<open>Routes\<close>

datatype actor_target =
    Actor_root
  | Actor_health
  | Actor_sockets
  | Actor_sse
  | Actor_action string
  | Actor_message
  | Actor_raw_http
  | Actor_inspect string
  | Actor_no_page

definition no_last_slash :: "string \<Rightarrow> string" where
  "no_last_slash path = (if 1 < length path \<and> last path = CHR ''/'' then butlast path else path)"

definition actor_action_param :: "string \<Rightarrow> string option" where
  "actor_action_param p =
     (if prefix ''/action/'' p \<and> CHR ''/'' \<notin> set (drop 8 p) \<and> drop 8 p \<noteq> [] then Some (drop 8 p) else None)"

definition actor_rules :: "bool \<Rightarrow> string \<Rightarrow> string \<Rightarrow> (bool \<times> actor_target) list" where
  "actor_rules inspector method p =
     [(gets method \<and> p = ''/'', Actor_root),
      (gets method \<and> p = ''/health'', Actor_health),
      (gets method \<and> p = ''/connect/websocket'', Actor_sockets),
      (gets method \<and> p = ''/connect/sse'', Actor_sse),
      (method = ''POST'' \<and> actor_action_param p \<noteq> None, Actor_action (the (actor_action_param p))),
      (method = ''POST'' \<and> p = ''/connections/message'', Actor_message),
      (is_below ''/raw/http'' p, Actor_raw_http),
      (gets method \<and> is_below ''/raw/websocket'' p, Actor_sockets),
      (inspector \<and> is_below ''/inspect'' p, Actor_inspect (drop 8 p))]"

definition actor_target :: "bool \<Rightarrow> string \<Rightarrow> string \<Rightarrow> actor_target" where
  "actor_target inspector method path =
     (case filter fst (actor_rules inspector method (no_last_slash path)) of [] \<Rightarrow> Actor_no_page | (b, t) # rest \<Rightarrow> t)"

text \<open>The path of a request to an actor: the name of an action is its last segment, encoded.\<close>

definition wire_path :: "http_request \<Rightarrow> string" where
  "wire_path rq = (if rq_path rq = ''/action/'' then rq_path rq @ encodeURIComponent (rq_action rq) else rq_path rq)"

section \<open>From the manager to the actor\<close>

definition route_at_actor :: "route \<Rightarrow> string \<Rightarrow> actor_target" where
  "route_at_actor r action =
     (case r of
        Action_route \<Rightarrow> Actor_action (encodeURIComponent action)
      | ConnectSse_route \<Rightarrow> Actor_sse
      | Message_route \<Rightarrow> Actor_message
      | _ \<Rightarrow> Actor_raw_http)"

lemma actor_action_target: "name \<noteq> [] \<Longrightarrow> actor_target en ''POST'' (''/action/'' @ encodeURIComponent name) = Actor_action (encodeURIComponent name)"
proof -
  assume n: "name \<noteq> []"
  let ?e = "encodeURIComponent name"
  have e: "?e \<noteq> []" "CHR ''/'' \<notin> set ?e" using encoded_nonempty [OF n] encoded_no_slash by auto
  then have "last ?e \<noteq> CHR ''/''" using last_in_set by metis
  then have "no_last_slash (''/action/'' @ ?e) = ''/action/'' @ ?e" using e(1) by (simp add: no_last_slash_def)
  moreover have "actor_action_param (''/action/'' @ ?e) = Some ?e" using e by (simp add: actor_action_param_def)
  ultimately show ?thesis by (simp add: actor_target_def actor_rules_def gets_def)
qed

lemma raw_http_target: "actor_target en method (''/raw/http/'' @ q) = Actor_raw_http"
proof -
  obtain q' where "no_last_slash (''/raw/http/'' @ q) = ''/raw/http'' @ q'" "q' = [] \<or> hd q' = CHR ''/''"
  proof (cases "q = []")
    case True
    then show ?thesis by (intro that [of "[]"]) (simp_all add: no_last_slash_def)
  next
    case False
    then show ?thesis by (intro that [of "CHR ''/'' # (if last q = CHR ''/'' then butlast q else q)"]) (simp_all add: no_last_slash_def)
  qed
  then show ?thesis
    by (cases q') (simp_all add: actor_target_def actor_rules_def gets_def actor_action_param_def is_below_def path_below_def)
qed



end
