(* ===== verification/Spec2Isabelle.thy ===== *)
theory Spec2Isabelle
  imports ActorErrors ActorKeys AsyncUtils CborCheck Wire Persisted Conn ActorConns ActorSave
    ActorSchedule ActorSleep ActorActions ClientInv ClientProps FsProps FsListing ManagerProps EndpointProps
    SocketAdapters HandleProps EngineProps CloudflareProps SocketRoutes TestInline Inspector Logfmt FrameworkStore
    Schemas Startup InspectorSchemas FakeEventSource Platform Release ActorDispatch
begin

text \<open>
  A verification library for RivetKit, a TypeScript library for stateful actors.

  \<^bold>\<open>The program.\<close>  An actor is user code with a state that lives in one \<open>ActorInstance\<close>
  (\<open>rivetkit/src/actor/instance.ts\<close>), is written to a store by an actor driver and is reached through
  connections and HTTP requests.  A manager (\<open>manager/router.ts\<close>) authenticates requests, finds or
  creates the actor a query names with the help of a manager driver, and passes the request on; the
  actor's router (\<open>actor/router.ts\<close>, \<open>actor/router-endpoints.ts\<close>) hands it to the instance.  Drivers keep the
  directory of actors and their data: the file-system and memory driver (\<open>drivers/file-system\<close>), the
  engine driver (\<open>drivers/engine\<close>) and the Cloudflare driver (package \<open>cloudflare-workers\<close>).  Clients
  (\<open>client/\<close>) make handles and connections and speak to the manager; the inline client
  (\<open>inline-client-driver/mod.ts\<close>) does so inside the server.  The inspector looks into managers and actors.
  The framework packages keep connections for user interfaces.

  \<^bold>\<open>How it is modelled.\<close>  Data are records and datatypes with the names of the source; a JavaScript value
  is a \<open>jsval\<close>, a \<open>Map\<close> an association list in insertion order, a thrown value the left of a sum.  Stateful
  code passes its state along.  JavaScript runs one turn at a time, so an asynchronous handler is cut at
  every \<open>await\<close> beside which other code can run, and a component is a state with one step for everything
  that can happen to it between two turns: a call, a timer, a settled promise, an answer from outside.
  Theorems about all runs quantify over all sequences of such events.  Objects the code keeps in several
  places, or changes in place, live in a heap and are named by their address.

  \<^bold>\<open>Theories and sources.\<close>

  \<^item> \<open>Prelude\<close>: \<open>jsval\<close>, truthiness, maps and arrays of the language; \<open>andThen\<close> for code that may throw; the
    locales \<open>machine\<close> (an invariant every step keeps holds after every run) and \<open>readback\<close> (a serialization
    that can be read back identifies what it serializes).
  \<^item> \<open>ActorErrors\<close>: \<open>actor/errors.ts\<close> and \<open>deconstructError\<close> (\<open>common/utils.ts\<close>).  \<open>CborCheck\<close>:
    \<open>isCborSerializable\<close>, proved to find exactly the values with a part that cannot be stored.
    \<open>ActorKeys\<close>: \<open>drivers/engine/keys.ts\<close> and \<open>cloudflare-workers/src/util.ts\<close>.  \<open>AsyncUtils\<close>: the queue, the
    long timeout, \<open>deadline\<close>, \<open>throttle\<close> and \<open>Lock\<close> of \<open>utils.ts\<close> and \<open>actor/utils.ts\<close>.
  \<^item> \<open>Wire\<close>: \<open>common/versioned-data.ts\<close>, \<open>serde.ts\<close>, \<open>actor/protocol/serde.ts\<close>; \<open>Persisted\<close>:
    \<open>actor/persisted.ts\<close> and the conversions of \<open>instance.ts\<close>; \<open>Conn\<close>: \<open>actor/connection.ts\<close>,
    \<open>actor/generic-conn-driver.ts\<close>, \<open>actor/protocol/old.ts\<close>.
  \<^item> \<open>ActorState\<close>, \<open>ActorRun\<close>, \<open>ActorHandlers\<close>: \<open>ActorInstance\<close>.  The record \<open>actor\<close> holds its private fields;
    user code is data (what it does through its context and how it ends); \<open>actor_step\<close> is every event of a
    started instance.  \<open>ActorInv\<close> has the locales \<open>user_code_invariant\<close> and \<open>actor_invariant\<close>, which prove
    once that what the primitive changes keep, user code, handlers and runs keep; \<open>ActorConns\<close>,
    \<open>ActorSave\<close>, \<open>ActorSchedule\<close>, \<open>ActorSleep\<close> and \<open>ActorActions\<close> interpret them: the three places that know a
    connection agree; a clean state is on disk; the schedule is ordered and covered by an alarm; the
    sleep timer is armed only when nothing is in flight; an action's change is on its way to the disk.
  \<^item> \<open>ManagerRouter\<close>: \<open>manager/protocol/query.ts\<close>, \<open>manager/auth.ts\<close>, \<open>manager/router.ts\<close>,
    \<open>common/router.ts\<close>, the token check of \<open>inspector/utils.ts\<close>.  \<open>ManagerProps\<close>: queries are typed, refused
    requests reach nothing; its locale \<open>actor_directory\<close> states what the routes need of a manager driver and
    is interpreted on the file-system driver there and on the Cloudflare driver in \<open>CloudflareProps\<close>.
  \<^item> \<open>ManagerDispatch\<close> and \<open>ActorDispatch\<close>: which route of the manager's and of the actor's router a path gets to,
    and the manager's router as a whole: what no one permitted gets nowhere in it, and what a client or the
    manager sends gets to the route it is meant for.
  \<^item> \<open>ActorEndpoints\<close>: \<open>actor/router.ts\<close> and \<open>actor/router-endpoints.ts\<close> on the instance.  \<open>EndpointProps\<close>:
    tokens of messages, actions over HTTP, messages before a connection is there.  \<open>SocketAdapters\<close>:
    \<open>common/inline-websocket-adapter2.ts\<close> and \<open>manager/hono-websocket-adapter.ts\<close>.
  \<^item> \<open>FsState\<close>: \<open>drivers/file-system/global-state.ts\<close>, \<open>actor.ts\<close>, \<open>manager.ts\<close>, \<open>utils.ts\<close>, with every read and
    write answered by an event.  \<open>FsDirectory\<close> proves that it refines an abstract directory of actors
    (\<open>dir_step\<close>); \<open>FsAlarms\<close> is about timers, \<open>FsListing\<close> about pages, \<open>FsProps\<close> about what fails.
  \<^item> \<open>ClientConn\<close>: \<open>client/actor-conn.ts\<close>; \<open>ClientInv\<close> (locale \<open>client_invariant\<close>): promises are settled once and
    requests conserved; \<open>ClientProps\<close>: opening, responses, errors.  \<open>ClientHandles\<close>: \<open>client/client.ts\<close>,
    \<open>actor-handle.ts\<close>, \<open>raw-utils.ts\<close>, \<open>http-client-driver.ts\<close>, \<open>client/utils.ts\<close>.  \<open>InlineClient\<close>:
    \<open>inline-client-driver/mod.ts\<close>.  \<open>HandleProps\<close> composes client and manager: what a handle sends is what
    the manager reads, errors come back as they were, and the inline client reaches the same actors.
    \<open>TestInline\<close>: \<open>driver-test-suite/test-inline-client-driver.ts\<close> and the \<open>.test\<close> routes it calls, proved to answer
    what the inline client answers.
  \<^item> \<open>EngineManager\<close>: \<open>api-utils.ts\<close>, \<open>api-endpoints.ts\<close>, \<open>manager-driver.ts\<close> and \<open>ws-proxy.ts\<close> of \<open>drivers/engine\<close>;
    \<open>EngineRunner\<close>: its \<open>actor-driver.ts\<close>; \<open>EngineProps\<close>: errors, targets of requests, order of messages.
  \<^item> \<open>CloudflareObject\<close>: \<open>actor-handler-do.ts\<close> and \<open>actor-driver.ts\<close> of \<open>cloudflare-workers\<close>; \<open>CloudflareInv\<close>: which
    instance serves; \<open>CloudflareManager\<close>: \<open>manager-driver.ts\<close>; \<open>CloudflareProps\<close>: the directory, headers of
    WebSockets, failed starts.  \<open>SocketRoutes\<close>: the WebSocket routes of \<open>actor/router.ts\<close>, of the file-system
    manager and of the engine's \<open>#runnerWebSocket\<close>, proved to lead to the same handlers.
  \<^item> \<open>Inspector\<close>: \<open>inspector/config.ts\<close>, \<open>manager.ts\<close>, \<open>actor.ts\<close> and the accessors of the drivers and the
    instance; \<open>InspectorSchemas\<close>: \<open>inspector/protocol/common.ts\<close>, the validation of bodies and the listing of tables.  \<open>Logfmt\<close>: \<open>common/logfmt.ts\<close>, \<open>log.ts\<close>, \<open>log-levels.ts\<close>.  \<open>FrameworkStore\<close>:
    \<open>framework-base/lib/mod.ts\<close>, and the options and event hooks of \<open>react/src/mod.ts\<close>.
  \<^item> \<open>Schemas\<close>: the schemas configurations are parsed with (\<open>actor/config.ts\<close>, \<open>registry/config.ts\<close>,
    \<open>registry/run-config.ts\<close>, \<open>inspector/config.ts\<close>, \<open>drivers/engine/config.ts\<close>), built from the combinators of
    the library; its locale \<open>accepting\<close> (what is accepted is accepted again unchanged) is interpreted on
    \<open>ActorConfigSchema\<close>.  \<open>Startup\<close>: \<open>registry/mod.ts\<close>, \<open>registry/serve.ts\<close>, \<open>drivers/default.ts\<close>, and the set-up of the
    Cloudflare package.
  \<^item> \<open>Platform\<close>: buffers and the environment (\<open>utils.ts\<close>), paths of storage (\<open>drivers/file-system/utils.ts\<close>), loaded
    modules, database clients, the server for tests.  \<open>FakeEventSource\<close>: \<open>common/fake-event-source.ts\<close>.
    \<open>Release\<close>: \<open>scripts/release.ts\<close>, proved to publish only what was confirmed, typed, built and committed.

  \<^bold>\<open>What is assumed.\<close>  Third-party and generated code is a parameter: the record \<open>codec\<close> (CBOR, the text of
  JSON, UTF-8), version handlers with the generated BARE coders, SHA-256, ids of durable objects, the
  engine's API, JSON patches, the database.  Where a theorem needs more than that they are functions, it
  says so in a hypothesis such as \<open>cbor_faithful\<close>, \<open>bare_faithful\<close> or \<open>coders_ok\<close> (what was encoded is read
  back), and its witness instantiates the parameter.  Characters are code units up to 255.  Times are
  rationals.  A listener of a socket adapter is recorded when it is called, and what it does is a later
  operation.  Where a component is used through the interface of a driver (\<open>fs_manager\<close>, \<open>cf_manager\<close>), a
  call has the driver for itself and its reads and writes succeed; interleavings and failures are the
  subject of the driver's own step function.  These drivers refuse names and keys that are no texts, which
  only raw routes let through.  Methods of clients are cut at \<open>fetch\<close>: the request made, then what is done
  with the answer.

  \<^bold>\<open>Loops, bounds and fuel.\<close>  Loops of the code are structural recursions or functions with a measure.  Only
  \<open>all_pages\<close> of \<open>FsListing\<close>, a client asking for page after page, has fuel, and \<open>pages_cover\<close> needs one more
  than there are actors, because every page takes at least one.  The chain of \<open>setLongTimeout\<close> ends by a
  measure, with every delay below \<open>2 ^ 31\<close>.  A key part has at most 128 units, the log of the inspector 100
  events.  Version numbers and lengths in headers are words of their width.  The timers of deadlines and of
  sleep are set without it and overflow (theory \<open>Schemas\<close>).

  \<^bold>\<open>Not modelled.\<close>  Types and interfaces without code, and the contexts that only hand on to the instance; the
  route declarations for OpenAPI; the glue to Hono, to \<open>EventSource\<close> and to the runner of the engine; \<open>execute\<close> of the
  database packages, which calls third-party code; mounting in the framework packages; the functions of the
  release script that \<open>main\<close> does not call; the test suites and the examples.
\<close>

end
